(* ===== verification/Js_Prelude.thy ===== *)
theory Js_Prelude
  imports Main "HOL-Library.Word" "HOL-Library.Multiset" "HOL-Library.Sublist"
begin

text \<open>
  What every other theory of the development shares: JavaScript strings as lists of UTF-16
  code units, results of operations that may throw, the sequencing of such operations over
  a list, regular-expression character classes of the source as Boolean functions, and the
  stable sort of \<open>Array.prototype.sort\<close> with the interface a comparator has to meet.
\<close>

section \<open>Strings of code units\<close>

type_synonym code_unit = "16 word"
type_synonym js_string = "code_unit list"

text \<open>\<open>js ''abc''\<close> is the literal \<open>'abc'\<close>; \<open>unat\<close> of a unit is its \<open>charCodeAt\<close>.\<close>

definition js :: "string \<Rightarrow> js_string" where
  "js s = map of_char s"

lemma js_simps [simp]:
  "js [] = []"
  "js (c # cs) = of_char c # js cs"
  by (simp_all add: js_def)

lemma js_append: "js (s @ t) = js s @ js t"
  by (simp add: js_def)

lemma length_js [simp]: "length (js s) = length s"
  by (simp add: js_def)

lemma unat_inject: "unat (a :: 'a::len word) = unat b \<longleftrightarrow> a = b"
  by (simp add: word_unat_eq_iff)

lemma unat_code_unit: "unat (c :: code_unit) < 65536"
  using unsigned_less [of c, where 'a = nat] by simp

section \<open>Operations that throw\<close>

text \<open>
  An operation that may throw returns \<open>Inl e\<close> for a thrown error and \<open>Inr v\<close> for a value.
\<close>

type_synonym ('e, 'a) result = "'e + 'a"

named_theorems result_simps "inversion of sequenced operations"

definition bindR :: "('e, 'a) result \<Rightarrow> ('a \<Rightarrow> ('e, 'b) result) \<Rightarrow> ('e, 'b) result" where
  "bindR m f = (case m of Inl e \<Rightarrow> Inl e | Inr x \<Rightarrow> f x)"

lemma bindR_simps [simp]:
  "bindR (Inl e) f = Inl e"
  "bindR (Inr x) f = f x"
  by (simp_all add: bindR_def)

lemma bindR_cong [fundef_cong]:
  "m = m' \<Longrightarrow> (\<And>x. m' = Inr x \<Longrightarrow> f x = f' x) \<Longrightarrow> bindR m f = bindR m' f'"
  by (cases m') auto

lemma bindR_eq_Inr [result_simps]:
  "bindR m f = Inr y \<longleftrightarrow> (\<exists>x. m = Inr x \<and> f x = Inr y)"
  by (cases m) auto

lemma bindR_eq_Inl [result_simps]:
  "bindR m f = Inl e \<longleftrightarrow> m = Inl e \<or> (\<exists>x. m = Inr x \<and> f x = Inl e)"
  by (cases m) auto

text \<open>\<open>if (!p) throw e\<close>.\<close>

definition ensure :: "bool \<Rightarrow> 'e \<Rightarrow> ('e, unit) result" where
  "ensure p e = (if p then Inr () else Inl e)"

lemma ensure_simps [simp]:
  "ensure True e = Inr ()"
  "ensure False e = Inl e"
  by (simp_all add: ensure_def)

lemma ensure_eq [result_simps]:
  "ensure p e = Inr u \<longleftrightarrow> p"
  "ensure p e = Inl e' \<longleftrightarrow> \<not> p \<and> e' = e"
  by (auto simp: ensure_def)

text \<open>A loop that applies a throwing operation to every element, stopping at the first throw.\<close>

fun traverseR :: "('a \<Rightarrow> ('e, 'b) result) \<Rightarrow> 'a list \<Rightarrow> ('e, 'b list) result" where
  "traverseR f [] = Inr []"
| "traverseR f (x # xs) = bindR (f x) (\<lambda>y. bindR (traverseR f xs) (\<lambda>ys. Inr (y # ys)))"

lemma traverseR_cong [fundef_cong]:
  "xs = ys \<Longrightarrow> (\<And>x. x \<in> set ys \<Longrightarrow> f x = g x) \<Longrightarrow> traverseR f xs = traverseR g ys"
  by (induction ys arbitrary: xs) auto

lemma traverseR_eq_Inr:
  "traverseR f xs = Inr ys \<longleftrightarrow> list_all2 (\<lambda>x y. f x = Inr y) xs ys"
  by (induction xs arbitrary: ys) (auto simp: result_simps list_all2_Cons1)

lemma traverseR_map: "traverseR f (map g xs) = traverseR (f \<circ> g) xs"
  by (induction xs) auto

lemma traverseR_Inr_map:
  "(\<And>x. x \<in> set xs \<Longrightarrow> f x = Inr (g x)) \<Longrightarrow> traverseR f xs = Inr (map g xs)"
  by (induction xs) auto

lemma traverseR_InrD:
  "traverseR f xs = Inr ys \<Longrightarrow> x \<in> set xs \<Longrightarrow> \<exists>y. f x = Inr y"
  by (induction xs arbitrary: ys) (auto simp: result_simps)

lemma traverseR_ensure:
  "traverseR (\<lambda>x. ensure (P x) e) xs = (if list_all P xs then Inr (map (\<lambda>_. ()) xs) else Inl e)"
  by (induction xs) (auto simp: ensure_def)

lemma traverseR_list_all2:
  "list_all2 (\<lambda>x y. f x = g y) xs ys \<Longrightarrow> traverseR f xs = traverseR g ys"
  by (induction rule: list_all2_induct) auto

text \<open>A loop that updates a state and may throw.\<close>

fun foldR :: "('a \<Rightarrow> 's \<Rightarrow> ('e, 's) result) \<Rightarrow> 'a list \<Rightarrow> 's \<Rightarrow> ('e, 's) result" where
  "foldR f [] s = Inr s"
| "foldR f (x # xs) s = bindR (f x s) (foldR f xs)"

lemma foldR_append: "foldR f (xs @ ys) s = bindR (foldR f xs s) (foldR f ys)"
  by (induction xs arbitrary: s) (auto simp: bindR_def split: sum.splits)

lemma foldR_concat: "foldR (foldR f) xss s = foldR f (concat xss) s"
  by (induction xss arbitrary: s) (auto simp: foldR_append bindR_def split: sum.splits)

lemma foldR_invariant:
  assumes "foldR f xs s = Inr t" and "P s"
    and "\<And>x u v. x \<in> set xs \<Longrightarrow> P u \<Longrightarrow> f x u = Inr v \<Longrightarrow> P v"
  shows "P t"
  using assms
proof (induction xs arbitrary: s)
  case (Cons x xs)
  then obtain u where "f x s = Inr u" "foldR f xs u = Inr t" by (auto simp: result_simps)
  with Cons show ?case by (metis list.set_intros)
qed simp

section \<open>Character classes\<close>

text \<open>The classes \<open>[0-9]\<close>, \<open>[a-z]\<close>, \<open>[A-Z]\<close> and their unions, on code units.\<close>

definition in_range :: "char \<Rightarrow> char \<Rightarrow> code_unit \<Rightarrow> bool" where
  "in_range lo hi c \<longleftrightarrow> of_char lo \<le> c \<and> c \<le> of_char hi"

definition is_digit :: "code_unit \<Rightarrow> bool" where
  "is_digit c \<longleftrightarrow> in_range CHR ''0'' CHR ''9'' c"

definition is_lower :: "code_unit \<Rightarrow> bool" where
  "is_lower c \<longleftrightarrow> in_range CHR ''a'' CHR ''z'' c"

definition is_upper :: "code_unit \<Rightarrow> bool" where
  "is_upper c \<longleftrightarrow> in_range CHR ''A'' CHR ''Z'' c"

definition is_hex_lower :: "code_unit \<Rightarrow> bool" where
  "is_hex_lower c \<longleftrightarrow> is_digit c \<or> in_range CHR ''a'' CHR ''f'' c"

definition is_name_tail :: "code_unit \<Rightarrow> bool" where
  "is_name_tail c \<longleftrightarrow> is_lower c \<or> is_digit c \<or> c \<in> set (js ''._-'')"

lemmas char_class_defs =
  in_range_def is_digit_def is_lower_def is_upper_def is_hex_lower_def is_name_tail_def

text \<open>\<open>/^[0-9a-f]{n}$/\<close>.\<close>

definition is_hex :: "nat \<Rightarrow> js_string \<Rightarrow> bool" where
  "is_hex n s \<longleftrightarrow> length s = n \<and> list_all is_hex_lower s"

text \<open>A class for the first unit, one for the others, and a bound on the number of the others.\<close>

definition matches_name ::
  "(code_unit \<Rightarrow> bool) \<Rightarrow> (code_unit \<Rightarrow> bool) \<Rightarrow> nat \<Rightarrow> js_string \<Rightarrow> bool" where
  "matches_name p q n s =
     (case s of [] \<Rightarrow> False | c # cs \<Rightarrow> p c \<and> list_all q cs \<and> length cs \<le> n)"

definition has_prefix :: "js_string \<Rightarrow> js_string \<Rightarrow> bool" where
  "has_prefix p s \<longleftrightarrow> take (length p) s = p"

lemma has_prefix_append [simp]: "has_prefix p (p @ s)"
  by (simp add: has_prefix_def)

section \<open>Numbers\<close>

text \<open>\<open>Number.isSafeInteger\<close> on an integer value.\<close>

definition is_safe_integer :: "int \<Rightarrow> bool" where
  "is_safe_integer n \<longleftrightarrow> - (2 ^ 53 - 1) \<le> n \<and> n \<le> 2 ^ 53 - 1"

text \<open>The largest value of a PostgreSQL \<open>bigint\<close>.\<close>

definition POSTGRES_BIGINT_MAX :: int where
  "POSTGRES_BIGINT_MAX = 9223372036854775807"

end
