(* ===== verification/Js_Sort.thy ===== *)
theory Js_Sort
  imports Js_Prelude "HOL-Library.List_Lexorder"
begin

text \<open>
  \<open>Array.prototype.sort(compareFn)\<close>: a stable sort by a comparator that returns a number
  whose sign orders its arguments. The interface a comparator has to meet is a locale: its sign
  has to be that of a linear order on the elements. What the callers rely on (the result is the
  sorted list of the library, so it does not depend on the order of the input) is proved once
  for every comparator that meets it.
\<close>

fun insert_cmp :: "('a \<Rightarrow> 'a \<Rightarrow> int) \<Rightarrow> 'a \<Rightarrow> 'a list \<Rightarrow> 'a list" where
  "insert_cmp cmp x [] = [x]"
| "insert_cmp cmp x (y # ys) =
     (if cmp x y \<le> 0 then x # y # ys else y # insert_cmp cmp x ys)"

definition js_sort :: "('a \<Rightarrow> 'a \<Rightarrow> int) \<Rightarrow> 'a list \<Rightarrow> 'a list" where
  "js_sort cmp xs = foldr (insert_cmp cmp) xs []"

lemma js_sort_simps [simp]:
  "js_sort cmp [] = []"
  "js_sort cmp (x # xs) = insert_cmp cmp x (js_sort cmp xs)"
  by (simp_all add: js_sort_def)

lemma mset_insert_cmp [simp]: "mset (insert_cmp cmp x ys) = add_mset x (mset ys)"
  by (induction ys) auto

lemma mset_js_sort [simp]: "mset (js_sort cmp xs) = mset xs"
  by (induction xs) auto

lemma set_js_sort [simp]: "set (js_sort cmp xs) = set xs"
  by (metis mset_js_sort set_mset_mset)

lemma length_js_sort [simp]: "length (js_sort cmp xs) = length xs"
  by (metis mset_js_sort size_mset)

lemma distinct_js_sort [simp]: "distinct (js_sort cmp xs) = distinct xs"
  by (metis mset_eq_imp_distinct_iff mset_js_sort)

locale js_comparator =
  fixes cmp :: "'a::linorder \<Rightarrow> 'a \<Rightarrow> int"
  assumes cmp_le: "cmp a b \<le> 0 \<longleftrightarrow> a \<le> b"
begin

lemma insert_cmp_insort: "insert_cmp cmp x ys = insort x ys"
  by (induction ys) (auto simp: cmp_le)

lemma js_sort_eq_sort: "js_sort cmp xs = sort xs"
  by (induction xs) (auto simp: insert_cmp_insort)

lemma sorted_js_sort: "sorted (js_sort cmp xs)"
  by (simp add: js_sort_eq_sort)

text \<open>The result is a function of the multiset of the elements alone.\<close>

lemma js_sort_perm: "mset xs = mset ys \<Longrightarrow> js_sort cmp xs = js_sort cmp ys"
  by (simp add: js_sort_eq_sort properties_for_sort)

lemma js_sort_sorted: "sorted xs \<Longrightarrow> js_sort cmp xs = xs"
  by (simp add: js_sort_eq_sort sorted_sort_id)

end

text \<open>Sorting pairs by their first component, as sorting the keys of an object does.\<close>

definition js_sort_entries ::
  "('k \<Rightarrow> 'k \<Rightarrow> int) \<Rightarrow> ('k \<times> 'v) list \<Rightarrow> ('k \<times> 'v) list" where
  "js_sort_entries cmp = js_sort (\<lambda>x y. cmp (fst x) (fst y))"

lemma set_js_sort_entries [simp]: "set (js_sort_entries cmp xs) = set xs"
  by (simp add: js_sort_entries_def)

lemma mset_js_sort_entries [simp]: "mset (js_sort_entries cmp xs) = mset xs"
  by (simp add: js_sort_entries_def)

lemma insert_cmp_map:
  "map f (insert_cmp (\<lambda>x y. cmp (f x) (f y)) x ys) = insert_cmp cmp (f x) (map f ys)"
  by (induction ys) auto

lemma map_fst_js_sort_entries: "map fst (js_sort_entries cmp xs) = js_sort cmp (map fst xs)"
  by (induction xs) (auto simp: js_sort_entries_def insert_cmp_map)

lemma insert_cmp_map_snd:
  "insert_cmp (\<lambda>x y. cmp (fst x) (fst y)) (k, f k v) (map (\<lambda>(k, v). (k, f k v)) ys)
     = map (\<lambda>(k, v). (k, f k v)) (insert_cmp (\<lambda>x y. cmp (fst x) (fst y)) (k, v) ys)"
  by (induction ys) auto

lemma js_sort_entries_map_snd:
  "js_sort_entries cmp (map (\<lambda>(k, v). (k, f k v)) xs)
     = map (\<lambda>(k, v). (k, f k v)) (js_sort_entries cmp xs)"
  by (induction xs) (auto simp: js_sort_entries_def insert_cmp_map_snd split: prod.splits)

lemma list_all2_js_sort_entries:
  assumes "list_all2 (\<lambda>x y. fst x = fst y \<and> R x y) xs ys"
  shows "list_all2 (\<lambda>x y. fst x = fst y \<and> R x y) (js_sort_entries cmp xs) (js_sort_entries cmp ys)"
proof -
  have "list_all2 (\<lambda>x y. fst x = fst y \<and> R x y)
      (insert_cmp (\<lambda>x y. cmp (fst x) (fst y)) x us) (insert_cmp (\<lambda>x y. cmp (fst x) (fst y)) y vs)"
    if "list_all2 (\<lambda>x y. fst x = fst y \<and> R x y) us vs" "fst x = fst y \<and> R x y" for x y us vs
    using that by (induction rule: list_all2_induct) auto
  with assms show ?thesis
    unfolding js_sort_entries_def by (induction rule: list_all2_induct) auto
qed

context js_comparator
begin

lemma js_sort_entries_eq: "js_sort_entries cmp xs = sort_key fst xs"
proof -
  have "insert_cmp (\<lambda>x y. cmp (fst x) (fst y)) x ys = insort_key fst x ys"
    for x :: "'a \<times> 'b" and ys
    by (induction ys) (auto simp: cmp_le)
  then show ?thesis
    unfolding js_sort_entries_def js_sort_def
    by (induction xs) auto
qed

lemma js_sort_entries_perm:
  assumes "distinct (map fst xs)" and "mset xs = mset ys"
  shows "js_sort_entries cmp xs = js_sort_entries cmp ys"
proof -
  from assms have "inj_on fst (set xs)"
    by (simp add: distinct_map)
  with assms(2) show ?thesis
    unfolding js_sort_entries_eq
    by (intro sort_key_inj_key_eq) simp_all
qed

end

end
