(* ===== verification/Json_Number.thy ===== *)
theory Json_Number
  imports Js_Prelude
begin

text \<open>
  JavaScript numbers as \<open>JSON.stringify\<close> prints them. A finite number is a sign, a
  significand and a decimal exponent: the shortest decimal that reads back as the number,
  which is what \<open>Number.prototype.toString\<close> prints (ECMA-262, Number::toString). The
  lemmas show that the printed text determines the number up to the sign of zero, which is
  why RFC 8785 can use it as the canonical form.
\<close>

datatype js_number = NaN | Infinity bool | Finite bool nat int

text \<open>\<open>Number.isFinite\<close>, and the normal form of a shortest decimal.\<close>

fun is_finite :: "js_number \<Rightarrow> bool" where
  "is_finite (Finite neg s e) = True"
| "is_finite x = False"

fun wf_number :: "js_number \<Rightarrow> bool" where
  "wf_number (Finite neg s e) = (if s = 0 then e = 0 else \<not> 10 dvd s)"
| "wf_number x = True"

section \<open>Decimal digits\<close>

definition digit_unit :: "nat \<Rightarrow> code_unit" where
  "digit_unit d = of_nat (48 + d)"

fun nat_to_string :: "nat \<Rightarrow> js_string" where
  "nat_to_string n =
     (if n < 10 then [digit_unit n] else nat_to_string (n div 10) @ [digit_unit (n mod 10)])"

declare nat_to_string.simps [simp del]

definition units_val :: "js_string \<Rightarrow> nat" where
  "units_val s = foldl (\<lambda>a c. 10 * a + (unat c - 48)) 0 s"

lemma unat_digit_unit: "d < 10 \<Longrightarrow> unat (digit_unit d) = 48 + d"
  unfolding digit_unit_def by (simp only: unsigned_of_nat) (simp add: take_bit_nat_eq_self)

lemma is_digit_unat: "is_digit c \<longleftrightarrow> 48 \<le> unat c \<and> unat c \<le> 57"
  by (simp add: is_digit_def in_range_def word_le_nat_alt)

lemma is_digit_digit_unit: "d < 10 \<Longrightarrow> is_digit (digit_unit d)"
  by (simp add: is_digit_unat unat_digit_unit)

lemma units_val_snoc: "units_val (s @ [c]) = 10 * units_val s + (unat c - 48)"
  by (simp add: units_val_def)

lemma units_val_Nil [simp]: "units_val [] = 0"
  by (simp add: units_val_def)

lemma units_val_nat_to_string [simp]: "units_val (nat_to_string n) = n"
proof (induction n rule: nat_to_string.induct)
  case (1 n)
  then show ?case
    by (subst nat_to_string.simps)
       (auto simp: units_val_snoc unat_digit_unit units_val_snoc [of "[]", simplified])
qed

lemma nat_to_string_digits: "list_all is_digit (nat_to_string n)"
proof (induction n rule: nat_to_string.induct)
  case (1 n)
  then show ?case
    by (subst nat_to_string.simps) (auto simp: is_digit_digit_unit)
qed

lemma nat_to_string_not_Nil [simp]: "nat_to_string n \<noteq> []"
  by (subst nat_to_string.simps) simp

lemma nat_to_string_hd: "n \<noteq> 0 \<Longrightarrow> hd (nat_to_string n) \<noteq> digit_unit 0"
proof (induction n rule: nat_to_string.induct)
  case (1 n)
  show ?case
  proof (cases "n < 10")
    case True
    then have "unat (digit_unit n) \<noteq> unat (digit_unit 0)" using 1(2) by (simp add: unat_digit_unit)
    then show ?thesis using True by (subst nat_to_string.simps) auto
  next
    case False
    with 1 show ?thesis by (subst nat_to_string.simps) simp
  qed
qed

lemma nat_to_string_inject [simp]: "nat_to_string m = nat_to_string n \<longleftrightarrow> m = n"
  by (metis units_val_nat_to_string)

lemma units_val_zeros_left: "units_val (replicate n (digit_unit 0) @ s) = units_val s"
proof -
  have "foldl (\<lambda>a c. 10 * a + (unat c - 48)) 0 (replicate n (digit_unit 0)) = 0"
    by (induction n) (simp_all add: unat_digit_unit)
  then show ?thesis
    by (simp add: units_val_def)
qed

lemma units_val_zeros_right: "units_val (s @ replicate n (digit_unit 0)) = units_val s * 10 ^ n"
proof (induction n)
  case (Suc n)
  have "units_val (s @ replicate (Suc n) (digit_unit 0))
      = units_val ((s @ replicate n (digit_unit 0)) @ [digit_unit 0])"
    by (simp add: replicate_append_same)
  then show ?case
    using Suc by (simp only: units_val_snoc) (simp add: unat_digit_unit)
qed simp

section \<open>Printing a number\<close>

text \<open>The five layouts of Number::toString for a positive significand.\<close>

definition magnitude_to_string :: "nat \<Rightarrow> int \<Rightarrow> js_string" where
  "magnitude_to_string s e =
     (let ds = nat_to_string s; k = int (length ds); n = k + e;
          zero = digit_unit 0; point = of_char CHR ''.''; exponent =
            of_char CHR ''e'' # of_char (if n - 1 < 0 then CHR ''-'' else CHR ''+'')
              # nat_to_string (nat \<bar>n - 1\<bar>)
      in if k \<le> n \<and> n \<le> 21 then ds @ replicate (nat (n - k)) zero
         else if 0 < n \<and> n \<le> 21 then take (nat n) ds @ point # drop (nat n) ds
         else if - 6 < n \<and> n \<le> 0 then zero # point # replicate (nat (- n)) zero @ ds
         else if k = 1 then ds @ exponent
         else hd ds # point # tl ds @ exponent)"

fun number_to_string :: "js_number \<Rightarrow> js_string" where
  "number_to_string NaN = js ''NaN''"
| "number_to_string (Infinity neg) = js (if neg then ''-Infinity'' else ''Infinity'')"
| "number_to_string (Finite neg s e) =
     (if s = 0 then js ''0''
      else (if neg then js ''-'' else []) @ magnitude_to_string s e)"

section \<open>Reading the text back\<close>

text \<open>\<open>read_decimal\<close> is used in proofs only: it recovers significand and exponent.\<close>

definition split_at :: "code_unit \<Rightarrow> js_string \<Rightarrow> js_string \<times> js_string" where
  "split_at c s = (takeWhile (\<lambda>x. x \<noteq> c) s, drop 1 (dropWhile (\<lambda>x. x \<noteq> c) s))"

definition exponent_val :: "js_string \<Rightarrow> int" where
  "exponent_val s = (case s of [] \<Rightarrow> 0
     | c # cs \<Rightarrow> if c = of_char CHR ''-'' then - int (units_val cs) else int (units_val cs))"

definition read_decimal :: "js_string \<Rightarrow> nat \<times> int" where
  "read_decimal s =
     (let (m, ex) = split_at (of_char CHR ''e'') s; (i, f) = split_at (of_char CHR ''.'') m
      in (units_val (i @ f), exponent_val ex - int (length f)))"

lemma split_at_append:
  "c \<notin> set s \<Longrightarrow> split_at c (s @ c # t) = (s, t)"
  by (induction s) (auto simp: split_at_def)

lemma split_at_none: "c \<notin> set s \<Longrightarrow> split_at c s = (s, [])"
  by (induction s) (auto simp: split_at_def)

lemma digits_no_mark:
  assumes "list_all is_digit s"
  shows "of_char CHR ''e'' \<notin> set s" and "of_char CHR ''.'' \<notin> set s"
  using assms by (auto simp: list_all_iff is_digit_unat)

lemma read_decimal_exponent:
  assumes "list_all is_digit i" and "list_all is_digit f"
  shows "read_decimal (i @ of_char CHR ''.'' # f @ of_char CHR ''e'' # of_char sg # ex)
       = (units_val (i @ f), exponent_val (of_char sg # ex) - int (length f))"
    and "read_decimal (i @ of_char CHR ''e'' # of_char sg # ex)
       = (units_val i, exponent_val (of_char sg # ex))"
    and "read_decimal (i @ of_char CHR ''.'' # f) = (units_val (i @ f), - int (length f))"
    and "read_decimal i = (units_val i, 0)"
proof -
  note no = digits_no_mark [OF assms(1)] digits_no_mark [OF assms(2)]
  have e: "of_char CHR ''e'' \<notin> set (i @ of_char CHR ''.'' # f)"
    using no by simp
  show "read_decimal (i @ of_char CHR ''.'' # f @ of_char CHR ''e'' # of_char sg # ex)
       = (units_val (i @ f), exponent_val (of_char sg # ex) - int (length f))"
    using split_at_append [OF e, of "of_char sg # ex"] split_at_append [OF no(2), of f]
    by (simp add: read_decimal_def)
  show "read_decimal (i @ of_char CHR ''e'' # of_char sg # ex)
       = (units_val i, exponent_val (of_char sg # ex))"
    using split_at_append [OF no(1), of "of_char sg # ex"] split_at_none [OF no(2)]
    by (simp add: read_decimal_def)
  show "read_decimal (i @ of_char CHR ''.'' # f) = (units_val (i @ f), - int (length f))"
    using split_at_none [OF e] split_at_append [OF no(2), of f]
    by (simp add: read_decimal_def exponent_val_def)
  show "read_decimal i = (units_val i, 0)"
    using split_at_none [OF no(1)] split_at_none [OF no(2)]
    by (simp add: read_decimal_def exponent_val_def)
qed

lemma exponent_val_printed:
  "exponent_val (of_char (if m < 0 then CHR ''-'' else CHR ''+'') # nat_to_string (nat \<bar>m\<bar>)) = m"
  by (simp add: exponent_val_def)

lemma list_all_take_drop:
  "list_all P xs \<Longrightarrow> list_all P (take n xs)" "list_all P xs \<Longrightarrow> list_all P (drop n xs)"
  by (auto simp: list_all_iff dest: in_set_takeD in_set_dropD)

text \<open>The layout with trailing zeros is the only one that does not keep the significand.\<close>

lemma read_decimal_magnitude:
  fixes s :: nat
  defines "ds \<equiv> nat_to_string s"
  shows "read_decimal (magnitude_to_string s e)
       = (if 0 \<le> e \<and> int (length ds) + e \<le> 21 then (s * 10 ^ nat e, 0) else (s, e))"
proof -
  define n where "n = int (length ds) + e"
  define ex where "ex = of_char (if n - 1 < 0 then CHR ''-'' else CHR ''+'')
    # nat_to_string (nat \<bar>n - 1\<bar>)"
  have dig: "list_all is_digit ds"
    unfolding ds_def by (rule nat_to_string_digits)
  have this_zeros: "list_all is_digit (replicate m (digit_unit 0))" for m
    by (simp add: list_all_iff is_digit_digit_unit)
  have val: "units_val ds = s"
    by (simp add: ds_def)
  have ex_val: "exponent_val ex = n - 1"
    unfolding ex_def by (rule exponent_val_printed)
  have ne: "ds \<noteq> []"
    by (simp add: ds_def)
  have mag: "magnitude_to_string s e =
     (if int (length ds) \<le> n \<and> n \<le> 21 then ds @ replicate (nat e) (digit_unit 0)
      else if 0 < n \<and> n \<le> 21 then take (nat n) ds @ of_char CHR ''.'' # drop (nat n) ds
      else if - 6 < n \<and> n \<le> 0
        then [digit_unit 0] @ of_char CHR ''.'' # (replicate (nat (- n)) (digit_unit 0) @ ds)
      else if int (length ds) = 1 then ds @ of_char CHR ''e'' # ex
      else [hd ds] @ of_char CHR ''.'' # tl ds @ of_char CHR ''e'' # ex)"
    by (simp add: magnitude_to_string_def Let_def ds_def [symmetric] n_def [symmetric] ex_def)
       (simp add: n_def)
  consider (zeros) "int (length ds) \<le> n" "n \<le> 21"
    | (point) "0 < n" "n \<le> 21" "n < int (length ds)"
    | (small) "- 6 < n" "n \<le> 0"
    | (exp) "n \<le> - 6 \<or> 21 < n"
    by linarith
  then show ?thesis
  proof cases
    case zeros
    with dig this_zeros show ?thesis
      using read_decimal_exponent(4) [of "ds @ replicate (nat e) (digit_unit 0)"]
      by (simp add: mag units_val_zeros_right val) (simp add: n_def)
  next
    case point
    then show ?thesis
      using read_decimal_exponent(3) [OF list_all_take_drop [OF dig], of "nat n" "nat n"]
      by (simp add: mag val) (simp add: n_def)
  next
    case small
    have z: "list_all is_digit [digit_unit 0]"
      by (simp add: is_digit_digit_unit)
    have "e < 0"
      using small ne by (cases ds) (auto simp: n_def)
    have "units_val ([digit_unit 0] @ replicate (nat (- n)) (digit_unit 0) @ ds) = s"
      using units_val_zeros_left [of "Suc (nat (- n))" ds] by (simp add: val)
    with small ne \<open>e < 0\<close> show ?thesis
      using read_decimal_exponent(3) [OF z, of "replicate (nat (- n)) (digit_unit 0) @ ds"] dig
        this_zeros
      by (simp add: mag) (simp add: n_def)
  next
    case exp
    obtain sg rest where ex: "ex = of_char sg # rest"
      unfolding ex_def by blast
    have hdtl: "list_all is_digit [hd ds]" "list_all is_digit (tl ds)" "[hd ds] @ tl ds = ds"
      using dig ne by (cases ds; simp)+
    have len: "int (length (tl ds)) = int (length ds) - 1" and pos: "1 \<le> int (length ds)"
      using ne by (cases ds; simp)+
    have no: "\<not> (int (length ds) \<le> n \<and> n \<le> 21)" "\<not> (0 < n \<and> n \<le> 21)"
      "\<not> (- 6 < n \<and> n \<le> 0)" "\<not> (0 \<le> e \<and> int (length ds) + e \<le> 21)"
      using exp pos by (auto simp: n_def)
    show ?thesis
    proof (cases "int (length ds) = 1")
      case True
      have "magnitude_to_string s e = ds @ of_char CHR ''e'' # of_char sg # rest"
        by (simp only: mag no [unfolded True] True ex if_False if_True simp_thms)
      with True no(4) show ?thesis
        using read_decimal_exponent(2) [OF dig dig, of sg rest] ex ex_val
        by (simp add: val) (auto simp: n_def)
    next
      case False
      have "magnitude_to_string s e
          = [hd ds] @ of_char CHR ''.'' # tl ds @ of_char CHR ''e'' # of_char sg # rest"
        by (simp only: mag no False if_False ex)
      then show ?thesis
        using read_decimal_exponent(1) [OF hdtl(1,2), of sg rest] ex ex_val hdtl(3) len
        by (simp only: no if_False val) (simp add: n_def)
    qed
  qed
qed

section \<open>The printed text determines the number\<close>

text \<open>The number with the sign of zero dropped.\<close>

fun norm_number :: "js_number \<Rightarrow> js_number" where
  "norm_number (Finite neg s e) = (if s = 0 then Finite False 0 0 else Finite neg s e)"
| "norm_number x = x"

lemma not_dvd_mult_pow: "\<not> 10 dvd (s * 10 ^ k :: nat) \<Longrightarrow> k = 0"
  by (cases k) auto

lemma normal_decimal_unique:
  assumes "\<not> 10 dvd (s :: nat)" and "\<not> 10 dvd t" and "s * 10 ^ a = t * 10 ^ b"
  shows "s = t \<and> a = b"
  using assms
proof (induction a arbitrary: b)
  case 0
  then show ?case
    using not_dvd_mult_pow [of t b] by simp
next
  case (Suc a)
  then obtain b' where b: "b = Suc b'"
    using not_dvd_mult_pow [of s "Suc a"] by (cases b) auto
  with Suc show ?case
    by auto
qed

lemma magnitude_inject:
  assumes "\<not> 10 dvd s" and "\<not> 10 dvd t" and eq: "magnitude_to_string s e = magnitude_to_string t f"
  shows "s = t \<and> e = f"
proof -
  define big where
    "big = (\<lambda>s e. 0 \<le> e \<and> int (length (nat_to_string s)) + e \<le> 21)"
  have nonneg: "0 \<le> e'" if "big s' e'" for s' e'
    using that by (simp add: big_def)
  have "(if big s e then (s * 10 ^ nat e, 0) else (s, e))
      = (if big t f then (t * 10 ^ nat f, 0) else (t, f))"
    using eq read_decimal_magnitude [of s e] read_decimal_magnitude [of t f]
    by (simp add: big_def)
  then consider "big s e" "big t f" "s * 10 ^ nat e = t * 10 ^ nat f"
    | "big s e" "s * 10 ^ nat e = t * 10 ^ 0" "f = 0"
    | "big t f" "s * 10 ^ 0 = t * 10 ^ nat f" "e = 0"
    | "s = t" "e = f"
    by (cases "big s e"; cases "big t f") auto
  then show ?thesis
  proof cases
    case 1
    with normal_decimal_unique [OF assms(1,2)] nonneg show ?thesis
      by (metis nat_0_le)
  next
    case 2
    with normal_decimal_unique [OF assms(1,2) 2(2)] nonneg [OF 2(1)] show ?thesis
      by simp
  next
    case 3
    with normal_decimal_unique [OF assms(1,2) 3(2)] nonneg [OF 3(1)] show ?thesis
      by simp
  qed simp
qed

lemma magnitude_first: "\<exists>c cs. magnitude_to_string s e = c # cs \<and> is_digit c"
proof -
  obtain c cs where ds: "nat_to_string s = c # cs" and "is_digit c"
    using nat_to_string_digits [of s] nat_to_string_not_Nil [of s]
    by (cases "nat_to_string s") auto
  moreover have "is_digit (digit_unit 0)"
    by (simp add: is_digit_digit_unit)
  ultimately show ?thesis
    by (auto simp: magnitude_to_string_def Let_def take_Cons' nat_eq_iff)
qed

lemma zero_not_magnitude: "s \<noteq> 0 \<Longrightarrow> js ''0'' \<noteq> magnitude_to_string s e"
proof
  assume s: "s \<noteq> 0" and eq: "js ''0'' = magnitude_to_string s e"
  have "js ''0'' = nat_to_string 0"
    by (simp add: nat_to_string.simps [of 0] digit_unit_def)
  then have "read_decimal (js ''0'') = (0, 0)"
    using read_decimal_exponent(4) [OF nat_to_string_digits nat_to_string_digits, of 0] by simp
  with eq s show False
    using read_decimal_magnitude [of s e] by (simp split: if_splits)
qed

lemma number_to_string_inject:
  assumes "is_finite x" "is_finite y" "wf_number x" "wf_number y"
  shows "number_to_string x = number_to_string y \<longleftrightarrow> norm_number x = norm_number y"
proof -
  obtain n s e where x: "x = Finite n s e"
    using assms(1) by (cases x) auto
  obtain m t f where y: "y = Finite m t f"
    using assms(2) by (cases y) auto
  have minus: "of_char CHR ''-'' # u \<noteq> magnitude_to_string k g" "js ''0'' \<noteq> of_char CHR ''-'' # u"
    for u k g
    using magnitude_first [of k g] by (auto simp: is_digit_unat)
  show ?thesis
  proof (cases "s = 0 \<or> t = 0")
    case True
    then show ?thesis
      using minus [symmetric] minus zero_not_magnitude zero_not_magnitude [symmetric]
      by (auto simp: x y)
  next
    case False
    with assms(3,4) have "\<not> 10 dvd s" "\<not> 10 dvd t"
      by (auto simp: x y)
    then show ?thesis
      using False minus minus [symmetric] magnitude_inject [of s t e f] by (auto simp: x y)
  qed
qed

text \<open>A printed number uses these units only, so a comma or a closing bracket ends it.\<close>

definition is_number_unit :: "code_unit \<Rightarrow> bool" where
  "is_number_unit c \<longleftrightarrow> is_digit c \<or> c \<in> set (js ''+-.e'')"

lemma number_units: "is_finite x \<Longrightarrow> list_all is_number_unit (number_to_string x)"
proof (cases x)
  case (Finite n s e)
  let ?ds = "nat_to_string s"
  have all: "list_all is_number_unit (nat_to_string k)" for k
    using nat_to_string_digits [of k] by (simp add: list_all_iff is_number_unit_def)
  then have "is_number_unit (hd ?ds)" "list_all is_number_unit (tl ?ds)"
    using all [of s] nat_to_string_not_Nil [of s] by (cases ?ds; simp)+
  moreover have "is_number_unit (digit_unit 0)"
    by (simp add: is_number_unit_def is_digit_digit_unit)
  then have "list_all is_number_unit (replicate m (digit_unit 0))" "is_number_unit (digit_unit 0)" for m
    by (simp_all add: list_all_iff)
  moreover have "is_number_unit c" if "c \<in> set (js ''+-.e'')" for c
    using that by (simp add: is_number_unit_def)
  ultimately have "list_all is_number_unit (magnitude_to_string s e)"
    unfolding magnitude_to_string_def Let_def
    by (simp add: all list_all_take_drop)
  then show ?thesis
    by (simp add: Finite is_number_unit_def is_digit_unat)
qed simp_all

lemma number_to_string_not_Nil [simp]: "number_to_string x \<noteq> []"
  using magnitude_first by (cases x) (auto, metis list.distinct(1))

end
