(* ===== verification/Canonical_Json.thy ===== *)
theory Canonical_Json
  imports Js_Sort Json_Number
begin

text \<open>
  \<open>packages/hashing/src/v2/canonical-json.ts\<close>: the RFC 8785 (JCS) canonical form of JSON
  values, the bytes every Databench identity is hashed from. A JSON value is a tree whose
  objects list their own properties in insertion order. The theory models the comparison of
  keys, the surrogate check and the encoder with its errors, and shows that the text identifies
  the value: two values have the same canonical text exactly when they are equal up to the
  order of object keys and the sign of zero.
\<close>

section \<open>JSON values\<close>

datatype json =
    JNull
  | JBool bool
  | JNumber js_number
  | JString js_string
  | JArray "json list"
  | JObject "(js_string \<times> json) list"

text \<open>The \<open>TypeError\<close>s of the encoder, one constructor for each message.\<close>

datatype jcs_error =
    NonFiniteNumber
  | UnsupportedType
  | CyclicValue
  | SparseArray
  | ArrayProperties
  | NotPlainObject
  | SymbolKey
  | NotDataProperty
  | LoneSurrogate
  | NoSuchObject

section \<open>Comparing keys\<close>

fun compareJcsUtf16 :: "js_string \<Rightarrow> js_string \<Rightarrow> int" where
  "compareJcsUtf16 (l # ls) (r # rs) =
     (let difference = int (unat l) - int (unat r)
      in if difference \<noteq> 0 then difference else compareJcsUtf16 ls rs)"
| "compareJcsUtf16 ls rs = int (length ls) - int (length rs)"

lemma compareJcsUtf16_le: "compareJcsUtf16 a b \<le> 0 \<longleftrightarrow> a \<le> b"
proof (induction a b rule: compareJcsUtf16.induct)
  case (1 l ls r rs)
  then show ?case
    by (auto simp: Let_def word_less_def word_uint_eq_iff)
qed auto

lemma compareJcsUtf16_zero: "compareJcsUtf16 a b = 0 \<longleftrightarrow> a = b"
proof (induction a b rule: compareJcsUtf16.induct)
  case (1 l ls r rs)
  then show ?case
    by (auto simp: Let_def word_uint_eq_iff)
qed auto

interpretation jcs_order: js_comparator compareJcsUtf16
  by unfold_locales (rule compareJcsUtf16_le)

section \<open>Unicode scalar sequences\<close>

definition is_high_surrogate :: "code_unit \<Rightarrow> bool" where
  "is_high_surrogate c \<longleftrightarrow> 0xd800 \<le> c \<and> c \<le> 0xdbff"

definition is_low_surrogate :: "code_unit \<Rightarrow> bool" where
  "is_low_surrogate c \<longleftrightarrow> 0xdc00 \<le> c \<and> c \<le> 0xdfff"

fun is_scalar_sequence :: "js_string \<Rightarrow> bool" where
  "is_scalar_sequence [] = True"
| "is_scalar_sequence (c # cs) =
     (if is_high_surrogate c
      then (case cs of [] \<Rightarrow> False
            | d # ds \<Rightarrow> is_low_surrogate d \<and> is_scalar_sequence ds)
      else \<not> is_low_surrogate c \<and> is_scalar_sequence cs)"

definition assertUnicodeScalarSequence :: "js_string \<Rightarrow> (jcs_error, unit) result" where
  "assertUnicodeScalarSequence value = ensure (is_scalar_sequence value) LoneSurrogate"

section \<open>JSON.stringify of strings\<close>

text \<open>
  \<open>QuoteJSONString\<close> of ECMA-262. Its clause for lone surrogates is left out: the encoder quotes
  a string only after the surrogate check has passed.
\<close>

definition hex_unit :: "nat \<Rightarrow> code_unit" where
  "hex_unit n = of_nat (if n < 10 then 48 + n else 87 + n)"

definition escape_unit :: "code_unit \<Rightarrow> js_string" where
  "escape_unit c =
     (if c = 0x22 then [0x5c, 0x22]
      else if c = 0x5c then [0x5c, 0x5c]
      else if c = 0x08 then 0x5c # js ''b''
      else if c = 0x09 then 0x5c # js ''t''
      else if c = 0x0a then 0x5c # js ''n''
      else if c = 0x0c then 0x5c # js ''f''
      else if c = 0x0d then 0x5c # js ''r''
      else if c < 0x20
        then 0x5c # js ''u00'' @ [hex_unit (unat c div 16), hex_unit (unat c mod 16)]
      else [c])"

definition json_quote :: "js_string \<Rightarrow> js_string" where
  "json_quote s = 0x22 # concat (map escape_unit s) @ [0x22]"

section \<open>The encoder\<close>

fun join_comma :: "js_string list \<Rightarrow> js_string" where
  "join_comma [] = []"
| "join_comma [x] = x"
| "join_comma (x # y # zs) = x @ of_char CHR '','' # join_comma (y # zs)"

definition brackets :: "js_string list \<Rightarrow> js_string" where
  "brackets xs = of_char CHR ''['' # join_comma xs @ [of_char CHR '']'']"

definition braces :: "js_string list \<Rightarrow> js_string" where
  "braces xs = of_char CHR ''{'' # join_comma xs @ [of_char CHR ''}'']"

definition member_text :: "js_string \<Rightarrow> js_string \<Rightarrow> js_string" where
  "member_text key v = json_quote key @ of_char CHR '':'' # v"

fun canonical_json :: "json \<Rightarrow> (jcs_error, js_string) result" where
  "canonical_json JNull = Inr (js ''null'')"
| "canonical_json (JBool b) = Inr (js (if b then ''true'' else ''false''))"
| "canonical_json (JNumber x) =
     bindR (ensure (is_finite x) NonFiniteNumber) (\<lambda>_. Inr (number_to_string x))"
| "canonical_json (JString s) =
     bindR (assertUnicodeScalarSequence s) (\<lambda>_. Inr (json_quote s))"
| "canonical_json (JArray xs) =
     bindR (traverseR canonical_json xs) (\<lambda>ys. Inr (brackets ys))"
| "canonical_json (JObject kvs) =
     bindR (traverseR (\<lambda>(key, _). assertUnicodeScalarSequence key) kvs) (\<lambda>_.
       bindR (traverseR
                (\<lambda>(key, v). bindR (canonical_json v) (\<lambda>s. Inr (member_text key s)))
                (js_sort_entries compareJcsUtf16 kvs))
         (\<lambda>ys. Inr (braces ys)))"

section \<open>Success and failure\<close>

text \<open>
  \<open>json_ok\<close> is what the encoder accepts, \<open>jcs\<close> the text it then returns, and \<open>wf_json\<close> what
  holds of every JavaScript value: property names are distinct, numbers are in normal form.
\<close>

fun json_ok :: "json \<Rightarrow> bool" where
  "json_ok (JNumber x) = is_finite x"
| "json_ok (JString s) = is_scalar_sequence s"
| "json_ok (JArray xs) = list_all json_ok xs"
| "json_ok (JObject kvs) = list_all (\<lambda>(key, v). is_scalar_sequence key \<and> json_ok v) kvs"
| "json_ok _ = True"

fun jcs :: "json \<Rightarrow> js_string" where
  "jcs JNull = js ''null''"
| "jcs (JBool b) = js (if b then ''true'' else ''false'')"
| "jcs (JNumber x) = number_to_string x"
| "jcs (JString s) = json_quote s"
| "jcs (JArray xs) = brackets (map jcs xs)"
| "jcs (JObject kvs) =
     braces (map (\<lambda>(key, v). member_text key v)
       (js_sort_entries compareJcsUtf16 (map (\<lambda>(key, v). (key, jcs v)) kvs)))"

fun wf_json :: "json \<Rightarrow> bool" where
  "wf_json (JNumber x) = wf_number x"
| "wf_json (JArray xs) = list_all wf_json xs"
| "wf_json (JObject kvs) = (distinct (map fst kvs) \<and> list_all (\<lambda>(key, v). wf_json v) kvs)"
| "wf_json _ = True"

lemma canonical_json_ok: "json_ok j \<Longrightarrow> canonical_json j = Inr (jcs j)"
proof (induction j rule: jcs.induct)
  case (5 xs)
  then show ?case
    by (simp add: list_all_iff traverseR_Inr_map)
next
  case (6 kvs)
  let ?s = "js_sort_entries compareJcsUtf16 kvs"
  have keys: "traverseR (\<lambda>(key, _). assertUnicodeScalarSequence key) kvs = Inr (map (\<lambda>_. ()) kvs)"
    using 6 traverseR_ensure [of "\<lambda>(key, _). is_scalar_sequence key" LoneSurrogate kvs]
    by (auto simp: assertUnicodeScalarSequence_def list_all_iff case_prod_unfold)
  have "traverseR (\<lambda>(key, v). bindR (canonical_json v) (\<lambda>s. Inr (member_text key s))) ?s
      = Inr (map (\<lambda>(key, v). member_text key (jcs v)) ?s)"
    using 6 by (intro traverseR_Inr_map) (auto simp: list_all_iff)
  then show ?case
    by (simp add: keys js_sort_entries_map_snd) (simp add: case_prod_unfold comp_def)
qed (simp_all add: assertUnicodeScalarSequence_def)

lemma canonical_json_Inr: "canonical_json j = Inr s \<Longrightarrow> json_ok j"
proof (induction j arbitrary: s rule: json_ok.induct)
  case (3 xs)
  then show ?case
    by (auto simp: result_simps list_all_iff dest: traverseR_InrD)
next
  case (4 kvs)
  let ?enc = "\<lambda>(key, v). bindR (canonical_json v) (\<lambda>s. Inr (member_text key s))"
  from "4.prems" have keys: "list_all (is_scalar_sequence \<circ> fst) kvs"
    and vals: "\<exists>ys. traverseR ?enc (js_sort_entries compareJcsUtf16 kvs) = Inr ys"
    using traverseR_ensure [of "is_scalar_sequence \<circ> fst" LoneSurrogate kvs]
    by (auto simp: result_simps assertUnicodeScalarSequence_def case_prod_unfold split: if_splits)
  from vals have "\<forall>p \<in> set kvs. \<exists>s. ?enc p = Inr s"
    by (auto dest: traverseR_InrD)
  with keys "4.IH" show ?case
    by (fastforce simp: list_all_iff result_simps)
qed (auto simp: result_simps assertUnicodeScalarSequence_def)

lemma canonical_json_eq_Inr: "canonical_json j = Inr s \<longleftrightarrow> json_ok j \<and> s = jcs j"
  using canonical_json_ok canonical_json_Inr by fastforce

section \<open>The text identifies the value\<close>

text \<open>
  The normal form: keys sorted in every object, minus zero read as zero. \<open>text_of\<close> prints a
  value with its keys in the order it lists them, so \<open>jcs\<close> is \<open>text_of\<close> of the normal form.
\<close>

fun canon :: "json \<Rightarrow> json" where
  "canon (JNumber x) = JNumber (norm_number x)"
| "canon (JArray xs) = JArray (map canon xs)"
| "canon (JObject kvs) =
     JObject (js_sort_entries compareJcsUtf16 (map (\<lambda>(key, v). (key, canon v)) kvs))"
| "canon j = j"

fun text_of :: "json \<Rightarrow> js_string" where
  "text_of JNull = js ''null''"
| "text_of (JBool b) = js (if b then ''true'' else ''false'')"
| "text_of (JNumber x) = number_to_string x"
| "text_of (JString s) = json_quote s"
| "text_of (JArray xs) = brackets (map text_of xs)"
| "text_of (JObject kvs) = braces (map (\<lambda>(key, v). member_text key (text_of v)) kvs)"

lemma number_to_string_norm: "number_to_string (norm_number x) = number_to_string x"
  by (cases x) auto

lemma jcs_text_of: "jcs j = text_of (canon j)"
proof (induction j rule: jcs.induct)
  case (6 kvs)
  have "map (\<lambda>(key, v). (key, jcs v)) kvs = map (\<lambda>(key, v). (key, text_of v)) (map (\<lambda>(key, v). (key, canon v)) kvs)"
    using 6 by auto
  then show ?case
    by (simp add: js_sort_entries_map_snd)
       (auto simp: case_prod_unfold comp_def intro!: arg_cong [where f = braces])
next
  case (5 xs)
  then show ?case by (simp add: comp_def cong: map_cong)
qed (simp_all add: number_to_string_norm)

subsection \<open>Strings\<close>

lemma unat_hex_unit: "n < 16 \<Longrightarrow> unat (hex_unit n) = (if n < 10 then 48 + n else 87 + n)"
  unfolding hex_unit_def by (simp only: unsigned_of_nat) (simp add: take_bit_nat_eq_self)

lemma hex_unit_inject: "m < 16 \<Longrightarrow> n < 16 \<Longrightarrow> hex_unit m = hex_unit n \<longleftrightarrow> m = n"
  by (auto simp: unat_hex_unit simp flip: unat_inject split: if_splits)

lemma control_inject:
  assumes "c < (0x20 :: code_unit)" and "d < 0x20"
    and "hex_unit (unat c div 16) = hex_unit (unat d div 16)"
    and "hex_unit (unat c mod 16) = hex_unit (unat d mod 16)"
  shows "c = d"
proof -
  have "unat c < 32" "unat d < 32"
    using assms(1,2) by (simp_all add: word_less_nat_alt)
  with assms(3,4) have "unat c div 16 = unat d div 16" "unat c mod 16 = unat d mod 16"
    by (simp_all add: hex_unit_inject)
  then show ?thesis
    by (metis div_mult_mod_eq unat_inject)
qed

lemma escape_unit_inject:
  "escape_unit c @ x = escape_unit d @ y \<Longrightarrow> c = d \<and> x = y"
  using control_inject [of c d]
  by (auto simp: escape_unit_def split: if_splits)

lemma escape_unit_not_quote: "escape_unit c @ x \<noteq> 0x22 # y"
  by (auto simp: escape_unit_def)

lemma quoted_inject:
  "concat (map escape_unit s) @ 0x22 # x = concat (map escape_unit t) @ 0x22 # y
     \<Longrightarrow> s = t \<and> x = y"
proof (induction s arbitrary: t)
  case Nil
  then show ?case
    using escape_unit_not_quote by (cases t) (auto, metis append_assoc)
next
  case (Cons c s)
  show ?case
  proof (cases t)
    case Nil
    with Cons.prems show ?thesis
      using escape_unit_not_quote [of c] by simp
  next
    case (Cons d t')
    with Cons.prems have "escape_unit c @ concat (map escape_unit s) @ 0x22 # x
        = escape_unit d @ concat (map escape_unit t') @ 0x22 # y"
      by simp
    with Cons.IH Cons show ?thesis
      by (auto dest!: escape_unit_inject)
  qed
qed

lemma json_quote_inject: "json_quote s @ x = json_quote t @ y \<Longrightarrow> s = t \<and> x = y"
  using quoted_inject [of s x t y] by (simp add: json_quote_def)

subsection \<open>Lists\<close>

text \<open>The text after the first element of a list, and what may follow a value in any text.\<close>

fun rest_text :: "('a \<Rightarrow> js_string) \<Rightarrow> code_unit \<Rightarrow> 'a list \<Rightarrow> js_string" where
  "rest_text p cl [] = [cl]"
| "rest_text p cl (x # xs) = of_char CHR '','' # p x @ rest_text p cl xs"

lemma join_comma_rest: "join_comma (map p (x # xs)) @ [cl] = p x @ rest_text p cl xs"
  by (induction xs arbitrary: x) auto

definition ends_value :: "js_string \<Rightarrow> bool" where
  "ends_value r \<longleftrightarrow> (case r of [] \<Rightarrow> True | c # _ \<Rightarrow> c \<in> set (js '',]}''))"

lemma ends_value_rest: "cl \<in> set (js '']}'') \<Longrightarrow> ends_value (rest_text p cl xs @ r)"
  by (cases xs) (auto simp: ends_value_def)

definition readable :: "('a \<Rightarrow> js_string) \<Rightarrow> 'a \<Rightarrow> 'a \<Rightarrow> bool" where
  "readable p x y \<longleftrightarrow> (\<forall>r r'. ends_value r \<longrightarrow> ends_value r' \<longrightarrow> p x @ r = p y @ r' \<longrightarrow> x = y \<and> r = r')"

lemma readableD:
  "readable p x y \<Longrightarrow> p x @ r = p y @ r' \<Longrightarrow> ends_value r \<Longrightarrow> ends_value r' \<Longrightarrow> x = y \<and> r = r'"
  by (simp add: readable_def)

lemma rest_text_inject:
  assumes "cl \<in> set (js '']}'')" and "\<And>x y. x \<in> set xs \<Longrightarrow> y \<in> set ys \<Longrightarrow> readable p x y"
    and "rest_text p cl xs @ r = rest_text p cl ys @ r'"
  shows "xs = ys \<and> r = r'"
  using assms(2,3)
proof (induction xs arbitrary: ys)
  case Nil
  with assms(1) show ?case by (cases ys) auto
next
  case (Cons x xs)
  with assms(1) obtain y ys' where ys: "ys = y # ys'"
    by (cases ys) auto
  with Cons.prems(2) have "p x @ (rest_text p cl xs @ r) = p y @ (rest_text p cl ys' @ r')"
    by simp
  then have "x = y \<and> rest_text p cl xs @ r = rest_text p cl ys' @ r'"
    using Cons.prems(1) ys assms(1)
    by (intro readableD [of p x y]) (auto simp: ends_value_rest)
  with Cons ys show ?case by auto
qed

lemma list_text_inject:
  assumes cl: "cl \<in> set (js '']}'')" and rd: "\<And>x y. x \<in> set xs \<Longrightarrow> y \<in> set ys \<Longrightarrow> readable p x y"
    and first: "\<And>x. x \<in> set xs \<union> set ys \<Longrightarrow> p x \<noteq> [] \<and> hd (p x) \<noteq> cl"
    and eq: "(join_comma (map p xs) @ [cl]) @ r = (join_comma (map p ys) @ [cl]) @ r'"
  shows "xs = ys \<and> r = r'"
proof (cases xs)
  case Nil
  show ?thesis
  proof (cases ys)
    case (Cons y ys')
    with Nil eq have "cl # r = p y @ (rest_text p cl ys' @ r')"
      by (simp only: join_comma_rest) simp
    with first [of y] Cons show ?thesis
      by (cases "p y") auto
  qed (use Nil eq in simp)
next
  case (Cons x xs')
  note xs = this
  show ?thesis
  proof (cases ys)
    case Nil
    with xs eq have "p x @ (rest_text p cl xs' @ r) = cl # r'"
      by (simp only: join_comma_rest) simp
    with first [of x] xs show ?thesis
      by (cases "p x") auto
  next
    case (Cons y ys')
    with xs eq have "p x @ (rest_text p cl xs' @ r) = p y @ (rest_text p cl ys' @ r')"
      by (simp only: join_comma_rest) simp
    then have "x = y \<and> rest_text p cl xs' @ r = rest_text p cl ys' @ r'"
      using rd xs Cons cl by (intro readableD [of p x y]) (auto simp: ends_value_rest)
    then show ?thesis
      using rest_text_inject [OF cl, of xs' ys' p r r'] rd xs Cons by auto
  qed
qed

subsection \<open>Values\<close>

text \<open>Numbers in normal form throughout: what \<open>canon\<close> makes of an accepted value.\<close>

fun normal_numbers :: "json \<Rightarrow> bool" where
  "normal_numbers (JNumber x) = (is_finite x \<and> wf_number x \<and> norm_number x = x)"
| "normal_numbers (JArray xs) = list_all normal_numbers xs"
| "normal_numbers (JObject kvs) = list_all (\<lambda>(key, v). normal_numbers v) kvs"
| "normal_numbers _ = True"

lemma number_first: "is_finite x \<Longrightarrow> \<exists>c cs. number_to_string x = c # cs \<and> is_number_unit c"
  using number_units [of x] number_to_string_not_Nil [of x]
  by (cases "number_to_string x") auto

text \<open>The first unit of a text tells the constructors apart.\<close>

definition first_class :: "json \<Rightarrow> code_unit \<Rightarrow> bool" where
  "first_class j c \<longleftrightarrow> (case j of
       JNull \<Rightarrow> c = of_char CHR ''n''
     | JBool b \<Rightarrow> c = of_char (if b then CHR ''t'' else CHR ''f'')
     | JNumber x \<Rightarrow> is_number_unit c
     | JString s \<Rightarrow> c = 0x22
     | JArray xs \<Rightarrow> c = of_char CHR ''[''
     | JObject kvs \<Rightarrow> c = of_char CHR ''{'')"

lemma text_first: "normal_numbers j \<Longrightarrow> \<exists>c cs. text_of j = c # cs \<and> first_class j c"
  using number_first
  by (cases j) (auto simp: first_class_def json_quote_def brackets_def braces_def)

lemma first_class_not_end: "first_class j c \<Longrightarrow> c \<notin> set (js '',]}'')"
  by (auto simp: first_class_def is_number_unit_def is_digit_unat split: json.splits if_splits)

lemma number_text_inject:
  assumes "is_finite x" "is_finite y" "wf_number x" "wf_number y"
    and "norm_number x = x" "norm_number y = y" "ends_value r" "ends_value r'"
    and eq: "number_to_string x @ r = number_to_string y @ r'"
  shows "x = y \<and> r = r'"
proof -
  have "takeWhile is_number_unit (number_to_string z @ s) = number_to_string z"
    if "is_finite z" "ends_value s" for z s
  proof -
    have "takeWhile is_number_unit s = []"
      using that(2) by (cases s) (auto simp: ends_value_def is_number_unit_def is_digit_unat)
    then show ?thesis
      using number_units [OF that(1)] by (auto simp: list_all_iff)
  qed
  with assms have "number_to_string x = number_to_string y"
    by metis
  with assms number_to_string_inject show ?thesis
    by auto
qed

lemma member_readable:
  assumes "\<And>r r'. ends_value r \<Longrightarrow> ends_value r' \<Longrightarrow> text_of v @ r = text_of w @ r' \<Longrightarrow> v = w \<and> r = r'"
  shows "readable (\<lambda>(key, v). member_text key (text_of v)) (k, v) (l, w)"
  unfolding readable_def using assms
  by (auto simp: member_text_def dest!: json_quote_inject)

fun same_kind :: "json \<Rightarrow> json \<Rightarrow> bool" where
  "same_kind JNull JNull = True"
| "same_kind (JBool x) (JBool y) = (x = y)"
| "same_kind (JNumber _) (JNumber _) = True"
| "same_kind (JString _) (JString _) = True"
| "same_kind (JArray _) (JArray _) = True"
| "same_kind (JObject _) (JObject _) = True"
| "same_kind _ _ = False"

lemma first_class_same_kind: "first_class a c \<Longrightarrow> first_class b c \<Longrightarrow> same_kind a b"
  by (cases a; cases b) (auto simp: first_class_def is_number_unit_def is_digit_unat split: if_splits)

lemma text_same_kind:
  assumes "normal_numbers a" "normal_numbers b" "text_of a @ r = text_of b @ r'"
  shows "same_kind a b"
  using text_first [OF assms(1)] text_first [OF assms(2)] assms(3)
  by (auto intro: first_class_same_kind)

lemma readableI:
  "(\<And>r r'. ends_value r \<Longrightarrow> ends_value r' \<Longrightarrow> p x @ r = p y @ r' \<Longrightarrow> x = y \<and> r = r') \<Longrightarrow> readable p x y"
  by (auto simp: readable_def)

lemma text_not_end:
  "normal_numbers j \<Longrightarrow> text_of j \<noteq> [] \<and> hd (text_of j) \<noteq> of_char CHR '']''"
  using text_first [of j] first_class_not_end by fastforce

lemma brackets_inject:
  assumes "\<And>x y. x \<in> set xs \<Longrightarrow> y \<in> set ys \<Longrightarrow> readable text_of x y"
    and "list_all normal_numbers xs" "list_all normal_numbers ys"
    and "brackets (map text_of xs) @ r = brackets (map text_of ys) @ r'"
  shows "xs = ys \<and> r = r'"
proof -
  have "text_of x \<noteq> [] \<and> hd (text_of x) \<noteq> of_char CHR '']''" if "x \<in> set xs \<union> set ys" for x
    using that assms(2,3) by (intro text_not_end) (auto simp: list_all_iff)
  with assms(1,4) show ?thesis
    by (intro list_text_inject [of "of_char CHR '']''" xs ys text_of r r'])
       (auto simp: brackets_def)
qed

lemma braces_inject:
  fixes xs ys :: "(js_string \<times> json) list"
  defines "p \<equiv> \<lambda>(key, v). member_text key (text_of v)"
  assumes "\<And>x y. x \<in> set xs \<Longrightarrow> y \<in> set ys \<Longrightarrow> readable p x y"
    and "braces (map p xs) @ r = braces (map p ys) @ r'"
  shows "xs = ys \<and> r = r'"
proof -
  have "p x \<noteq> [] \<and> hd (p x) \<noteq> of_char CHR ''}''" for x
    by (auto simp: p_def member_text_def json_quote_def split: prod.splits)
  with assms(2,3) show ?thesis
    by (intro list_text_inject [of "of_char CHR ''}''" xs ys p r r']) (auto simp: braces_def)
qed

lemma text_of_readable:
  "normal_numbers a \<Longrightarrow> normal_numbers b \<Longrightarrow> readable text_of a b"
proof (induction a arbitrary: b rule: text_of.induct)
  case 1
  then show ?case
    using text_same_kind [OF 1] by (intro readableI) (cases b; fastforce)
next
  case (2 x)
  then show ?case
    using text_same_kind [OF 2] by (intro readableI) (cases b; fastforce)
next
  case (3 x)
  show ?case
  proof (rule readableI)
    fix r r' assume r: "ends_value r" "ends_value r'" "text_of (JNumber x) @ r = text_of b @ r'"
    from text_same_kind [OF 3 r(3)] obtain y where "b = JNumber y" by (cases b) auto
    with 3 r number_text_inject [of x y r r'] show "JNumber x = b \<and> r = r'" by simp
  qed
next
  case (4 s)
  show ?case
  proof (rule readableI)
    fix r r' assume r: "text_of (JString s) @ r = text_of b @ r'"
    from text_same_kind [OF 4 r] obtain t where "b = JString t" by (cases b) auto
    with r json_quote_inject [of s r t r'] show "JString s = b \<and> r = r'" by simp
  qed
next
  case (5 xs)
  show ?case
  proof (rule readableI)
    fix r r' assume r: "text_of (JArray xs) @ r = text_of b @ r'"
    from text_same_kind [OF "5.prems" r] obtain ys where b: "b = JArray ys" by (cases b) auto
    have "xs = ys \<and> r = r'"
      using r "5.prems" "5.IH" b by (intro brackets_inject [of xs ys]) (auto simp: list_all_iff)
    with b show "JArray xs = b \<and> r = r'" by simp
  qed
next
  case (6 kvs)
  show ?case
  proof (rule readableI)
    fix r r' assume r: "text_of (JObject kvs) @ r = text_of b @ r'"
    from text_same_kind [OF "6.prems" r] obtain lws where b: "b = JObject lws" by (cases b) auto
    have rd: "readable (\<lambda>(key, v). member_text key (text_of v)) x y"
      if "x \<in> set kvs" "y \<in> set lws" for x y
    proof -
      obtain k v l w where xy: "x = (k, v)" "y = (l, w)" by (cases x; cases y)
      with that "6.prems" b have "normal_numbers v" "normal_numbers w"
        by (auto simp: list_all_iff)
      with "6.IH" [of x k v w] that xy have "readable text_of v w" by blast
      then show ?thesis
        unfolding xy by (intro member_readable) (rule readableD)
    qed
    have "kvs = lws \<and> r = r'"
      using r b by (intro braces_inject [of kvs lws, OF rd]) simp_all
    with b show "JObject kvs = b \<and> r = r'" by simp
  qed
qed

lemma canon_normal_numbers: "wf_json j \<Longrightarrow> json_ok j \<Longrightarrow> normal_numbers (canon j)"
proof (induction j rule: canon.induct)
  case (1 x)
  then show ?case by (cases x) auto
next
  case (3 kvs)
  then show ?case by (fastforce simp: list_all_iff)
qed (auto simp: list_all_iff)

lemma jcs_inject:
  assumes "wf_json a" "wf_json b" "json_ok a" "json_ok b"
  shows "jcs a = jcs b \<longleftrightarrow> canon a = canon b"
  using readableD [OF text_of_readable, of "canon a" "canon b" "[]" "[]"] assms
  by (auto simp: jcs_text_of canon_normal_numbers ends_value_def)

text \<open>
  A text cannot be a proper prefix of another: what follows a value in a larger text is never
  needed to know where the value ends, unless the value is a number.
\<close>

lemma jcs_prefix_free:
  assumes "wf_json a" "wf_json b" "json_ok a" "json_ok b"
    and "jcs a @ r = jcs b @ r'" "ends_value r" "ends_value r'"
  shows "canon a = canon b \<and> r = r'"
  using readableD [OF text_of_readable, of "canon a" "canon b" r r'] assms
  by (auto simp: jcs_text_of canon_normal_numbers)

end
