(* ===== verification/Canonical_Json_Heap.thy ===== *)
theory Canonical_Json_Heap
  imports Canonical_Json
begin

text \<open>
  \<open>canonicalJsonV2\<close> as it is called: on a JavaScript value that may share objects, contain
  cycles, holes, getters, symbols or values with no JSON form. Objects live in a heap and are
  reached by address, so the set of ancestors the encoder keeps to detect cycles is a list of
  addresses. The encoder terminates on every heap because the ancestors grow, and it returns
  exactly the canonical text of the JSON tree the value denotes, when it denotes one.
\<close>

section \<open>JavaScript values\<close>

datatype js_value =
    VUndefined
  | VNull
  | VBool bool
  | VNumber js_number
  | VString js_string
  | VBigInt int
  | VSymbol
  | VFunction
  | VRef nat

text \<open>
  An array is its elements, with \<open>None\<close> for a hole, and whether it owns another property than
  its indices and \<open>length\<close>. Any other object is whether its prototype is \<open>Object.prototype\<close>
  or \<open>null\<close>, whether it owns a symbol key, and its string keys in order, each with whether it is an
  enumerable data property.
\<close>

datatype js_object =
    ArrayObject "js_value option list" bool
  | OtherObject bool bool "(js_string \<times> bool \<times> js_value) list"

type_synonym js_heap = "js_object list"

section \<open>The encoder\<close>

function (sequential)
  encodeJcsValue :: "js_heap \<Rightarrow> nat list \<Rightarrow> js_value \<Rightarrow> (jcs_error, js_string) result" and
  encodeObjectOrArray :: "js_heap \<Rightarrow> nat list \<Rightarrow> nat \<Rightarrow> (jcs_error, js_string) result" and
  encodeArray :: "js_heap \<Rightarrow> nat list \<Rightarrow> js_value option list \<Rightarrow> bool
    \<Rightarrow> (jcs_error, js_string) result" and
  encodeObject :: "js_heap \<Rightarrow> nat list \<Rightarrow> bool \<Rightarrow> bool \<Rightarrow> (js_string \<times> bool \<times> js_value) list
    \<Rightarrow> (jcs_error, js_string) result"
where
  "encodeJcsValue h ancestors VNull = Inr (js ''null'')"
| "encodeJcsValue h ancestors (VString s) =
     bindR (assertUnicodeScalarSequence s) (\<lambda>_. Inr (json_quote s))"
| "encodeJcsValue h ancestors (VNumber x) =
     bindR (ensure (is_finite x) NonFiniteNumber) (\<lambda>_. Inr (number_to_string x))"
| "encodeJcsValue h ancestors (VBool b) = Inr (js (if b then ''true'' else ''false''))"
| "encodeJcsValue h ancestors (VRef a) = encodeObjectOrArray h ancestors a"
| "encodeJcsValue h ancestors _ = Inl UnsupportedType"
| "encodeObjectOrArray h ancestors a =
     (if a \<in> set ancestors then Inl CyclicValue
      else if length h \<le> a then Inl NoSuchObject
      else (case h ! a of
              ArrayObject elems extra \<Rightarrow> encodeArray h (a # ancestors) elems extra
            | OtherObject plain symbols props \<Rightarrow>
                encodeObject h (a # ancestors) plain symbols props))"
| "encodeArray h ancestors elems extra =
     bindR (ensure (None \<notin> set elems) SparseArray) (\<lambda>_.
     bindR (ensure (\<not> extra) ArrayProperties) (\<lambda>_.
     bindR (traverseR (\<lambda>x. encodeJcsValue h ancestors (case x of None \<Rightarrow> VUndefined | Some v \<Rightarrow> v)) elems)
       (\<lambda>ys. Inr (brackets ys))))"
| "encodeObject h ancestors plain symbols props =
     bindR (ensure plain NotPlainObject) (\<lambda>_.
     bindR (ensure (\<not> symbols) SymbolKey) (\<lambda>_.
     bindR (traverseR (\<lambda>(key, enumerable, _).
              bindR (ensure enumerable NotDataProperty) (\<lambda>_. assertUnicodeScalarSequence key)) props) (\<lambda>_.
     bindR (traverseR (\<lambda>(key, _, v).
              bindR (encodeJcsValue h ancestors v) (\<lambda>s. Inr (member_text key s)))
              (js_sort_entries compareJcsUtf16 props))
       (\<lambda>ys. Inr (braces ys)))))"
  by pat_completeness auto

text \<open>
  The ancestors are distinct addresses of the heap, so the addresses left to enter shrink with
  every object entered; the stage orders the calls in between.
\<close>

definition free_addresses :: "js_heap \<Rightarrow> nat list \<Rightarrow> nat" where
  "free_addresses h ancestors = card ({..<length h} - set ancestors)"

lemma free_addresses_decr:
  "a \<notin> set ancestors \<Longrightarrow> a < length h \<Longrightarrow> free_addresses h (a # ancestors) < free_addresses h ancestors"
  unfolding free_addresses_def by (rule psubset_card_mono) auto

termination encodeJcsValue
proof (relation "measure (\<lambda>x. case x of
      Inl (Inl (h, anc, v)) \<Rightarrow> 3 * free_addresses h anc + 1
    | Inl (Inr (h, anc, a)) \<Rightarrow> 3 * free_addresses h anc
    | Inr (Inl (h, anc, elems, extra)) \<Rightarrow> 3 * free_addresses h anc + 2
    | Inr (Inr (h, anc, plain, symbols, props)) \<Rightarrow> 3 * free_addresses h anc + 2)", goal_cases)
  case (3 h ancestors a elems extra)
  then show ?case
    using free_addresses_decr [of a ancestors h] by simp
next
  case (4 h ancestors a plain symbols props)
  then show ?case
    using free_addresses_decr [of a ancestors h] by simp
qed simp_all

definition canonicalJsonV2 :: "js_heap \<Rightarrow> js_value \<Rightarrow> (jcs_error, js_string) result" where
  "canonicalJsonV2 h value = encodeJcsValue h [] value"

section \<open>The JSON tree a value denotes\<close>

inductive denotes :: "js_heap \<Rightarrow> js_value \<Rightarrow> json \<Rightarrow> bool" for h where
  null: "denotes h VNull JNull"
| bool: "denotes h (VBool b) (JBool b)"
| number: "denotes h (VNumber x) (JNumber x)"
| string: "denotes h (VString s) (JString s)"
| array: "a < length h \<Longrightarrow> h ! a = ArrayObject (map Some vs) False
    \<Longrightarrow> list_all2 (denotes h) vs xs \<Longrightarrow> denotes h (VRef a) (JArray xs)"
| object: "a < length h \<Longrightarrow> h ! a = OtherObject True False (map2 (\<lambda>k v. (k, True, v)) ks vs)
    \<Longrightarrow> length ks = length vs \<Longrightarrow> list_all2 (denotes h) vs xs
    \<Longrightarrow> denotes h (VRef a) (JObject (zip ks xs))"

inductive_cases denotes_VRefE: "denotes h (VRef a) j"
inductive_simps denotes_simps [simp]:
  "denotes h VNull j" "denotes h (VBool b) j" "denotes h (VNumber x) j" "denotes h (VString s) j"
  "denotes h VUndefined j" "denotes h (VBigInt i) j" "denotes h VSymbol j" "denotes h VFunction j"

lemma denotes_unique: "denotes h v j \<Longrightarrow> denotes h v j' \<Longrightarrow> j = j'"
proof (induction arbitrary: j' rule: denotes.induct)
  case (array a vs xs)
  from array.prems array.hyps(2) obtain ys
    where "j' = JArray ys" "list_all2 (denotes h) vs ys"
    by (auto elim!: denotes_VRefE simp: inj_map_eq_map)
  with array.IH show ?case
    by (auto simp: list_all2_conv_all_nth intro: nth_equalityI)
next
  case (object a ks vs xs)
  from object.prems obtain ls ws ys where j': "j' = JObject (zip ls ys)"
    and heap: "map2 (\<lambda>k v. (k, True, v)) ks vs = map2 (\<lambda>k v. (k, True, v)) ls ws"
    and len: "length ls = length ws" and ys: "list_all2 (denotes h) ws ys"
    by (rule denotes_VRefE) (simp_all add: object.hyps(2))
  have split: "map fst (map2 (\<lambda>k v. (k, True, v)) ks' vs') = ks'
      \<and> map (snd \<circ> snd) (map2 (\<lambda>k v. (k, True, v)) ks' vs') = vs'"
    if "length ks' = length vs'" for ks' :: "js_string list" and vs' :: "js_value list"
    using that by (induction ks' vs' rule: list_induct2) auto
  from split [OF object.hyps(3)] split [OF len] heap have "ls = ks" "ws = vs"
    by metis+
  with ys object.IH have "xs = ys"
    by (auto simp: list_all2_conv_all_nth intro: nth_equalityI)
  with j' \<open>ls = ks\<close> show ?case by simp
qed auto

lemma size_json_mem:
  "x \<in> set xs \<Longrightarrow> size x < size (JArray xs)"
  "x \<in> set xs \<Longrightarrow> length ks = length xs \<Longrightarrow> size x < size (JObject (zip ks xs))"
proof -
  show "x \<in> set xs \<Longrightarrow> size x < size (JArray xs)"
    by (induction xs) auto
  have "size x < Suc (size_list (size_prod (\<lambda>_. 0) size) (zip ks xs))"
    if "x \<in> set xs" "length ks = length xs"
    using that(2,1) by (induction ks xs rule: list_induct2) auto
  then show "x \<in> set xs \<Longrightarrow> length ks = length xs \<Longrightarrow> size x < size (JObject (zip ks xs))"
    by simp
qed

text \<open>
  The encoder agrees with the tree encoder wherever the value denotes a tree, under any ancestors
  whose own trees are larger: on such a path no object can be its own ancestor.
\<close>

definition above :: "js_heap \<Rightarrow> nat list \<Rightarrow> json \<Rightarrow> bool" where
  "above h ancestors j \<longleftrightarrow> (\<forall>a \<in> set ancestors. \<exists>k. denotes h (VRef a) k \<and> size j < size k)"

lemma above_enter:
  "above h ancestors j \<Longrightarrow> denotes h (VRef a) j \<Longrightarrow> size x < size j \<Longrightarrow> above h (a # ancestors) x"
  by (fastforce simp: above_def intro: less_trans)

lemma above_notin: "above h ancestors j \<Longrightarrow> denotes h (VRef a) j \<Longrightarrow> a \<notin> set ancestors"
  by (auto simp: above_def dest: denotes_unique)

lemma encode_denoted:
  "denotes h v j \<Longrightarrow> above h ancestors j \<Longrightarrow> encodeJcsValue h ancestors v = canonical_json j"
proof (induction arbitrary: ancestors rule: denotes.induct)
  case (array a vs xs)
  then have d: "denotes h (VRef a) (JArray xs)"
    by (auto intro!: denotes.array elim: list_all2_mono)
  have "above h (a # ancestors) x" if "x \<in> set xs" for x
    using above_enter [OF array.prems d] that by (simp add: size_json_mem(1) del: json.size)
  then have "traverseR (encodeJcsValue h (a # ancestors)) vs = traverseR canonical_json xs"
    using array.IH by (intro traverseR_list_all2) (auto simp: list_all2_conv_all_nth)
  with array.hyps above_notin [OF array.prems d] show ?case
    by (auto simp: traverseR_map comp_def)
next
  case (object a ks vs xs)
  let ?props = "map2 (\<lambda>k v. (k, True, v)) ks vs"
  from object have d: "denotes h (VRef a) (JObject (zip ks xs))"
    by (auto intro!: denotes.object elim: list_all2_mono)
  have len: "length ks = length xs"
    using object.hyps(3) object.IH by (auto dest: list_all2_lengthD)
  have "above h (a # ancestors) x" if "x \<in> set xs" for x
    using above_enter [OF object.prems d] that len by (simp add: size_json_mem(2) del: json.size)
  then have "list_all2 (\<lambda>x y. fst x = fst y \<and>
      encodeJcsValue h (a # ancestors) (snd (snd x)) = canonical_json (snd y)) ?props (zip ks xs)"
    using object.IH len object.hyps(3) by (auto simp: list_all2_conv_all_nth)
  note sorted = list_all2_js_sort_entries [OF this, of compareJcsUtf16]
  have vals: "traverseR (\<lambda>(key, _, v).
        bindR (encodeJcsValue h (a # ancestors) v) (\<lambda>s. Inr (member_text key s)))
        (js_sort_entries compareJcsUtf16 ?props)
      = traverseR (\<lambda>(key, v). bindR (canonical_json v) (\<lambda>s. Inr (member_text key s)))
        (js_sort_entries compareJcsUtf16 (zip ks xs))"
    by (intro traverseR_list_all2 list_all2_mono [OF sorted]) auto
  have keys: "traverseR (\<lambda>(key, enumerable, _).
        bindR (ensure enumerable NotDataProperty) (\<lambda>_. assertUnicodeScalarSequence key)) ?props
      = traverseR (\<lambda>(key, _). assertUnicodeScalarSequence key) (zip ks xs)"
    using len object.hyps(3)
    by (intro traverseR_list_all2) (auto simp: list_all2_conv_all_nth)
  from object.hyps above_notin [OF object.prems d] show ?case
    by (simp add: vals keys del: traverseR.simps)
qed simp_all

text \<open>
  Conversely a value that is encoded denotes a tree: the guards of the encoder are exactly the
  conditions of \<open>denotes\<close>.
\<close>

lemma list_all2_choice: "\<forall>v \<in> set vs. \<exists>j. P v j \<Longrightarrow> \<exists>js. list_all2 P vs js"
  by (induction vs) (auto simp: list_all2_Cons1)

lemma total_elements: "None \<notin> set elems \<Longrightarrow> elems = map Some (map the elems)"
  by (induction elems) auto

lemma enumerable_props:
  "\<forall>p \<in> set props. fst (snd p) \<Longrightarrow>
    props = map2 (\<lambda>k v. (k, True, v)) (map fst props) (map (snd \<circ> snd) props)"
  by (induction props) auto

lemma array_denotes:
  assumes "a < length h" "h ! a = ArrayObject elems extra"
    and "None \<notin> set elems \<and> \<not> extra \<and> (\<forall>v. Some v \<in> set elems \<longrightarrow> (\<exists>j. denotes h v j))"
  shows "\<exists>j. denotes h (VRef a) j"
proof -
  have "\<forall>v \<in> set (map the elems). \<exists>j. denotes h v j"
    using assms(3) by (auto, metis option.exhaust_sel)
  then obtain xs where "list_all2 (denotes h) (map the elems) xs"
    using list_all2_choice by blast
  moreover have "h ! a = ArrayObject (map Some (map the elems)) False"
    using assms total_elements by metis
  ultimately show ?thesis
    using assms(1) denotes.array by blast
qed

lemma object_denotes:
  assumes "a < length h" "h ! a = OtherObject plain symbols props"
    and "plain \<and> \<not> symbols \<and> (\<forall>p \<in> set props. fst (snd p) \<and> (\<exists>j. denotes h (snd (snd p)) j))"
  shows "\<exists>j. denotes h (VRef a) j"
proof -
  have "\<forall>v \<in> set (map (snd \<circ> snd) props). \<exists>j. denotes h v j"
    using assms(3) by auto
  then obtain xs where "list_all2 (denotes h) (map (snd \<circ> snd) props) xs"
    using list_all2_choice by blast
  moreover have "h ! a = OtherObject True False
      (map2 (\<lambda>k v. (k, True, v)) (map fst props) (map (snd \<circ> snd) props))"
    using assms enumerable_props [of props] by simp
  ultimately show ?thesis
    using assms(1) denotes.object by (metis length_map)
qed

lemma encode_denotes:
  "encodeJcsValue h anc v = Inr s \<Longrightarrow> \<exists>j. denotes h v j"
  "encodeObjectOrArray h anc a = Inr s \<Longrightarrow> \<exists>j. denotes h (VRef a) j"
  "encodeArray h anc elems extra = Inr s \<Longrightarrow>
    None \<notin> set elems \<and> \<not> extra \<and> (\<forall>v. Some v \<in> set elems \<longrightarrow> (\<exists>j. denotes h v j))"
  "encodeObject h anc plain symbols props = Inr s \<Longrightarrow> plain \<and> \<not> symbols
    \<and> (\<forall>p \<in> set props. fst (snd p) \<and> (\<exists>j. denotes h (snd (snd p)) j))"
proof (induction h anc v and h anc a and h anc elems extra and h anc plain symbols props
    arbitrary: s and s and s and s
    rule: encodeJcsValue_encodeObjectOrArray_encodeArray_encodeObject.induct)
  case (7 h ancestors a)
  show ?case
  proof (cases "h ! a")
    case (ArrayObject elems extra)
    with 7 show ?thesis
      by (intro array_denotes [OF _ ArrayObject]) (auto split: if_splits)
  next
    case (OtherObject plain symbols props)
    with 7 show ?thesis
      by (intro object_denotes [OF _ OtherObject]) (auto split: if_splits)
  qed
next
  case (8 h ancestors elems extra)
  from 8(2) have *: "None \<notin> set elems" "\<not> extra"
    and enc: "\<exists>ys. traverseR (\<lambda>x. encodeJcsValue h ancestors
      (case x of None \<Rightarrow> VUndefined | Some v \<Rightarrow> v)) elems = Inr ys"
    by (auto simp: bindR_eq_Inr ensure_eq)
  have "\<exists>j. denotes h v j" if mem: "Some v \<in> set elems" for v
  proof -
    from enc mem obtain y where "encodeJcsValue h ancestors v = Inr y"
      by (fastforce dest: traverseR_InrD)
    with 8(1) [of "()" "()" "Some v"] mem * show ?thesis
      by (simp add: ensure_def)
  qed
  with * show ?case by blast
next
  case (9 h ancestors plain symbols props)
  from 9(2) have *: "plain" "\<not> symbols"
    and keys: "\<exists>us. traverseR (\<lambda>(key, enumerable, _). bindR (ensure enumerable NotDataProperty)
      (\<lambda>_. assertUnicodeScalarSequence key)) props = Inr us"
    and vals: "\<exists>ys. traverseR (\<lambda>(key, _, v).
        bindR (encodeJcsValue h ancestors v) (\<lambda>s. Inr (member_text key s)))
        (js_sort_entries compareJcsUtf16 props) = Inr ys"
    by (auto simp: bindR_eq_Inr ensure_eq)
  have "e \<and> (\<exists>j. denotes h v j)" if mem: "(k, e, v) \<in> set props" for k e v
  proof -
    from keys mem have "e"
      by (fastforce dest: traverseR_InrD simp: bindR_eq_Inr ensure_eq)
    moreover from vals mem obtain y where "encodeJcsValue h ancestors v = Inr y"
      by (fastforce dest: traverseR_InrD simp: bindR_eq_Inr)
    ultimately show ?thesis
      using 9(1) [of "()" "()" _ "(k, e, v)" k "(e, v)" e v] keys mem * by (fastforce simp: ensure_def)
  qed
  then have "\<forall>p \<in> set props. fst (snd p) \<and> (\<exists>j. denotes h (snd (snd p)) j)"
    by (metis prod.collapse)
  with * show ?case by blast
qed auto

text \<open>
  C32: \<open>canonicalJsonV2\<close> returns a text on a JavaScript value, in any heap, exactly when the value
  denotes a JSON tree (no sharing back to an ancestor, no hole, getter, symbol or foreign
  prototype below it) that the tree encoder accepts, and then the text is the tree's. In
  particular it terminates on cyclic values.
\<close>

theorem canonicalJsonV2_denotes:
  "canonicalJsonV2 h v = Inr s \<longleftrightarrow> (\<exists>j. denotes h v j \<and> canonical_json j = Inr s)"
proof -
  have "encodeJcsValue h [] v = canonical_json j" if "denotes h v j" for j
    using encode_denoted [OF that] by (simp add: above_def)
  then show ?thesis
    unfolding canonicalJsonV2_def using encode_denotes(1) by metis
qed

end
