(* ===== verification/Text_Encoder.thy ===== *)
theory Text_Encoder
  imports Canonical_Json
begin

text \<open>
  \<open>TextEncoder.encode\<close>, through which every hashed text becomes bytes: a string is read as
  Unicode scalar values, a lone surrogate as U+FFFD, and each scalar value is written in UTF-8.
  On the strings that pass \<open>assertUnicodeScalarSequence\<close> the bytes identify the string.
\<close>

type_synonym bytes = "8 word list"

section \<open>Scalar values\<close>

fun scalar_values :: "js_string \<Rightarrow> nat list" where
  "scalar_values [] = []"
| "scalar_values (c # cs) =
     (if is_high_surrogate c
      then (case cs of
              [] \<Rightarrow> [0xfffd]
            | d # ds \<Rightarrow>
                if is_low_surrogate d
                then (0x10000 + (unat c - 0xd800) * 0x400 + (unat d - 0xdc00)) # scalar_values ds
                else 0xfffd # scalar_values cs)
      else (if is_low_surrogate c then 0xfffd else unat c) # scalar_values cs)"

definition utf8_units :: "nat \<Rightarrow> nat list" where
  "utf8_units c =
     (if c < 0x80 then [c]
      else if c < 0x800 then [0xc0 + c div 0x40, 0x80 + c mod 0x40]
      else if c < 0x10000
        then [0xe0 + c div 0x1000, 0x80 + c div 0x40 mod 0x40, 0x80 + c mod 0x40]
      else [0xf0 + c div 0x40000, 0x80 + c div 0x1000 mod 0x40,
            0x80 + c div 0x40 mod 0x40, 0x80 + c mod 0x40])"

definition encode_utf8 :: "js_string \<Rightarrow> bytes" where
  "encode_utf8 s = map of_nat (concat (map utf8_units (scalar_values s)))"

section \<open>The bytes identify the text\<close>

lemma surrogate_nat:
  "is_high_surrogate c \<longleftrightarrow> 0xd800 \<le> unat c \<and> unat c \<le> 0xdbff"
  "is_low_surrogate c \<longleftrightarrow> 0xdc00 \<le> unat c \<and> unat c \<le> 0xdfff"
  by (simp_all add: is_high_surrogate_def is_low_surrogate_def word_le_nat_alt)

lemma high_not_low: "is_high_surrogate c \<Longrightarrow> \<not> is_low_surrogate c"
  using surrogate_nat [of c] by linarith

lemma ascii_not_surrogate: "unat c < 0x80 \<Longrightarrow> \<not> is_high_surrogate c \<and> \<not> is_low_surrogate c"
  using surrogate_nat [of c] by linarith

definition pair_value :: "code_unit \<Rightarrow> code_unit \<Rightarrow> nat" where
  "pair_value c d = 0x10000 + (unat c - 0xd800) * 0x400 + (unat d - 0xdc00)"

lemma pair_value_bounds:
  "is_high_surrogate c \<Longrightarrow> is_low_surrogate d \<Longrightarrow> 0x10000 \<le> pair_value c d \<and> pair_value c d < 0x110000"
  unfolding pair_value_def surrogate_nat by linarith

lemma digits_inject:
  fixes a b c d :: nat
  assumes "a * k + b = c * k + d" "b < k" "d < k"
  shows "a = c \<and> b = d"
proof -
  from assms have "(a * k + b) div k = (c * k + d) div k" "(a * k + b) mod k = (c * k + d) mod k"
    by simp_all
  with assms(2,3) show ?thesis by simp
qed

lemma pair_value_inject:
  assumes "is_high_surrogate a" "is_low_surrogate b" "is_high_surrogate c" "is_low_surrogate d"
    and "pair_value a b = pair_value c d"
  shows "a = c \<and> b = d"
proof -
  from assms obtain x y z w where *: "unat a = 0xd800 + x" "unat b = 0xdc00 + y" "y < 0x400"
      "unat c = 0xd800 + z" "unat d = 0xdc00 + w" "w < 0x400"
    unfolding surrogate_nat le_iff_add by auto
  with assms(5) have "x * 0x400 + y = z * 0x400 + w"
    by (simp add: pair_value_def)
  with * have "unat a = unat c \<and> unat b = unat d"
    using digits_inject by metis
  then show ?thesis by (simp only: unat_inject)
qed

lemma scalar_values_Cons [simp]:
  "is_high_surrogate c \<Longrightarrow> is_low_surrogate d \<Longrightarrow> scalar_values (c # d # s) = pair_value c d # scalar_values s"
  "is_high_surrogate c \<Longrightarrow> \<not> is_low_surrogate d \<Longrightarrow> scalar_values (c # d # s) = 0xfffd # scalar_values (d # s)"
  "is_high_surrogate c \<Longrightarrow> scalar_values [c] = [0xfffd]"
  "is_low_surrogate c \<Longrightarrow> scalar_values (c # s) = 0xfffd # scalar_values s"
  "\<not> is_high_surrogate c \<Longrightarrow> \<not> is_low_surrogate c \<Longrightarrow> scalar_values (c # s) = unat c # scalar_values s"
  by (auto simp: pair_value_def dest: high_not_low)

declare scalar_values.simps(2) [simp del]

lemma scalar_values_Nil: "scalar_values s = [] \<longleftrightarrow> s = []"
  by (cases s) (auto simp: scalar_values.simps(2) split: list.splits)

text \<open>What a scalar sequence is made of: pairs, and units that are no surrogates.\<close>

lemma scalar_sequence_cases:
  assumes "is_scalar_sequence s"
  obtains "s = []"
  | c d t where "s = c # d # t" "is_high_surrogate c" "is_low_surrogate d" "is_scalar_sequence t"
  | c t where "s = c # t" "\<not> is_high_surrogate c" "\<not> is_low_surrogate c" "is_scalar_sequence t"
  using assms by (cases s) (auto split: if_splits list.splits)

lemma scalar_sequence_induct [consumes 1, case_names Nil Pair Unit]:
  assumes "is_scalar_sequence s" and "P []"
    and "\<And>c d t. is_high_surrogate c \<Longrightarrow> is_low_surrogate d \<Longrightarrow> is_scalar_sequence t \<Longrightarrow> P t
      \<Longrightarrow> P (c # d # t)"
    and "\<And>c t. \<not> is_high_surrogate c \<Longrightarrow> \<not> is_low_surrogate c \<Longrightarrow> is_scalar_sequence t \<Longrightarrow> P t
      \<Longrightarrow> P (c # t)"
  shows "P s"
  using assms(1)
proof (induction "length s" arbitrary: s rule: less_induct)
  case less
  from less.prems show ?case
    by (cases rule: scalar_sequence_cases) (simp_all add: assms(2-4) less.hyps)
qed

lemma scalar_values_bound: "c \<in> set (scalar_values s) \<Longrightarrow> c < 0x110000"
proof (induction s rule: scalar_values.induct)
  case (2 u us)
  have "unat u < 65536" by (rule unat_code_unit)
  with 2 show ?case
    using pair_value_bounds [of u "hd us"]
    by (cases "is_high_surrogate u"; cases "is_low_surrogate u"; cases us;
        cases "is_low_surrogate (hd us)") auto
qed simp

lemma scalar_values_inject:
  "is_scalar_sequence s \<Longrightarrow> is_scalar_sequence t \<Longrightarrow> scalar_values s = scalar_values t \<Longrightarrow> s = t"
proof (induction s arbitrary: t rule: scalar_sequence_induct)
  case Nil
  from Nil.prems(2) have "scalar_values t = []" by simp
  then show ?case by (simp only: scalar_values_Nil)
next
  case (Pair c d s)
  note v = pair_value_bounds [OF Pair.hyps(1,2)]
  from Pair.prems(1) show ?case
  proof (cases rule: scalar_sequence_cases)
    case 1
    with Pair.hyps Pair.prems(2) show ?thesis by simp
  next
    case (2 e f u)
    with Pair.hyps Pair.prems(2)
    have "pair_value c d = pair_value e f" "scalar_values s = scalar_values u" by simp_all
    with 2 Pair.hyps Pair.IH pair_value_inject show ?thesis by blast
  next
    case (3 e u)
    with Pair.hyps Pair.prems(2) have "pair_value c d = unat e" by simp
    with v unat_code_unit [of e] show ?thesis by simp
  qed
next
  case (Unit c s)
  from Unit.prems(1) show ?case
  proof (cases rule: scalar_sequence_cases)
    case 1
    with Unit.hyps Unit.prems(2) show ?thesis by simp
  next
    case (2 e f u)
    with Unit.hyps Unit.prems(2) have "unat c = pair_value e f" by simp
    with pair_value_bounds [OF 2(2,3)] unat_code_unit [of c] show ?thesis by simp
  next
    case (3 e u)
    with Unit.hyps Unit.prems(2) have "unat c = unat e" "scalar_values s = scalar_values u"
      by simp_all
    with 3 Unit.IH show ?thesis by (metis unat_inject)
  qed
qed

text \<open>The four lengths of an encoded scalar value, with its digits to the base 64.\<close>

inductive utf8_form :: "nat \<Rightarrow> nat list \<Rightarrow> bool" where
  "c < 0x80 \<Longrightarrow> utf8_form c [c]"
| "p < 0x20 \<Longrightarrow> q < 0x40 \<Longrightarrow> c = p * 0x40 + q \<Longrightarrow> utf8_form c [0xc0 + p, 0x80 + q]"
| "p < 0x10 \<Longrightarrow> q < 0x40 \<Longrightarrow> r < 0x40 \<Longrightarrow> c = (p * 0x40 + q) * 0x40 + r
    \<Longrightarrow> utf8_form c [0xe0 + p, 0x80 + q, 0x80 + r]"
| "p < 0x8 \<Longrightarrow> q < 0x40 \<Longrightarrow> r < 0x40 \<Longrightarrow> s < 0x40
    \<Longrightarrow> c = ((p * 0x40 + q) * 0x40 + r) * 0x40 + s
    \<Longrightarrow> utf8_form c [0xf0 + p, 0x80 + q, 0x80 + r, 0x80 + s]"

inductive_cases utf8_formE: "utf8_form c us"

lemma utf8_form_units: "c < 0x110000 \<Longrightarrow> utf8_form c (utf8_units c)"
proof -
  assume c: "c < 0x110000"
  have div: "c div 0x1000 = c div 0x40 div 0x40" "c div 0x40000 = c div 0x1000 div 0x40"
    by (simp_all flip: div_mult2_eq)
  have digits: "c = c div 0x40 * 0x40 + c mod 0x40"
      "c div 0x40 = c div 0x1000 * 0x40 + c div 0x40 mod 0x40"
      "c div 0x1000 = c div 0x40000 * 0x40 + c div 0x1000 mod 0x40"
    unfolding div by (simp_all only: div_mult_mod_eq)
  consider "c < 0x80" | "\<not> c < 0x80" "c < 0x800" | "\<not> c < 0x800" "c < 0x10000" | "\<not> c < 0x10000"
    by linarith
  then show ?thesis
  proof cases
    case 1
    then show ?thesis by (simp add: utf8_units_def utf8_form.intros)
  next
    case 2
    then have "c div 0x40 < 0x20" by simp
    with 2 digits show ?thesis by (simp only: utf8_units_def if_True if_False) (rule utf8_form.intros, simp_all)
  next
    case 3
    then have "c div 0x1000 < 0x10" "\<not> c < 0x80" by simp_all
    with 3 digits show ?thesis by (simp only: utf8_units_def if_True if_False) (rule utf8_form.intros, simp_all)
  next
    case 4
    with c have "c div 0x40000 < 0x8" "\<not> c < 0x80" "\<not> c < 0x800" by simp_all
    with 4 digits show ?thesis by (simp only: utf8_units_def if_True if_False) (rule utf8_form.intros, simp_all)
  qed
qed

lemma utf8_form_inject:
  "utf8_form c us \<Longrightarrow> utf8_form d vs \<Longrightarrow> us @ x = vs @ y \<Longrightarrow> c = d \<and> x = y"
  by (elim utf8_formE) simp_all

lemma utf8_units_inject:
  "c < 0x110000 \<Longrightarrow> d < 0x110000 \<Longrightarrow> utf8_units c @ x = utf8_units d @ y \<Longrightarrow> c = d \<and> x = y"
  using utf8_form_inject utf8_form_units by blast

lemma utf8_form_bound: "utf8_form c us \<Longrightarrow> u \<in> set us \<Longrightarrow> u < 256"
  by (elim utf8_formE) auto

lemma utf8_units_bound: "c < 0x110000 \<Longrightarrow> u \<in> set (utf8_units c) \<Longrightarrow> u < 256"
  using utf8_form_bound utf8_form_units by blast

lemma utf8_units_nonempty [simp]: "utf8_units c \<noteq> []"
  by (simp add: utf8_units_def)

lemma concat_utf8_inject:
  "\<forall>c \<in> set cs. c < 0x110000 \<Longrightarrow> \<forall>d \<in> set ds. d < 0x110000
    \<Longrightarrow> concat (map utf8_units cs) = concat (map utf8_units ds) \<Longrightarrow> cs = ds"
proof (induction cs arbitrary: ds)
  case Nil
  then show ?case by (cases ds) auto
next
  case (Cons c cs)
  from Cons.prems(3) obtain d es where "ds = d # es" by (cases ds) auto
  with Cons.prems have "c = d \<and> concat (map utf8_units cs) = concat (map utf8_units es)"
    by (intro utf8_units_inject) simp_all
  with Cons.IH [of es] Cons.prems \<open>ds = d # es\<close> show ?case by simp
qed

lemma map_byte_inject:
  assumes "\<forall>u \<in> set us. u < 256" "\<forall>v \<in> set vs. v < 256"
    and "map of_nat us = (map of_nat vs :: bytes)"
  shows "us = vs"
proof -
  have "map unat (map of_nat ws :: bytes) = ws" if "\<forall>w \<in> set ws. w < 256" for ws
    using that by (induction ws) (auto simp: unsigned_of_nat take_bit_nat_eq_self)
  with assms show ?thesis by metis
qed

lemma encode_utf8_inject:
  assumes "is_scalar_sequence s" "is_scalar_sequence t" "encode_utf8 s = encode_utf8 t"
  shows "s = t"
proof -
  have "\<forall>u \<in> set (concat (map utf8_units (scalar_values w))). u < 256" for w
    using utf8_units_bound scalar_values_bound by auto
  with assms(3) have "concat (map utf8_units (scalar_values s)) = concat (map utf8_units (scalar_values t))"
    unfolding encode_utf8_def by (intro map_byte_inject) blast+
  with assms show ?thesis
    by (meson concat_utf8_inject scalar_values_bound scalar_values_inject)
qed

text \<open>Texts are encoded piece by piece when no piece ends in half of a pair.\<close>

lemma scalar_values_append:
  "is_scalar_sequence s \<Longrightarrow> scalar_values (s @ t) = scalar_values s @ scalar_values t"
  by (induction s rule: scalar_sequence_induct) auto

lemma encode_utf8_append:
  "is_scalar_sequence s \<Longrightarrow> encode_utf8 (s @ t) = encode_utf8 s @ encode_utf8 t"
  by (simp add: encode_utf8_def scalar_values_append)

lemma is_scalar_sequence_append:
  "is_scalar_sequence s \<Longrightarrow> is_scalar_sequence (s @ t) \<longleftrightarrow> is_scalar_sequence t"
  by (induction s rule: scalar_sequence_induct) auto

section \<open>Canonical texts are scalar sequences\<close>

definition is_ascii :: "js_string \<Rightarrow> bool" where
  "is_ascii s \<longleftrightarrow> list_all (\<lambda>c. unat c < 0x80) s"

lemma is_ascii_simps [simp]:
  "is_ascii []"
  "is_ascii (c # s) \<longleftrightarrow> unat c < 0x80 \<and> is_ascii s"
  "is_ascii (s @ t) \<longleftrightarrow> is_ascii s \<and> is_ascii t"
  by (simp_all add: is_ascii_def)

lemma is_scalar_sequence_ascii: "is_ascii s \<Longrightarrow> is_scalar_sequence s"
  by (induction s) (simp_all add: ascii_not_surrogate)

lemma encode_utf8_ascii: "is_ascii s \<Longrightarrow> encode_utf8 s = map (\<lambda>c. of_nat (unat c)) s"
  by (induction s) (simp_all add: ascii_not_surrogate encode_utf8_def utf8_units_def)

lemma is_number_unit_ascii: "is_number_unit c \<Longrightarrow> unat c < 0x80"
  by (auto simp: is_number_unit_def is_digit_unat)

lemma number_to_string_ascii: "is_finite x \<Longrightarrow> is_ascii (number_to_string x)"
  using number_units [of x] by (auto simp: is_ascii_def list_all_iff is_number_unit_ascii)

lemma escape_unit_surrogate:
  "is_high_surrogate c \<or> is_low_surrogate c \<Longrightarrow> escape_unit c = [c]"
  by (auto simp: escape_unit_def surrogate_nat word_less_nat_alt)

lemma hex_unit_ascii: "n < 16 \<Longrightarrow> unat (hex_unit n) < 0x80"
  by (simp add: unat_hex_unit)

lemma escape_unit_scalar:
  assumes "\<not> is_high_surrogate c" "\<not> is_low_surrogate c"
  shows "is_scalar_sequence (escape_unit c)"
proof (cases "escape_unit c = [c]")
  case True
  with assms show ?thesis by simp
next
  case False
  have "unat c div 16 < 16" if "c < 0x20"
    using that by (simp add: word_less_nat_alt)
  with False have "is_ascii (escape_unit c)"
    by (auto simp: escape_unit_def hex_unit_ascii split: if_splits)
  then show ?thesis by (rule is_scalar_sequence_ascii)
qed

lemma json_quote_scalar: "is_scalar_sequence s \<Longrightarrow> is_scalar_sequence (json_quote s)"
proof -
  assume "is_scalar_sequence s"
  then have "is_scalar_sequence (concat (map escape_unit s))"
    by (induction s rule: scalar_sequence_induct)
       (simp_all add: escape_unit_surrogate is_scalar_sequence_append escape_unit_scalar)
  then show ?thesis
    by (simp add: json_quote_def is_scalar_sequence_append ascii_not_surrogate)
qed

lemma join_comma_scalar:
  "\<forall>x \<in> set xs. is_scalar_sequence x \<Longrightarrow> is_scalar_sequence (join_comma xs)"
  by (induction xs rule: join_comma.induct)
     (simp_all add: is_scalar_sequence_append ascii_not_surrogate)

lemma brackets_braces_scalar:
  assumes "\<forall>x \<in> set xs. is_scalar_sequence x"
  shows "is_scalar_sequence (brackets xs)" "is_scalar_sequence (braces xs)"
  using join_comma_scalar [OF assms]
  by (simp_all add: brackets_def braces_def is_scalar_sequence_append ascii_not_surrogate)

lemma jcs_scalar: "json_ok j \<Longrightarrow> is_scalar_sequence (jcs j)"
proof (induction j rule: jcs.induct)
  case (6 kvs)
  have "is_scalar_sequence (member_text key (jcs v))" if "(key, v) \<in> set kvs" for key v
    using that 6 by (force simp: member_text_def json_quote_scalar is_scalar_sequence_append
        ascii_not_surrogate list_all_iff)
  then show ?case
    by (auto intro!: brackets_braces_scalar)
next
  case (5 xs)
  then show ?case by (auto intro!: brackets_braces_scalar simp: list_all_iff)
qed (simp_all add: is_scalar_sequence_ascii number_to_string_ascii json_quote_scalar
  is_high_surrogate_def is_low_surrogate_def)

end
