(* ===== verification/Hash_Types.thy ===== *)
theory Hash_Types
  imports Text_Encoder
begin

text \<open>
  \<open>packages/hashing/src/v2/types.ts\<close>: the identities that are hashed, one record for each
  interface, with the fields of the interface in its order under a prefix of its own. A field
  whose type is a single literal (a profile, a provider) is not stored: the hash functions
  write the literal. A field of type \<open>CanonicalJsonObject\<close> is the list of the object's members.
\<close>

type_synonym json_object = "(js_string \<times> json) list"

datatype converter_name =
  CanonicalJsonl | EvalscopeGeneralQa | TrlSft | TrlDpo | TrlGrpoRlvr | MsSwift

fun converter_text :: "converter_name \<Rightarrow> js_string" where
  "converter_text CanonicalJsonl = js ''canonical-jsonl''"
| "converter_text EvalscopeGeneralQa = js ''evalscope-general-qa''"
| "converter_text TrlSft = js ''trl-sft''"
| "converter_text TrlDpo = js ''trl-dpo''"
| "converter_text TrlGrpoRlvr = js ''trl-grpo-rlvr''"
| "converter_text MsSwift = js ''ms-swift''"

datatype source_mutability = Immutable | Mutable | UnknownMutability

fun mutability_text :: "source_mutability \<Rightarrow> js_string" where
  "mutability_text Immutable = js ''immutable''"
| "mutability_text Mutable = js ''mutable''"
| "mutability_text UnknownMutability = js ''unknown''"

datatype verification_level = ContentVerified | ProviderVerified | OperatorAttested | Unverified

fun verification_text :: "verification_level \<Rightarrow> js_string" where
  "verification_text ContentVerified = js ''content_verified''"
| "verification_text ProviderVerified = js ''provider_verified''"
| "verification_text OperatorAttested = js ''operator_attested''"
| "verification_text Unverified = js ''unverified''"

lemma literal_text_inject [simp]:
  "converter_text c = converter_text d \<longleftrightarrow> c = d"
  "mutability_text m = mutability_text n \<longleftrightarrow> m = n"
  "verification_text v = verification_text w \<longleftrightarrow> v = w"
  by ((cases c; cases d; simp), (cases m; cases n; simp), (cases v; cases w; simp))

section \<open>Export fidelity\<close>

datatype fidelity_action = Transformed | Dropped
datatype fidelity_impact = NoImpact | Informational | Semantic

fun action_text :: "fidelity_action \<Rightarrow> js_string" where
  "action_text Transformed = js ''transformed''"
| "action_text Dropped = js ''dropped''"

fun impact_text :: "fidelity_impact \<Rightarrow> js_string" where
  "impact_text NoImpact = js ''none''"
| "impact_text Informational = js ''informational''"
| "impact_text Semantic = js ''semantic''"

datatype fidelity_change = FidelityChange
  (change_path: js_string) (change_action: fidelity_action)
  (change_impact: fidelity_impact) (change_reason: js_string)

record export_fidelity =
  preserved :: "js_string list"
  changes :: "fidelity_change list"

section \<open>Identities\<close>

record source_root_seed =
  sr_namespace :: js_string
  sr_name :: js_string
  sr_kind :: js_string
  sr_original_id :: js_string

record artifact_row_seed =
  ar_namespace :: js_string
  ar_source_artifact_digest :: js_string
  ar_row_index :: js_number

record direct_root_seed =
  dr_namespace :: js_string
  dr_idempotency_key_or_random_seed :: js_string

record derived_record_seed =
  der_op :: js_string
  der_op_version :: js_string
  der_params :: json_object
  der_parent_ids :: "js_string list"
  der_output_index :: js_number

record candidate_seed =
  cs_record_id :: js_string
  cs_generation_run_id :: js_string
  cs_output_index :: js_number

record event_seed =
  es_owner_id :: js_string
  es_producer :: js_string
  es_producer_event_key :: js_string

record transform_cache_identity =
  tc_op :: js_string
  tc_op_version :: js_string
  tc_input_dataset_versions :: "js_string list"
  tc_params :: json_object

record evaluation_run_create_v1 =
  er_provider_task_id :: js_string
  er_dataset_version :: js_string
  er_source_ref :: "js_string option"
  er_converter :: converter_name
  er_converter_version :: js_string
  er_normalized_options :: json_object
  er_fidelity_digest :: js_string
  er_benchmark :: js_string
  er_model_name :: "js_string option"
  er_evalscope_commit :: "js_string option"

record evaluation_run_create_v2 = evaluation_run_create_v1 +
  er2_model_deployment_id :: js_string
  er2_model_artifact_id :: js_string
  er2_model_deployment_digest :: js_string

record evaluation_run_create_v3 = evaluation_run_create_v1 +
  er3_scoring_config :: json_object
  er3_primary_metric_id :: js_string
  er3_primary_output_key :: js_string

record evaluation_run_create_v4 = evaluation_run_create_v3 +
  er4_model_deployment_id :: js_string
  er4_model_artifact_id :: js_string
  er4_model_deployment_digest :: js_string

record evaluation_run_create_v5 = evaluation_run_create_v1 +
  er5_model_id :: js_string
  er5_model_version_id :: js_string
  er5_model_deployment_id :: js_string
  er5_model_deployment_digest :: js_string
  er5_model_artifact_id :: "js_string option"
  er5_source_mutability_snapshot :: source_mutability
  er5_verification_level_snapshot :: verification_level
  er5_source_evidence_digest :: "js_string option"

record evaluation_run_create_v6 = evaluation_run_create_v5 +
  er6_scoring_config :: json_object
  er6_primary_metric_id :: js_string
  er6_primary_output_key :: js_string

record swift_studio_session_create =
  ss_namespace :: js_string
  ss_dataset_version :: js_string
  ss_converter_version :: js_string
  ss_normalized_options :: json_object
  ss_fidelity_digest :: js_string
  ss_output_count :: js_number
  ss_upstream_commit :: js_string
  ss_image_digest :: js_string
  ss_runtime_capability_digest :: js_string

record model_artifact_import_create =
  mi_namespace :: js_string
  mi_studio_session_id :: js_string
  mi_output_handle_digest :: js_string
  mi_display_name :: js_string
  mi_base_reference :: js_string
  mi_base_revision :: "js_string option"

record model_deployment_create =
  md_namespace :: js_string
  md_artifact_id :: js_string
  md_display_name :: js_string
  md_served_model_name :: js_string
  md_endpoint_base_url :: js_string

record export_fidelity_identity =
  ef_dataset_version :: js_string
  ef_converter :: converter_name
  ef_converter_version :: js_string
  ef_normalized_options :: json_object
  ef_media_type :: js_string
  ef_output_count :: js_number
  ef_config_hints :: json_object
  ef_fidelity :: export_fidelity


datatype record_seed =
    SourceRoot source_root_seed
  | ArtifactRow artifact_row_seed
  | DirectRoot direct_root_seed
  | DerivedRecord derived_record_seed

text \<open>
  The material of an identity claim, and the profile of an identity request: the union of
  \<open>types.ts\<close> fixes the entity kind and the creation profile of each.
\<close>

datatype claim_material =
    RecordClaim record_seed
  | CandidateClaim candidate_seed
  | SignalClaim event_seed
  | PreferenceClaim event_seed

datatype entity_kind = RecordKind | CandidateKind | SignalKind | PreferenceKind

datatype creation_profile =
  SourceRootV1 | ArtifactRowV1 | DirectRootV1 | DerivedRecordV1 | CandidateV1 | SignalEventV1
  | PreferenceEventV1

fun entity_kind_text :: "entity_kind \<Rightarrow> js_string" where
  "entity_kind_text RecordKind = js ''record''"
| "entity_kind_text CandidateKind = js ''candidate''"
| "entity_kind_text SignalKind = js ''signal''"
| "entity_kind_text PreferenceKind = js ''preference''"

fun creation_profile_text :: "creation_profile \<Rightarrow> js_string" where
  "creation_profile_text SourceRootV1 = js ''source-root-v1''"
| "creation_profile_text ArtifactRowV1 = js ''artifact-row-v1''"
| "creation_profile_text DirectRootV1 = js ''direct-root-v1''"
| "creation_profile_text DerivedRecordV1 = js ''derived-record-v1''"
| "creation_profile_text CandidateV1 = js ''candidate-v1''"
| "creation_profile_text SignalEventV1 = js ''signal-event-v1''"
| "creation_profile_text PreferenceEventV1 = js ''preference-event-v1''"

fun creation_kind :: "creation_profile \<Rightarrow> entity_kind" where
  "creation_kind CandidateV1 = CandidateKind"
| "creation_kind SignalEventV1 = SignalKind"
| "creation_kind PreferenceEventV1 = PreferenceKind"
| "creation_kind _ = RecordKind"

fun claim_profile :: "claim_material \<Rightarrow> creation_profile" where
  "claim_profile (RecordClaim (SourceRoot s)) = SourceRootV1"
| "claim_profile (RecordClaim (ArtifactRow s)) = ArtifactRowV1"
| "claim_profile (RecordClaim (DirectRoot s)) = DirectRootV1"
| "claim_profile (RecordClaim (DerivedRecord s)) = DerivedRecordV1"
| "claim_profile (CandidateClaim s) = CandidateV1"
| "claim_profile (SignalClaim s) = SignalEventV1"
| "claim_profile (PreferenceClaim s) = PreferenceEventV1"

lemma creation_profile_text_inject [simp]:
  "creation_profile_text p = creation_profile_text q \<longleftrightarrow> p = q"
  by (cases p; cases q; simp)

record identity_claim =
  ic_namespace :: js_string
  ic_claim_material :: claim_material

record identity_request =
  ir_namespace :: js_string
  ir_creation_profile :: creation_profile
  ir_normalized_request :: json

record dataset_identity =
  di_record_digests :: "js_string list"

end
