(* ===== verification/Hash_Domains.thy ===== *)
theory Hash_Domains
  imports Hash_Types
begin

text \<open>
  \<open>packages/hashing/src/v2/domains.ts\<close>: one function for each identity, which builds the JSON
  object of its fields, prefixes the canonical text with a domain tag and hashes the UTF-8
  bytes. BLAKE3 comes from the package \<open>hash-wasm\<close>: it is the argument \<open>digest\<close>, a function from
  bytes to text. Every other step is modelled, and the theorems say what a digest identifies.
\<close>

type_synonym digest = "bytes \<Rightarrow> js_string"

section \<open>Domains\<close>

datatype domain_name =
    D_recordId
  | D_candidateId
  | D_signalId
  | D_preferenceId
  | D_record
  | D_dataset
  | D_transformCache
  | D_identityClaim
  | D_identityRequest
  | D_exportFidelity
  | D_evaluationRunCreate
  | D_evaluationRunCreateV2
  | D_evaluationRunCreateV3
  | D_evaluationRunCreateV4
  | D_evaluationRunCreateV5
  | D_evaluationRunCreateV6
  | D_swiftStudioSessionCreate
  | D_swiftStudioOutputHandle
  | D_modelArtifactImportCreate
  | D_modelDeploymentCreate

fun DOMAIN :: "domain_name \<Rightarrow> js_string" where
  "DOMAIN D_recordId = js ''databench.id.databench-v2-jcs-1.record.v1'' @ [0]"
| "DOMAIN D_candidateId = js ''databench.id.databench-v2-jcs-1.candidate.v1'' @ [0]"
| "DOMAIN D_signalId = js ''databench.id.databench-v2-jcs-1.signal.v1'' @ [0]"
| "DOMAIN D_preferenceId = js ''databench.id.databench-v2-jcs-1.preference.v1'' @ [0]"
| "DOMAIN D_record = js ''databench.record.databench-v2-jcs-1'' @ [0]"
| "DOMAIN D_dataset = js ''databench.dataset.databench-v2-jcs-1'' @ [0]"
| "DOMAIN D_transformCache = js ''databench.transform-cache.databench-v2-jcs-1'' @ [0]"
| "DOMAIN D_identityClaim = js ''databench.identity-claim-key.databench-v2-jcs-1.v1'' @ [0]"
| "DOMAIN D_identityRequest = js ''databench.identity-request.databench-v2-jcs-1.v1'' @ [0]"
| "DOMAIN D_exportFidelity = js ''databench.export-fidelity.databench-export-fidelity-1'' @ [0]"
| "DOMAIN D_evaluationRunCreate = js ''databench.evaluation-run-create.evaluation-run-create-v1'' @ [0]"
| "DOMAIN D_evaluationRunCreateV2 = js ''databench.evaluation-run-create.evaluation-run-create-v2'' @ [0]"
| "DOMAIN D_evaluationRunCreateV3 = js ''databench.evaluation-run-create.evaluation-run-create-v3'' @ [0]"
| "DOMAIN D_evaluationRunCreateV4 = js ''databench.evaluation-run-create.evaluation-run-create-v4'' @ [0]"
| "DOMAIN D_evaluationRunCreateV5 = js ''databench.evaluation-run-create.evaluation-run-create-v5'' @ [0]"
| "DOMAIN D_evaluationRunCreateV6 = js ''databench.evaluation-run-create.evaluation-run-create-v6'' @ [0]"
| "DOMAIN D_swiftStudioSessionCreate = js ''databench.swift-studio-session-create.swift-studio-session-create-v1'' @ [0]"
| "DOMAIN D_swiftStudioOutputHandle = js ''databench.swift-studio-output-handle.v1'' @ [0]"
| "DOMAIN D_modelArtifactImportCreate = js ''databench.model-artifact-import-create.model-artifact-import-create-v1'' @ [0]"
| "DOMAIN D_modelDeploymentCreate = js ''databench.model-deployment-create.model-deployment-create-v1'' @ [0]"


definition preimage :: "js_string \<Rightarrow> json \<Rightarrow> bytes" where
  "preimage domain value = encode_utf8 (domain @ jcs value)"

definition hashDomain :: "digest \<Rightarrow> js_string \<Rightarrow> json \<Rightarrow> (jcs_error, js_string) result" where
  "hashDomain digest domain value =
     bindR (canonical_json value) (\<lambda>text. Inr (digest (encode_utf8 (domain @ text))))"

section \<open>Objects\<close>

definition nullable :: "js_string option \<Rightarrow> json" where
  "nullable x = (case x of None \<Rightarrow> JNull | Some s \<Rightarrow> JString s)"

definition strings :: "js_string list \<Rightarrow> json" where
  "strings xs = JArray (map JString xs)"

fun record_seed_json :: "record_seed \<Rightarrow> json" where
  "record_seed_json (SourceRoot s) = JObject [
      (js ''namespace'', JString (sr_namespace s)),
      (js ''source'', JObject [
        (js ''name'', JString (sr_name s)),
        (js ''kind'', JString (sr_kind s)),
        (js ''original_id'', JString (sr_original_id s))])]"
| "record_seed_json (ArtifactRow s) = JObject [
      (js ''namespace'', JString (ar_namespace s)),
      (js ''source_artifact_digest'', JString (ar_source_artifact_digest s)),
      (js ''row_index'', JNumber (ar_row_index s))]"
| "record_seed_json (DirectRoot s) = JObject [
      (js ''namespace'', JString (dr_namespace s)),
      (js ''idempotency_key_or_random_seed'', JString (dr_idempotency_key_or_random_seed s))]"
| "record_seed_json (DerivedRecord s) = JObject [
      (js ''op'', JString (der_op s)),
      (js ''op_version'', JString (der_op_version s)),
      (js ''params'', JObject (der_params s)),
      (js ''parent_ids'', strings (der_parent_ids s)),
      (js ''output_index'', JNumber (der_output_index s))]"

definition candidate_seed_json :: "candidate_seed \<Rightarrow> json" where
  "candidate_seed_json s = JObject [
      (js ''record_id'', JString (cs_record_id s)),
      (js ''generation_run_id'', JString (cs_generation_run_id s)),
      (js ''output_index'', JNumber (cs_output_index s))]"

definition event_seed_json :: "event_seed \<Rightarrow> json" where
  "event_seed_json s = JObject [
      (js ''owner_id'', JString (es_owner_id s)),
      (js ''producer'', JString (es_producer s)),
      (js ''producer_event_key'', JString (es_producer_event_key s))]"

fun claim_material_json :: "claim_material \<Rightarrow> json" where
  "claim_material_json (RecordClaim s) = record_seed_json s"
| "claim_material_json (CandidateClaim s) = candidate_seed_json s"
| "claim_material_json (SignalClaim s) = event_seed_json s"
| "claim_material_json (PreferenceClaim s) = event_seed_json s"

definition identityClaim_json :: "identity_claim \<Rightarrow> json" where
  "identityClaim_json x = JObject [
      (js ''claim_profile'', JString (js ''databench-identity-claim-v1'')),
      (js ''identity_profile'', JString (js ''databench-v2-jcs-1'')),
      (js ''namespace'', JString (ic_namespace x)),
      (js ''entity_kind'',
        JString (entity_kind_text (creation_kind (claim_profile (ic_claim_material x))))),
      (js ''creation_profile'', JString (creation_profile_text (claim_profile (ic_claim_material x)))),
      (js ''claim_material'', claim_material_json (ic_claim_material x))]"

definition identityRequest_json :: "identity_request \<Rightarrow> json" where
  "identityRequest_json x = JObject [
      (js ''request_profile'', JString (js ''databench-identity-request-v1'')),
      (js ''identity_profile'', JString (js ''databench-v2-jcs-1'')),
      (js ''namespace'', JString (ir_namespace x)),
      (js ''entity_kind'', JString (entity_kind_text (creation_kind (ir_creation_profile x)))),
      (js ''creation_profile'', JString (creation_profile_text (ir_creation_profile x))),
      (js ''normalized_request'', ir_normalized_request x)]"

section \<open>Derived identifiers and hashes\<close>

definition with_prefix :: "string \<Rightarrow> (jcs_error, js_string) result \<Rightarrow> (jcs_error, js_string) result" where
  "with_prefix p h = bindR h (\<lambda>d. Inr (js p @ d))"

definition deriveV2RecordId :: "digest \<Rightarrow> record_seed \<Rightarrow> (jcs_error, js_string) result" where
  "deriveV2RecordId digest seed =
     with_prefix ''rec_'' (hashDomain digest (DOMAIN D_recordId) (record_seed_json seed))"

definition deriveV2CandidateId :: "digest \<Rightarrow> candidate_seed \<Rightarrow> (jcs_error, js_string) result" where
  "deriveV2CandidateId digest seed =
     with_prefix ''cand_'' (hashDomain digest (DOMAIN D_candidateId) (candidate_seed_json seed))"

definition deriveV2SignalId :: "digest \<Rightarrow> event_seed \<Rightarrow> (jcs_error, js_string) result" where
  "deriveV2SignalId digest seed =
     with_prefix ''sig_'' (hashDomain digest (DOMAIN D_signalId) (event_seed_json seed))"

definition deriveV2PreferenceId :: "digest \<Rightarrow> event_seed \<Rightarrow> (jcs_error, js_string) result" where
  "deriveV2PreferenceId digest seed =
     with_prefix ''pref_'' (hashDomain digest (DOMAIN D_preferenceId) (event_seed_json seed))"

definition hashV2IdentityClaimKey ::
  "digest \<Rightarrow> identity_claim \<Rightarrow> (jcs_error, js_string) result" where
  "hashV2IdentityClaimKey digest identity =
     hashDomain digest (DOMAIN D_identityClaim) (identityClaim_json identity)"

definition hashV2IdentityRequest ::
  "digest \<Rightarrow> identity_request \<Rightarrow> (jcs_error, js_string) result" where
  "hashV2IdentityRequest digest identity =
     hashDomain digest (DOMAIN D_identityRequest) (identityRequest_json identity)"

definition hashV2Record :: "digest \<Rightarrow> json \<Rightarrow> (jcs_error, js_string) result" where
  "hashV2Record digest rec = hashDomain digest (DOMAIN D_record) rec"

definition dataset_json :: "js_string list \<Rightarrow> json" where
  "dataset_json digests = JObject [
      (js ''identity_profile'', JString (js ''databench-v2-jcs-1'')),
      (js ''record_schema_version'', JString (js ''2.0.0'')),
      (js ''record_digests'', strings digests)]"

text \<open>\<open>.sort()\<close> without a comparator orders strings by their code units, as \<open>compareJcsUtf16\<close> does.\<close>

definition hashV2DatasetIdentity ::
  "digest \<Rightarrow> dataset_identity \<Rightarrow> (jcs_error, js_string) result" where
  "hashV2DatasetIdentity digest identity =
     hashDomain digest (DOMAIN D_dataset)
       (dataset_json (js_sort compareJcsUtf16 (di_record_digests identity)))"

definition transformCache_json :: "transform_cache_identity \<Rightarrow> json" where
  "transformCache_json x = JObject [
      (js ''identity_profile'', JString (js ''databench-v2-jcs-1'')),
      (js ''op'', JString (tc_op x)),
      (js ''op_version'', JString (tc_op_version x)),
      (js ''input_dataset_versions'', strings (tc_input_dataset_versions x)),
      (js ''params'', JObject (tc_params x))]"

definition hashV2TransformCache ::
  "digest \<Rightarrow> transform_cache_identity \<Rightarrow> (jcs_error, js_string) result" where
  "hashV2TransformCache digest identity =
     hashDomain digest (DOMAIN D_transformCache) (transformCache_json identity)"

definition evaluationRunCreate_json :: "evaluation_run_create_v1 \<Rightarrow> json" where
  "evaluationRunCreate_json x = JObject [
      (js ''evaluation_run_create_profile'', JString (js ''evaluation-run-create-v1'')),
      (js ''provider'', JString (js ''evalscope'')),
      (js ''provider_task_id'', JString (er_provider_task_id x)),
      (js ''dataset_version'', JString (er_dataset_version x)),
      (js ''source_ref'', nullable (er_source_ref x)),
      (js ''converter'', JString (converter_text (er_converter x))),
      (js ''converter_version'', JString (er_converter_version x)),
      (js ''normalized_options'', JObject (er_normalized_options x)),
      (js ''fidelity_digest'', JString (er_fidelity_digest x)),
      (js ''benchmark'', JString (er_benchmark x)),
      (js ''model_name'', nullable (er_model_name x)),
      (js ''evalscope_commit'', nullable (er_evalscope_commit x))]"

definition hashV2EvaluationRunCreate ::
  "digest \<Rightarrow> evaluation_run_create_v1 \<Rightarrow> (jcs_error, js_string) result" where
  "hashV2EvaluationRunCreate digest identity =
     hashDomain digest (DOMAIN D_evaluationRunCreate) (evaluationRunCreate_json identity)"

definition evaluationRunCreateWithDeployment_json :: "evaluation_run_create_v2 \<Rightarrow> json" where
  "evaluationRunCreateWithDeployment_json x = JObject [
      (js ''evaluation_run_create_profile'', JString (js ''evaluation-run-create-v2'')),
      (js ''provider'', JString (js ''evalscope'')),
      (js ''provider_task_id'', JString (er_provider_task_id x)),
      (js ''dataset_version'', JString (er_dataset_version x)),
      (js ''source_ref'', nullable (er_source_ref x)),
      (js ''converter'', JString (converter_text (er_converter x))),
      (js ''converter_version'', JString (er_converter_version x)),
      (js ''normalized_options'', JObject (er_normalized_options x)),
      (js ''fidelity_digest'', JString (er_fidelity_digest x)),
      (js ''benchmark'', JString (er_benchmark x)),
      (js ''model_name'', nullable (er_model_name x)),
      (js ''model_deployment_id'', JString (er2_model_deployment_id x)),
      (js ''model_artifact_id'', JString (er2_model_artifact_id x)),
      (js ''model_deployment_digest'', JString (er2_model_deployment_digest x)),
      (js ''evalscope_commit'', nullable (er_evalscope_commit x))]"

definition hashV2EvaluationRunCreateWithDeployment ::
  "digest \<Rightarrow> evaluation_run_create_v2 \<Rightarrow> (jcs_error, js_string) result" where
  "hashV2EvaluationRunCreateWithDeployment digest identity =
     hashDomain digest (DOMAIN D_evaluationRunCreateV2) (evaluationRunCreateWithDeployment_json identity)"

definition evaluationRunCreateWithMetrics_json :: "evaluation_run_create_v3 \<Rightarrow> json" where
  "evaluationRunCreateWithMetrics_json x = JObject [
      (js ''evaluation_run_create_profile'', JString (js ''evaluation-run-create-v3'')),
      (js ''provider'', JString (js ''evalscope'')),
      (js ''provider_task_id'', JString (er_provider_task_id x)),
      (js ''dataset_version'', JString (er_dataset_version x)),
      (js ''source_ref'', nullable (er_source_ref x)),
      (js ''converter'', JString (converter_text (er_converter x))),
      (js ''converter_version'', JString (er_converter_version x)),
      (js ''normalized_options'', JObject (er_normalized_options x)),
      (js ''fidelity_digest'', JString (er_fidelity_digest x)),
      (js ''benchmark'', JString (er_benchmark x)),
      (js ''model_name'', nullable (er_model_name x)),
      (js ''evalscope_commit'', nullable (er_evalscope_commit x)),
      (js ''scoring_config'', JObject (er3_scoring_config x)),
      (js ''primary_metric_id'', JString (er3_primary_metric_id x)),
      (js ''primary_output_key'', JString (er3_primary_output_key x))]"

definition hashV2EvaluationRunCreateWithMetrics ::
  "digest \<Rightarrow> evaluation_run_create_v3 \<Rightarrow> (jcs_error, js_string) result" where
  "hashV2EvaluationRunCreateWithMetrics digest identity =
     hashDomain digest (DOMAIN D_evaluationRunCreateV3) (evaluationRunCreateWithMetrics_json identity)"

definition evaluationRunCreateWithDeploymentAndMetrics_json :: "evaluation_run_create_v4 \<Rightarrow> json" where
  "evaluationRunCreateWithDeploymentAndMetrics_json x = JObject [
      (js ''evaluation_run_create_profile'', JString (js ''evaluation-run-create-v4'')),
      (js ''provider'', JString (js ''evalscope'')),
      (js ''provider_task_id'', JString (er_provider_task_id x)),
      (js ''dataset_version'', JString (er_dataset_version x)),
      (js ''source_ref'', nullable (er_source_ref x)),
      (js ''converter'', JString (converter_text (er_converter x))),
      (js ''converter_version'', JString (er_converter_version x)),
      (js ''normalized_options'', JObject (er_normalized_options x)),
      (js ''fidelity_digest'', JString (er_fidelity_digest x)),
      (js ''benchmark'', JString (er_benchmark x)),
      (js ''model_name'', nullable (er_model_name x)),
      (js ''model_deployment_id'', JString (er4_model_deployment_id x)),
      (js ''model_artifact_id'', JString (er4_model_artifact_id x)),
      (js ''model_deployment_digest'', JString (er4_model_deployment_digest x)),
      (js ''evalscope_commit'', nullable (er_evalscope_commit x)),
      (js ''scoring_config'', JObject (er3_scoring_config x)),
      (js ''primary_metric_id'', JString (er3_primary_metric_id x)),
      (js ''primary_output_key'', JString (er3_primary_output_key x))]"

definition hashV2EvaluationRunCreateWithDeploymentAndMetrics ::
  "digest \<Rightarrow> evaluation_run_create_v4 \<Rightarrow> (jcs_error, js_string) result" where
  "hashV2EvaluationRunCreateWithDeploymentAndMetrics digest identity =
     hashDomain digest (DOMAIN D_evaluationRunCreateV4) (evaluationRunCreateWithDeploymentAndMetrics_json identity)"

definition evaluationRunCreateWithModelVersionDeployment_json :: "evaluation_run_create_v5 \<Rightarrow> json" where
  "evaluationRunCreateWithModelVersionDeployment_json x = JObject [
      (js ''evaluation_run_create_profile'', JString (js ''evaluation-run-create-v5'')),
      (js ''provider'', JString (js ''evalscope'')),
      (js ''provider_task_id'', JString (er_provider_task_id x)),
      (js ''dataset_version'', JString (er_dataset_version x)),
      (js ''source_ref'', nullable (er_source_ref x)),
      (js ''converter'', JString (converter_text (er_converter x))),
      (js ''converter_version'', JString (er_converter_version x)),
      (js ''normalized_options'', JObject (er_normalized_options x)),
      (js ''fidelity_digest'', JString (er_fidelity_digest x)),
      (js ''benchmark'', JString (er_benchmark x)),
      (js ''model_name'', nullable (er_model_name x)),
      (js ''model_id'', JString (er5_model_id x)),
      (js ''model_version_id'', JString (er5_model_version_id x)),
      (js ''model_deployment_id'', JString (er5_model_deployment_id x)),
      (js ''model_deployment_digest'', JString (er5_model_deployment_digest x)),
      (js ''model_artifact_id'', nullable (er5_model_artifact_id x)),
      (js ''source_mutability_snapshot'', JString (mutability_text (er5_source_mutability_snapshot x))),
      (js ''verification_level_snapshot'', JString (verification_text (er5_verification_level_snapshot x))),
      (js ''source_evidence_digest'', nullable (er5_source_evidence_digest x)),
      (js ''evalscope_commit'', nullable (er_evalscope_commit x))]"

definition hashV2EvaluationRunCreateWithModelVersionDeployment ::
  "digest \<Rightarrow> evaluation_run_create_v5 \<Rightarrow> (jcs_error, js_string) result" where
  "hashV2EvaluationRunCreateWithModelVersionDeployment digest identity =
     hashDomain digest (DOMAIN D_evaluationRunCreateV5) (evaluationRunCreateWithModelVersionDeployment_json identity)"

definition evaluationRunCreateWithModelVersionDeploymentAndMetrics_json :: "evaluation_run_create_v6 \<Rightarrow> json" where
  "evaluationRunCreateWithModelVersionDeploymentAndMetrics_json x = JObject [
      (js ''evaluation_run_create_profile'', JString (js ''evaluation-run-create-v6'')),
      (js ''provider'', JString (js ''evalscope'')),
      (js ''provider_task_id'', JString (er_provider_task_id x)),
      (js ''dataset_version'', JString (er_dataset_version x)),
      (js ''source_ref'', nullable (er_source_ref x)),
      (js ''converter'', JString (converter_text (er_converter x))),
      (js ''converter_version'', JString (er_converter_version x)),
      (js ''normalized_options'', JObject (er_normalized_options x)),
      (js ''fidelity_digest'', JString (er_fidelity_digest x)),
      (js ''benchmark'', JString (er_benchmark x)),
      (js ''model_name'', nullable (er_model_name x)),
      (js ''model_id'', JString (er5_model_id x)),
      (js ''model_version_id'', JString (er5_model_version_id x)),
      (js ''model_deployment_id'', JString (er5_model_deployment_id x)),
      (js ''model_deployment_digest'', JString (er5_model_deployment_digest x)),
      (js ''model_artifact_id'', nullable (er5_model_artifact_id x)),
      (js ''source_mutability_snapshot'', JString (mutability_text (er5_source_mutability_snapshot x))),
      (js ''verification_level_snapshot'', JString (verification_text (er5_verification_level_snapshot x))),
      (js ''source_evidence_digest'', nullable (er5_source_evidence_digest x)),
      (js ''evalscope_commit'', nullable (er_evalscope_commit x)),
      (js ''scoring_config'', JObject (er6_scoring_config x)),
      (js ''primary_metric_id'', JString (er6_primary_metric_id x)),
      (js ''primary_output_key'', JString (er6_primary_output_key x))]"

definition hashV2EvaluationRunCreateWithModelVersionDeploymentAndMetrics ::
  "digest \<Rightarrow> evaluation_run_create_v6 \<Rightarrow> (jcs_error, js_string) result" where
  "hashV2EvaluationRunCreateWithModelVersionDeploymentAndMetrics digest identity =
     hashDomain digest (DOMAIN D_evaluationRunCreateV6) (evaluationRunCreateWithModelVersionDeploymentAndMetrics_json identity)"

definition swiftStudioSessionCreate_json :: "swift_studio_session_create \<Rightarrow> json" where
  "swiftStudioSessionCreate_json x = JObject [
      (js ''swift_studio_session_create_profile'', JString (js ''swift-studio-session-create-v1'')),
      (js ''namespace'', JString (ss_namespace x)),
      (js ''dataset_version'', JString (ss_dataset_version x)),
      (js ''converter'', JString (js ''ms-swift'')),
      (js ''converter_version'', JString (ss_converter_version x)),
      (js ''normalized_options'', JObject (ss_normalized_options x)),
      (js ''fidelity_digest'', JString (ss_fidelity_digest x)),
      (js ''output_count'', JNumber (ss_output_count x)),
      (js ''provider'', JString (js ''swift-studio'')),
      (js ''upstream_commit'', JString (ss_upstream_commit x)),
      (js ''image_digest'', JString (ss_image_digest x)),
      (js ''runtime_capability_digest'', JString (ss_runtime_capability_digest x))]"

definition hashV2SwiftStudioSessionCreate ::
  "digest \<Rightarrow> swift_studio_session_create \<Rightarrow> (jcs_error, js_string) result" where
  "hashV2SwiftStudioSessionCreate digest identity =
     hashDomain digest (DOMAIN D_swiftStudioSessionCreate) (swiftStudioSessionCreate_json identity)"

definition modelArtifactImportCreate_json :: "model_artifact_import_create \<Rightarrow> json" where
  "modelArtifactImportCreate_json x = JObject [
      (js ''model_artifact_import_create_profile'', JString (js ''model-artifact-import-create-v1'')),
      (js ''namespace'', JString (mi_namespace x)),
      (js ''studio_session_id'', JString (mi_studio_session_id x)),
      (js ''output_handle_digest'', JString (mi_output_handle_digest x)),
      (js ''artifact_kind'', JString (js ''lora_adapter'')),
      (js ''display_name'', JString (mi_display_name x)),
      (js ''base_model'', JObject [(js ''reference'', JString (mi_base_reference x)),
        (js ''revision'', nullable (mi_base_revision x))])]"

definition hashV2ModelArtifactImportCreate ::
  "digest \<Rightarrow> model_artifact_import_create \<Rightarrow> (jcs_error, js_string) result" where
  "hashV2ModelArtifactImportCreate digest identity =
     hashDomain digest (DOMAIN D_modelArtifactImportCreate) (modelArtifactImportCreate_json identity)"

definition modelDeploymentCreate_json :: "model_deployment_create \<Rightarrow> json" where
  "modelDeploymentCreate_json x = JObject [
      (js ''model_deployment_create_profile'', JString (js ''model-deployment-create-v1'')),
      (js ''namespace'', JString (md_namespace x)),
      (js ''artifact_id'', JString (md_artifact_id x)),
      (js ''provider'', JString (js ''openai_compatible'')),
      (js ''display_name'', JString (md_display_name x)),
      (js ''served_model_name'', JString (md_served_model_name x)),
      (js ''endpoint_base_url'', JString (md_endpoint_base_url x)),
      (js ''auth_mode'', JString (js ''none''))]"

definition hashV2ModelDeploymentCreate ::
  "digest \<Rightarrow> model_deployment_create \<Rightarrow> (jcs_error, js_string) result" where
  "hashV2ModelDeploymentCreate digest identity =
     hashDomain digest (DOMAIN D_modelDeploymentCreate) (modelDeploymentCreate_json identity)"


definition hashV2SwiftStudioOutputHandle :: "digest \<Rightarrow> js_string \<Rightarrow> (jcs_error, js_string) result" where
  "hashV2SwiftStudioOutputHandle digest handle =
     hashDomain digest (DOMAIN D_swiftStudioOutputHandle) (JObject [(js ''handle'', JString handle)])"

end
