(* ===== verification/Model_Registry_Hash.thy ===== *)
theory Model_Registry_Hash
  imports Hash_Domains
begin

text \<open>
  \<open>packages/hashing/src/v2/model-registry.ts\<close>: the identities of models, model versions,
  registration plans, deployments and source evidence, their hashes, and the UUIDs of version 8
  that are cut from a digest. As in \<open>Hash_Types\<close> a field of a single literal type is not
  stored. The interfaces a deployment declares are their texts.
\<close>

section \<open>Identities\<close>

datatype repository_provider = HuggingFace | Modelscope | OperatorManaged

fun repository_provider_text :: "repository_provider \<Rightarrow> js_string" where
  "repository_provider_text HuggingFace = js ''hugging_face''"
| "repository_provider_text Modelscope = js ''modelscope''"
| "repository_provider_text OperatorManaged = js ''operator_managed''"

datatype revision_kind = CommitRevision | DigestRevision | TagRevision | OpaqueRevision

fun revision_kind_text :: "revision_kind \<Rightarrow> js_string" where
  "revision_kind_text CommitRevision = js ''commit''"
| "revision_kind_text DigestRevision = js ''digest''"
| "revision_kind_text TagRevision = js ''tag''"
| "revision_kind_text OpaqueRevision = js ''opaque''"

datatype declared_reference_kind = ImmutableVersion | MutableAlias | OpaqueReference

fun reference_kind_text :: "declared_reference_kind \<Rightarrow> js_string" where
  "reference_kind_text ImmutableVersion = js ''immutable_version''"
| "reference_kind_text MutableAlias = js ''mutable_alias''"
| "reference_kind_text OpaqueReference = js ''opaque''"

datatype binding_status = VerifiedBinding | DeclaredBinding | UnresolvedBinding

fun binding_status_text :: "binding_status \<Rightarrow> js_string" where
  "binding_status_text VerifiedBinding = js ''verified''"
| "binding_status_text DeclaredBinding = js ''declared''"
| "binding_status_text UnresolvedBinding = js ''unresolved''"

datatype connectivity_scope = PrivateNetwork | PublicNetwork

fun connectivity_scope_text :: "connectivity_scope \<Rightarrow> js_string" where
  "connectivity_scope_text PrivateNetwork = js ''private_network''"
| "connectivity_scope_text PublicNetwork = js ''public_network''"

datatype auth_profile = NoAuth | BearerRef

fun auth_profile_text :: "auth_profile \<Rightarrow> js_string" where
  "auth_profile_text NoAuth = js ''none''"
| "auth_profile_text BearerRef = js ''bearer_ref''"

datatype evidence_kind = ProviderResolution | OperatorAttestation

fun evidence_kind_text :: "evidence_kind \<Rightarrow> js_string" where
  "evidence_kind_text ProviderResolution = js ''provider_resolution''"
| "evidence_kind_text OperatorAttestation = js ''operator_attestation''"

datatype evidence_result = EvVerified | EvNotFound | EvUnavailable | EvInvalid | EvRevisionMismatch

fun evidence_result_text :: "evidence_result \<Rightarrow> js_string" where
  "evidence_result_text EvVerified = js ''verified''"
| "evidence_result_text EvNotFound = js ''not_found''"
| "evidence_result_text EvUnavailable = js ''unavailable''"
| "evidence_result_text EvInvalid = js ''invalid''"
| "evidence_result_text EvRevisionMismatch = js ''revision_mismatch''"

datatype cache_status = Cached | NotCached | UnknownCache

fun cache_status_text :: "cache_status \<Rightarrow> js_string" where
  "cache_status_text Cached = js ''cached''"
| "cache_status_text NotCached = js ''not_cached''"
| "cache_status_text UnknownCache = js ''unknown''"

record model_create_identity =
  mc_namespace :: js_string
  mc_key :: js_string

record source_fingerprint_artifact =
  fa_artifact_id :: js_string
  fa_artifact_kind :: js_string
  fa_artifact_format :: js_string
  fa_archive_digest :: js_string
  fa_manifest_digest :: js_string

record source_fingerprint_repository =
  fr_provider :: repository_provider
  fr_repository_id :: js_string
  fr_revision :: js_string
  fr_revision_kind :: revision_kind

record source_fingerprint_service =
  fs_external_model_ref :: js_string
  fs_external_version_ref :: js_string
  fs_declared_reference_kind :: declared_reference_kind

record model_version_create_base =
  mv_namespace :: js_string
  mv_model_id :: js_string
  mv_version_label :: js_string
  mv_source_fingerprint :: js_string

record model_version_create_artifact = model_version_create_base +
  mva_base_model_reference :: js_string
  mva_base_model_revision :: "js_string option"
  mva_base_model_binding_status :: binding_status

record model_version_create_repository = model_version_create_base +
  mvr_base_model_reference :: "js_string option"
  mvr_base_model_revision :: "js_string option"

record model_version_create_service = model_version_create_base +
  mvs_base_model_reference :: "js_string option"
  mvs_base_model_revision :: "js_string option"

record plan_classification =
  pc_source_mutability :: source_mutability
  pc_verification_level :: verification_level
  pc_evidence_digest :: "js_string option"

record registration_plan_identity =
  rp_namespace :: js_string
  rp_normalized_request :: json
  rp_model_id :: js_string
  rp_model_create_digest :: "js_string option"
  rp_source_fingerprint :: js_string
  rp_version_create_digest :: js_string
  rp_classification :: plan_classification

record deployment_adoption_identity =
  da_namespace :: js_string
  da_model_id :: js_string
  da_model_version_id :: js_string
  da_deployment_id :: js_string
  da_deployment_digest :: js_string
  da_artifact_id :: js_string

record deployment_capabilities =
  dc_interfaces :: "js_string list"
  dc_context_limit :: "js_number option"

record version_deployment_create =
  vd_namespace :: js_string
  vd_model_version_id :: js_string
  vd_source_fingerprint :: js_string
  vd_display_name :: js_string
  vd_served_model_name :: js_string
  vd_endpoint_base_url :: js_string
  vd_connectivity_scope :: connectivity_scope
  vd_auth_profile :: auth_profile
  vd_credential_ref :: "js_string option"
  vd_declared_capabilities :: deployment_capabilities

record source_evidence_identity =
  se_namespace :: js_string
  se_model_version_id :: js_string
  se_evidence_kind :: evidence_kind
  se_adapter :: js_string
  se_adapter_version :: js_string
  se_observed_revision :: "js_string option"
  se_result :: evidence_result
  se_response_digest :: "js_string option"
  se_license :: "js_string option"
  se_cache_status :: cache_status

section \<open>Domains\<close>

datatype model_domain_name =
    D_modelCreate
  | D_sourceArtifact
  | D_sourceRepository
  | D_sourceService
  | D_versionArtifact
  | D_versionRepository
  | D_versionService
  | D_registrationArtifact
  | D_registrationRepository
  | D_registrationService
  | D_deploymentAdoption
  | D_versionDeploymentCreate
  | D_sourceEvidence

fun MODEL_DOMAIN :: "model_domain_name \<Rightarrow> js_string" where
  "MODEL_DOMAIN D_modelCreate = js ''databench.model-create.model-create-v1'' @ [0]"
| "MODEL_DOMAIN D_sourceArtifact = js ''databench.model-source-fingerprint.model-source-fingerprint-artifact-v1'' @ [0]"
| "MODEL_DOMAIN D_sourceRepository = js ''databench.model-source-fingerprint.model-source-fingerprint-repository-v1'' @ [0]"
| "MODEL_DOMAIN D_sourceService = js ''databench.model-source-fingerprint.model-source-fingerprint-service-v1'' @ [0]"
| "MODEL_DOMAIN D_versionArtifact = js ''databench.model-version-create.model-version-create-artifact-v1'' @ [0]"
| "MODEL_DOMAIN D_versionRepository = js ''databench.model-version-create.model-version-create-repository-v1'' @ [0]"
| "MODEL_DOMAIN D_versionService = js ''databench.model-version-create.model-version-create-service-v1'' @ [0]"
| "MODEL_DOMAIN D_registrationArtifact = js ''databench.model-registration-plan.model-registration-plan-artifact-v1'' @ [0]"
| "MODEL_DOMAIN D_registrationRepository = js ''databench.model-registration-plan.model-registration-plan-repository-v1'' @ [0]"
| "MODEL_DOMAIN D_registrationService = js ''databench.model-registration-plan.model-registration-plan-service-v1'' @ [0]"
| "MODEL_DOMAIN D_deploymentAdoption = js ''databench.model-deployment-adoption.model-deployment-adoption-v1'' @ [0]"
| "MODEL_DOMAIN D_versionDeploymentCreate = js ''databench.model-deployment-create.model-deployment-create-v2'' @ [0]"
| "MODEL_DOMAIN D_sourceEvidence = js ''databench.model-source-evidence.model-source-evidence-v1'' @ [0]"


section \<open>Objects and hashes\<close>

definition capabilities_json :: "deployment_capabilities \<Rightarrow> json" where
  "capabilities_json c = JObject [
      (js ''interfaces'', strings (dc_interfaces c)),
      (js ''context_limit'', case dc_context_limit c of None \<Rightarrow> JNull | Some n \<Rightarrow> JNumber n)]"

definition classification_json :: "plan_classification \<Rightarrow> json" where
  "classification_json c = JObject [
      (js ''source_mutability'', JString (mutability_text (pc_source_mutability c))),
      (js ''verification_level'', JString (verification_text (pc_verification_level c))),
      (js ''evidence_digest'', nullable (pc_evidence_digest c))]"

definition modelCreate_json :: "model_create_identity \<Rightarrow> json" where
  "modelCreate_json x = JObject [
      (js ''model_create_profile'', JString (js ''model-create-v1'')),
      (js ''namespace'', JString (mc_namespace x)),
      (js ''key'', JString (mc_key x))]"

definition hashV2ModelCreate ::
  "digest \<Rightarrow> model_create_identity \<Rightarrow> (jcs_error, js_string) result" where
  "hashV2ModelCreate digest identity =
     hashDomain digest (MODEL_DOMAIN D_modelCreate) (modelCreate_json identity)"

definition modelSourceFingerprintArtifact_json :: "source_fingerprint_artifact \<Rightarrow> json" where
  "modelSourceFingerprintArtifact_json x = JObject [
      (js ''source_fingerprint_profile'', JString (js ''model-source-fingerprint-artifact-v1'')),
      (js ''artifact_id'', JString (fa_artifact_id x)),
      (js ''artifact_kind'', JString (fa_artifact_kind x)),
      (js ''artifact_format'', JString (fa_artifact_format x)),
      (js ''archive_digest'', JString (fa_archive_digest x)),
      (js ''manifest_digest'', JString (fa_manifest_digest x))]"

definition hashV2ModelSourceFingerprintArtifact ::
  "digest \<Rightarrow> source_fingerprint_artifact \<Rightarrow> (jcs_error, js_string) result" where
  "hashV2ModelSourceFingerprintArtifact digest identity =
     hashDomain digest (MODEL_DOMAIN D_sourceArtifact) (modelSourceFingerprintArtifact_json identity)"

definition modelSourceFingerprintRepository_json :: "source_fingerprint_repository \<Rightarrow> json" where
  "modelSourceFingerprintRepository_json x = JObject [
      (js ''source_fingerprint_profile'', JString (js ''model-source-fingerprint-repository-v1'')),
      (js ''provider'', JString (repository_provider_text (fr_provider x))),
      (js ''repository_id'', JString (fr_repository_id x)),
      (js ''revision'', JString (fr_revision x)),
      (js ''revision_kind'', JString (revision_kind_text (fr_revision_kind x)))]"

definition hashV2ModelSourceFingerprintRepository ::
  "digest \<Rightarrow> source_fingerprint_repository \<Rightarrow> (jcs_error, js_string) result" where
  "hashV2ModelSourceFingerprintRepository digest identity =
     hashDomain digest (MODEL_DOMAIN D_sourceRepository) (modelSourceFingerprintRepository_json identity)"

definition modelSourceFingerprintService_json :: "source_fingerprint_service \<Rightarrow> json" where
  "modelSourceFingerprintService_json x = JObject [
      (js ''source_fingerprint_profile'', JString (js ''model-source-fingerprint-service-v1'')),
      (js ''provider'', JString (js ''openai_compatible'')),
      (js ''external_model_ref'', JString (fs_external_model_ref x)),
      (js ''external_version_ref'', JString (fs_external_version_ref x)),
      (js ''declared_reference_kind'', JString (reference_kind_text (fs_declared_reference_kind x)))]"

definition hashV2ModelSourceFingerprintService ::
  "digest \<Rightarrow> source_fingerprint_service \<Rightarrow> (jcs_error, js_string) result" where
  "hashV2ModelSourceFingerprintService digest identity =
     hashDomain digest (MODEL_DOMAIN D_sourceService) (modelSourceFingerprintService_json identity)"

definition modelVersionCreateArtifact_json :: "model_version_create_artifact \<Rightarrow> json" where
  "modelVersionCreateArtifact_json x = JObject [
      (js ''model_version_create_profile'', JString (js ''model-version-create-artifact-v1'')),
      (js ''namespace'', JString (mv_namespace x)),
      (js ''model_id'', JString (mv_model_id x)),
      (js ''version_label'', JString (mv_version_label x)),
      (js ''source_fingerprint'', JString (mv_source_fingerprint x)),
      (js ''base_model_reference'', JString (mva_base_model_reference x)),
      (js ''base_model_revision'', nullable (mva_base_model_revision x)),
      (js ''base_model_binding_status'', JString (binding_status_text (mva_base_model_binding_status x)))]"

definition hashV2ModelVersionCreateArtifact ::
  "digest \<Rightarrow> model_version_create_artifact \<Rightarrow> (jcs_error, js_string) result" where
  "hashV2ModelVersionCreateArtifact digest identity =
     hashDomain digest (MODEL_DOMAIN D_versionArtifact) (modelVersionCreateArtifact_json identity)"

definition modelVersionCreateRepository_json :: "model_version_create_repository \<Rightarrow> json" where
  "modelVersionCreateRepository_json x = JObject [
      (js ''model_version_create_profile'', JString (js ''model-version-create-repository-v1'')),
      (js ''namespace'', JString (mv_namespace x)),
      (js ''model_id'', JString (mv_model_id x)),
      (js ''version_label'', JString (mv_version_label x)),
      (js ''source_fingerprint'', JString (mv_source_fingerprint x)),
      (js ''base_model_reference'', nullable (mvr_base_model_reference x)),
      (js ''base_model_revision'', nullable (mvr_base_model_revision x))]"

definition hashV2ModelVersionCreateRepository ::
  "digest \<Rightarrow> model_version_create_repository \<Rightarrow> (jcs_error, js_string) result" where
  "hashV2ModelVersionCreateRepository digest identity =
     hashDomain digest (MODEL_DOMAIN D_versionRepository) (modelVersionCreateRepository_json identity)"

definition modelVersionCreateService_json :: "model_version_create_service \<Rightarrow> json" where
  "modelVersionCreateService_json x = JObject [
      (js ''model_version_create_profile'', JString (js ''model-version-create-service-v1'')),
      (js ''namespace'', JString (mv_namespace x)),
      (js ''model_id'', JString (mv_model_id x)),
      (js ''version_label'', JString (mv_version_label x)),
      (js ''source_fingerprint'', JString (mv_source_fingerprint x)),
      (js ''base_model_reference'', nullable (mvs_base_model_reference x)),
      (js ''base_model_revision'', nullable (mvs_base_model_revision x))]"

definition hashV2ModelVersionCreateService ::
  "digest \<Rightarrow> model_version_create_service \<Rightarrow> (jcs_error, js_string) result" where
  "hashV2ModelVersionCreateService digest identity =
     hashDomain digest (MODEL_DOMAIN D_versionService) (modelVersionCreateService_json identity)"

definition modelDeploymentAdoption_json :: "deployment_adoption_identity \<Rightarrow> json" where
  "modelDeploymentAdoption_json x = JObject [
      (js ''adoption_profile'', JString (js ''model-deployment-adoption-v1'')),
      (js ''namespace'', JString (da_namespace x)),
      (js ''model_id'', JString (da_model_id x)),
      (js ''model_version_id'', JString (da_model_version_id x)),
      (js ''deployment_id'', JString (da_deployment_id x)),
      (js ''deployment_digest'', JString (da_deployment_digest x)),
      (js ''artifact_id'', JString (da_artifact_id x))]"

definition hashV2ModelDeploymentAdoption ::
  "digest \<Rightarrow> deployment_adoption_identity \<Rightarrow> (jcs_error, js_string) result" where
  "hashV2ModelDeploymentAdoption digest identity =
     hashDomain digest (MODEL_DOMAIN D_deploymentAdoption) (modelDeploymentAdoption_json identity)"

definition modelVersionDeploymentCreate_json :: "version_deployment_create \<Rightarrow> json" where
  "modelVersionDeploymentCreate_json x = JObject [
      (js ''model_deployment_create_profile'', JString (js ''model-deployment-create-v2'')),
      (js ''namespace'', JString (vd_namespace x)),
      (js ''model_version_id'', JString (vd_model_version_id x)),
      (js ''source_fingerprint'', JString (vd_source_fingerprint x)),
      (js ''provider'', JString (js ''openai_compatible'')),
      (js ''display_name'', JString (vd_display_name x)),
      (js ''served_model_name'', JString (vd_served_model_name x)),
      (js ''endpoint_base_url'', JString (vd_endpoint_base_url x)),
      (js ''connectivity_scope'', JString (connectivity_scope_text (vd_connectivity_scope x))),
      (js ''auth_profile'', JString (auth_profile_text (vd_auth_profile x))),
      (js ''credential_ref'', nullable (vd_credential_ref x)),
      (js ''declared_capabilities'', capabilities_json (vd_declared_capabilities x))]"

definition hashV2ModelVersionDeploymentCreate ::
  "digest \<Rightarrow> version_deployment_create \<Rightarrow> (jcs_error, js_string) result" where
  "hashV2ModelVersionDeploymentCreate digest identity =
     hashDomain digest (MODEL_DOMAIN D_versionDeploymentCreate) (modelVersionDeploymentCreate_json identity)"

definition modelSourceEvidence_json :: "source_evidence_identity \<Rightarrow> json" where
  "modelSourceEvidence_json x = JObject [
      (js ''evidence_profile'', JString (js ''model-source-evidence-v1'')),
      (js ''namespace'', JString (se_namespace x)),
      (js ''model_version_id'', JString (se_model_version_id x)),
      (js ''evidence_kind'', JString (evidence_kind_text (se_evidence_kind x))),
      (js ''adapter'', JString (se_adapter x)),
      (js ''adapter_version'', JString (se_adapter_version x)),
      (js ''observed_revision'', nullable (se_observed_revision x)),
      (js ''result'', JString (evidence_result_text (se_result x))),
      (js ''response_digest'', nullable (se_response_digest x)),
      (js ''license'', nullable (se_license x)),
      (js ''cache_status'', JString (cache_status_text (se_cache_status x)))]"

definition hashV2ModelSourceEvidence ::
  "digest \<Rightarrow> source_evidence_identity \<Rightarrow> (jcs_error, js_string) result" where
  "hashV2ModelSourceEvidence digest identity =
     hashDomain digest (MODEL_DOMAIN D_sourceEvidence) (modelSourceEvidence_json identity)"

definition registrationPlan_json :: "js_string \<Rightarrow> registration_plan_identity \<Rightarrow> json" where
  "registrationPlan_json profile x = JObject [
      (js ''plan_profile'', JString profile),
      (js ''namespace'', JString (rp_namespace x)),
      (js ''normalized_request'', rp_normalized_request x),
      (js ''model_id'', JString (rp_model_id x)),
      (js ''model_create_digest'', nullable (rp_model_create_digest x)),
      (js ''source_fingerprint'', JString (rp_source_fingerprint x)),
      (js ''version_create_digest'', JString (rp_version_create_digest x)),
      (js ''classification'', classification_json (rp_classification x))]"

definition hashRegistrationPlan ::
  "digest \<Rightarrow> js_string \<Rightarrow> js_string \<Rightarrow> registration_plan_identity \<Rightarrow> (jcs_error, js_string) result" where
  "hashRegistrationPlan digest domain profile identity =
     hashDomain digest domain (registrationPlan_json profile identity)"

definition hashV2ModelRegistrationPlanArtifact ::
  "digest \<Rightarrow> registration_plan_identity \<Rightarrow> (jcs_error, js_string) result" where
  "hashV2ModelRegistrationPlanArtifact digest identity =
     hashRegistrationPlan digest (MODEL_DOMAIN D_registrationArtifact)
       (js ''model-registration-plan-artifact-v1'') identity"

definition hashV2ModelRegistrationPlanRepository ::
  "digest \<Rightarrow> registration_plan_identity \<Rightarrow> (jcs_error, js_string) result" where
  "hashV2ModelRegistrationPlanRepository digest identity =
     hashRegistrationPlan digest (MODEL_DOMAIN D_registrationRepository)
       (js ''model-registration-plan-repository-v1'') identity"

definition hashV2ModelRegistrationPlanService ::
  "digest \<Rightarrow> registration_plan_identity \<Rightarrow> (jcs_error, js_string) result" where
  "hashV2ModelRegistrationPlanService digest identity =
     hashRegistrationPlan digest (MODEL_DOMAIN D_registrationService)
       (js ''model-registration-plan-service-v1'') identity"

section \<open>UUIDs from digests\<close>

datatype uuid_error = NotADigest

definition hex_value :: "code_unit \<Rightarrow> nat" where
  "hex_value c = (if is_digit c then unat c - 48 else unat c - 87)"

definition variant_digit :: "code_unit \<Rightarrow> code_unit" where
  "variant_digit c = hex_unit (or (and (hex_value c) 3) 8)"

definition uuidV8FromDigest :: "js_string \<Rightarrow> (uuid_error, js_string) result" where
  "uuidV8FromDigest value =
     bindR (ensure (is_hex 64 value) NotADigest) (\<lambda>_.
       let hex = (take 32 value)[12 := of_char CHR ''8'', 16 := variant_digit (value ! 16)];
           part = \<lambda>i j. take (j - i) (drop i hex)
       in Inr (part 0 8 @ js ''-'' @ part 8 12 @ js ''-'' @ part 12 16 @ js ''-'' @ part 16 20
            @ js ''-'' @ part 20 32))"

definition deriveV2ModelIdFromCreateDigest :: "js_string \<Rightarrow> (uuid_error, js_string) result" where
  "deriveV2ModelIdFromCreateDigest createDigest = uuidV8FromDigest createDigest"

definition deriveV2ModelVersionIdFromCreateDigest :: "js_string \<Rightarrow> (uuid_error, js_string) result" where
  "deriveV2ModelVersionIdFromCreateDigest createDigest = uuidV8FromDigest createDigest"

definition deriveV2ModelVersionDeploymentIdFromCreateDigest ::
  "js_string \<Rightarrow> (uuid_error, js_string) result" where
  "deriveV2ModelVersionDeploymentIdFromCreateDigest createDigest = uuidV8FromDigest createDigest"

definition deriveV2ModelSourceEvidenceIdFromDigest :: "js_string \<Rightarrow> (uuid_error, js_string) result" where
  "deriveV2ModelSourceEvidenceIdFromDigest evidenceDigest = uuidV8FromDigest evidenceDigest"

end
