(* ===== verification/Domain_Separation.thy ===== *)
theory Domain_Separation
  imports Model_Registry_Hash
begin

text \<open>
  What a Databench digest identifies. Every domain tag ends in the only NUL it holds and no two
  tags are equal, canonical texts identify values, and UTF-8 identifies texts; so two hashed
  values have the same preimage exactly when they belong to the same domain and are equal up
  to key order. BLAKE3 itself is assumed injective only on the two preimages compared.
\<close>

section \<open>Tags\<close>

definition domain_tags :: "js_string list" where
  "domain_tags =
     map DOMAIN [
      D_recordId, D_candidateId, D_signalId, D_preferenceId, D_record, D_dataset,
      D_transformCache, D_identityClaim, D_identityRequest, D_exportFidelity,
      D_evaluationRunCreate, D_evaluationRunCreateV2, D_evaluationRunCreateV3,
      D_evaluationRunCreateV4, D_evaluationRunCreateV5, D_evaluationRunCreateV6,
      D_swiftStudioSessionCreate, D_swiftStudioOutputHandle,
      D_modelArtifactImportCreate, D_modelDeploymentCreate] @
     map MODEL_DOMAIN [
      D_modelCreate, D_sourceArtifact, D_sourceRepository, D_sourceService,
      D_versionArtifact, D_versionRepository, D_versionService,
      D_registrationArtifact, D_registrationRepository, D_registrationService,
      D_deploymentAdoption, D_versionDeploymentCreate, D_sourceEvidence]"

definition is_tag :: "js_string \<Rightarrow> bool" where
  "is_tag t \<longleftrightarrow> t \<noteq> [] \<and> last t = 0 \<and> 0 \<notin> set (butlast t) \<and> is_ascii t"

lemma is_tag_simps [simp]: "is_tag (c # t) \<longleftrightarrow> unat c < 0x80 \<and> (if t = [] then c = 0 else c \<noteq> 0 \<and> is_tag t)"
  by (auto simp: is_tag_def)

lemma is_tag_DOMAIN: "is_tag (DOMAIN d)"
  by (cases d; simp)

lemma is_tag_MODEL_DOMAIN: "is_tag (MODEL_DOMAIN d)"
  by (cases d; simp)

lemma is_tag_domain_tags: "t \<in> set domain_tags \<Longrightarrow> is_tag t"
  unfolding domain_tags_def using is_tag_DOMAIN is_tag_MODEL_DOMAIN
  by (auto simp del: DOMAIN.simps MODEL_DOMAIN.simps)

lemma distinct_domain_tags: "distinct domain_tags"
  by code_simp

lemma DOMAIN_mem: "DOMAIN d \<in> set domain_tags"
  by (cases d) (simp_all add: domain_tags_def del: DOMAIN.simps)

lemma MODEL_DOMAIN_mem: "MODEL_DOMAIN d \<in> set domain_tags"
  by (cases d) (simp_all add: domain_tags_def del: MODEL_DOMAIN.simps)

lemma is_tag_inject: "is_tag t \<Longrightarrow> is_tag u \<Longrightarrow> t @ x = u @ y \<Longrightarrow> t = u \<and> x = y"
proof (induction t arbitrary: u)
  case (Cons c t)
  then obtain d u' where u: "u = d # u'" by (cases u) (auto simp: is_tag_def)
  with Cons.prems have "t = [] \<longleftrightarrow> u' = []" and "c = d" "t @ x = u' @ y"
    by (auto split: if_splits)
  with Cons.prems Cons.IH [of u'] u show ?case by (cases "t = []") auto
qed (simp add: is_tag_def)

section \<open>Preimages\<close>

lemma hashDomain_Inr:
  "hashDomain digest d v = Inr h \<longleftrightarrow> json_ok v \<and> h = digest (preimage d v)"
  by (auto simp: hashDomain_def preimage_def result_simps canonical_json_eq_Inr)

lemma hashDomain_ok: "json_ok v \<Longrightarrow> hashDomain digest d v = Inr (digest (preimage d v))"
  by (simp only: hashDomain_Inr)

lemma inj_on_pair: "inj_on f {a, b} \<Longrightarrow> f a = f b \<longleftrightarrow> a = b"
  by (metis inj_on_eq_iff insertI1 insertI2)

lemma preimage_inject:
  assumes "is_tag d" "is_tag d'" and "json_ok v" "json_ok w" and "wf_json v" "wf_json w"
  shows "preimage d v = preimage d' w \<longleftrightarrow> d = d' \<and> canon v = canon w"
proof -
  have "is_scalar_sequence (d @ jcs v)" "is_scalar_sequence (d' @ jcs w)"
    using assms by (simp_all add: is_scalar_sequence_append is_scalar_sequence_ascii is_tag_def jcs_scalar)
  then have "preimage d v = preimage d' w \<longleftrightarrow> d @ jcs v = d' @ jcs w"
    unfolding preimage_def using encode_utf8_inject by metis
  also have "\<dots> \<longleftrightarrow> d = d' \<and> jcs v = jcs w"
    using is_tag_inject [OF assms(1,2), of "jcs v" "jcs w"] by blast
  finally show ?thesis
    by (simp only: jcs_inject [OF assms(5,6,3,4)])
qed

text \<open>
  C33: two values hashed by any two of the functions of \<open>domains.ts\<close> and \<open>model-registry.ts\<close> get
  the same digest exactly when both functions hash under the same domain and the values are
  equal up to the order of object keys and the sign of zero, unless the two preimages are a
  collision of BLAKE3.
\<close>

theorem hash_identifies_value:
  assumes "d \<in> set domain_tags" "d' \<in> set domain_tags" and "wf_json v" "wf_json w"
    and "hashDomain digest d v = Inr h" "hashDomain digest d' w = Inr k"
    and "inj_on digest {preimage d v, preimage d' w}"
  shows "h = k \<longleftrightarrow> d = d' \<and> canon v = canon w"
proof -
  have ok: "json_ok v" "json_ok w" and h: "h = digest (preimage d v)" "k = digest (preimage d' w)"
    using assms(5,6) by (simp_all add: hashDomain_Inr)
  have "h = k \<longleftrightarrow> preimage d v = preimage d' w"
    unfolding h by (rule inj_on_pair [OF assms(7)])
  then show ?thesis
    using preimage_inject [OF _ _ ok assms(3,4)] assms(1,2) is_tag_domain_tags by blast
qed

text \<open>A digest for the witnesses: the bytes themselves, written as code units.\<close>

definition plain_digest :: "bytes \<Rightarrow> js_string" where
  "plain_digest bs = map (\<lambda>b. of_nat (unat b)) bs"

lemma inj_plain_digest: "inj_on plain_digest A"
proof -
  have "unat (of_nat (unat b) :: code_unit) = unat b" for b :: "8 word"
    using unsigned_less [of b, where 'a = nat]
    by (simp only: unsigned_of_nat) (simp add: take_bit_nat_eq_self)
  then have "inj (\<lambda>b :: 8 word. of_nat (unat b) :: code_unit)"
    by (intro injI) (metis unat_inject)
  then have "inj plain_digest"
    unfolding plain_digest_def by (rule inj_mapI)
  then show ?thesis by (rule inj_on_subset) simp
qed

lemma hash_identifies_value_witness:
  "plain_digest (preimage (DOMAIN D_record) (JObject [(js ''a'', JNull), (js ''b'', JBool True)]))
     = plain_digest (preimage (DOMAIN D_record) (JObject [(js ''b'', JBool True), (js ''a'', JNull)]))
   \<and> plain_digest (preimage (DOMAIN D_record) JNull) \<noteq> plain_digest (preimage (DOMAIN D_dataset) JNull)"
proof
  let ?v = "JObject [(js ''a'', JNull), (js ''b'', JBool True)]"
  let ?w = "JObject [(js ''b'', JBool True), (js ''a'', JNull)]"
  have ok: "json_ok ?v" "json_ok ?w" "wf_json ?v" "wf_json ?w"
    by (simp_all add: is_high_surrogate_def is_low_surrogate_def)
  have canon: "canon ?v = canon ?w"
    by (simp add: js_sort_entries_def)
  show "plain_digest (preimage (DOMAIN D_record) ?v) = plain_digest (preimage (DOMAIN D_record) ?w)"
    using hash_identifies_value [OF DOMAIN_mem DOMAIN_mem ok(3,4) hashDomain_ok hashDomain_ok
        inj_plain_digest, OF ok(1,2)] canon by blast
  have wf_null: "wf_json JNull" and "DOMAIN D_record \<noteq> DOMAIN D_dataset" by simp_all
  then show "plain_digest (preimage (DOMAIN D_record) JNull) \<noteq> plain_digest (preimage (DOMAIN D_dataset) JNull)"
    using hash_identifies_value [OF DOMAIN_mem DOMAIN_mem wf_null wf_null
        hashDomain_ok hashDomain_ok inj_plain_digest, of D_record D_dataset]
    by (metis json_ok.simps(5))
qed

section \<open>The fields of an identity\<close>

lemma entries_eqI:
  assumes "set xs = set ys" "map fst xs = map fst ys" "distinct (map fst xs)"
  shows "xs = ys"
proof (rule map_inj_on [OF assms(2)])
  show "inj_on fst (set xs \<union> set ys)"
    using assms(1,3) unfolding distinct_map by (metis sup.idem)
qed

lemma canon_object_inject:
  assumes "canon (JObject kvs) = canon (JObject lws)"
    and "map fst kvs = map fst lws" and "distinct (map fst kvs)"
  shows "map (canon \<circ> snd) kvs = map (canon \<circ> snd) lws"
proof -
  let ?c = "map (\<lambda>(key, v). (key, canon v))"
  have "js_sort_entries compareJcsUtf16 (?c kvs) = js_sort_entries compareJcsUtf16 (?c lws)"
    using assms(1) by (simp only: canon.simps json.inject)
  then have "set (?c kvs) = set (?c lws)"
    by (metis set_js_sort_entries)
  moreover have fst: "map fst (?c xs) = map fst xs" for xs :: json_object
    by (induction xs) auto
  ultimately have "?c kvs = ?c lws"
    using assms(2,3) entries_eqI by metis
  then have "map snd (?c kvs) = map snd (?c lws)" by simp
  then show ?thesis by (simp add: comp_def case_prod_unfold)
qed

text \<open>
  The preimages of two identities of one kind determine every field: the members of the two
  objects have the same names, which are distinct.
\<close>

lemma fields_of_digest:
  assumes "inj_on digest {preimage d (JObject kvs), preimage d (JObject lws)}" and "is_tag d"
    and "hashDomain digest d (JObject kvs) = Inr h" "hashDomain digest d (JObject lws) = Inr h"
    and "wf_json (JObject kvs)" "wf_json (JObject lws)" and "map fst kvs = map fst lws"
  shows "map (canon \<circ> snd) kvs = map (canon \<circ> snd) lws"
proof (rule canon_object_inject)
  have ok: "json_ok (JObject kvs)" "json_ok (JObject lws)"
    and "digest (preimage d (JObject kvs)) = digest (preimage d (JObject lws))"
    using assms(3,4) by (simp_all only: hashDomain_Inr)
  then have "preimage d (JObject kvs) = preimage d (JObject lws)"
    by (simp only: inj_on_pair [OF assms(1)])
  then show "canon (JObject kvs) = canon (JObject lws)"
    using preimage_inject [OF assms(2,2) ok assms(5,6)] by blast
  show "map fst kvs = map fst lws" "distinct (map fst kvs)"
    using assms(5,7) by simp_all
qed

lemma wf_json_parts [simp]:
  "wf_json (nullable x)"
  "wf_json (strings xs)"
  by (simp_all add: nullable_def strings_def list_all_iff split: option.split)

lemma canon_parts [simp]:
  "canon (nullable x) = nullable x"
  "canon (strings xs) = strings xs"
  by (simp_all add: nullable_def strings_def comp_def split: option.split)

lemma parts_inject [simp]:
  "nullable x = nullable y \<longleftrightarrow> x = y"
  "strings xs = strings ys \<longleftrightarrow> xs = ys"
  by (auto simp: nullable_def strings_def inj_map_eq_map inj_def split: option.split)

text \<open>
  C39: equal transform cache keys mean the same operator at the same version on the same input
  datasets in the same order, with parameters equal up to key order, so a cache hit returns the
  result of the same computation.
\<close>

theorem transform_cache_key_identifies:
  assumes "hashV2TransformCache digest x = Inr h" "hashV2TransformCache digest y = Inr h"
    and "wf_json (JObject (tc_params x))" "wf_json (JObject (tc_params y))"
    and "inj_on digest {preimage (DOMAIN D_transformCache) (transformCache_json x),
                        preimage (DOMAIN D_transformCache) (transformCache_json y)}"
  shows "tc_op x = tc_op y \<and> tc_op_version x = tc_op_version y
    \<and> tc_input_dataset_versions x = tc_input_dataset_versions y
    \<and> canon (JObject (tc_params x)) = canon (JObject (tc_params y))"
  using fields_of_digest [OF assms(5) [unfolded transformCache_json_def] is_tag_DOMAIN
      assms(1,2) [unfolded hashV2TransformCache_def transformCache_json_def]] assms(3,4)
  by simp

lemma transform_cache_key_identifies_witness:
  "\<exists>x y. tc_params x \<noteq> tc_params y \<and> canon (JObject (tc_params x)) = canon (JObject (tc_params y))
    \<and> hashV2TransformCache plain_digest x = hashV2TransformCache plain_digest y"
proof -
  let ?v = "[(js ''a'', JNull), (js ''b'', JBool True)]"
  let ?w = "[(js ''b'', JBool True), (js ''a'', JNull)]"
  define x where "x = \<lparr>tc_op = js ''f'', tc_op_version = js ''1'',
    tc_input_dataset_versions = [], tc_params = ?v\<rparr>"
  define y where "y = x\<lparr>tc_params := ?w\<rparr>"
  have ok: "json_ok (transformCache_json x)" "json_ok (transformCache_json y)"
    and wf: "wf_json (JObject (tc_params x))" "wf_json (JObject (tc_params y))"
      "wf_json (transformCache_json x)" "wf_json (transformCache_json y)"
    and canon: "canon (transformCache_json x) = canon (transformCache_json y)"
    by (simp_all add: x_def y_def transformCache_json_def strings_def js_sort_entries_def
        is_high_surrogate_def is_low_surrogate_def)
  from preimage_inject [OF is_tag_DOMAIN is_tag_DOMAIN ok wf(3,4)] canon
  have same: "preimage (DOMAIN D_transformCache) (transformCache_json x)
      = preimage (DOMAIN D_transformCache) (transformCache_json y)" by blast
  have "hashV2TransformCache plain_digest x
      = Inr (plain_digest (preimage (DOMAIN D_transformCache) (transformCache_json x)))"
    "hashV2TransformCache plain_digest y
      = Inr (plain_digest (preimage (DOMAIN D_transformCache) (transformCache_json x)))"
    unfolding hashV2TransformCache_def hashDomain_ok [OF ok(1)] hashDomain_ok [OF ok(2)] same
    by (rule refl)+
  moreover from transform_cache_key_identifies [OF this wf(1,2) inj_plain_digest]
  have "canon (JObject (tc_params x)) = canon (JObject (tc_params y))" by blast
  moreover have "tc_params x \<noteq> tc_params y" by (simp add: x_def y_def)
  ultimately show ?thesis by metis
qed

text \<open>
  Equal identity claim keys mean the same namespace, the same creation profile and the same
  claim material, so no identity of one entity kind can be claimed by another.
\<close>

lemma claim_key_identifies:
  assumes "hashV2IdentityClaimKey digest x = Inr h" "hashV2IdentityClaimKey digest y = Inr h"
    and "wf_json (claim_material_json (ic_claim_material x))"
      "wf_json (claim_material_json (ic_claim_material y))"
    and "inj_on digest {preimage (DOMAIN D_identityClaim) (identityClaim_json x),
                        preimage (DOMAIN D_identityClaim) (identityClaim_json y)}"
  shows "ic_namespace x = ic_namespace y
    \<and> claim_profile (ic_claim_material x) = claim_profile (ic_claim_material y)
    \<and> canon (claim_material_json (ic_claim_material x)) = canon (claim_material_json (ic_claim_material y))"
  using fields_of_digest [OF assms(5) [unfolded identityClaim_json_def] is_tag_DOMAIN
      assms(1,2) [unfolded hashV2IdentityClaimKey_def identityClaim_json_def]] assms(3,4)
  by simp

lemma claim_keys_differ:
  "\<exists>x y h. ic_claim_material x \<noteq> ic_claim_material y
     \<and> hashV2IdentityClaimKey plain_digest x = Inr h \<and> hashV2IdentityClaimKey plain_digest y \<noteq> Inr h"
proof -
  define s where "s = \<lparr>es_owner_id = js ''o'', es_producer = js ''p'', es_producer_event_key = js ''k''\<rparr>"
  define x where "x = \<lparr>ic_namespace = js ''n'', ic_claim_material = SignalClaim s\<rparr>"
  define y where "y = \<lparr>ic_namespace = js ''n'', ic_claim_material = PreferenceClaim s\<rparr>"
  have "json_ok (identityClaim_json x)"
    by (simp add: x_def s_def identityClaim_json_def event_seed_json_def
        is_high_surrogate_def is_low_surrogate_def)
  then obtain h where h: "hashV2IdentityClaimKey plain_digest x = Inr h"
    by (simp add: hashV2IdentityClaimKey_def hashDomain_ok del: DOMAIN.simps)
  have wf: "wf_json (claim_material_json (ic_claim_material x))"
    "wf_json (claim_material_json (ic_claim_material y))"
    by (simp_all add: x_def y_def event_seed_json_def)
  have "claim_profile (ic_claim_material x) \<noteq> claim_profile (ic_claim_material y)"
    by (simp add: x_def y_def)
  then have "hashV2IdentityClaimKey plain_digest y \<noteq> Inr h"
    using claim_key_identifies [OF h _ wf inj_plain_digest] by blast
  moreover have "ic_claim_material x \<noteq> ic_claim_material y" by (simp add: x_def y_def)
  ultimately show ?thesis using h by blast
qed

text \<open>The fields of a run other than its two free-form objects.\<close>

definition without_objects :: "evaluation_run_create_v6 \<Rightarrow> evaluation_run_create_v6" where
  "without_objects z = z\<lparr>er_normalized_options := [], er6_scoring_config := []\<rparr>"

definition wf_objects :: "evaluation_run_create_v6 \<Rightarrow> bool" where
  "wf_objects z \<longleftrightarrow> wf_json (JObject (er_normalized_options z)) \<and> wf_json (JObject (er6_scoring_config z))"

text \<open>
  equal create digests of evaluation runs on a deployed model version with a scoring
  configuration mean that every field of the two requests is equal, the two free-form objects
  up to key order.
\<close>

lemma evaluation_run_create_identifies:
  assumes "hashV2EvaluationRunCreateWithModelVersionDeploymentAndMetrics digest x = Inr h"
    "hashV2EvaluationRunCreateWithModelVersionDeploymentAndMetrics digest y = Inr h"
    and "wf_objects x" "wf_objects y"
    and "inj_on digest {preimage (DOMAIN D_evaluationRunCreateV6)
            (evaluationRunCreateWithModelVersionDeploymentAndMetrics_json x),
          preimage (DOMAIN D_evaluationRunCreateV6)
            (evaluationRunCreateWithModelVersionDeploymentAndMetrics_json y)}"
  shows "without_objects x = without_objects y
    \<and> canon (JObject (er_normalized_options x)) = canon (JObject (er_normalized_options y))
    \<and> canon (JObject (er6_scoring_config x)) = canon (JObject (er6_scoring_config y))"
proof -
  note defs = evaluationRunCreateWithModelVersionDeploymentAndMetrics_json_def
    hashV2EvaluationRunCreateWithModelVersionDeploymentAndMetrics_def
  show ?thesis
    using fields_of_digest [OF assms(5) [unfolded defs] is_tag_DOMAIN assms(1,2) [unfolded defs]]
      assms(3,4) [unfolded wf_objects_def]
    by (simp add: without_objects_def)
qed

lemma evaluation_run_create_identifies_example:
  "\<exists>x y h. x \<noteq> y
     \<and> hashV2EvaluationRunCreateWithModelVersionDeploymentAndMetrics plain_digest x = Inr h
     \<and> hashV2EvaluationRunCreateWithModelVersionDeploymentAndMetrics plain_digest y \<noteq> Inr h"
proof -
  define x where "x = \<lparr>er_provider_task_id = js ''t'', er_dataset_version = js ''d'',
    er_source_ref = None, er_converter = EvalscopeGeneralQa, er_converter_version = js ''1'',
    er_normalized_options = [], er_fidelity_digest = js ''f'', er_benchmark = js ''b'',
    er_model_name = None, er_evalscope_commit = None, er5_model_id = js ''m'',
    er5_model_version_id = js ''v'', er5_model_deployment_id = js ''e'',
    er5_model_deployment_digest = js ''g'', er5_model_artifact_id = None,
    er5_source_mutability_snapshot = Immutable, er5_verification_level_snapshot = ContentVerified,
    er5_source_evidence_digest = None, er6_scoring_config = [],
    er6_primary_metric_id = js ''p'', er6_primary_output_key = js ''k''\<rparr>"
  define y where "y = x\<lparr>er_model_name := Some (js ''z'')\<rparr>"
  have "json_ok (evaluationRunCreateWithModelVersionDeploymentAndMetrics_json x)"
    by (simp add: x_def evaluationRunCreateWithModelVersionDeploymentAndMetrics_json_def nullable_def
        is_high_surrogate_def is_low_surrogate_def)
  then obtain h
    where h: "hashV2EvaluationRunCreateWithModelVersionDeploymentAndMetrics plain_digest x = Inr h"
    by (simp add: hashV2EvaluationRunCreateWithModelVersionDeploymentAndMetrics_def hashDomain_ok
        del: DOMAIN.simps)
  have wf: "wf_objects x" "wf_objects y" by (simp_all add: wf_objects_def x_def y_def)
  have "without_objects x \<noteq> without_objects y" by (simp add: without_objects_def x_def y_def)
  then have "hashV2EvaluationRunCreateWithModelVersionDeploymentAndMetrics plain_digest y \<noteq> Inr h"
    using evaluation_run_create_identifies [OF h _ wf inj_plain_digest] by blast
  moreover have "x \<noteq> y" by (simp add: x_def y_def)
  ultimately show ?thesis using h by blast
qed

section \<open>UUIDs\<close>

text \<open>The digits of the digest that survive in the UUID cut from it.\<close>

definition uuid_digits :: "js_string \<Rightarrow> js_string \<times> js_string \<times> js_string \<times> nat" where
  "uuid_digits d = (take 12 d, take 3 (drop 13 d), take 15 (drop 17 d), hex_value (d ! 16) mod 4)"

lemma hex_value_less: "is_hex_lower c \<Longrightarrow> hex_value c < 16"
  by (auto simp: hex_value_def char_class_defs word_le_nat_alt)

lemma variant_nibble: "n < 16 \<Longrightarrow> or (and n 3) 8 = 8 + n mod (4 :: nat)"
proof -
  have "list_all (\<lambda>n. or (and n 3) 8 = 8 + n mod (4 :: nat)) [0..<16]"
    by code_simp
  then show "n < 16 \<Longrightarrow> ?thesis" by (simp add: list_all_iff)
qed

definition uuid_hex :: "js_string \<Rightarrow> js_string" where
  "uuid_hex d = take 12 d @ [of_char CHR ''8''] @ take 3 (drop 13 d) @ [variant_digit (d ! 16)]
     @ take 15 (drop 17 d)"

definition hyphenated :: "js_string \<Rightarrow> js_string" where
  "hyphenated x = take 8 x @ js ''-'' @ take 4 (drop 8 x) @ js ''-'' @ take 4 (drop 12 x) @ js ''-''
     @ take 4 (drop 16 x) @ js ''-'' @ take 12 (drop 20 x)"

lemma uuid_eq: "is_hex 64 d \<Longrightarrow> uuidV8FromDigest d = Inr (hyphenated (uuid_hex d))"
proof -
  assume "is_hex 64 d"
  then have "(take 32 d)[12 := x, 16 := y] = take 12 d @ [x] @ take 3 (drop 13 d) @ [y] @ take 15 (drop 17 d)"
    for x y
    by (intro nth_equalityI) (auto simp: is_hex_def nth_append nth_list_update nth_Cons')
  with \<open>is_hex 64 d\<close> show ?thesis
    by (simp add: uuidV8FromDigest_def uuid_hex_def hyphenated_def)
qed

lemma hyphenated_inject:
  assumes "length x = 32" "length y = 32"
  shows "hyphenated x = hyphenated y \<longleftrightarrow> x = y"
proof
  have split: "x = take 8 x @ take 4 (drop 8 x) @ take 4 (drop 12 x) @ take 4 (drop 16 x) @ take 12 (drop 20 x)"
    if "length x = 32" for x :: js_string
    using that by (intro nth_equalityI) (auto simp: nth_append)
  assume "hyphenated x = hyphenated y"
  with assms show "x = y"
    unfolding hyphenated_def
    by (subst split [OF assms(1)], subst split [OF assms(2)]) simp
qed simp

text \<open>
  Of the 128 bits of the digest prefix, the UUID keeps all but the six that hold its version and its
  variant.
\<close>

lemma uuid_collision:
  assumes "is_hex 64 d" "is_hex 64 e"
  shows "uuidV8FromDigest d = uuidV8FromDigest e \<longleftrightarrow> uuid_digits d = uuid_digits e"
proof -
  have len: "length d = 64" "length e = 64" using assms by (simp_all add: is_hex_def)
  have hex: "hex_value (d ! 16) < 16" "hex_value (e ! 16) < 16"
    using assms by (simp_all add: is_hex_def list_all_length hex_value_less)
  have "uuid_hex d = uuid_hex e \<longleftrightarrow> uuid_digits d = uuid_digits e"
    unfolding uuid_hex_def uuid_digits_def variant_digit_def
    using len hex by (auto simp: variant_nibble hex_unit_inject)
  with assms len show ?thesis
    by (simp add: uuid_eq hyphenated_inject uuid_hex_def)
qed

definition is_uuid_v8 :: "js_string \<Rightarrow> bool" where
  "is_uuid_v8 u \<longleftrightarrow> length u = 36
     \<and> list_all (\<lambda>i. u ! i = of_char CHR ''-'') [8, 13, 18, 23]
     \<and> list_all is_hex_lower (take 8 u @ take 4 (drop 9 u) @ take 4 (drop 14 u) @ take 4 (drop 19 u) @ drop 24 u)
     \<and> u ! 14 = of_char CHR ''8'' \<and> u ! 19 \<in> set (js ''89ab'')"

lemma variant_digit_mem: "is_hex_lower c \<Longrightarrow> variant_digit c \<in> set (js ''89ab'')"
proof -
  assume "is_hex_lower c"
  then have "variant_digit c = hex_unit (8 + hex_value c mod 4)"
    by (simp add: variant_digit_def variant_nibble hex_value_less)
  moreover have "hex_value c mod 4 \<in> {0, 1, 2, 3}" by auto
  ultimately show ?thesis by (auto simp: hex_unit_def)
qed

lemma uuid_hex_facts:
  assumes "is_hex 64 d"
  shows "length (uuid_hex d) = 32" "list_all is_hex_lower (uuid_hex d)"
    "uuid_hex d ! 12 = of_char CHR ''8''" "uuid_hex d ! 16 = variant_digit (d ! 16)"
proof -
  have len: "length d = 64" and hex: "list_all is_hex_lower d" using assms by (simp_all add: is_hex_def)
  then have "is_hex_lower (variant_digit (d ! 16))"
    using variant_digit_mem [of "d ! 16"] by (auto simp: list_all_length char_class_defs)
  moreover have "is_hex_lower (of_char CHR ''8'')" by (simp add: char_class_defs)
  ultimately show "list_all is_hex_lower (uuid_hex d)"
    using hex by (auto simp: uuid_hex_def list_all_iff dest: in_set_takeD in_set_dropD)
  show "length (uuid_hex d) = 32" "uuid_hex d ! 12 = of_char CHR ''8''"
    "uuid_hex d ! 16 = variant_digit (d ! 16)"
    using len by (simp_all add: uuid_hex_def nth_append)
qed

lemma hyphenated_parts:
  assumes "length x = 32"
  shows "length (hyphenated x) = 36"
    "list_all (\<lambda>i. hyphenated x ! i = of_char CHR ''-'') [8, 13, 18, 23]"
    "set (take 8 (hyphenated x) @ take 4 (drop 9 (hyphenated x)) @ take 4 (drop 14 (hyphenated x))
      @ take 4 (drop 19 (hyphenated x)) @ drop 24 (hyphenated x)) \<subseteq> set x"
    "hyphenated x ! 14 = x ! 12" "hyphenated x ! 19 = x ! 16"
  using assms
  by (auto simp: hyphenated_def nth_append nth_Cons' dest: in_set_takeD in_set_dropD)

lemma uuid_shape: "uuidV8FromDigest d = Inr u \<Longrightarrow> is_uuid_v8 u"
proof -
  assume u: "uuidV8FromDigest d = Inr u"
  then have hex: "is_hex 64 d" by (simp add: uuidV8FromDigest_def result_simps)
  with u have u: "u = hyphenated (uuid_hex d)" by (simp add: uuid_eq)
  note facts = uuid_hex_facts [OF hex]
  have "variant_digit (d ! 16) \<in> set (js ''89ab'')"
    using hex by (intro variant_digit_mem) (simp add: is_hex_def list_all_length)
  with facts hyphenated_parts [OF facts(1)] show ?thesis
    unfolding is_uuid_v8_def u list_all_iff by (simp only: facts) blast
qed

text \<open>
  C40: Every UUID cut from a digest has the shape of version 8 and of the RFC 9562 variant, and two
  digests give the same UUID exactly when the rest of their first 32 digits agree.
\<close>

theorem uuid_exact:
  assumes "is_hex 64 d" "is_hex 64 e" "uuidV8FromDigest d = Inr u"
  shows "is_uuid_v8 u \<and> (uuidV8FromDigest e = Inr u \<longleftrightarrow> uuid_digits d = uuid_digits e)"
  using uuid_shape [OF assms(3)] uuid_collision [OF assms(1,2)] assms(3) by auto

lemma uuid_exact_witness:
  "is_uuid_v8 (js ''00000000-0000-8000-8000-000000000000'')
    \<and> uuidV8FromDigest (replicate 32 0x30 @ replicate 32 0x66) = Inr (js ''00000000-0000-8000-8000-000000000000'')"
proof -
  have "is_hex 64 (replicate 64 0x30)" "is_hex 64 (replicate 32 0x30 @ replicate 32 0x66)"
    and "uuid_digits (replicate 64 0x30) = uuid_digits (replicate 32 0x30 @ replicate 32 0x66)"
    and "uuidV8FromDigest (replicate 64 0x30) = Inr (js ''00000000-0000-8000-8000-000000000000'')"
    by code_simp+
  then show ?thesis using uuid_exact by blast
qed

end
