(* ===== verification/Dataset_Identity.thy ===== *)
theory Dataset_Identity
  imports Domain_Separation
begin

text \<open>
  \<open>packages/hashing/src/blake3.ts\<close> and the streaming dataset identity of \<open>domains.ts\<close>. All
  incremental hashers of a process share one WASM instance of the package \<open>hash-wasm\<close>, whose
  complete state is loaded before and saved after each call. A saved state is modelled as the
  bytes absorbed so far, and reading a digest from it as \<open>digest\<close> of those bytes. The theorems
  show that hashers do not disturb each other and that the streamed dataset identity is the
  plain one.
\<close>

section \<open>Incremental digests\<close>

record hasher =
  saved_state :: bytes
  finalized :: bool

record digest_module =
  backend :: bytes
  hashers :: "hasher list"

datatype hasher_error = UpdateFinalized | FinalizeTwice

definition createIncrementalDigest :: "digest_module \<Rightarrow> digest_module \<times> nat" where
  "createIncrementalDigest m =
     (m\<lparr>hashers := hashers m @ [\<lparr>saved_state = [], finalized = False\<rparr>]\<rparr>, length (hashers m))"

definition load :: "nat \<Rightarrow> digest_module \<Rightarrow> digest_module" where
  "load i m = m\<lparr>backend := saved_state (hashers m ! i)\<rparr>"

definition absorb :: "bytes \<Rightarrow> digest_module \<Rightarrow> digest_module" where
  "absorb chunk m = m\<lparr>backend := backend m @ chunk\<rparr>"

definition save :: "nat \<Rightarrow> digest_module \<Rightarrow> digest_module" where
  "save i m = m\<lparr>hashers := (hashers m)[i := (hashers m ! i)\<lparr>saved_state := backend m\<rparr>]\<rparr>"

definition hasher_update ::
  "nat \<Rightarrow> bytes \<Rightarrow> digest_module \<Rightarrow> (hasher_error, digest_module) result" where
  "hasher_update i chunk m =
     bindR (ensure (\<not> finalized (hashers m ! i)) UpdateFinalized) (\<lambda>_.
       Inr (save i (absorb chunk (load i m))))"

definition digestHex ::
  "digest \<Rightarrow> nat \<Rightarrow> digest_module \<Rightarrow> (hasher_error, digest_module \<times> js_string) result" where
  "digestHex digest i m =
     bindR (ensure (\<not> finalized (hashers m ! i)) FinalizeTwice) (\<lambda>_.
       let m = load i (m\<lparr>hashers := (hashers m)[i := (hashers m ! i)\<lparr>finalized := True\<rparr>]\<rparr>)
       in Inr (m, digest (backend m)))"

subsection \<open>Interleaved callers\<close>

datatype hasher_call = Update nat bytes | DigestHex nat

fun call_target :: "hasher_call \<Rightarrow> nat" where
  "call_target (Update i chunk) = i"
| "call_target (DigestHex i) = i"

text \<open>A call answers with an error, with nothing, or with a digest; an error changes nothing.\<close>

fun run_call ::
  "digest \<Rightarrow> hasher_call \<Rightarrow> digest_module \<Rightarrow> digest_module \<times> (hasher_error, js_string option) result" where
  "run_call digest (Update i chunk) m =
     (case hasher_update i chunk m of Inl e \<Rightarrow> (m, Inl e) | Inr m' \<Rightarrow> (m', Inr None))"
| "run_call digest (DigestHex i) m =
     (case digestHex digest i m of Inl e \<Rightarrow> (m, Inl e) | Inr (m', d) \<Rightarrow> (m', Inr (Some d)))"

fun run_calls ::
  "digest \<Rightarrow> hasher_call list \<Rightarrow> digest_module
    \<Rightarrow> digest_module \<times> (hasher_call \<times> (hasher_error, js_string option) result) list" where
  "run_calls digest [] m = (m, [])"
| "run_calls digest (c # cs) m =
     (let (m', a) = run_call digest c m; (m'', as) = run_calls digest cs m' in (m'', (c, a) # as))"

text \<open>The calls of one hasher, on a hasher that has the machine for itself.\<close>

fun own_call ::
  "digest \<Rightarrow> hasher_call \<Rightarrow> hasher \<Rightarrow> hasher \<times> (hasher_error, js_string option) result" where
  "own_call digest (Update i chunk) h =
     (if finalized h then (h, Inl UpdateFinalized)
      else (h\<lparr>saved_state := saved_state h @ chunk\<rparr>, Inr None))"
| "own_call digest (DigestHex i) h =
     (if finalized h then (h, Inl FinalizeTwice)
      else (h\<lparr>finalized := True\<rparr>, Inr (Some (digest (saved_state h)))))"

fun own_calls ::
  "digest \<Rightarrow> hasher_call list \<Rightarrow> hasher \<Rightarrow> hasher \<times> (hasher_call \<times> (hasher_error, js_string option) result) list" where
  "own_calls digest [] h = (h, [])"
| "own_calls digest (c # cs) h =
     (let (h', a) = own_call digest c h; (h'', as) = own_calls digest cs h' in (h'', (c, a) # as))"

lemmas hasher_defs = hasher_update_def digestHex_def load_def absorb_def save_def Let_def

lemma run_call_isolated:
  assumes "call_target c < length (hashers m)" and "run_call digest c m = (m', a)"
  shows "hashers m' ! call_target c = fst (own_call digest c (hashers m ! call_target c))"
    and "a = snd (own_call digest c (hashers m ! call_target c))"
    and "i \<noteq> call_target c \<Longrightarrow> hashers m' ! i = hashers m ! i"
    and "length (hashers m') = length (hashers m)"
  using assms by (cases c; auto simp: hasher_defs ensure_def split: if_splits)+

text \<open>
  C36: however the calls of several hashers are interleaved on the shared backend, each hasher
  ends in the state, and its calls get the answers, they would have alone.
\<close>

theorem hashers_isolated:
  "list_all (\<lambda>c. call_target c < length (hashers m)) calls \<Longrightarrow> i < length (hashers m)
   \<Longrightarrow> (hashers (fst (run_calls digest calls m)) ! i,
        filter (\<lambda>(c, a). call_target c = i) (snd (run_calls digest calls m)))
     = own_calls digest (filter (\<lambda>c. call_target c = i) calls) (hashers m ! i)"
proof (induction calls arbitrary: m)
  case (Cons c cs)
  obtain m' a where step: "run_call digest c m = (m', a)" by fastforce
  from Cons.prems have c: "call_target c < length (hashers m)" by simp
  note iso = run_call_isolated [OF c step]
  have IH: "(hashers (fst (run_calls digest cs m')) ! i,
        filter (\<lambda>(c, a). call_target c = i) (snd (run_calls digest cs m')))
     = own_calls digest (filter (\<lambda>c. call_target c = i) cs) (hashers m' ! i)"
    using Cons iso(4) by simp
  show ?case
  proof (cases "call_target c = i")
    case True
    with iso have "own_call digest c (hashers m ! i) = (hashers m' ! i, a)"
      by (metis prod.collapse)
    with True step IH [symmetric] show ?thesis by (simp add: case_prod_unfold Let_def)
  next
    case False
    with step iso(3) [of i] IH show ?thesis by (simp add: case_prod_unfold Let_def)
  qed
qed simp

lemma hashers_isolated_witness:
  "\<exists>m digest. snd (own_calls digest [Update 1 [7]] (hashers m ! 1)) =
     filter (\<lambda>(c, a). call_target c = 1) (snd (run_calls digest [Update 0 [3], Update 1 [7], DigestHex 0] m))"
proof -
  let ?h = "\<lparr>saved_state = [], finalized = False\<rparr>"
  let ?m = "\<lparr>backend = [], hashers = [?h, ?h]\<rparr>"
  let ?calls = "[Update 0 [3], Update 1 [7], DigestHex 0]"
  have "list_all (\<lambda>c. call_target c < length (hashers ?m)) ?calls" "1 < length (hashers ?m)"
    by simp_all
  from hashers_isolated [OF this, of plain_digest]
  have "own_calls plain_digest (filter (\<lambda>c. call_target c = 1) ?calls) (hashers ?m ! 1)
      = (hashers (fst (run_calls plain_digest ?calls ?m)) ! 1,
          filter (\<lambda>(c, a). call_target c = 1) (snd (run_calls plain_digest ?calls ?m)))"
    by (rule sym)
  then have "snd (own_calls plain_digest [Update 1 [7]] (hashers ?m ! 1))
      = filter (\<lambda>(c, a). call_target c = 1) (snd (run_calls plain_digest ?calls ?m))"
    by simp
  then show ?thesis by blast
qed

section \<open>The dataset identity from a sorted stream\<close>

datatype dataset_error =
    DigestNotHex
  | DigestsNotSorted
  | HasherFault hasher_error

definition emit :: "nat \<Rightarrow> js_string \<Rightarrow> digest_module \<Rightarrow> (dataset_error, digest_module) result" where
  "emit i text m =
     (case hasher_update i (encode_utf8 text) m of Inl e \<Rightarrow> Inl (HasherFault e) | Inr m' \<Rightarrow> Inr m')"

fun feed_digests ::
  "nat \<Rightarrow> js_string option \<Rightarrow> bool \<Rightarrow> js_string list \<Rightarrow> digest_module
    \<Rightarrow> (dataset_error, digest_module) result" where
  "feed_digests i previous first [] m = Inr m"
| "feed_digests i previous first (recordDigest # rest) m =
     bindR (ensure (is_hex 64 recordDigest) DigestNotHex) (\<lambda>_.
     bindR (ensure (case previous of None \<Rightarrow> True
                    | Some p \<Rightarrow> compareJcsUtf16 p recordDigest \<le> 0) DigestsNotSorted) (\<lambda>_.
     bindR (if first then Inr m else emit i (js '','') m) (\<lambda>m.
     bindR (emit i ([0x22] @ recordDigest @ [0x22]) m) (\<lambda>m.
     feed_digests i (Some recordDigest) False rest m))))"

definition hashV2DatasetIdentityFromSortedRecordDigests ::
  "digest \<Rightarrow> js_string list \<Rightarrow> digest_module \<Rightarrow> (dataset_error, digest_module \<times> js_string) result" where
  "hashV2DatasetIdentityFromSortedRecordDigests digest recordDigests m =
     (let (m, i) = createIncrementalDigest m in
      bindR (emit i (DOMAIN D_dataset) m) (\<lambda>m.
      bindR (emit i (js ''{'' @ json_quote (js ''identity_profile'') @ js '':''
          @ json_quote (js ''databench-v2-jcs-1'') @ js '','' @ json_quote (js ''record_digests'')
          @ js '':['') m) (\<lambda>m.
      bindR (feed_digests i None True recordDigests m) (\<lambda>m.
      bindR (emit i (js ''],'' @ json_quote (js ''record_schema_version'') @ js '':''
          @ json_quote (js ''2.0.0'') @ js ''}'') m) (\<lambda>m.
      case digestHex digest i m of Inl e \<Rightarrow> Inl (HasherFault e) | Inr r \<Rightarrow> Inr r)))))"

subsection \<open>The stream absorbs the canonical text\<close>

definition holds :: "nat \<Rightarrow> js_string \<Rightarrow> digest_module \<Rightarrow> bool" where
  "holds i text m \<longleftrightarrow> is_scalar_sequence text \<and> i < length (hashers m)
     \<and> hashers m ! i = \<lparr>saved_state = encode_utf8 text, finalized = False\<rparr>"

lemma emit_holds:
  "holds i text m \<Longrightarrow> is_ascii t \<Longrightarrow> \<exists>m'. emit i t m = Inr m' \<and> holds i (text @ t) m'"
  by (auto simp: holds_def emit_def hasher_defs ensure_def encode_utf8_append
      is_scalar_sequence_append is_scalar_sequence_ascii)

definition quoted :: "js_string \<Rightarrow> js_string" where
  "quoted d = [0x22] @ d @ [0x22]"

fun feed_text :: "bool \<Rightarrow> js_string list \<Rightarrow> js_string" where
  "feed_text first [] = []"
| "feed_text first (d # ds) = (if first then [] else js '','') @ quoted d @ feed_text False ds"

lemma feed_text_join: "feed_text True ds = join_comma (map quoted ds)"
proof (induction ds)
  case (Cons d ds)
  have "feed_text False es = (if es = [] then [] else js '','' @ feed_text True es)" for es
    by (cases es) simp_all
  with Cons show ?case by (cases ds) simp_all
qed simp

lemma is_hex_lower_ascii: "is_hex_lower c \<Longrightarrow> unat c < 0x80"
  by (auto simp: char_class_defs word_le_nat_alt)

lemma is_hex_ascii: "is_hex n s \<Longrightarrow> is_ascii s"
  by (auto simp: is_hex_def is_ascii_def list_all_iff is_hex_lower_ascii)

lemma is_hex_quote: "is_hex n s \<Longrightarrow> json_quote s = quoted s"
proof -
  assume "is_hex n s"
  then have "list_all is_hex_lower s" by (simp add: is_hex_def)
  then have "concat (map escape_unit s) = s"
  proof (induction s)
    case (Cons c s)
    then have "escape_unit c = [c]"
      by (auto simp: escape_unit_def char_class_defs word_le_nat_alt word_less_nat_alt)
    with Cons show ?case by simp
  qed simp
  then show ?thesis by (simp add: json_quote_def quoted_def)
qed

definition sorted_from :: "js_string option \<Rightarrow> js_string list \<Rightarrow> bool" where
  "sorted_from previous ds \<longleftrightarrow> sorted (case previous of None \<Rightarrow> ds | Some p \<Rightarrow> p # ds)"

lemma sorted_from_Cons:
  "sorted_from previous (d # ds) \<longleftrightarrow>
     (case previous of None \<Rightarrow> True | Some p \<Rightarrow> p \<le> d) \<and> sorted_from (Some d) ds"
  by (auto simp: sorted_from_def split: option.splits)

lemma feed_holds:
  assumes "holds i acc m"
  shows "if list_all (is_hex 64) ds \<and> sorted_from previous ds
    then \<exists>m'. feed_digests i previous first ds m = Inr m' \<and> holds i (acc @ feed_text first ds) m'
    else feed_digests i previous first ds m \<in> {Inl DigestNotHex, Inl DigestsNotSorted}"
  using assms
proof (induction ds arbitrary: previous first m acc)
  case Nil
  then show ?case by (auto simp: sorted_from_def split: option.split)
next
  case (Cons d ds)
  show ?case
  proof (cases "is_hex 64 d \<and> (case previous of None \<Rightarrow> True | Some p \<Rightarrow> p \<le> d)")
    case False
    then show ?thesis
      by (auto simp: ensure_def sorted_from_Cons compareJcsUtf16_le split: option.splits)
  next
    case True
    then have ascii: "is_ascii ([0x22] @ d @ [0x22])" by (auto intro: is_hex_ascii)
    obtain m1 where m1: "(if first then Inr m else emit i (js '','') m) = Inr m1"
      "holds i (acc @ (if first then [] else js '','')) m1"
      using emit_holds [OF Cons.prems, of "[0x2c]"] Cons.prems by (cases first) auto
    obtain m2 where m2: "emit i ([0x22] @ d @ [0x22]) m1 = Inr m2"
      "holds i ((acc @ (if first then [] else js '','')) @ [0x22] @ d @ [0x22]) m2"
      using emit_holds [OF m1(2) ascii] by blast
    have step: "feed_digests i previous first (d # ds) m = feed_digests i (Some d) False ds m2"
      using True m1(1) m2(1) by (auto simp: compareJcsUtf16_le split: option.splits)
    from Cons.IH [OF m2(2), of "Some d" False] True show ?thesis
      unfolding step by (cases first) (auto simp: sorted_from_Cons quoted_def split: if_splits)
  qed
qed

lemma hex_digests_ok: "list_all (is_hex 64) ds \<Longrightarrow> json_ok (dataset_json ds)"
  by (auto simp: dataset_json_def strings_def list_all_iff is_scalar_sequence_ascii is_hex_ascii
      is_high_surrogate_def is_low_surrogate_def)

lemma dataset_text:
  assumes "list_all (is_hex 64) ds"
  shows "jcs (dataset_json ds) =
    (js ''{'' @ json_quote (js ''identity_profile'') @ js '':''
       @ json_quote (js ''databench-v2-jcs-1'') @ js '','' @ json_quote (js ''record_digests'')
       @ js '':['') @ feed_text True ds
    @ js ''],'' @ json_quote (js ''record_schema_version'') @ js '':''
       @ json_quote (js ''2.0.0'') @ js ''}''"
proof -
  have "map (jcs \<circ> JString) ds = map quoted ds"
    using assms is_hex_quote by (auto simp: list_all_iff)
  then have "jcs (strings ds) = brackets (map quoted ds)"
    by (simp add: strings_def del: map_eq_conv)
  then show ?thesis
    by (simp add: dataset_json_def js_sort_entries_def member_text_def braces_def brackets_def
        feed_text_join)
qed

text \<open>
  C34: the streamed dataset identity succeeds exactly on sorted streams of digests, and then it
  is the identity of the plain function on the same digests; on any other stream it throws one
  of its two \<open>TypeError\<close>s.
\<close>

theorem streamed_dataset_identity:
  "if list_all (is_hex 64) ds \<and> sorted ds
   then \<exists>m' h. hashV2DatasetIdentityFromSortedRecordDigests digest ds m = Inr (m', h)
     \<and> hashV2DatasetIdentity digest \<lparr>di_record_digests = ds\<rparr> = Inr h
   else hashV2DatasetIdentityFromSortedRecordDigests digest ds m
     \<in> {Inl DigestNotHex, Inl DigestsNotSorted}"
proof -
  let ?i = "length (hashers m)"
  let ?head = "js ''{'' @ json_quote (js ''identity_profile'') @ js '':''
      @ json_quote (js ''databench-v2-jcs-1'') @ js '','' @ json_quote (js ''record_digests'') @ js '':[''"
  let ?tail = "js ''],'' @ json_quote (js ''record_schema_version'') @ js '':''
      @ json_quote (js ''2.0.0'') @ js ''}''"
  have ascii: "is_ascii (DOMAIN D_dataset)" "is_ascii ?head" "is_ascii ?tail"
    by (simp_all add: json_quote_def escape_unit_def)
  obtain m0 where create: "createIncrementalDigest m = (m0, ?i)" and h0: "holds ?i [] m0"
    by (auto simp: createIncrementalDigest_def holds_def encode_utf8_def)
  obtain m1 where m1: "emit ?i (DOMAIN D_dataset) m0 = Inr m1" "holds ?i (DOMAIN D_dataset) m1"
    using emit_holds [OF h0 ascii(1)] by auto
  obtain m2 where m2: "emit ?i ?head m1 = Inr m2" "holds ?i (DOMAIN D_dataset @ ?head) m2"
    using emit_holds [OF m1(2) ascii(2)] by auto
  note defs = hashV2DatasetIdentityFromSortedRecordDigests_def create
  have start: "hashV2DatasetIdentityFromSortedRecordDigests digest ds m =
      bindR (feed_digests ?i None True ds m2) (\<lambda>m.
      bindR (emit ?i ?tail m) (\<lambda>m.
      case digestHex digest ?i m of Inl e \<Rightarrow> Inl (HasherFault e) | Inr r \<Rightarrow> Inr r))"
    unfolding defs by (simp only: Let_def prod.case m1(1) m2(1) bindR_simps)
  show ?thesis
  proof (cases "list_all (is_hex 64) ds \<and> sorted ds")
    case True
    obtain m3 where m3: "feed_digests ?i None True ds m2 = Inr m3"
      "holds ?i ((DOMAIN D_dataset @ ?head) @ feed_text True ds) m3"
      using feed_holds [OF m2(2), of ds None True] True by (auto simp: sorted_from_def)
    obtain m4 where m4: "emit ?i ?tail m3 = Inr m4"
      "holds ?i (((DOMAIN D_dataset @ ?head) @ feed_text True ds) @ ?tail) m4"
      using emit_holds [OF m3(2) ascii(3)] by blast
    have bytes: "saved_state (hashers m4 ! ?i) = preimage (DOMAIN D_dataset) (dataset_json ds)"
      using m4(2) True by (simp add: holds_def preimage_def dataset_text del: DOMAIN.simps js_simps)
    have "\<exists>m'. digestHex digest ?i m4 = Inr (m', digest (preimage (DOMAIN D_dataset) (dataset_json ds)))"
      using m4(2) unfolding bytes [symmetric]
      by (auto simp: holds_def hasher_defs)
    then have "\<exists>m'. hashV2DatasetIdentityFromSortedRecordDigests digest ds m
        = Inr (m', digest (preimage (DOMAIN D_dataset) (dataset_json ds)))"
      unfolding start m3(1) bindR_simps m4(1) by auto
    moreover have "hashV2DatasetIdentity digest \<lparr>di_record_digests = ds\<rparr>
        = Inr (digest (preimage (DOMAIN D_dataset) (dataset_json ds)))"
      using True by (simp add: hashV2DatasetIdentity_def jcs_order.js_sort_sorted hashDomain_ok
          hex_digests_ok del: DOMAIN.simps)
    ultimately show ?thesis using True by auto
  next
    case False
    then show ?thesis
      using feed_holds [OF m2(2), of ds None True] unfolding start by (auto simp: sorted_from_def)
  qed
qed



end
