(* ===== verification/Js_Collections.thy ===== *)
theory Js_Collections
  imports Js_Prelude
begin

text \<open>
  JavaScript's \<open>Set\<close> and \<open>Map\<close>, which iterate in insertion order: a set is the list of its
  elements, a map the list of its entries. Adding an element that is there, or setting a key
  that is there, keeps its position. Elements and keys here are strings, numbers and texts, for
  which equality is equality of values.
\<close>

section \<open>Set\<close>

fun set_add :: "'a \<Rightarrow> 'a list \<Rightarrow> 'a list" where
  "set_add x s = (if x \<in> set s then s else s @ [x])"

definition new_Set :: "'a list \<Rightarrow> 'a list" where
  "new_Set xs = fold set_add xs []"

lemma fold_set_add:
  "set (fold set_add xs s) = set s \<union> set xs"
  "distinct s \<Longrightarrow> distinct (fold set_add xs s)"
  by (induction xs arbitrary: s) auto

lemma new_Set_simps [simp]:
  "set (new_Set xs) = set xs"
  "distinct (new_Set xs)"
  by (simp_all add: new_Set_def fold_set_add del: set_add.simps)

section \<open>Map\<close>

type_synonym ('k, 'v) js_map = "('k \<times> 'v) list"

fun map_set :: "'k \<Rightarrow> 'v \<Rightarrow> ('k, 'v) js_map \<Rightarrow> ('k, 'v) js_map" where
  "map_set k v [] = [(k, v)]"
| "map_set k v ((l, w) # m) = (if l = k then (k, v) # m else (l, w) # map_set k v m)"

definition map_delete :: "'k \<Rightarrow> ('k, 'v) js_map \<Rightarrow> ('k, 'v) js_map" where
  "map_delete k m = filter (\<lambda>(l, w). l \<noteq> k) m"

definition map_get :: "'k \<Rightarrow> ('k, 'v) js_map \<Rightarrow> 'v option" where
  "map_get k m = map_of m k"

definition new_Map :: "('k \<times> 'v) list \<Rightarrow> ('k, 'v) js_map" where
  "new_Map entries = fold (\<lambda>(k, v). map_set k v) entries []"

definition wf_map :: "('k, 'v) js_map \<Rightarrow> bool" where
  "wf_map m \<longleftrightarrow> distinct (map fst m)"

text \<open>What the clients of a map rely on.\<close>

locale finite_map =
  fixes empty :: 'm
    and get :: "'k \<Rightarrow> 'm \<Rightarrow> 'v option"
    and put :: "'k \<Rightarrow> 'v \<Rightarrow> 'm \<Rightarrow> 'm"
    and del :: "'k \<Rightarrow> 'm \<Rightarrow> 'm"
    and ok :: "'m \<Rightarrow> bool"
  assumes ok_empty: "ok empty"
    and ok_put: "ok m \<Longrightarrow> ok (put k v m)"
    and ok_del: "ok m \<Longrightarrow> ok (del k m)"
    and get_empty: "get k empty = None"
    and get_put: "get k (put l v m) = (if k = l then Some v else get k m)"
    and get_del: "ok m \<Longrightarrow> get k (del l m) = (if k = l then None else get k m)"
begin

lemma ok_fold_put: "ok m \<Longrightarrow> ok (fold (\<lambda>(k, v). put k v) kvs m)"
  by (induction kvs arbitrary: m) (auto simp: ok_put)

lemma get_fold_put:
  "get k (fold (\<lambda>(k, v). put k v) kvs m) = (case map_of (rev kvs) k of Some v \<Rightarrow> Some v | None \<Rightarrow> get k m)"
  by (induction kvs arbitrary: m) (auto simp: get_put map_add_def split: option.splits)

lemma put_del_other: "ok m \<Longrightarrow> k \<noteq> l \<Longrightarrow> get k (put l v (del l m)) = get k m"
  by (simp add: get_put get_del)

end

lemma keys_map_set: "set (map fst (map_set k v m)) = insert k (set (map fst m))"
  by (induction k v m rule: map_set.induct) (simp_all add: insert_commute)

lemma map_of_map_set: "map_of (map_set k v m) l = (if l = k then Some v else map_of m l)"
  by (induction m) auto

lemma wf_map_set: "wf_map m \<Longrightarrow> wf_map (map_set k v m)"
  unfolding wf_map_def
  by (induction k v m rule: map_set.induct) (auto simp: keys_map_set simp del: set_map)

lemma wf_map_delete: "wf_map m \<Longrightarrow> wf_map (map_delete k m)"
  unfolding wf_map_def map_delete_def by (simp add: distinct_map_filter)

lemma map_of_map_delete: "map_of (map_delete k m) l = (if l = k then None else map_of m l)"
  by (induction m) (auto simp: map_delete_def)

interpretation js_map: finite_map "[]" map_get map_set map_delete wf_map
  by unfold_locales
     (simp_all add: wf_map_set wf_map_delete map_get_def map_of_map_set map_of_map_delete,
      simp add: wf_map_def)

lemma new_Map_wf: "wf_map (new_Map kvs)"
  unfolding new_Map_def by (rule js_map.ok_fold_put [OF js_map.ok_empty])

lemma set_new_Map:
  assumes "inj_on k (set xs)"
  shows "set (map snd (new_Map (map (\<lambda>x. (k x, x)) xs))) = set xs
    \<and> distinct (map snd (new_Map (map (\<lambda>x. (k x, x)) xs)))"
proof -
  let ?m = "new_Map (map (\<lambda>x. (k x, x)) xs)"
  have distinct: "distinct (map fst ?m)"
    using new_Map_wf [of "map (\<lambda>x. (k x, x)) xs"] by (simp add: wf_map_def)
  have get: "map_of ?m key = map_of (rev (map (\<lambda>x. (k x, x)) xs)) key" for key
    using js_map.get_fold_put [of key "map (\<lambda>x. (k x, x)) xs" "[]"]
    by (auto simp: new_Map_def map_get_def split: option.splits)
  have mem: "(key, y) \<in> set ?m \<longleftrightarrow> y \<in> set xs \<and> key = k y" for key y
  proof
    assume "(key, y) \<in> set ?m"
    then have "map_of (rev (map (\<lambda>x. (k x, x)) xs)) key = Some y"
      using distinct by (simp flip: get)
    then show "y \<in> set xs \<and> key = k y" by (auto dest: map_of_SomeD)
  next
    assume y: "y \<in> set xs \<and> key = k y"
    then have "(key, y) \<in> set (rev (map (\<lambda>x. (k x, x)) xs))" by auto
    then obtain z where z: "map_of (rev (map (\<lambda>x. (k x, x)) xs)) key = Some z"
      using weak_map_of_SomeI by fast
    then have "z \<in> set xs" "k z = key" by (auto dest: map_of_SomeD)
    with y assms have "z = y" by (auto dest: inj_onD)
    have "map_of ?m key = Some y" unfolding get z \<open>z = y\<close> by (rule refl)
    then show "(key, y) \<in> set ?m" by (rule map_of_SomeD)
  qed
  have "inj_on snd (set ?m)"
    by (intro inj_onI) (auto simp: mem)
  moreover have "distinct ?m" using distinct by (simp only: distinct_map)
  moreover have "snd ` set ?m = set xs"
  proof
    show "snd ` set ?m \<subseteq> set xs" using mem by auto
    show "set xs \<subseteq> snd ` set ?m"
    proof
      fix y assume "y \<in> set xs"
      then have "(k y, y) \<in> set ?m" by (simp only: mem)
      then show "y \<in> snd ` set ?m" by (rule rev_image_eqI) simp
    qed
  qed
  ultimately show ?thesis by (simp only: distinct_map set_map)
qed

end
