(* ===== verification/Export_Fidelity.thy ===== *)
theory Export_Fidelity
  imports Domain_Separation Js_Collections
begin

text \<open>
  The identity of an export in \<open>domains.ts\<close>: the fidelity report a converter gives is brought to
  a normal form (duplicates removed, paths and changes sorted) before it is hashed, so that the
  digest a user approves does not depend on the order in which the converter met the fields.
  The order of changes is the \<open>linorder\<close> of their type.
\<close>

section \<open>The order of changes\<close>

fun change_fields :: "fidelity_change \<Rightarrow> js_string list" where
  "change_fields (FidelityChange path action impact reason) =
     [path, action_text action, impact_text impact, reason]"

fun first_difference :: "js_string list \<Rightarrow> js_string list \<Rightarrow> int" where
  "first_difference (l # ls) (r # rs) =
     (let result = compareJcsUtf16 l r in if result \<noteq> 0 then result else first_difference ls rs)"
| "first_difference _ _ = 0"

definition compareFidelityChanges :: "fidelity_change \<Rightarrow> fidelity_change \<Rightarrow> int" where
  "compareFidelityChanges left right = first_difference (change_fields left) (change_fields right)"

lemma change_fields_inject: "change_fields a = change_fields b \<longleftrightarrow> a = b"
proof -
  have "action_text x = action_text y \<longleftrightarrow> x = y" for x y by (cases x; cases y; simp)
  moreover have "impact_text x = impact_text y \<longleftrightarrow> x = y" for x y by (cases x; cases y; simp)
  ultimately show ?thesis by (cases a; cases b) simp
qed

instantiation fidelity_change :: linorder
begin

definition less_eq_fidelity_change :: "fidelity_change \<Rightarrow> fidelity_change \<Rightarrow> bool" where
  "less_eq_fidelity_change a b \<longleftrightarrow> change_fields a \<le> change_fields b"

definition less_fidelity_change :: "fidelity_change \<Rightarrow> fidelity_change \<Rightarrow> bool" where
  "less_fidelity_change a b \<longleftrightarrow> change_fields a < change_fields b"

instance
  by standard
     (auto simp: less_eq_fidelity_change_def less_fidelity_change_def simp flip: change_fields_inject)

end

lemma first_difference_le:
  "length ls = length rs \<Longrightarrow> first_difference ls rs \<le> 0 \<longleftrightarrow> ls \<le> rs"
proof (induction ls rs rule: list_induct2)
  case (Cons l ls r rs)
  then show ?case
    using compareJcsUtf16_le [of l r] compareJcsUtf16_zero [of l r] by (auto simp: Let_def)
qed simp

interpretation change_order: js_comparator compareFidelityChanges
proof
  fix a b :: fidelity_change
  have "length (change_fields a) = length (change_fields b)" by (cases a; cases b) simp
  then show "compareFidelityChanges a b \<le> 0 \<longleftrightarrow> a \<le> b"
    by (simp add: compareFidelityChanges_def less_eq_fidelity_change_def first_difference_le)
qed

section \<open>Normal form and hash\<close>

fun change_json :: "fidelity_change \<Rightarrow> json" where
  "change_json (FidelityChange path action impact reason) = JObject [
      (js ''path'', JString path),
      (js ''action'', JString (action_text action)),
      (js ''impact'', JString (impact_text impact)),
      (js ''reason'', JString reason)]"

definition fidelity_json :: "export_fidelity \<Rightarrow> json" where
  "fidelity_json f = JObject [
      (js ''preserved'', strings (preserved f)),
      (js ''changes'', JArray (map change_json (changes f)))]"

definition normalizeExportFidelity :: "export_fidelity \<Rightarrow> (jcs_error, export_fidelity) result" where
  "normalizeExportFidelity fidelity =
     (let preserved' = js_sort compareJcsUtf16 (new_Set (preserved fidelity)) in
      bindR (traverseR (\<lambda>change. bindR (canonical_json (change_json change)) (\<lambda>key. Inr (key, change)))
               (changes fidelity)) (\<lambda>entries.
        Inr \<lparr>preserved = preserved',
             changes = js_sort compareFidelityChanges (map snd (new_Map entries))\<rparr>))"

definition exportFidelity_json :: "export_fidelity_identity \<Rightarrow> export_fidelity \<Rightarrow> json" where
  "exportFidelity_json x fidelity = JObject [
      (js ''export_fidelity_profile'', JString (js ''databench-export-fidelity-1'')),
      (js ''identity_profile'', JString (js ''databench-v2-jcs-1'')),
      (js ''dataset_version'', JString (ef_dataset_version x)),
      (js ''converter'', JString (converter_text (ef_converter x))),
      (js ''converter_version'', JString (ef_converter_version x)),
      (js ''normalized_options'', JObject (ef_normalized_options x)),
      (js ''media_type'', JString (ef_media_type x)),
      (js ''output_count'', JNumber (ef_output_count x)),
      (js ''config_hints'', JObject (ef_config_hints x)),
      (js ''fidelity'', fidelity_json fidelity)]"

definition hashV2ExportFidelity ::
  "digest \<Rightarrow> export_fidelity_identity \<Rightarrow> (jcs_error, js_string) result" where
  "hashV2ExportFidelity digest identity =
     bindR (normalizeExportFidelity (ef_fidelity identity)) (\<lambda>fidelity.
       hashDomain digest (DOMAIN D_exportFidelity) (exportFidelity_json identity fidelity))"

section \<open>The normal form depends on the sets alone\<close>

definition change_ok :: "fidelity_change \<Rightarrow> bool" where
  "change_ok c \<longleftrightarrow> is_scalar_sequence (change_path c) \<and> is_scalar_sequence (change_reason c)"

lemma change_json_ok: "json_ok (change_json c) \<longleftrightarrow> change_ok c"
  by (cases c; cases "change_action c"; cases "change_impact c")
     (auto simp: change_ok_def is_high_surrogate_def is_low_surrogate_def)

lemma action_impact_scalar:
  "is_scalar_sequence (action_text a)" "is_scalar_sequence (impact_text i)"
  by (cases a; simp add: is_high_surrogate_def is_low_surrogate_def)
     (cases i; simp add: is_high_surrogate_def is_low_surrogate_def)

lemma change_json_error: "\<not> change_ok c \<Longrightarrow> canonical_json (change_json c) = Inl LoneSurrogate"
  by (cases c)
     (auto simp: change_ok_def assertUnicodeScalarSequence_def js_sort_entries_def action_impact_scalar
        ensure_def is_high_surrogate_def is_low_surrogate_def)

lemma distinct_mset_eq:
  "distinct xs \<Longrightarrow> distinct ys \<Longrightarrow> set xs = set ys \<Longrightarrow> mset xs = mset ys"
  by (simp add: set_eq_iff_mset_eq_distinct)

lemma change_json_inject:
  assumes "change_ok c" "change_ok d" and "jcs (change_json c) = jcs (change_json d)"
  shows "c = d"
proof -
  have wf: "wf_json (change_json e)" for e by (cases e) simp
  have eq: "canon (change_json c) = canon (change_json d)"
    using assms jcs_inject [OF wf wf] by (simp add: change_json_ok)
  obtain p a i r where c: "c = FidelityChange p a i r" by (cases c)
  obtain q b j s where d: "d = FidelityChange q b j s" by (cases d)
  from canon_object_inject [OF eq [unfolded c d change_json.simps]]
  have "change_fields c = change_fields d" by (simp add: c d)
  then show ?thesis by (simp only: change_fields_inject)
qed

lemma normalizeExportFidelity_eq:
  "normalizeExportFidelity f =
     (if list_all change_ok (changes f)
      then Inr \<lparr>preserved = js_sort compareJcsUtf16 (new_Set (preserved f)),
                changes = js_sort compareFidelityChanges
                  (map snd (new_Map (map (\<lambda>c. (jcs (change_json c), c)) (changes f))))\<rparr>
      else Inl LoneSurrogate)"
proof -
  have "traverseR (\<lambda>c. bindR (canonical_json (change_json c)) (\<lambda>key. Inr (key, c))) cs =
      (if list_all change_ok cs then Inr (map (\<lambda>c. (jcs (change_json c), c)) cs) else Inl LoneSurrogate)"
    for cs
  proof (induction cs)
    case (Cons c cs)
    then show ?case
      by (cases "change_ok c") (simp_all add: change_json_error canonical_json_ok change_json_ok)
  qed simp
  then show ?thesis by (simp add: normalizeExportFidelity_def)
qed

lemma normalizeExportFidelity_cong:
  assumes "set (preserved f) = set (preserved g)" "set (changes f) = set (changes g)"
  shows "normalizeExportFidelity f = normalizeExportFidelity g"
proof (cases "list_all change_ok (changes f)")
  case True
  let ?kept = "\<lambda>cs. map snd (new_Map (map (\<lambda>c. (jcs (change_json c), c)) cs))"
  have ok: "list_all change_ok (changes g)" using True assms(2) by (simp add: list_all_iff)
  have inj: "inj_on (\<lambda>c. jcs (change_json c)) (set cs)" if "list_all change_ok cs" for cs
    using that by (intro inj_onI change_json_inject) (auto simp: list_all_iff)
  note vals = set_new_Map [OF inj [OF True]] set_new_Map [OF inj [OF ok]]
  have "mset (?kept (changes f)) = mset (?kept (changes g))"
    using vals assms(2) by (intro distinct_mset_eq; metis)
  note kept_eq = change_order.js_sort_perm [OF this]
  have "mset (new_Set (preserved f)) = mset (new_Set (preserved g))"
    using assms(1) by (intro distinct_mset_eq) (simp_all only: new_Set_simps)
  note preserved_eq = jcs_order.js_sort_perm [OF this]
  show ?thesis
    unfolding normalizeExportFidelity_eq if_P [OF True] if_P [OF ok] kept_eq preserved_eq
    by (rule refl)
next
  case False
  then have bad: "\<not> list_all change_ok (changes g)" using assms(2) by (simp add: list_all_iff)
  show ?thesis
    unfolding normalizeExportFidelity_eq if_not_P [OF False] if_not_P [OF bad] by (rule refl)
qed

text \<open>
  C38: the digest of an export depends on its fidelity report only through the set of preserved
  paths and the set of changes: neither the order of the report nor repetitions matter, and a
  report that cannot be hashed fails in every order alike.
\<close>

theorem export_fidelity_order_free:
  assumes "set (preserved f) = set (preserved g)" "set (changes f) = set (changes g)"
  shows "hashV2ExportFidelity digest (x\<lparr>ef_fidelity := f\<rparr>) = hashV2ExportFidelity digest (x\<lparr>ef_fidelity := g\<rparr>)"
  by (simp add: hashV2ExportFidelity_def normalizeExportFidelity_cong [OF assms] exportFidelity_json_def
      del: DOMAIN.simps)

lemma export_fidelity_order_free_witness:
  "\<forall>x. hashV2ExportFidelity plain_digest
      (x\<lparr>ef_fidelity := \<lparr>preserved = [js ''a'', js ''b'', js ''a''], changes = []\<rparr>\<rparr>)
    = hashV2ExportFidelity plain_digest
      (x\<lparr>ef_fidelity := \<lparr>preserved = [js ''b'', js ''a''], changes = []\<rparr>\<rparr>)"
  by (intro allI export_fidelity_order_free) auto

end
