(* ===== verification/Json_Equality.thy ===== *)
theory Json_Equality
  imports Canonical_Json
begin

text \<open>
  \<open>sameJsonValue\<close> of the catalog, which compares a stored JSON value with the one of a request.
  It is equality of canonical forms, so the catalog and the hashes agree on which parameters are
  the same.
\<close>

fun same_number :: "js_number \<Rightarrow> js_number \<Rightarrow> bool" where
  "same_number (Finite neg s e) (Finite neg' s' e') \<longleftrightarrow>
     s = s' \<and> (s = 0 \<or> e = e' \<and> neg = neg')"
| "same_number (Infinity neg) (Infinity neg') \<longleftrightarrow> neg = neg'"
| "same_number _ _ \<longleftrightarrow> False"

function (sequential) sameJsonValue :: "json \<Rightarrow> json \<Rightarrow> bool" where
  "sameJsonValue JNull JNull = True"
| "sameJsonValue (JBool b) (JBool c) = (b = c)"
| "sameJsonValue (JNumber x) (JNumber y) = same_number x y"
| "sameJsonValue (JString s) (JString t) = (s = t)"
| "sameJsonValue (JArray xs) (JArray ys) =
     (length xs = length ys \<and> list_all (\<lambda>(x, y). sameJsonValue x y) (zip xs ys))"
| "sameJsonValue (JObject kvs) (JObject lws) =
     (length kvs = length lws \<and>
      list_all (\<lambda>(key, v). case map_of lws key of None \<Rightarrow> False | Some w \<Rightarrow> sameJsonValue v w) kvs)"
| "sameJsonValue _ _ = False"
  by pat_completeness auto

termination
proof (relation "measure (\<lambda>(stored, expected). size stored)", goal_cases)
  case (2 xs ys p x y)
  then have "x \<in> set xs" by (auto dest: set_zip_leftD)
  then show ?case by (induction xs) auto
next
  case (3 kvs lws p key v w)
  then have "(key, v) \<in> set kvs" by simp
  then show ?case by (induction kvs) auto
qed simp

lemma same_number_norm:
  "wf_number x \<Longrightarrow> wf_number y \<Longrightarrow> is_finite x \<Longrightarrow> is_finite y
    \<Longrightarrow> same_number x y \<longleftrightarrow> norm_number x = norm_number y"
  by (cases x; cases y) (auto split: if_splits)

lemma canon_sorted_inject:
  assumes "distinct (map fst kvs)" "distinct (map fst lws)"
  shows "canon (JObject kvs) = canon (JObject lws) \<longleftrightarrow>
    set (map (\<lambda>(key, v). (key, canon v)) kvs) = set (map (\<lambda>(key, v). (key, canon v)) lws)"
    (is "?lhs \<longleftrightarrow> set ?c = set ?d")
proof
  assume ?lhs
  then have "js_sort_entries compareJcsUtf16 ?c = js_sort_entries compareJcsUtf16 ?d"
    by (simp only: canon.simps json.inject)
  then show "set ?c = set ?d"
    by (metis set_js_sort_entries)
next
  have fst: "map fst (map (\<lambda>(key, v). (key, canon v)) xs) = map fst xs" for xs
    by (induction xs) auto
  assume "set ?c = set ?d"
  moreover have "distinct ?c" "distinct ?d"
    using assms fst distinct_map by metis+
  ultimately have "mset ?c = mset ?d"
    by (simp only: set_eq_iff_mset_eq_distinct)
  then show ?lhs
    using jcs_order.js_sort_entries_perm assms(1) fst by (metis canon.simps(3))
qed

lemma object_members_agree:
  assumes "distinct (map fst kvs)" "distinct (map fst lws)"
  shows "set (map (\<lambda>(key, v). (key, canon v)) kvs) = set (map (\<lambda>(key, v). (key, canon v)) lws)
    \<longleftrightarrow> length kvs = length lws \<and>
      (\<forall>(key, v) \<in> set kvs. \<exists>w. map_of lws key = Some w \<and> canon v = canon w)"
    (is "set (map ?c kvs) = _ \<longleftrightarrow> ?rhs")
proof
  have card: "card (set (map ?c xs)) = length xs" if "distinct (map fst xs)" for xs
  proof -
    have "map fst (map ?c xs) = map fst xs" by (induction xs) auto
    with that have "distinct (map ?c xs)" by (metis distinct_map)
    then show ?thesis by (metis distinct_card length_map)
  qed
  {
    assume eq: "set (map ?c kvs) = set (map ?c lws)"
    then have "length kvs = length lws"
      using card assms by metis
    moreover have "\<exists>w. map_of lws key = Some w \<and> canon v = canon w" if "(key, v) \<in> set kvs" for key v
    proof -
      have "(key, canon v) \<in> set (map ?c lws)" using that eq by force
      then show ?thesis using assms(2) by auto
    qed
    ultimately show ?rhs by auto
  next
    assume ?rhs
    have "set (map ?c kvs) \<subseteq> set (map ?c lws)"
    proof
      fix p assume "p \<in> set (map ?c kvs)"
      then obtain key v where "(key, v) \<in> set kvs" "p = (key, canon v)" by auto
      with \<open>?rhs\<close> obtain w where "map_of lws key = Some w" "p = (key, canon w)" by fastforce
      then show "p \<in> set (map ?c lws)" by (auto dest: map_of_SomeD)
    qed
    moreover have "card (set (map ?c kvs)) = card (set (map ?c lws))"
      unfolding card [OF assms(1)] card [OF assms(2)] using \<open>?rhs\<close> by (rule conjunct1)
    ultimately show "set (map ?c kvs) = set (map ?c lws)"
      by (rule card_subset_eq [OF finite_set])
  }
qed

lemma sameJsonValue_canon:
  "wf_json a \<Longrightarrow> wf_json b \<Longrightarrow> json_ok a \<Longrightarrow> json_ok b \<Longrightarrow> sameJsonValue a b \<longleftrightarrow> canon a = canon b"
proof (induction a b rule: sameJsonValue.induct)
  case (3 x y)
  then show ?case by (simp add: same_number_norm)
next
  case (5 xs ys)
  have "sameJsonValue x y \<longleftrightarrow> canon x = canon y" if "(x, y) \<in> set (zip xs ys)" for x y
    using 5(1) [of "(x, y)" x y] 5(2-) set_zip_leftD [OF that] set_zip_rightD [OF that] that
    by (simp add: list_all_iff)
  then have "sameJsonValue (JArray xs) (JArray ys) \<longleftrightarrow> list_all2 (\<lambda>x y. canon x = canon y) xs ys"
    by (simp add: list_all2_iff list_all_iff case_prod_unfold)
  also have "\<dots> \<longleftrightarrow> canon (JArray xs) = canon (JArray ys)"
    by (simp add: list_all2_conv_all_nth list_eq_iff_nth_eq [of "map canon xs"] cong: conj_cong)
  finally show ?case .
next
  case (6 kvs lws)
  have "sameJsonValue v w \<longleftrightarrow> canon v = canon w"
    if "(key, v) \<in> set kvs" "map_of lws key = Some w" for key v w
  proof -
    from 6(2-) that map_of_SomeD [OF that(2)]
    have "wf_json v" "wf_json w" "json_ok v" "json_ok w"
      by (auto simp: list_all_iff)
    with 6(1) [OF that(1) refl that(2)] show ?thesis by blast
  qed
  then have "(case map_of lws key of None \<Rightarrow> False | Some w \<Rightarrow> sameJsonValue v w)
      \<longleftrightarrow> (\<exists>w. map_of lws key = Some w \<and> canon v = canon w)"
    if "(key, v) \<in> set kvs" for key v
    using that by (simp split: option.split)
  then have "sameJsonValue (JObject kvs) (JObject lws) \<longleftrightarrow> length kvs = length lws \<and>
      (\<forall>(key, v) \<in> set kvs. \<exists>w. map_of lws key = Some w \<and> canon v = canon w)"
    by (simp add: list_all_iff case_prod_unfold)
  with 6(2-) show ?case
    using canon_sorted_inject [of kvs lws] object_members_agree [of kvs lws] by simp
qed (auto simp: Let_def)

text \<open>
  C37: the catalog takes a stored and a requested JSON value to be the same exactly when they
  have the same canonical form, hence the same hash.
\<close>

theorem sameJsonValue_canonical:
  assumes "wf_json a" "wf_json b" "json_ok a" "json_ok b"
  shows "sameJsonValue a b \<longleftrightarrow> canonical_json a = canonical_json b"
  using assms by (simp add: sameJsonValue_canon canonical_json_ok jcs_inject)

lemma sameJsonValue_canonical_witness:
  "sameJsonValue (JObject [([0x61], JNumber (Finite False 0 0)), ([0x62], JNull)])
     (JObject [([0x62], JNull), ([0x61], JNumber (Finite True 0 0))])"
proof -
  let ?a = "JObject [([0x61], JNumber (Finite False 0 0)), ([0x62], JNull)]"
  let ?b = "JObject [([0x62], JNull), ([0x61], JNumber (Finite True 0 0))]"
  have "wf_json ?a" "wf_json ?b" "json_ok ?a" "json_ok ?b"
    by (simp_all add: is_high_surrogate_def is_low_surrogate_def)
  from sameJsonValue_canonical [OF this] show ?thesis
    by (simp add: js_sort_entries_def assertUnicodeScalarSequence_def ensure_def
        is_high_surrogate_def is_low_surrogate_def del: sameJsonValue.simps)
qed

end
