(* ===== verification/Sql_Table.thy ===== *)
theory Sql_Table
  imports Js_Prelude
begin

text \<open>
  Tables of PostgreSQL as lists of rows in insertion order, and the four statements the catalog
  sends: \<open>SELECT ... WHERE\<close>, \<open>UPDATE ... WHERE ... RETURNING\<close>, \<open>INSERT ... ON CONFLICT DO NOTHING\<close>
  and \<open>ORDER BY ... LIMIT\<close>. A key of a table is a projection of its rows that no insert may
  repeat and no update changes; the locale proves once what every table then guarantees.
\<close>

section \<open>Statements\<close>

definition select_where :: "('r \<Rightarrow> bool) \<Rightarrow> 'r list \<Rightarrow> 'r list" where
  "select_where p rows = filter p rows"

definition find_first :: "('r \<Rightarrow> bool) \<Rightarrow> 'r list \<Rightarrow> 'r option" where
  "find_first p rows = find p rows"

definition update_where :: "('r \<Rightarrow> bool) \<Rightarrow> ('r \<Rightarrow> 'r) \<Rightarrow> 'r list \<Rightarrow> 'r list" where
  "update_where p f rows = map (\<lambda>r. if p r then f r else r) rows"

definition returning :: "('r \<Rightarrow> bool) \<Rightarrow> ('r \<Rightarrow> 'r) \<Rightarrow> 'r list \<Rightarrow> 'r list" where
  "returning p f rows = map f (filter p rows)"

text \<open>The second component says whether the row was inserted.\<close>

definition insert_on_conflict_do_nothing ::
  "('r \<Rightarrow> 'r \<Rightarrow> bool) \<Rightarrow> 'r \<Rightarrow> 'r list \<Rightarrow> 'r list \<times> bool" where
  "insert_on_conflict_do_nothing conflicts r rows =
     (if list_ex (conflicts r) rows then (rows, False) else (rows @ [r], True))"

text \<open>\<open>ORDER BY key ASC\<close>; \<open>LIMIT\<close> is \<open>take\<close>.\<close>

definition order_by :: "('r \<Rightarrow> 'k :: linorder) \<Rightarrow> 'r list \<Rightarrow> 'r list" where
  "order_by key rows = sort_key key rows"

lemmas sql_defs = select_where_def find_first_def update_where_def returning_def
  insert_on_conflict_do_nothing_def

lemma find_first_Some: "find_first p rows = Some r \<Longrightarrow> r \<in> set rows \<and> p r"
  by (auto simp: find_first_def find_Some_iff)

lemma find_first_None: "find_first p rows = None \<longleftrightarrow> (\<forall>r \<in> set rows. \<not> p r)"
  by (auto simp: find_first_def find_None_iff)

lemma set_update_where:
  "set (update_where p f rows) = f ` {r \<in> set rows. p r} \<union> {r \<in> set rows. \<not> p r}"
  by (auto simp: update_where_def image_iff)

lemma length_update_where [simp]: "length (update_where p f rows) = length rows"
  by (simp add: update_where_def)

lemma update_where_none: "\<forall>r \<in> set rows. \<not> p r \<Longrightarrow> update_where p f rows = rows"
  by (simp add: update_where_def map_idI)

lemma list_all_update_where:
  "list_all q rows \<Longrightarrow> (\<And>r. q r \<Longrightarrow> p r \<Longrightarrow> q (f r)) \<Longrightarrow> list_all q (update_where p f rows)"
  by (auto simp: update_where_def list_all_iff)

lemma returning_set: "set (returning p f rows) = f ` {r \<in> set rows. p r}"
  by (auto simp: returning_def)

lemma list_all_insert:
  "list_all q rows \<Longrightarrow> q r \<Longrightarrow> list_all q (fst (insert_on_conflict_do_nothing c r rows))"
  by (simp add: insert_on_conflict_do_nothing_def)

lemma set_insert_subset:
  "set rows \<subseteq> set (fst (insert_on_conflict_do_nothing c r rows))"
  by (auto simp: insert_on_conflict_do_nothing_def)

section \<open>Keys\<close>

locale unique_key =
  fixes key :: "'r \<Rightarrow> 'k"
    and conflicts :: "'r \<Rightarrow> 'r \<Rightarrow> bool"
  assumes key_conflict: "key r = key s \<Longrightarrow> conflicts r s"
begin

definition keyed :: "'r list \<Rightarrow> bool" where
  "keyed rows \<longleftrightarrow> distinct (map key rows)"

lemma keyed_Nil: "keyed []"
  by (simp add: keyed_def)

lemma keyed_inject: "keyed rows \<Longrightarrow> r \<in> set rows \<Longrightarrow> s \<in> set rows \<Longrightarrow> key r = key s \<Longrightarrow> r = s"
  by (auto simp: keyed_def distinct_map dest: inj_onD)

lemma keyed_insert: "keyed rows \<Longrightarrow> keyed (fst (insert_on_conflict_do_nothing conflicts r rows))"
  using key_conflict [of r]
  by (auto simp: keyed_def insert_on_conflict_do_nothing_def list_ex_iff image_iff)

lemma keyed_update:
  "keyed rows \<Longrightarrow> (\<And>r. p r \<Longrightarrow> key (f r) = key r) \<Longrightarrow> keyed (update_where p f rows)"
proof -
  assume "keyed rows" and f: "\<And>r. p r \<Longrightarrow> key (f r) = key r"
  moreover have "map key (update_where p f rows) = map key rows"
    using f by (simp add: update_where_def)
  ultimately show ?thesis by (simp add: keyed_def)
qed

lemma find_key: "keyed rows \<Longrightarrow> r \<in> set rows \<Longrightarrow> find_first (\<lambda>s. key s = key r) rows = Some r"
  unfolding find_first_def keyed_def
  by (induction rows) (auto simp: image_iff dest: sym)

text \<open>An update by key returns at most one row.\<close>

lemma returning_one:
  assumes "keyed rows" and "\<And>r. p r \<Longrightarrow> key r = k"
  shows "length (returning p f rows) \<le> 1"
proof -
  have "length (filter p rows) \<le> 1"
    using assms
  proof (induction rows)
    case (Cons r rows)
    then have "keyed rows" by (simp add: keyed_def)
    show ?case
    proof (cases "p r")
      case True
      then have "filter p rows = []"
        using Cons.prems by (auto simp: keyed_def filter_empty_conv image_iff)
      with True show ?thesis by simp
    next
      case False
      with Cons \<open>keyed rows\<close> show ?thesis by simp
    qed
  qed simp
  then show ?thesis by (simp add: returning_def)
qed

lemma insert_readable:
  assumes "keyed rows" and "\<And>s. conflicts r s \<Longrightarrow> key s = key r"
  shows "\<exists>s. find_first (\<lambda>s. key s = key r) (fst (insert_on_conflict_do_nothing conflicts r rows)) = Some s"
proof -
  have "\<exists>s \<in> set (fst (insert_on_conflict_do_nothing conflicts r rows)). key s = key r"
    using assms(2) by (auto simp: insert_on_conflict_do_nothing_def list_ex_iff)
  then show ?thesis
    by (simp add: find_first_None flip: not_None_eq)
qed

subsection \<open>Rows by key\<close>

definition lookup :: "'r list \<Rightarrow> 'k \<Rightarrow> 'r option" where
  "lookup rows k = find_first (\<lambda>r. key r = k) rows"

lemma lookup_simps [simp]:
  "lookup [] k = None"
  "lookup (r # rows) k = (if key r = k then Some r else lookup rows k)"
  by (simp_all add: lookup_def find_first_def)

lemma lookup_key: "lookup rows k = Some r \<Longrightarrow> key r = k \<and> r \<in> set rows"
  unfolding lookup_def by (blast dest: find_first_Some)

lemma lookup_None: "lookup rows k = None \<longleftrightarrow> k \<notin> key ` set rows"
  by (induction rows) auto

lemma lookup_mem: "keyed rows \<Longrightarrow> r \<in> set rows \<Longrightarrow> lookup rows (key r) = Some r"
  unfolding lookup_def by (rule find_key)

lemma lookup_insert:
  assumes "\<And>s. conflicts r s \<longleftrightarrow> key s = key r"
  shows "insert_on_conflict_do_nothing conflicts r rows =
    (case lookup rows (key r) of None \<Rightarrow> (rows @ [r], True) | Some s \<Rightarrow> (rows, False))"
proof (cases "lookup rows (key r)")
  case None
  then have "\<not> list_ex (conflicts r) rows"
    unfolding lookup_None list_ex_iff assms image_iff by metis
  with None show ?thesis by (simp add: insert_on_conflict_do_nothing_def)
next
  case (Some s)
  then have "key s = key r" "s \<in> set rows" using lookup_key by blast+
  then have "list_ex (conflicts r) rows" unfolding list_ex_iff assms by blast
  with Some show ?thesis by (simp add: insert_on_conflict_do_nothing_def)
qed

lemma lookup_append: "lookup (rows @ rows') k = (case lookup rows k of None \<Rightarrow> lookup rows' k | Some r \<Rightarrow> Some r)"
  by (induction rows) simp_all

lemma lookup_update:
  "(\<And>r. p r \<Longrightarrow> key (f r) = key r)
    \<Longrightarrow> lookup (update_where p f rows) k = map_option (\<lambda>r. if p r then f r else r) (lookup rows k)"
  by (induction rows) (simp_all add: update_where_def)

lemma lookup_filter:
  "keyed rows \<Longrightarrow> find_first (\<lambda>r. key r = k \<and> q r) rows =
    (case lookup rows k of None \<Rightarrow> None | Some r \<Rightarrow> if q r then Some r else None)"
proof (induction rows)
  case (Cons r rows)
  then have rows: "keyed rows" "key r \<notin> key ` set rows" by (auto simp: keyed_def)
  then have "lookup rows (key r) = None" by (simp add: lookup_None)
  with Cons.IH [OF rows(1)] show ?case by (auto simp: find_first_def)
qed (simp add: find_first_def)

lemma select_key:
  "keyed rows \<Longrightarrow> select_where (\<lambda>r. key r = k \<and> q r) rows =
    (case lookup rows k of None \<Rightarrow> [] | Some r \<Rightarrow> if q r then [r] else [])"
proof (induction rows)
  case (Cons r rows)
  then have rows: "keyed rows" "key r \<notin> key ` set rows" by (auto simp: keyed_def)
  then have "lookup rows (key r) = None" by (simp add: lookup_None)
  with Cons.IH [OF rows(1)] show ?case by (auto simp: select_where_def)
qed (simp add: select_where_def)

lemma returning_key:
  "keyed rows \<Longrightarrow> returning (\<lambda>r. key r = k \<and> q r) f rows =
    (case lookup rows k of None \<Rightarrow> [] | Some r \<Rightarrow> if q r then [f r] else [])"
  using select_key [of rows k q] by (simp add: returning_def select_where_def split: option.splits)

lemma update_other:
  "lookup rows k = Some r \<Longrightarrow> \<not> q r \<Longrightarrow> keyed rows \<Longrightarrow> update_where (\<lambda>r. key r = k \<and> q r) f rows = rows"
  by (rule update_where_none) (metis lookup_mem option.inject)

lemma update_missing:
  "lookup rows k = None \<Longrightarrow> update_where (\<lambda>r. key r = k \<and> q r) f rows = rows"
  by (rule update_where_none) (auto simp: lookup_None)

end

end
