(* ===== verification/Catalog_Schema.thy ===== *)
theory Catalog_Schema
  imports Text_Encoder Json_Equality Sql_Table
begin

text \<open>
  The tables of \<open>packages/catalog/src/v2/types.ts\<close> and of the migrations, one record for each
  row type with the columns in order under a prefix of its own, the errors of \<open>errors.ts\<close>, and
  the regular expressions and bounds that the catalog checks its arguments against. Times are
  PostgreSQL timestamps in microseconds, \<open>bigint\<close> columns are integers.
\<close>

section \<open>Patterns and bounds\<close>

definition EXACT_VERSION :: "js_string \<Rightarrow> bool" where
  "EXACT_VERSION s \<longleftrightarrow> is_hex 64 s"

lemma EXACT_VERSION_replicate [simp]: "EXACT_VERSION (replicate 64 c) \<longleftrightarrow> is_hex_lower c"
  by (simp add: EXACT_VERSION_def is_hex_def list_all_iff)

definition JOB_ID :: "js_string \<Rightarrow> bool" where
  "JOB_ID s \<longleftrightarrow> has_prefix (js ''job_'') s \<and> is_hex 64 (drop 4 s)"

definition SAFE_WORKER_NAME :: "js_string \<Rightarrow> bool" where
  "SAFE_WORKER_NAME s \<longleftrightarrow> matches_name is_lower is_name_tail 127 s"

definition SAFE_WORKER_VERSION :: "js_string \<Rightarrow> bool" where
  "SAFE_WORKER_VERSION s \<longleftrightarrow> matches_name (\<lambda>c. is_lower c \<or> is_digit c) is_name_tail 127 s"

definition SAFE_REF_NAME :: "js_string \<Rightarrow> bool" where
  "SAFE_REF_NAME s \<longleftrightarrow> matches_name (\<lambda>c. is_lower c \<or> is_digit c) is_name_tail 127 s"

definition MAX_CATALOG_PAGE_SIZE :: int where "MAX_CATALOG_PAGE_SIZE = 1000"
definition REGISTRATION_BATCH_SIZE :: nat where "REGISTRATION_BATCH_SIZE = 1000"
definition MAX_JOB_JSON_BYTES :: nat where "MAX_JOB_JSON_BYTES = 16 * 1024"
definition MAX_JOB_LEASE_MS :: int where "MAX_JOB_LEASE_MS = 24 * 60 * 60 * 1000"

section \<open>JSON.stringify\<close>

definition lone_escape :: "code_unit \<Rightarrow> js_string" where
  "lone_escape c = (let n = unat c in
     [0x5c, 0x75, hex_unit (n div 4096), hex_unit (n div 256 mod 16), hex_unit (n div 16 mod 16),
      hex_unit (n mod 16)])"

fun stringify_units :: "js_string \<Rightarrow> js_string" where
  "stringify_units [] = []"
| "stringify_units (c # cs) =
     (if is_high_surrogate c
      then (case cs of [] \<Rightarrow> lone_escape c
            | d # ds \<Rightarrow> if is_low_surrogate d then c # d # stringify_units ds
                      else lone_escape c @ stringify_units cs)
      else if is_low_surrogate c then lone_escape c @ stringify_units cs
      else escape_unit c @ stringify_units cs)"

definition stringify_string :: "js_string \<Rightarrow> js_string" where
  "stringify_string s = 0x22 # stringify_units s @ [0x22]"

fun json_stringify :: "json \<Rightarrow> js_string" where
  "json_stringify JNull = js ''null''"
| "json_stringify (JBool b) = js (if b then ''true'' else ''false'')"
| "json_stringify (JNumber x) = (if is_finite x then number_to_string x else js ''null'')"
| "json_stringify (JString s) = stringify_string s"
| "json_stringify (JArray xs) = brackets (map json_stringify xs)"
| "json_stringify (JObject kvs) =
     braces (map (\<lambda>(key, v). stringify_string key @ of_char CHR '':'' # json_stringify v) kvs)"

definition byte_length :: "js_string \<Rightarrow> nat" where
  "byte_length s = length (encode_utf8 s)"

section \<open>Errors\<close>

datatype immutable_kind = SnapshotKind | LayoutKind | RecordParentsKind
datatype ref_operation = DeleteOperation | RestoreOperation

text \<open>The states of a Studio session and of the import of a model artifact, and the reasons of their conflicts.\<close>

datatype session_status = Preparing | Ready | Closing | Closed | FailedSession
datatype import_status = Requested | Staging | FinalizingImport | CompletedImport | FailedImport
datatype session_conflict_reason = ActiveSessionExists | SessionCreateMismatch | InvalidSessionTransition | SessionBodyMismatch
datatype import_conflict_reason =
    ImportCreateMismatch
  | OutputAlreadyImported
  | InvalidImportTransition
  | ImportBodyMismatch
  | ArchiveIdentityMismatch

datatype catalog_error =
    InputError
  | ConsistencyError
  | ImmutableConflictError immutable_kind
  | DeterminismConflictError js_string
  | TransformJobLeaseError js_string
  | LineageCycleError js_string js_string
  | RefConflictError "js_string option" "js_string option" js_string
  | RefStateConflictError js_string bool ref_operation
  | TargetNotCommittedError js_string
  | SessionConflictError session_conflict_reason js_string session_status "session_status option"
  | ImportConflictError import_conflict_reason js_string import_status "import_status option"
  | DeploymentAdmissionError js_string
  | ForeignKeyViolation
  | CheckViolation
  | UniqueViolation

type_synonym 'a catalog = "(catalog_error, 'a) result"

section \<open>Rows\<close>

record snapshot_row =
  sn_version :: js_string
  sn_identity_profile :: js_string
  sn_record_schema_version :: js_string
  sn_num_records :: int

record layout_row =
  la_dataset_version :: js_string
  la_layout_version :: js_string
  la_artifact_digest :: js_string
  la_artifact_size_bytes :: int
  la_manifest_key :: js_string
  la_columns :: "js_string list"

text \<open>A revision of a record is its logical identifier and its digest.\<close>

type_synonym revision_key = "js_string \<times> js_string"

record location_row =
  lo_revision :: revision_key
  lo_dataset_version :: js_string

record edge_row =
  ed_child :: revision_key
  ed_position :: nat
  ed_parent :: revision_key

record run_row =
  ru_id :: js_string
  ru_cache_key :: js_string
  ru_op :: js_string
  ru_op_version :: js_string
  ru_params :: json
  ru_output_version :: js_string
  ru_lineage_seq :: int

record run_input_row =
  ri_cache_key :: js_string
  ri_position :: nat
  ri_dataset_version :: js_string

record ref_row =
  rf_namespace_id :: js_string
  rf_name :: js_string
  rf_version :: js_string
  rf_message :: "js_string option"
  rf_updated_at :: int
  rf_deleted_at :: "int option"

record namespace_row =
  na_id :: js_string
  na_scope :: js_string

record claim_row =
  cl_namespace_id :: js_string
  cl_entity_kind :: js_string
  cl_claim_key_digest :: js_string
  cl_claim_profile :: js_string
  cl_request_profile :: js_string
  cl_creation_profile :: js_string
  cl_entity_id :: js_string
  cl_request_digest :: js_string
  cl_created_at :: int

datatype job_status = Queued | Leased | Running | Finalizing | Completed | Failed | Cancelled
datatype result_ref_status = PendingRef | UpdatedRef | ConflictRef

record transform_job =
  tj_id :: js_string
  tj_cache_key :: js_string
  tj_op :: js_string
  tj_op_version :: js_string
  tj_params :: json
  tj_input_version :: js_string
  tj_capability_name :: js_string
  tj_capability_version :: js_string
  tj_status :: job_status
  tj_attempt :: int
  tj_lease_owner :: "js_string option"
  tj_lease_token :: "bytes option"
  tj_lease_expires_at :: "int option"
  tj_progress :: "json option"
  tj_input_key :: "js_string option"
  tj_output_key :: "js_string option"
  tj_input_count :: int
  tj_output_count :: "int option"
  tj_output_version :: "js_string option"
  tj_result_ref_namespace_id :: "js_string option"
  tj_result_ref_name :: "js_string option"
  tj_result_ref_status :: "result_ref_status option"
  tj_result_ref_version :: "js_string option"
  tj_cache_hit :: bool
  tj_error :: "json option"
  tj_created_at :: int
  tj_started_at :: "int option"
  tj_finished_at :: "int option"
  tj_updated_at :: int

record catalog_db =
  snapshots :: "snapshot_row list"
  layouts :: "layout_row list"
  locations :: "location_row list"
  edges :: "edge_row list"
  runs :: "run_row list"
  run_inputs :: "run_input_row list"
  next_lineage_seq :: int
  refs :: "ref_row list"
  jobs :: "transform_job list"
  namespaces :: "namespace_row list"
  claims :: "claim_row list"

definition empty_db :: catalog_db where
  "empty_db = \<lparr>snapshots = [], layouts = [], locations = [], edges = [], runs = [], run_inputs = [],
     next_lineage_seq = 1, refs = [], jobs = [], namespaces = [], claims = []\<rparr>"

section \<open>Keys of the tables\<close>

definition snapshot_conflict :: "snapshot_row \<Rightarrow> snapshot_row \<Rightarrow> bool" where
  "snapshot_conflict r s \<longleftrightarrow> sn_version r = sn_version s"

definition layout_key :: "layout_row \<Rightarrow> js_string \<times> js_string" where
  "layout_key r = (la_dataset_version r, la_layout_version r)"

definition layout_conflict :: "layout_row \<Rightarrow> layout_row \<Rightarrow> bool" where
  "layout_conflict r s \<longleftrightarrow> layout_key r = layout_key s \<or> la_manifest_key r = la_manifest_key s"

definition location_conflict :: "location_row \<Rightarrow> location_row \<Rightarrow> bool" where
  "location_conflict r s \<longleftrightarrow> lo_revision r = lo_revision s"

definition run_conflict :: "run_row \<Rightarrow> run_row \<Rightarrow> bool" where
  "run_conflict r s \<longleftrightarrow> ru_cache_key r = ru_cache_key s \<or> ru_id r = ru_id s"

definition ref_key :: "ref_row \<Rightarrow> js_string \<times> js_string" where
  "ref_key r = (rf_namespace_id r, rf_name r)"

definition ref_conflict :: "ref_row \<Rightarrow> ref_row \<Rightarrow> bool" where
  "ref_conflict r s \<longleftrightarrow> ref_key r = ref_key s"

definition job_conflict :: "transform_job \<Rightarrow> transform_job \<Rightarrow> bool" where
  "job_conflict r s \<longleftrightarrow> tj_id r = tj_id s \<or> tj_cache_key r = tj_cache_key s"

definition namespace_conflict :: "namespace_row \<Rightarrow> namespace_row \<Rightarrow> bool" where
  "namespace_conflict r s \<longleftrightarrow> na_id r = na_id s \<or> na_scope r = na_scope s"

definition claim_key :: "claim_row \<Rightarrow> js_string \<times> js_string \<times> js_string" where
  "claim_key r = (cl_namespace_id r, cl_entity_kind r, cl_claim_key_digest r)"

definition claim_entity :: "claim_row \<Rightarrow> js_string \<times> js_string" where
  "claim_entity r = (cl_namespace_id r, cl_entity_id r)"

definition claim_conflict :: "claim_row \<Rightarrow> claim_row \<Rightarrow> bool" where
  "claim_conflict r s \<longleftrightarrow> claim_key r = claim_key s \<or> claim_entity r = claim_entity s"

interpretation snapshot_table: unique_key sn_version snapshot_conflict
  by unfold_locales (simp add: snapshot_conflict_def)

interpretation layout_table: unique_key layout_key layout_conflict
  by unfold_locales (simp add: layout_conflict_def)

interpretation manifest_table: unique_key la_manifest_key layout_conflict
  by unfold_locales (simp add: layout_conflict_def)

interpretation location_table: unique_key lo_revision location_conflict
  by unfold_locales (simp add: location_conflict_def)

interpretation run_table: unique_key ru_cache_key run_conflict
  by unfold_locales (simp add: run_conflict_def)

interpretation ref_table: unique_key ref_key ref_conflict
  by unfold_locales (simp add: ref_conflict_def)

interpretation job_table: unique_key tj_id job_conflict
  by unfold_locales (simp add: job_conflict_def)

interpretation job_cache_table: unique_key tj_cache_key job_conflict
  by unfold_locales (simp add: job_conflict_def)

interpretation scope_table: unique_key na_scope namespace_conflict
  by unfold_locales (simp add: namespace_conflict_def)

interpretation claim_table: unique_key claim_key claim_conflict
  by unfold_locales (simp add: claim_conflict_def)

interpretation claim_entity_table: unique_key claim_entity claim_conflict
  by unfold_locales (simp add: claim_conflict_def)

section \<open>Reading\<close>

definition find_namespace :: "catalog_db \<Rightarrow> js_string \<Rightarrow> namespace_row option" where
  "find_namespace db i = find_first (\<lambda>r. na_id r = i) (namespaces db)"

definition find_snapshot :: "catalog_db \<Rightarrow> js_string \<Rightarrow> snapshot_row option" where
  "find_snapshot db version = find_first (\<lambda>r. sn_version r = version) (snapshots db)"

definition layouts_ok :: "catalog_db \<Rightarrow> bool" where
  "layouts_ok db \<longleftrightarrow> list_all (\<lambda>l. find_snapshot db (la_dataset_version l) \<noteq> None) (layouts db)"

definition is_committed :: "catalog_db \<Rightarrow> js_string \<Rightarrow> bool" where
  "is_committed db version \<longleftrightarrow> find_first (\<lambda>r. la_dataset_version r = version) (layouts db) \<noteq> None"

definition find_layout :: "catalog_db \<Rightarrow> js_string \<Rightarrow> js_string \<Rightarrow> layout_row option" where
  "find_layout db version layout = find_first (\<lambda>r. layout_key r = (version, layout)) (layouts db)"

definition find_run :: "catalog_db \<Rightarrow> js_string \<Rightarrow> run_row option" where
  "find_run db cacheKey = find_first (\<lambda>r. ru_cache_key r = cacheKey) (runs db)"

definition find_ref :: "catalog_db \<Rightarrow> js_string \<Rightarrow> js_string \<Rightarrow> ref_row option" where
  "find_ref db namespaceId name = find_first (\<lambda>r. ref_key r = (namespaceId, name)) (refs db)"

definition find_job :: "catalog_db \<Rightarrow> js_string \<Rightarrow> transform_job option" where
  "find_job db i = find_first (\<lambda>r. tj_id r = i) (jobs db)"

text \<open>\<open>include: \{ inputs: \{ orderBy: \{ position: 'asc' \} \} \}\<close>.\<close>

definition inputs_of :: "catalog_db \<Rightarrow> js_string \<Rightarrow> run_input_row list" where
  "inputs_of db cacheKey = order_by ri_position (select_where (\<lambda>r. ri_cache_key r = cacheKey) (run_inputs db))"

definition checkedPageFetchLimit :: "int \<Rightarrow> nat catalog" where
  "checkedPageFetchLimit limit =
     bindR (ensure (is_safe_integer limit \<and> 0 < limit) InputError) (\<lambda>_.
     bindR (ensure (limit \<le> MAX_CATALOG_PAGE_SIZE) InputError) (\<lambda>_.
     bindR (ensure (is_safe_integer (limit + 1)) InputError) (\<lambda>_. Inr (nat (limit + 1)))))"

lemma checkedPageFetchLimit_eq:
  "checkedPageFetchLimit limit = (if 0 < limit \<and> limit \<le> 1000 then Inr (nat limit + 1) else Inl InputError)"
  by (auto simp: checkedPageFetchLimit_def ensure_def is_safe_integer_def MAX_CATALOG_PAGE_SIZE_def
      nat_add_distrib)

end
