(* ===== verification/Keyset_Paging.thy ===== *)
theory Keyset_Paging
  imports Sql_Table "HOL-Library.List_Lexorder" "HOL-Library.Product_Lexorder"
begin

text \<open>
  Pages by key, as every list operation of the catalog cuts them: a query for one row more than the
  page holds, strictly after the cursor in the order of the list, and the key of the last visible
  row as the next cursor when that extra row was found. The locale states what the order has to
  provide; following the cursors from the start then yields every row exactly once.
\<close>

text \<open>A client that follows the cursors, for at most \<open>n\<close> pages.\<close>

fun read_all :: "('k option \<Rightarrow> ('e, 'r list \<times> 'k option) result) \<Rightarrow> nat \<Rightarrow> 'k option \<Rightarrow> ('e, 'r list) result" where
  "read_all fetch 0 cursor = Inr []"
| "read_all fetch (Suc n) cursor =
     bindR (fetch cursor) (\<lambda>(rows, next).
       case next of None \<Rightarrow> Inr rows | Some c \<Rightarrow> bindR (read_all fetch n (Some c)) (\<lambda>rest. Inr (rows @ rest)))"

locale keyset =
  fixes key :: "'r \<Rightarrow> 'k"
    and before :: "'k \<Rightarrow> 'k \<Rightarrow> bool"
  assumes irreflexive: "\<not> before k k"
    and transitive: "before k l \<Longrightarrow> before l m \<Longrightarrow> before k m"
begin

definition selected :: "'r list \<Rightarrow> 'k option \<Rightarrow> 'r list" where
  "selected rows cursor =
     (case cursor of None \<Rightarrow> rows | Some c \<Rightarrow> filter (\<lambda>r. before c (key r)) rows)"

definition page :: "'r list \<Rightarrow> nat \<Rightarrow> 'k option \<Rightarrow> 'r list \<times> 'k option" where
  "page rows limit cursor =
     (let fetched = take (limit + 1) (selected rows cursor); visible = take limit fetched
      in (visible, if limit < length fetched then Some (key (last visible)) else None))"

definition ordered :: "'r list \<Rightarrow> bool" where
  "ordered rows \<longleftrightarrow> sorted_wrt before (map key rows)"

lemma page_bounded: "length (fst (page rows limit cursor)) \<le> limit"
  by (simp add: page_def Let_def)

lemma selected_after:
  assumes "ordered (xs @ r # ys)"
  shows "selected (xs @ r # ys) (Some (key r)) = ys"
proof -
  have "filter (\<lambda>s. before (key r) (key s)) xs = []"
  proof (rule filter_False, rule ballI, rule notI)
    fix s assume s: "s \<in> set xs" and "before (key r) (key s)"
    moreover have "before (key s) (key r)"
      using assms s by (simp add: ordered_def sorted_wrt_append)
    ultimately show False using transitive irreflexive by blast
  qed
  moreover have "filter (\<lambda>s. before (key r) (key s)) ys = ys"
    using assms by (simp add: ordered_def sorted_wrt_append filter_id_conv)
  ultimately show ?thesis by (simp add: selected_def irreflexive)
qed

lemma read_suffix:
  assumes "ordered rows" "0 < limit" and fetch: "\<And>c. fetch c = Inr (page rows limit c)"
  shows "rows = xs @ ys \<Longrightarrow> selected rows cursor = ys \<Longrightarrow> length ys \<le> n \<Longrightarrow> read_all fetch n cursor = Inr ys"
proof (induction n arbitrary: xs ys cursor)
  case (Suc n)
  show ?case
  proof (cases "length ys \<le> limit")
    case True
    then have "page rows limit cursor = (ys, None)"
      using Suc.prems by (simp add: page_def Let_def min_def)
    then show ?thesis by (simp add: fetch)
  next
    case False
    obtain zs r where zs: "take limit ys = zs @ [r]"
      using False \<open>0 < limit\<close> by (metis take_eq_Nil rev_exhaust not_gr_zero list.size(3) linorder_not_le less_imp_le)
    then have split: "ys = zs @ r # drop limit ys"
      by (metis append_take_drop_id append.assoc append_Cons append_Nil)
    have "page rows limit cursor = (take limit ys, Some (key r))"
      using Suc.prems False zs by (simp add: page_def Let_def min_def)
    moreover have "selected rows (Some (key r)) = drop limit ys"
      using selected_after [of "xs @ zs" r "drop limit ys"] assms(1) Suc.prems(1) split by simp
    moreover have "rows = (xs @ zs @ [r]) @ drop limit ys" using Suc.prems(1) split by simp
    moreover have "length (drop limit ys) \<le> n" using Suc.prems(3) \<open>0 < limit\<close> by simp
    ultimately show ?thesis
      using Suc.IH [of "xs @ zs @ [r]" "drop limit ys" "Some (key r)"] by (simp add: fetch)
  qed
qed simp

lemma read_everything:
  assumes "ordered rows" "0 < limit" "\<And>c. fetch c = Inr (page rows limit c)" "length rows \<le> n"
  shows "read_all fetch n None = Inr rows"
  using read_suffix [of rows limit fetch "[]" rows None n] assms by (simp add: selected_def)

end

text \<open>\<open>ORDER BY key ASC\<close> and \<open>ORDER BY key DESC\<close>, each with its comparison.\<close>

definition order_by_desc :: "('r \<Rightarrow> 'k :: linorder) \<Rightarrow> 'r list \<Rightarrow> 'r list" where
  "order_by_desc key rows = rev (order_by key (rev rows))"

lemma set_order_by [simp]: "set (order_by key rows) = set rows" "set (order_by_desc key rows) = set rows"
  by (simp_all add: order_by_def order_by_desc_def)

lemma mset_order_by [simp]: "mset (order_by key rows) = mset rows" "mset (order_by_desc key rows) = mset rows"
  by (simp_all add: order_by_def order_by_desc_def)

lemma length_order_by [simp]: "length (order_by key rows) = length rows" "length (order_by_desc key rows) = length rows"
  by (simp_all add: order_by_def order_by_desc_def)

lemma filter_order_by: "filter p (order_by key rows) = order_by key (filter p rows)"
  by (simp add: order_by_def filter_sort)

lemma filter_order_by_desc: "filter p (order_by_desc key rows) = order_by_desc key (filter p rows)"
  by (simp only: order_by_desc_def rev_filter [symmetric] filter_order_by)

lemma strictly_sorted:
  assumes "sorted xs" "distinct xs"
  shows "sorted_wrt (<) (xs :: 'k :: linorder list)"
  using assms strict_sorted_iff by blast

lemma order_by_strict:
  "distinct (map key rows) \<Longrightarrow> sorted_wrt (<) (map key (order_by key rows))"
proof (rule strictly_sorted)
  assume "distinct (map key rows)"
  moreover have "mset (map key (order_by key rows)) = mset (map key rows)" by simp
  ultimately show "distinct (map key (order_by key rows))" by (metis mset_eq_imp_distinct_iff)
qed (simp add: order_by_def)

lemma order_by_desc_strict:
  "distinct (map key rows) \<Longrightarrow> sorted_wrt (>) (map key (order_by_desc key rows))"
  using order_by_strict [of key "rev rows"]
  by (simp add: order_by_desc_def rev_map sorted_wrt_rev flip: rev_map)

end
