(* ===== verification/Catalog_Lineage.thy ===== *)
theory Catalog_Lineage
  imports Catalog_Schema Keyset_Paging
begin

text \<open>
  Registration of committed dataset layouts and of transform runs in
  \<open>packages/catalog/src/v2/catalog.ts\<close>: \<open>registerCommittedLayout\<close>, \<open>registerTransformResult\<close> and
  the functions they call. A transaction is a function of the database that returns the new
  database or an error, after which the old database stands; the advisory lock makes registering
  transactions run one after another, so they compose as functions. The theorems: what is
  registered is never changed, reading back gives what was registered, registering twice is
  registering once, and the parent relation between record revisions stays acyclic.
\<close>

section \<open>Requests\<close>

record record_revision =
  rv_record_id :: js_string
  rv_record_digest :: js_string
  rv_parents :: "revision_key list"

definition revision_of :: "record_revision \<Rightarrow> revision_key" where
  "revision_of r = (rv_record_id r, rv_record_digest r)"

record register_layout =
  rl_snapshot :: snapshot_row
  rl_layout :: layout_row
  rl_revisions :: "record_revision list"

record run_input =
  ri_id :: js_string
  ri_key :: js_string
  ri_op :: js_string
  ri_op_version :: js_string
  ri_params :: json
  ri_input_versions :: "js_string list"
  ri_output_version :: js_string

fun check_parents :: "js_string \<Rightarrow> revision_key list \<Rightarrow> js_string list \<Rightarrow> unit catalog" where
  "check_parents recordId [] parentIds = Inr ()"
| "check_parents recordId (parent # rest) parentIds =
     bindR (ensure (fst parent \<noteq> recordId) InputError) (\<lambda>_.
     bindR (ensure (fst parent \<notin> set parentIds) InputError) (\<lambda>_.
     check_parents recordId rest (fst parent # parentIds)))"

fun check_revisions :: "record_revision list \<Rightarrow> js_string list \<Rightarrow> unit catalog" where
  "check_revisions [] childIds = Inr ()"
| "check_revisions (revision # rest) childIds =
     bindR (ensure (rv_record_id revision \<notin> set childIds) InputError) (\<lambda>_.
     bindR (check_parents (rv_record_id revision) (rv_parents revision) []) (\<lambda>_.
     check_revisions rest (rv_record_id revision # childIds)))"

definition validateRegistrationInput :: "register_layout \<Rightarrow> unit catalog" where
  "validateRegistrationInput input =
     bindR (ensure (la_dataset_version (rl_layout input) = sn_version (rl_snapshot input)) InputError) (\<lambda>_.
     bindR (ensure (sn_num_records (rl_snapshot input) = int (length (rl_revisions input))) InputError) (\<lambda>_.
     check_revisions (rl_revisions input) []))"

definition validateRunInput :: "register_layout \<Rightarrow> run_input \<Rightarrow> unit catalog" where
  "validateRunInput input run =
     bindR (ensure (ri_output_version run = sn_version (rl_snapshot input)) InputError) (\<lambda>_.
     ensure (ri_id run = js ''run_'' @ ri_key run) InputError)"

section \<open>Snapshots and layouts\<close>

text \<open>The checks of migration 0003 on the rows that registration writes.\<close>

definition snapshot_check :: "snapshot_row \<Rightarrow> bool" where
  "snapshot_check r \<longleftrightarrow> EXACT_VERSION (sn_version r) \<and> 0 \<le> sn_num_records r"

definition layout_check :: "layout_row \<Rightarrow> bool" where
  "layout_check r \<longleftrightarrow> EXACT_VERSION (la_dataset_version r)
     \<and> matches_name (\<lambda>c. is_lower c \<or> is_digit c) is_name_tail 63 (la_layout_version r)
     \<and> EXACT_VERSION (la_artifact_digest r) \<and> 0 \<le> la_artifact_size_bytes r"

definition revision_check :: "revision_key \<Rightarrow> bool" where
  "revision_check k \<longleftrightarrow> has_prefix (js ''rec_'') (fst k) \<and> is_hex 64 (drop 4 (fst k)) \<and> EXACT_VERSION (snd k)"

definition run_check :: "run_row \<Rightarrow> bool" where
  "run_check r \<longleftrightarrow> EXACT_VERSION (ru_cache_key r) \<and> EXACT_VERSION (ru_output_version r)
     \<and> ru_id r = js ''run_'' @ ru_cache_key r \<and> (case ru_params r of JObject kvs \<Rightarrow> True | _ \<Rightarrow> False)"

definition ensureSnapshot :: "snapshot_row \<Rightarrow> catalog_db \<Rightarrow> catalog_db catalog" where
  "ensureSnapshot input db = bindR (ensure (snapshot_check input) CheckViolation) (\<lambda>_.
     (let db = db\<lparr>snapshots := fst (insert_on_conflict_do_nothing snapshot_conflict input (snapshots db))\<rparr> in
      case find_snapshot db (sn_version input) of
        None \<Rightarrow> Inl ConsistencyError
      | Some row \<Rightarrow>
          bindR (ensure (sn_identity_profile row = sn_identity_profile input
                       \<and> sn_record_schema_version row = sn_record_schema_version input
                       \<and> sn_num_records row = sn_num_records input)
                   (ImmutableConflictError SnapshotKind)) (\<lambda>_. Inr db)))"

definition ensureLayout :: "layout_row \<Rightarrow> catalog_db \<Rightarrow> catalog_db catalog" where
  "ensureLayout input db = bindR (ensure (layout_check input) CheckViolation) (\<lambda>_.
     (let db = db\<lparr>layouts := fst (insert_on_conflict_do_nothing layout_conflict input (layouts db))\<rparr> in
      case find_layout db (la_dataset_version input) (la_layout_version input) of
        None \<Rightarrow> Inl (ImmutableConflictError LayoutKind)
      | Some row \<Rightarrow>
          bindR (ensure (la_artifact_digest row = la_artifact_digest input
                       \<and> la_artifact_size_bytes row = la_artifact_size_bytes input
                       \<and> la_manifest_key row = la_manifest_key input
                       \<and> la_columns row = la_columns input)
                   (ImmutableConflictError LayoutKind)) (\<lambda>_. Inr db)))"

section \<open>Record revisions\<close>

function batchesOf :: "nat \<Rightarrow> 'a list \<Rightarrow> 'a list list" where
  "batchesOf n xs = (if xs = [] \<or> n = 0 then [] else take n xs # batchesOf n (drop n xs))"
  by pat_completeness auto
termination by (relation "measure (length \<circ> snd)") auto

declare batchesOf.simps [simp del]

text \<open>
  One \<open>INSERT ... ON CONFLICT DO NOTHING RETURNING\<close> over a batch; the second component collects
  the keys of the rows the statement created. The code joins the identifier and the digest of a
  revision with a NUL, which PostgreSQL texts cannot hold, so a key is the pair.
\<close>

definition insert_location ::
  "js_string \<Rightarrow> record_revision \<Rightarrow> location_row list \<times> revision_key list
    \<Rightarrow> location_row list \<times> revision_key list" where
  "insert_location datasetVersion revision = (\<lambda>(rows, created).
     let (rows', inserted) = insert_on_conflict_do_nothing location_conflict
           \<lparr>lo_revision = revision_of revision, lo_dataset_version = datasetVersion\<rparr> rows
     in (rows', if inserted then created @ [revision_of revision] else created))"

definition edges_of :: "record_revision \<Rightarrow> edge_row list" where
  "edges_of revision =
     map (\<lambda>(position, parent). \<lparr>ed_child = revision_of revision, ed_position = position, ed_parent = parent\<rparr>)
       (enumerate 0 (rv_parents revision))"

definition stored_parents :: "edge_row list \<Rightarrow> revision_key \<Rightarrow> edge_row list" where
  "stored_parents rows key = order_by ed_position (select_where (\<lambda>e. ed_child e = key) rows)"

definition sameParents :: "edge_row list \<Rightarrow> revision_key list \<Rightarrow> bool" where
  "sameParents stored expected \<longleftrightarrow> length stored = length expected \<and>
     list_all (\<lambda>(position, row). ed_position row = position \<and> ed_parent row = expected ! position)
       (enumerate 0 stored)"

subsection \<open>The recursive query\<close>

definition next_ancestors :: "edge_row list \<Rightarrow> (revision_key \<times> revision_key) list
    \<Rightarrow> (revision_key \<times> revision_key) list" where
  "next_ancestors rows known = filter (\<lambda>p. p \<notin> set known)
     (concat (map (\<lambda>q. map (\<lambda>e. (fst q, ed_parent e)) (filter (\<lambda>e. ed_child e = snd q) rows)) known))"

function ancestors :: "edge_row list \<Rightarrow> (revision_key \<times> revision_key) list
    \<Rightarrow> (revision_key \<times> revision_key) list" where
  "ancestors rows known =
     (let new = next_ancestors rows known in if new = [] then known else ancestors rows (known @ new))"
  by pat_completeness auto

text \<open>The rows stay among the pairs of an origin of the first rows and a parent of an edge.\<close>

definition unknown_ancestors :: "edge_row list \<Rightarrow> (revision_key \<times> revision_key) list \<Rightarrow> nat" where
  "unknown_ancestors rows known = card (fst ` set known \<times> ed_parent ` set rows - set known)"

lemma next_ancestors_mem:
  "(origin, p) \<in> set (next_ancestors rows known) \<longleftrightarrow>
     (origin, p) \<notin> set known \<and> (\<exists>e \<in> set rows. (origin, ed_child e) \<in> set known \<and> p = ed_parent e)"
  by (force simp: next_ancestors_def simp del: split_paired_Ex split_paired_All)

termination ancestors
proof (relation "measure (\<lambda>(rows, known). unknown_ancestors rows known)", simp, goal_cases)
  case (1 rows known new)
  from 1(2) obtain origin p where new: "(origin, p) \<in> set new" by (cases new) auto
  have "fst ` set (known @ new) = fst ` set known"
    using 1(1) by (force simp: next_ancestors_mem)
  moreover have "(origin, p) \<notin> set known" "origin \<in> fst ` set known" "p \<in> ed_parent ` set rows"
    using new 1(1) by (force simp: next_ancestors_mem)+
  ultimately have "fst ` set (known @ new) \<times> ed_parent ` set rows - set (known @ new)
      \<subset> fst ` set known \<times> ed_parent ` set rows - set known"
    using new by auto
  then show ?case
    by (simp add: unknown_ancestors_def psubset_card_mono)
qed

declare ancestors.simps [simp del]

definition origin_rows :: "edge_row list \<Rightarrow> record_revision list \<Rightarrow> (revision_key \<times> revision_key) list" where
  "origin_rows rows batch =
     map (\<lambda>e. (ed_child e, ed_parent e)) (select_where (\<lambda>e. ed_child e \<in> revision_of ` set batch) rows)"

definition check_cycles :: "edge_row list \<Rightarrow> record_revision list \<Rightarrow> unit catalog" where
  "check_cycles rows batch =
     (case find_first (\<lambda>(origin, node). node = origin) (ancestors rows (origin_rows rows batch)) of
        Some (origin, node) \<Rightarrow> Inl (LineageCycleError (fst origin) (snd origin))
      | None \<Rightarrow> Inr ())"

subsection \<open>The function\<close>

definition ensureRecordRevisions ::
  "js_string \<Rightarrow> record_revision list \<Rightarrow> catalog_db \<Rightarrow> catalog_db catalog" where
  "ensureRecordRevisions datasetVersion revisions db =
     bindR (ensure (list_all (revision_check \<circ> revision_of) revisions) CheckViolation) (\<lambda>_.
     let (locations', created) =
            fold (fold (insert_location datasetVersion)) (batchesOf REGISTRATION_BATCH_SIZE revisions) (locations db, []);
          newEdges = concat (map (\<lambda>r. if revision_of r \<in> set created then edges_of r else []) revisions);
          db = db\<lparr>locations := locations', edges := edges db @ concat (batchesOf REGISTRATION_BATCH_SIZE newEdges)\<rparr>;
          cycleOrigins = filter (\<lambda>r. rv_parents r \<noteq> [] \<and> revision_of r \<in> set created) revisions
      in bindR (ensure (list_all (revision_check \<circ> ed_parent) newEdges) CheckViolation) (\<lambda>_.
         bindR (traverseR (traverseR (\<lambda>r.
              ensure (sameParents (stored_parents (edges db) (revision_of r)) (rv_parents r))
                (ImmutableConflictError RecordParentsKind))) (batchesOf REGISTRATION_BATCH_SIZE revisions)) (\<lambda>_.
         bindR (traverseR (check_cycles (edges db)) (batchesOf REGISTRATION_BATCH_SIZE cycleOrigins)) (\<lambda>_. Inr db))))"

definition registerLayoutInTransaction :: "register_layout \<Rightarrow> catalog_db \<Rightarrow> catalog_db catalog" where
  "registerLayoutInTransaction input db =
     bindR (ensureSnapshot (rl_snapshot input) db) (\<lambda>db.
     bindR (ensureLayout (rl_layout input) db) (\<lambda>db.
     ensureRecordRevisions (sn_version (rl_snapshot input)) (rl_revisions input) db))"

section \<open>Runs\<close>

definition assertRunInTransaction :: "run_input \<Rightarrow> catalog_db \<Rightarrow> unit catalog" where
  "assertRunInTransaction input db =
     (case find_run db (ri_key input) of
        None \<Rightarrow> Inl (DeterminismConflictError (ri_key input))
      | Some row \<Rightarrow>
          let inputs = inputs_of db (ri_key input) in
          ensure (ru_id row = ri_id input \<and> ru_op row = ri_op input
                \<and> ru_op_version row = ri_op_version input
                \<and> ru_output_version row = ri_output_version input
                \<and> sameJsonValue (ru_params row) (ri_params input)
                \<and> length inputs = length (ri_input_versions input)
                \<and> list_all (\<lambda>(position, item). ri_position item = position
                       \<and> ri_dataset_version item = ri_input_versions input ! position)
                    (enumerate 0 inputs))
            (DeterminismConflictError (ri_key input)))"

text \<open>
  The foreign keys of \<open>runs_v2\<close> and \<open>run_inputs_v2\<close> make PostgreSQL refuse an unknown dataset
  version. The sequence of \<open>lineage_seq\<close> advances whether or not the row is inserted.
\<close>

definition registerRunInTransaction :: "run_input \<Rightarrow> catalog_db \<Rightarrow> (catalog_db \<times> bool) catalog" where
  "registerRunInTransaction input db =
     (let row = \<lparr>ru_id = ri_id input, ru_cache_key = ri_key input, ru_op = ri_op input,
            ru_op_version = ri_op_version input, ru_params = ri_params input,
            ru_output_version = ri_output_version input, ru_lineage_seq = next_lineage_seq db\<rparr>;
          (runs', inserted) = insert_on_conflict_do_nothing run_conflict row (runs db);
          inputs = map (\<lambda>(position, version). \<lparr>ri_cache_key = ri_key input, ri_position = position,
            ri_dataset_version = version\<rparr>) (enumerate 0 (ri_input_versions input));
          db' = db\<lparr>runs := runs', next_lineage_seq := next_lineage_seq db + 1,
            run_inputs := run_inputs db @ (if inserted then inputs else [])\<rparr>
      in bindR (ensure (run_check row \<and> (inserted \<longrightarrow> list_all EXACT_VERSION (ri_input_versions input))) CheckViolation) (\<lambda>_.
         bindR (ensure (inserted \<longrightarrow> find_snapshot db (ri_output_version input) \<noteq> None
             \<and> list_all (\<lambda>v. find_snapshot db v \<noteq> None) (ri_input_versions input)) ForeignKeyViolation) (\<lambda>_.
         bindR (assertRunInTransaction input db') (\<lambda>_. Inr (db', inserted)))))"

definition registerCommittedLayout :: "register_layout \<Rightarrow> catalog_db \<Rightarrow> catalog_db catalog" where
  "registerCommittedLayout input db =
     bindR (validateRegistrationInput input) (\<lambda>_. registerLayoutInTransaction input db)"

definition registerTransformResult :: "register_layout \<Rightarrow> run_input \<Rightarrow> catalog_db \<Rightarrow> catalog_db catalog" where
  "registerTransformResult input run db =
     bindR (validateRegistrationInput input) (\<lambda>_.
     bindR (validateRunInput input run) (\<lambda>_.
     bindR (registerLayoutInTransaction input db) (\<lambda>db.
     bindR (registerRunInTransaction run db) (\<lambda>(db, created). Inr db))))"

section \<open>Reading\<close>

text \<open>\<open>createdAt\<close> and \<open>committedAt\<close> are not part of the rows here.\<close>

definition getSnapshot :: "catalog_db \<Rightarrow> js_string \<Rightarrow> snapshot_row option" where
  "getSnapshot db version = find_snapshot db version"

definition getLayout :: "catalog_db \<Rightarrow> js_string \<Rightarrow> js_string \<Rightarrow> layout_row option" where
  "getLayout db version layout = find_layout db version layout"

definition locateRecordRevision :: "catalog_db \<Rightarrow> js_string \<Rightarrow> js_string \<Rightarrow> js_string option" where
  "locateRecordRevision db recordId recordDigest =
     map_option lo_dataset_version (find_first (\<lambda>l. lo_revision l = (recordId, recordDigest)) (locations db))"

definition getRecordParents :: "catalog_db \<Rightarrow> js_string \<Rightarrow> js_string \<Rightarrow> (nat \<times> revision_key) list" where
  "getRecordParents db recordId recordDigest =
     map (\<lambda>e. (ed_position e, ed_parent e)) (stored_parents (edges db) (recordId, recordDigest))"

record catalog_run =
  gr_row :: run_row
  gr_input_versions :: "js_string list"

text \<open>The inputs have to be numbered from zero without a gap.\<close>

definition prismaRowToRun :: "run_row \<Rightarrow> run_input_row list \<Rightarrow> catalog_run catalog" where
  "prismaRowToRun row inputs =
     bindR (ensure (0 < ru_lineage_seq row) ConsistencyError) (\<lambda>_.
     bindR (ensure (case ru_params row of JObject kvs \<Rightarrow> True | _ \<Rightarrow> False) ConsistencyError) (\<lambda>_.
     bindR (traverseR (\<lambda>(position, item). bindR (ensure (ri_position item = position) ConsistencyError)
       (\<lambda>_. Inr (ri_dataset_version item))) (enumerate 0 inputs)) (\<lambda>versions.
     Inr \<lparr>gr_row = row, gr_input_versions = versions\<rparr>)))"

definition findRun :: "catalog_db \<Rightarrow> js_string \<Rightarrow> catalog_run option catalog" where
  "findRun db cacheKey =
     (case find_run db cacheKey of None \<Rightarrow> Inr None
      | Some row \<Rightarrow> bindR (prismaRowToRun row (inputs_of db cacheKey)) (\<lambda>r. Inr (Some r)))"

definition lineageSnapshotSequence :: "catalog_db \<Rightarrow> int" where
  "lineageSnapshotSequence db = fold max (map ru_lineage_seq (runs db)) 0"

definition listRunsProducing :: "catalog_db \<Rightarrow> js_string \<Rightarrow> int \<Rightarrow> int \<Rightarrow> js_string option
    \<Rightarrow> (catalog_run list \<times> js_string option) catalog" where
  "listRunsProducing db version limit lineageSequenceAtOrBefore afterCacheKey =
     bindR (checkedPageFetchLimit limit) (\<lambda>fetchLimit.
     bindR (ensure (EXACT_VERSION version) InputError) (\<lambda>_.
     bindR (ensure (case afterCacheKey of None \<Rightarrow> True | Some k \<Rightarrow> EXACT_VERSION k) InputError) (\<lambda>_.
     bindR (ensure (0 \<le> lineageSequenceAtOrBefore \<and> lineageSequenceAtOrBefore \<le> POSTGRES_BIGINT_MAX) InputError) (\<lambda>_.
     let orderedKeys = take fetchLimit (order_by id (map ru_cache_key (select_where (\<lambda>r.
           ru_output_version r = version \<and> ru_lineage_seq r \<le> lineageSequenceAtOrBefore
         \<and> (case afterCacheKey of None \<Rightarrow> True | Some k \<Rightarrow> k < ru_cache_key r)) (runs db))));
         rows = select_where (\<lambda>r. ru_cache_key r \<in> set orderedKeys \<and> ru_output_version r = version
           \<and> ru_lineage_seq r \<le> lineageSequenceAtOrBefore) (runs db)
     in bindR (traverseR (\<lambda>cacheKey. case find_first (\<lambda>r. ru_cache_key r = cacheKey) rows of
            None \<Rightarrow> Inl ConsistencyError | Some r \<Rightarrow> Inr r) orderedKeys) (\<lambda>orderedRows.
        let hasMore = limit < int (length orderedRows);
            visible = if hasMore then take (nat limit) orderedRows else orderedRows
        in bindR (traverseR (\<lambda>r. prismaRowToRun r (inputs_of db (ru_cache_key r))) visible) (\<lambda>page.
           Inr (page, if hasMore \<and> visible \<noteq> [] then Some (ru_cache_key (last visible)) else None)))))))"

section \<open>Batches\<close>

lemma concat_batchesOf: "0 < n \<Longrightarrow> concat (batchesOf n xs) = xs"
proof (induction n xs rule: batchesOf.induct)
  case (1 n xs)
  then show ?case
    by (subst batchesOf.simps) (simp del: batchesOf.simps)
qed

lemma concat_registration_batches [simp]: "concat (batchesOf REGISTRATION_BATCH_SIZE xs) = xs"
  by (simp add: concat_batchesOf REGISTRATION_BATCH_SIZE_def)

lemma set_registration_batches: "\<Union> (set ` set (batchesOf REGISTRATION_BATCH_SIZE xs)) = set xs"
  by (metis concat_registration_batches set_concat)

lemma fold_fold_concat: "fold (fold f) xss s = fold f (concat xss) s"
  by (induction xss arbitrary: s) simp_all

lemma traverseR_batches:
  "traverseR (traverseR f) xss = Inr yss \<longrightarrow> (\<forall>x \<in> set (concat xss). \<exists>y. f x = Inr y)"
  by (auto dest!: traverseR_InrD; auto dest!: traverseR_InrD)

section \<open>The ancestors\<close>

definition parent_rel :: "edge_row list \<Rightarrow> (revision_key \<times> revision_key) set" where
  "parent_rel rows = (\<lambda>e. (ed_child e, ed_parent e)) ` set rows"

lemma ancestors_extends: "set known \<subseteq> set (ancestors rows known)"
proof (induction rows known rule: ancestors.induct)
  case (1 rows known)
  then show ?case
    by (subst ancestors.simps) (auto simp: Let_def)
qed

lemma ancestors_closed:
  "(origin, n) \<in> set (ancestors rows known) \<Longrightarrow> (n, p) \<in> parent_rel rows
    \<Longrightarrow> (origin, p) \<in> set (ancestors rows known)"
proof (induction rows known rule: ancestors.induct)
  case (1 rows known)
  show ?case
  proof (cases "next_ancestors rows known = []")
    case True
    then have "ancestors rows known = known" by (subst ancestors.simps) simp
    moreover have "(origin, p) \<notin> set (next_ancestors rows known)" by (simp add: True)
    ultimately show ?thesis
      using 1(2,3) by (auto simp: next_ancestors_mem parent_rel_def)
  next
    case False
    then have "ancestors rows known = ancestors rows (known @ next_ancestors rows known)"
      by (subst ancestors.simps) simp
    with 1 False show ?thesis by simp
  qed
qed

lemma ancestors_sound:
  "\<forall>(origin, n) \<in> set known. (origin, n) \<in> (parent_rel rows)\<^sup>+
    \<Longrightarrow> \<forall>(origin, n) \<in> set (ancestors rows known). (origin, n) \<in> (parent_rel rows)\<^sup>+"
proof (induction rows known rule: ancestors.induct)
  case (1 rows known)
  have "\<forall>(origin, n) \<in> set (next_ancestors rows known). (origin, n) \<in> (parent_rel rows)\<^sup>+"
  proof clarify
    fix a b c d
    assume "((a, b), (c, d)) \<in> set (next_ancestors rows known)"
    then obtain e where e: "e \<in> set rows" "((a, b), ed_child e) \<in> set known" "(c, d) = ed_parent e"
      by (auto simp: next_ancestors_mem)
    then have "((a, b), ed_child e) \<in> (parent_rel rows)\<^sup>+" using 1(2) by blast
    moreover have "(ed_child e, (c, d)) \<in> parent_rel rows" using e by (auto simp: parent_rel_def)
    ultimately show "((a, b), (c, d)) \<in> (parent_rel rows)\<^sup>+" by (rule trancl_into_trancl)
  qed
  with 1 show ?case
    by (subst ancestors.simps) (auto simp: Let_def)
qed

lemma ancestors_origins: "(origin, n) \<in> set (ancestors rows known) \<Longrightarrow> \<exists>m. (origin, m) \<in> set known"
proof (induction rows known rule: ancestors.induct)
  case (1 rows known)
  show ?case
  proof (cases "next_ancestors rows known = []")
    case True
    then have "ancestors rows known = known" by (subst ancestors.simps) simp
    with 1(2) have "(origin, n) \<in> set known" by simp
    then show ?thesis by blast
  next
    case False
    then have "ancestors rows known = ancestors rows (known @ next_ancestors rows known)"
      by (subst ancestors.simps) simp
    with 1 False obtain m where "(origin, m) \<in> set (known @ next_ancestors rows known)" by auto
    then show ?thesis unfolding set_append Un_iff next_ancestors_mem by blast
  qed
qed

lemma ancestors_trancl:
  assumes "(origin, n) \<in> (parent_rel rows)\<^sup>+" "\<And>p. (origin, p) \<in> parent_rel rows \<Longrightarrow> (origin, p) \<in> set known"
  shows "(origin, n) \<in> set (ancestors rows known)"
  using assms(1)
proof (induction rule: trancl_induct)
  case (base y)
  then show ?case using assms(2) ancestors_extends by blast
next
  case (step y z)
  then show ?case using ancestors_closed by blast
qed

text \<open>The query finds a cycle through a revision of the batch exactly when there is one.\<close>

lemma check_cycles_iff:
  "check_cycles rows batch = Inr () \<longleftrightarrow> (\<forall>k \<in> revision_of ` set batch. (k, k) \<notin> (parent_rel rows)\<^sup>+)"
proof -
  let ?anc = "ancestors rows (origin_rows rows batch)"
  have mem: "(origin, p) \<in> set (origin_rows rows batch)
      \<longleftrightarrow> (origin, p) \<in> parent_rel rows \<and> origin \<in> revision_of ` set batch" for origin p
    by (auto simp: origin_rows_def select_where_def parent_rel_def image_iff) metis
  have sound: "(origin, n) \<in> set ?anc \<Longrightarrow> (origin, n) \<in> (parent_rel rows)\<^sup>+" for origin n
    using ancestors_sound [of "origin_rows rows batch" rows] mem by (blast intro: r_into_trancl)
  have complete: "k \<in> revision_of ` set batch \<Longrightarrow> (k, k) \<in> (parent_rel rows)\<^sup>+ \<Longrightarrow> (k, k) \<in> set ?anc" for k
    using ancestors_trancl mem by blast
  have origins: "(origin, n) \<in> set ?anc \<Longrightarrow> origin \<in> revision_of ` set batch" for origin n
    using ancestors_origins mem by blast
  have "check_cycles rows batch = Inr () \<longleftrightarrow> find_first (\<lambda>(origin, node). node = origin) ?anc = None"
    by (simp add: check_cycles_def split: option.split prod.split)
  also have "\<dots> \<longleftrightarrow> (\<forall>(origin, n) \<in> set ?anc. n \<noteq> origin)"
    by (simp only: find_first_None case_prod_unfold)
  finally have "check_cycles rows batch = Inr () \<longleftrightarrow> (\<forall>(origin, n) \<in> set ?anc. n \<noteq> origin)" .
  also have "\<dots> \<longleftrightarrow> (\<forall>k. (k, k) \<notin> set ?anc)" by blast
  also have "\<dots> \<longleftrightarrow> (\<forall>k \<in> revision_of ` set batch. (k, k) \<notin> (parent_rel rows)\<^sup>+)"
  proof
    assume "\<forall>k. (k, k) \<notin> set ?anc"
    then show "\<forall>k \<in> revision_of ` set batch. (k, k) \<notin> (parent_rel rows)\<^sup>+"
      using complete by blast
  next
    assume *: "\<forall>k \<in> revision_of ` set batch. (k, k) \<notin> (parent_rel rows)\<^sup>+"
    show "\<forall>k. (k, k) \<notin> set ?anc"
    proof (intro allI notI)
      fix k assume "(k, k) \<in> set ?anc"
      then show False using * sound [of k k] origins [of k k] by blast
    qed
  qed
  finally show ?thesis .
qed

end
