(* ===== verification/Catalog_Refs.thy ===== *)
theory Catalog_Refs
  imports Catalog_Schema Keyset_Paging
begin

text \<open>
  Identity namespaces, identity claims and refs of \<open>packages/catalog/src/v2/catalog.ts\<close>. A ref is a
  name in a namespace that points to a committed dataset version; it moves by compare-and-set, and
  deleting it leaves a tombstone that restoring removes. Every statement reads one clock value
  \<open>now\<close>; a transaction that throws leaves the database as it was.
\<close>

section \<open>Namespaces and claims\<close>

definition scope_check :: "js_string \<Rightarrow> bool" where
  "scope_check scope \<longleftrightarrow> scope = js ''default''"

text \<open>\<open>proposedId\<close> is the random UUID.\<close>

definition getOrCreateNamespace :: "js_string \<Rightarrow> js_string \<Rightarrow> catalog_db \<Rightarrow> (catalog_db \<times> js_string) catalog" where
  "getOrCreateNamespace proposedId scope db =
     bindR (ensure (scope_check scope) CheckViolation) (\<lambda>_.
     let (rows, inserted) = insert_on_conflict_do_nothing namespace_conflict
           \<lparr>na_id = proposedId, na_scope = scope\<rparr> (namespaces db)
     in if inserted then Inr (db\<lparr>namespaces := rows\<rparr>, proposedId)
        else case find_first (\<lambda>r. na_scope r = scope) (namespaces db) of
               None \<Rightarrow> Inl ConsistencyError
             | Some existing \<Rightarrow> Inr (db, na_id existing))"

definition record_profiles :: "js_string list" where
  "record_profiles = [js ''source-root-v1'', js ''artifact-row-v1'', js ''direct-root-v1'', js ''derived-record-v1'']"

text \<open>The checks of \<open>identity_claims_v2\<close> in migration 0003.\<close>

definition claim_check :: "claim_row \<Rightarrow> bool" where
  "claim_check r \<longleftrightarrow>
     EXACT_VERSION (cl_claim_key_digest r) \<and> EXACT_VERSION (cl_request_digest r)
   \<and> cl_claim_profile r = js ''databench-identity-claim-v1''
   \<and> cl_request_profile r = js ''databench-identity-request-v1''
   \<and> (cl_entity_kind r = js ''record'' \<and> cl_creation_profile r \<in> set record_profiles
        \<and> has_prefix (js ''rec_'') (cl_entity_id r) \<and> is_hex 64 (drop 4 (cl_entity_id r))
      \<or> cl_entity_kind r = js ''candidate'' \<and> cl_creation_profile r = js ''candidate-v1''
        \<and> has_prefix (js ''cand_'') (cl_entity_id r) \<and> is_hex 64 (drop 5 (cl_entity_id r))
      \<or> cl_entity_kind r = js ''signal'' \<and> cl_creation_profile r = js ''signal-event-v1''
        \<and> has_prefix (js ''sig_'') (cl_entity_id r) \<and> is_hex 64 (drop 4 (cl_entity_id r))
      \<or> cl_entity_kind r = js ''preference'' \<and> cl_creation_profile r = js ''preference-event-v1''
        \<and> has_prefix (js ''pref_'') (cl_entity_id r) \<and> is_hex 64 (drop 5 (cl_entity_id r)))"

datatype claim_result = Created claim_row | ExistingClaim claim_row | ExistingEntity claim_row

text \<open>The row of \<open>input\<close> carries the time of its insertion.\<close>

definition insertOrReadIdentityClaim :: "claim_row \<Rightarrow> catalog_db \<Rightarrow> (catalog_db \<times> claim_result) catalog" where
  "insertOrReadIdentityClaim input db =
     bindR (ensure (claim_check input) CheckViolation) (\<lambda>_.
     let (rows, inserted) = insert_on_conflict_do_nothing claim_conflict input (claims db)
     in if inserted
        then bindR (ensure (find_namespace db (cl_namespace_id input) \<noteq> None) ForeignKeyViolation)
               (\<lambda>_. Inr (db\<lparr>claims := rows\<rparr>, Created input))
        else case find_first (\<lambda>r. claim_key r = claim_key input) (claims db) of
               Some row \<Rightarrow> Inr (db, ExistingClaim row)
             | None \<Rightarrow>
                 (case find_first (\<lambda>r. claim_entity r = claim_entity input) (claims db) of
                    Some row \<Rightarrow> Inr (db, ExistingEntity row)
                  | None \<Rightarrow> Inl ConsistencyError))"

section \<open>Reading refs\<close>

record catalog_ref =
  cr_namespace_id :: js_string
  cr_name :: js_string
  cr_version :: js_string
  cr_num_records :: int
  cr_message :: "js_string option"
  cr_updated_at :: int
  cr_deleted_at :: "int option"

definition sqlRowToRef :: "ref_row \<Rightarrow> int \<Rightarrow> catalog_ref" where
  "sqlRowToRef row numRecords =
     \<lparr>cr_namespace_id = rf_namespace_id row, cr_name = rf_name row, cr_version = rf_version row,
      cr_num_records = numRecords, cr_message = rf_message row, cr_updated_at = rf_updated_at row,
      cr_deleted_at = rf_deleted_at row\<rparr>"

text \<open>\<open>prismaRowToRef\<close> copies the same columns of a row joined with its snapshot.\<close>

definition join_snapshot :: "catalog_db \<Rightarrow> ref_row \<Rightarrow> catalog_ref option" where
  "join_snapshot db row = map_option (\<lambda>s. sqlRowToRef row (sn_num_records s)) (find_snapshot db (rf_version row))"

definition getRef :: "catalog_db \<Rightarrow> js_string \<Rightarrow> js_string \<Rightarrow> catalog_ref option" where
  "getRef db namespaceId name =
     Option.bind (find_first (\<lambda>r. ref_key r = (namespaceId, name) \<and> rf_deleted_at r = None) (refs db)) (join_snapshot db)"

definition getDeletedRef :: "catalog_db \<Rightarrow> js_string \<Rightarrow> js_string \<Rightarrow> catalog_ref option" where
  "getDeletedRef db namespaceId name =
     Option.bind (find_first (\<lambda>r. ref_key r = (namespaceId, name) \<and> rf_deleted_at r \<noteq> None) (refs db)) (join_snapshot db)"

definition resolveRef :: "catalog_db \<Rightarrow> js_string \<Rightarrow> js_string \<Rightarrow> js_string" where
  "resolveRef db namespaceId nameOrVersion =
     (if EXACT_VERSION nameOrVersion then nameOrVersion
      else case getRef db namespaceId nameOrVersion of None \<Rightarrow> nameOrVersion | Some r \<Rightarrow> cr_version r)"

section \<open>Changing refs\<close>

text \<open>The checks of \<open>refs_v2\<close>.\<close>

definition ref_check :: "ref_row \<Rightarrow> bool" where
  "ref_check r \<longleftrightarrow> SAFE_REF_NAME (rf_name r) \<and> \<not> EXACT_VERSION (rf_name r)
     \<and> rf_name r \<noteq> js ''.'' \<and> rf_name r \<noteq> js ''..'' \<and> EXACT_VERSION (rf_version r)"

definition ref_fks :: "catalog_db \<Rightarrow> ref_row \<Rightarrow> bool" where
  "ref_fks db r \<longleftrightarrow> find_namespace db (rf_namespace_id r) \<noteq> None \<and> find_snapshot db (rf_version r) \<noteq> None"

text \<open>
  \<open>INSERT ... ON CONFLICT DO NOTHING\<close> on \<open>refs_v2\<close>: the checks of the proposed row come before the
  conflict, the foreign keys after the insertion.
\<close>

definition insert_ref :: "ref_row \<Rightarrow> catalog_db \<Rightarrow> (catalog_db \<times> bool) catalog" where
  "insert_ref row db =
     bindR (ensure (ref_check row) CheckViolation) (\<lambda>_.
     let (rows, inserted) = insert_on_conflict_do_nothing ref_conflict row (refs db)
     in bindR (ensure (inserted \<longrightarrow> ref_fks db row) ForeignKeyViolation) (\<lambda>_.
        Inr (db\<lparr>refs := rows\<rparr>, inserted)))"

definition update_refs :: "(ref_row \<Rightarrow> bool) \<Rightarrow> (ref_row \<Rightarrow> ref_row) \<Rightarrow> catalog_db
    \<Rightarrow> (catalog_db \<times> ref_row list) catalog" where
  "update_refs p f db =
     bindR (ensure (list_all ref_check (returning p f (refs db))) CheckViolation) (\<lambda>_.
     bindR (ensure (list_all (ref_fks db) (returning p f (refs db))) ForeignKeyViolation) (\<lambda>_.
     Inr (db\<lparr>refs := update_where p f (refs db)\<rparr>, returning p f (refs db))))"

record compare_and_set_ref =
  cs_namespace_id :: js_string
  cs_name :: js_string
  cs_new_version :: js_string
  cs_expected_version :: "js_string option"
  cs_message :: "js_string option"

text \<open>The single statement that inserts or updates; without a committed target it selects no row.\<close>

definition set_ref_statement :: "int \<Rightarrow> compare_and_set_ref \<Rightarrow> catalog_db \<Rightarrow> (catalog_db \<times> ref_row list) catalog" where
  "set_ref_statement now input db =
     (case cs_expected_version input of
        None \<Rightarrow>
          let row = \<lparr>rf_namespace_id = cs_namespace_id input, rf_name = cs_name input,
                rf_version = cs_new_version input, rf_message = cs_message input,
                rf_updated_at = now, rf_deleted_at = None\<rparr>
          in if \<not> is_committed db (cs_new_version input) then Inr (db, [])
             else bindR (insert_ref row db) (\<lambda>(db', inserted). Inr (db', if inserted then [row] else []))
      | Some expected \<Rightarrow>
          update_refs
            (\<lambda>r. ref_key r = (cs_namespace_id input, cs_name input) \<and> rf_version r = expected
               \<and> rf_deleted_at r = None \<and> is_committed db (cs_new_version input))
            (\<lambda>r. r\<lparr>rf_version := cs_new_version input, rf_message := cs_message input, rf_updated_at := now\<rparr>)
            db)"

definition compareAndSetRef :: "int \<Rightarrow> compare_and_set_ref \<Rightarrow> catalog_db \<Rightarrow> (catalog_db \<times> catalog_ref) catalog" where
  "compareAndSetRef now input db =
     bindR (set_ref_statement now input db) (\<lambda>(db', changed).
       let changed' = List.map_filter (join_snapshot db) changed in
       case changed' of
         [committed] \<Rightarrow> Inr (db', committed)
       | _ \<Rightarrow>
           if \<not> is_committed db (cs_new_version input)
           then Inl (TargetNotCommittedError (cs_new_version input))
           else Inl (RefConflictError (cs_expected_version input)
                  (map_option rf_version (find_ref db (cs_namespace_id input) (cs_name input)))
                  (cs_new_version input)))"


section \<open>Deleting and restoring\<close>

text \<open>Callers give the version that they saw.\<close>

record ref_state_input =
  rs_namespace_id :: js_string
  rs_name :: js_string
  rs_expected_version :: js_string

definition refStateConflict :: "catalog_ref \<Rightarrow> ref_operation \<Rightarrow> catalog_error" where
  "refStateConflict row operation =
     RefStateConflictError (cr_version row) (cr_deleted_at row = None) operation"

definition lockRefForStateChange :: "catalog_db \<Rightarrow> js_string \<Rightarrow> js_string \<Rightarrow> catalog_ref option catalog" where
  "lockRefForStateChange db namespaceId name =
     (let locked = select_where (\<lambda>r. ref_key r = (namespaceId, name)) (refs db) in
      bindR (ensure (length locked \<le> 1) ConsistencyError) (\<lambda>_.
      if locked = [] then Inr None
      else case Option.bind (find_ref db namespaceId name) (join_snapshot db) of
             None \<Rightarrow> Inl ConsistencyError
           | Some row \<Rightarrow> Inr (Some row)))"

datatype delete_ref_result = RefDeleted catalog_ref | AlreadyDeleted catalog_ref | DeleteMissing
datatype restore_ref_result = RefRestored catalog_ref | AlreadyActive catalog_ref | RestoreMissing

definition deleteRef :: "int \<Rightarrow> ref_state_input \<Rightarrow> catalog_db \<Rightarrow> (catalog_db \<times> delete_ref_result) catalog" where
  "deleteRef now input db =
     bindR (lockRefForStateChange db (rs_namespace_id input) (rs_name input)) (\<lambda>found.
     case found of
       None \<Rightarrow> Inr (db, DeleteMissing)
     | Some row \<Rightarrow>
         bindR (ensure (cr_version row = rs_expected_version input) (refStateConflict row DeleteOperation)) (\<lambda>_.
         if cr_deleted_at row \<noteq> None then Inr (db, AlreadyDeleted row)
         else bindR (update_refs
                (\<lambda>r. ref_key r = (rs_namespace_id input, rs_name input)
                   \<and> rf_version r = rs_expected_version input \<and> rf_deleted_at r = None)
                (\<lambda>r. r\<lparr>rf_deleted_at := Some now\<rparr>) db) (\<lambda>(db', changed).
              case changed of
                [r] \<Rightarrow> bindR (ensure (rf_deleted_at r \<noteq> None) ConsistencyError)
                         (\<lambda>_. Inr (db', RefDeleted (row\<lparr>cr_deleted_at := rf_deleted_at r\<rparr>)))
              | _ \<Rightarrow> Inl ConsistencyError)))"

definition restoreRef :: "ref_state_input \<Rightarrow> catalog_db \<Rightarrow> (catalog_db \<times> restore_ref_result) catalog" where
  "restoreRef input db =
     bindR (lockRefForStateChange db (rs_namespace_id input) (rs_name input)) (\<lambda>found.
     case found of
       None \<Rightarrow> Inr (db, RestoreMissing)
     | Some row \<Rightarrow>
         bindR (ensure (cr_version row = rs_expected_version input) (refStateConflict row RestoreOperation)) (\<lambda>_.
         if cr_deleted_at row = None then Inr (db, AlreadyActive row)
         else bindR (update_refs
                (\<lambda>r. ref_key r = (rs_namespace_id input, rs_name input)
                   \<and> rf_version r = rs_expected_version input \<and> rf_deleted_at r \<noteq> None)
                (\<lambda>r. r\<lparr>rf_deleted_at := None\<rparr>) db) (\<lambda>(db', changed).
              case changed of
                [r] \<Rightarrow> bindR (ensure (rf_deleted_at r = None) ConsistencyError)
                         (\<lambda>_. Inr (db', RefRestored (row\<lparr>cr_deleted_at := None\<rparr>)))
              | _ \<Rightarrow> Inl ConsistencyError)))"

section \<open>Listing\<close>

text \<open>
  The names of refs are ASCII, for which the order of code units is the order of bytes of
  \<open>COLLATE "C"\<close>.
\<close>

definition page_of :: "nat \<Rightarrow> int \<Rightarrow> catalog_ref list \<Rightarrow> catalog_ref list \<times> js_string option" where
  "page_of fetchLimit limit selected =
     (let rows = take fetchLimit selected; hasMore = limit < int (length rows);
          visible = if hasMore then take (nat limit) rows else rows
      in (visible, if hasMore then (if visible = [] then None else Some (cr_name (last visible))) else None))"

definition listRefs :: "catalog_db \<Rightarrow> js_string \<Rightarrow> int \<Rightarrow> js_string option
    \<Rightarrow> (catalog_ref list \<times> js_string option) catalog" where
  "listRefs db namespaceId limit afterName =
     bindR (checkedPageFetchLimit limit) (\<lambda>fetchLimit.
       Inr (page_of fetchLimit limit (order_by cr_name (List.map_filter (join_snapshot db)
         (select_where (\<lambda>r. rf_namespace_id r = namespaceId \<and> rf_deleted_at r = None
            \<and> (case afterName of None \<Rightarrow> True | Some a \<Rightarrow> a < rf_name r)) (refs db))))))"

definition listDeletedRefs :: "catalog_db \<Rightarrow> js_string \<Rightarrow> int \<Rightarrow> js_string option
    \<Rightarrow> (catalog_ref list \<times> js_string option) catalog" where
  "listDeletedRefs db namespaceId limit afterName =
     bindR (checkedPageFetchLimit limit) (\<lambda>fetchLimit.
       Inr (page_of fetchLimit limit (order_by cr_name (List.map_filter (join_snapshot db)
         (select_where (\<lambda>r. rf_namespace_id r = namespaceId \<and> rf_deleted_at r \<noteq> None
            \<and> (case afterName of None \<Rightarrow> True | Some a \<Rightarrow> a < rf_name r)) (refs db))))))"

section \<open>The result ref of a transform\<close>

definition adoptTransformJobResultRefInTransaction ::
  "int \<Rightarrow> js_string \<Rightarrow> js_string \<Rightarrow> js_string \<Rightarrow> catalog_db
    \<Rightarrow> (catalog_db \<times> result_ref_status \<times> js_string) catalog" where
  "adoptTransformJobResultRefInTransaction now namespaceId name outputVersion db =
     bindR (insert_ref \<lparr>rf_namespace_id = namespaceId, rf_name = name, rf_version = outputVersion,
         rf_message = None, rf_updated_at = now, rf_deleted_at = None\<rparr> db) (\<lambda>(db', inserted).
     if inserted then Inr (db', UpdatedRef, outputVersion)
     else case select_where (\<lambda>r. ref_key r = (namespaceId, name)) (refs db') of
            [row] \<Rightarrow>
              if rf_deleted_at row = None \<and> rf_version row = outputVersion
              then Inr (db', UpdatedRef, outputVersion)
              else Inr (db', ConflictRef, rf_version row)
          | _ \<Rightarrow> Inl ConsistencyError)"

end
