(* ===== verification/Transform_Jobs.thy ===== *)
theory Transform_Jobs
  imports Catalog_Lineage Catalog_Refs Json_Number
begin

text \<open>
  Transform jobs of \<open>packages/catalog/src/v2/catalog.ts\<close>: a queue of jobs in a table, leased to
  workers by a random token with an expiry. Every operation is one guarded \<open>UPDATE\<close> or one
  transaction; here it is a function of the arguments, of the clock reading \<open>now\<close> in microseconds,
  and of the database. A statement fails with \<open>CheckViolation\<close> when a row it writes breaks a
  constraint of migrations 0007 to 0009; of those the limits on the size of JSON texts are left out.
\<close>

section \<open>Constraints of the table\<close>

definition POSTGRES_INTEGER_MAX :: int where "POSTGRES_INTEGER_MAX = 2147483647"

definition staging_prefix :: "js_string \<Rightarrow> int \<Rightarrow> js_string" where
  "staging_prefix i attempt = js ''staging/worker/v1/'' @ i @ js ''/'' @ nat_to_string (nat attempt)"

definition is_active :: "job_status \<Rightarrow> bool" where
  "is_active s \<longleftrightarrow> s \<in> {Leased, Running, Finalizing}"

definition is_stopped :: "job_status \<Rightarrow> bool" where
  "is_stopped s \<longleftrightarrow> s \<in> {Failed, Cancelled}"

definition is_terminal :: "job_status \<Rightarrow> bool" where
  "is_terminal s \<longleftrightarrow> s \<in> {Completed, Failed, Cancelled}"

fun is_json_object :: "json \<Rightarrow> bool" where
  "is_json_object (JObject kvs) = True"
| "is_json_object _ = False"

definition identity_check :: "transform_job \<Rightarrow> bool" where
  "identity_check r \<longleftrightarrow> EXACT_VERSION (tj_cache_key r) \<and> tj_id r = js ''job_'' @ tj_cache_key r
     \<and> EXACT_VERSION (tj_input_version r)
     \<and> (case tj_output_version r of None \<Rightarrow> True | Some v \<Rightarrow> EXACT_VERSION v)"

definition names_check :: "transform_job \<Rightarrow> bool" where
  "names_check r \<longleftrightarrow> SAFE_WORKER_NAME (tj_op r) \<and> SAFE_WORKER_VERSION (tj_op_version r)
     \<and> SAFE_WORKER_NAME (tj_capability_name r) \<and> SAFE_WORKER_VERSION (tj_capability_version r)
     \<and> is_json_object (tj_params r)"

definition count_check :: "transform_job \<Rightarrow> bool" where
  "count_check r \<longleftrightarrow> 0 \<le> tj_input_count r \<and> tj_input_count r \<le> POSTGRES_BIGINT_MAX
     \<and> (case tj_output_count r of None \<Rightarrow> True | Some n \<Rightarrow> 0 \<le> n \<and> n \<le> tj_input_count r)"

definition attempt_check :: "transform_job \<Rightarrow> bool" where
  "attempt_check r \<longleftrightarrow> 0 \<le> tj_attempt r \<and> tj_attempt r \<le> POSTGRES_INTEGER_MAX"

definition lease_check :: "transform_job \<Rightarrow> bool" where
  "lease_check r \<longleftrightarrow>
     (tj_lease_owner r = None \<and> tj_lease_token r = None \<and> tj_lease_expires_at r = None
      \<or> tj_lease_owner r \<noteq> None \<and> (case tj_lease_token r of None \<Rightarrow> False | Some t \<Rightarrow> length t = 32)
        \<and> tj_lease_expires_at r \<noteq> None)
   \<and> ((is_active (tj_status r) \<longleftrightarrow> tj_lease_token r \<noteq> None) \<or> is_stopped (tj_status r))"

definition completion_check :: "transform_job \<Rightarrow> bool" where
  "completion_check r \<longleftrightarrow>
     (tj_status r = Completed \<and> tj_output_version r \<noteq> None \<and> tj_finished_at r \<noteq> None
      \<or> tj_status r \<noteq> Completed \<and> tj_output_version r = None)
   \<and> (is_terminal (tj_status r) \<longleftrightarrow> tj_finished_at r \<noteq> None)
   \<and> (tj_status r = Failed \<longleftrightarrow> tj_error r \<noteq> None)
   \<and> (tj_cache_hit r \<longrightarrow> tj_status r = Completed)"

definition staging_check :: "transform_job \<Rightarrow> bool" where
  "staging_check r \<longleftrightarrow> tj_input_key r = None \<and> tj_output_key r = None
     \<or> tj_input_key r = Some (staging_prefix (tj_id r) (tj_attempt r) @ js ''/input.jsonl'')
       \<and> tj_output_key r = Some (staging_prefix (tj_id r) (tj_attempt r) @ js ''/output.jsonl'')"

definition ref_name_ok :: "js_string \<Rightarrow> bool" where
  "ref_name_ok name \<longleftrightarrow> SAFE_REF_NAME name \<and> \<not> EXACT_VERSION name \<and> name \<noteq> js ''.'' \<and> name \<noteq> js ''..''"

definition result_ref_check :: "transform_job \<Rightarrow> bool" where
  "result_ref_check r \<longleftrightarrow>
     (tj_result_ref_namespace_id r = None \<and> tj_result_ref_name r = None \<and> tj_result_ref_status r = None
        \<and> tj_result_ref_version r = None
      \<or> tj_result_ref_namespace_id r \<noteq> None \<and> tj_result_ref_name r \<noteq> None
        \<and> (case tj_result_ref_status r of None \<Rightarrow> False
            | Some s \<Rightarrow> (s = PendingRef \<longleftrightarrow> tj_result_ref_version r = None)))
   \<and> (case tj_result_ref_name r of None \<Rightarrow> True | Some name \<Rightarrow> ref_name_ok name)"

definition job_check :: "transform_job \<Rightarrow> bool" where
  "job_check r \<longleftrightarrow> identity_check r \<and> names_check r \<and> count_check r \<and> attempt_check r \<and> lease_check r
     \<and> completion_check r \<and> staging_check r \<and> result_ref_check r"

lemmas job_checks = identity_check_def names_check_def count_check_def attempt_check_def lease_check_def
  completion_check_def staging_check_def result_ref_check_def

definition known :: "('a \<Rightarrow> 'b option) \<Rightarrow> 'a option \<Rightarrow> bool" where
  "known find_row key = (case key of None \<Rightarrow> True | Some k \<Rightarrow> find_row k \<noteq> None)"

definition job_fks :: "catalog_db \<Rightarrow> transform_job \<Rightarrow> bool" where
  "job_fks db r \<longleftrightarrow> find_snapshot db (tj_input_version r) \<noteq> None
     \<and> known (find_snapshot db) (tj_output_version r)
     \<and> known (find_namespace db) (tj_result_ref_namespace_id r)
     \<and> known (find_snapshot db) (tj_result_ref_version r)"

definition insert_job :: "transform_job \<Rightarrow> catalog_db \<Rightarrow> catalog_db catalog" where
  "insert_job row db =
     bindR (ensure (job_check row) CheckViolation) (\<lambda>_.
     let (rows, inserted) = insert_on_conflict_do_nothing job_conflict row (jobs db)
     in bindR (ensure (inserted \<longrightarrow> job_fks db row) ForeignKeyViolation) (\<lambda>_. Inr (db\<lparr>jobs := rows\<rparr>)))"

text \<open>\<open>UPDATE ... SET f WHERE p RETURNING\<close>.\<close>

definition update_jobs :: "(transform_job \<Rightarrow> bool) \<Rightarrow> (transform_job \<Rightarrow> transform_job) \<Rightarrow> catalog_db
    \<Rightarrow> (catalog_db \<times> transform_job list) catalog" where
  "update_jobs p f db =
     bindR (ensure (list_all job_check (returning p f (jobs db))) CheckViolation) (\<lambda>_.
     bindR (ensure (list_all (job_fks db) (returning p f (jobs db))) ForeignKeyViolation) (\<lambda>_.
     Inr (db\<lparr>jobs := update_where p f (jobs db)\<rparr>, returning p f (jobs db))))"

section \<open>Validation\<close>

record create_transform_job =
  ct_id :: js_string
  ct_cache_key :: js_string
  ct_op :: js_string
  ct_op_version :: js_string
  ct_params :: json
  ct_input_version :: js_string
  ct_capability_name :: js_string
  ct_capability_version :: js_string
  ct_input_count :: int
  ct_result_ref_namespace_id :: "js_string option"
  ct_result_ref_name :: "js_string option"

record job_lease =
  jl_id :: js_string
  jl_attempt :: int
  jl_lease_token :: bytes

record job_progress =
  jp_phase :: js_string
  jp_completed_units :: int
  jp_total_units :: "int option"

record job_error =
  je_code :: js_string
  je_message :: js_string
  je_retryable :: bool

record job_result_ref =
  jr_namespace_id :: js_string
  jr_name :: js_string
  jr_status :: result_ref_status
  jr_version :: "js_string option"

definition validateJobId :: "js_string \<Rightarrow> unit catalog" where
  "validateJobId i = ensure (JOB_ID i) InputError"

definition validateBoundedJson :: "json \<Rightarrow> unit catalog" where
  "validateBoundedJson value = ensure (byte_length (json_stringify value) \<le> MAX_JOB_JSON_BYTES) InputError"

definition validateCreateTransformJob :: "create_transform_job \<Rightarrow> unit catalog" where
  "validateCreateTransformJob input =
     bindR (validateJobId (ct_id input)) (\<lambda>_.
     bindR (ensure (EXACT_VERSION (ct_cache_key input) \<and> ct_id input = js ''job_'' @ ct_cache_key input) InputError) (\<lambda>_.
     bindR (ensure (EXACT_VERSION (ct_input_version input)) InputError) (\<lambda>_.
     bindR (traverseR (\<lambda>value. ensure (SAFE_WORKER_NAME value) InputError) [ct_op input, ct_capability_name input]) (\<lambda>_.
     bindR (traverseR (\<lambda>value. ensure (SAFE_WORKER_VERSION value) InputError)
       [ct_op_version input, ct_capability_version input]) (\<lambda>_.
     bindR (ensure (0 \<le> ct_input_count input \<and> ct_input_count input \<le> POSTGRES_BIGINT_MAX) InputError) (\<lambda>_.
     bindR (ensure ((ct_result_ref_namespace_id input = None) = (ct_result_ref_name input = None)) InputError) (\<lambda>_.
     bindR (ensure (case ct_result_ref_name input of None \<Rightarrow> True | Some name \<Rightarrow> ref_name_ok name) InputError) (\<lambda>_.
     validateBoundedJson (ct_params input)))))))))"

definition validateLeaseOwner :: "js_string \<Rightarrow> unit catalog" where
  "validateLeaseOwner value = ensure (SAFE_WORKER_NAME value) InputError"

definition validateLeaseDuration :: "int \<Rightarrow> unit catalog" where
  "validateLeaseDuration value =
     ensure (is_safe_integer value \<and> 0 < value \<and> value \<le> MAX_JOB_LEASE_MS) InputError"

definition validateTransformJobLease :: "job_lease \<Rightarrow> unit catalog" where
  "validateTransformJobLease input =
     bindR (validateJobId (jl_id input)) (\<lambda>_.
     bindR (ensure (is_safe_integer (jl_attempt input) \<and> 1 \<le> jl_attempt input) InputError) (\<lambda>_.
     ensure (length (jl_lease_token input) = 32) InputError))"

definition validateStagingKeys :: "js_string \<Rightarrow> int \<Rightarrow> js_string \<Rightarrow> js_string \<Rightarrow> unit catalog" where
  "validateStagingKeys i attempt inputKey outputKey =
     ensure (inputKey = staging_prefix i attempt @ js ''/input.jsonl''
           \<and> outputKey = staging_prefix i attempt @ js ''/output.jsonl'') InputError"

definition validateProgress :: "job_progress \<Rightarrow> unit catalog" where
  "validateProgress progress =
     bindR (ensure (SAFE_WORKER_NAME (jp_phase progress)) InputError) (\<lambda>_.
     ensure (0 \<le> jp_completed_units progress \<and> jp_completed_units progress \<le> POSTGRES_BIGINT_MAX
       \<and> (case jp_total_units progress of None \<Rightarrow> True
          | Some units \<Rightarrow> jp_completed_units progress \<le> units \<and> units \<le> POSTGRES_BIGINT_MAX)) InputError)"

definition error_json :: "job_error \<Rightarrow> json" where
  "error_json e = JObject [(js ''code'', JString (je_code e)), (js ''message'', JString (je_message e)),
     (js ''retryable'', JBool (je_retryable e))]"

definition validateError :: "job_error \<Rightarrow> unit catalog" where
  "validateError e =
     bindR (ensure (SAFE_WORKER_NAME (je_code e) \<and> 1 \<le> length (je_message e) \<and> length (je_message e) \<le> 2048)
       InputError) (\<lambda>_. validateBoundedJson (error_json e))"


section \<open>Stored values\<close>

definition progress_json :: "job_progress \<Rightarrow> json" where
  "progress_json p = JObject [(js ''phase'', JString (jp_phase p)),
     (js ''completed_units'', JString (nat_to_string (nat (jp_completed_units p)))),
     (js ''total_units'', case jp_total_units p of None \<Rightarrow> JNull | Some n \<Rightarrow> JString (nat_to_string (nat n)))]"

text \<open>\<open>/^(?:0|[1-9][0-9]*)$/\<close>.\<close>

definition is_decimal :: "js_string \<Rightarrow> bool" where
  "is_decimal s \<longleftrightarrow> s = js ''0'' \<or> (s \<noteq> [] \<and> hd s \<noteq> of_char CHR ''0'' \<and> list_all is_digit s)"

fun parseStoredDecimal :: "json option \<Rightarrow> int catalog" where
  "parseStoredDecimal (Some (JString s)) = bindR (ensure (is_decimal s) ConsistencyError) (\<lambda>_. Inr (int (units_val s)))"
| "parseStoredDecimal _ = Inl ConsistencyError"

text \<open>\<open>try \{ validate(x) \} catch \{ throw new V2CatalogConsistencyError \}\<close>.\<close>

definition revalidate :: "unit catalog \<Rightarrow> unit catalog" where
  "revalidate m = (case m of Inl e \<Rightarrow> Inl ConsistencyError | Inr u \<Rightarrow> Inr u)"

fun parseStoredTransformJobProgress :: "json option \<Rightarrow> job_progress option catalog" where
  "parseStoredTransformJobProgress None = Inr None"
| "parseStoredTransformJobProgress (Some (JObject kvs)) =
     bindR (parseStoredDecimal (map_of kvs (js ''completed_units''))) (\<lambda>completedUnits.
     bindR (if map_of kvs (js ''total_units'') = Some JNull then Inr None
            else bindR (parseStoredDecimal (map_of kvs (js ''total_units''))) (\<lambda>n. Inr (Some n))) (\<lambda>totalUnits.
     case map_of kvs (js ''phase'') of
       Some (JString phase) \<Rightarrow>
         let p = \<lparr>jp_phase = phase, jp_completed_units = completedUnits, jp_total_units = totalUnits\<rparr>
         in bindR (revalidate (validateProgress p)) (\<lambda>_. Inr (Some p))
     | _ \<Rightarrow> Inl ConsistencyError))"
| "parseStoredTransformJobProgress (Some _) = Inl ConsistencyError"

fun parseStoredTransformJobError :: "json option \<Rightarrow> job_error option catalog" where
  "parseStoredTransformJobError None = Inr None"
| "parseStoredTransformJobError (Some (JObject kvs)) =
     (case (map_of kvs (js ''code''), map_of kvs (js ''message''), map_of kvs (js ''retryable'')) of
        (Some (JString code), Some (JString message), Some (JBool retryable)) \<Rightarrow>
          let e = \<lparr>je_code = code, je_message = message, je_retryable = retryable\<rparr>
          in bindR (revalidate (validateError e)) (\<lambda>_. Inr (Some e))
      | _ \<Rightarrow> Inl ConsistencyError)"
| "parseStoredTransformJobError (Some _) = Inl ConsistencyError"

text \<open>The status columns hold one of the constants of their check.\<close>

definition parseStoredTransformJobResultRef :: "js_string option \<Rightarrow> js_string option
    \<Rightarrow> result_ref_status option \<Rightarrow> js_string option \<Rightarrow> job_result_ref option catalog" where
  "parseStoredTransformJobResultRef namespaceId name status version =
     (if namespaceId = None \<and> name = None \<and> status = None \<and> version = None then Inr None
      else case (namespaceId, name, status) of
        (Some ns, Some n, Some s) \<Rightarrow>
          bindR (ensure (ref_name_ok n) ConsistencyError) (\<lambda>_.
          bindR (ensure ((s = PendingRef) = (version = None)) ConsistencyError) (\<lambda>_.
          bindR (ensure (case version of None \<Rightarrow> True | Some v \<Rightarrow> EXACT_VERSION v) ConsistencyError) (\<lambda>_.
          Inr (Some \<lparr>jr_namespace_id = ns, jr_name = n, jr_status = s, jr_version = version\<rparr>))))
      | _ \<Rightarrow> Inl ConsistencyError)"

definition assertStoredLeaseShape :: "js_string option \<Rightarrow> bytes option \<Rightarrow> int option \<Rightarrow> unit catalog" where
  "assertStoredLeaseShape owner token expiresAt =
     (let nullCount = (if owner = None then 1 else 0) + (if token = None then 1 else 0)
            + (if expiresAt = None then 1 else (0::nat))
      in bindR (ensure (nullCount = 0 \<or> nullCount = 3) ConsistencyError) (\<lambda>_.
         ensure (case token of None \<Rightarrow> True | Some t \<Rightarrow> length t = 32) ConsistencyError))"

definition parseStoredJsonObject :: "json \<Rightarrow> json catalog" where
  "parseStoredJsonObject value = bindR (ensure (is_json_object value) ConsistencyError) (\<lambda>_. Inr value)"

text \<open>What the catalog returns: the row, whose other columns are copied, and the parsed values.\<close>

record job_view =
  jv_row :: transform_job
  jv_params :: json
  jv_progress :: "job_progress option"
  jv_result_ref :: "job_result_ref option"
  jv_error :: "job_error option"

definition prismaRowToTransformJob :: "transform_job \<Rightarrow> job_view catalog" where
  "prismaRowToTransformJob row =
     bindR (parseStoredTransformJobResultRef (tj_result_ref_namespace_id row) (tj_result_ref_name row)
       (tj_result_ref_status row) (tj_result_ref_version row)) (\<lambda>resultRef.
     bindR (assertStoredLeaseShape (tj_lease_owner row) (tj_lease_token row) (tj_lease_expires_at row)) (\<lambda>_.
     bindR (ensure ((tj_status row = Completed) = (tj_output_version row \<noteq> None)) ConsistencyError) (\<lambda>_.
     bindR (case resultRef of None \<Rightarrow> Inr ()
       | Some ref \<Rightarrow>
           bindR (ensure ((tj_status row = Completed) = (jr_status ref \<noteq> PendingRef)) ConsistencyError) (\<lambda>_.
           ensure (jr_status ref = UpdatedRef \<longrightarrow> jr_version ref = tj_output_version row) ConsistencyError)) (\<lambda>_.
     bindR (parseStoredJsonObject (tj_params row)) (\<lambda>params.
     bindR (parseStoredTransformJobProgress (tj_progress row)) (\<lambda>progress.
     bindR (parseStoredTransformJobError (tj_error row)) (\<lambda>error.
     Inr \<lparr>jv_row = row, jv_params = params, jv_progress = progress, jv_result_ref = resultRef,
          jv_error = error\<rparr>)))))))"

text \<open>A single returned row or none, as \<open>rows[0] ? sqlRowToTransformJob(rows[0]) : null\<close>.\<close>

definition first_view :: "catalog_db \<times> transform_job list \<Rightarrow> (catalog_db \<times> job_view option) catalog" where
  "first_view result = (case snd result of [] \<Rightarrow> Inr (fst result, None)
     | row # _ \<Rightarrow> bindR (prismaRowToTransformJob row) (\<lambda>v. Inr (fst result, Some v)))"

definition returned_one :: "catalog_db \<times> transform_job list \<Rightarrow> (catalog_db \<times> bool) catalog" where
  "returned_one result = Inr (fst result, length (snd result) = 1)"

section \<open>Creation\<close>

definition assertTransformJobIdentity :: "transform_job \<Rightarrow> create_transform_job \<Rightarrow> unit catalog" where
  "assertTransformJobIdentity row input =
     ensure (tj_id row = ct_id input \<and> tj_cache_key row = ct_cache_key input \<and> tj_op row = ct_op input
       \<and> tj_op_version row = ct_op_version input \<and> sameJsonValue (tj_params row) (ct_params input)
       \<and> tj_input_version row = ct_input_version input
       \<and> tj_capability_name row = ct_capability_name input
       \<and> tj_capability_version row = ct_capability_version input
       \<and> tj_input_count row = ct_input_count input
       \<and> \<not> (ct_result_ref_name input \<noteq> None \<and> tj_result_ref_namespace_id row \<noteq> None
            \<and> (tj_result_ref_namespace_id row \<noteq> ct_result_ref_namespace_id input
               \<or> tj_result_ref_name row \<noteq> ct_result_ref_name input)))
       (DeterminismConflictError (ct_cache_key input))"

definition run_mismatch :: "catalog_db \<Rightarrow> create_transform_job \<Rightarrow> run_row \<Rightarrow> bool" where
  "run_mismatch db input run \<longleftrightarrow>
     ru_id run \<noteq> js ''run_'' @ ct_cache_key input \<or> ru_op run \<noteq> ct_op input
   \<or> ru_op_version run \<noteq> ct_op_version input \<or> \<not> sameJsonValue (ru_params run) (ct_params input)
   \<or> (case inputs_of db (ct_cache_key input) of
        [item] \<Rightarrow> ri_position item \<noteq> 0 \<or> ri_dataset_version item \<noteq> ct_input_version input
      | _ \<Rightarrow> True)"

text \<open>\<open>namespace !== null && name !== null ? await adopt(...) : null\<close>.\<close>

definition adopt_if_named :: "int \<Rightarrow> js_string option \<Rightarrow> js_string option \<Rightarrow> js_string \<Rightarrow> catalog_db
    \<Rightarrow> (catalog_db \<times> (result_ref_status \<times> js_string) option) catalog" where
  "adopt_if_named now namespaceId name version db =
     (case (namespaceId, name) of
        (Some ns, Some n) \<Rightarrow>
          bindR (adoptTransformJobResultRefInTransaction now ns n version db)
            (\<lambda>(db, status, v). Inr (db, Some (status, v)))
      | _ \<Rightarrow> Inr (db, None))"

definition cached_run :: "create_transform_job \<Rightarrow> catalog_db \<Rightarrow> (run_row \<times> snapshot_row) option catalog" where
  "cached_run input db =
     (case find_run db (ct_cache_key input) of
        None \<Rightarrow> Inr None
      | Some run \<Rightarrow>
          bindR (ensure (\<not> run_mismatch db input run) (DeterminismConflictError (ct_cache_key input))) (\<lambda>_.
          case find_snapshot db (ru_output_version run) of
            None \<Rightarrow> Inl ConsistencyError
          | Some snapshot \<Rightarrow> Inr (Some (run, snapshot))))"

definition new_job :: "int \<Rightarrow> create_transform_job \<Rightarrow> (run_row \<times> snapshot_row) option
    \<Rightarrow> (result_ref_status \<times> js_string) option \<Rightarrow> transform_job" where
  "new_job now input run adopted =
     \<lparr>tj_id = ct_id input, tj_cache_key = ct_cache_key input, tj_op = ct_op input,
      tj_op_version = ct_op_version input, tj_params = ct_params input,
      tj_input_version = ct_input_version input, tj_capability_name = ct_capability_name input,
      tj_capability_version = ct_capability_version input,
      tj_status = (if run = None then Queued else Completed), tj_attempt = 0,
      tj_lease_owner = None, tj_lease_token = None, tj_lease_expires_at = None, tj_progress = None,
      tj_input_key = None, tj_output_key = None, tj_input_count = ct_input_count input,
      tj_output_count = map_option (sn_num_records \<circ> snd) run,
      tj_output_version = map_option (ru_output_version \<circ> fst) run,
      tj_result_ref_namespace_id = ct_result_ref_namespace_id input,
      tj_result_ref_name = ct_result_ref_name input,
      tj_result_ref_status = (if ct_result_ref_name input = None then None
        else Some (case adopted of None \<Rightarrow> PendingRef | Some (status, v) \<Rightarrow> status)),
      tj_result_ref_version = map_option snd adopted, tj_cache_hit = (run \<noteq> None), tj_error = None,
      tj_created_at = now, tj_started_at = None,
      tj_finished_at = (if run = None then None else Some now), tj_updated_at = now\<rparr>"


definition read_job :: "js_string \<Rightarrow> catalog_db \<Rightarrow> transform_job catalog" where
  "read_job i db = (case find_job db i of None \<Rightarrow> Inl ConsistencyError | Some row \<Rightarrow> Inr row)"

text \<open>Attaching the ref of the request to a job that has none.\<close>

definition attach_result_ref :: "int \<Rightarrow> create_transform_job \<Rightarrow> transform_job \<Rightarrow> catalog_db
    \<Rightarrow> (catalog_db \<times> transform_job) catalog" where
  "attach_result_ref now input row db =
     (if tj_result_ref_name row = None \<and> ct_result_ref_namespace_id input \<noteq> None \<and> ct_result_ref_name input \<noteq> None
      then bindR (case (tj_status row, tj_output_version row) of
               (Completed, Some version) \<Rightarrow>
                 bindR (adopt_if_named now (ct_result_ref_namespace_id input) (ct_result_ref_name input) version db)
                   (\<lambda>(db, adopted). Inr (db, case adopted of None \<Rightarrow> (PendingRef, None) | Some (st, v) \<Rightarrow> (st, Some v)))
             | _ \<Rightarrow> Inr (db, PendingRef, None)) (\<lambda>(db, status, version).
           bindR (update_jobs (\<lambda>r. tj_id r = ct_id input \<and> tj_result_ref_name r = None)
             (\<lambda>r. r\<lparr>tj_result_ref_namespace_id := ct_result_ref_namespace_id input,
                tj_result_ref_name := ct_result_ref_name input,
                tj_result_ref_status := Some status, tj_result_ref_version := version, tj_updated_at := now\<rparr>) db) (\<lambda>(db, attached).
           bindR (ensure (length attached = 1) ConsistencyError) (\<lambda>_.
           bindR (read_job (ct_id input) db) (\<lambda>row. Inr (db, row)))))
      else Inr (db, row))"

definition complete_from_cache :: "int \<Rightarrow> create_transform_job \<Rightarrow> (run_row \<times> snapshot_row) option
    \<Rightarrow> transform_job \<Rightarrow> catalog_db \<Rightarrow> (catalog_db \<times> transform_job) catalog" where
  "complete_from_cache now input run row db =
     (if tj_status row = Completed
      then bindR (ensure (case run of None \<Rightarrow> False
             | Some (run, snapshot) \<Rightarrow> tj_output_version row = Some (ru_output_version run)
                 \<and> tj_output_count row = Some (sn_num_records snapshot)) ConsistencyError) (\<lambda>_. Inr (db, row))
      else case run of
        Some (run, snapshot) \<Rightarrow>
          if tj_status row = Queued \<and> tj_attempt row = 0
          then bindR (adopt_if_named now (tj_result_ref_namespace_id row) (tj_result_ref_name row) (ru_output_version run) db)
            (\<lambda>(db, adopted).
            bindR (update_jobs
              (\<lambda>r. tj_id r = ct_id input \<and> tj_status r = Queued \<and> tj_attempt r = 0 \<and> tj_lease_token r = None)
              (\<lambda>r. r\<lparr>tj_status := Completed, tj_output_version := Some (ru_output_version run),
                 tj_output_count := Some (sn_num_records snapshot),
                 tj_result_ref_status := map_option fst adopted, tj_result_ref_version := map_option snd adopted,
                 tj_cache_hit := True, tj_finished_at := Some now, tj_updated_at := now\<rparr>) db) (\<lambda>(db, _).
            bindR (read_job (ct_id input) db) (\<lambda>row. Inr (db, row))))
          else Inr (db, row)
      | None \<Rightarrow> Inr (db, row))"

definition createOrReadTransformJob :: "int \<Rightarrow> create_transform_job \<Rightarrow> catalog_db
    \<Rightarrow> (catalog_db \<times> job_view) catalog" where
  "createOrReadTransformJob now input db =
     bindR (validateCreateTransformJob input) (\<lambda>_.
     bindR (case find_snapshot db (ct_input_version input) of None \<Rightarrow> Inl InputError
       | Some s \<Rightarrow> ensure (sn_num_records s = ct_input_count input) InputError) (\<lambda>_.
     bindR (cached_run input db) (\<lambda>run.
     bindR (case run of
         None \<Rightarrow> Inr (db, None)
       | Some (r, _) \<Rightarrow> adopt_if_named now (ct_result_ref_namespace_id input) (ct_result_ref_name input)
           (ru_output_version r) db) (\<lambda>(db, initial).
     bindR (insert_job (new_job now input run initial) db) (\<lambda>db.
     bindR (read_job (ct_id input) db) (\<lambda>row.
     bindR (assertTransformJobIdentity row input) (\<lambda>_.
     bindR (attach_result_ref now input row db) (\<lambda>(db, row).
     bindR (complete_from_cache now input run row db) (\<lambda>(db, row).
     bindR (prismaRowToTransformJob row) (\<lambda>v. Inr (db, v)))))))))))"

section \<open>Reading\<close>

definition getTransformJob :: "js_string \<Rightarrow> catalog_db \<Rightarrow> job_view option catalog" where
  "getTransformJob i db = bindR (validateJobId i) (\<lambda>_.
     case find_job db i of None \<Rightarrow> Inr None | Some row \<Rightarrow> bindR (prismaRowToTransformJob row) (\<lambda>v. Inr (Some v)))"

text \<open>The list is newest first by the creation time in milliseconds and the identifier.\<close>

type_synonym job_cursor = "int \<times> js_string"

definition job_cursor :: "transform_job \<Rightarrow> job_cursor" where
  "job_cursor r = (tj_created_at r div 1000, tj_id r)"

definition validateTransformJobCursor :: "job_cursor \<Rightarrow> unit catalog" where
  "validateTransformJobCursor cursor = validateJobId (snd cursor)"

definition listTransformJobs :: "catalog_db \<Rightarrow> int \<Rightarrow> job_cursor option
    \<Rightarrow> (job_view list \<times> job_cursor option) catalog" where
  "listTransformJobs db limit before =
     bindR (checkedPageFetchLimit limit) (\<lambda>fetchLimit.
     bindR (case before of None \<Rightarrow> Inr () | Some c \<Rightarrow> validateTransformJobCursor c) (\<lambda>_.
     let rows = take fetchLimit (order_by_desc job_cursor (select_where (\<lambda>r.
           case before of None \<Rightarrow> True
           | Some (createdAt, i) \<Rightarrow> tj_created_at r div 1000 < createdAt
               \<or> tj_created_at r div 1000 = createdAt \<and> tj_id r < i) (jobs db)));
         hasMore = limit < int (length rows)
     in bindR (traverseR prismaRowToTransformJob (take (nat limit) rows)) (\<lambda>pageRows.
        Inr (pageRows, if hasMore \<and> pageRows \<noteq> [] then Some (job_cursor (jv_row (last pageRows))) else None))))"

definition findTransformJobCleanupFence :: "catalog_db \<Rightarrow> job_view option catalog" where
  "findTransformJobCleanupFence db =
     (case take 1 (order_by (\<lambda>r. (tj_updated_at r, tj_id r))
             (select_where (\<lambda>r. tj_lease_token r \<noteq> None \<and> is_stopped (tj_status r)) (jobs db))) of
        [] \<Rightarrow> Inr None
      | row # _ \<Rightarrow> bindR (prismaRowToTransformJob row) (\<lambda>v. Inr (Some v)))"

section \<open>Leases\<close>

text \<open>
  \<open>token\<close> are the random bytes, \<open>locked\<close> the rows that concurrent transactions hold, which
  \<open>SKIP LOCKED\<close> passes over. The advisory lock makes claims run one after another.
\<close>

definition claim_candidate :: "js_string list \<Rightarrow> catalog_db \<Rightarrow> transform_job option" where
  "claim_candidate locked db =
     (case order_by (\<lambda>r. (tj_created_at r, tj_id r))
             (select_where (\<lambda>r. tj_status r = Queued \<and> tj_id r \<notin> set locked) (jobs db)) of
        [] \<Rightarrow> None | r # _ \<Rightarrow> Some r)"

definition claimNextTransformJob :: "int \<Rightarrow> bytes \<Rightarrow> js_string list \<Rightarrow> js_string \<Rightarrow> int \<Rightarrow> catalog_db
    \<Rightarrow> (catalog_db \<times> job_view option) catalog" where
  "claimNextTransformJob now token locked leaseOwner leaseDurationMs db =
     bindR (validateLeaseOwner leaseOwner) (\<lambda>_.
     bindR (validateLeaseDuration leaseDurationMs) (\<lambda>_.
     if list_ex (\<lambda>r. tj_lease_token r \<noteq> None) (jobs db) then Inr (db, None)
     else case claim_candidate locked db of
       None \<Rightarrow> Inr (db, None)
     | Some candidate \<Rightarrow>
         bindR (update_jobs (\<lambda>r. tj_id r = tj_id candidate)
           (\<lambda>r. r\<lparr>tj_status := Leased, tj_attempt := tj_attempt r + 1, tj_lease_owner := Some leaseOwner,
              tj_lease_token := Some token, tj_lease_expires_at := Some (now + leaseDurationMs * 1000),
              tj_updated_at := now\<rparr>) db) (\<lambda>result.
         bindR (ensure (length (snd result) \<le> 1) ConsistencyError) (\<lambda>_. first_view result))))"

text \<open>The guard that every operation of a lease holder carries.\<close>

definition holds_lease :: "job_lease \<Rightarrow> transform_job \<Rightarrow> bool" where
  "holds_lease input r \<longleftrightarrow> tj_id r = jl_id input \<and> tj_attempt r = jl_attempt input
     \<and> tj_lease_token r = Some (jl_lease_token input)"

definition unexpired :: "int \<Rightarrow> transform_job \<Rightarrow> bool" where
  "unexpired now r \<longleftrightarrow> (case tj_lease_expires_at r of None \<Rightarrow> False | Some t \<Rightarrow> now < t)"

definition renewTransformJobLease :: "int \<Rightarrow> job_lease \<Rightarrow> int \<Rightarrow> catalog_db \<Rightarrow> (catalog_db \<times> bool) catalog" where
  "renewTransformJobLease now input leaseDurationMs db =
     bindR (validateTransformJobLease input) (\<lambda>_.
     bindR (validateLeaseDuration leaseDurationMs) (\<lambda>_.
     bindR (update_jobs (\<lambda>r. holds_lease input r \<and> unexpired now r \<and> is_active (tj_status r))
       (\<lambda>r. r\<lparr>tj_lease_expires_at := Some (now + leaseDurationMs * 1000), tj_updated_at := now\<rparr>) db)
     returned_one))"

definition transitionTransformJob :: "int \<Rightarrow> job_lease \<Rightarrow> job_status list \<Rightarrow> (transform_job \<Rightarrow> transform_job)
    \<Rightarrow> catalog_db \<Rightarrow> (catalog_db \<times> job_view option) catalog" where
  "transitionTransformJob now input fromStatuses assignments db =
     bindR (validateTransformJobLease input) (\<lambda>_.
     bindR (update_jobs (\<lambda>r. holds_lease input r \<and> unexpired now r \<and> tj_status r \<in> set fromStatuses)
       (\<lambda>r. (assignments r)\<lparr>tj_updated_at := now\<rparr>) db) first_view)"

definition markTransformJobRunning :: "int \<Rightarrow> job_lease \<Rightarrow> catalog_db \<Rightarrow> (catalog_db \<times> job_view option) catalog" where
  "markTransformJobRunning now input = transitionTransformJob now input [Leased]
     (\<lambda>r. r\<lparr>tj_status := Running, tj_started_at := (case tj_started_at r of None \<Rightarrow> Some now | Some t \<Rightarrow> Some t)\<rparr>)"

definition markTransformJobFinalizing :: "int \<Rightarrow> job_lease \<Rightarrow> catalog_db \<Rightarrow> (catalog_db \<times> job_view option) catalog" where
  "markTransformJobFinalizing now input = transitionTransformJob now input [Running] (\<lambda>r. r\<lparr>tj_status := Finalizing\<rparr>)"

definition markTransformJobFailed :: "int \<Rightarrow> job_lease \<Rightarrow> job_error \<Rightarrow> catalog_db
    \<Rightarrow> (catalog_db \<times> job_view option) catalog" where
  "markTransformJobFailed now input e db =
     bindR (validateError e) (\<lambda>_.
     transitionTransformJob now input [Leased, Running, Finalizing]
       (\<lambda>r. r\<lparr>tj_status := Failed, tj_error := Some (error_json e), tj_finished_at := Some now\<rparr>) db)"

definition markTransformJobCancelled :: "int \<Rightarrow> job_lease \<Rightarrow> catalog_db \<Rightarrow> (catalog_db \<times> job_view option) catalog" where
  "markTransformJobCancelled now input = transitionTransformJob now input [Leased, Running, Finalizing]
     (\<lambda>r. r\<lparr>tj_status := Cancelled, tj_finished_at := Some now\<rparr>)"

definition updateTransformJobProgress :: "int \<Rightarrow> job_lease \<Rightarrow> job_progress \<Rightarrow> catalog_db \<Rightarrow> (catalog_db \<times> bool) catalog" where
  "updateTransformJobProgress now input progress db =
     bindR (validateTransformJobLease input) (\<lambda>_.
     bindR (validateProgress progress) (\<lambda>_.
     bindR (update_jobs (\<lambda>r. holds_lease input r \<and> unexpired now r \<and> tj_status r = Running)
       (\<lambda>r. r\<lparr>tj_progress := Some (progress_json progress), tj_updated_at := now\<rparr>) db)
     returned_one))"


definition setTransformJobStagingKeys :: "int \<Rightarrow> job_lease \<Rightarrow> js_string \<Rightarrow> js_string \<Rightarrow> catalog_db
    \<Rightarrow> (catalog_db \<times> bool) catalog" where
  "setTransformJobStagingKeys now input inputKey outputKey db =
     bindR (validateTransformJobLease input) (\<lambda>_.
     bindR (validateStagingKeys (jl_id input) (jl_attempt input) inputKey outputKey) (\<lambda>_.
     bindR (update_jobs (\<lambda>r. holds_lease input r \<and> unexpired now r \<and> tj_status r = Leased
         \<and> (tj_input_key r = None \<and> tj_output_key r = None
            \<or> tj_input_key r = Some inputKey \<and> tj_output_key r = Some outputKey))
       (\<lambda>r. r\<lparr>tj_input_key := Some inputKey, tj_output_key := Some outputKey, tj_updated_at := now\<rparr>) db)
     returned_one))"

section \<open>Stopping, cleaning up and retrying\<close>

definition requestTransformJobCancellation :: "int \<Rightarrow> js_string \<Rightarrow> catalog_db
    \<Rightarrow> (catalog_db \<times> job_view option) catalog" where
  "requestTransformJobCancellation now i db =
     bindR (validateJobId i) (\<lambda>_.
     bindR (update_jobs (\<lambda>r. tj_id r = i \<and> tj_status r \<in> {Queued, Leased, Running, Finalizing})
       (\<lambda>r. r\<lparr>tj_status := Cancelled, tj_finished_at := Some now, tj_updated_at := now\<rparr>) db) (\<lambda>result.
     if snd result \<noteq> [] then first_view result
     else bindR (getTransformJob i (fst result)) (\<lambda>v. Inr (fst result, v))))"

definition clearTransformJobStagingKeys :: "int \<Rightarrow> job_lease \<Rightarrow> catalog_db \<Rightarrow> (catalog_db \<times> bool) catalog" where
  "clearTransformJobStagingKeys now input db =
     bindR (validateTransformJobLease input) (\<lambda>_.
     bindR (update_jobs (\<lambda>r. holds_lease input r \<and> is_stopped (tj_status r))
       (\<lambda>r. r\<lparr>tj_input_key := None, tj_output_key := None, tj_updated_at := now\<rparr>) db)
     returned_one)"

definition clearTransformJobLeaseFence :: "int \<Rightarrow> job_lease \<Rightarrow> catalog_db \<Rightarrow> (catalog_db \<times> bool) catalog" where
  "clearTransformJobLeaseFence now input db =
     bindR (validateTransformJobLease input) (\<lambda>_.
     bindR (update_jobs (\<lambda>r. holds_lease input r \<and> tj_input_key r = None \<and> tj_output_key r = None
         \<and> is_stopped (tj_status r))
       (\<lambda>r. r\<lparr>tj_lease_owner := None, tj_lease_token := None, tj_lease_expires_at := None, tj_updated_at := now\<rparr>) db)
     returned_one)"

definition validateCompletedStagingCleanup :: "js_string \<Rightarrow> int \<Rightarrow> js_string \<Rightarrow> js_string \<Rightarrow> js_string \<Rightarrow> unit catalog" where
  "validateCompletedStagingCleanup i attempt outputVersion inputKey outputKey =
     bindR (validateJobId i) (\<lambda>_.
     bindR (ensure (is_safe_integer attempt \<and> 1 \<le> attempt) InputError) (\<lambda>_.
     bindR (ensure (EXACT_VERSION outputVersion) InputError) (\<lambda>_.
     validateStagingKeys i attempt inputKey outputKey)))"

definition clearCompletedTransformJobStagingKeys :: "int \<Rightarrow> js_string \<Rightarrow> int \<Rightarrow> js_string \<Rightarrow> js_string \<Rightarrow> js_string
    \<Rightarrow> catalog_db \<Rightarrow> (catalog_db \<times> bool) catalog" where
  "clearCompletedTransformJobStagingKeys now i attempt outputVersion inputKey outputKey db =
     bindR (validateCompletedStagingCleanup i attempt outputVersion inputKey outputKey) (\<lambda>_.
     bindR (update_jobs (\<lambda>r. tj_id r = i \<and> tj_attempt r = attempt \<and> tj_status r = Completed
         \<and> tj_output_version r = Some outputVersion
         \<and> (tj_input_key r = Some inputKey \<and> tj_output_key r = Some outputKey
            \<or> tj_input_key r = None \<and> tj_output_key r = None))
       (\<lambda>r. r\<lparr>tj_input_key := None, tj_output_key := None, tj_updated_at := now\<rparr>) db)
     returned_one)"

definition lease_expired_error :: job_error where
  "lease_expired_error = \<lparr>je_code = js ''lease_expired'', je_message = js ''Worker job lease expired'',
     je_retryable = False\<rparr>"

definition failExpiredTransformJobLeases :: "int \<Rightarrow> catalog_db \<Rightarrow> (catalog_db \<times> nat) catalog" where
  "failExpiredTransformJobLeases now db =
     bindR (update_jobs (\<lambda>r. tj_lease_token r \<noteq> None
         \<and> (case tj_lease_expires_at r of None \<Rightarrow> False | Some t \<Rightarrow> t \<le> now) \<and> is_active (tj_status r))
       (\<lambda>r. r\<lparr>tj_status := Failed, tj_error := Some (error_json lease_expired_error),
          tj_finished_at := Some now, tj_updated_at := now\<rparr>) db) (\<lambda>(db, rows). Inr (db, length rows))"

definition retryTransformJob :: "int \<Rightarrow> js_string \<Rightarrow> catalog_db \<Rightarrow> (catalog_db \<times> job_view option) catalog" where
  "retryTransformJob now i db =
     bindR (validateJobId i) (\<lambda>_.
     bindR (update_jobs (\<lambda>r. tj_id r = i \<and> is_stopped (tj_status r) \<and> tj_lease_token r = None
         \<and> tj_input_key r = None \<and> tj_output_key r = None)
       (\<lambda>r. r\<lparr>tj_status := Queued, tj_progress := None, tj_error := None, tj_output_count := None,
          tj_started_at := None, tj_finished_at := None, tj_updated_at := now\<rparr>) db) first_view)"

section \<open>Completion\<close>

record complete_transform_job =
  cp_layout :: register_layout
  cp_run :: run_input
  cp_job :: job_lease
  cp_output_count :: int

definition validateCompleteTransformJob :: "complete_transform_job \<Rightarrow> unit catalog" where
  "validateCompleteTransformJob input =
     bindR (validateTransformJobLease (cp_job input)) (\<lambda>_.
     bindR (ensure (0 \<le> cp_output_count input \<and> cp_output_count input \<le> POSTGRES_BIGINT_MAX
       \<and> cp_output_count input = sn_num_records (rl_snapshot (cp_layout input))) InputError) (\<lambda>_.
     ensure (jl_id (cp_job input) = js ''job_'' @ ri_key (cp_run input)
       \<and> length (ri_input_versions (cp_run input)) = 1) InputError))"

definition assertTransformJobCompletionIdentity :: "transform_job \<Rightarrow> complete_transform_job \<Rightarrow> unit catalog" where
  "assertTransformJobCompletionIdentity row input =
     ensure (tj_id row = jl_id (cp_job input) \<and> tj_cache_key row = ri_key (cp_run input)
       \<and> tj_op row = ri_op (cp_run input) \<and> tj_op_version row = ri_op_version (cp_run input)
       \<and> sameJsonValue (tj_params row) (ri_params (cp_run input))
       \<and> [tj_input_version row] = take 1 (ri_input_versions (cp_run input))
       \<and> cp_output_count input \<le> tj_input_count row)
       (DeterminismConflictError (ri_key (cp_run input)))"

definition key_or_empty :: "js_string option \<Rightarrow> js_string" where
  "key_or_empty k = (case k of None \<Rightarrow> [] | Some s \<Rightarrow> s)"

text \<open>
  The body after the row is locked. The clock is read when the job is locked and again, later, when
  it is updated.
\<close>

definition completeLockedJob :: "int \<Rightarrow> int \<Rightarrow> complete_transform_job \<Rightarrow> transform_job \<Rightarrow> catalog_db
    \<Rightarrow> (catalog_db \<times> job_view) catalog" where
  "completeLockedJob now later input row db =
     (let lease = cp_job input; output = ri_output_version (cp_run input);
          leaseError = TransformJobLeaseError (jl_id lease) in
      bindR (assertTransformJobCompletionIdentity row input) (\<lambda>_.
      if tj_status row = Completed
      then bindR (ensure (tj_attempt row = jl_attempt lease \<and> tj_output_version row = Some output
               \<and> tj_output_count row = Some (cp_output_count input)) leaseError) (\<lambda>_.
           bindR (assertRunInTransaction (cp_run input) db) (\<lambda>_.
           bindR (prismaRowToTransformJob row) (\<lambda>v. Inr (db, v))))
      else bindR (ensure (tj_status row = Finalizing \<and> tj_attempt row = jl_attempt lease
               \<and> tj_lease_token row = Some (jl_lease_token lease) \<and> unexpired now row) leaseError) (\<lambda>_.
           bindR (validateStagingKeys (jl_id lease) (jl_attempt lease)
               (key_or_empty (tj_input_key row)) (key_or_empty (tj_output_key row))) (\<lambda>_.
           bindR (case find_snapshot db (tj_input_version row) of
               None \<Rightarrow> Inl ConsistencyError
             | Some s \<Rightarrow> ensure (sn_num_records s = tj_input_count row) ConsistencyError) (\<lambda>_.
           bindR (registerLayoutInTransaction (cp_layout input) db) (\<lambda>db.
           bindR (registerRunInTransaction (cp_run input) db) (\<lambda>(db, created).
           bindR (adopt_if_named later (tj_result_ref_namespace_id row) (tj_result_ref_name row) output db) (\<lambda>(db, adopted).
           bindR (update_jobs (\<lambda>r. holds_lease lease r \<and> unexpired later r \<and> tj_status r = Finalizing)
               (\<lambda>r. r\<lparr>tj_status := Completed, tj_output_count := Some (cp_output_count input),
                  tj_output_version := Some output,
                  tj_result_ref_status := map_option fst adopted, tj_result_ref_version := map_option snd adopted,
                  tj_cache_hit := \<not> created, tj_error := None, tj_finished_at := Some later,
                  tj_lease_owner := None, tj_lease_token := None, tj_lease_expires_at := None,
                  tj_updated_at := later\<rparr>) db) (\<lambda>(db, completed).
           case completed of
             [completedRow] \<Rightarrow> bindR (prismaRowToTransformJob completedRow) (\<lambda>v. Inr (db, v))
           | _ \<Rightarrow> Inl leaseError)))))))))"

definition completeTransformJob :: "int \<Rightarrow> int \<Rightarrow> complete_transform_job \<Rightarrow> catalog_db
    \<Rightarrow> (catalog_db \<times> job_view) catalog" where
  "completeTransformJob now later input db =
     bindR (validateRegistrationInput (cp_layout input)) (\<lambda>_.
     bindR (validateRunInput (cp_layout input) (cp_run input)) (\<lambda>_.
     bindR (validateCompleteTransformJob input) (\<lambda>_.
     case select_where (\<lambda>r. tj_id r = jl_id (cp_job input)) (jobs db) of
       [row] \<Rightarrow> completeLockedJob now later input row db
     | _ \<Rightarrow> Inl (TransformJobLeaseError (jl_id (cp_job input))))))"

end
