(* ===== verification/Lineage_Laws.thy ===== *)
theory Lineage_Laws
  imports Catalog_Lineage
begin

text \<open>
  What registration promises: the tables keep their constraints, the parent relation stays acyclic,
  nothing registered ever changes, and what was registered reads back.
\<close>

section \<open>Acyclic extensions\<close>

lemma trancl_Un_cases:
  "(x, y) \<in> (R \<union> S)\<^sup>+ \<Longrightarrow> (x, y) \<in> R\<^sup>+ \<or> (\<exists>c p. (c, p) \<in> S \<and> (x, c) \<in> (R \<union> S)\<^sup>* \<and> (p, y) \<in> (R \<union> S)\<^sup>*)"
proof (induction rule: trancl_induct)
  case (base y)
  then show ?case by blast
next
  case (step y z)
  show ?case
  proof (cases "(y, z) \<in> S")
    case True
    then show ?thesis using step.hyps(1) by (blast intro: trancl_into_rtrancl)
  next
    case False
    with step show ?thesis
      by (meson UnE r_into_rtrancl rtrancl_trans trancl_into_trancl UnI1)
  qed
qed

lemma acyclic_extend:
  assumes "acyclic R" and "\<And>c p. (c, p) \<in> S \<Longrightarrow> (c, c) \<notin> (R \<union> S)\<^sup>+"
  shows "acyclic (R \<union> S)"
proof (rule acyclicI, intro allI notI)
  fix x assume "(x, x) \<in> (R \<union> S)\<^sup>+"
  with trancl_Un_cases [OF this] assms(1) obtain c p
    where "(c, p) \<in> S" "(x, c) \<in> (R \<union> S)\<^sup>*" "(p, x) \<in> (R \<union> S)\<^sup>*"
    by (auto simp: acyclic_def)
  moreover from this have "(c, c) \<in> (R \<union> S)\<^sup>+"
    by (meson UnI2 r_into_rtrancl rtrancl_into_trancl2 rtrancl_trans)
  ultimately show False using assms(2) by blast
qed

section \<open>The locations a registration creates\<close>

definition register_locations :: "js_string \<Rightarrow> record_revision list \<Rightarrow> location_row list
    \<Rightarrow> location_row list \<times> revision_key list" where
  "register_locations version revisions rows = fold (insert_location version) revisions (rows, [])"

definition created_locations :: "js_string \<Rightarrow> revision_key list \<Rightarrow> location_row list" where
  "created_locations version = map (\<lambda>k. \<lparr>lo_revision = k, lo_dataset_version = version\<rparr>)"

lemma insert_location_eq:
  "insert_location version r (rows, created) =
     (if revision_of r \<in> lo_revision ` set rows then (rows, created)
      else (rows @ created_locations version [revision_of r], created @ [revision_of r]))"
proof -
  have "list_ex (location_conflict \<lparr>lo_revision = revision_of r, lo_dataset_version = version\<rparr>) rows
      \<longleftrightarrow> revision_of r \<in> lo_revision ` set rows"
    by (auto simp: list_ex_iff location_conflict_def image_iff)
  then show ?thesis
    by (simp add: insert_location_def insert_on_conflict_do_nothing_def created_locations_def)
qed

text \<open>The keys that are new, in the order of the request.\<close>

fun fresh_keys :: "revision_key set \<Rightarrow> record_revision list \<Rightarrow> revision_key list" where
  "fresh_keys taken [] = []"
| "fresh_keys taken (r # rs) =
     (if revision_of r \<in> taken then fresh_keys taken rs
      else revision_of r # fresh_keys (insert (revision_of r) taken) rs)"

lemma fold_insert_location:
  "fold (insert_location version) revisions (rows, created) =
     (rows @ created_locations version (fresh_keys (lo_revision ` set rows) revisions),
      created @ fresh_keys (lo_revision ` set rows) revisions)"
proof (induction revisions arbitrary: rows created)
  case (Cons r rs)
  have "lo_revision ` set (rows @ created_locations version [revision_of r]) = insert (revision_of r) (lo_revision ` set rows)"
    by (simp add: created_locations_def)
  with Cons show ?case by (simp add: insert_location_eq) (simp add: created_locations_def)
qed (simp add: created_locations_def)

lemma fresh_keys_props:
  "set (fresh_keys taken rs) = revision_of ` set rs - taken"
  "distinct (fresh_keys taken rs)"
  by (induction rs arbitrary: taken) auto

section \<open>The statement as a whole\<close>

definition new_keys :: "record_revision list \<Rightarrow> catalog_db \<Rightarrow> revision_key list" where
  "new_keys revisions db = fresh_keys (lo_revision ` set (locations db)) revisions"

definition new_edges :: "record_revision list \<Rightarrow> catalog_db \<Rightarrow> edge_row list" where
  "new_edges revisions db =
     concat (map (\<lambda>r. if revision_of r \<in> set (new_keys revisions db) then edges_of r else []) revisions)"

definition with_revisions :: "js_string \<Rightarrow> record_revision list \<Rightarrow> catalog_db \<Rightarrow> catalog_db" where
  "with_revisions version revisions db =
     db\<lparr>locations := locations db @ created_locations version (new_keys revisions db),
        edges := edges db @ new_edges revisions db\<rparr>"

lemma traverseR_Inr_units: "(\<exists>us. traverseR f xs = Inr us) \<longleftrightarrow> (\<forall>x \<in> set xs. \<exists>u. f x = Inr u)"
  by (induction xs) (auto simp: result_simps)

lemma bind_traverse: "bindR (traverseR f xs) (\<lambda>_. Inr y) = Inr z \<longleftrightarrow> z = y \<and> (\<forall>x \<in> set xs. \<exists>u. f x = Inr u)"
  using traverseR_Inr_units [of f xs] by (auto simp: result_simps)

lemma batches_all: "(\<forall>b \<in> set (batchesOf REGISTRATION_BATCH_SIZE xs). \<forall>x \<in> set b. P x) \<longleftrightarrow> (\<forall>x \<in> set xs. P x)"
  using set_registration_batches [of xs] by blast

lemma ensureRecordRevisions_Inr:
  "ensureRecordRevisions version revisions db = Inr db' \<longleftrightarrow>
     db' = with_revisions version revisions db
   \<and> list_all (revision_check \<circ> revision_of) revisions
   \<and> list_all (revision_check \<circ> ed_parent) (new_edges revisions db)
   \<and> (\<forall>r \<in> set revisions. sameParents (stored_parents (edges db') (revision_of r)) (rv_parents r))
   \<and> (\<forall>k \<in> set (new_keys revisions db). (\<exists>r \<in> set revisions. revision_of r = k \<and> rv_parents r \<noteq> [])
        \<longrightarrow> (k, k) \<notin> (parent_rel (edges db'))\<^sup>+)"
proof -
  let ?created = "new_keys revisions db" and ?rows = "edges db @ new_edges revisions db"
  let ?origins = "filter (\<lambda>r. rv_parents r \<noteq> [] \<and> revision_of r \<in> set ?created) revisions"
  have fold: "fold (fold (insert_location version)) (batchesOf REGISTRATION_BATCH_SIZE revisions) (locations db, [])
      = (locations db @ created_locations version ?created, ?created)"
    by (simp add: fold_fold_concat fold_insert_location new_keys_def)
  have parents: "(\<exists>us. traverseR (traverseR (\<lambda>r. ensure (sameParents (stored_parents ?rows (revision_of r)) (rv_parents r))
      (ImmutableConflictError RecordParentsKind))) (batchesOf REGISTRATION_BATCH_SIZE revisions) = Inr us)
      \<longleftrightarrow> (\<forall>r \<in> set revisions. sameParents (stored_parents ?rows (revision_of r)) (rv_parents r))"
    unfolding traverseR_Inr_units ensure_eq by (simp only: batches_all simp_thms)
  have "(\<exists>us. traverseR (check_cycles ?rows) (batchesOf REGISTRATION_BATCH_SIZE ?origins) = Inr us)
      \<longleftrightarrow> (\<forall>b \<in> set (batchesOf REGISTRATION_BATCH_SIZE ?origins). \<forall>r \<in> set b. (revision_of r, revision_of r) \<notin> (parent_rel ?rows)\<^sup>+)"
    unfolding traverseR_Inr_units by (simp add: check_cycles_iff)
  also have "\<dots> \<longleftrightarrow> (\<forall>k \<in> set ?created. (\<exists>r \<in> set revisions. revision_of r = k \<and> rv_parents r \<noteq> []) \<longrightarrow> (k, k) \<notin> (parent_rel ?rows)\<^sup>+)"
    unfolding batches_all by auto
  finally have cycles: "(\<exists>us. traverseR (check_cycles ?rows) (batchesOf REGISTRATION_BATCH_SIZE ?origins) = Inr us)
      \<longleftrightarrow> (\<forall>k \<in> set ?created. (\<exists>r \<in> set revisions. revision_of r = k \<and> rv_parents r \<noteq> []) \<longrightarrow> (k, k) \<notin> (parent_rel ?rows)\<^sup>+)" .
  show ?thesis
    using parents cycles
    by (auto simp: ensureRecordRevisions_def fold with_revisions_def new_edges_def Let_def result_simps)
qed


section \<open>Snapshots and layouts\<close>

definition snapshots_ok :: "catalog_db \<Rightarrow> bool" where
  "snapshots_ok db \<longleftrightarrow> snapshot_table.keyed (snapshots db) \<and> list_all snapshot_check (snapshots db)"

definition layout_keys_ok :: "catalog_db \<Rightarrow> bool" where
  "layout_keys_ok db \<longleftrightarrow> layout_table.keyed (layouts db) \<and> manifest_table.keyed (layouts db) \<and> layouts_ok db"

lemma find_snapshot_lookup: "find_snapshot db v = snapshot_table.lookup (snapshots db) v"
  by (simp add: find_snapshot_def snapshot_table.lookup_def)

lemma find_layout_lookup: "find_layout db v l = layout_table.lookup (layouts db) (v, l)"
  by (simp add: find_layout_def layout_table.lookup_def)

lemma ensureSnapshot_Inr:
  "ensureSnapshot input db = Inr db' \<longleftrightarrow> snapshot_check input \<and>
     (case find_snapshot db (sn_version input) of
        None \<Rightarrow> db' = db\<lparr>snapshots := snapshots db @ [input]\<rparr>
      | Some row \<Rightarrow> row = input \<and> db' = db)"
proof -
  have ins: "insert_on_conflict_do_nothing snapshot_conflict input (snapshots db) =
      (case find_snapshot db (sn_version input) of None \<Rightarrow> (snapshots db @ [input], True) | Some s \<Rightarrow> (snapshots db, False))"
    unfolding find_snapshot_lookup by (rule snapshot_table.lookup_insert) (auto simp: snapshot_conflict_def)
  have found: "find_snapshot db (sn_version input) = None
      \<Longrightarrow> find_snapshot (db\<lparr>snapshots := snapshots db @ [input]\<rparr>) (sn_version input) = Some input"
    by (simp add: find_snapshot_lookup snapshot_table.lookup_append)
  have same: "find_snapshot db (sn_version input) = Some row \<Longrightarrow> sn_version row = sn_version input" for row
    unfolding find_snapshot_lookup by (blast dest: snapshot_table.lookup_key)
  show ?thesis
  proof (cases "find_snapshot db (sn_version input)")
    case None
    then show ?thesis
      using found by (auto simp: ensureSnapshot_def ins result_simps)
  next
    case (Some row)
    then have "sn_version row = sn_version input" "db\<lparr>snapshots := snapshots db\<rparr> = db" using same by simp_all
    with Some show ?thesis
      by (auto simp: ensureSnapshot_def ins result_simps)
  qed
qed

lemma ensureLayout_Inr:
  "ensureLayout input db = Inr db' \<longleftrightarrow> layout_check input \<and>
     (case find_layout db (la_dataset_version input) (la_layout_version input) of
        None \<Rightarrow> db' = db\<lparr>layouts := layouts db @ [input]\<rparr> \<and> la_manifest_key input \<notin> la_manifest_key ` set (layouts db)
      | Some row \<Rightarrow> row = input \<and> db' = db)"
proof (cases "find_layout db (la_dataset_version input) (la_layout_version input)")
  case (Some row)
  then have row: "layout_key row = layout_key input" "row \<in> set (layouts db)"
    using layout_table.lookup_key [of "layouts db" "layout_key input" row]
    by (simp_all add: find_layout_lookup layout_key_def)
  then have "list_ex (layout_conflict input) (layouts db)"
    unfolding list_ex_iff layout_conflict_def by metis
  then have "insert_on_conflict_do_nothing layout_conflict input (layouts db) = (layouts db, False)"
    by (simp add: insert_on_conflict_do_nothing_def)
  with Some row show ?thesis
    by (auto simp: ensureLayout_def result_simps layout_key_def)
next
  case None
  then have nokey: "layout_key input \<notin> layout_key ` set (layouts db)"
    by (simp add: find_layout_lookup layout_table.lookup_None layout_key_def)
  show ?thesis
  proof (cases "la_manifest_key input \<in> la_manifest_key ` set (layouts db)")
    case True
    then have "list_ex (layout_conflict input) (layouts db)"
      unfolding list_ex_iff layout_conflict_def by (auto simp: image_iff)
    with True None show ?thesis
      by (simp add: ensureLayout_def insert_on_conflict_do_nothing_def find_layout_def result_simps)
  next
    case False
    with nokey have "\<not> list_ex (layout_conflict input) (layouts db)"
      unfolding list_ex_iff layout_conflict_def by (auto simp: image_iff)
    moreover have "find_layout (db\<lparr>layouts := layouts db @ [input]\<rparr>) (la_dataset_version input) (la_layout_version input) = Some input"
      using None by (simp add: find_layout_lookup layout_table.lookup_append layout_key_def)
    ultimately show ?thesis
      using None False by (auto simp: ensureLayout_def insert_on_conflict_do_nothing_def result_simps Let_def)
  qed
qed

section \<open>The invariant of the lineage\<close>

definition positions_ok :: "edge_row list \<Rightarrow> bool" where
  "positions_ok rows \<longleftrightarrow> (\<forall>k. map ed_position (stored_parents rows k) = [0..<length (stored_parents rows k)])"

definition lineage_ok :: "catalog_db \<Rightarrow> bool" where
  "lineage_ok db \<longleftrightarrow> location_table.keyed (locations db)
     \<and> list_all (\<lambda>l. find_snapshot db (lo_dataset_version l) \<noteq> None) (locations db)
     \<and> ed_child ` set (edges db) \<subseteq> lo_revision ` set (locations db)
     \<and> positions_ok (edges db)
     \<and> acyclic (parent_rel (edges db))"

lemma sameParents_iff:
  "sameParents stored expected \<longleftrightarrow>
     map ed_position stored = [0..<length expected] \<and> map ed_parent stored = expected"
proof
  assume *: "sameParents stored expected"
  then have len: "length stored = length expected" by (simp add: sameParents_def)
  with * have "i < length expected \<Longrightarrow> ed_position (stored ! i) = i \<and> ed_parent (stored ! i) = expected ! i" for i
    by (auto simp: sameParents_def list_all_length nth_enumerate_eq)
  with len show "map ed_position stored = [0..<length expected] \<and> map ed_parent stored = expected"
    by (auto intro: nth_equalityI)
next
  assume *: "map ed_position stored = [0..<length expected] \<and> map ed_parent stored = expected"
  then have len: "length stored = length expected" by (metis length_map)
  moreover have "i < length expected \<Longrightarrow> ed_position (stored ! i) = i \<and> ed_parent (stored ! i) = expected ! i" for i
    using * len by (metis nth_map nth_upt add_0)
  ultimately show "sameParents stored expected"
    by (auto simp: sameParents_def list_all_length nth_enumerate_eq)
qed

lemma new_edges_child: "e \<in> set (new_edges revisions db) \<Longrightarrow> ed_child e \<in> set (new_keys revisions db)
    \<and> (\<exists>r \<in> set revisions. revision_of r = ed_child e \<and> rv_parents r \<noteq> [])"
  by (auto simp: new_edges_def edges_of_def in_set_enumerate_eq split: if_splits)

lemma stored_parents_old:
  "k \<notin> set (new_keys revisions db)
    \<Longrightarrow> stored_parents (edges (with_revisions version revisions db)) k = stored_parents (edges db) k"
proof -
  assume k: "k \<notin> set (new_keys revisions db)"
  have "filter (\<lambda>e. ed_child e = k) (new_edges revisions db) = []"
    using k new_edges_child by (auto simp: filter_empty_conv)
  then show ?thesis by (simp add: with_revisions_def stored_parents_def select_where_def)
qed

lemma new_keys_fresh: "k \<in> set (new_keys revisions db) \<Longrightarrow> k \<notin> lo_revision ` set (locations db)"
  "k \<in> set (new_keys revisions db) \<Longrightarrow> \<exists>r \<in> set revisions. revision_of r = k"
  by (auto simp: new_keys_def fresh_keys_props)

lemma parent_rel_append: "parent_rel (xs @ ys) = parent_rel xs \<union> parent_rel ys"
  by (simp add: parent_rel_def image_Un)

lemma ensureRecordRevisions_lineage_ok:
  assumes "ensureRecordRevisions version revisions db = Inr db'" "lineage_ok db" "find_snapshot db version \<noteq> None"
  shows "lineage_ok db'"
proof -
  note eq = assms(1) [unfolded ensureRecordRevisions_Inr]
  then have db': "db' = with_revisions version revisions db" by blast
  let ?new = "new_keys revisions db"
  have "location_table.keyed (locations db')"
    using assms(2) fresh_keys_props(2) [of _ revisions] new_keys_fresh(1) [of _ revisions db]
    by (auto simp: lineage_ok_def location_table.keyed_def db' with_revisions_def created_locations_def
        comp_def new_keys_def)
  moreover have "list_all (\<lambda>l. find_snapshot db' (lo_dataset_version l) \<noteq> None) (locations db')"
    using assms(2,3)
    by (auto simp: lineage_ok_def list_all_iff db' with_revisions_def created_locations_def find_snapshot_def)
  moreover have "ed_child ` set (edges db') \<subseteq> lo_revision ` set (locations db')"
  proof -
    have "ed_child ` set (new_edges revisions db) \<subseteq> set ?new" using new_edges_child by blast
    moreover have "lo_revision ` set (created_locations version ?new) = set ?new"
      by (simp add: created_locations_def image_image)
    ultimately show ?thesis
      using assms(2) by (auto simp: lineage_ok_def db' with_revisions_def image_Un)
  qed
  moreover have "positions_ok (edges db')"
    unfolding positions_ok_def
  proof
    fix k
    show "map ed_position (stored_parents (edges db') k) = [0..<length (stored_parents (edges db') k)]"
    proof (cases "k \<in> set ?new")
      case True
      then obtain r where "r \<in> set revisions" "revision_of r = k" using new_keys_fresh(2) by blast
      with eq have "sameParents (stored_parents (edges db') k) (rv_parents r)" by blast
      then show ?thesis unfolding sameParents_iff by (metis length_map)
    next
      case False
      with assms(2) show ?thesis
        unfolding db' stored_parents_old [OF False] lineage_ok_def positions_ok_def by blast
    qed
  qed
  moreover have "acyclic (parent_rel (edges db'))"
  proof -
    have rel: "parent_rel (edges db') = parent_rel (edges db) \<union> parent_rel (new_edges revisions db)"
      by (simp add: db' with_revisions_def parent_rel_append)
    show ?thesis
      unfolding rel
    proof (rule acyclic_extend)
      show "acyclic (parent_rel (edges db))" using assms(2) by (simp add: lineage_ok_def)
      fix c p assume "(c, p) \<in> parent_rel (new_edges revisions db)"
      then obtain e where "e \<in> set (new_edges revisions db)" "ed_child e = c" by (auto simp: parent_rel_def)
      then show "(c, c) \<notin> (parent_rel (edges db) \<union> parent_rel (new_edges revisions db))\<^sup>+"
        using eq new_edges_child unfolding rel by blast
    qed
  qed
  ultimately show ?thesis by (simp add: lineage_ok_def)
qed


section \<open>Growth\<close>

text \<open>Rows are only appended, and a revision that has a location keeps its parents.\<close>

definition lineage_grows :: "catalog_db \<Rightarrow> catalog_db \<Rightarrow> bool" where
  "lineage_grows db db' \<longleftrightarrow> prefix (snapshots db) (snapshots db') \<and> prefix (layouts db) (layouts db')
     \<and> prefix (locations db) (locations db') \<and> prefix (edges db) (edges db')
     \<and> (\<forall>k \<in> lo_revision ` set (locations db). stored_parents (edges db') k = stored_parents (edges db) k)"

lemma registerLayout_steps:
  assumes "registerLayoutInTransaction input db = Inr db'"
  obtains db1 db2 where "ensureSnapshot (rl_snapshot input) db = Inr db1" "ensureLayout (rl_layout input) db1 = Inr db2"
    "ensureRecordRevisions (sn_version (rl_snapshot input)) (rl_revisions input) db2 = Inr db'"
    "db2 = db\<lparr>snapshots := snapshots db1, layouts := layouts db2\<rparr>"
    "db' = db\<lparr>snapshots := snapshots db1, layouts := layouts db2, locations := locations db', edges := edges db'\<rparr>"
    "prefix (snapshots db) (snapshots db1)" "prefix (layouts db) (layouts db2)"
    "find_snapshot db1 (sn_version (rl_snapshot input)) = Some (rl_snapshot input)"
    "find_layout db2 (la_dataset_version (rl_layout input)) (la_layout_version (rl_layout input)) = Some (rl_layout input)"
proof -
  from assms obtain db1 db2 where steps: "ensureSnapshot (rl_snapshot input) db = Inr db1"
    "ensureLayout (rl_layout input) db1 = Inr db2"
    "ensureRecordRevisions (sn_version (rl_snapshot input)) (rl_revisions input) db2 = Inr db'"
    by (auto simp: registerLayoutInTransaction_def result_simps)
  have one: "db1 = db\<lparr>snapshots := snapshots db1\<rparr> \<and> prefix (snapshots db) (snapshots db1)
      \<and> find_snapshot db1 (sn_version (rl_snapshot input)) = Some (rl_snapshot input)"
    using steps(1) unfolding ensureSnapshot_Inr
    by (auto simp: find_snapshot_lookup snapshot_table.lookup_append split: option.splits)
  have two: "db2 = db1\<lparr>layouts := layouts db2\<rparr> \<and> prefix (layouts db1) (layouts db2)
      \<and> find_layout db2 (la_dataset_version (rl_layout input)) (la_layout_version (rl_layout input)) = Some (rl_layout input)"
    using steps(2) unfolding ensureLayout_Inr
    by (auto simp: find_layout_lookup layout_table.lookup_append layout_key_def split: option.splits)
  have three: "db' = db2\<lparr>locations := locations db', edges := edges db'\<rparr>"
    using steps(3) unfolding ensureRecordRevisions_Inr by (auto simp: with_revisions_def)
  have db1: "layouts db1 = layouts db" using arg_cong [OF conjunct1 [OF one], of layouts] by simp
  show thesis
  proof (rule that [of db1 db2, OF steps])
    show db2: "db2 = db\<lparr>snapshots := snapshots db1, layouts := layouts db2\<rparr>"
      using one two by (cases db; cases db1; cases db2) auto
    show "db' = db\<lparr>snapshots := snapshots db1, layouts := layouts db2, locations := locations db', edges := edges db'\<rparr>"
      using db2 three by (cases db; cases db2; cases db') auto
  qed (use one two db1 in simp_all)
qed

lemma lookup_prefix:
  "prefix xs ys \<Longrightarrow> snapshot_table.lookup xs k = Some r \<Longrightarrow> snapshot_table.lookup ys k = Some r"
  by (auto simp: prefix_def snapshot_table.lookup_append)

lemma find_snapshot_prefix:
  "prefix (snapshots db) (snapshots db') \<Longrightarrow> find_snapshot db v \<noteq> None \<Longrightarrow> find_snapshot db' v \<noteq> None"
  unfolding find_snapshot_lookup using lookup_prefix by fastforce

definition datasets_ok :: "catalog_db \<Rightarrow> bool" where
  "datasets_ok db \<longleftrightarrow> snapshots_ok db \<and> layout_keys_ok db \<and> lineage_ok db"

lemma ensureSnapshot_ok: "ensureSnapshot input db = Inr db' \<Longrightarrow> snapshots_ok db \<Longrightarrow> snapshots_ok db'"
  unfolding ensureSnapshot_Inr
  by (auto simp: snapshots_ok_def snapshot_table.keyed_def find_snapshot_lookup snapshot_table.lookup_None split: option.splits)

lemma ensureLayout_ok:
  assumes "ensureLayout input db = Inr db'" "layout_keys_ok db" "find_snapshot db (la_dataset_version input) \<noteq> None"
  shows "layout_keys_ok db'"
proof (cases "find_layout db (la_dataset_version input) (la_layout_version input)")
  case None
  with assms(1) have db': "db' = db\<lparr>layouts := layouts db @ [input]\<rparr>" "la_manifest_key input \<notin> la_manifest_key ` set (layouts db)"
    by (auto simp: ensureLayout_Inr)
  moreover have "layout_key input \<notin> layout_key ` set (layouts db)"
    using None by (simp add: find_layout_lookup layout_table.lookup_None layout_key_def)
  ultimately show ?thesis
    using assms(2,3)
    by (auto simp: layout_keys_ok_def layout_table.keyed_def manifest_table.keyed_def layouts_ok_def find_snapshot_def list_all_iff)
next
  case (Some row)
  with assms show ?thesis by (simp add: ensureLayout_Inr)
qed

lemma layout_keys_ok_grow:
  "layout_keys_ok db \<Longrightarrow> prefix (snapshots db) (snapshots db') \<Longrightarrow> layouts db' = layouts db \<Longrightarrow> layout_keys_ok db'"
  using find_snapshot_prefix by (auto simp: layout_keys_ok_def layouts_ok_def list_all_iff)

lemma lineage_ok_grow:
  "lineage_ok db \<Longrightarrow> prefix (snapshots db) (snapshots db') \<Longrightarrow> locations db' = locations db \<Longrightarrow> edges db' = edges db
    \<Longrightarrow> lineage_ok db'"
  using find_snapshot_prefix by (auto simp: lineage_ok_def list_all_iff)

lemma registerLayout_ok:
  assumes "registerLayoutInTransaction input db = Inr db'" "datasets_ok db"
    and "la_dataset_version (rl_layout input) = sn_version (rl_snapshot input)"
  shows "datasets_ok db'" and "lineage_grows db db'"
proof -
  obtain db1 db2 where steps: "ensureSnapshot (rl_snapshot input) db = Inr db1" "ensureLayout (rl_layout input) db1 = Inr db2"
    "ensureRecordRevisions (sn_version (rl_snapshot input)) (rl_revisions input) db2 = Inr db'"
    and db2: "db2 = db\<lparr>snapshots := snapshots db1, layouts := layouts db2\<rparr>"
    and db': "db' = db\<lparr>snapshots := snapshots db1, layouts := layouts db2, locations := locations db', edges := edges db'\<rparr>"
    and pre: "prefix (snapshots db) (snapshots db1)" "prefix (layouts db) (layouts db2)"
    and found: "find_snapshot db1 (sn_version (rl_snapshot input)) = Some (rl_snapshot input)"
    by (rule registerLayout_steps [OF assms(1)])
  have db1: "layouts db1 = layouts db"
    using steps(1) by (auto simp: ensureSnapshot_Inr split: option.splits)
  have snapshots: "snapshots db2 = snapshots db1" "snapshots db' = snapshots db1" "layouts db' = layouts db2"
    "locations db2 = locations db" "edges db2 = edges db"
    using arg_cong [OF db2, of snapshots] arg_cong [OF db', of snapshots] arg_cong [OF db', of layouts]
      arg_cong [OF db2, of locations] arg_cong [OF db2, of edges] by simp_all
  have find: "find_snapshot db2 = find_snapshot db1" "find_snapshot db' = find_snapshot db1"
    by (simp_all add: find_snapshot_def snapshots fun_eq_iff)
  have "snapshots_ok db1" using steps(1) assms(2) by (simp add: datasets_ok_def ensureSnapshot_ok)
  then have "snapshots_ok db'" by (simp add: snapshots_ok_def snapshots)
  moreover have "layout_keys_ok db1"
    using assms(2) pre(1) db1 by (auto simp: datasets_ok_def intro: layout_keys_ok_grow)
  then have "layout_keys_ok db2" using steps(2) found assms(3) by (simp add: ensureLayout_ok)
  then have "layout_keys_ok db'" by (simp add: layout_keys_ok_def layouts_ok_def snapshots find)
  moreover have "lineage_ok db2"
    using assms(2) pre(1) snapshots by (auto simp: datasets_ok_def intro: lineage_ok_grow)
  then have "lineage_ok db'"
    using ensureRecordRevisions_lineage_ok [OF steps(3)] found find by simp
  ultimately show "datasets_ok db'" by (simp add: datasets_ok_def)
  have w: "db' = with_revisions (sn_version (rl_snapshot input)) (rl_revisions input) db2"
    using steps(3) by (simp add: ensureRecordRevisions_Inr)
  have "stored_parents (edges db') k = stored_parents (edges db) k" if "k \<in> lo_revision ` set (locations db)" for k
    using that new_keys_fresh(1) [of k "rl_revisions input" db2] stored_parents_old snapshots unfolding w by metis
  moreover have "prefix (locations db2) (locations db')" "prefix (edges db2) (edges db')"
    by (simp_all add: w with_revisions_def)
  ultimately show "lineage_grows db db'"
    using pre snapshots by (simp add: lineage_grows_def)
qed


section \<open>Registering layouts\<close>

lemma validateRegistration_version:
  "validateRegistrationInput input = Inr () \<Longrightarrow> la_dataset_version (rl_layout input) = sn_version (rl_snapshot input)"
  by (simp add: validateRegistrationInput_def result_simps)

lemma registerCommittedLayout_Inr:
  "registerCommittedLayout input db = Inr db' \<longleftrightarrow>
     validateRegistrationInput input = Inr () \<and> registerLayoutInTransaction input db = Inr db'"
  by (simp add: registerCommittedLayout_def result_simps)

definition example_revision :: "char \<Rightarrow> revision_key list \<Rightarrow> record_revision" where
  "example_revision c parents = \<lparr>rv_record_id = js ''rec_'' @ replicate 64 (of_char c),
     rv_record_digest = replicate 64 (of_char c), rv_parents = parents\<rparr>"

definition example_registration :: register_layout where
  "example_registration =
    (let version = replicate 64 (of_char CHR ''a'') in
     \<lparr>rl_snapshot = \<lparr>sn_version = version, sn_identity_profile = js ''p'', sn_record_schema_version = js ''v2'',
        sn_num_records = 2\<rparr>,
      rl_layout = \<lparr>la_dataset_version = version, la_layout_version = js ''l1'', la_artifact_digest = version,
        la_artifact_size_bytes = 10, la_manifest_key = js ''m'', la_columns = []\<rparr>,
      rl_revisions = [example_revision CHR ''b'' [], example_revision CHR ''c'' [revision_of (example_revision CHR ''b'' [])]]\<rparr>)"

definition example_registered :: catalog_db where
  "example_registered = with_revisions (replicate 64 (of_char CHR ''a'')) (rl_revisions example_registration)
     (empty_db\<lparr>snapshots := [rl_snapshot example_registration], layouts := [rl_layout example_registration]\<rparr>)"

lemma datasets_ok_empty: "datasets_ok empty_db"
  by (simp add: datasets_ok_def snapshots_ok_def layout_keys_ok_def lineage_ok_def empty_db_def layouts_ok_def
      snapshot_table.keyed_Nil layout_table.keyed_Nil manifest_table.keyed_Nil location_table.keyed_Nil
      positions_ok_def stored_parents_def select_where_def order_by_def parent_rel_def acyclic_def)


lemma example_registers: "registerCommittedLayout example_registration empty_db = Inr example_registered"
proof -
  have hex: "is_hex_lower 97" "is_hex_lower 98" "is_hex_lower 99"
    by (simp_all add: char_class_defs)
  have ids: "is_hex 64 (replicate 64 c) \<longleftrightarrow> is_hex_lower c" for c
    using EXACT_VERSION_replicate [of c] by (simp add: EXACT_VERSION_def)
  let ?b = "example_revision CHR ''b'' []" and ?c = "example_revision CHR ''c'' [revision_of (example_revision CHR ''b'' [])]"
  let ?db = "empty_db\<lparr>snapshots := [rl_snapshot example_registration], layouts := [rl_layout example_registration]\<rparr>"
  have diff: "revision_of ?b \<noteq> revision_of ?c" "revision_of ?c \<noteq> revision_of ?b"
    "rv_record_id ?b \<noteq> rv_record_id ?c" "fst (revision_of ?b) \<noteq> rv_record_id ?c"
    by (simp_all add: revision_of_def example_revision_def)
  have check: "revision_check (revision_of ?b)" "revision_check (revision_of ?c)"
    by (simp_all add: revision_check_def revision_of_def example_revision_def has_prefix_def ids hex)
  have revs: "rl_revisions example_registration = [?b, ?c]" and vers: "sn_version (rl_snapshot example_registration) = replicate 64 97"
    by (simp_all add: example_registration_def Let_def)
  have keys: "new_keys [?b, ?c] ?db = [revision_of ?b, revision_of ?c]"
    using diff by (simp add: new_keys_def empty_db_def)
  have edges: "new_edges [?b, ?c] ?db = [\<lparr>ed_child = revision_of ?c, ed_position = 0, ed_parent = revision_of ?b\<rparr>]"
    by (simp add: new_edges_def keys edges_of_def) (simp add: example_revision_def)
  have stored: "edges example_registered = [\<lparr>ed_child = revision_of ?c, ed_position = 0, ed_parent = revision_of ?b\<rparr>]"
    by (simp add: example_registered_def revs with_revisions_def edges) (simp add: empty_db_def)
  have rel: "parent_rel (edges example_registered) = {(revision_of ?c, revision_of ?b)}"
    by (simp add: stored parent_rel_def)
  have "(x, y) \<in> {(revision_of ?c, revision_of ?b)}\<^sup>+ \<Longrightarrow> (x, y) = (revision_of ?c, revision_of ?b)" for x y
    by (induction rule: trancl_induct) (use diff in auto)
  then have acyc: "(k, k) \<notin> (parent_rel (edges example_registered))\<^sup>+" for k
    unfolding rel using diff by blast
  have parents: "sameParents (stored_parents (edges example_registered) (revision_of ?b)) (rv_parents ?b)"
    "sameParents (stored_parents (edges example_registered) (revision_of ?c)) (rv_parents ?c)"
    using diff by (simp_all add: sameParents_iff stored stored_parents_def select_where_def order_by_def)
      (simp_all add: example_revision_def)
  have "ensureRecordRevisions (replicate 64 97) [?b, ?c] ?db = Inr example_registered"
    unfolding ensureRecordRevisions_Inr
    using check parents acyc by (simp add: example_registered_def revs edges)
  moreover have "ensureSnapshot (rl_snapshot example_registration) empty_db
      = Inr (empty_db\<lparr>snapshots := [rl_snapshot example_registration]\<rparr>)"
    unfolding ensureSnapshot_Inr
    by (simp add: example_registration_def Let_def snapshot_check_def hex find_snapshot_def find_first_def empty_db_def)
  moreover have "ensureLayout (rl_layout example_registration) (empty_db\<lparr>snapshots := [rl_snapshot example_registration]\<rparr>) = Inr ?db"
    unfolding ensureLayout_Inr
    by (simp add: example_registration_def Let_def layout_check_def hex find_layout_def find_first_def empty_db_def
        matches_name_def char_class_defs)
  moreover have "validateRegistrationInput example_registration = Inr ()"
    using diff by (simp add: validateRegistrationInput_def revs result_simps)
      (simp add: example_registration_def Let_def example_revision_def)
  ultimately show ?thesis
    unfolding registerCommittedLayout_Inr by (simp add: registerLayoutInTransaction_def revs vers)
qed



lemma registered_facts:
  assumes "registerLayoutInTransaction input db = Inr db'"
  shows "find_snapshot db' (sn_version (rl_snapshot input)) = Some (rl_snapshot input)"
    and "find_layout db' (la_dataset_version (rl_layout input)) (la_layout_version (rl_layout input)) = Some (rl_layout input)"
    and "\<forall>r \<in> set (rl_revisions input). revision_of r \<in> lo_revision ` set (locations db')
      \<and> sameParents (stored_parents (edges db') (revision_of r)) (rv_parents r)"
    and "snapshot_check (rl_snapshot input)" "layout_check (rl_layout input)"
    and "list_all (revision_check \<circ> revision_of) (rl_revisions input)"
proof -
  obtain db1 db2 where steps: "ensureSnapshot (rl_snapshot input) db = Inr db1" "ensureLayout (rl_layout input) db1 = Inr db2"
    "ensureRecordRevisions (sn_version (rl_snapshot input)) (rl_revisions input) db2 = Inr db'"
    and db': "db' = db\<lparr>snapshots := snapshots db1, layouts := layouts db2, locations := locations db', edges := edges db'\<rparr>"
    and found: "find_snapshot db1 (sn_version (rl_snapshot input)) = Some (rl_snapshot input)"
    "find_layout db2 (la_dataset_version (rl_layout input)) (la_layout_version (rl_layout input)) = Some (rl_layout input)"
    by (rule registerLayout_steps [OF assms])
  have "snapshots db' = snapshots db1" "layouts db' = layouts db2"
    using arg_cong [OF db', of snapshots] arg_cong [OF db', of layouts] by simp_all
  with found show "find_snapshot db' (sn_version (rl_snapshot input)) = Some (rl_snapshot input)"
    "find_layout db' (la_dataset_version (rl_layout input)) (la_layout_version (rl_layout input)) = Some (rl_layout input)"
    by (simp_all add: find_snapshot_def find_layout_def)
  have w: "db' = with_revisions (sn_version (rl_snapshot input)) (rl_revisions input) db2"
    and same: "\<forall>r \<in> set (rl_revisions input). sameParents (stored_parents (edges db') (revision_of r)) (rv_parents r)"
    using steps(3) unfolding ensureRecordRevisions_Inr by blast+
  have "lo_revision ` set (locations db') = lo_revision ` set (locations db2) \<union> set (new_keys (rl_revisions input) db2)"
    by (simp add: w with_revisions_def created_locations_def image_Un image_image)
  then show "\<forall>r \<in> set (rl_revisions input). revision_of r \<in> lo_revision ` set (locations db')
      \<and> sameParents (stored_parents (edges db') (revision_of r)) (rv_parents r)"
    using same by (simp add: new_keys_def fresh_keys_props)
  show "snapshot_check (rl_snapshot input)" "layout_check (rl_layout input)"
    using steps by (simp_all add: ensureSnapshot_Inr ensureLayout_Inr)
  show "list_all (revision_check \<circ> revision_of) (rl_revisions input)"
    using steps(3) unfolding ensureRecordRevisions_Inr by blast
qed

lemma later_lookup:
  assumes "lineage_grows db' later"
  shows "find_snapshot db' v = Some s \<Longrightarrow> find_snapshot later v = Some s"
    and "find_layout db' v l = Some r \<Longrightarrow> find_layout later v l = Some r"
    and "k \<in> lo_revision ` set (locations db') \<Longrightarrow> k \<in> lo_revision ` set (locations later)
      \<and> stored_parents (edges later) k = stored_parents (edges db') k"
  using assms
  by (auto simp: lineage_grows_def prefix_def find_snapshot_lookup snapshot_table.lookup_append
      find_layout_lookup layout_table.lookup_append)


lemma lineage_grows_refl: "lineage_grows db db"
  by (simp add: lineage_grows_def)


lemma registration_repeats:
  assumes "registerCommittedLayout input db = Inr db'" "lineage_grows db' later"
  shows "registerCommittedLayout input later = Inr later"
proof -
  have reg: "registerLayoutInTransaction input db = Inr db'" and valid: "validateRegistrationInput input = Inr ()"
    using assms(1) by (simp_all add: registerCommittedLayout_Inr)
  note facts = registered_facts [OF reg] and look = later_lookup [OF assms(2)]
  have "ensureSnapshot (rl_snapshot input) later = Inr later"
    unfolding ensureSnapshot_Inr using facts(1,4) look(1) by simp
  moreover have "ensureLayout (rl_layout input) later = Inr later"
    unfolding ensureLayout_Inr using facts(2,5) look(2) by simp
  moreover have parents: "\<forall>r \<in> set (rl_revisions input). sameParents (stored_parents (edges later) (revision_of r)) (rv_parents r)"
    using facts(3) look(3) by (metis (no_types))
  moreover have "new_keys (rl_revisions input) later = []"
  proof -
    have "set (new_keys (rl_revisions input) later) = {}"
      unfolding new_keys_def fresh_keys_props using facts(3) look(3) by blast
    then show ?thesis by simp
  qed
  then have "with_revisions version (rl_revisions input) later = later" "new_edges (rl_revisions input) later = []"
      "new_keys (rl_revisions input) later = []" for version
    by (simp_all add: with_revisions_def new_edges_def created_locations_def)
  then have "ensureRecordRevisions (sn_version (rl_snapshot input)) (rl_revisions input) later = Inr later"
    unfolding ensureRecordRevisions_Inr using facts(6) parents by simp
  ultimately show ?thesis
    by (simp add: registerCommittedLayout_Inr valid registerLayoutInTransaction_def)
qed

text \<open>
  Registering is idempotent, for good: after a registration succeeded, registering the same layout
  again succeeds without any change in every later state of the catalog.
\<close>

lemma registration_idempotent:
  assumes "registerCommittedLayout input db = Inr db'" "lineage_grows db' later"
  shows "registerCommittedLayout input later = Inr later"
  using assms by (rule registration_repeats)

lemma registration_idempotent_example:
  "registerCommittedLayout example_registration example_registered = Inr example_registered"
  by (rule registration_idempotent [OF example_registers lineage_grows_refl])

section \<open>Cycles\<close>

lemma check_cycles_Inl:
  assumes "check_cycles rows batch = Inl e"
  shows "\<exists>k. e = LineageCycleError (fst k) (snd k) \<and> k \<in> revision_of ` set batch \<and> (k, k) \<in> (parent_rel rows)\<^sup>+"
proof -
  let ?first = "find_first (\<lambda>(origin, node). node = origin) (ancestors rows (origin_rows rows batch))"
  obtain k where found: "?first = Some (k, k)" and e: "e = LineageCycleError (fst k) (snd k)"
    using assms by (auto simp: check_cycles_def split: option.splits dest!: find_first_Some)
  then have mem: "(k, k) \<in> set (ancestors rows (origin_rows rows batch))"
    by (blast dest: find_first_Some)
  have origin: "(o', p) \<in> set (origin_rows rows batch) \<Longrightarrow> (o', p) \<in> parent_rel rows \<and> o' \<in> revision_of ` set batch" for o' p
    by (auto simp: origin_rows_def select_where_def parent_rel_def)
  have "(k, k) \<in> (parent_rel rows)\<^sup>+"
    using ancestors_sound [of "origin_rows rows batch" rows] mem origin by (blast intro: r_into_trancl)
  moreover have "k \<in> revision_of ` set batch" using ancestors_origins [OF mem] origin by blast
  ultimately show ?thesis using e by blast
qed

lemma traverseR_Inl: "traverseR f xs = Inl e \<Longrightarrow> \<exists>x \<in> set xs. f x = Inl e"
  by (induction xs) (auto simp: result_simps)



end
