(* ===== verification/Run_Laws.thy ===== *)
theory Run_Laws
  imports Lineage_Laws
begin

text \<open>
  What the registration of transform runs promises: a run is recorded once with the inputs in order,
  a different result for the same cache key is refused, and the sequence numbers let a reader page
  through the runs that existed when it started.
\<close>

section \<open>The invariant of the runs\<close>

definition run_rows_ok :: "catalog_db \<Rightarrow> bool" where
  "run_rows_ok db \<longleftrightarrow> run_table.keyed (runs db)
     \<and> list_all (\<lambda>r. run_check r \<and> find_snapshot db (ru_output_version r) \<noteq> None
          \<and> is_committed db (ru_output_version r)
          \<and> 0 < ru_lineage_seq r \<and> ru_lineage_seq r < next_lineage_seq db) (runs db)
     \<and> distinct (map ru_lineage_seq (runs db)) \<and> 0 < next_lineage_seq db"

definition run_inputs_ok :: "catalog_db \<Rightarrow> bool" where
  "run_inputs_ok db \<longleftrightarrow> ri_cache_key ` set (run_inputs db) \<subseteq> ru_cache_key ` set (runs db)
     \<and> list_all (\<lambda>i. find_snapshot db (ri_dataset_version i) \<noteq> None) (run_inputs db)
     \<and> (\<forall>k. map ri_position (inputs_of db k) = [0..<length (inputs_of db k)])"

definition runs_ok :: "catalog_db \<Rightarrow> bool" where
  "runs_ok db \<longleftrightarrow> run_rows_ok db \<and> run_inputs_ok db"

definition runs_grow :: "catalog_db \<Rightarrow> catalog_db \<Rightarrow> bool" where
  "runs_grow db db' \<longleftrightarrow> next_lineage_seq db \<le> next_lineage_seq db'
     \<and> (\<exists>new. runs db' = runs db @ new \<and> list_all (\<lambda>r. next_lineage_seq db \<le> ru_lineage_seq r) new)
     \<and> (\<forall>k \<in> ru_cache_key ` set (runs db). inputs_of db' k = inputs_of db k)"

lemma find_run_lookup: "find_run db k = run_table.lookup (runs db) k"
  by (simp add: find_run_def run_table.lookup_def)

definition input_rows :: "run_input \<Rightarrow> run_input_row list" where
  "input_rows input = map (\<lambda>(position, version). \<lparr>ri_cache_key = ri_key input, ri_position = position,
     ri_dataset_version = version\<rparr>) (enumerate 0 (ri_input_versions input))"

definition run_of :: "run_input \<Rightarrow> int \<Rightarrow> run_row" where
  "run_of input seq = \<lparr>ru_id = ri_id input, ru_cache_key = ri_key input, ru_op = ri_op input,
     ru_op_version = ri_op_version input, ru_params = ri_params input,
     ru_output_version = ri_output_version input, ru_lineage_seq = seq\<rparr>"

definition with_run :: "run_input \<Rightarrow> catalog_db \<Rightarrow> catalog_db" where
  "with_run input db = db\<lparr>runs := runs db @ [run_of input (next_lineage_seq db)],
     next_lineage_seq := next_lineage_seq db + 1, run_inputs := run_inputs db @ input_rows input\<rparr>"

lemma run_conflict_key:
  assumes "run_rows_ok db" "run_check row"
  shows "list_ex (run_conflict row) (runs db) \<longleftrightarrow> run_table.lookup (runs db) (ru_cache_key row) \<noteq> None"
proof -
  have "run_conflict row r \<longleftrightarrow> ru_cache_key r = ru_cache_key row" if "r \<in> set (runs db)" for r
    using assms that by (auto simp: run_conflict_def run_rows_ok_def list_all_iff run_check_def)
  then show ?thesis
    by (simp add: list_ex_iff run_table.lookup_None image_iff) metis
qed

lemma registerRun_Inr:
  assumes "run_rows_ok db"
  shows "registerRunInTransaction input db = Inr (db', created) \<longleftrightarrow>
     run_check (run_of input (next_lineage_seq db))
   \<and> (if find_run db (ri_key input) = None
      then created \<and> db' = with_run input db \<and> list_all EXACT_VERSION (ri_input_versions input)
         \<and> find_snapshot db (ri_output_version input) \<noteq> None
         \<and> list_all (\<lambda>v. find_snapshot db v \<noteq> None) (ri_input_versions input)
      else \<not> created \<and> db' = db\<lparr>next_lineage_seq := next_lineage_seq db + 1\<rparr>)
   \<and> assertRunInTransaction input db' = Inr ()"
proof (cases "run_check (run_of input (next_lineage_seq db))")
  case False
  then show ?thesis
    by (simp add: registerRunInTransaction_def run_of_def Let_def case_prod_unfold ensure_def)
next
  case True
  have conflict: "list_ex (run_conflict (run_of input (next_lineage_seq db))) (runs db) \<longleftrightarrow> find_run db (ri_key input) \<noteq> None"
    using run_conflict_key [OF assms True] by (simp add: find_run_lookup run_of_def)
  show ?thesis
  proof (cases "find_run db (ri_key input) = None")
    case fresh: True
    with conflict True show ?thesis
      by (auto simp: registerRunInTransaction_def insert_on_conflict_do_nothing_def Let_def result_simps
          run_of_def [symmetric] input_rows_def [symmetric] with_run_def)
  next
    case False
    with conflict True show ?thesis
      by (auto simp: registerRunInTransaction_def insert_on_conflict_do_nothing_def Let_def result_simps
          run_of_def [symmetric] input_rows_def [symmetric])
  qed
qed

lemma inputs_of_input_rows: "order_by ri_position (input_rows input) = input_rows input"
proof -
  have "map ri_position (input_rows input) = [0..<length (ri_input_versions input)]"
    by (simp add: input_rows_def comp_def case_prod_unfold enumerate_eq_zip)
  then have "sorted (map ri_position (input_rows input))" by simp
  then show ?thesis unfolding order_by_def by (rule sort_key_id_if_sorted)
qed


lemma inputs_of_with_run:
  assumes "run_inputs_ok db" "find_run db (ri_key input) = None"
  shows "inputs_of (with_run input db) k = (if k = ri_key input then input_rows input else inputs_of db k)"
proof -
  have none: "filter (\<lambda>r. ri_cache_key r = ri_key input) (run_inputs db) = []"
    using assms unfolding run_inputs_ok_def find_run_lookup run_table.lookup_None filter_empty_conv
    by (metis imageI subsetD)
  have "filter (\<lambda>r. ri_cache_key r = k) (input_rows input) = (if k = ri_key input then input_rows input else [])"
    by (auto simp: input_rows_def filter_empty_conv filter_id_conv)
  then show ?thesis
    using none by (auto simp: inputs_of_def select_where_def with_run_def inputs_of_input_rows)
qed

lemma positions_input_rows: "map ri_position (input_rows input) = [0..<length (input_rows input)]"
  "map ri_dataset_version (input_rows input) = ri_input_versions input"
  by (simp_all add: input_rows_def comp_def case_prod_unfold enumerate_eq_zip)

lemma registerRun_ok:
  assumes "registerRunInTransaction input db = Inr (db', created)" "runs_ok db"
    and "is_committed db (ri_output_version input)"
  shows "runs_ok db'" and "runs_grow db db'" and "assertRunInTransaction input db' = Inr ()"
    and "db' = db\<lparr>runs := runs db', next_lineage_seq := next_lineage_seq db', run_inputs := run_inputs db'\<rparr>"
proof -
  have rows: "run_rows_ok db" and inputs: "run_inputs_ok db" using assms(2) by (simp_all add: runs_ok_def)
  note eq = assms(1) [unfolded registerRun_Inr [OF rows]]
  then show "assertRunInTransaction input db' = Inr ()" by blast
  have "runs_ok db' \<and> runs_grow db db' \<and> db' = db\<lparr>runs := runs db', next_lineage_seq := next_lineage_seq db', run_inputs := run_inputs db'\<rparr>"
  proof (cases "find_run db (ri_key input) = None")
    case True
    with eq have db': "db' = with_run input db" and check: "run_check (run_of input (next_lineage_seq db))"
      and fks: "find_snapshot db (ri_output_version input) \<noteq> None" "list_all (\<lambda>v. find_snapshot db v \<noteq> None) (ri_input_versions input)"
      by auto
    have find: "find_snapshot db' = find_snapshot db" "is_committed db' = is_committed db"
      by (simp_all add: db' with_run_def find_snapshot_def is_committed_def fun_eq_iff)
    have sel: "runs db' = runs db @ [run_of input (next_lineage_seq db)]"
      "next_lineage_seq db' = next_lineage_seq db + 1" "run_inputs db' = run_inputs db @ input_rows input"
      by (simp_all add: db' with_run_def)
    have fresh: "ri_key input \<notin> ru_cache_key ` set (runs db)"
      using True by (simp add: find_run_lookup run_table.lookup_None)
    have "next_lineage_seq db \<notin> ru_lineage_seq ` set (runs db)"
      using rows by (force simp: run_rows_ok_def list_all_iff)
    then have "run_rows_ok db'"
      using rows fresh check fks assms(3)
      by (auto simp: run_rows_ok_def find sel run_table.keyed_def list_all_iff) (auto simp: run_of_def)
    moreover have "run_inputs_ok db'"
      unfolding run_inputs_ok_def
    proof (intro conjI allI)
      show "ri_cache_key ` set (run_inputs db') \<subseteq> ru_cache_key ` set (runs db')"
        using inputs by (auto simp: run_inputs_ok_def sel input_rows_def run_of_def)
      show "list_all (\<lambda>i. find_snapshot db' (ri_dataset_version i) \<noteq> None) (run_inputs db')"
        using inputs fks(2) positions_input_rows(2) [of input] unfolding find
        by (auto simp: run_inputs_ok_def sel list_all_iff input_rows_def in_set_enumerate_eq)
      show "map ri_position (inputs_of db' k) = [0..<length (inputs_of db' k)]" for k
        using inputs True positions_input_rows(1) by (simp add: db' inputs_of_with_run run_inputs_ok_def)
    qed
    moreover have "inputs_of db' k = inputs_of db k" if "k \<in> ru_cache_key ` set (runs db)" for k
      using that fresh inputs True db' inputs_of_with_run by metis
    then have "runs_grow db db'"
      by (simp add: runs_grow_def sel) (simp add: run_of_def)
    ultimately show ?thesis by (simp add: runs_ok_def) (simp add: db' with_run_def)
  next
    case False
    with eq have db': "db' = db\<lparr>next_lineage_seq := next_lineage_seq db + 1\<rparr>" by simp
    have same: "find_snapshot db' = find_snapshot db" "is_committed db' = is_committed db" "inputs_of db' = inputs_of db"
      by (simp_all add: db' find_snapshot_def is_committed_def inputs_of_def fun_eq_iff)
    then show ?thesis
      using assms(2) by (auto simp: runs_ok_def run_rows_ok_def run_inputs_ok_def runs_grow_def same list_all_iff db')
  qed
  then show "runs_ok db'" "runs_grow db db'"
    "db' = db\<lparr>runs := runs db', next_lineage_seq := next_lineage_seq db', run_inputs := run_inputs db'\<rparr>" by blast+
qed


section \<open>Transform results\<close>

lemma registerTransformResult_Inr:
  "registerTransformResult input run db = Inr db' \<longleftrightarrow>
     (\<exists>mid created. registerCommittedLayout input db = Inr mid \<and> validateRunInput input run = Inr ()
        \<and> registerRunInTransaction run mid = Inr (db', created))"
  by (auto simp: registerTransformResult_def registerCommittedLayout_def result_simps)

definition catalog_grows :: "catalog_db \<Rightarrow> catalog_db \<Rightarrow> bool" where
  "catalog_grows db db' \<longleftrightarrow> lineage_grows db db' \<and> runs_grow db db'"

lemma registerLayout_same:
  assumes "registerLayoutInTransaction input db = Inr db'"
  shows "runs db' = runs db" "run_inputs db' = run_inputs db" "next_lineage_seq db' = next_lineage_seq db"
    "refs db' = refs db" "jobs db' = jobs db" "namespaces db' = namespaces db" "claims db' = claims db"
proof -
  obtain db1 db2 :: catalog_db where db': "db' = db\<lparr>snapshots := snapshots db1, layouts := layouts db2, locations := locations db', edges := edges db'\<rparr>"
    by (rule registerLayout_steps [OF assms]) (rule that)
  show "runs db' = runs db" "run_inputs db' = run_inputs db" "next_lineage_seq db' = next_lineage_seq db"
    "refs db' = refs db" "jobs db' = jobs db" "namespaces db' = namespaces db" "claims db' = claims db"
    by (subst db', simp)+
qed

lemma is_committed_prefix:
  assumes "prefix (layouts db) (layouts db')" "is_committed db v" shows "is_committed db' v"
proof -
  have "set (layouts db) \<subseteq> set (layouts db')" using assms(1) by (rule set_mono_prefix)
  with assms(2) show ?thesis unfolding is_committed_def find_first_None by blast
qed

lemma runs_ok_grow:
  assumes "runs_ok db" "lineage_grows db db'" "runs db' = runs db" "run_inputs db' = run_inputs db"
    "next_lineage_seq db' = next_lineage_seq db"
  shows "runs_ok db'" "runs_grow db db'"
proof -
  have "inputs_of db' = inputs_of db" using assms by (simp add: inputs_of_def fun_eq_iff)
  moreover have "find_snapshot db' v \<noteq> None" if "find_snapshot db v \<noteq> None" for v
    using that assms(2) find_snapshot_prefix by (auto simp: lineage_grows_def)
  moreover have "is_committed db' v" if "is_committed db v" for v
    using that assms(2) is_committed_prefix by (auto simp: lineage_grows_def)
  ultimately show "runs_ok db'" "runs_grow db db'"
    using assms(1,3-5) by (auto simp: runs_ok_def run_rows_ok_def run_inputs_ok_def runs_grow_def list_all_iff)
qed

lemma registered_committed:
  assumes "registerLayoutInTransaction input db = Inr db'"
  shows "is_committed db' (la_dataset_version (rl_layout input))"
proof -
  have "rl_layout input \<in> set (layouts db')"
    using registered_facts(2) [OF assms] unfolding find_layout_lookup by (blast dest: layout_table.lookup_key)
  then show ?thesis unfolding is_committed_def find_first_None by blast
qed

lemma registerTransformResult_ok:
  assumes "registerTransformResult input run db = Inr db'" "datasets_ok db" "runs_ok db"
  shows "datasets_ok db'" "runs_ok db'" "catalog_grows db db'" "assertRunInTransaction run db' = Inr ()"
proof -
  obtain mid created where mid: "registerCommittedLayout input db = Inr mid" "validateRunInput input run = Inr ()"
    and run: "registerRunInTransaction run mid = Inr (db', created)"
    using assms(1) unfolding registerTransformResult_Inr by blast
  have reg: "registerLayoutInTransaction input db = Inr mid" and valid: "validateRegistrationInput input = Inr ()"
    using mid(1) by (simp_all add: registerCommittedLayout_Inr)
  have ok: "datasets_ok mid" "lineage_grows db mid"
    using registerLayout_ok [OF reg assms(2) validateRegistration_version [OF valid]] .
  have runs: "runs_ok mid" "runs_grow db mid" using runs_ok_grow [OF assms(3) ok(2)] registerLayout_same [OF reg] by blast+
  have "is_committed mid (ri_output_version run)"
    using registered_committed [OF reg] validateRegistration_version [OF valid] mid(2)
    by (simp add: validateRunInput_def result_simps)
  note step = registerRun_ok [OF run runs(1) this]
  have same: "snapshots db' = snapshots mid" "layouts db' = layouts mid" "locations db' = locations mid" "edges db' = edges mid"
    by (subst step(4), simp)+
  then have find: "find_snapshot db' = find_snapshot mid" by (simp add: find_snapshot_def fun_eq_iff)
  show "datasets_ok db'"
    using ok(1) by (simp add: datasets_ok_def snapshots_ok_def layout_keys_ok_def layouts_ok_def lineage_ok_def same find)
  show "runs_ok db'" "assertRunInTransaction run db' = Inr ()" using step by blast+
  have "lineage_grows db db'" using ok(2) by (simp add: lineage_grows_def same)
  moreover have "runs_grow db db'"
    using runs(2) step(2) by (fastforce simp: runs_grow_def registerLayout_same [OF reg])
  ultimately show "catalog_grows db db'" by (simp add: catalog_grows_def)
qed


lemma assertRun_grow:
  assumes "assertRunInTransaction input db = Inr ()" "runs_grow db later" "run_rows_ok later"
  shows "assertRunInTransaction input later = Inr ()"
    and "\<exists>row. find_run later (ri_key input) = Some row \<and> row \<in> set (runs later)"
proof -
  obtain row where row: "find_run db (ri_key input) = Some row"
    using assms(1) by (cases "find_run db (ri_key input)") (auto simp: assertRunInTransaction_def)
  then have mem: "row \<in> set (runs db)" "ru_cache_key row = ri_key input"
    unfolding find_run_lookup by (blast dest: run_table.lookup_key)+
  then have inputs: "inputs_of later (ri_key input) = inputs_of db (ri_key input)"
    using assms(2) by (force simp: runs_grow_def)
  have found: "find_run later (ri_key input) = Some row"
    using row assms(2) unfolding find_run_lookup runs_grow_def by (auto simp: run_table.lookup_append)
  have "row \<in> set (runs later)" using mem assms(2) by (auto simp: runs_grow_def)
  with found show "\<exists>row. find_run later (ri_key input) = Some row \<and> row \<in> set (runs later)" by blast
  show "assertRunInTransaction input later = Inr ()"
    using assms(1) by (simp add: assertRunInTransaction_def row found inputs)
qed

lemma traverse_positions:
  "map ri_position items = [n..<n + length items]
    \<Longrightarrow> traverseR (\<lambda>(position, item). bindR (ensure (ri_position item = position) ConsistencyError)
          (\<lambda>_. Inr (ri_dataset_version item))) (enumerate n items) = Inr (map ri_dataset_version items)"
proof (induction items arbitrary: n)
  case (Cons i items)
  then have "ri_position i = n \<and> map ri_position items = [Suc n..<Suc n + length items]"
    by (simp add: upt_rec del: upt_Suc)
  with Cons.IH [of "Suc n"] show ?case by simp
qed simp

lemma inputs_match:
  assumes "list_all (\<lambda>(position, item). ri_position item = position \<and> ri_dataset_version item = versions ! position)
      (enumerate 0 items)" "length items = length versions"
  shows "map ri_dataset_version items = versions"
  using assms by (intro nth_equalityI) (auto simp: list_all_length nth_enumerate_eq)

lemma prismaRowToRun_total:
  assumes "runs_ok db" "row \<in> set (runs db)"
  shows "prismaRowToRun row (inputs_of db k)
    = Inr \<lparr>gr_row = row, gr_input_versions = map ri_dataset_version (inputs_of db k)\<rparr>"
proof -
  have "0 < ru_lineage_seq row" "run_check row"
    using assms by (simp_all add: runs_ok_def run_rows_ok_def list_all_iff)
  moreover have "map ri_position (inputs_of db k) = [0..<0 + length (inputs_of db k)]"
    using assms(1) by (simp add: runs_ok_def run_inputs_ok_def)
  ultimately show ?thesis
    by (simp add: prismaRowToRun_def traverse_positions run_check_def split: json.splits)
qed

text \<open>
  C12: A transform result is recorded once and for all. After \<open>registerTransformResult\<close> the run reads
  back in every later state with the operation, the output and the ordered inputs of the request and
  with equal parameters, its output is a committed dataset, and no run with the same cache key but
  another operation, output or inputs can be registered any more.
\<close>

theorem run_recorded_once:
  assumes "registerTransformResult input run db = Inr db'" "datasets_ok db" "runs_ok db"
    and "catalog_grows db' later" "runs_ok later"
  shows "(\<exists>r. findRun later (ri_key run) = Inr (Some r)
      \<and> ru_op (gr_row r) = ri_op run \<and> ru_op_version (gr_row r) = ri_op_version run
      \<and> ru_output_version (gr_row r) = ri_output_version run
      \<and> sameJsonValue (ru_params (gr_row r)) (ri_params run)
      \<and> gr_input_versions r = ri_input_versions run
      \<and> is_committed later (ri_output_version run))
    \<and> (\<forall>other. ri_key other = ri_key run \<and> (ri_op other \<noteq> ri_op run \<or> ri_op_version other \<noteq> ri_op_version run
          \<or> ri_output_version other \<noteq> ri_output_version run \<or> ri_input_versions other \<noteq> ri_input_versions run)
        \<longrightarrow> (\<exists>e. registerRunInTransaction other later = Inl e))"
proof -
  have recorded: "assertRunInTransaction run db' = Inr ()"
    by (rule registerTransformResult_ok(4) [OF assms(1-3)])
  have rows: "run_rows_ok later" using assms(5) by (simp add: runs_ok_def)
  have asserted: "assertRunInTransaction run later = Inr ()"
    and "\<exists>row. find_run later (ri_key run) = Some row \<and> row \<in> set (runs later)"
    using assertRun_grow [OF recorded _ rows] assms(4) by (simp_all add: catalog_grows_def)
  then obtain row where row: "find_run later (ri_key run) = Some row" "row \<in> set (runs later)" by blast
  note facts = asserted [unfolded assertRunInTransaction_def row(1) option.case Let_def ensure_eq]
  have versions: "map ri_dataset_version (inputs_of later (ri_key run)) = ri_input_versions run"
    using facts by (intro inputs_match) blast+
  have found: "findRun later (ri_key run) = Inr (Some \<lparr>gr_row = row, gr_input_versions = ri_input_versions run\<rparr>)"
    using prismaRowToRun_total [OF assms(5) row(2)] by (simp add: findRun_def row(1) versions)
  have committed: "is_committed later (ri_output_version run)"
    using rows row(2) facts by (auto simp: run_rows_ok_def list_all_iff)
  have refused: "\<exists>e. registerRunInTransaction other later = Inl e"
    if key: "ri_key other = ri_key run" and diff: "ri_op other \<noteq> ri_op run \<or> ri_op_version other \<noteq> ri_op_version run
        \<or> ri_output_version other \<noteq> ri_output_version run \<or> ri_input_versions other \<noteq> ri_input_versions run" for other
  proof (cases "registerRunInTransaction other later")
    case (Inr result)
    obtain db2 created where result: "result = (db2, created)" by (cases result)
    have "assertRunInTransaction other (later\<lparr>next_lineage_seq := next_lineage_seq later + 1\<rparr>) = Inr ()"
      using Inr row(1) unfolding result registerRun_Inr [OF rows] key by auto
    then have other: "assertRunInTransaction other later = Inr ()"
      by (simp add: assertRunInTransaction_def find_run_def inputs_of_def cong: option.case_cong)
    note facts' = other [unfolded assertRunInTransaction_def key row(1) option.case Let_def ensure_eq]
    have "map ri_dataset_version (inputs_of later (ri_key run)) = ri_input_versions other"
      using facts' by (intro inputs_match) blast+
    with versions facts facts' diff show ?thesis by simp
  qed blast
  show ?thesis using found committed facts refused by auto
qed


definition example_run :: run_input where
  "example_run = \<lparr>ri_id = js ''run_'' @ replicate 64 (of_char CHR ''d''), ri_key = replicate 64 (of_char CHR ''d''),
     ri_op = js ''filter'', ri_op_version = js ''v1'', ri_params = JObject [],
     ri_input_versions = [replicate 64 (of_char CHR ''a'')], ri_output_version = replicate 64 (of_char CHR ''a'')\<rparr>"

lemma runs_ok_empty: "runs_ok empty_db"
  by (simp add: runs_ok_def run_rows_ok_def run_inputs_ok_def empty_db_def run_table.keyed_Nil inputs_of_def
      select_where_def order_by_def)

lemma example_transform:
  "registerTransformResult example_registration example_run empty_db = Inr (with_run example_run example_registered)"
proof -
  have reg: "registerLayoutInTransaction example_registration empty_db = Inr example_registered"
    using example_registers by (simp add: registerCommittedLayout_Inr)
  have runs: "runs example_registered = []" "run_inputs example_registered = []"
    using registerLayout_same(1,2) [OF reg] by (simp_all add: empty_db_def)
  have rows: "run_rows_ok example_registered"
    using registerLayout_same [OF reg] by (simp add: run_rows_ok_def) (simp add: empty_db_def run_table.keyed_Nil)
  have snapshot: "find_snapshot example_registered (replicate 64 97) \<noteq> None"
    using registered_facts(1) [OF reg] by (simp add: example_registration_def Let_def)
  have hex: "is_hex_lower 97" "is_hex_lower 100" by (simp_all add: char_class_defs)
  have inputs: "inputs_of (with_run example_run example_registered) (ri_key example_run) = input_rows example_run"
    by (rule trans [OF inputs_of_with_run])
       (simp_all add: run_inputs_ok_def runs inputs_of_def select_where_def order_by_def find_run_def find_first_def)
  have "assertRunInTransaction example_run (with_run example_run example_registered) = Inr ()"
  proof -
    have "find_run (with_run example_run example_registered) (ri_key example_run)
        = Some (run_of example_run (next_lineage_seq example_registered))"
      by (simp add: find_run_def find_first_def with_run_def runs run_of_def)
    then show ?thesis
      by (simp add: assertRunInTransaction_def inputs) (simp add: run_of_def input_rows_def example_run_def)
  qed
  then have "registerRunInTransaction example_run example_registered = Inr (with_run example_run example_registered, True)"
    using snapshot hex unfolding registerRun_Inr [OF rows]
    by (simp add: runs find_run_def find_first_def) (simp add: example_run_def run_check_def run_of_def)
  moreover have "validateRunInput example_registration example_run = Inr ()"
    by (simp add: validateRunInput_def example_registration_def example_run_def Let_def)
  ultimately show ?thesis unfolding registerTransformResult_Inr using example_registers by blast
qed

lemma run_recorded_once_witness:
  "\<exists>r. findRun (with_run example_run example_registered) (ri_key example_run) = Inr (Some r)
     \<and> gr_input_versions r = ri_input_versions example_run"
proof -
  let ?db = "with_run example_run example_registered"
  have "catalog_grows ?db ?db" by (simp add: catalog_grows_def lineage_grows_refl runs_grow_def)
  moreover have "runs_ok ?db" by (rule registerTransformResult_ok(2) [OF example_transform datasets_ok_empty runs_ok_empty])
  ultimately show ?thesis
    using run_recorded_once [OF example_transform datasets_ok_empty runs_ok_empty, of ?db] by blast
qed

section \<open>Paging through the runs\<close>

interpretation run_pages: keyset ru_cache_key "(<)"
  by unfold_locales auto

definition producing :: "catalog_db \<Rightarrow> js_string \<Rightarrow> int \<Rightarrow> run_row list" where
  "producing db version seq =
     order_by ru_cache_key (select_where (\<lambda>r. ru_output_version r = version \<and> ru_lineage_seq r \<le> seq) (runs db))"

lemma producing_ordered: "runs_ok db \<Longrightarrow> run_pages.ordered (producing db version seq)"
  unfolding producing_def run_pages.ordered_def
  by (rule order_by_strict) (simp add: runs_ok_def run_rows_ok_def run_table.keyed_def select_where_def distinct_map_filter)

lemma order_by_map: "order_by id (map key rows) = map key (order_by key rows)"
proof -
  have "sort (map key rows) = map key (sort_key key rows)"
    by (rule properties_for_sort) simp_all
  then show ?thesis by (simp add: order_by_def id_def)
qed

lemma listRunsProducing_eq:
  assumes "runs_ok db" "0 < limit" "limit \<le> 1000" "EXACT_VERSION version" "0 \<le> seq" "seq \<le> POSTGRES_BIGINT_MAX"
    and "case cursor of None \<Rightarrow> True | Some k \<Rightarrow> EXACT_VERSION k"
  shows "listRunsProducing db version limit seq cursor =
    (case run_pages.page (producing db version seq) (nat limit) cursor of (visible, next) \<Rightarrow>
       bindR (traverseR (\<lambda>r. prismaRowToRun r (inputs_of db (ru_cache_key r))) visible) (\<lambda>page. Inr (page, next)))"
proof -
  let ?sel = "run_pages.selected (producing db version seq) cursor"
  have "select_where (\<lambda>r. ru_output_version r = version \<and> ru_lineage_seq r \<le> seq
      \<and> (case cursor of None \<Rightarrow> True | Some k \<Rightarrow> k < ru_cache_key r)) (runs db)
    = filter (\<lambda>r. case cursor of None \<Rightarrow> True | Some k \<Rightarrow> k < ru_cache_key r)
       (select_where (\<lambda>r. ru_output_version r = version \<and> ru_lineage_seq r \<le> seq) (runs db))"
    by (simp add: select_where_def conj_ac)
  then have keys: "order_by id (map ru_cache_key (select_where (\<lambda>r. ru_output_version r = version \<and> ru_lineage_seq r \<le> seq
      \<and> (case cursor of None \<Rightarrow> True | Some k \<Rightarrow> k < ru_cache_key r)) (runs db))) = map ru_cache_key ?sel"
    by (simp only: order_by_map producing_def filter_order_by [symmetric])
       (cases cursor; simp add: run_pages.selected_def)
  have sub: "r \<in> set ?sel \<Longrightarrow> r \<in> set (runs db) \<and> ru_output_version r = version \<and> ru_lineage_seq r \<le> seq" for r
    by (auto simp: run_pages.selected_def producing_def select_where_def split: option.splits)
  have find: "traverseR (\<lambda>k. case find_first (\<lambda>r. ru_cache_key r = k)
      (select_where (\<lambda>r. ru_cache_key r \<in> set (map ru_cache_key xs) \<and> ru_output_version r = version \<and> ru_lineage_seq r \<le> seq) (runs db))
      of None \<Rightarrow> Inl ConsistencyError | Some r \<Rightarrow> Inr r) (map ru_cache_key xs) = Inr xs"
    if "set xs \<subseteq> set ?sel" for xs
  proof -
    let ?rows = "select_where (\<lambda>r. ru_cache_key r \<in> set (map ru_cache_key xs) \<and> ru_output_version r = version \<and> ru_lineage_seq r \<le> seq) (runs db)"
    have "run_table.keyed ?rows"
      using assms(1) by (simp add: runs_ok_def run_rows_ok_def run_table.keyed_def select_where_def distinct_map_filter)
    then have "find_first (\<lambda>s. ru_cache_key s = ru_cache_key r) ?rows = Some r" if "r \<in> set xs" for r
      using that sub \<open>set xs \<subseteq> set ?sel\<close> by (intro run_table.find_key) (auto simp: select_where_def)
    then show ?thesis
      unfolding traverseR_map by (subst traverseR_Inr_map [where g = "\<lambda>r. r"]) auto
  qed
  have "set (take (nat limit + 1) ?sel) \<subseteq> set ?sel" by (rule set_take_subset)
  note found = find [OF this]
  show ?thesis
    using assms
    by (simp add: listRunsProducing_def checkedPageFetchLimit_eq keys take_map found [simplified] Let_def
        run_pages.page_def)
qed


lemma producing_stable:
  assumes "runs_grow db later" "seq < next_lineage_seq db"
  shows "producing later version seq = producing db version seq"
proof -
  obtain new where new: "runs later = runs db @ new" "list_all (\<lambda>r. next_lineage_seq db \<le> ru_lineage_seq r) new"
    using assms(1) by (auto simp: runs_grow_def)
  then have "filter (\<lambda>r. ru_output_version r = version \<and> ru_lineage_seq r \<le> seq) new = []"
    using assms(2) by (auto simp: filter_empty_conv list_all_iff)
  then show ?thesis by (simp add: producing_def select_where_def new(1))
qed

lemma lineageSnapshotSequence_bounds:
  assumes "runs_ok db"
  shows "0 \<le> lineageSnapshotSequence db" "lineageSnapshotSequence db < next_lineage_seq db"
    "r \<in> set (runs db) \<Longrightarrow> ru_lineage_seq r \<le> lineageSnapshotSequence db"
proof -
  have fold: "fold max xs (n :: int) = (if xs = [] then n else max n (Max (set xs)))" for xs n
    by (induction xs arbitrary: n) (auto simp: max.assoc)
  have bounds: "\<forall>r \<in> set (runs db). 0 < ru_lineage_seq r \<and> ru_lineage_seq r < next_lineage_seq db" "0 < next_lineage_seq db"
    using assms by (simp_all add: runs_ok_def run_rows_ok_def list_all_iff)
  then show "0 \<le> lineageSnapshotSequence db" "lineageSnapshotSequence db < next_lineage_seq db"
    unfolding lineageSnapshotSequence_def fold by (auto simp: max_def)
  assume "r \<in> set (runs db)"
  then have "ru_lineage_seq r \<le> Max (ru_lineage_seq ` set (runs db))" by simp
  with \<open>r \<in> set (runs db)\<close> show "ru_lineage_seq r \<le> lineageSnapshotSequence db"
    unfolding lineageSnapshotSequence_def fold by (auto simp: le_max_iff_disj)
qed

text \<open>
  C15: Paging through the runs that produced a dataset is stable under concurrent registration. A reader
  takes the sequence number of the moment and then reads page after page, each from whatever state
  the catalog has reached by then (\<open>state c\<close> for cursor \<open>c\<close>); it gets exactly the runs that existed
  when it started, each once, in increasing order of cache keys.
\<close>

theorem run_paging_stable:
  assumes "runs_ok db" "0 < limit" "limit \<le> 1000" "EXACT_VERSION version"
    and "lineageSnapshotSequence db \<le> POSTGRES_BIGINT_MAX"
    and "\<And>c. runs_ok (state c)" "\<And>c. runs_grow db (state c)"
  shows "\<exists>pages. read_all (\<lambda>c. listRunsProducing (state c) version limit (lineageSnapshotSequence db) c)
        (length (runs db)) None = Inr pages
    \<and> sorted_wrt (<) (map (ru_cache_key \<circ> gr_row) pages)
    \<and> gr_row ` set pages = {r \<in> set (runs db). ru_output_version r = version}
    \<and> list_all (\<lambda>p. gr_input_versions p = map ri_dataset_version (inputs_of db (ru_cache_key (gr_row p)))) pages"
proof -
  let ?seq = "lineageSnapshotSequence db" and ?rows = "producing db version (lineageSnapshotSequence db)"
  let ?view = "\<lambda>r. \<lparr>gr_row = r, gr_input_versions = map ri_dataset_version (inputs_of db (ru_cache_key r))\<rparr>"
  note seq = lineageSnapshotSequence_bounds [OF assms(1)]
  have sub: "r \<in> set ?rows \<Longrightarrow> r \<in> set (runs db)" for r by (simp add: producing_def select_where_def)
  have keys: "EXACT_VERSION (ru_cache_key r)" if "r \<in> set ?rows" for r
    using sub [OF that] assms(1) by (simp add: runs_ok_def run_rows_ok_def list_all_iff run_check_def)
  have view: "prismaRowToRun r (inputs_of (state c) (ru_cache_key r)) = Inr (?view r)" if "r \<in> set ?rows" for r c
  proof -
    have "r \<in> set (runs (state c))" "inputs_of (state c) (ru_cache_key r) = inputs_of db (ru_cache_key r)"
      using assms(7) [of c] sub [OF that] by (auto simp: runs_grow_def)
    with prismaRowToRun_total [OF assms(6)] show ?thesis by metis
  qed
  have page: "listRunsProducing (state c) version limit ?seq c =
      (case run_pages.page ?rows (nat limit) c of (visible, next) \<Rightarrow> Inr (map ?view visible, next))"
    if "case c of None \<Rightarrow> True | Some k \<Rightarrow> EXACT_VERSION k" for c
  proof -
    have "set (fst (run_pages.page ?rows (nat limit) c)) \<subseteq> set ?rows"
      by (auto simp: run_pages.page_def run_pages.selected_def Let_def dest!: in_set_takeD split: option.splits)
    then show ?thesis
      using producing_stable [OF assms(7) seq(2)] view
      by (simp add: listRunsProducing_eq [OF assms(6) assms(2-4) seq(1) assms(5) that] case_prod_unfold
          traverseR_Inr_map [of _ _ ?view] subset_iff)
  qed
  have "read_all (\<lambda>c. listRunsProducing (state c) version limit ?seq c) n cursor =
      bindR (read_all (\<lambda>c. Inr (run_pages.page ?rows (nat limit) c)) n cursor) (\<lambda>rs. Inr (map ?view rs))"
    if "case cursor of None \<Rightarrow> True | Some k \<Rightarrow> EXACT_VERSION k" for n cursor
    using that
  proof (induction n arbitrary: cursor)
    case (Suc n)
    obtain visible after where p: "run_pages.page ?rows (nat limit) cursor = (visible, after)" by fastforce
    have "EXACT_VERSION k" if "after = Some k" for k
    proof -
      have "visible \<noteq> [] \<and> set visible \<subseteq> set ?rows \<and> k = ru_cache_key (last visible)"
        using p that assms(2)
        by (auto simp: run_pages.page_def run_pages.selected_def Let_def split: if_splits option.splits dest!: in_set_takeD)
      then show ?thesis using keys last_in_set by blast
    qed
    with Suc page [OF Suc.prems] p show ?case
      by (cases after) (simp_all add: bindR_def split: sum.split)
  qed simp
  then have "read_all (\<lambda>c. listRunsProducing (state c) version limit ?seq c) (length (runs db)) None =
      bindR (read_all (\<lambda>c. Inr (run_pages.page ?rows (nat limit) c)) (length (runs db)) None) (\<lambda>rs. Inr (map ?view rs))"
    by simp
  also have "read_all (\<lambda>c. Inr (run_pages.page ?rows (nat limit) c)) (length (runs db)) None = Inr ?rows"
    using assms(2) producing_ordered [OF assms(1)]
    by (intro run_pages.read_everything) (auto simp: producing_def select_where_def)
  finally have "read_all (\<lambda>c. listRunsProducing (state c) version limit ?seq c) (length (runs db)) None = Inr (map ?view ?rows)"
    by simp
  moreover have "set ?rows = {r \<in> set (runs db). ru_output_version r = version}"
    using seq(3) by (auto simp: producing_def select_where_def)
  ultimately show ?thesis
    using producing_ordered [OF assms(1), of version ?seq]
    by (simp add: run_pages.ordered_def comp_def image_image list_all_iff)
qed

lemma run_paging_stable_witness:
  "\<exists>pages. read_all (\<lambda>c. listRunsProducing (with_run example_run example_registered) (replicate 64 97) 10
       (lineageSnapshotSequence (with_run example_run example_registered)) c)
       (length (runs (with_run example_run example_registered))) None = Inr pages
     \<and> gr_row ` set pages = {r \<in> set (runs (with_run example_run example_registered)). ru_output_version r = replicate 64 97}"
proof -
  let ?db = "with_run example_run example_registered"
  have ok: "runs_ok ?db" by (rule registerTransformResult_ok(2) [OF example_transform datasets_ok_empty runs_ok_empty])
  have grow: "runs_grow ?db ?db" by (simp add: runs_grow_def)
  have reg: "registerLayoutInTransaction example_registration empty_db = Inr example_registered"
    using example_registers by (simp add: registerCommittedLayout_Inr)
  have "lineageSnapshotSequence ?db \<le> POSTGRES_BIGINT_MAX"
    using registerLayout_same [OF reg]
    by (simp add: lineageSnapshotSequence_def with_run_def run_of_def POSTGRES_BIGINT_MAX_def) (simp add: empty_db_def)
  moreover have "EXACT_VERSION (replicate 64 97)" by (simp add: char_class_defs)
  ultimately show ?thesis
    using run_paging_stable [OF ok, of 10 "replicate 64 97" "\<lambda>_. ?db"] ok grow by auto
qed

end
