(* ===== verification/Ref_Laws.thy ===== *)
theory Ref_Laws
  imports Catalog_Refs
begin

text \<open>
  What the ref operations promise. The specification of a store of refs is a finite map from a
  namespace and a name to a version, a message and a tombstone flag; compare-and-set, deletion and
  restoration of \<open>Catalog_Refs\<close> are shown to be atomic steps on that map, listing to enumerate it.
\<close>

section \<open>The invariant\<close>

definition refs_ok :: "catalog_db \<Rightarrow> bool" where
  "refs_ok db \<longleftrightarrow> ref_table.keyed (refs db) \<and> list_all ref_check (refs db) \<and> list_all (ref_fks db) (refs db)"

definition lookup_ref :: "catalog_db \<Rightarrow> js_string \<times> js_string \<Rightarrow> ref_row option" where
  "lookup_ref db k = ref_table.lookup (refs db) k"

type_synonym ref_state = "js_string \<times> js_string option \<times> bool"

definition abs_refs :: "catalog_db \<Rightarrow> js_string \<times> js_string \<Rightarrow> ref_state option" where
  "abs_refs db k = map_option (\<lambda>r. (rf_version r, rf_message r, rf_deleted_at r \<noteq> None)) (lookup_ref db k)"

lemma find_ref_lookup: "find_ref db ns name = lookup_ref db (ns, name)"
  by (simp add: find_ref_def lookup_ref_def ref_table.lookup_def)

lemma refs_ok_row:
  "refs_ok db \<Longrightarrow> lookup_ref db k = Some r \<Longrightarrow> ref_key r = k \<and> ref_check r \<and> ref_fks db r \<and> r \<in> set (refs db)"
  unfolding refs_ok_def lookup_ref_def list_all_iff by (blast dest: ref_table.lookup_key)

lemma join_snapshot_fks: "ref_fks db r \<Longrightarrow> \<exists>n. join_snapshot db r = Some (sqlRowToRef r n)"
  by (auto simp: ref_fks_def join_snapshot_def)

lemma join_snapshot_key:
  "join_snapshot db r = Some c \<Longrightarrow> cr_namespace_id c = rf_namespace_id r \<and> cr_name c = rf_name r
    \<and> cr_version c = rf_version r \<and> cr_message c = rf_message r \<and> cr_deleted_at c = rf_deleted_at r"
  by (auto simp: join_snapshot_def sqlRowToRef_def)

lemma ref_fks_cong [simp]: "ref_fks (db\<lparr>refs := rows\<rparr>) = ref_fks db"
  by (auto simp: ref_fks_def find_namespace_def find_snapshot_def)

lemma join_snapshot_cong [simp]: "join_snapshot (db\<lparr>refs := rows\<rparr>) = join_snapshot db"
  by (auto simp: join_snapshot_def find_snapshot_def)

lemma refs_keyed: "refs_ok db \<Longrightarrow> ref_table.keyed (refs db)"
  by (simp add: refs_ok_def)

lemmas ref_statements = ref_table.lookup_insert ref_table.returning_key ref_table.select_key
  ref_table.lookup_filter ref_table.lookup_update ref_table.lookup_append

section \<open>Statements\<close>

lemma insert_ref_eq:
  "insert_ref row db =
     (if \<not> ref_check row then Inl CheckViolation
      else case lookup_ref db (ref_key row) of
             Some r \<Rightarrow> Inr (db, False)
           | None \<Rightarrow> if ref_fks db row then Inr (db\<lparr>refs := refs db @ [row]\<rparr>, True) else Inl ForeignKeyViolation)"
proof -
  have "insert_on_conflict_do_nothing ref_conflict row (refs db) =
      (case lookup_ref db (ref_key row) of None \<Rightarrow> (refs db @ [row], True) | Some s \<Rightarrow> (refs db, False))"
    unfolding lookup_ref_def by (rule ref_table.lookup_insert) (auto simp: ref_conflict_def)
  then show ?thesis
    by (simp add: insert_ref_def ensure_def split: option.split)
qed

lemma refs_ok_insert:
  "refs_ok db \<Longrightarrow> lookup_ref db (ref_key row) = None \<Longrightarrow> ref_check row \<Longrightarrow> ref_fks db row
    \<Longrightarrow> refs_ok (db\<lparr>refs := refs db @ [row]\<rparr>)"
  by (auto simp: refs_ok_def lookup_ref_def ref_table.lookup_None ref_table.keyed_def)

lemma lookup_ref_insert:
  "lookup_ref db (ref_key row) = None
    \<Longrightarrow> lookup_ref (db\<lparr>refs := refs db @ [row]\<rparr>) k = (if k = ref_key row then Some row else lookup_ref db k)"
  by (auto simp: lookup_ref_def ref_table.lookup_append split: option.split)

lemma update_refs_eq:
  assumes "refs_ok db"
  shows "update_refs (\<lambda>r. ref_key r = k \<and> q r) f db =
     (case lookup_ref db k of
        Some r \<Rightarrow> if \<not> q r then Inr (db, [])
          else if \<not> ref_check (f r) then Inl CheckViolation
          else if \<not> ref_fks db (f r) then Inl ForeignKeyViolation
          else Inr (db\<lparr>refs := update_where (\<lambda>r. ref_key r = k \<and> q r) f (refs db)\<rparr>, [f r])
      | None \<Rightarrow> Inr (db, []))"
proof (cases "lookup_ref db k")
  case None
  then have "update_where (\<lambda>r. ref_key r = k \<and> q r) f (refs db) = refs db"
    unfolding lookup_ref_def by (rule ref_table.update_missing)
  with None assms show ?thesis
    by (simp add: update_refs_def ref_table.returning_key refs_ok_def lookup_ref_def)
next
  case (Some r)
  show ?thesis
  proof (cases "q r")
    case True
    with Some assms show ?thesis
      by (simp add: update_refs_def ref_table.returning_key refs_ok_def lookup_ref_def ensure_def)
  next
    case False
    with Some assms have "update_where (\<lambda>r. ref_key r = k \<and> q r) f (refs db) = refs db"
      unfolding lookup_ref_def by (blast intro: ref_table.update_other dest: refs_keyed)
    with Some False assms show ?thesis
      by (simp add: update_refs_def ref_table.returning_key refs_ok_def lookup_ref_def)
  qed
qed

lemma refs_ok_update:
  assumes "refs_ok db" "lookup_ref db k = Some r" "q r"
    and f: "\<And>r. ref_key (f r) = ref_key r" "ref_check (f r)" "ref_fks db (f r)"
  shows "refs_ok (db\<lparr>refs := update_where (\<lambda>r. ref_key r = k \<and> q r) f (refs db)\<rparr>)"
    and "lookup_ref (db\<lparr>refs := update_where (\<lambda>r. ref_key r = k \<and> q r) f (refs db)\<rparr>) l
      = (if l = k then Some (f r) else lookup_ref db l)"
proof -
  let ?rows = "update_where (\<lambda>r. ref_key r = k \<and> q r) f (refs db)"
  have unique: "s \<in> set (refs db) \<Longrightarrow> ref_key s = k \<Longrightarrow> s = r" for s
    using assms(1,2) ref_table.lookup_mem unfolding refs_ok_def lookup_ref_def by fastforce
  have mem: "s \<in> set ?rows \<Longrightarrow> s = f r \<or> s \<in> set (refs db)" for s
    using unique by (auto simp: set_update_where)
  have "ref_table.keyed ?rows"
    using assms(1) f(1) by (intro ref_table.keyed_update) (auto simp: refs_ok_def)
  then show "refs_ok (db\<lparr>refs := ?rows\<rparr>)"
    using assms(1) f mem by (auto simp: refs_ok_def list_all_iff)
  have "lookup_ref (db\<lparr>refs := ?rows\<rparr>) l
      = map_option (\<lambda>r. if ref_key r = k \<and> q r then f r else r) (lookup_ref db l)"
    unfolding lookup_ref_def by (simp add: ref_table.lookup_update f)
  also have "\<dots> = (if l = k then Some (f r) else lookup_ref db l)"
    using assms(1-3) refs_ok_row [OF assms(1), of l]
    by (cases "lookup_ref db l") auto
  finally show "lookup_ref (db\<lparr>refs := ?rows\<rparr>) l = (if l = k then Some (f r) else lookup_ref db l)" .
qed


section \<open>Compare and set\<close>

definition cas_expected :: "ref_state option \<Rightarrow> js_string option \<Rightarrow> bool" where
  "cas_expected state expected =
     (case expected of None \<Rightarrow> state = None
      | Some v \<Rightarrow> (case state of None \<Rightarrow> False | Some (w, m, deleted) \<Rightarrow> w = v \<and> \<not> deleted))"

definition spec_compare_and_set :: "(js_string \<Rightarrow> bool) \<Rightarrow> compare_and_set_ref
    \<Rightarrow> (js_string \<times> js_string \<Rightarrow> ref_state option)
    \<Rightarrow> (catalog_error, js_string \<times> js_string \<Rightarrow> ref_state option) result" where
  "spec_compare_and_set committed input m =
     (let k = (cs_namespace_id input, cs_name input); new = cs_new_version input in
      if \<not> committed new then Inl (TargetNotCommittedError new)
      else if cas_expected (m k) (cs_expected_version input)
      then Inr (m(k \<mapsto> (new, cs_message input, False)))
      else Inl (RefConflictError (cs_expected_version input) (map_option fst (m k)) new))"

text \<open>A request the schema accepts: a valid name in a known namespace.\<close>

definition cas_request_ok :: "catalog_db \<Rightarrow> compare_and_set_ref \<Rightarrow> bool" where
  "cas_request_ok db input \<longleftrightarrow>
     ref_check \<lparr>rf_namespace_id = cs_namespace_id input, rf_name = cs_name input,
       rf_version = cs_new_version input, rf_message = cs_message input, rf_updated_at = 0, rf_deleted_at = None\<rparr>
   \<and> find_namespace db (cs_namespace_id input) \<noteq> None"

lemma committed_snapshot: "layouts_ok db \<Longrightarrow> is_committed db v \<Longrightarrow> find_snapshot db v \<noteq> None"
  unfolding layouts_ok_def is_committed_def list_all_iff find_first_None by blast

lemma abs_refs_None: "abs_refs db k = None \<longleftrightarrow> lookup_ref db k = None"
  by (simp add: abs_refs_def)

lemma map_filter_single: "join_snapshot db r = Some c \<Longrightarrow> List.map_filter (join_snapshot db) [r] = [c]"
  by (simp add: List.map_filter_simps)

lemma set_ref_statement_eq:
  assumes "refs_ok db" "layouts_ok db" "cas_request_ok db input" and committed: "is_committed db (cs_new_version input)"
  defines "k \<equiv> (cs_namespace_id input, cs_name input)"
  shows "if cas_expected (abs_refs db k) (cs_expected_version input)
     then \<exists>rows row. set_ref_statement now input db = Inr (db\<lparr>refs := rows\<rparr>, [row])
       \<and> refs_ok (db\<lparr>refs := rows\<rparr>) \<and> rf_version row = cs_new_version input \<and> ref_fks db row
       \<and> abs_refs (db\<lparr>refs := rows\<rparr>) = (abs_refs db)(k \<mapsto> (cs_new_version input, cs_message input, False))
     else set_ref_statement now input db = Inr (db, [])"
proof (cases "cs_expected_version input")
  case None
  let ?row = "\<lparr>rf_namespace_id = cs_namespace_id input, rf_name = cs_name input,
      rf_version = cs_new_version input, rf_message = cs_message input, rf_updated_at = now, rf_deleted_at = None\<rparr>"
  have row: "ref_key ?row = k" "ref_check ?row" "ref_fks db ?row"
    using assms(3) committed_snapshot [OF assms(2) committed]
    by (simp_all add: k_def ref_key_def cas_request_ok_def ref_check_def ref_fks_def)
  show ?thesis
  proof (cases "lookup_ref db k")
    case key: None
    have "lookup_ref (db\<lparr>refs := refs db @ [?row]\<rparr>) l = (if l = k then Some ?row else lookup_ref db l)" for l
      using lookup_ref_insert [of db ?row] key row by simp
    then have "abs_refs (db\<lparr>refs := refs db @ [?row]\<rparr>) = (abs_refs db)(k \<mapsto> (cs_new_version input, cs_message input, False))"
      by (rule_tac ext) (simp add: abs_refs_def)
    moreover have "refs_ok (db\<lparr>refs := refs db @ [?row]\<rparr>)"
      using assms(1) key row by (intro refs_ok_insert) simp_all
    moreover have "set_ref_statement now input db = Inr (db\<lparr>refs := refs db @ [?row]\<rparr>, [?row])"
      using key row by (simp add: set_ref_statement_def None committed insert_ref_eq Let_def)
    moreover have "cas_expected (abs_refs db k) (cs_expected_version input)"
      using key by (simp add: cas_expected_def None abs_refs_def)
    ultimately show ?thesis using row(3) by fastforce
  next
    case (Some r)
    then show ?thesis
      using row by (simp add: set_ref_statement_def None committed insert_ref_eq cas_expected_def abs_refs_def Let_def)
  qed
next
  case (Some v)
  let ?q = "\<lambda>r. rf_version r = v \<and> rf_deleted_at r = None"
  let ?f = "\<lambda>r. r\<lparr>rf_version := cs_new_version input, rf_message := cs_message input, rf_updated_at := now\<rparr>"
  have stmt: "set_ref_statement now input db = update_refs (\<lambda>r. ref_key r = k \<and> ?q r) ?f db"
    by (simp add: set_ref_statement_def Some committed k_def conj_assoc)
  have f: "ref_key (?f r) = ref_key r" "ref_check r \<Longrightarrow> ref_check (?f r)" "ref_fks db r \<Longrightarrow> ref_fks db (?f r)" for r
    using assms(3) committed_snapshot [OF assms(2) committed]
    by (simp_all add: ref_key_def ref_check_def ref_fks_def cas_request_ok_def)
  show ?thesis
  proof (cases "lookup_ref db k")
    case None
    then show ?thesis
      using assms(1) by (simp add: stmt update_refs_eq cas_expected_def Some abs_refs_def)
  next
    case row: (Some r)
    have r: "ref_check (?f r)" "ref_fks db (?f r)" using refs_ok_row [OF assms(1) row] f by blast+
    show ?thesis
    proof (cases "?q r")
      case False
      then show ?thesis
        using assms(1) row by (auto simp: stmt update_refs_eq cas_expected_def Some abs_refs_def)
    next
      case True
      let ?rows = "update_where (\<lambda>r. ref_key r = k \<and> ?q r) ?f (refs db)"
      have upd: "refs_ok (db\<lparr>refs := ?rows\<rparr>)"
        "lookup_ref (db\<lparr>refs := ?rows\<rparr>) l = (if l = k then Some (?f r) else lookup_ref db l)" for l
        using refs_ok_update [of db k r ?q ?f] assms(1) row True f(1) r by simp_all
      have "abs_refs (db\<lparr>refs := ?rows\<rparr>) = (abs_refs db)(k \<mapsto> (cs_new_version input, cs_message input, False))"
        using upd(2) True by (intro ext) (simp add: abs_refs_def)
      moreover have "set_ref_statement now input db = Inr (db\<lparr>refs := ?rows\<rparr>, [?f r])"
        using assms(1) row True r by (simp add: stmt update_refs_eq)
      moreover have "cas_expected (abs_refs db k) (cs_expected_version input)"
        using True row by (simp add: cas_expected_def Some abs_refs_def)
      ultimately show ?thesis using upd(1) r(2) by fastforce
    qed
  qed
qed


text \<open>
  C10: Compare-and-set implements its specification, an atomic conditional assignment on the map of
  refs. On a database that meets the constraints, for a valid name in a known namespace, it returns
  the updated ref exactly when the target is committed and the ref is in the state that the caller
  expects, absent or active at that version, and throws the error of the specification otherwise; no
  other table changes. A tombstone therefore blocks both creating and moving a ref.
\<close>

theorem compare_and_set_refines:
  assumes "refs_ok db" "layouts_ok db" "cas_request_ok db input"
  shows "case compareAndSetRef now input db of
      Inl e \<Rightarrow> spec_compare_and_set (is_committed db) input (abs_refs db) = Inl e
    | Inr (db', row) \<Rightarrow>
        spec_compare_and_set (is_committed db) input (abs_refs db) = Inr (abs_refs db')
        \<and> refs_ok db' \<and> (\<exists>rows. db' = db\<lparr>refs := rows\<rparr>) \<and> cr_version row = cs_new_version input"
proof (cases "is_committed db (cs_new_version input)")
  case False
  let ?k = "(cs_namespace_id input, cs_name input)"
  have "set_ref_statement now input db = Inr (db, [])"
  proof (cases "cs_expected_version input")
    case None
    with False show ?thesis by (simp add: set_ref_statement_def Let_def)
  next
    case (Some v)
    have none: "(\<lambda>r. ref_key r = ?k \<and> rf_version r = v \<and> rf_deleted_at r = None \<and> is_committed db (cs_new_version input))
        = (\<lambda>r. ref_key r = ?k \<and> False)"
      using False by simp
    have "set_ref_statement now input db = update_refs (\<lambda>r. ref_key r = ?k \<and> False)
        (\<lambda>r. r\<lparr>rf_version := cs_new_version input, rf_message := cs_message input, rf_updated_at := now\<rparr>) db"
      unfolding set_ref_statement_def Some option.case none by (rule refl)
    then show ?thesis
      using update_refs_eq [OF assms(1), of ?k "\<lambda>_. False"] by (simp split: option.splits)
  qed
  with False show ?thesis
    by (simp add: compareAndSetRef_def spec_compare_and_set_def Let_def List.map_filter_simps)
next
  case True
  let ?k = "(cs_namespace_id input, cs_name input)"
  note stmt = set_ref_statement_eq [OF assms True, of now]
  show ?thesis
  proof (cases "cas_expected (abs_refs db ?k) (cs_expected_version input)")
    case False
    with stmt have "set_ref_statement now input db = Inr (db, [])" by simp
    with True False show ?thesis
      by (simp add: compareAndSetRef_def spec_compare_and_set_def Let_def List.map_filter_simps
          find_ref_lookup abs_refs_def option.map_comp comp_def)
  next
    case expected: True
    with stmt obtain rows row where s: "set_ref_statement now input db = Inr (db\<lparr>refs := rows\<rparr>, [row])"
      "refs_ok (db\<lparr>refs := rows\<rparr>)" "rf_version row = cs_new_version input" "ref_fks db row"
      "abs_refs (db\<lparr>refs := rows\<rparr>) = (abs_refs db)(?k \<mapsto> (cs_new_version input, cs_message input, False))"
      by auto
    obtain n where n: "join_snapshot db row = Some (sqlRowToRef row n)"
      using join_snapshot_fks s(4) by blast
    with s expected True show ?thesis
      by (auto simp: compareAndSetRef_def spec_compare_and_set_def Let_def List.map_filter_simps sqlRowToRef_def)
  qed
qed


definition example_version :: "char \<Rightarrow> js_string" where
  "example_version c = replicate 64 (of_char c)"

definition example_refs_db :: catalog_db where
  "example_refs_db = empty_db\<lparr>
     snapshots := map (\<lambda>c. \<lparr>sn_version = example_version c, sn_identity_profile = js ''p'',
       sn_record_schema_version = js ''v2'', sn_num_records = 3\<rparr>) [CHR ''a'', CHR ''b''],
     layouts := map (\<lambda>c. \<lparr>la_dataset_version = example_version c, la_layout_version = js ''l1'',
       la_artifact_digest = example_version c, la_artifact_size_bytes = 10,
       la_manifest_key = example_version c, la_columns = []\<rparr>) [CHR ''a'', CHR ''b''],
     namespaces := [\<lparr>na_id = js ''ns'', na_scope = js ''default''\<rparr>],
     refs := [\<lparr>rf_namespace_id = js ''ns'', rf_name = js ''main'', rf_version = example_version CHR ''a'',
       rf_message = None, rf_updated_at = 7, rf_deleted_at = None\<rparr>]\<rparr>"

definition example_move :: compare_and_set_ref where
  "example_move = \<lparr>cs_namespace_id = js ''ns'', cs_name = js ''main'', cs_new_version = example_version CHR ''b'',
     cs_expected_version = Some (example_version CHR ''a''), cs_message = None\<rparr>"

lemma not_version_example: "\<not> EXACT_VERSION (js ''main'')"
  by (simp add: EXACT_VERSION_def is_hex_def)

lemma example_refs:
  "refs_ok example_refs_db" "layouts_ok example_refs_db" "cas_request_ok example_refs_db example_move"
  by (simp_all add: refs_ok_def layouts_ok_def cas_request_ok_def example_refs_db_def example_move_def
      empty_db_def ref_table.keyed_def ref_check_def ref_fks_def find_namespace_def find_snapshot_def
      find_first_def SAFE_REF_NAME_def matches_name_def char_class_defs example_version_def not_version_example [simplified])

lemma compare_and_set_refines_witness:
  "case compareAndSetRef 9 example_move example_refs_db of
      Inl e \<Rightarrow> spec_compare_and_set (is_committed example_refs_db) example_move (abs_refs example_refs_db) = Inl e
    | Inr (db', row) \<Rightarrow>
        spec_compare_and_set (is_committed example_refs_db) example_move (abs_refs example_refs_db) = Inr (abs_refs db')
        \<and> refs_ok db' \<and> (\<exists>rows. db' = example_refs_db\<lparr>refs := rows\<rparr>) \<and> cr_version row = cs_new_version example_move"
  by (rule compare_and_set_refines [OF example_refs])

section \<open>Deletion and restoration\<close>

lemma update_deleted_at:
  fixes d :: "int option"
  assumes "refs_ok db" "lookup_ref db k = Some r" "q r"
  defines "rows \<equiv> update_where (\<lambda>r. ref_key r = k \<and> q r) (\<lambda>r. r\<lparr>rf_deleted_at := d\<rparr>) (refs db)"
  shows "update_refs (\<lambda>r. ref_key r = k \<and> q r) (\<lambda>r. r\<lparr>rf_deleted_at := d\<rparr>) db
      = Inr (db\<lparr>refs := rows\<rparr>, [r\<lparr>rf_deleted_at := d\<rparr>])"
    and "refs_ok (db\<lparr>refs := rows\<rparr>)"
    and "lookup_ref (db\<lparr>refs := rows\<rparr>) l = (if l = k then Some (r\<lparr>rf_deleted_at := d\<rparr>) else lookup_ref db l)"
proof -
  have r: "ref_check (r\<lparr>rf_deleted_at := d\<rparr>)" "ref_fks db (r\<lparr>rf_deleted_at := d\<rparr>)"
    using refs_ok_row [OF assms(1,2)] by (simp_all add: ref_check_def ref_fks_def)
  have f: "\<And>r. ref_key (r\<lparr>rf_deleted_at := d\<rparr>) = ref_key r" by (simp add: ref_key_def)
  show "update_refs (\<lambda>r. ref_key r = k \<and> q r) (\<lambda>r. r\<lparr>rf_deleted_at := d\<rparr>) db
      = Inr (db\<lparr>refs := rows\<rparr>, [r\<lparr>rf_deleted_at := d\<rparr>])"
    using assms(1-3) r by (simp add: update_refs_eq rows_def)
  show "refs_ok (db\<lparr>refs := rows\<rparr>)"
    "lookup_ref (db\<lparr>refs := rows\<rparr>) l = (if l = k then Some (r\<lparr>rf_deleted_at := d\<rparr>) else lookup_ref db l)"
    using refs_ok_update [of db k r q "\<lambda>r. r\<lparr>rf_deleted_at := d\<rparr>"] assms(1-3) f r
    by (simp_all add: rows_def)
qed

lemma lock_eq:
  assumes "refs_ok db"
  shows "lockRefForStateChange db ns name =
     (case lookup_ref db (ns, name) of None \<Rightarrow> Inr None | Some r \<Rightarrow> Inr (join_snapshot db r))"
    and "lookup_ref db (ns, name) = Some r \<Longrightarrow> \<exists>n. join_snapshot db r = Some (sqlRowToRef r n)"
proof -
  have select: "select_where (\<lambda>r. ref_key r = (ns, name)) (refs db) = (case lookup_ref db (ns, name) of None \<Rightarrow> [] | Some r \<Rightarrow> [r])"
    using ref_table.select_key [OF refs_keyed [OF assms], of "(ns, name)" "\<lambda>_. True"]
    by (simp add: lookup_ref_def split: option.splits)
  show join: "lookup_ref db (ns, name) = Some r \<Longrightarrow> \<exists>n. join_snapshot db r = Some (sqlRowToRef r n)" for r
    using refs_ok_row [OF assms] join_snapshot_fks by blast
  show "lockRefForStateChange db ns name =
     (case lookup_ref db (ns, name) of None \<Rightarrow> Inr None | Some r \<Rightarrow> Inr (join_snapshot db r))"
    using join by (auto simp: lockRefForStateChange_def select find_ref_lookup Let_def split: option.split)
qed

definition state_key :: "ref_state_input \<Rightarrow> js_string \<times> js_string" where
  "state_key input = (rs_namespace_id input, rs_name input)"

lemma deleteRef_eq:
  assumes "refs_ok db"
  shows "deleteRef now input db =
    (case lookup_ref db (state_key input) of
       None \<Rightarrow> Inr (db, DeleteMissing)
     | Some r \<Rightarrow>
         if rf_version r \<noteq> rs_expected_version input
         then Inl (RefStateConflictError (rf_version r) (rf_deleted_at r = None) DeleteOperation)
         else if rf_deleted_at r \<noteq> None then Inr (db, AlreadyDeleted (the (join_snapshot db r)))
         else Inr (db\<lparr>refs := update_where (\<lambda>r. ref_key r = state_key input
                \<and> (rf_version r = rs_expected_version input \<and> rf_deleted_at r = None))
              (\<lambda>r. r\<lparr>rf_deleted_at := Some now\<rparr>) (refs db)\<rparr>,
            RefDeleted ((the (join_snapshot db r))\<lparr>cr_deleted_at := Some now\<rparr>)))"
proof (cases "lookup_ref db (state_key input)")
  case None
  with lock_eq(1) [OF assms] show ?thesis by (simp add: deleteRef_def state_key_def)
next
  case (Some r)
  then obtain n where n: "join_snapshot db r = Some (sqlRowToRef r n)"
    using lock_eq(2) [OF assms] unfolding state_key_def by blast
  show ?thesis
    using lock_eq(1) [OF assms] Some n
      update_deleted_at(1) [OF assms Some, of "\<lambda>r. rf_version r = rs_expected_version input \<and> rf_deleted_at r = None"]
    by (auto simp: deleteRef_def state_key_def sqlRowToRef_def refStateConflict_def ensure_def)
qed

lemma restoreRef_eq:
  assumes "refs_ok db"
  shows "restoreRef input db =
    (case lookup_ref db (state_key input) of
       None \<Rightarrow> Inr (db, RestoreMissing)
     | Some r \<Rightarrow>
         if rf_version r \<noteq> rs_expected_version input
         then Inl (RefStateConflictError (rf_version r) (rf_deleted_at r = None) RestoreOperation)
         else if rf_deleted_at r = None then Inr (db, AlreadyActive (the (join_snapshot db r)))
         else Inr (db\<lparr>refs := update_where (\<lambda>r. ref_key r = state_key input
                \<and> (rf_version r = rs_expected_version input \<and> rf_deleted_at r \<noteq> None))
              (\<lambda>r. r\<lparr>rf_deleted_at := None\<rparr>) (refs db)\<rparr>,
            RefRestored ((the (join_snapshot db r))\<lparr>cr_deleted_at := None\<rparr>)))"
proof (cases "lookup_ref db (state_key input)")
  case None
  with lock_eq(1) [OF assms] show ?thesis by (simp add: restoreRef_def state_key_def)
next
  case (Some r)
  then obtain n where n: "join_snapshot db r = Some (sqlRowToRef r n)"
    using lock_eq(2) [OF assms] unfolding state_key_def by blast
  show ?thesis
    using lock_eq(1) [OF assms] Some n
      update_deleted_at(1) [OF assms Some, of "\<lambda>r. rf_version r = rs_expected_version input \<and> rf_deleted_at r \<noteq> None"]
    by (auto simp: restoreRef_def state_key_def sqlRowToRef_def refStateConflict_def ensure_def)
qed


text \<open>
  C13: Deleting a ref and restoring it are exact. On a database that meets the constraints, deleting
  an absent ref reports it missing, a stale expected version throws the conflict with the current
  version and state, a tombstone is reported as such without a change, and otherwise exactly this
  ref gets a tombstone and keeps version and message; restoring is symmetric. No other error arises.
\<close>

theorem delete_restore_exact:
  fixes input :: ref_state_input
  assumes "refs_ok db"
  defines "k \<equiv> state_key input"
  shows "case abs_refs db k of
      None \<Rightarrow> deleteRef now input db = Inr (db, DeleteMissing) \<and> restoreRef input db = Inr (db, RestoreMissing)
    | Some (v, m, deleted) \<Rightarrow>
        if v \<noteq> rs_expected_version input
        then deleteRef now input db = Inl (RefStateConflictError v (\<not> deleted) DeleteOperation)
           \<and> restoreRef input db = Inl (RefStateConflictError v (\<not> deleted) RestoreOperation)
        else if deleted
        then (\<exists>row. deleteRef now input db = Inr (db, AlreadyDeleted row))
           \<and> (\<exists>row rows. restoreRef input db = Inr (db\<lparr>refs := rows\<rparr>, RefRestored row)
                \<and> refs_ok (db\<lparr>refs := rows\<rparr>) \<and> abs_refs (db\<lparr>refs := rows\<rparr>) = (abs_refs db)(k \<mapsto> (v, m, False)))
        else (\<exists>row. restoreRef input db = Inr (db, AlreadyActive row))
           \<and> (\<exists>row rows. deleteRef now input db = Inr (db\<lparr>refs := rows\<rparr>, RefDeleted row)
                \<and> refs_ok (db\<lparr>refs := rows\<rparr>) \<and> abs_refs (db\<lparr>refs := rows\<rparr>) = (abs_refs db)(k \<mapsto> (v, m, True)))"
proof (cases "lookup_ref db k")
  case None
  then show ?thesis
    using deleteRef_eq [OF assms(1)] restoreRef_eq [OF assms(1)] by (simp add: abs_refs_def k_def)
next
  case (Some r)
  note eqs = deleteRef_eq [OF assms(1), of now input] restoreRef_eq [OF assms(1), of input]
  show ?thesis
  proof (cases "rf_deleted_at r")
    case None
    note upd = update_deleted_at [OF assms(1) Some,
      of "\<lambda>r. rf_version r = rs_expected_version input \<and> rf_deleted_at r = None" "Some now"]
    have "rf_version r = rs_expected_version input \<Longrightarrow> abs_refs (db\<lparr>refs := update_where (\<lambda>r. ref_key r = k
          \<and> (rf_version r = rs_expected_version input \<and> rf_deleted_at r = None))
        (\<lambda>r. r\<lparr>rf_deleted_at := Some now\<rparr>) (refs db)\<rparr>) = (abs_refs db)(k \<mapsto> (rf_version r, rf_message r, True))"
      using upd(3) None by (intro ext) (simp add: abs_refs_def)
    with eqs Some None upd(2) show ?thesis
      by (auto simp: abs_refs_def k_def)
  next
    case (Some d)
    note upd = update_deleted_at [OF assms(1) \<open>lookup_ref db k = Some r\<close>,
      of "\<lambda>r. rf_version r = rs_expected_version input \<and> rf_deleted_at r \<noteq> None" None]
    have "rf_version r = rs_expected_version input \<Longrightarrow> abs_refs (db\<lparr>refs := update_where (\<lambda>r. ref_key r = k
          \<and> (rf_version r = rs_expected_version input \<and> rf_deleted_at r \<noteq> None))
        (\<lambda>r. r\<lparr>rf_deleted_at := None\<rparr>) (refs db)\<rparr>) = (abs_refs db)(k \<mapsto> (rf_version r, rf_message r, False))"
      using upd(3) Some by (intro ext) (simp add: abs_refs_def)
    with eqs Some \<open>lookup_ref db k = Some r\<close> upd(2) show ?thesis
      by (auto simp: abs_refs_def k_def)
  qed
qed

lemma delete_restore_exact_witness:
  "\<exists>row rows. deleteRef 9 \<lparr>rs_namespace_id = js ''ns'', rs_name = js ''main'', rs_expected_version = example_version CHR ''a''\<rparr>
     example_refs_db = Inr (example_refs_db\<lparr>refs := rows\<rparr>, RefDeleted row)"
  using delete_restore_exact [OF example_refs(1), where
      input = "\<lparr>rs_namespace_id = js ''ns'', rs_name = js ''main'', rs_expected_version = example_version CHR ''a''\<rparr>"
      and now = 9]
  by (auto simp: abs_refs_def lookup_ref_def example_refs_db_def ref_key_def state_key_def)

lemma find_active:
  assumes "refs_ok db"
  shows "getRef db ns name = (case lookup_ref db (ns, name) of None \<Rightarrow> None
      | Some r \<Rightarrow> if rf_deleted_at r = None then join_snapshot db r else None)"
    and "getDeletedRef db ns name = (case lookup_ref db (ns, name) of None \<Rightarrow> None
      | Some r \<Rightarrow> if rf_deleted_at r \<noteq> None then join_snapshot db r else None)"
  using ref_table.lookup_filter [OF refs_keyed [OF assms], of "(ns, name)" "\<lambda>r. rf_deleted_at r = None"]
    ref_table.lookup_filter [OF refs_keyed [OF assms], of "(ns, name)" "\<lambda>r. rf_deleted_at r \<noteq> None"]
  by (simp_all add: getRef_def getDeletedRef_def lookup_ref_def split: option.split)

text \<open>
  Restoring undoes deleting. After a deletion the name resolves to no version, the tombstone is
  readable, and restoring it with the same expected version gives back the very database from
  before the deletion, with the same version, message and update time.
\<close>

lemma delete_then_restore:
  assumes "refs_ok db" "deleteRef now input db = Inr (db', RefDeleted row)"
  shows "getRef db' (rs_namespace_id input) (rs_name input) = None
    \<and> getDeletedRef db' (rs_namespace_id input) (rs_name input) = Some row
    \<and> restoreRef input db' = Inr (db, RefRestored (row\<lparr>cr_deleted_at := None\<rparr>))"
proof -
  let ?k = "state_key input" and ?v = "rs_expected_version input"
  obtain r where r: "lookup_ref db ?k = Some r" "rf_version r = ?v" "rf_deleted_at r = None"
    and db': "db' = db\<lparr>refs := update_where (\<lambda>r. ref_key r = ?k \<and> (rf_version r = ?v \<and> rf_deleted_at r = None))
        (\<lambda>r. r\<lparr>rf_deleted_at := Some now\<rparr>) (refs db)\<rparr>"
    and row: "row = (the (join_snapshot db r))\<lparr>cr_deleted_at := Some now\<rparr>"
    using assms(2) unfolding deleteRef_eq [OF assms(1)] by (auto split: option.splits if_splits)
  let ?r = "r\<lparr>rf_deleted_at := Some now\<rparr>"
  note upd = update_deleted_at [OF assms(1) r(1), of "\<lambda>r. rf_version r = ?v \<and> rf_deleted_at r = None" "Some now"]
  have ok: "refs_ok db'" and found: "lookup_ref db' ?k = Some ?r"
    using upd(2,3) r by (simp_all add: db')
  obtain n where n: "join_snapshot db r = Some (sqlRowToRef r n)"
    using refs_ok_row [OF assms(1) r(1)] join_snapshot_fks by blast
  then have join: "join_snapshot db' ?r = Some row"
    by (auto simp: db' row join_snapshot_def sqlRowToRef_def)
  have undo: "update_where (\<lambda>r. ref_key r = ?k \<and> (rf_version r = ?v \<and> rf_deleted_at r \<noteq> None))
      (\<lambda>r. r\<lparr>rf_deleted_at := None\<rparr>) (refs db') = refs db"
  proof -
    have "s = r" if "s \<in> set (refs db)" "ref_key s = ?k" for s
      using that r(1) ref_table.lookup_mem refs_keyed [OF assms(1)] unfolding lookup_ref_def by fastforce
    then show ?thesis
      using r by (auto simp: db' update_where_def ref_key_def intro!: map_idI)
  qed
  have "restoreRef input db' = Inr (db'\<lparr>refs := refs db\<rparr>, RefRestored (row\<lparr>cr_deleted_at := None\<rparr>))"
    using restoreRef_eq [OF ok, of input] found join r undo by simp
  moreover have "db'\<lparr>refs := refs db\<rparr> = db" by (simp add: db')
  ultimately show ?thesis
    using find_active [OF ok, of "rs_namespace_id input" "rs_name input"] found join
    by (simp add: state_key_def)
qed

lemma delete_then_restore_example:
  "\<exists>db' row. getRef db' (js ''ns'') (js ''main'') = None
    \<and> restoreRef \<lparr>rs_namespace_id = js ''ns'', rs_name = js ''main'', rs_expected_version = example_version CHR ''a''\<rparr> db'
        = Inr (example_refs_db, RefRestored (row\<lparr>cr_deleted_at := None\<rparr>))"
proof -
  let ?i = "\<lparr>rs_namespace_id = js ''ns'', rs_name = js ''main'', rs_expected_version = example_version CHR ''a''\<rparr>"
  have "lookup_ref example_refs_db (state_key ?i) \<noteq> None"
    by (simp add: lookup_ref_def example_refs_db_def ref_key_def state_key_def)
  then obtain db' row where "deleteRef 9 ?i example_refs_db = Inr (db', RefDeleted row)"
    unfolding deleteRef_eq [OF example_refs(1)]
    by (auto simp: lookup_ref_def example_refs_db_def ref_key_def state_key_def)
  from delete_then_restore [OF example_refs(1) this] show ?thesis by fastforce
qed


section \<open>Listing\<close>

interpretation ref_pages: keyset cr_name "(<)"
  by unfold_locales auto

definition listed :: "(ref_row \<Rightarrow> bool) \<Rightarrow> catalog_db \<Rightarrow> js_string \<Rightarrow> catalog_ref list" where
  "listed p db ns = order_by cr_name (List.map_filter (join_snapshot db)
     (select_where (\<lambda>r. rf_namespace_id r = ns \<and> p r) (refs db)))"

lemma map_filter_filter:
  "(\<And>r c. f r = Some c \<Longrightarrow> g r = h c) \<Longrightarrow> List.map_filter f (filter g xs) = filter h (List.map_filter f xs)"
  by (induction xs) (auto simp: List.map_filter_simps split: option.split)

lemma selected_listed:
  "order_by cr_name (List.map_filter (join_snapshot db)
      (select_where (\<lambda>r. rf_namespace_id r = ns \<and> p r \<and> (case cursor of None \<Rightarrow> True | Some a \<Rightarrow> a < rf_name r)) (refs db)))
    = ref_pages.selected (listed p db ns) cursor"
proof (cases cursor)
  case None
  then show ?thesis by (simp add: listed_def ref_pages.selected_def)
next
  case (Some a)
  have "select_where (\<lambda>r. rf_namespace_id r = ns \<and> p r \<and> a < rf_name r) (refs db)
      = filter (\<lambda>r. a < rf_name r) (select_where (\<lambda>r. rf_namespace_id r = ns \<and> p r) (refs db))"
    by (simp add: select_where_def conj_ac)
  moreover have "List.map_filter (join_snapshot db) (filter (\<lambda>r. a < rf_name r) rows)
      = filter (\<lambda>c. a < cr_name c) (List.map_filter (join_snapshot db) rows)" for rows
    by (rule map_filter_filter) (auto dest: join_snapshot_key)
  ultimately show ?thesis
    using Some by (simp add: listed_def ref_pages.selected_def filter_order_by)
qed

lemma page_of_page:
  "0 < limit \<Longrightarrow> page_of (nat limit + 1) limit (ref_pages.selected rows cursor) = ref_pages.page rows (nat limit) cursor"
  "0 < limit \<Longrightarrow> page_of (Suc (nat limit)) limit (ref_pages.selected rows cursor) = ref_pages.page rows (nat limit) cursor"
  by (auto simp: page_of_def ref_pages.page_def Let_def)

lemma map_filter_names:
  "set (map cr_name (List.map_filter (join_snapshot db) rows)) \<subseteq> rf_name ` set rows"
  "distinct (map rf_name rows) \<Longrightarrow> distinct (map cr_name (List.map_filter (join_snapshot db) rows))"
proof -
  show sub: "set (map cr_name (List.map_filter (join_snapshot db) rows)) \<subseteq> rf_name ` set rows" for rows
    using join_snapshot_key by (fastforce simp: List.map_filter_def image_iff)
  show "distinct (map rf_name rows) \<Longrightarrow> distinct (map cr_name (List.map_filter (join_snapshot db) rows))"
  proof (induction rows)
    case (Cons r rows)
    then show ?case
      using sub [of rows] join_snapshot_key [of db r]
      by (auto simp: List.map_filter_simps split: option.split)
  qed (simp add: List.map_filter_simps)
qed

lemma distinct_names:
  "distinct (map ref_key rows) \<Longrightarrow> distinct (map rf_name (filter (\<lambda>r. rf_namespace_id r = ns \<and> p r) rows))"
proof (induction rows)
  case (Cons r rows)
  have "s \<in> set rows \<Longrightarrow> rf_namespace_id s = rf_namespace_id r \<Longrightarrow> rf_name s \<noteq> rf_name r" for s
    using Cons.prems by (auto simp: ref_key_def image_iff)
  with Cons show ?case by fastforce
qed simp

lemma listed_ordered: "refs_ok db \<Longrightarrow> ref_pages.ordered (listed p db ns)"
  unfolding listed_def ref_pages.ordered_def select_where_def
  by (intro order_by_strict map_filter_names distinct_names) (simp add: refs_ok_def ref_table.keyed_def)

lemma set_listed:
  "c \<in> set (listed p db ns) \<longleftrightarrow> (\<exists>r \<in> set (refs db). rf_namespace_id r = ns \<and> p r \<and> join_snapshot db r = Some c)"
  by (auto simp: listed_def List.map_filter_def select_where_def image_iff intro!: bexI)

lemma length_listed: "length (listed p db ns) \<le> length (refs db)"
proof -
  have "length (List.map_filter f xs) \<le> length xs" for f :: "ref_row \<Rightarrow> catalog_ref option" and xs
    by (induction xs) (auto simp: List.map_filter_simps split: option.split)
  then show ?thesis
    unfolding listed_def length_order_by select_where_def by (meson length_filter_le le_trans)
qed

text \<open>
  C18: Listing enumerates the namespace. With any page size the catalog accepts, following the cursors
  of \<open>listRefs\<close> from the start yields every active ref of the namespace once, in increasing order of
  names, each joined with its snapshot, and nothing else; \<open>listDeletedRefs\<close> does the same for the
  tombstones. As many requests as there are rows are enough.
\<close>

theorem ref_listing_complete:
  assumes "refs_ok db" "0 < limit" "limit \<le> 1000"
  shows "\<exists>active deleted.
      read_all (listRefs db ns limit) (length (refs db)) None = Inr active
    \<and> read_all (listDeletedRefs db ns limit) (length (refs db)) None = Inr deleted
    \<and> sorted_wrt (<) (map cr_name active) \<and> sorted_wrt (<) (map cr_name deleted)
    \<and> set active = {c. \<exists>r \<in> set (refs db). rf_namespace_id r = ns \<and> rf_deleted_at r = None \<and> join_snapshot db r = Some c}
    \<and> set deleted = {c. \<exists>r \<in> set (refs db). rf_namespace_id r = ns \<and> rf_deleted_at r \<noteq> None \<and> join_snapshot db r = Some c}"
proof -
  have fetch: "listRefs db ns limit cursor = Inr (ref_pages.page (listed (\<lambda>r. rf_deleted_at r = None) db ns) (nat limit) cursor)"
    "listDeletedRefs db ns limit cursor = Inr (ref_pages.page (listed (\<lambda>r. rf_deleted_at r \<noteq> None) db ns) (nat limit) cursor)"
    for cursor
    using assms(2,3) unfolding listRefs_def listDeletedRefs_def selected_listed checkedPageFetchLimit_eq
    by (simp_all add: page_of_page)
  have "read_all (listRefs db ns limit) (length (refs db)) None = Inr (listed (\<lambda>r. rf_deleted_at r = None) db ns)"
    "read_all (listDeletedRefs db ns limit) (length (refs db)) None = Inr (listed (\<lambda>r. rf_deleted_at r \<noteq> None) db ns)"
    using assms fetch length_listed
    by (auto intro!: ref_pages.read_everything [where limit = "nat limit"] listed_ordered)
  then show ?thesis
    using listed_ordered [OF assms(1)] by (auto simp: set_listed ref_pages.ordered_def) blast
qed

lemma ref_listing_complete_witness:
  "\<exists>active. read_all (listRefs example_refs_db (js ''ns'') 5) (length (refs example_refs_db)) None = Inr active
     \<and> sorted_wrt (<) (map cr_name active)"
  using ref_listing_complete [OF example_refs(1), of 5 "js ''ns''"] by fastforce


section \<open>Identity claims\<close>

definition claims_ok :: "catalog_db \<Rightarrow> bool" where
  "claims_ok db \<longleftrightarrow> claim_table.keyed (claims db) \<and> claim_entity_table.keyed (claims db)
     \<and> list_all claim_check (claims db)
     \<and> list_all (\<lambda>r. find_namespace db (cl_namespace_id r) \<noteq> None) (claims db)"

fun claimed_row :: "claim_result \<Rightarrow> claim_row" where
  "claimed_row (Created r) = r"
| "claimed_row (ExistingClaim r) = r"
| "claimed_row (ExistingEntity r) = r"

text \<open>A later state: claims are only added.\<close>

definition claims_grow :: "catalog_db \<Rightarrow> catalog_db \<Rightarrow> bool" where
  "claims_grow db db' \<longleftrightarrow> set (claims db) \<subseteq> set (claims db')"

lemma claim_insert_eq:
  "insertOrReadIdentityClaim input db =
     (if \<not> claim_check input then Inl CheckViolation
      else case claim_table.lookup (claims db) (claim_key input) of
        Some r \<Rightarrow> Inr (db, ExistingClaim r)
      | None \<Rightarrow> (case claim_entity_table.lookup (claims db) (claim_entity input) of
          Some r \<Rightarrow> Inr (db, ExistingEntity r)
        | None \<Rightarrow> if find_namespace db (cl_namespace_id input) \<noteq> None
                  then Inr (db\<lparr>claims := claims db @ [input]\<rparr>, Created input)
                  else Inl ForeignKeyViolation))"
proof -
  have free: "\<not> list_ex (claim_conflict input) (claims db) \<longleftrightarrow>
      claim_table.lookup (claims db) (claim_key input) = None
      \<and> claim_entity_table.lookup (claims db) (claim_entity input) = None"
    by (auto simp: list_ex_iff claim_conflict_def claim_table.lookup_None claim_entity_table.lookup_None image_iff)
  show ?thesis
  proof (cases "list_ex (claim_conflict input) (claims db)")
    case True
    with free show ?thesis
      by (auto simp: insertOrReadIdentityClaim_def insert_on_conflict_do_nothing_def ensure_def
          claim_table.lookup_def claim_entity_table.lookup_def split: option.splits)
  next
    case False
    with free show ?thesis
      by (simp add: insertOrReadIdentityClaim_def insert_on_conflict_do_nothing_def ensure_def)
  qed
qed

lemma claims_ok_insert:
  assumes "claims_ok db" "insertOrReadIdentityClaim input db = Inr (db', result)"
  shows "claims_ok db'" "claims_grow db db'" "claimed_row result \<in> set (claims db')"
proof -
  have ns: "find_namespace (db\<lparr>claims := rows\<rparr>) = find_namespace db" for rows
    by (auto simp: find_namespace_def)
  show "claims_ok db'" "claims_grow db db'"
    using assms unfolding claim_insert_eq
    by (auto simp: claims_ok_def claims_grow_def ns claim_table.keyed_def claim_entity_table.keyed_def
        claim_table.lookup_None claim_entity_table.lookup_None split: if_splits option.splits)
  show "claimed_row result \<in> set (claims db')"
    using assms unfolding claim_insert_eq
    by (auto split: if_splits option.splits dest!: claim_table.lookup_key claim_entity_table.lookup_key)
qed

text \<open>
  C14: The first claim wins, for good. What \<open>insertOrReadIdentityClaim\<close> returns is a stored claim with
  the key of the request or the entity of the request; stored claims are never changed or removed;
  and in every later state of the table a request with the same key is answered with that same row,
  whatever entity or digest it proposes, so concurrent claimants agree on one identity.
\<close>

theorem first_claim_wins:
  assumes "claims_ok db" "insertOrReadIdentityClaim input db = Inr (db', result)"
    and "claims_grow db' later" "claims_ok later"
    and "claim_check again" "claim_key again = claim_key (claimed_row result)"
  shows "claims_ok db' \<and> claims_grow db db'
    \<and> (claim_key (claimed_row result) = claim_key input \<or> claim_entity (claimed_row result) = claim_entity input)
    \<and> insertOrReadIdentityClaim again later = Inr (later, ExistingClaim (claimed_row result))"
proof -
  have "claimed_row result \<in> set (claims later)"
    using claims_ok_insert(3) [OF assms(1,2)] assms(3) by (auto simp: claims_grow_def)
  then have "claim_table.lookup (claims later) (claim_key again) = Some (claimed_row result)"
    using assms(4,6) by (simp add: claims_ok_def claim_table.lookup_mem)
  then have "insertOrReadIdentityClaim again later = Inr (later, ExistingClaim (claimed_row result))"
    using assms(5) by (simp add: claim_insert_eq)
  moreover have "claim_key (claimed_row result) = claim_key input \<or> claim_entity (claimed_row result) = claim_entity input"
    using assms(2) unfolding claim_insert_eq
    by (auto split: if_splits option.splits dest!: claim_table.lookup_key claim_entity_table.lookup_key)
  ultimately show ?thesis using claims_ok_insert [OF assms(1,2)] by blast
qed

definition example_claim :: "char \<Rightarrow> claim_row" where
  "example_claim c = \<lparr>cl_namespace_id = js ''ns'', cl_entity_kind = js ''candidate'',
     cl_claim_key_digest = example_version CHR ''a'', cl_claim_profile = js ''databench-identity-claim-v1'',
     cl_request_profile = js ''databench-identity-request-v1'', cl_creation_profile = js ''candidate-v1'',
     cl_entity_id = js ''cand_'' @ example_version c, cl_request_digest = example_version c, cl_created_at = 4\<rparr>"

lemma first_claim_wins_witness:
  "\<exists>db'. insertOrReadIdentityClaim (example_claim CHR ''a'') example_refs_db = Inr (db', Created (example_claim CHR ''a''))
     \<and> insertOrReadIdentityClaim (example_claim CHR ''b'') db' = Inr (db', ExistingClaim (example_claim CHR ''a''))"
proof -
  have check: "claim_check (example_claim CHR ''a'')" "claim_check (example_claim CHR ''b'')"
    using EXACT_VERSION_replicate [of 97] EXACT_VERSION_replicate [of 98]
    by (simp_all add: claim_check_def example_claim_def example_version_def EXACT_VERSION_def has_prefix_def char_class_defs)
  let ?db = "example_refs_db\<lparr>claims := [example_claim CHR ''a'']\<rparr>"
  have ok: "claims_ok example_refs_db"
    by (simp add: claims_ok_def example_refs_db_def empty_db_def claim_table.keyed_def claim_entity_table.keyed_def)
  have step: "insertOrReadIdentityClaim (example_claim CHR ''a'') example_refs_db = Inr (?db, Created (example_claim CHR ''a''))"
    using check(1) by (simp add: claim_insert_eq example_refs_db_def empty_db_def find_namespace_def find_first_def example_claim_def)
  have grow: "claims_grow ?db ?db" by (simp add: claims_grow_def)
  have same: "claim_key (example_claim CHR ''b'') = claim_key (claimed_row (Created (example_claim CHR ''a'')))"
    by (simp add: claim_key_def example_claim_def)
  show ?thesis
    using first_claim_wins [OF ok step grow claims_ok_insert(1) [OF ok step] check(2) same] step by auto
qed

end
