(* ===== verification/Transform_Job_Laws.thy ===== *)
theory Transform_Job_Laws
  imports Transform_Jobs Run_Laws Ref_Laws
begin

text \<open>
  What the job queue promises: every operation keeps the constraints of the table, so no operation
  fails on them and every row can be read back; at most one job is leased at a time; only the holder
  of the current, unexpired lease can move a job; and the queue is first in, first out.
\<close>

section \<open>Rows that can be read\<close>

definition values_ok :: "transform_job \<Rightarrow> bool" where
  "values_ok r \<longleftrightarrow> (case parseStoredTransformJobProgress (tj_progress r) of Inr p \<Rightarrow> True | Inl e \<Rightarrow> False)
     \<and> (case parseStoredTransformJobError (tj_error r) of Inr p \<Rightarrow> True | Inl e \<Rightarrow> False)
     \<and> (case tj_result_ref_version r of None \<Rightarrow> True | Some v \<Rightarrow> EXACT_VERSION v)"

definition ref_state_ok :: "transform_job \<Rightarrow> bool" where
  "ref_state_ok r \<longleftrightarrow> (case tj_result_ref_status r of None \<Rightarrow> True
     | Some s \<Rightarrow> (tj_status r = Completed \<longleftrightarrow> s \<noteq> PendingRef)
         \<and> (s = UpdatedRef \<longrightarrow> tj_result_ref_version r = tj_output_version r))"

definition queued_ok :: "transform_job \<Rightarrow> bool" where
  "queued_ok r \<longleftrightarrow> (tj_status r = Queued \<longrightarrow> tj_input_key r = None)"

definition stored_ok :: "transform_job \<Rightarrow> bool" where
  "stored_ok r \<longleftrightarrow> values_ok r \<and> ref_state_ok r \<and> queued_ok r"

lemmas stored_rules = stored_ok_def values_ok_def ref_state_ok_def queued_ok_def

definition job_ok :: "catalog_db \<Rightarrow> transform_job \<Rightarrow> bool" where
  "job_ok db r \<longleftrightarrow> job_check r \<and> job_fks db r \<and> stored_ok r"

definition single_lease :: "transform_job list \<Rightarrow> bool" where
  "single_lease rows \<longleftrightarrow> length (filter (\<lambda>r. tj_lease_token r \<noteq> None) rows) \<le> 1"

definition jobs_ok :: "catalog_db \<Rightarrow> bool" where
  "jobs_ok db \<longleftrightarrow> job_table.keyed (jobs db) \<and> list_all (job_ok db) (jobs db) \<and> single_lease (jobs db)"

lemma view_total: "job_check r \<Longrightarrow> stored_ok r \<Longrightarrow> \<exists>v. prismaRowToTransformJob r = Inr v \<and> jv_row v = r"
proof -
  assume check: "job_check r" and stored: "stored_ok r"
  obtain p where p: "parseStoredTransformJobProgress (tj_progress r) = Inr p"
    using stored by (auto simp: stored_rules split: sum.splits)
  obtain e where e: "parseStoredTransformJobError (tj_error r) = Inr e"
    using stored by (auto simp: stored_rules split: sum.splits)
  have params: "parseStoredJsonObject (tj_params r) = Inr (tj_params r)"
    using check by (simp add: job_check_def names_check_def parseStoredJsonObject_def)
  have lease: "assertStoredLeaseShape (tj_lease_owner r) (tj_lease_token r) (tj_lease_expires_at r) = Inr ()"
    using check by (auto simp: job_check_def lease_check_def assertStoredLeaseShape_def split: option.splits)
  have completion: "(tj_status r = Completed) = (tj_output_version r \<noteq> None)"
    using check by (auto simp: job_check_def completion_check_def)
  have "\<exists>ref. parseStoredTransformJobResultRef (tj_result_ref_namespace_id r) (tj_result_ref_name r)
      (tj_result_ref_status r) (tj_result_ref_version r) = Inr ref
      \<and> (case ref of None \<Rightarrow> True | Some ref \<Rightarrow> tj_result_ref_status r = Some (jr_status ref) \<and> tj_result_ref_version r = jr_version ref)"
    using check stored
    by (auto simp: job_check_def result_ref_check_def stored_rules parseStoredTransformJobResultRef_def split: option.splits)
  then obtain ref where ref: "parseStoredTransformJobResultRef (tj_result_ref_namespace_id r) (tj_result_ref_name r)
      (tj_result_ref_status r) (tj_result_ref_version r) = Inr ref"
    and same: "case ref of None \<Rightarrow> True | Some ref \<Rightarrow> tj_result_ref_status r = Some (jr_status ref) \<and> tj_result_ref_version r = jr_version ref"
    by blast
  show ?thesis
  proof (cases ref)
    case None
    then show ?thesis
      using p e params lease completion ref by (simp add: prismaRowToTransformJob_def)
  next
    case (Some x)
    then have "tj_status r = Completed \<longleftrightarrow> jr_status x \<noteq> PendingRef"
      "jr_status x = UpdatedRef \<longrightarrow> jr_version x = tj_output_version r"
      using same stored by (auto simp: stored_rules)
    with Some show ?thesis
      using p e params lease completion ref by (simp add: prismaRowToTransformJob_def)
  qed
qed

lemma first_view_total:
  "list_all (job_ok db) rows \<Longrightarrow> \<exists>v. first_view (db', rows) = Inr (db', v) \<and> map_option jv_row v = List.find (\<lambda>_. True) rows"
  using view_total by (cases rows) (fastforce simp: first_view_def job_ok_def)+

section \<open>Updates\<close>

definition with_jobs :: "catalog_db \<Rightarrow> transform_job list \<Rightarrow> catalog_db" where
  "with_jobs db rows = db\<lparr>jobs := rows\<rparr>"

lemma with_jobs_simps [simp]:
  "find_snapshot (with_jobs db rows) = find_snapshot db"
  "find_namespace (with_jobs db rows) = find_namespace db"
  "jobs (with_jobs db rows) = rows"
  by (simp_all add: with_jobs_def find_snapshot_def find_namespace_def fun_eq_iff)

lemma job_ok_with_jobs [simp]:
  "job_fks (with_jobs db rows) = job_fks db"
  "job_ok (with_jobs db rows) = job_ok db"
  by (simp_all add: job_ok_def job_fks_def fun_eq_iff)

text \<open>What an assignment has to keep on the rows it applies to.\<close>

definition keeps_jobs :: "catalog_db \<Rightarrow> (transform_job \<Rightarrow> bool) \<Rightarrow> (transform_job \<Rightarrow> transform_job) \<Rightarrow> bool" where
  "keeps_jobs db p f \<longleftrightarrow> (\<forall>r. p r \<and> job_ok db r \<longrightarrow> job_ok db (f r) \<and> tj_id (f r) = tj_id r
     \<and> (tj_lease_token (f r) \<noteq> None \<longrightarrow> tj_lease_token r \<noteq> None))"

lemma single_lease_map:
  assumes "single_lease rows" "\<And>r. r \<in> set rows \<Longrightarrow> tj_lease_token (g r) \<noteq> None \<Longrightarrow> tj_lease_token r \<noteq> None"
  shows "single_lease (map g rows)"
proof -
  have "length (filter (\<lambda>r. tj_lease_token (g r) \<noteq> None) rows) \<le> length (filter (\<lambda>r. tj_lease_token r \<noteq> None) rows)"
    using assms(2)
  proof (induction rows)
    case (Cons r rows)
    have "length (filter (\<lambda>r. tj_lease_token (g r) \<noteq> None) rows) \<le> length (filter (\<lambda>r. tj_lease_token r \<noteq> None) rows)"
      using Cons.prems by (intro Cons.IH) simp
    moreover have "tj_lease_token (g r) \<noteq> None \<Longrightarrow> tj_lease_token r \<noteq> None" using Cons.prems by simp
    ultimately show ?case by auto
  qed simp
  then show ?thesis
    using assms(1) by (simp add: single_lease_def filter_map comp_def)
qed

lemma update_jobs_keeps:
  assumes "jobs_ok db" "keeps_jobs db p f"
  shows "update_jobs p f db = Inr (with_jobs db (update_where p f (jobs db)), returning p f (jobs db))"
    and "jobs_ok (with_jobs db (update_where p f (jobs db)))"
    and "list_all (job_ok db) (returning p f (jobs db))"
proof -
  have rows: "r \<in> set (jobs db) \<Longrightarrow> job_ok db r" for r
    using assms(1) by (simp add: jobs_ok_def list_all_iff)
  show ret: "list_all (job_ok db) (returning p f (jobs db))"
    using rows assms(2) by (auto simp: list_all_iff returning_set keeps_jobs_def)
  then show "update_jobs p f db = Inr (with_jobs db (update_where p f (jobs db)), returning p f (jobs db))"
    by (simp add: update_jobs_def with_jobs_def job_ok_def list_all_iff)
  have "map tj_id (update_where p f (jobs db)) = map tj_id (jobs db)"
    using rows assms(2) by (auto simp: update_where_def keeps_jobs_def)
  then have "job_table.keyed (update_where p f (jobs db))"
    using assms(1) by (simp add: jobs_ok_def job_table.keyed_def)
  moreover have "list_all (job_ok db) (update_where p f (jobs db))"
    using rows assms(2) by (auto simp: list_all_iff set_update_where keeps_jobs_def)
  moreover have "single_lease (update_where p f (jobs db))"
    unfolding update_where_def
    using assms rows by (intro single_lease_map) (auto simp: jobs_ok_def keeps_jobs_def split: if_splits)
  ultimately show "jobs_ok (with_jobs db (update_where p f (jobs db)))"
    by (simp add: jobs_ok_def)
qed


section \<open>The operations of a lease holder\<close>

lemma keeps_jobsI:
  assumes "\<And>r. p r \<Longrightarrow> job_check r \<Longrightarrow> job_fks db r \<Longrightarrow> stored_ok r
      \<Longrightarrow> job_check (f r) \<and> job_fks db (f r) \<and> stored_ok (f r) \<and> tj_id (f r) = tj_id r
        \<and> (tj_lease_token (f r) \<noteq> None \<longrightarrow> tj_lease_token r \<noteq> None)"
  shows "keeps_jobs db p f"
  using assms unfolding keeps_jobs_def job_ok_def by blast

lemma parse_progress_json:
  assumes "validateProgress p = Inr ()"
  shows "parseStoredTransformJobProgress (Some (progress_json p)) = Inr (Some p)"
proof -
  have decimal: "is_decimal (nat_to_string n)" for n
  proof (cases "n = 0")
    case True
    then show ?thesis by (subst nat_to_string.simps) (simp add: is_decimal_def digit_unit_def)
  next
    case False
    then have "hd (nat_to_string n) \<noteq> digit_unit 0" by (rule nat_to_string_hd)
    then show ?thesis
      using nat_to_string_digits [of n] by (simp add: is_decimal_def digit_unit_def)
  qed
  show ?thesis
    using assms decimal
    by (cases "jp_total_units p") (auto simp: progress_json_def validateProgress_def revalidate_def result_simps split: sum.splits)
qed


text \<open>Columns that a constraint does not read.\<close>

lemma job_frame:
  "identity_check (tj_status_update s_tus r) = identity_check r"
  "identity_check (tj_attempt_update a_mpt r) = identity_check r"
  "identity_check (tj_lease_owner_update lo_ner r) = identity_check r"
  "identity_check (tj_lease_token_update lt_ken r) = identity_check r"
  "identity_check (tj_lease_expires_at_update lea__at r) = identity_check r"
  "identity_check (tj_progress_update p_ess r) = identity_check r"
  "identity_check (tj_input_key_update ik_key r) = identity_check r"
  "identity_check (tj_output_key_update ok_key r) = identity_check r"
  "identity_check (tj_output_count_update oc_unt r) = identity_check r"
  "identity_check (tj_result_ref_namespace_id_update rrni__id r) = identity_check r"
  "identity_check (tj_result_ref_name_update rrn_ame r) = identity_check r"
  "identity_check (tj_result_ref_status_update rrs_tus r) = identity_check r"
  "identity_check (tj_result_ref_version_update rrv_ion r) = identity_check r"
  "identity_check (tj_cache_hit_update ch_hit r) = identity_check r"
  "identity_check (tj_error_update e_ror r) = identity_check r"
  "identity_check (tj_started_at_update sa__at r) = identity_check r"
  "identity_check (tj_finished_at_update fa__at r) = identity_check r"
  "identity_check (tj_updated_at_update ua__at r) = identity_check r"
  "names_check (tj_status_update s_tus r) = names_check r"
  "names_check (tj_attempt_update a_mpt r) = names_check r"
  "names_check (tj_lease_owner_update lo_ner r) = names_check r"
  "names_check (tj_lease_token_update lt_ken r) = names_check r"
  "names_check (tj_lease_expires_at_update lea__at r) = names_check r"
  "names_check (tj_progress_update p_ess r) = names_check r"
  "names_check (tj_input_key_update ik_key r) = names_check r"
  "names_check (tj_output_key_update ok_key r) = names_check r"
  "names_check (tj_output_count_update oc_unt r) = names_check r"
  "names_check (tj_output_version_update ov_ion r) = names_check r"
  "names_check (tj_result_ref_namespace_id_update rrni__id r) = names_check r"
  "names_check (tj_result_ref_name_update rrn_ame r) = names_check r"
  "names_check (tj_result_ref_status_update rrs_tus r) = names_check r"
  "names_check (tj_result_ref_version_update rrv_ion r) = names_check r"
  "names_check (tj_cache_hit_update ch_hit r) = names_check r"
  "names_check (tj_error_update e_ror r) = names_check r"
  "names_check (tj_started_at_update sa__at r) = names_check r"
  "names_check (tj_finished_at_update fa__at r) = names_check r"
  "names_check (tj_updated_at_update ua__at r) = names_check r"
  "count_check (tj_status_update s_tus r) = count_check r"
  "count_check (tj_attempt_update a_mpt r) = count_check r"
  "count_check (tj_lease_owner_update lo_ner r) = count_check r"
  "count_check (tj_lease_token_update lt_ken r) = count_check r"
  "count_check (tj_lease_expires_at_update lea__at r) = count_check r"
  "count_check (tj_progress_update p_ess r) = count_check r"
  "count_check (tj_input_key_update ik_key r) = count_check r"
  "count_check (tj_output_key_update ok_key r) = count_check r"
  "count_check (tj_output_version_update ov_ion r) = count_check r"
  "count_check (tj_result_ref_namespace_id_update rrni__id r) = count_check r"
  "count_check (tj_result_ref_name_update rrn_ame r) = count_check r"
  "count_check (tj_result_ref_status_update rrs_tus r) = count_check r"
  "count_check (tj_result_ref_version_update rrv_ion r) = count_check r"
  "count_check (tj_cache_hit_update ch_hit r) = count_check r"
  "count_check (tj_error_update e_ror r) = count_check r"
  "count_check (tj_started_at_update sa__at r) = count_check r"
  "count_check (tj_finished_at_update fa__at r) = count_check r"
  "count_check (tj_updated_at_update ua__at r) = count_check r"
  "attempt_check (tj_status_update s_tus r) = attempt_check r"
  "attempt_check (tj_lease_owner_update lo_ner r) = attempt_check r"
  "attempt_check (tj_lease_token_update lt_ken r) = attempt_check r"
  "attempt_check (tj_lease_expires_at_update lea__at r) = attempt_check r"
  "attempt_check (tj_progress_update p_ess r) = attempt_check r"
  "attempt_check (tj_input_key_update ik_key r) = attempt_check r"
  "attempt_check (tj_output_key_update ok_key r) = attempt_check r"
  "attempt_check (tj_output_count_update oc_unt r) = attempt_check r"
  "attempt_check (tj_output_version_update ov_ion r) = attempt_check r"
  "attempt_check (tj_result_ref_namespace_id_update rrni__id r) = attempt_check r"
  "attempt_check (tj_result_ref_name_update rrn_ame r) = attempt_check r"
  "attempt_check (tj_result_ref_status_update rrs_tus r) = attempt_check r"
  "attempt_check (tj_result_ref_version_update rrv_ion r) = attempt_check r"
  "attempt_check (tj_cache_hit_update ch_hit r) = attempt_check r"
  "attempt_check (tj_error_update e_ror r) = attempt_check r"
  "attempt_check (tj_started_at_update sa__at r) = attempt_check r"
  "attempt_check (tj_finished_at_update fa__at r) = attempt_check r"
  "attempt_check (tj_updated_at_update ua__at r) = attempt_check r"
  "lease_check (tj_attempt_update a_mpt r) = lease_check r"
  "lease_check (tj_progress_update p_ess r) = lease_check r"
  "lease_check (tj_input_key_update ik_key r) = lease_check r"
  "lease_check (tj_output_key_update ok_key r) = lease_check r"
  "lease_check (tj_output_count_update oc_unt r) = lease_check r"
  "lease_check (tj_output_version_update ov_ion r) = lease_check r"
  "lease_check (tj_result_ref_namespace_id_update rrni__id r) = lease_check r"
  "lease_check (tj_result_ref_name_update rrn_ame r) = lease_check r"
  "lease_check (tj_result_ref_status_update rrs_tus r) = lease_check r"
  "lease_check (tj_result_ref_version_update rrv_ion r) = lease_check r"
  "lease_check (tj_cache_hit_update ch_hit r) = lease_check r"
  "lease_check (tj_error_update e_ror r) = lease_check r"
  "lease_check (tj_started_at_update sa__at r) = lease_check r"
  "lease_check (tj_finished_at_update fa__at r) = lease_check r"
  "lease_check (tj_updated_at_update ua__at r) = lease_check r"
  "completion_check (tj_attempt_update a_mpt r) = completion_check r"
  "completion_check (tj_lease_owner_update lo_ner r) = completion_check r"
  "completion_check (tj_lease_token_update lt_ken r) = completion_check r"
  "completion_check (tj_lease_expires_at_update lea__at r) = completion_check r"
  "completion_check (tj_progress_update p_ess r) = completion_check r"
  "completion_check (tj_input_key_update ik_key r) = completion_check r"
  "completion_check (tj_output_key_update ok_key r) = completion_check r"
  "completion_check (tj_output_count_update oc_unt r) = completion_check r"
  "completion_check (tj_result_ref_namespace_id_update rrni__id r) = completion_check r"
  "completion_check (tj_result_ref_name_update rrn_ame r) = completion_check r"
  "completion_check (tj_result_ref_status_update rrs_tus r) = completion_check r"
  "completion_check (tj_result_ref_version_update rrv_ion r) = completion_check r"
  "completion_check (tj_started_at_update sa__at r) = completion_check r"
  "completion_check (tj_updated_at_update ua__at r) = completion_check r"
  "staging_check (tj_status_update s_tus r) = staging_check r"
  "staging_check (tj_lease_owner_update lo_ner r) = staging_check r"
  "staging_check (tj_lease_token_update lt_ken r) = staging_check r"
  "staging_check (tj_lease_expires_at_update lea__at r) = staging_check r"
  "staging_check (tj_progress_update p_ess r) = staging_check r"
  "staging_check (tj_output_count_update oc_unt r) = staging_check r"
  "staging_check (tj_output_version_update ov_ion r) = staging_check r"
  "staging_check (tj_result_ref_namespace_id_update rrni__id r) = staging_check r"
  "staging_check (tj_result_ref_name_update rrn_ame r) = staging_check r"
  "staging_check (tj_result_ref_status_update rrs_tus r) = staging_check r"
  "staging_check (tj_result_ref_version_update rrv_ion r) = staging_check r"
  "staging_check (tj_cache_hit_update ch_hit r) = staging_check r"
  "staging_check (tj_error_update e_ror r) = staging_check r"
  "staging_check (tj_started_at_update sa__at r) = staging_check r"
  "staging_check (tj_finished_at_update fa__at r) = staging_check r"
  "staging_check (tj_updated_at_update ua__at r) = staging_check r"
  "result_ref_check (tj_status_update s_tus r) = result_ref_check r"
  "result_ref_check (tj_attempt_update a_mpt r) = result_ref_check r"
  "result_ref_check (tj_lease_owner_update lo_ner r) = result_ref_check r"
  "result_ref_check (tj_lease_token_update lt_ken r) = result_ref_check r"
  "result_ref_check (tj_lease_expires_at_update lea__at r) = result_ref_check r"
  "result_ref_check (tj_progress_update p_ess r) = result_ref_check r"
  "result_ref_check (tj_input_key_update ik_key r) = result_ref_check r"
  "result_ref_check (tj_output_key_update ok_key r) = result_ref_check r"
  "result_ref_check (tj_output_count_update oc_unt r) = result_ref_check r"
  "result_ref_check (tj_output_version_update ov_ion r) = result_ref_check r"
  "result_ref_check (tj_cache_hit_update ch_hit r) = result_ref_check r"
  "result_ref_check (tj_error_update e_ror r) = result_ref_check r"
  "result_ref_check (tj_started_at_update sa__at r) = result_ref_check r"
  "result_ref_check (tj_finished_at_update fa__at r) = result_ref_check r"
  "result_ref_check (tj_updated_at_update ua__at r) = result_ref_check r"
  "job_fks db (tj_status_update s_tus r) = job_fks db r"
  "job_fks db (tj_attempt_update a_mpt r) = job_fks db r"
  "job_fks db (tj_lease_owner_update lo_ner r) = job_fks db r"
  "job_fks db (tj_lease_token_update lt_ken r) = job_fks db r"
  "job_fks db (tj_lease_expires_at_update lea__at r) = job_fks db r"
  "job_fks db (tj_progress_update p_ess r) = job_fks db r"
  "job_fks db (tj_input_key_update ik_key r) = job_fks db r"
  "job_fks db (tj_output_key_update ok_key r) = job_fks db r"
  "job_fks db (tj_output_count_update oc_unt r) = job_fks db r"
  "job_fks db (tj_result_ref_name_update rrn_ame r) = job_fks db r"
  "job_fks db (tj_result_ref_status_update rrs_tus r) = job_fks db r"
  "job_fks db (tj_cache_hit_update ch_hit r) = job_fks db r"
  "job_fks db (tj_error_update e_ror r) = job_fks db r"
  "job_fks db (tj_started_at_update sa__at r) = job_fks db r"
  "job_fks db (tj_finished_at_update fa__at r) = job_fks db r"
  "job_fks db (tj_updated_at_update ua__at r) = job_fks db r"
  "values_ok (tj_status_update s_tus r) = values_ok r"
  "values_ok (tj_attempt_update a_mpt r) = values_ok r"
  "values_ok (tj_lease_owner_update lo_ner r) = values_ok r"
  "values_ok (tj_lease_token_update lt_ken r) = values_ok r"
  "values_ok (tj_lease_expires_at_update lea__at r) = values_ok r"
  "values_ok (tj_input_key_update ik_key r) = values_ok r"
  "values_ok (tj_output_key_update ok_key r) = values_ok r"
  "values_ok (tj_output_count_update oc_unt r) = values_ok r"
  "values_ok (tj_output_version_update ov_ion r) = values_ok r"
  "values_ok (tj_result_ref_namespace_id_update rrni__id r) = values_ok r"
  "values_ok (tj_result_ref_name_update rrn_ame r) = values_ok r"
  "values_ok (tj_result_ref_status_update rrs_tus r) = values_ok r"
  "values_ok (tj_cache_hit_update ch_hit r) = values_ok r"
  "values_ok (tj_started_at_update sa__at r) = values_ok r"
  "values_ok (tj_finished_at_update fa__at r) = values_ok r"
  "values_ok (tj_updated_at_update ua__at r) = values_ok r"
  "ref_state_ok (tj_attempt_update a_mpt r) = ref_state_ok r"
  "ref_state_ok (tj_lease_owner_update lo_ner r) = ref_state_ok r"
  "ref_state_ok (tj_lease_token_update lt_ken r) = ref_state_ok r"
  "ref_state_ok (tj_lease_expires_at_update lea__at r) = ref_state_ok r"
  "ref_state_ok (tj_progress_update p_ess r) = ref_state_ok r"
  "ref_state_ok (tj_input_key_update ik_key r) = ref_state_ok r"
  "ref_state_ok (tj_output_key_update ok_key r) = ref_state_ok r"
  "ref_state_ok (tj_output_count_update oc_unt r) = ref_state_ok r"
  "ref_state_ok (tj_result_ref_namespace_id_update rrni__id r) = ref_state_ok r"
  "ref_state_ok (tj_result_ref_name_update rrn_ame r) = ref_state_ok r"
  "ref_state_ok (tj_cache_hit_update ch_hit r) = ref_state_ok r"
  "ref_state_ok (tj_error_update e_ror r) = ref_state_ok r"
  "ref_state_ok (tj_started_at_update sa__at r) = ref_state_ok r"
  "ref_state_ok (tj_finished_at_update fa__at r) = ref_state_ok r"
  "ref_state_ok (tj_updated_at_update ua__at r) = ref_state_ok r"
  "queued_ok (tj_attempt_update a_mpt r) = queued_ok r"
  "queued_ok (tj_lease_owner_update lo_ner r) = queued_ok r"
  "queued_ok (tj_lease_token_update lt_ken r) = queued_ok r"
  "queued_ok (tj_lease_expires_at_update lea__at r) = queued_ok r"
  "queued_ok (tj_progress_update p_ess r) = queued_ok r"
  "queued_ok (tj_output_key_update ok_key r) = queued_ok r"
  "queued_ok (tj_output_count_update oc_unt r) = queued_ok r"
  "queued_ok (tj_output_version_update ov_ion r) = queued_ok r"
  "queued_ok (tj_result_ref_namespace_id_update rrni__id r) = queued_ok r"
  "queued_ok (tj_result_ref_name_update rrn_ame r) = queued_ok r"
  "queued_ok (tj_result_ref_status_update rrs_tus r) = queued_ok r"
  "queued_ok (tj_result_ref_version_update rrv_ion r) = queued_ok r"
  "queued_ok (tj_cache_hit_update ch_hit r) = queued_ok r"
  "queued_ok (tj_error_update e_ror r) = queued_ok r"
  "queued_ok (tj_started_at_update sa__at r) = queued_ok r"
  "queued_ok (tj_finished_at_update fa__at r) = queued_ok r"
  "queued_ok (tj_updated_at_update ua__at r) = queued_ok r"
  by (simp_all add: job_checks stored_rules job_fks_def cong: option.case_cong)

lemmas job_rules = job_check_def lease_check_def completion_check_def stored_ok_def ref_state_ok_def queued_ok_def
  is_active_def is_stopped_def is_terminal_def

lemma keeps_renew:
  "keeps_jobs db (\<lambda>r. holds_lease input r \<and> unexpired now r \<and> is_active (tj_status r))
     (\<lambda>r. r\<lparr>tj_lease_expires_at := Some t, tj_updated_at := now\<rparr>)"
  by (rule keeps_jobsI) (auto simp: job_frame job_check_def stored_ok_def lease_check_def unexpired_def split: option.splits)

lemma keeps_running:
  "keeps_jobs db (\<lambda>r. holds_lease input r \<and> unexpired now r \<and> tj_status r \<in> set [Leased])
     (\<lambda>r. r\<lparr>tj_status := Running, tj_started_at := s r, tj_updated_at := now\<rparr>)"
  by (rule keeps_jobsI) (auto simp: job_frame job_rules split: option.splits)

lemma keeps_finalizing:
  "keeps_jobs db (\<lambda>r. holds_lease input r \<and> unexpired now r \<and> tj_status r \<in> set [Running])
     (\<lambda>r. r\<lparr>tj_status := Finalizing, tj_updated_at := now\<rparr>)"
  by (rule keeps_jobsI) (auto simp: job_frame job_rules split: option.splits)

lemma keeps_progress:
  assumes "validateProgress progress = Inr ()"
  shows "keeps_jobs db (\<lambda>r. holds_lease input r \<and> unexpired now r \<and> tj_status r = Running)
     (\<lambda>r. r\<lparr>tj_progress := Some (progress_json progress), tj_updated_at := now\<rparr>)"
  by (rule keeps_jobsI)
     (use assms in \<open>auto simp: job_frame job_check_def stored_ok_def values_ok_def parse_progress_json split: option.splits\<close>)

lemma keeps_jobs_weaken: "keeps_jobs db q f \<Longrightarrow> (\<And>r. p r \<Longrightarrow> q r) \<Longrightarrow> keeps_jobs db p f"
  by (simp add: keeps_jobs_def)

lemma keeps_cancelled:
  "keeps_jobs db (\<lambda>r. q r \<and> tj_status r \<in> {Queued, Leased, Running, Finalizing})
     (\<lambda>r. r\<lparr>tj_status := Cancelled, tj_finished_at := Some now, tj_updated_at := now\<rparr>)"
proof (rule keeps_jobs_weaken)
  show "keeps_jobs db (\<lambda>r. tj_status r \<noteq> Completed \<and> tj_status r \<noteq> Failed)
     (\<lambda>r. r\<lparr>tj_status := Cancelled, tj_finished_at := Some now, tj_updated_at := now\<rparr>)"
    by (rule keeps_jobsI) (auto simp: job_frame job_rules split: option.splits)
qed auto

lemma parse_error_json:
  "validateError e = Inr () \<Longrightarrow> parseStoredTransformJobError (Some (error_json e)) = Inr (Some e)"
  by (cases e) (simp add: error_json_def revalidate_def Let_def)

lemma keeps_failed:
  assumes "validateError e = Inr ()"
  shows "keeps_jobs db (\<lambda>r. q r \<and> is_active (tj_status r))
     (\<lambda>r. r\<lparr>tj_status := Failed, tj_error := Some (error_json e), tj_finished_at := Some now, tj_updated_at := now\<rparr>)"
proof (rule keeps_jobs_weaken)
  show "keeps_jobs db (\<lambda>r. tj_status r \<noteq> Completed)
     (\<lambda>r. r\<lparr>tj_status := Failed, tj_error := Some (error_json e), tj_finished_at := Some now, tj_updated_at := now\<rparr>)"
    by (rule keeps_jobsI) (use parse_error_json [OF assms] in \<open>auto simp: job_frame job_rules values_ok_def split: option.splits\<close>)
qed (auto simp: is_active_def)

lemma keeps_staging:
  assumes "validateStagingKeys (jl_id input) (jl_attempt input) inputKey outputKey = Inr ()"
  shows "keeps_jobs db (\<lambda>r. holds_lease input r \<and> unexpired now r \<and> tj_status r = Leased \<and> q r)
     (\<lambda>r. r\<lparr>tj_input_key := Some inputKey, tj_output_key := Some outputKey, tj_updated_at := now\<rparr>)"
  by (rule keeps_jobsI)
     (use assms in \<open>auto simp: job_frame job_check_def stored_ok_def queued_ok_def staging_check_def holds_lease_def validateStagingKeys_def ensure_eq split: option.splits\<close>)

lemma keeps_clear_staging:
  "keeps_jobs db q (\<lambda>r. r\<lparr>tj_input_key := None, tj_output_key := None, tj_updated_at := now\<rparr>)"
  by (rule keeps_jobsI) (auto simp: job_frame job_check_def stored_ok_def queued_ok_def staging_check_def)

lemma keeps_clear_fence:
  "keeps_jobs db (\<lambda>r. q r \<and> is_stopped (tj_status r))
     (\<lambda>r. r\<lparr>tj_lease_owner := None, tj_lease_token := None, tj_lease_expires_at := None, tj_updated_at := now\<rparr>)"
  by (rule keeps_jobsI) (auto simp: job_frame job_rules split: option.splits)

lemma keeps_retry:
  "keeps_jobs db (\<lambda>r. tj_id r = i \<and> is_stopped (tj_status r) \<and> tj_lease_token r = None
       \<and> tj_input_key r = None \<and> tj_output_key r = None)
     (\<lambda>r. r\<lparr>tj_status := Queued, tj_progress := None, tj_error := None, tj_output_count := None,
        tj_started_at := None, tj_finished_at := None, tj_updated_at := now\<rparr>)"
proof (rule keeps_jobs_weaken)
  show "keeps_jobs db (\<lambda>r. tj_status r \<noteq> Completed \<and> tj_lease_token r = None \<and> tj_input_key r = None)
     (\<lambda>r. r\<lparr>tj_status := Queued, tj_progress := None, tj_error := None, tj_output_count := None,
        tj_started_at := None, tj_finished_at := None, tj_updated_at := now\<rparr>)"
    by (rule keeps_jobsI) (simp add: job_frame job_rules values_ok_def count_check_def split: option.splits; blast?)
qed (auto simp: is_stopped_def)

lemma lease_expired_valid: "validateError lease_expired_error = Inr ()"
proof -
  have "byte_length (json_stringify (error_json lease_expired_error)) \<le> MAX_JOB_JSON_BYTES"
    by code_simp
  then show ?thesis
    by (simp add: validateError_def validateBoundedJson_def)
       (simp add: lease_expired_error_def SAFE_WORKER_NAME_def matches_name_def char_class_defs)
qed


section \<open>The life cycle\<close>

text \<open>
  The specification of a single job: its status, its attempt and its output. A job is leased from the
  queue with the next attempt number, moves forward under its lease, can be stopped until it is
  completed, and goes back to the queue from a stop only; a cached result completes a job that was
  never attempted.
\<close>

type_synonym job_state = "job_status \<times> int \<times> js_string option"

inductive lifecycle :: "job_state \<Rightarrow> job_state \<Rightarrow> bool" where
  stay: "lifecycle s s"
| lease: "lifecycle (Queued, n, None) (Leased, n + 1, None)"
| start: "lifecycle (Leased, n, None) (Running, n, None)"
| finalize: "lifecycle (Running, n, None) (Finalizing, n, None)"
| complete: "lifecycle (Finalizing, n, None) (Completed, n, Some v)"
| from_cache: "lifecycle (Queued, 0, None) (Completed, 0, Some v)"
| fail: "is_active s \<Longrightarrow> lifecycle (s, n, None) (Failed, n, None)"
| cancel: "s = Queued \<or> is_active s \<Longrightarrow> lifecycle (s, n, None) (Cancelled, n, None)"
| retry: "is_stopped s \<Longrightarrow> lifecycle (s, n, None) (Queued, n, None)"

inductive_cases lifecycle_completed: "lifecycle (Completed, n, v) s"

definition job_state :: "transform_job \<Rightarrow> job_state" where
  "job_state r = (tj_status r, tj_attempt r, tj_output_version r)"

definition same_identity :: "transform_job \<Rightarrow> transform_job \<Rightarrow> bool" where
  "same_identity r s \<longleftrightarrow> tj_id s = tj_id r \<and> tj_cache_key s = tj_cache_key r \<and> tj_op s = tj_op r
     \<and> tj_op_version s = tj_op_version r \<and> tj_params s = tj_params r
     \<and> tj_input_version s = tj_input_version r \<and> tj_input_count s = tj_input_count r
     \<and> tj_capability_name s = tj_capability_name r \<and> tj_capability_version s = tj_capability_version r
     \<and> tj_created_at s = tj_created_at r"

definition row_step :: "transform_job \<Rightarrow> transform_job \<Rightarrow> bool" where
  "row_step r s \<longleftrightarrow> same_identity r s \<and> lifecycle (job_state r) (job_state s)"

definition jobs_evolve :: "catalog_db \<Rightarrow> catalog_db \<Rightarrow> bool" where
  "jobs_evolve db db' \<longleftrightarrow> (\<forall>r \<in> set (jobs db). \<exists>s \<in> set (jobs db'). row_step r s)"

definition allowed :: "catalog_db \<Rightarrow> (transform_job \<Rightarrow> bool) \<Rightarrow> (transform_job \<Rightarrow> transform_job) \<Rightarrow> bool" where
  "allowed db p f \<longleftrightarrow> (\<forall>r. p r \<and> job_ok db r \<longrightarrow> row_step r (f r))"

lemma row_step_refl: "row_step r r"
  by (simp add: row_step_def same_identity_def lifecycle.stay)

lemma jobs_evolve_refl: "jobs_evolve db db"
  using row_step_refl by (auto simp: jobs_evolve_def)

lemma jobs_evolve_update:
  assumes "jobs_ok db" "allowed db p f"
  shows "jobs_evolve db (with_jobs db (update_where p f (jobs db)))"
  unfolding jobs_evolve_def
proof
  fix r assume r: "r \<in> set (jobs db)"
  then have "job_ok db r" using assms(1) by (simp add: jobs_ok_def list_all_iff)
  with assms(2) have "p r \<Longrightarrow> row_step r (f r)" by (simp add: allowed_def)
  then have "row_step r (if p r then f r else r)" using row_step_refl by simp
  moreover have "(if p r then f r else r) \<in> set (jobs (with_jobs db (update_where p f (jobs db))))"
    using r by (simp add: update_where_def)
  ultimately show "\<exists>s \<in> set (jobs (with_jobs db (update_where p f (jobs db)))). row_step r s" by blast
qed

text \<open>A job that is not completed has no output.\<close>

lemma job_ok_output: "job_ok db r \<Longrightarrow> tj_status r \<noteq> Completed \<Longrightarrow> tj_output_version r = None"
  by (simp add: job_ok_def job_check_def completion_check_def)

lemma allowedI:
  assumes "\<And>r. p r \<Longrightarrow> tj_status r \<noteq> Completed \<Longrightarrow> tj_output_version r = None
      \<Longrightarrow> same_identity r (f r) \<and> lifecycle (job_state r) (job_state (f r))"
    and "\<And>r. p r \<Longrightarrow> tj_status r \<noteq> Completed"
  shows "allowed db p f"
  unfolding allowed_def row_step_def using assms job_ok_output by blast

lemma allowed_stay:
  assumes "\<And>r. same_identity r (f r)" "\<And>r. job_state (f r) = job_state r"
  shows "allowed db p f"
  using assms by (simp add: allowed_def row_step_def lifecycle.stay)

text \<open>An operation on the jobs: it keeps the invariant, follows the life cycle and changes no other table.\<close>

definition job_step :: "catalog_db \<Rightarrow> catalog_db \<Rightarrow> bool" where
  "job_step db db' \<longleftrightarrow> jobs_ok db' \<and> jobs_evolve db db' \<and> db' = with_jobs db (jobs db')"

text \<open>No assignment but those of creation and completion makes a job completed.\<close>

definition quiet :: "(transform_job \<Rightarrow> bool) \<Rightarrow> (transform_job \<Rightarrow> transform_job) \<Rightarrow> bool" where
  "quiet p f \<longleftrightarrow> (\<forall>r. p r \<longrightarrow> tj_status (f r) = Completed
     \<longrightarrow> tj_status r = Completed \<and> tj_output_count (f r) = tj_output_count r)"

definition plain_step :: "catalog_db \<Rightarrow> catalog_db \<Rightarrow> bool" where
  "plain_step db db' \<longleftrightarrow> job_step db db' \<and> (\<forall>s \<in> set (jobs db'). tj_status s = Completed
     \<longrightarrow> (\<exists>r \<in> set (jobs db). row_step r s \<and> tj_status r = Completed \<and> tj_output_count s = tj_output_count r))"

lemma job_step_refl: "jobs_ok db \<Longrightarrow> job_step db db"
  by (simp add: job_step_def jobs_evolve_refl) (simp add: with_jobs_def)

lemma update_step:
  assumes "jobs_ok db" "keeps_jobs db p f" "allowed db p f"
  defines "db' \<equiv> with_jobs db (update_where p f (jobs db))"
  shows "job_step db db'"
    and "bindR (update_jobs p f db) returned_one = Inr (db', length (returning p f (jobs db)) = 1)"
    and "\<exists>v. bindR (update_jobs p f db) first_view = Inr (db', v) \<and> map_option jv_row v = List.find (\<lambda>_. True) (returning p f (jobs db))"
    and "update_jobs p f db = Inr (db', returning p f (jobs db))"
proof -
  note upd = update_jobs_keeps [OF assms(1,2)]
  show "job_step db db'"
    using upd(2) jobs_evolve_update [OF assms(1,3)] by (simp add: job_step_def db'_def)
  show "update_jobs p f db = Inr (db', returning p f (jobs db))"
    "bindR (update_jobs p f db) returned_one = Inr (db', length (returning p f (jobs db)) = 1)"
    by (simp_all add: upd(1) db'_def returned_one_def)
  show "\<exists>v. bindR (update_jobs p f db) first_view = Inr (db', v) \<and> map_option jv_row v = List.find (\<lambda>_. True) (returning p f (jobs db))"
    using first_view_total [OF upd(3), of db'] by (simp add: upd(1) db'_def)
qed


lemma plain_step_refl: "jobs_ok db \<Longrightarrow> plain_step db db"
  using row_step_refl by (auto simp: plain_step_def job_step_refl)

lemma plain_step_job: "plain_step db db' \<Longrightarrow> job_step db db'"
  by (simp add: plain_step_def)

lemma update_plain:
  assumes "jobs_ok db" "keeps_jobs db p f" "allowed db p f" "quiet p f"
  shows "plain_step db (with_jobs db (update_where p f (jobs db)))"
  unfolding plain_step_def
proof
  show "job_step db (with_jobs db (update_where p f (jobs db)))" by (rule update_step(1) [OF assms(1-3)])
  have step: "r \<in> set (jobs db) \<Longrightarrow> p r \<Longrightarrow> row_step r (f r)" for r
    using assms(1,3) by (auto simp: allowed_def jobs_ok_def list_all_iff)
  show "\<forall>s \<in> set (jobs (with_jobs db (update_where p f (jobs db)))). tj_status s = Completed
     \<longrightarrow> (\<exists>r \<in> set (jobs db). row_step r s \<and> tj_status r = Completed \<and> tj_output_count s = tj_output_count r)"
  proof (intro ballI impI)
    fix s assume "s \<in> set (jobs (with_jobs db (update_where p f (jobs db))))" "tj_status s = Completed"
    then obtain r where r: "r \<in> set (jobs db)" "s = (if p r then f r else r)" "tj_status s = Completed"
      by (auto simp: update_where_def)
    then have "row_step r s \<and> tj_status r = Completed \<and> tj_output_count s = tj_output_count r"
      using assms(4) step [OF r(1)] row_step_refl by (auto simp: quiet_def)
    with r(1) show "\<exists>r \<in> set (jobs db). row_step r s \<and> tj_status r = Completed \<and> tj_output_count s = tj_output_count r" by blast
  qed
qed


section \<open>The operations on existing jobs\<close>

lemmas lifecycle_rules = same_identity_def job_state_def lifecycle.intros

lemma validations:
  "validateJobId i = Inr () \<or> validateJobId i = Inl InputError"
  "validateLeaseDuration d = Inr () \<or> validateLeaseDuration d = Inl InputError"
  "validateLeaseOwner w = Inr () \<or> validateLeaseOwner w = Inl InputError"
  "validateTransformJobLease input = Inr () \<or> validateTransformJobLease input = Inl InputError"
  "validateProgress progress = Inr () \<or> validateProgress progress = Inl InputError"
  "validateError e = Inr () \<or> validateError e = Inl InputError"
  "validateStagingKeys i a k l = Inr () \<or> validateStagingKeys i a k l = Inl InputError"
  "validateCompletedStagingCleanup i a v k l = Inr () \<or> validateCompletedStagingCleanup i a v k l = Inl InputError"
  by (auto simp: validateJobId_def validateLeaseDuration_def validateLeaseOwner_def validateTransformJobLease_def
      validateProgress_def validateError_def validateBoundedJson_def validateStagingKeys_def
      validateCompletedStagingCleanup_def ensure_def bindR_def split: sum.splits)

definition refused_or_step :: "(catalog_error, catalog_db \<times> 'a) result \<Rightarrow> catalog_db \<Rightarrow> bool" where
  "refused_or_step result db \<longleftrightarrow> result = Inl InputError \<or> (\<exists>db' x. result = Inr (db', x) \<and> plain_step db db')"

lemma refused_or_stepI:
  "m = Inr () \<or> m = Inl InputError \<Longrightarrow> (m = Inr () \<Longrightarrow> refused_or_step (f ()) db) \<Longrightarrow> refused_or_step (bindR m f) db"
  by (auto simp: refused_or_step_def)

lemma flag_step:
  "jobs_ok db \<Longrightarrow> keeps_jobs db p f \<Longrightarrow> allowed db p f \<Longrightarrow> quiet p f
    \<Longrightarrow> refused_or_step (bindR (update_jobs p f db) returned_one) db"
  using update_plain update_step(2) by (auto simp: refused_or_step_def)

lemma view_step:
  "jobs_ok db \<Longrightarrow> keeps_jobs db p f \<Longrightarrow> allowed db p f \<Longrightarrow> quiet p f
    \<Longrightarrow> refused_or_step (bindR (update_jobs p f db) first_view) db"
  using update_plain update_step(3) unfolding refused_or_step_def by blast

lemma renew_step: "jobs_ok db \<Longrightarrow> refused_or_step (renewTransformJobLease now input d db) db"
  unfolding renewTransformJobLease_def
  by (intro refused_or_stepI validations flag_step keeps_renew allowed_stay) (simp_all add: lifecycle_rules quiet_def)

lemma progress_step: "jobs_ok db \<Longrightarrow> refused_or_step (updateTransformJobProgress now input progress db) db"
  unfolding updateTransformJobProgress_def
  by (intro refused_or_stepI validations flag_step keeps_progress allowed_stay) (simp_all add: lifecycle_rules quiet_def)

lemma staging_step: "jobs_ok db \<Longrightarrow> refused_or_step (setTransformJobStagingKeys now input k l db) db"
  unfolding setTransformJobStagingKeys_def
  by (intro refused_or_stepI validations flag_step keeps_staging allowed_stay) (simp_all add: lifecycle_rules quiet_def)

lemma clear_staging_step: "jobs_ok db \<Longrightarrow> refused_or_step (clearTransformJobStagingKeys now input db) db"
  unfolding clearTransformJobStagingKeys_def
  by (intro refused_or_stepI validations flag_step keeps_clear_staging allowed_stay) (simp_all add: lifecycle_rules quiet_def)

lemma clear_completed_step: "jobs_ok db \<Longrightarrow> refused_or_step (clearCompletedTransformJobStagingKeys now i a v k l db) db"
  unfolding clearCompletedTransformJobStagingKeys_def
  by (intro refused_or_stepI validations flag_step keeps_clear_staging allowed_stay) (simp_all add: lifecycle_rules quiet_def)

lemma clear_fence_step: "jobs_ok db \<Longrightarrow> refused_or_step (clearTransformJobLeaseFence now input db) db"
proof -
  assume "jobs_ok db"
  moreover have "keeps_jobs db (\<lambda>r. holds_lease input r \<and> tj_input_key r = None \<and> tj_output_key r = None \<and> is_stopped (tj_status r))
     (\<lambda>r. r\<lparr>tj_lease_owner := None, tj_lease_token := None, tj_lease_expires_at := None, tj_updated_at := now\<rparr>)"
    by (rule keeps_jobs_weaken [OF keeps_clear_fence [where q = "\<lambda>_. True"]]) simp
  ultimately show ?thesis
    unfolding clearTransformJobLeaseFence_def
    by (intro refused_or_stepI validations flag_step allowed_stay) (simp_all add: lifecycle_rules quiet_def)
qed

lemma start_step: "jobs_ok db \<Longrightarrow> refused_or_step (markTransformJobRunning now input db) db"
  unfolding markTransformJobRunning_def transitionTransformJob_def
  by (intro refused_or_stepI validations view_step allowedI)
     (use keeps_running in \<open>auto simp: lifecycle_rules quiet_def\<close>)

lemma finalize_step: "jobs_ok db \<Longrightarrow> refused_or_step (markTransformJobFinalizing now input db) db"
  unfolding markTransformJobFinalizing_def transitionTransformJob_def
  by (intro refused_or_stepI validations view_step allowedI)
     (use keeps_finalizing in \<open>auto simp: lifecycle_rules quiet_def\<close>)

lemma fail_step:
  assumes "jobs_ok db" shows "refused_or_step (markTransformJobFailed now input e db) db"
  unfolding markTransformJobFailed_def transitionTransformJob_def
proof (intro refused_or_stepI validations view_step assms)
  assume e: "validateError e = Inr ()"
  show "keeps_jobs db (\<lambda>r. holds_lease input r \<and> unexpired now r \<and> tj_status r \<in> set [Leased, Running, Finalizing])
      (\<lambda>r. r\<lparr>tj_status := Failed, tj_error := Some (error_json e), tj_finished_at := Some now, tj_updated_at := now\<rparr>)"
    by (rule keeps_jobs_weaken [OF keeps_failed [OF e, where q = "\<lambda>_. True"]]) (auto simp: is_active_def)
  show "allowed db (\<lambda>r. holds_lease input r \<and> unexpired now r \<and> tj_status r \<in> set [Leased, Running, Finalizing])
      (\<lambda>r. r\<lparr>tj_status := Failed, tj_error := Some (error_json e), tj_finished_at := Some now, tj_updated_at := now\<rparr>)"
    by (rule allowedI) (auto simp: lifecycle_rules is_active_def)
qed (simp add: quiet_def)

lemma allowed_cancel:
  "(\<And>r. p r \<Longrightarrow> tj_status r \<in> {Queued, Leased, Running, Finalizing})
    \<Longrightarrow> allowed db p (\<lambda>r. r\<lparr>tj_status := Cancelled, tj_finished_at := Some now, tj_updated_at := now\<rparr>)"
  by (rule allowedI) (force simp: same_identity_def job_state_def is_active_def intro: lifecycle.cancel)+

lemma cancel_step:
  assumes "jobs_ok db" shows "refused_or_step (markTransformJobCancelled now input db) db"
  unfolding markTransformJobCancelled_def transitionTransformJob_def
proof (intro refused_or_stepI validations view_step assms)
  show "keeps_jobs db (\<lambda>r. holds_lease input r \<and> unexpired now r \<and> tj_status r \<in> set [Leased, Running, Finalizing])
      (\<lambda>r. r\<lparr>tj_status := Cancelled, tj_finished_at := Some now, tj_updated_at := now\<rparr>)"
    by (rule keeps_jobs_weaken [OF keeps_cancelled [where q = "\<lambda>_. True"]]) auto
  show "allowed db (\<lambda>r. holds_lease input r \<and> unexpired now r \<and> tj_status r \<in> set [Leased, Running, Finalizing])
      (\<lambda>r. r\<lparr>tj_status := Cancelled, tj_finished_at := Some now, tj_updated_at := now\<rparr>)"
    by (rule allowed_cancel) auto
qed (simp add: quiet_def)


lemma job_row_ok: "jobs_ok db \<Longrightarrow> r \<in> set (jobs db) \<Longrightarrow> job_ok db r"
  by (simp add: jobs_ok_def list_all_iff)

lemma find_job_lookup: "find_job db i = job_table.lookup (jobs db) i"
  by (simp add: find_job_def job_table.lookup_def)

lemma find_job_row: "find_job db i = Some r \<Longrightarrow> r \<in> set (jobs db) \<and> tj_id r = i"
  unfolding find_job_lookup by (blast dest: job_table.lookup_key)

lemma getTransformJob_total:
  assumes "jobs_ok db" "validateJobId i = Inr ()"
  shows "\<exists>v. getTransformJob i db = Inr v \<and> map_option jv_row v = find_job db i"
proof (cases "find_job db i")
  case None
  then show ?thesis using assms(2) by (simp add: getTransformJob_def)
next
  case (Some r)
  then have "job_ok db r" using assms(1) find_job_row job_row_ok by blast
  then obtain v where "prismaRowToTransformJob r = Inr v" "jv_row v = r"
    using view_total by (auto simp: job_ok_def)
  then show ?thesis using assms(2) Some by (simp add: getTransformJob_def)
qed

lemma request_cancel_step:
  assumes "jobs_ok db" shows "refused_or_step (requestTransformJobCancellation now i db) db"
  unfolding requestTransformJobCancellation_def
proof (rule refused_or_stepI, rule validations)
  assume valid: "validateJobId i = Inr ()"
  let ?p = "\<lambda>r. tj_id r = i \<and> tj_status r \<in> {Queued, Leased, Running, Finalizing}"
  let ?f = "\<lambda>r. r\<lparr>tj_status := Cancelled, tj_finished_at := Some now, tj_updated_at := now\<rparr>"
  have allow: "allowed db ?p ?f" by (rule allowed_cancel) simp
  have quiet: "quiet ?p ?f" by (simp add: quiet_def)
  note upd = update_step [OF assms keeps_cancelled allow]
  note plain = update_plain [OF assms keeps_cancelled allow quiet]
  obtain v where v: "getTransformJob i (with_jobs db (update_where ?p ?f (jobs db))) = Inr v"
    using getTransformJob_total [OF _ valid] upd(1) unfolding job_step_def by blast
  obtain w where w: "first_view (with_jobs db (update_where ?p ?f (jobs db)), returning ?p ?f (jobs db))
      = Inr (with_jobs db (update_where ?p ?f (jobs db)), w)"
    using upd(3,4) by auto
  show "refused_or_step (bindR (update_jobs ?p ?f db) (\<lambda>result. if snd result \<noteq> [] then first_view result
      else bindR (getTransformJob i (fst result)) (\<lambda>v. Inr (fst result, v)))) db"
    using plain v w unfolding refused_or_step_def upd(4) by auto
qed

lemma fail_expired_step:
  assumes "jobs_ok db" shows "refused_or_step (failExpiredTransformJobLeases now db) db"
proof -
  let ?p = "\<lambda>r. tj_lease_token r \<noteq> None \<and> (case tj_lease_expires_at r of None \<Rightarrow> False | Some t \<Rightarrow> t \<le> now) \<and> is_active (tj_status r)"
  let ?f = "\<lambda>r. r\<lparr>tj_status := Failed, tj_error := Some (error_json lease_expired_error),
      tj_finished_at := Some now, tj_updated_at := now\<rparr>"
  have "keeps_jobs db ?p ?f"
    by (rule keeps_jobs_weaken [OF keeps_failed [OF lease_expired_valid, where q = "\<lambda>_. True"]]) simp
  moreover have "allowed db ?p ?f" by (rule allowedI) (auto simp: lifecycle_rules is_active_def)
  moreover have "quiet ?p ?f" by (simp add: quiet_def)
  ultimately have step: "update_jobs ?p ?f db = Inr (with_jobs db (update_where ?p ?f (jobs db)), returning ?p ?f (jobs db))"
    "plain_step db (with_jobs db (update_where ?p ?f (jobs db)))"
    using update_step(4) [OF assms, of ?p ?f] update_plain [OF assms, of ?p ?f] by blast+
  then show ?thesis unfolding failExpiredTransformJobLeases_def refused_or_step_def step(1) by auto
qed

lemma retry_step:
  assumes "jobs_ok db" shows "refused_or_step (retryTransformJob now i db) db"
  unfolding retryTransformJob_def
proof (intro refused_or_stepI validations view_step assms keeps_retry)
  show "allowed db (\<lambda>r. tj_id r = i \<and> is_stopped (tj_status r) \<and> tj_lease_token r = None
      \<and> tj_input_key r = None \<and> tj_output_key r = None)
     (\<lambda>r. r\<lparr>tj_status := Queued, tj_progress := None, tj_error := None, tj_output_count := None,
        tj_started_at := None, tj_finished_at := None, tj_updated_at := now\<rparr>)"
    by (rule allowedI) (auto simp: same_identity_def job_state_def is_stopped_def intro: lifecycle.retry)
qed (simp add: quiet_def)

section \<open>Claiming\<close>

text \<open>A claim needs a token of 32 bytes and an attempt number that fits the column.\<close>

lemma claim_candidate_props:
  assumes "claim_candidate locked db = Some c"
  shows "c \<in> set (jobs db)" "tj_status c = Queued" "tj_id c \<notin> set locked"
    and "r \<in> set (jobs db) \<Longrightarrow> tj_status r = Queued \<Longrightarrow> tj_id r \<notin> set locked
      \<Longrightarrow> (tj_created_at c, tj_id c) \<le> (tj_created_at r, tj_id r)"
proof -
  let ?queue = "select_where (\<lambda>r. tj_status r = Queued \<and> tj_id r \<notin> set locked) (jobs db)"
  let ?key = "\<lambda>r. (tj_created_at r, tj_id r)"
  obtain rest where sorted: "order_by ?key ?queue = c # rest"
    using assms by (auto simp: claim_candidate_def split: list.splits)
  have set: "set (c # rest) = set ?queue" unfolding sorted [symmetric] by simp
  then have "c \<in> set ?queue" by auto
  then show "c \<in> set (jobs db)" "tj_status c = Queued" "tj_id c \<notin> set locked" by (auto simp: select_where_def)
  assume "r \<in> set (jobs db)" "tj_status r = Queued" "tj_id r \<notin> set locked"
  then have "r \<in> set (c # rest)" unfolding set by (simp add: select_where_def)
  moreover have "sorted (map ?key (c # rest))"
    unfolding sorted [symmetric] order_by_def by (rule sorted_sort_key)
  ultimately show "?key c \<le> ?key r" by auto
qed

lemma claim_candidate_None:
  "claim_candidate locked db = None \<longleftrightarrow> (\<forall>r \<in> set (jobs db). tj_status r = Queued \<longrightarrow> tj_id r \<in> set locked)"
proof -
  let ?queue = "select_where (\<lambda>r. tj_status r = Queued \<and> tj_id r \<notin> set locked) (jobs db)"
  have "claim_candidate locked db = None \<longleftrightarrow> order_by (\<lambda>r. (tj_created_at r, tj_id r)) ?queue = []"
    unfolding claim_candidate_def by (cases "order_by (\<lambda>r. (tj_created_at r, tj_id r)) ?queue") simp_all
  also have "\<dots> \<longleftrightarrow> set ?queue = {}"
    unfolding set_empty [symmetric, of "order_by (\<lambda>r. (tj_created_at r, tj_id r)) ?queue"] set_order_by ..
  finally show ?thesis by (auto simp: select_where_def)
qed

definition leased_row :: "int \<Rightarrow> bytes \<Rightarrow> js_string \<Rightarrow> int \<Rightarrow> transform_job \<Rightarrow> transform_job" where
  "leased_row now token owner duration r = r\<lparr>tj_status := Leased, tj_attempt := tj_attempt r + 1,
     tj_lease_owner := Some owner, tj_lease_token := Some token,
     tj_lease_expires_at := Some (now + duration * 1000), tj_updated_at := now\<rparr>"

lemma leased_row_ok:
  assumes "job_ok db r" "tj_status r = Queued" "length token = 32" "tj_attempt r < POSTGRES_INTEGER_MAX"
  shows "job_ok db (leased_row now token owner d r)" "row_step r (leased_row now token owner d r)"
proof -
  have keys: "tj_input_key r = None" "tj_output_key r = None"
    using assms(1,2) by (auto simp: job_ok_def stored_ok_def queued_ok_def job_check_def staging_check_def)
  have "lease_check (leased_row now token owner d r)" "staging_check (leased_row now token owner d r)"
    by (simp_all add: lease_check_def staging_check_def leased_row_def is_active_def keys assms(3))
  moreover have "completion_check (leased_row now token owner d r)" "attempt_check (leased_row now token owner d r)"
    using assms(1,2,4)
    by (auto simp: job_ok_def job_check_def completion_check_def attempt_check_def leased_row_def is_terminal_def)
  ultimately have "job_check (leased_row now token owner d r)"
    using assms(1) by (simp add: job_ok_def job_check_def) (simp add: leased_row_def job_frame)
  moreover have "stored_ok (leased_row now token owner d r)"
    using assms(1,2) by (auto simp: job_ok_def leased_row_def job_frame stored_ok_def ref_state_ok_def queued_ok_def split: option.splits)
  ultimately show "job_ok db (leased_row now token owner d r)"
    using assms(1) by (simp add: job_ok_def leased_row_def job_frame)
  have "tj_output_version r = None" using job_ok_output [OF assms(1)] assms(2) by simp
  then show "row_step r (leased_row now token owner d r)"
    using assms(2) by (auto simp: row_step_def same_identity_def job_state_def leased_row_def intro: lifecycle.lease)
qed


lemma unique_row:
  "jobs_ok db \<Longrightarrow> r \<in> set (jobs db) \<Longrightarrow> s \<in> set (jobs db) \<Longrightarrow> tj_id r = tj_id s \<Longrightarrow> r = s"
  unfolding jobs_ok_def using job_table.keyed_inject by blast

lemma returning_id:
  "jobs_ok db \<Longrightarrow> c \<in> set (jobs db) \<Longrightarrow> returning (\<lambda>r. tj_id r = tj_id c) f (jobs db) = [f c]"
  using job_table.returning_key [of "jobs db" "tj_id c" "\<lambda>_. True" f] job_table.lookup_mem [of "jobs db" c]
  by (simp add: jobs_ok_def)

lemma filter_token_update:
  assumes "jobs_ok db" "c \<in> set (jobs db)" "\<forall>r \<in> set (jobs db). tj_lease_token r = None" "tj_lease_token (f c) \<noteq> None"
  shows "filter (\<lambda>r. tj_lease_token r \<noteq> None) (update_where (\<lambda>r. tj_id r = tj_id c) f (jobs db)) = [f c]"
proof -
  have same: "r \<in> set (jobs db) \<Longrightarrow> tj_id r = tj_id c \<Longrightarrow> r = c" for r using unique_row assms(1,2) by blast
  have "filter (\<lambda>r. tj_lease_token r \<noteq> None) (update_where (\<lambda>r. tj_id r = tj_id c) f rows)
      = map f (filter (\<lambda>r. tj_id r = tj_id c) rows)" if "set rows \<subseteq> set (jobs db)" for rows
    using that
  proof (induction rows)
    case (Cons r rows)
    then have IH: "filter (\<lambda>r. tj_lease_token r \<noteq> None) (update_where (\<lambda>r. tj_id r = tj_id c) f rows)
      = map f (filter (\<lambda>r. tj_id r = tj_id c) rows)" and r: "r \<in> set (jobs db)" by simp_all
    show ?case
    proof (cases "tj_id r = tj_id c")
      case True
      then have "r = c" using same r by blast
      then show ?thesis using IH assms(4) by (simp add: update_where_def)
    next
      case False
      then show ?thesis using IH r assms(3) by (simp add: update_where_def)
    qed
  qed (simp add: update_where_def)
  then have "filter (\<lambda>r. tj_lease_token r \<noteq> None) (update_where (\<lambda>r. tj_id r = tj_id c) f (jobs db))
      = returning (\<lambda>r. tj_id r = tj_id c) f (jobs db)" by (simp add: returning_def)
  then show ?thesis by (simp add: returning_id [OF assms(1,2)])
qed

lemma claim_update:
  fixes now d :: int and owner :: js_string
  assumes "jobs_ok db" "c \<in> set (jobs db)" "tj_status c = Queued" "\<forall>r \<in> set (jobs db). tj_lease_token r = None"
    "length token = 32" "tj_attempt c < POSTGRES_INTEGER_MAX"
  defines "db' \<equiv> with_jobs db (update_where (\<lambda>r. tj_id r = tj_id c) (leased_row now token owner d) (jobs db))"
  shows "update_jobs (\<lambda>r. tj_id r = tj_id c) (leased_row now token owner d) db = Inr (db', [leased_row now token owner d c])"
    and "plain_step db db'"
    and "filter (\<lambda>r. tj_lease_token r \<noteq> None) (jobs db') = [leased_row now token owner d c]"
proof -
  let ?f = "leased_row now token owner d"
  have same: "r \<in> set (jobs db) \<Longrightarrow> tj_id r = tj_id c \<Longrightarrow> r = c" for r using unique_row assms(1,2) by blast
  note ok = leased_row_ok [OF job_row_ok [OF assms(1,2)] assms(3,5,6), of now owner d]
  show "update_jobs (\<lambda>r. tj_id r = tj_id c) ?f db = Inr (db', [?f c])"
    using ok(1) by (simp add: update_jobs_def returning_id [OF assms(1,2)] job_ok_def db'_def with_jobs_def)
  show tokens: "filter (\<lambda>r. tj_lease_token r \<noteq> None) (jobs db') = [?f c]"
    using filter_token_update [OF assms(1,2,4), of ?f] by (simp add: db'_def leased_row_def)
  have "job_table.keyed (jobs db')"
    using assms(1) by (simp add: db'_def jobs_ok_def job_table.keyed_update leased_row_def)
  moreover have "list_all (job_ok db) (jobs db')"
    using assms(1) same ok(1) by (auto simp: db'_def list_all_iff set_update_where job_row_ok)
  moreover have "single_lease (jobs db')" unfolding single_lease_def tokens by simp
  ultimately have "jobs_ok db'" by (simp add: jobs_ok_def) (simp add: db'_def)
  moreover have "jobs_evolve db db'"
    unfolding jobs_evolve_def
  proof
    fix r assume r: "r \<in> set (jobs db)"
    then have "(if tj_id r = tj_id c then ?f r else r) \<in> set (jobs db')"
      by (simp add: db'_def update_where_def)
    moreover have "row_step r (if tj_id r = tj_id c then ?f r else r)"
      using same [OF r] ok(2) row_step_refl by auto
    ultimately show "\<exists>s \<in> set (jobs db'). row_step r s" by blast
  qed
  ultimately have "job_step db db'" by (simp add: job_step_def db'_def)
  moreover have "\<exists>r \<in> set (jobs db). row_step r s \<and> tj_status r = Completed \<and> tj_output_count s = tj_output_count r"
    if "s \<in> set (jobs db')" "tj_status s = Completed" for s
  proof -
    have "s \<in> set (jobs db)" using that by (auto simp: db'_def set_update_where leased_row_def)
    with that(2) show ?thesis using row_step_refl by blast
  qed
  ultimately show "plain_step db db'" by (simp add: plain_step_def)
qed

lemma claim_eq:
  assumes "jobs_ok db" "length token = 32" "validateLeaseOwner owner = Inr ()" "validateLeaseDuration d = Inr ()"
  shows "if \<exists>r \<in> set (jobs db). tj_lease_token r \<noteq> None
     then claimNextTransformJob now token locked owner d db = Inr (db, None)
     else case claim_candidate locked db of
       None \<Rightarrow> claimNextTransformJob now token locked owner d db = Inr (db, None)
     | Some c \<Rightarrow>
         if tj_attempt c = POSTGRES_INTEGER_MAX
         then claimNextTransformJob now token locked owner d db = Inl CheckViolation
         else \<exists>db' v. claimNextTransformJob now token locked owner d db = Inr (db', Some v)
           \<and> jv_row v = leased_row now token owner d c \<and> plain_step db db'
           \<and> filter (\<lambda>r. tj_lease_token r \<noteq> None) (jobs db') = [leased_row now token owner d c]"
proof (cases "\<exists>r \<in> set (jobs db). tj_lease_token r \<noteq> None")
  case True
  then have "list_ex (\<lambda>r. tj_lease_token r \<noteq> None) (jobs db)" by (simp add: list_ex_iff)
  with True assms(3,4) show ?thesis by (simp add: claimNextTransformJob_def)
next
  case False
  then have free: "\<not> list_ex (\<lambda>r. tj_lease_token r \<noteq> None) (jobs db)" by (simp add: list_ex_iff)
  show ?thesis
  proof (cases "claim_candidate locked db")
    case None
    with False free assms(3,4) show ?thesis by (simp add: claimNextTransformJob_def)
  next
    case (Some c)
    note c = claim_candidate_props(1,2) [OF Some]
    have claim: "claimNextTransformJob now token locked owner d db =
        bindR (update_jobs (\<lambda>r. tj_id r = tj_id c) (leased_row now token owner d) db) (\<lambda>result.
        bindR (ensure (length (snd result) \<le> 1) ConsistencyError) (\<lambda>_. first_view result))"
      using assms(3,4) free Some by (simp add: claimNextTransformJob_def leased_row_def [abs_def])
    show ?thesis
    proof (cases "tj_attempt c = POSTGRES_INTEGER_MAX")
      case True
      have "\<not> job_check (leased_row now token owner d c)"
        using True by (simp add: job_check_def attempt_check_def leased_row_def)
      with True False Some show ?thesis
        by (simp add: claim update_jobs_def returning_id [OF assms(1) c(1)])
    next
      case bounded: False
      have "tj_attempt c < POSTGRES_INTEGER_MAX"
        using bounded job_row_ok [OF assms(1) c(1)] by (simp add: job_ok_def job_check_def attempt_check_def)
      note upd = claim_update [OF assms(1) c _ assms(2) this, of now owner d]
      have none: "\<forall>r \<in> set (jobs db). tj_lease_token r = None" using False by blast
      obtain v where v: "prismaRowToTransformJob (leased_row now token owner d c) = Inr v" "jv_row v = leased_row now token owner d c"
        using leased_row_ok(1) [OF job_row_ok [OF assms(1) c(1)] c(2) assms(2) \<open>tj_attempt c < POSTGRES_INTEGER_MAX\<close>, of now owner d]
          view_total by (auto simp: job_ok_def)
      have "claimNextTransformJob now token locked owner d db = Inr (with_jobs db
          (update_where (\<lambda>r. tj_id r = tj_id c) (leased_row now token owner d) (jobs db)), Some v)"
        using upd(1) [OF none] v(1) by (simp add: claim first_view_def)
      with upd(2,3) [OF none] v(2) False Some bounded show ?thesis by auto
    qed
  qed
qed

end
