(* ===== verification/Job_Result_Laws.thy ===== *)
theory Job_Result_Laws
  imports Transform_Job_Laws
begin

text \<open>
  Creating and completing transform jobs, the two operations that touch jobs, runs, datasets and refs
  in one transaction. The invariant of the whole catalog joins those of its parts: every ref points
  to a committed dataset, and a completed job has the run with its output.
\<close>

section \<open>The invariant of the catalog\<close>

definition refs_committed :: "catalog_db \<Rightarrow> bool" where
  "refs_committed db \<longleftrightarrow> list_all (\<lambda>r. is_committed db (rf_version r)) (refs db)"

definition has_result :: "catalog_db \<Rightarrow> transform_job \<Rightarrow> bool" where
  "has_result db r \<longleftrightarrow> (case find_run db (tj_cache_key r) of None \<Rightarrow> False
     | Some run \<Rightarrow> tj_output_version r = Some (ru_output_version run)
         \<and> (case find_snapshot db (ru_output_version run) of None \<Rightarrow> False
            | Some s \<Rightarrow> tj_output_count r = Some (sn_num_records s)))"

definition completed_ok :: "catalog_db \<Rightarrow> bool" where
  "completed_ok db \<longleftrightarrow> list_all (\<lambda>r. tj_status r = Completed \<longrightarrow> has_result db r) (jobs db)"

definition catalog_ok :: "catalog_db \<Rightarrow> bool" where
  "catalog_ok db \<longleftrightarrow> datasets_ok db \<and> runs_ok db \<and> refs_ok db \<and> refs_committed db \<and> claims_ok db
     \<and> jobs_ok db \<and> completed_ok db"

section \<open>Frames\<close>

definition with_refs :: "catalog_db \<Rightarrow> ref_row list \<Rightarrow> catalog_db" where
  "with_refs db rows = db\<lparr>refs := rows\<rparr>"

lemma with_refs_simps [simp]:
  "find_snapshot (with_refs db rows) = find_snapshot db"
  "find_namespace (with_refs db rows) = find_namespace db"
  "find_run (with_refs db rows) = find_run db"
  "is_committed (with_refs db rows) = is_committed db"
  "jobs (with_refs db rows) = jobs db" "refs (with_refs db rows) = rows"
  by (simp_all add: with_refs_def find_snapshot_def find_namespace_def find_run_def is_committed_def fun_eq_iff)

lemma with_jobs_more [simp]:
  "find_run (with_jobs db rows) = find_run db"
  "is_committed (with_jobs db rows) = is_committed db"
  "refs (with_jobs db rows) = refs db"
  by (simp_all add: with_jobs_def find_run_def is_committed_def fun_eq_iff)

lemma job_ok_cong:
  "find_snapshot db' = find_snapshot db \<Longrightarrow> find_namespace db' = find_namespace db \<Longrightarrow> job_ok db' = job_ok db"
  unfolding job_ok_def job_fks_def by (rule ext) (simp only:)

lemma has_result_cong:
  "find_run db' = find_run db \<Longrightarrow> find_snapshot db' = find_snapshot db \<Longrightarrow> has_result db' = has_result db"
  unfolding has_result_def by (rule ext) (simp only:)

text \<open>The parts of the invariant that an operation on refs and jobs leaves alone.\<close>

lemma frame_refs_jobs:
  assumes "db' = with_jobs (with_refs db rows) new_jobs"
  shows "datasets_ok db' = datasets_ok db" "runs_ok db' = runs_ok db" "claims_ok db' = claims_ok db"
    "catalog_grows db db'"
proof -
  have sel: "snapshots db' = snapshots db" "layouts db' = layouts db" "locations db' = locations db" "edges db' = edges db"
    "runs db' = runs db" "run_inputs db' = run_inputs db" "next_lineage_seq db' = next_lineage_seq db"
    "claims db' = claims db" "namespaces db' = namespaces db"
    by (simp_all add: assms with_jobs_def with_refs_def)
  have find: "find_snapshot db' = find_snapshot db" "is_committed db' = is_committed db" "inputs_of db' = inputs_of db"
    "find_namespace db' = find_namespace db"
    by (simp_all add: find_snapshot_def is_committed_def inputs_of_def find_namespace_def sel fun_eq_iff)
  show "datasets_ok db' = datasets_ok db"
    by (simp add: datasets_ok_def snapshots_ok_def layout_keys_ok_def layouts_ok_def lineage_ok_def sel find)
  show "runs_ok db' = runs_ok db" by (simp add: runs_ok_def run_rows_ok_def run_inputs_ok_def sel find)
  show "claims_ok db' = claims_ok db" by (simp add: claims_ok_def sel find)
  show "catalog_grows db db'"
    by (simp add: catalog_grows_def lineage_grows_def runs_grow_def sel find)
qed

section \<open>Adopting a ref\<close>

lemma adopt_Inr:
  assumes "adoptTransformJobResultRefInTransaction now ns name output db = Inr (db', status, v)" "refs_ok db"
  shows "db' = with_refs db (refs db') \<and> refs_ok db' \<and> status \<noteq> PendingRef
    \<and> (status = UpdatedRef \<longrightarrow> v = output) \<and> EXACT_VERSION v \<and> find_snapshot db v \<noteq> None
    \<and> find_namespace db ns \<noteq> None \<and> ref_name_ok name
    \<and> (refs_committed db \<longrightarrow> is_committed db output \<longrightarrow> refs_committed db')"
proof -
  let ?row = "\<lparr>rf_namespace_id = ns, rf_name = name, rf_version = output, rf_message = None,
      rf_updated_at = now, rf_deleted_at = None\<rparr>"
  have key: "ref_key ?row = (ns, name)" by (simp add: ref_key_def)
  have check: "ref_check ?row"
    using assms(1) unfolding adoptTransformJobResultRefInTransaction_def insert_ref_eq by (auto split: if_splits)
  then have name: "ref_name_ok name" "EXACT_VERSION output" by (simp_all add: ref_check_def ref_name_ok_def)
  show ?thesis
  proof (cases "lookup_ref db (ns, name)")
    case None
    then have fks: "ref_fks db ?row"
      using assms(1) check key unfolding adoptTransformJobResultRefInTransaction_def insert_ref_eq by (auto split: if_splits)
    then have "db' = with_refs db (refs db @ [?row]) \<and> status = UpdatedRef \<and> v = output"
      using assms(1) check key None unfolding adoptTransformJobResultRefInTransaction_def insert_ref_eq
      by (auto simp: with_refs_def)
    moreover have "refs_ok (with_refs db (refs db @ [?row]))"
      unfolding with_refs_def using refs_ok_insert [OF assms(2), of ?row] None check fks key by simp
    ultimately show ?thesis
      using fks name by (auto simp: ref_fks_def refs_committed_def list_all_iff)
  next
    case (Some r)
    note r = refs_ok_row [OF assms(2) Some]
    have "select_where (\<lambda>r. ref_key r = (ns, name)) (refs db) = [r]"
      using ref_table.select_key [OF refs_keyed [OF assms(2)], of "(ns, name)" "\<lambda>_. True"] Some by (simp add: lookup_ref_def)
    then have res: "db' = db \<and> (if rf_deleted_at r = None \<and> rf_version r = output then status = UpdatedRef \<and> v = output
        else status = ConflictRef \<and> v = rf_version r)"
      using assms(1) check key Some unfolding adoptTransformJobResultRefInTransaction_def insert_ref_eq
      by (auto split: if_splits)
    moreover have "EXACT_VERSION (rf_version r)" "find_snapshot db (rf_version r) \<noteq> None" "find_namespace db ns \<noteq> None"
      using r by (auto simp: ref_check_def ref_fks_def ref_key_def)
    ultimately show ?thesis using assms(2) name by (auto simp: with_refs_def split: if_splits)
  qed
qed

lemma adopt_if_named_Inr:
  assumes "adopt_if_named now ns name output db = Inr (db', adopted)" "refs_ok db"
  shows "db' = with_refs db (refs db') \<and> refs_ok db'
    \<and> (adopted = None \<longleftrightarrow> ns = None \<or> name = None)
    \<and> (\<forall>status v. adopted = Some (status, v) \<longrightarrow> status \<noteq> PendingRef \<and> (status = UpdatedRef \<longrightarrow> v = output)
        \<and> EXACT_VERSION v \<and> find_snapshot db v \<noteq> None)
    \<and> (refs_committed db \<longrightarrow> is_committed db output \<longrightarrow> refs_committed db')"
proof (cases "\<exists>n m. ns = Some n \<and> name = Some m")
  case True
  then obtain n m where nm: "ns = Some n" "name = Some m" by blast
  with assms(1) obtain status v where a: "adoptTransformJobResultRefInTransaction now n m output db = Inr (db', status, v)"
    and "adopted = Some (status, v)"
    by (auto simp: adopt_if_named_def result_simps)
  with adopt_Inr [OF a assms(2)] nm show ?thesis by auto
next
  case False
  then have "db' = db \<and> adopted = None"
    using assms(1) by (auto simp: adopt_if_named_def split: option.splits)
  with False assms(2) show ?thesis by (auto simp: with_refs_def)
qed


section \<open>Updates that check themselves\<close>

text \<open>
  A statement that succeeded has checked the constraints of the rows it wrote; what is left is what
  the constraints do not say.
\<close>

lemma update_jobs_Inr:
  assumes "update_jobs p f db = Inr (db', rows)" "jobs_ok db"
    and f: "\<And>r. p r \<Longrightarrow> job_ok db r \<Longrightarrow> stored_ok (f r) \<and> tj_id (f r) = tj_id r
      \<and> (tj_lease_token (f r) \<noteq> None \<longrightarrow> tj_lease_token r \<noteq> None) \<and> row_step r (f r)"
  shows "job_step db db'" "db' = with_jobs db (update_where p f (jobs db))" "rows = returning p f (jobs db)"
proof -
  let ?q = "\<lambda>r. p r \<and> job_ok db r \<and> job_ok db (f r)"
  have upd: "list_all job_check (returning p f (jobs db))" "list_all (job_fks db) (returning p f (jobs db))"
    and db': "db' = with_jobs db (update_where p f (jobs db))" and rows: "rows = returning p f (jobs db)"
    using assms(1) by (auto simp: update_jobs_def result_simps with_jobs_def)
  show "db' = with_jobs db (update_where p f (jobs db))" "rows = returning p f (jobs db)" by (fact db' rows)+
  have good: "r \<in> set (jobs db) \<Longrightarrow> ?q r \<longleftrightarrow> p r" for r
    using upd f job_row_ok [OF assms(2)] by (auto simp: list_all_iff returning_set job_ok_def)
  have same: "update_where p f (jobs db) = update_where ?q f (jobs db)"
    using good by (auto simp: update_where_def)
  have "keeps_jobs db ?q f" unfolding keeps_jobs_def using f by blast
  moreover have "allowed db ?q f" unfolding allowed_def using f by blast
  ultimately show "job_step db db'"
    using update_step(1) [OF assms(2), of ?q f] by (simp add: db' same)
qed

lemma has_result_step:
  assumes "completed_ok db" "jobs_ok db"
    and f: "\<And>r. p r \<Longrightarrow> r \<in> set (jobs db) \<Longrightarrow> tj_status (f r) = Completed \<Longrightarrow> has_result db (f r)"
  shows "completed_ok (with_jobs db (update_where p f (jobs db)))"
proof -
  have cong: "has_result (with_jobs db rows) = has_result db" for rows
    by (rule has_result_cong) simp_all
  show ?thesis
    using assms(1) f by (auto simp: completed_ok_def cong list_all_iff set_update_where)
qed

section \<open>Creating\<close>

text \<open>What a transaction on refs and jobs establishes.\<close>

definition result_step :: "catalog_db \<Rightarrow> catalog_db \<Rightarrow> bool" where
  "result_step db db' \<longleftrightarrow> db' = with_jobs (with_refs db (refs db')) (jobs db')
     \<and> refs_ok db' \<and> refs_committed db' \<and> jobs_ok db' \<and> completed_ok db' \<and> jobs_evolve db db'"

definition jobs_stay :: "catalog_db \<Rightarrow> catalog_db \<Rightarrow> bool" where
  "jobs_stay db db' \<longleftrightarrow> (\<forall>r \<in> set (jobs db). \<exists>s \<in> set (jobs db'). same_identity r s \<and> job_state s = job_state r)"

lemma same_identity_trans: "same_identity r s \<Longrightarrow> same_identity s t \<Longrightarrow> same_identity r t"
  by (simp add: same_identity_def)

lemma jobs_stay_evolve: "jobs_stay a b \<Longrightarrow> jobs_evolve b c \<Longrightarrow> jobs_evolve a c"
  unfolding jobs_stay_def jobs_evolve_def row_step_def using same_identity_trans by metis

lemma jobs_stay_trans: "jobs_stay a b \<Longrightarrow> jobs_stay b c \<Longrightarrow> jobs_stay a c"
  unfolding jobs_stay_def using same_identity_trans by metis

lemma jobs_stay_subset: "set (jobs db) \<subseteq> set (jobs db') \<Longrightarrow> jobs_stay db db'"
  by (force simp: jobs_stay_def same_identity_def)

lemma jobs_stay_update:
  assumes "\<And>r. p r \<Longrightarrow> same_identity r (f r) \<and> job_state (f r) = job_state r"
  shows "jobs_stay db (with_jobs db' (update_where p f (jobs db)))"
  unfolding jobs_stay_def
proof
  fix r assume "r \<in> set (jobs db)"
  then have "(if p r then f r else r) \<in> set (update_where p f (jobs db))" by (simp add: update_where_def)
  moreover have "same_identity r (if p r then f r else r) \<and> job_state (if p r then f r else r) = job_state r"
    using assms by (simp add: same_identity_def)
  ultimately show "\<exists>s \<in> set (jobs (with_jobs db' (update_where p f (jobs db)))). same_identity r s \<and> job_state s = job_state r"
    by auto
qed

lemma read_job_Inr:
  "read_job i db = Inr r \<Longrightarrow> r \<in> set (jobs db) \<and> tj_id r = i"
  unfolding read_job_def using find_job_row by (auto split: option.splits)

lemma completed_has_result:
  "completed_ok db \<Longrightarrow> r \<in> set (jobs db) \<Longrightarrow> tj_status r = Completed \<Longrightarrow> has_result db r"
  by (simp add: completed_ok_def list_all_iff)

lemma result_committed:
  assumes "runs_ok db" "has_result db r" "tj_output_version r = Some v"
  shows "is_committed db v"
proof -
  obtain run where run: "find_run db (tj_cache_key r) = Some run" "v = ru_output_version run"
    using assms(2,3) by (auto simp: has_result_def split: option.splits)
  then have "run \<in> set (runs db)" unfolding find_run_lookup by (blast dest: run_table.lookup_key)
  with assms(1) run(2) show ?thesis by (simp add: runs_ok_def run_rows_ok_def list_all_iff)
qed

text \<open>The three steps of \<open>createOrReadTransformJob\<close> after the checks of the request.\<close>

definition stay_step :: "catalog_db \<Rightarrow> catalog_db \<Rightarrow> bool" where
  "stay_step db db' \<longleftrightarrow> db' = with_jobs (with_refs db (refs db')) (jobs db')
     \<and> refs_ok db' \<and> refs_committed db' \<and> jobs_ok db' \<and> completed_ok db' \<and> jobs_stay db db'"

lemma with_twice [simp]:
  "with_jobs (with_jobs db js1) js2 = with_jobs db js2" "with_refs (with_refs db rs1) rs2 = with_refs db rs2"
  "with_refs (with_jobs db js1) rs1 = with_jobs (with_refs db rs1) js1"
  by (simp_all add: with_jobs_def with_refs_def)

lemma stay_then_result: "stay_step a b \<Longrightarrow> result_step b c \<Longrightarrow> result_step a c"
  unfolding stay_step_def result_step_def using jobs_stay_evolve with_twice by metis

lemma stay_then_stay: "stay_step a b \<Longrightarrow> stay_step b c \<Longrightarrow> stay_step a c"
  unfolding stay_step_def using jobs_stay_trans with_twice by metis

lemma frames:
  assumes "db' = with_jobs (with_refs db rows) new_jobs"
  shows "find_snapshot db' = find_snapshot db" "find_run db' = find_run db" "is_committed db' = is_committed db"
    "find_namespace db' = find_namespace db" "runs_ok db' = runs_ok db"
  using frame_refs_jobs [OF assms] by (simp_all add: assms)

lemma adopt_step:
  assumes "adopt_if_named now ns name output db = Inr (db', adopted)"
    and "refs_ok db" "refs_committed db" "jobs_ok db" "completed_ok db" "is_committed db output"
  shows "stay_step db db'"
proof -
  note a = adopt_if_named_Inr [OF assms(1,2)]
  then have db': "db' = with_refs db (refs db')" by blast
  then have jobs: "jobs db' = jobs db" by (metis with_refs_simps(5))
  have find: "find_snapshot db' = find_snapshot db" "find_run db' = find_run db" "find_namespace db' = find_namespace db"
    by (subst db', simp)+
  have "jobs_ok db' = jobs_ok db" "completed_ok db' = completed_ok db"
    by (simp_all add: jobs_ok_def completed_ok_def jobs job_ok_cong [OF find(1,3)] has_result_cong [OF find(2,1)])
  moreover have "db' = with_jobs (with_refs db (refs db')) (jobs db')"
    by (subst db') (simp add: jobs, simp add: with_jobs_def with_refs_def)
  ultimately show ?thesis
    using a assms jobs_stay_subset [of db db'] jobs by (simp add: stay_step_def)
qed


lemma cached_run_Inr:
  assumes "cached_run input db = Inr run" "runs_ok db"
  shows "case run of None \<Rightarrow> find_run db (ct_cache_key input) = None
    | Some (r, s) \<Rightarrow> find_run db (ct_cache_key input) = Some r \<and> find_snapshot db (ru_output_version r) = Some s
        \<and> is_committed db (ru_output_version r)"
proof (cases "find_run db (ct_cache_key input)")
  case (Some r)
  then have "r \<in> set (runs db)" unfolding find_run_lookup by (blast dest: run_table.lookup_key)
  then have "is_committed db (ru_output_version r)" using assms(2) by (simp add: runs_ok_def run_rows_ok_def list_all_iff)
  with Some assms(1) show ?thesis by (auto simp: cached_run_def result_simps split: option.splits)
qed (use assms(1) in \<open>simp add: cached_run_def\<close>)

text \<open>The ref state a request brings: adopted exactly when there is a run and a name.\<close>

definition adopted_ok :: "catalog_db \<Rightarrow> create_transform_job \<Rightarrow> (run_row \<times> snapshot_row) option
    \<Rightarrow> (result_ref_status \<times> js_string) option \<Rightarrow> bool" where
  "adopted_ok db input run adopted \<longleftrightarrow>
     (adopted = None \<longleftrightarrow> run = None \<or> ct_result_ref_name input = None)
   \<and> (\<forall>status v. adopted = Some (status, v) \<longrightarrow> status \<noteq> PendingRef
        \<and> (status = UpdatedRef \<longrightarrow> Some v = map_option (ru_output_version \<circ> fst) run)
        \<and> EXACT_VERSION v \<and> find_snapshot db v \<noteq> None)"

lemma stored_new_job:
  assumes "adopted_ok db input run adopted"
  shows "stored_ok (new_job now input run adopted)"
  using assms
  by (auto simp: stored_rules new_job_def adopted_ok_def split: option.splits prod.splits)

lemma insert_job_step:
  assumes "insert_job (new_job now input run adopted) db = Inr db'" "adopted_ok db input run adopted"
    and "case run of None \<Rightarrow> True | Some (r, s) \<Rightarrow> find_run db (ct_cache_key input) = Some r
        \<and> find_snapshot db (ru_output_version r) = Some s"
    and ok: "refs_ok db" "refs_committed db" "jobs_ok db" "completed_ok db"
  shows "stay_step db db'"
proof -
  let ?row = "new_job now input run adopted"
  note ins = assms(1) [unfolded insert_job_def insert_on_conflict_do_nothing_def]
  show ?thesis
  proof (cases "list_ex (job_conflict ?row) (jobs db)")
    case True
    with ins have "db' = db" by (simp add: result_simps)
    then show ?thesis using ok jobs_stay_subset [of db db] by (simp add: stay_step_def) (simp add: with_jobs_def with_refs_def)
  next
    case False
    with ins have row: "job_check ?row" "job_fks db ?row" and db': "db' = with_jobs db (jobs db @ [?row])"
      by (auto simp: result_simps with_jobs_def)
    have fresh: "tj_id ?row \<notin> tj_id ` set (jobs db)"
      using False by (auto simp: list_ex_iff job_conflict_def)
    have "job_ok db ?row" using row stored_new_job [OF assms(2)] by (simp add: job_ok_def)
    moreover have "tj_lease_token ?row = None" by (simp add: new_job_def)
    ultimately have "jobs_ok db'"
      using ok(3) fresh by (auto simp: jobs_ok_def db' job_table.keyed_def single_lease_def)
    moreover have "completed_ok db'"
    proof -
      have "tj_status ?row = Completed \<Longrightarrow> has_result db ?row"
        using assms(3) by (cases run) (auto simp: has_result_def new_job_def)
      moreover have "has_result db' = has_result db" unfolding db' by (rule has_result_cong) simp_all
      ultimately show ?thesis using ok(4) by (auto simp: completed_ok_def db')
    qed
    moreover have "refs_ok db' \<and> refs_committed db'"
    proof -
      have "refs db' = refs db" "ref_fks db' = ref_fks db" "is_committed db' = is_committed db"
        by (simp_all add: db' ref_fks_def fun_eq_iff)
      then show ?thesis using ok(1,2) by (simp add: refs_ok_def refs_committed_def)
    qed
    ultimately show ?thesis
      using jobs_stay_subset [of db db'] by (auto simp: stay_step_def db') (simp add: with_jobs_def with_refs_def)
  qed
qed

lemma refs_with_jobs:
  "refs_ok (with_jobs db rows) = refs_ok db" "refs_committed (with_jobs db rows) = refs_committed db"
  by (simp_all add: refs_ok_def refs_committed_def ref_fks_def [abs_def])

lemma with_own: "with_refs db (refs db) = db" "with_jobs db (jobs db) = db"
  by (simp_all add: with_jobs_def with_refs_def)

lemma attach_step:
  assumes "attach_result_ref now input row db = Inr (db', row')" "read_job (ct_id input) db = Inr row"
    and ok: "refs_ok db" "refs_committed db" "jobs_ok db" "completed_ok db" "runs_ok db"
  shows "stay_step db db' \<and> read_job (ct_id input) db' = Inr row'"
proof (cases "tj_result_ref_name row = None \<and> ct_result_ref_namespace_id input \<noteq> None \<and> ct_result_ref_name input \<noteq> None")
  case False
  with assms(1) have "db' = db" "row' = row" by (auto simp: attach_result_ref_def)
  with ok assms(2) show ?thesis using jobs_stay_subset [of db db] by (simp add: stay_step_def with_own)
next
  case True
  let ?p = "\<lambda>r. tj_id r = ct_id input \<and> tj_result_ref_name r = None"
  let ?f = "\<lambda>status version r. r\<lparr>tj_result_ref_namespace_id := ct_result_ref_namespace_id input,
                tj_result_ref_name := ct_result_ref_name input,
                tj_result_ref_status := Some status, tj_result_ref_version := version, tj_updated_at := now\<rparr>"
  note mem = read_job_Inr [OF assms(2)]
  have row_ok: "job_ok db row" using job_row_ok ok(3) mem by blast
  obtain mid status version rows where
      adopt: "(case (tj_status row, tj_output_version row) of
               (Completed, Some version) \<Rightarrow>
                 bindR (adopt_if_named now (ct_result_ref_namespace_id input) (ct_result_ref_name input) version db)
                   (\<lambda>(db, adopted). Inr (db, case adopted of None \<Rightarrow> (PendingRef, None) | Some (st, v) \<Rightarrow> (st, Some v)))
             | _ \<Rightarrow> Inr (db, PendingRef, None)) = Inr (mid, status, version)"
    and upd: "update_jobs ?p (?f status version) mid = Inr (db', rows)" and read: "read_job (ct_id input) db' = Inr row'"
    using assms(1) True unfolding attach_result_ref_def by (auto simp: result_simps)
  have mid: "stay_step db mid \<and> jobs mid = jobs db \<and> (status = PendingRef \<longleftrightarrow> tj_status row \<noteq> Completed)
      \<and> (status = UpdatedRef \<longrightarrow> version = tj_output_version row)
      \<and> (case version of None \<Rightarrow> True | Some v \<Rightarrow> EXACT_VERSION v)"
  proof (cases "tj_status row = Completed")
    case completed: True
    then obtain v where v: "tj_output_version row = Some v"
      using row_ok by (auto simp: job_ok_def job_check_def completion_check_def)
    obtain adopted where a: "adopt_if_named now (ct_result_ref_namespace_id input) (ct_result_ref_name input) v db = Inr (mid, adopted)"
      and st: "(status, version) = (case adopted of None \<Rightarrow> (PendingRef, None) | Some (st, v) \<Rightarrow> (st, Some v))"
      using adopt completed v by (auto simp: result_simps)
    have "is_committed db v"
      using result_committed [OF ok(5) completed_has_result [OF ok(4) _ completed] v] mem by blast
    then have "stay_step db mid" using adopt_step [OF a ok(1-4)] by blast
    moreover note adopt_if_named_Inr [OF a ok(1)]
    moreover from this have "jobs mid = jobs db" by (metis with_refs_simps(5))
    ultimately show ?thesis using st True completed v by (auto split: option.splits)
  next
    case False
    then have "mid = db" "status = PendingRef" "version = None"
      using adopt by (auto split: job_status.splits option.splits)
    with False ok show ?thesis using jobs_stay_subset [of db db] by (simp add: stay_step_def with_own)
  qed
  have mid_ok: "refs_ok mid" "refs_committed mid" "jobs_ok mid" "completed_ok mid" using mid by (simp_all add: stay_step_def)
  have only: "r = row" if "r \<in> set (jobs mid)" "?p r" for r
    using that mid mem unique_row [OF ok(3)] by auto
  let ?g = "\<lambda>r. r = row \<and> ?p r"
  have stored: "stored_ok (?f status version row) \<and> tj_id (?f status version row) = tj_id row
      \<and> (tj_lease_token (?f status version row) \<noteq> None \<longrightarrow> tj_lease_token row \<noteq> None)
      \<and> row_step row (?f status version row)"
  proof -
    have "stored_ok row" using row_ok by (simp add: job_ok_def)
    then have "stored_ok (?f status version row)"
      using mid by (auto simp: stored_rules split: option.splits)
    then show ?thesis by (simp add: row_step_def same_identity_def job_state_def lifecycle.stay)
  qed
  have upd': "update_jobs ?g (?f status version) mid = Inr (db', rows)"
  proof -
    have "r \<in> set (jobs mid) \<Longrightarrow> ?g r = ?p r" for r using only by blast
    then have "update_where ?g (?f status version) (jobs mid) = update_where ?p (?f status version) (jobs mid)"
      "returning ?g (?f status version) (jobs mid) = returning ?p (?f status version) (jobs mid)"
      by (auto simp: update_where_def returning_def intro!: arg_cong [where f = "map _"] filter_cong)
    with upd show ?thesis by (simp add: update_jobs_def)
  qed
  note step = update_jobs_Inr [OF upd' mid_ok(3)]
  have "jobs_ok db'" using step(1) stored unfolding job_step_def by blast
  moreover have db': "db' = with_jobs mid (update_where ?g (?f status version) (jobs mid))" using step(2) stored by blast
  moreover have "completed_ok db'"
  proof -
    have "tj_status (?f status version row) = Completed \<Longrightarrow> has_result mid (?f status version row)"
      using completed_has_result [OF mid_ok(4), of row] mid mem by (simp add: has_result_def cong: option.case_cong)
    then show ?thesis unfolding db' by (intro has_result_step mid_ok) blast
  qed
  moreover have "jobs_stay mid db'"
    unfolding db' by (rule jobs_stay_update) (simp add: same_identity_def job_state_def)
  ultimately have "stay_step mid db'"
    using mid_ok by (simp add: stay_step_def refs_with_jobs) (simp add: with_own)
  with mid read show ?thesis using stay_then_stay by blast
qed


lemma result_step_same: "refs_ok db \<Longrightarrow> refs_committed db \<Longrightarrow> jobs_ok db \<Longrightarrow> completed_ok db \<Longrightarrow> result_step db db"
  by (simp add: result_step_def with_own jobs_evolve_refl)

text \<open>An update that can only reach one row.\<close>

lemma single_update:
  assumes upd: "update_jobs p f mid = Inr (db', rows)"
    and ok: "refs_ok mid" "refs_committed mid" "jobs_ok mid" "completed_ok mid"
    and only: "\<And>j. j \<in> set (jobs mid) \<Longrightarrow> p j \<Longrightarrow> j = row"
    and row: "stored_ok (f row)" "tj_id (f row) = tj_id row"
      "tj_lease_token (f row) \<noteq> None \<Longrightarrow> tj_lease_token row \<noteq> None" "row_step row (f row)"
      "tj_status (f row) = Completed \<Longrightarrow> has_result mid (f row)"
  shows "result_step mid db'" "db' = with_jobs mid (update_where p f (jobs mid))" "rows = returning p f (jobs mid)"
proof -
  let ?g = "\<lambda>j. j = row \<and> p j"
  have "j \<in> set (jobs mid) \<Longrightarrow> ?g j = p j" for j using only by blast
  then have same: "update_where ?g f (jobs mid) = update_where p f (jobs mid)" "returning ?g f (jobs mid) = returning p f (jobs mid)"
    by (auto simp: update_where_def returning_def intro!: arg_cong [where f = "map _"] filter_cong)
  then have "update_jobs ?g f mid = Inr (db', rows)" using upd by (simp add: update_jobs_def)
  note step = update_jobs_Inr [OF this ok(3)]
  have js: "jobs_ok db'" "jobs_evolve mid db'" using step(1) row unfolding job_step_def by blast+
  have db': "db' = with_jobs mid (update_where ?g f (jobs mid))" using step(2) row by blast
  then show "db' = with_jobs mid (update_where p f (jobs mid))" by (simp add: same)
  show "rows = returning p f (jobs mid)" using step(3) row same by blast
  have "completed_ok db'" unfolding db' by (intro has_result_step ok) (use row(5) in blast)
  then show "result_step mid db'"
    using js ok by (simp add: result_step_def) (simp add: db' refs_with_jobs with_own)
qed

lemma from_cache_step:
  assumes "complete_from_cache now input run row db = Inr (db', row')" "read_job (ct_id input) db = Inr row"
    and cached: "case run of None \<Rightarrow> find_run db (ct_cache_key input) = None
      | Some (r, s) \<Rightarrow> find_run db (ct_cache_key input) = Some r \<and> find_snapshot db (ru_output_version r) = Some s
          \<and> is_committed db (ru_output_version r)"
    and key: "tj_cache_key row = ct_cache_key input"
    and ok: "refs_ok db" "refs_committed db" "jobs_ok db" "completed_ok db"
  shows "result_step db db' \<and> read_job (ct_id input) db' = Inr row'"
proof (cases "\<exists>r s. run = Some (r, s) \<and> tj_status row = Queued \<and> tj_attempt row = 0")
  case False
  then have "db' = db" "row' = row"
    using assms(1) by (auto simp: complete_from_cache_def result_simps split: if_splits option.splits)
  with assms(2) ok show ?thesis by (simp add: result_step_same)
next
  case True
  then obtain r s where run: "run = Some (r, s)" and queued: "tj_status row = Queued" "tj_attempt row = 0" by blast
  let ?p = "\<lambda>j. tj_id j = ct_id input \<and> tj_status j = Queued \<and> tj_attempt j = 0 \<and> tj_lease_token j = None"
  note mem = read_job_Inr [OF assms(2)]
  have row_ok: "job_ok db row" using job_row_ok ok(3) mem by blast
  obtain mid adopted rows where
      a: "adopt_if_named now (tj_result_ref_namespace_id row) (tj_result_ref_name row) (ru_output_version r) db = Inr (mid, adopted)"
    and upd: "update_jobs ?p (\<lambda>j. j\<lparr>tj_status := Completed, tj_output_version := Some (ru_output_version r),
                 tj_output_count := Some (sn_num_records s),
                 tj_result_ref_status := map_option fst adopted, tj_result_ref_version := map_option snd adopted,
                 tj_cache_hit := True, tj_finished_at := Some now, tj_updated_at := now\<rparr>) mid = Inr (db', rows)"
    and read: "read_job (ct_id input) db' = Inr row'"
    using assms(1) run queued unfolding complete_from_cache_def by (auto simp: result_simps)
  let ?f = "\<lambda>j. j\<lparr>tj_status := Completed, tj_output_version := Some (ru_output_version r),
                 tj_output_count := Some (sn_num_records s),
                 tj_result_ref_status := map_option fst adopted, tj_result_ref_version := map_option snd adopted,
                 tj_cache_hit := True, tj_finished_at := Some now, tj_updated_at := now\<rparr>"
  note adopt = adopt_if_named_Inr [OF a ok(1)]
  have mid: "stay_step db mid" using adopt_step [OF a ok] cached run by simp
  have jobs_mid: "jobs mid = jobs db" using adopt by (metis with_refs_simps(5))
  have find: "find_run mid = find_run db" "find_snapshot mid = find_snapshot db"
    using adopt by (metis with_refs_simps(1,3))+
  have mid_ok: "refs_ok mid" "refs_committed mid" "jobs_ok mid" "completed_ok mid" using mid by (simp_all add: stay_step_def)
  have only: "j = row" if "j \<in> set (jobs mid)" "?p j" for j
    using that jobs_mid mem unique_row [OF ok(3)] by auto
  have out: "tj_output_version row = None" using job_ok_output [OF row_ok] queued by simp
  have "stored_ok row" using row_ok by (simp add: job_ok_def)
  then have stored: "stored_ok (?f row)"
    using adopt by (cases adopted) (auto simp: stored_rules split: option.splits)
  have step: "row_step row (?f row)"
    using queued out by (auto simp: row_step_def same_identity_def job_state_def intro: lifecycle.from_cache)
  have result: "has_result mid (?f row)" using cached run key by (simp add: has_result_def find)
  have "result_step mid db'"
    by (rule single_update(1) [OF upd mid_ok only stored _ _ step result]) simp_all
  with mid read show ?thesis using stay_then_result by blast
qed

text \<open>The transaction as a whole.\<close>

lemma create_Inr:
  assumes "createOrReadTransformJob now input db = Inr (db', v)" "catalog_ok db"
  shows "result_step db db' \<and> read_job (ct_id input) db' = Inr (jv_row v) \<and> prismaRowToTransformJob (jv_row v) = Inr v"
proof -
  obtain run db1 initial db2 row db3 row3 row4 where valid: "validateCreateTransformJob input = Inr ()"
    and run: "cached_run input db = Inr run"
    and initial: "(case run of None \<Rightarrow> Inr (db, None)
       | Some (r, _) \<Rightarrow> adopt_if_named now (ct_result_ref_namespace_id input) (ct_result_ref_name input)
           (ru_output_version r) db) = Inr (db1, initial)"
    and insert: "insert_job (new_job now input run initial) db1 = Inr db2"
    and read: "read_job (ct_id input) db2 = Inr row" and ident: "assertTransformJobIdentity row input = Inr ()"
    and attach: "attach_result_ref now input row db2 = Inr (db3, row3)"
    and cache: "complete_from_cache now input run row3 db3 = Inr (db', row4)" and view: "prismaRowToTransformJob row4 = Inr v"
    using assms(1) unfolding createOrReadTransformJob_def by (auto simp: result_simps)
  have ok: "refs_ok db" "refs_committed db" "jobs_ok db" "completed_ok db" "runs_ok db"
    using assms(2) by (simp_all add: catalog_ok_def)
  note cached = cached_run_Inr [OF run ok(5)]
  have pairing: "ct_result_ref_namespace_id input = None \<longleftrightarrow> ct_result_ref_name input = None"
    using valid by (auto simp: validateCreateTransformJob_def result_simps)
  have one: "stay_step db db1 \<and> adopted_ok db1 input run initial"
  proof (cases run)
    case None
    with initial have "db1 = db" "initial = None" by simp_all
    with None ok show ?thesis using jobs_stay_subset [of db db] by (simp add: stay_step_def with_own adopted_ok_def)
  next
    case (Some rs)
    then obtain r s where rs: "run = Some (r, s)" by (cases rs) simp
    with initial have a: "adopt_if_named now (ct_result_ref_namespace_id input) (ct_result_ref_name input) (ru_output_version r) db = Inr (db1, initial)"
      by simp
    have "stay_step db db1" using adopt_step [OF a ok(1-4)] cached rs by simp
    moreover have "find_snapshot db1 = find_snapshot db"
      using adopt_if_named_Inr [OF a ok(1)] by (metis with_refs_simps(1))
    ultimately show ?thesis
      using adopt_if_named_Inr [OF a ok(1)] rs pairing by (simp add: adopted_ok_def)
  qed
  have ok1: "refs_ok db1" "refs_committed db1" "jobs_ok db1" "completed_ok db1" and db1: "db1 = with_jobs (with_refs db (refs db1)) (jobs db1)"
    using one by (simp_all add: stay_step_def)
  note f1 = frames [OF db1]
  have two: "stay_step db1 db2"
    using cached one by (intro insert_job_step [OF insert _ _ ok1]) (auto simp: f1 split: option.splits)
  have ok2: "refs_ok db2" "refs_committed db2" "jobs_ok db2" "completed_ok db2" and db2: "db2 = with_jobs (with_refs db1 (refs db2)) (jobs db2)"
    using two by (simp_all add: stay_step_def)
  note f2 = frames [OF db2]
  have three: "stay_step db2 db3 \<and> read_job (ct_id input) db3 = Inr row3"
    using attach_step [OF attach read ok2] ok(5) by (simp add: f2 f1)
  have ok3: "refs_ok db3" "refs_committed db3" "jobs_ok db3" "completed_ok db3" and db3: "db3 = with_jobs (with_refs db2 (refs db3)) (jobs db3)"
    using three by (simp_all add: stay_step_def)
  note f3 = frames [OF db3]
  have key: "tj_cache_key row3 = ct_cache_key input"
  proof -
    have "job_ok db3 row3" using read_job_Inr [of "ct_id input" db3 row3] three job_row_ok [OF ok3(3)] by blast
    then have "tj_id row3 = js ''job_'' @ tj_cache_key row3" by (simp add: job_ok_def job_check_def identity_check_def)
    moreover have "tj_id row3 = ct_id input" using read_job_Inr three by blast
    moreover have "ct_id input = js ''job_'' @ ct_cache_key input"
      using valid by (auto simp: validateCreateTransformJob_def result_simps)
    ultimately show ?thesis by simp
  qed
  have four: "result_step db3 db' \<and> read_job (ct_id input) db' = Inr row4"
    using three cached by (intro from_cache_step [OF cache _ _ key ok3]) (auto simp: f3 f2 f1 split: option.splits)
  have "jv_row v = row4" using view by (auto simp: prismaRowToTransformJob_def result_simps)
  with view four one two three show ?thesis
    using stay_then_stay stay_then_result by blast
qed


section \<open>Growth of the catalog\<close>

lemma grows_lookups:
  assumes "catalog_grows db db'"
  shows "find_snapshot db v = Some s \<Longrightarrow> find_snapshot db' v = Some s"
    and "find_snapshot db v \<noteq> None \<Longrightarrow> find_snapshot db' v \<noteq> None"
    and "find_run db k = Some r \<Longrightarrow> find_run db' k = Some r"
    and "is_committed db v \<Longrightarrow> is_committed db' v"
proof -
  have "prefix (snapshots db) (snapshots db')" "prefix (layouts db) (layouts db')"
    using assms by (simp_all add: catalog_grows_def lineage_grows_def)
  then show "find_snapshot db v = Some s \<Longrightarrow> find_snapshot db' v = Some s" "is_committed db v \<Longrightarrow> is_committed db' v"
    "find_snapshot db v \<noteq> None \<Longrightarrow> find_snapshot db' v \<noteq> None"
    using is_committed_prefix find_snapshot_prefix lookup_prefix by (auto simp: find_snapshot_lookup)
  show "find_run db k = Some r \<Longrightarrow> find_run db' k = Some r"
    using assms by (auto simp: catalog_grows_def runs_grow_def find_run_lookup run_table.lookup_append)
qed

lemma catalog_ok_more:
  assumes "catalog_grows db db'" "catalog_ok db" "datasets_ok db'" "runs_ok db'"
    and same: "refs db' = refs db" "jobs db' = jobs db" "claims db' = claims db"
    and ns: "\<And>i. find_namespace db i \<noteq> None \<Longrightarrow> find_namespace db' i \<noteq> None"
  shows "catalog_ok db'"
proof -
  note grow = grows_lookups [OF assms(1)]
  have ref: "ref_fks db r \<Longrightarrow> ref_fks db' r" for r using grow(2) ns by (simp add: ref_fks_def)
  have known: "known (find_snapshot db) v \<Longrightarrow> known (find_snapshot db') v"
    "known (find_namespace db) v \<Longrightarrow> known (find_namespace db') v" for v
    using grow(2) ns by (auto simp: known_def split: option.splits)
  have job: "job_ok db r \<Longrightarrow> job_ok db' r" for r
    using grow(2) known by (simp add: job_ok_def job_fks_def)
  have result: "has_result db r \<Longrightarrow> has_result db' r" for r
    using grow(1,3) by (auto simp: has_result_def split: option.splits)
  have claims: "claims_ok db \<Longrightarrow> claims_ok db'"
    using ns unfolding claims_ok_def same list_all_iff by blast
  show ?thesis
    using assms(2-4) ref job result grow(4) claims
    by (auto simp: catalog_ok_def refs_ok_def refs_committed_def jobs_ok_def completed_ok_def same list_all_iff)
qed

lemma catalog_ok_grow:
  assumes "catalog_grows db db'" "catalog_ok db" "datasets_ok db'" "runs_ok db'"
    and "refs db' = refs db" "jobs db' = jobs db" "namespaces db' = namespaces db" "claims db' = claims db"
  shows "catalog_ok db'"
  using assms by (intro catalog_ok_more [OF assms(1-4)]) (simp_all add: find_namespace_def)

lemma result_step_catalog:
  assumes "result_step db db'" "catalog_ok db"
  shows "catalog_ok db'" "catalog_grows db db'" "jobs_evolve db db'" "claims db' = claims db"
proof -
  have db': "db' = with_jobs (with_refs db (refs db')) (jobs db')" using assms(1) by (simp add: result_step_def)
  note frame = frame_refs_jobs [OF db']
  show "catalog_ok db'" using assms by (simp add: catalog_ok_def result_step_def frame(1-3))
  show "catalog_grows db db'" by (rule frame(4))
  show "jobs_evolve db db'" using assms(1) by (simp add: result_step_def)
  show "claims db' = claims db" by (subst db') (simp add: with_jobs_def with_refs_def)
qed

lemma catalog_grows_trans: "catalog_grows a b \<Longrightarrow> catalog_grows b c \<Longrightarrow> catalog_grows a c"
proof -
  assume ab: "catalog_grows a b" and bc: "catalog_grows b c"
  have loc: "lo_revision ` set (locations a) \<subseteq> lo_revision ` set (locations b)"
    using ab by (intro image_mono set_mono_prefix) (simp add: catalog_grows_def lineage_grows_def)
  have "prefix (snapshots a) (snapshots c) \<and> prefix (layouts a) (layouts c) \<and> prefix (locations a) (locations c) \<and> prefix (edges a) (edges c)"
    using ab bc unfolding catalog_grows_def lineage_grows_def by (meson prefix_order.trans)
  moreover have "\<forall>k \<in> lo_revision ` set (locations a). stored_parents (edges c) k = stored_parents (edges a) k"
    using ab bc loc unfolding catalog_grows_def lineage_grows_def by (metis (no_types, lifting) subsetD)
  ultimately have "lineage_grows a c" by (simp add: lineage_grows_def)
  moreover have "runs_grow a c"
  proof -
    obtain new1 where one: "runs b = runs a @ new1" "list_all (\<lambda>r. next_lineage_seq a \<le> ru_lineage_seq r) new1"
      using ab by (auto simp: catalog_grows_def runs_grow_def)
    obtain new2 where two: "runs c = runs b @ new2" "list_all (\<lambda>r. next_lineage_seq b \<le> ru_lineage_seq r) new2"
      using bc by (auto simp: catalog_grows_def runs_grow_def)
    have seq: "next_lineage_seq a \<le> next_lineage_seq b" "next_lineage_seq b \<le> next_lineage_seq c"
      using ab bc by (simp_all add: catalog_grows_def runs_grow_def)
    have "list_all (\<lambda>r. next_lineage_seq a \<le> ru_lineage_seq r) (new1 @ new2)"
      using one(2) two(2) seq by (auto simp: list_all_iff)
    moreover have "inputs_of c k = inputs_of a k" if "k \<in> ru_cache_key ` set (runs a)" for k
      using that ab bc one(1) by (auto simp: catalog_grows_def runs_grow_def)
    ultimately show ?thesis using one(1) two(1) seq by (auto simp: runs_grow_def)
  qed
  ultimately show ?thesis by (simp add: catalog_grows_def)
qed


section \<open>Completing\<close>

lemma registerTransform_catalog:
  assumes "registerTransformResult input run db = Inr db'" "catalog_ok db"
  shows "catalog_ok db'" "catalog_grows db db'" "jobs db' = jobs db" "assertRunInTransaction run db' = Inr ()"
    "refs db' = refs db"
    "find_snapshot db' (sn_version (rl_snapshot input)) = Some (rl_snapshot input)"
    "is_committed db' (ri_output_version run)" "claims db' = claims db"
proof -
  have ok: "datasets_ok db" "runs_ok db" using assms(2) by (simp_all add: catalog_ok_def)
  note reg = registerTransformResult_ok [OF assms(1) ok]
  obtain mid created where mid: "registerCommittedLayout input db = Inr mid" "validateRunInput input run = Inr ()"
    and run: "registerRunInTransaction run mid = Inr (db', created)"
    using assms(1) unfolding registerTransformResult_Inr by blast
  have layout: "registerLayoutInTransaction input db = Inr mid" and valid: "validateRegistrationInput input = Inr ()"
    using mid(1) by (simp_all add: registerCommittedLayout_Inr)
  have runs: "runs_ok mid" using runs_ok_grow(1) [OF ok(2)] registerLayout_ok(2) [OF layout ok(1) validateRegistration_version [OF valid]]
      registerLayout_same [OF layout] by blast
  have committed: "is_committed mid (ri_output_version run)"
    using registered_committed [OF layout] validateRegistration_version [OF valid] mid(2)
    by (simp add: validateRunInput_def result_simps)
  have frame: "db' = mid\<lparr>runs := runs db', next_lineage_seq := next_lineage_seq db', run_inputs := run_inputs db'\<rparr>"
    by (rule registerRun_ok(4) [OF run runs committed])
  have sel: "refs db' = refs mid" "jobs db' = jobs mid" "namespaces db' = namespaces mid" "claims db' = claims mid"
    "snapshots db' = snapshots mid" "layouts db' = layouts mid"
    by (subst frame, simp)+
  note same = registerLayout_same [OF layout]
  show "catalog_ok db'"
    using catalog_ok_grow [OF reg(3) assms(2) reg(1,2)] sel same by simp
  show "catalog_grows db db'" "assertRunInTransaction run db' = Inr ()" by (fact reg)+
  show "jobs db' = jobs db" "refs db' = refs db" "claims db' = claims db" using sel same by simp_all
  show "find_snapshot db' (sn_version (rl_snapshot input)) = Some (rl_snapshot input)"
    using registered_facts(1) [OF layout] by (simp add: find_snapshot_def sel)
  show "is_committed db' (ri_output_version run)" using committed by (simp add: is_committed_def sel)
qed

text \<open>The row that completion writes.\<close>

definition completed_row :: "int \<Rightarrow> complete_transform_job \<Rightarrow> bool \<Rightarrow> (result_ref_status \<times> js_string) option
    \<Rightarrow> transform_job \<Rightarrow> transform_job" where
  "completed_row later input created adopted r = r\<lparr>tj_status := Completed, tj_output_count := Some (cp_output_count input),
     tj_output_version := Some (ri_output_version (cp_run input)),
     tj_result_ref_status := map_option fst adopted, tj_result_ref_version := map_option snd adopted,
     tj_cache_hit := \<not> created, tj_error := None, tj_finished_at := Some later,
     tj_lease_owner := None, tj_lease_token := None, tj_lease_expires_at := None, tj_updated_at := later\<rparr>"

lemma singleton_Inr: "(case rows of [x] \<Rightarrow> f x | _ \<Rightarrow> Inl e) = Inr y \<longleftrightarrow> (\<exists>x. rows = [x] \<and> f x = Inr y)"
  by (auto split: list.splits)

lemma complete_steps:
  assumes "completeTransformJob now later input db = Inr (db', v)" "jobs_ok db"
  obtains (replay) row where "job_table.lookup (jobs db) (jl_id (cp_job input)) = Some row" "tj_status row = Completed"
      "db' = db" "jv_row v = row" "tj_attempt row = jl_attempt (cp_job input)"
      "tj_output_version row = Some (ri_output_version (cp_run input))" "assertTransformJobCompletionIdentity row input = Inr ()"
      "tj_output_count row = Some (cp_output_count input)" "assertRunInTransaction (cp_run input) db = Inr ()"
      "prismaRowToTransformJob (jv_row v) = Inr v"
    | (finish) row db2 db3 adopted created where
      "job_table.lookup (jobs db) (jl_id (cp_job input)) = Some row" "tj_status row = Finalizing"
      "holds_lease (cp_job input) row" "unexpired now row" "assertTransformJobCompletionIdentity row input = Inr ()"
      "registerTransformResult (cp_layout input) (cp_run input) db = Inr db2"
      "adopt_if_named later (tj_result_ref_namespace_id row) (tj_result_ref_name row) (ri_output_version (cp_run input)) db2
        = Inr (db3, adopted)"
      "update_jobs (\<lambda>r. holds_lease (cp_job input) r \<and> unexpired later r \<and> tj_status r = Finalizing)
        (completed_row later input created adopted) db3 = Inr (db', [jv_row v])"
      "cp_output_count input = sn_num_records (rl_snapshot (cp_layout input))"
      "ri_output_version (cp_run input) = sn_version (rl_snapshot (cp_layout input))"
      "prismaRowToTransformJob (jv_row v) = Inr v"
proof -
  let ?lease = "cp_job input"
  have valid: "validateRegistrationInput (cp_layout input) = Inr ()" "validateRunInput (cp_layout input) (cp_run input) = Inr ()"
    "validateCompleteTransformJob input = Inr ()"
    using assms(1) by (auto simp: completeTransformJob_def result_simps)
  have select: "select_where (\<lambda>r. tj_id r = jl_id ?lease) (jobs db)
      = (case job_table.lookup (jobs db) (jl_id ?lease) of None \<Rightarrow> [] | Some r \<Rightarrow> [r])"
    using job_table.select_key [of "jobs db" "jl_id ?lease" "\<lambda>_. True"] assms(2)
    by (simp add: jobs_ok_def split: option.splits)
  have body: "case job_table.lookup (jobs db) (jl_id ?lease) of None \<Rightarrow> False
      | Some row \<Rightarrow> completeLockedJob now later input row db = Inr (db', v)"
    using assms(1) valid by (simp add: completeTransformJob_def select split: option.splits)
  then obtain row where row: "job_table.lookup (jobs db) (jl_id ?lease) = Some row"
    and locked: "completeLockedJob now later input row db = Inr (db', v)"
    by (auto split: option.splits)
  have view: "jv_row w = r" if "prismaRowToTransformJob r = Inr w" for r w
    using that by (auto simp: prismaRowToTransformJob_def result_simps)
  have counts: "cp_output_count input = sn_num_records (rl_snapshot (cp_layout input))"
    "ri_output_version (cp_run input) = sn_version (rl_snapshot (cp_layout input))"
    using valid(2,3) by (auto simp: validateCompleteTransformJob_def validateRunInput_def result_simps)
  show thesis
  proof (cases "tj_status row = Completed")
    case True
    then show thesis
      using locked row view
      by (intro replay [of row]) (auto simp: completeLockedJob_def result_simps Let_def)
  next
    case False
    obtain db1 db2 db3 adopted created rows done_row where steps: "tj_status row = Finalizing" "tj_attempt row = jl_attempt ?lease"
      "tj_lease_token row = Some (jl_lease_token ?lease)" "unexpired now row" "assertTransformJobCompletionIdentity row input = Inr ()"
      "registerLayoutInTransaction (cp_layout input) db = Inr db1"
      "registerRunInTransaction (cp_run input) db1 = Inr (db2, created)"
      "adopt_if_named later (tj_result_ref_namespace_id row) (tj_result_ref_name row) (ri_output_version (cp_run input)) db2
        = Inr (db3, adopted)"
      "update_jobs (\<lambda>r. holds_lease ?lease r \<and> unexpired later r \<and> tj_status r = Finalizing)
        (completed_row later input created adopted) db3 = Inr (db', rows)"
      "rows = [done_row]" "prismaRowToTransformJob done_row = Inr v"
      using locked False
      by (auto simp: completeLockedJob_def result_simps Let_def completed_row_def [abs_def] singleton_Inr)
    have "registerTransformResult (cp_layout input) (cp_run input) db = Inr db2"
      unfolding registerTransformResult_Inr registerCommittedLayout_Inr using valid steps(6,7) by blast
    moreover have "holds_lease ?lease row"
      using steps(2,3) job_table.lookup_key [OF row] by (simp add: holds_lease_def)
    moreover have "jv_row v = done_row" by (rule view [OF steps(11)])
    ultimately show thesis using row steps counts by (intro finish) simp_all
  qed
qed


lemma lookup_job: "jobs_ok db \<Longrightarrow> r \<in> set (jobs db) \<Longrightarrow> job_table.lookup (jobs db) (tj_id r) = Some r"
  by (simp add: jobs_ok_def job_table.lookup_mem)

lemma run_result:
  assumes "assertRunInTransaction run db = Inr ()" "tj_cache_key r = ri_key run"
    "tj_output_version r = Some (ri_output_version run)" "find_snapshot db (ri_output_version run) = Some s"
    "tj_output_count r = Some (sn_num_records s)"
  shows "has_result db r"
  using assms by (auto simp: has_result_def assertRunInTransaction_def Let_def result_simps split: option.splits)

lemma complete_ok:
  assumes "completeTransformJob now later input db = Inr (db', v)" "catalog_ok db"
  shows "catalog_ok db' \<and> catalog_grows db db' \<and> jobs_evolve db db' \<and> claims db' = claims db
    \<and> jv_row v \<in> set (jobs db') \<and> tj_id (jv_row v) = jl_id (cp_job input) \<and> tj_status (jv_row v) = Completed
    \<and> tj_output_version (jv_row v) = Some (ri_output_version (cp_run input)) \<and> has_result db' (jv_row v)
    \<and> prismaRowToTransformJob (jv_row v) = Inr v \<and> tj_attempt (jv_row v) = jl_attempt (cp_job input)
    \<and> tj_output_count (jv_row v) = Some (cp_output_count input)
    \<and> assertTransformJobCompletionIdentity (jv_row v) input = Inr () \<and> assertRunInTransaction (cp_run input) db' = Inr ()"
proof -
  have jobs: "jobs_ok db" using assms(2) by (simp add: catalog_ok_def)
  from assms(1) jobs show ?thesis
  proof (cases rule: complete_steps)
    case (replay row)
    then have "row \<in> set (jobs db)" "tj_id row = jl_id (cp_job input)" by (blast dest: job_table.lookup_key)+
    moreover from this have "has_result db row" using assms(2) replay by (simp add: catalog_ok_def completed_has_result)
    ultimately show ?thesis
      using replay assms(2) jobs_evolve_refl
      by (simp add: catalog_grows_def lineage_grows_refl runs_grow_def)
  next
    case (finish row db2 db3 adopted created)
    note reg = registerTransform_catalog [OF finish(6) assms(2)]
    have ok2: "refs_ok db2" "refs_committed db2" "jobs_ok db2" "completed_ok db2" using reg(1) by (simp_all add: catalog_ok_def)
    note adopt = adopt_if_named_Inr [OF finish(7) ok2(1)]
    have mid: "stay_step db2 db3" by (rule adopt_step [OF finish(7) ok2 reg(7)])
    have jobs3: "jobs db3 = jobs db" using adopt reg(3) by (metis with_refs_simps(5))
    have find: "find_run db3 = find_run db2" "find_snapshot db3 = find_snapshot db2"
      using adopt by (metis with_refs_simps(1,3))+
    have ok3: "refs_ok db3" "refs_committed db3" "jobs_ok db3" "completed_ok db3" using mid by (simp_all add: stay_step_def)
    have row: "row \<in> set (jobs db3)" "tj_id row = jl_id (cp_job input)"
      using job_table.lookup_key [OF finish(1)] jobs3 by auto
    let ?f = "completed_row later input created adopted"
    have row_ok: "job_ok db3 row" by (rule job_row_ok [OF ok3(3) row(1)])
    have out: "tj_output_version row = None" using job_ok_output [OF row_ok] finish(2) by simp
    have key: "tj_cache_key row = ri_key (cp_run input)"
      using finish(5) by (simp add: assertTransformJobCompletionIdentity_def result_simps)
    have stored: "stored_ok (?f row)"
      using row_ok adopt
      by (cases adopted) (auto simp: job_ok_def stored_rules completed_row_def split: option.splits)
    have step: "row_step row (?f row)"
      using finish(2) out by (auto simp: row_step_def same_identity_def job_state_def completed_row_def intro: lifecycle.complete)
    have result: "has_result db3 (?f row)"
    proof -
      have "assertRunInTransaction (cp_run input) db2 = Inr ()" by (rule reg(4))
      moreover have "find_snapshot db2 (ri_output_version (cp_run input)) = Some (rl_snapshot (cp_layout input))"
        unfolding finish(10) by (rule reg(6))
      ultimately have "has_result db2 (?f row)"
        by (intro run_result [where s = "rl_snapshot (cp_layout input)" and run = "cp_run input"])
          (simp_all add: completed_row_def key finish(9))
      then show ?thesis by (simp add: has_result_cong [OF find])
    qed
    have only: "j = row" if "j \<in> set (jobs db3)" "holds_lease (cp_job input) j \<and> unexpired later j \<and> tj_status j = Finalizing" for j
      using that row unique_row [OF ok3(3)] by (auto simp: holds_lease_def)
    note upd = single_update [OF finish(8) ok3 only stored _ _ step result]
    have frow: "tj_id (?f row) = tj_id row" "tj_lease_token (?f row) = None" by (simp_all add: completed_row_def)
    have "result_step db3 db'" by (rule upd(1)) (use frow in simp_all)
    then have "result_step db2 db'" using mid stay_then_result by blast
    note final = result_step_catalog [OF this reg(1)]
    have "jv_row v \<in> set (returning (\<lambda>r. holds_lease (cp_job input) r \<and> unexpired later r \<and> tj_status r = Finalizing) ?f (jobs db3))"
      using upd(3) frow by (metis list.set_intros(1))
    then have v: "jv_row v = ?f row" "holds_lease (cp_job input) row \<and> unexpired later row \<and> tj_status row = Finalizing"
      using only by (auto simp: returning_set)
    have "db' = with_jobs db3 (update_where (\<lambda>r. holds_lease (cp_job input) r \<and> unexpired later r \<and> tj_status r = Finalizing) ?f (jobs db3))"
      by (rule upd(2)) (use frow in simp_all)
    then have "jv_row v \<in> set (jobs db')" using v row(1) by (auto simp: set_update_where)
    moreover have "jobs_evolve db db'" using final(3) reg(3) by (simp add: jobs_evolve_def)
    moreover have "catalog_grows db db'" using reg(2) final(2) catalog_grows_trans by blast
    moreover have "claims db' = claims db"
      using final(4) reg(8) by simp
    moreover have "has_result db' (jv_row v)"
      using final(1) \<open>jv_row v \<in> set (jobs db')\<close> v by (intro completed_has_result) (simp_all add: catalog_ok_def completed_row_def)
    moreover have "assertRunInTransaction (cp_run input) db' = assertRunInTransaction (cp_run input) db2"
    proof -
      have db': "db' = with_jobs (with_refs db2 (refs db')) (jobs db')" using \<open>result_step db2 db'\<close> by (simp add: result_step_def)
      have inputs: "inputs_of db' = inputs_of db2"
        by (subst db') (simp add: inputs_of_def with_jobs_def with_refs_def fun_eq_iff)
      show ?thesis unfolding assertRunInTransaction_def frames(2) [OF db'] inputs ..
    qed
    moreover have "assertTransformJobCompletionIdentity (?f row) input = assertTransformJobCompletionIdentity row input"
      by (simp add: assertTransformJobCompletionIdentity_def completed_row_def)
    moreover have "tj_attempt row = jl_attempt (cp_job input)" using finish(3) by (simp add: holds_lease_def)
    ultimately show ?thesis
      using final(1) v row(2) finish(5,11) reg(4) by (simp add: completed_row_def)
  qed
qed

end
