(* ===== verification/Catalog_System.thy ===== *)
theory Catalog_System
  imports Job_Result_Laws
begin

text \<open>
  The catalog as a state machine: its mutating operations as data, one step for one operation that
  returns, and the invariant of every state that the operations can reach from the empty database.
\<close>

section \<open>Operations\<close>

datatype catalog_op =
    GetOrCreateNamespace js_string js_string
  | InsertOrReadClaim claim_row
  | RegisterLayout register_layout
  | RegisterResult register_layout run_input
  | CompareAndSet int compare_and_set_ref
  | DeleteRef int ref_state_input
  | RestoreRef ref_state_input
  | CreateJob int create_transform_job
  | ClaimJob int bytes "js_string list" js_string int
  | RenewLease int job_lease int
  | MarkRunning int job_lease
  | ReportProgress int job_lease job_progress
  | SetStagingKeys int job_lease js_string js_string
  | MarkFinalizing int job_lease
  | MarkFailed int job_lease job_error
  | MarkCancelled int job_lease
  | RequestCancellation int js_string
  | ClearStagingKeys int job_lease
  | ClearLeaseFence int job_lease
  | ClearCompletedStaging int js_string int js_string js_string js_string
  | FailExpired int
  | RetryJob int js_string
  | CompleteJob int int complete_transform_job

definition ran :: "(catalog_db \<times> 'a) catalog \<Rightarrow> catalog_db catalog" where
  "ran m = bindR m (\<lambda>(db, result). Inr db)"

fun exec :: "catalog_op \<Rightarrow> catalog_db \<Rightarrow> catalog_db catalog" where
  "exec (GetOrCreateNamespace proposedId scope) db = ran (getOrCreateNamespace proposedId scope db)"
| "exec (InsertOrReadClaim input) db = ran (insertOrReadIdentityClaim input db)"
| "exec (RegisterLayout input) db = registerCommittedLayout input db"
| "exec (RegisterResult input run) db = registerTransformResult input run db"
| "exec (CompareAndSet now input) db = ran (compareAndSetRef now input db)"
| "exec (DeleteRef now input) db = ran (deleteRef now input db)"
| "exec (RestoreRef input) db = ran (restoreRef input db)"
| "exec (CreateJob now input) db = ran (createOrReadTransformJob now input db)"
| "exec (ClaimJob now token locked owner d) db = ran (claimNextTransformJob now token locked owner d db)"
| "exec (RenewLease now input d) db = ran (renewTransformJobLease now input d db)"
| "exec (MarkRunning now input) db = ran (markTransformJobRunning now input db)"
| "exec (ReportProgress now input progress) db = ran (updateTransformJobProgress now input progress db)"
| "exec (SetStagingKeys now input k l) db = ran (setTransformJobStagingKeys now input k l db)"
| "exec (MarkFinalizing now input) db = ran (markTransformJobFinalizing now input db)"
| "exec (MarkFailed now input e) db = ran (markTransformJobFailed now input e db)"
| "exec (MarkCancelled now input) db = ran (markTransformJobCancelled now input db)"
| "exec (RequestCancellation now i) db = ran (requestTransformJobCancellation now i db)"
| "exec (ClearStagingKeys now input) db = ran (clearTransformJobStagingKeys now input db)"
| "exec (ClearLeaseFence now input) db = ran (clearTransformJobLeaseFence now input db)"
| "exec (ClearCompletedStaging now i a v k l) db = ran (clearCompletedTransformJobStagingKeys now i a v k l db)"
| "exec (FailExpired now) db = ran (failExpiredTransformJobLeases now db)"
| "exec (RetryJob now i) db = ran (retryTransformJob now i db)"
| "exec (CompleteJob now later input) db = ran (completeTransformJob now later input db)"

text \<open>\<open>randomBytes(32)\<close> returns 32 bytes.\<close>

fun possible :: "catalog_op \<Rightarrow> bool" where
  "possible (ClaimJob now token locked owner d) = (length token = 32)"
| "possible _ = True"

inductive catalog_step :: "catalog_db \<Rightarrow> catalog_db \<Rightarrow> bool" where
  operate: "possible op \<Longrightarrow> exec op db = Inr db' \<Longrightarrow> catalog_step db db'"

inductive reachable :: "catalog_db \<Rightarrow> bool" where
  start: "reachable empty_db"
| advance: "reachable db \<Longrightarrow> catalog_step db db' \<Longrightarrow> reachable db'"

inductive_cases catalog_step_cases: "catalog_step db db'"

lemma ran_Inr [simp]: "ran m = Inr db \<longleftrightarrow> (\<exists>x. m = Inr (db, x))"
  by (auto simp: ran_def result_simps)

section \<open>What one operation does\<close>

definition catalog_moves :: "catalog_db \<Rightarrow> catalog_db \<Rightarrow> bool" where
  "catalog_moves db db' \<longleftrightarrow> catalog_ok db' \<and> catalog_grows db db' \<and> claims_grow db db' \<and> jobs_evolve db db'"

lemma catalog_moves_refl: "catalog_ok db \<Longrightarrow> catalog_moves db db"
  by (simp add: catalog_moves_def catalog_grows_def lineage_grows_refl runs_grow_def claims_grow_def jobs_evolve_refl)

text \<open>A step on jobs alone.\<close>

lemma same_result:
  assumes "row_step r s" "tj_status r = Completed" "tj_status s = Completed" "tj_output_count s = tj_output_count r"
  shows "has_result db s = has_result db r"
proof -
  have "lifecycle (Completed, tj_attempt r, tj_output_version r) (job_state s)"
    using assms(1,2) by (simp add: row_step_def job_state_def)
  then have "tj_output_version s = tj_output_version r" by (cases rule: lifecycle_completed) (auto simp: job_state_def is_active_def is_stopped_def)
  moreover have "tj_cache_key s = tj_cache_key r" using assms(1) by (simp add: row_step_def same_identity_def)
  ultimately show ?thesis using assms(4) by (simp add: has_result_def cong: option.case_cong)
qed

lemma plain_moves:
  assumes "plain_step db db'" "catalog_ok db"
  shows "catalog_moves db db'"
proof -
  have step: "job_step db db'" using assms(1) by (rule plain_step_job)
  then have db': "db' = with_jobs (with_refs db (refs db)) (jobs db')" by (simp add: job_step_def with_own)
  note frame = frame_refs_jobs [OF db']
  have result: "has_result db' = has_result db" by (intro has_result_cong) (subst db', simp)+
  have "completed_ok db'"
    unfolding completed_ok_def list_all_iff result
  proof (intro ballI impI)
    fix s assume "s \<in> set (jobs db')" "tj_status s = Completed"
    then obtain r where "r \<in> set (jobs db)" "row_step r s" "tj_status r = Completed" "tj_output_count s = tj_output_count r"
      using assms(1) unfolding plain_step_def by blast
    then show "has_result db s"
      using same_result [of r s db] completed_has_result [of db r] assms(2) \<open>tj_status s = Completed\<close> by (simp add: catalog_ok_def)
  qed
  moreover have "refs_ok db' = refs_ok db" "refs_committed db' = refs_committed db"
    by (subst db', simp add: with_own refs_with_jobs)+
  moreover have "claims db' = claims db" by (subst db') (simp add: with_jobs_def with_refs_def)
  ultimately show ?thesis
    using step assms(2) frame by (simp add: catalog_moves_def catalog_ok_def job_step_def claims_grow_def)
qed

lemma refused_moves:
  "refused_or_step m db \<Longrightarrow> catalog_ok db \<Longrightarrow> ran m = Inr db' \<Longrightarrow> catalog_moves db db'"
  using plain_moves by (auto simp: refused_or_step_def)

text \<open>A step on refs alone.\<close>

lemma refs_moves:
  assumes "db' = with_refs db (refs db')" "refs_ok db'" "refs_committed db'" "catalog_ok db"
  shows "catalog_moves db db'"
proof -
  have db': "db' = with_jobs (with_refs db (refs db')) (jobs db)"
    by (subst assms(1)) (simp add: with_jobs_def with_refs_def)
  note frame = frame_refs_jobs [OF db']
  have same: "jobs db' = jobs db" "claims db' = claims db" by (subst assms(1), simp add: with_refs_def)+
  have find: "find_snapshot db' = find_snapshot db" "find_run db' = find_run db" "find_namespace db' = find_namespace db"
    by (subst assms(1), simp)+
  have "jobs_ok db' = jobs_ok db" "completed_ok db' = completed_ok db"
    by (simp_all add: jobs_ok_def completed_ok_def same job_ok_cong [OF find(1,3)] has_result_cong [OF find(2,1)])
  then show ?thesis
    using assms frame jobs_evolve_refl [of db] by (simp add: catalog_moves_def catalog_ok_def claims_grow_def same jobs_evolve_def)
qed

lemma update_refs_moves:
  assumes "update_refs (\<lambda>r. ref_key r = k \<and> q r) f db = Inr (db', rows)" "catalog_ok db"
    and f: "\<And>r. ref_key (f r) = ref_key r"
      "\<And>r. q r \<Longrightarrow> is_committed db (rf_version r) \<Longrightarrow> is_committed db (rf_version (f r))"
  shows "catalog_moves db db'"
proof -
  have ok: "refs_ok db" "refs_committed db" using assms(2) by (simp_all add: catalog_ok_def)
  note eq = assms(1) [unfolded update_refs_eq [OF ok(1)]]
  show ?thesis
  proof (cases "\<exists>r. lookup_ref db k = Some r \<and> q r")
    case False
    then have "db' = db" using eq by (auto split: option.splits if_splits)
    then show ?thesis using assms(2) by (simp add: catalog_moves_refl)
  next
    case True
    then obtain r where r: "lookup_ref db k = Some r" "q r" by blast
    then have checks: "ref_check (f r)" "ref_fks db (f r)"
      and db': "db' = with_refs db (update_where (\<lambda>r. ref_key r = k \<and> q r) f (refs db))"
      using eq by (auto simp: with_refs_def split: if_splits)
    have "refs_ok db'" unfolding db' with_refs_def using refs_ok_update(1) [where q = q and f = f and k = k and r = r and db = db] ok(1) r f(1) checks by blast
    moreover have "refs_committed db'"
      using ok(2) f(2) by (auto simp: refs_committed_def db' list_all_iff set_update_where)
    ultimately show ?thesis using db' assms(2) by (intro refs_moves) simp_all
  qed
qed


lemma compare_and_set_moves:
  assumes "compareAndSetRef now input db = Inr (db', c)" "catalog_ok db"
  shows "catalog_moves db db'"
proof -
  obtain changed where stmt: "set_ref_statement now input db = Inr (db', changed)"
  proof -
    obtain mid changed where "set_ref_statement now input db = Inr (mid, changed)"
      "(case List.map_filter (join_snapshot db) changed of [committed] \<Rightarrow> Inr (mid, committed)
       | _ \<Rightarrow> if \<not> is_committed db (cs_new_version input) then Inl (TargetNotCommittedError (cs_new_version input))
           else Inl (RefConflictError (cs_expected_version input)
                  (map_option rf_version (find_ref db (cs_namespace_id input) (cs_name input))) (cs_new_version input)))
         = Inr (db', c)"
      using assms(1) unfolding compareAndSetRef_def Let_def by (auto simp: result_simps)
    then show thesis using that by (auto split: list.splits if_splits)
  qed
  show ?thesis
  proof (cases "cs_expected_version input")
    case (Some v)
    show ?thesis
      by (rule update_refs_moves [of "(cs_namespace_id input, cs_name input)"
            "\<lambda>r. rf_version r = v \<and> rf_deleted_at r = None \<and> is_committed db (cs_new_version input)"
            "\<lambda>r. r\<lparr>rf_version := cs_new_version input, rf_message := cs_message input, rf_updated_at := now\<rparr>" db db' changed])
        (use stmt Some assms(2) in \<open>simp_all add: set_ref_statement_def ref_key_def\<close>)
  next
    case None
    define row where "row = \<lparr>rf_namespace_id = cs_namespace_id input, rf_name = cs_name input,
        rf_version = cs_new_version input, rf_message = cs_message input, rf_updated_at = now, rf_deleted_at = None\<rparr>"
    have ok: "refs_ok db" "refs_committed db" using assms(2) by (simp_all add: catalog_ok_def)
    have cases: "db' = db \<or> (db' = with_refs db (refs db @ [row]) \<and> lookup_ref db (ref_key row) = None
        \<and> ref_check row \<and> ref_fks db row \<and> is_committed db (cs_new_version input))"
      using stmt by (auto simp: set_ref_statement_def None Let_def row_def [symmetric] insert_ref_eq with_refs_def result_simps split: if_splits option.splits)
    moreover have ?thesis if "db' = with_refs db (refs db @ [row])" "lookup_ref db (ref_key row) = None"
      "ref_check row" "ref_fks db row" "is_committed db (cs_new_version input)"
    proof (rule refs_moves)
      show "refs_ok db'" unfolding that(1) with_refs_def by (rule refs_ok_insert [OF ok(1) that(2-4)])
      show "refs_committed db'" using ok(2) that(5) by (simp add: that(1) refs_committed_def row_def)
    qed (use that assms(2) in simp_all)
    ultimately show ?thesis using assms(2) catalog_moves_refl by fast
  qed
qed

lemma delete_moves:
  assumes "deleteRef now input db = Inr (db', c)" "catalog_ok db"
  shows "catalog_moves db db'"
proof -
  let ?q = "\<lambda>r. rf_version r = rs_expected_version input \<and> rf_deleted_at r = None"
  let ?f = "\<lambda>r. r\<lparr>rf_deleted_at := Some now\<rparr>"
  have "db' = db \<or> (\<exists>rows. update_refs (\<lambda>r. ref_key r = (rs_namespace_id input, rs_name input) \<and> ?q r) ?f db = Inr (db', rows))"
  proof -
    obtain found where "lockRefForStateChange db (rs_namespace_id input) (rs_name input) = Inr found"
      using assms(1) by (auto simp: deleteRef_def result_simps)
    then show ?thesis
      using assms(1) by (cases found; cases "cr_deleted_at (the found)") (auto simp: deleteRef_def result_simps singleton_Inr)
  qed
  then show ?thesis
    using update_refs_moves [of _ ?q ?f db db'] assms(2) catalog_moves_refl by (auto simp: ref_key_def)
qed

lemma restore_moves:
  assumes "restoreRef input db = Inr (db', c)" "catalog_ok db"
  shows "catalog_moves db db'"
proof -
  let ?q = "\<lambda>r. rf_version r = rs_expected_version input \<and> rf_deleted_at r \<noteq> None"
  let ?f = "\<lambda>r. r\<lparr>rf_deleted_at := None\<rparr>"
  have "db' = db \<or> (\<exists>rows. update_refs (\<lambda>r. ref_key r = (rs_namespace_id input, rs_name input) \<and> ?q r) ?f db = Inr (db', rows))"
  proof -
    obtain found where "lockRefForStateChange db (rs_namespace_id input) (rs_name input) = Inr found"
      using assms(1) by (auto simp: restoreRef_def result_simps)
    then show ?thesis
      using assms(1) by (cases found; cases "cr_deleted_at (the found)") (auto simp: restoreRef_def result_simps singleton_Inr)
  qed
  then show ?thesis
    using update_refs_moves [of _ ?q ?f db db'] assms(2) catalog_moves_refl by (auto simp: ref_key_def)
qed

text \<open>The remaining operations.\<close>

lemma namespace_moves:
  assumes "getOrCreateNamespace proposedId scope db = Inr (db', i)" "catalog_ok db"
  shows "catalog_moves db db'"
proof -
  have "db' = db \<or> db' = db\<lparr>namespaces := namespaces db @ [\<lparr>na_id = proposedId, na_scope = scope\<rparr>]\<rparr>"
    using assms(1) by (auto simp: getOrCreateNamespace_def insert_on_conflict_do_nothing_def result_simps split: if_splits option.splits)
  moreover have "catalog_moves db (db\<lparr>namespaces := namespaces db @ [row]\<rparr>)" for row
  proof -
    let ?db = "db\<lparr>namespaces := namespaces db @ [row]\<rparr>"
    have find: "find_snapshot ?db = find_snapshot db" "is_committed ?db = is_committed db" "inputs_of ?db = inputs_of db"
      by (simp_all add: find_snapshot_def is_committed_def inputs_of_def fun_eq_iff)
    have ok: "datasets_ok ?db = datasets_ok db" "runs_ok ?db = runs_ok db"
      by (simp_all add: datasets_ok_def snapshots_ok_def layout_keys_ok_def layouts_ok_def lineage_ok_def runs_ok_def
          run_rows_ok_def run_inputs_ok_def find)
    have grow: "catalog_grows db ?db" by (simp add: catalog_grows_def lineage_grows_def runs_grow_def find)
    have ns: "find_namespace db i \<noteq> None \<Longrightarrow> find_namespace ?db i \<noteq> None" for i
      unfolding find_namespace_def find_first_None by auto
    have "catalog_ok ?db"
      by (rule catalog_ok_more [OF grow assms(2)]) (use ok ns assms(2) in \<open>simp_all add: catalog_ok_def\<close>)
    with grow show ?thesis using jobs_evolve_refl [of db] by (simp add: catalog_moves_def claims_grow_def jobs_evolve_def)
  qed
  ultimately show ?thesis using catalog_moves_refl [OF assms(2)] by fast
qed

lemma claim_moves:
  assumes "insertOrReadIdentityClaim input db = Inr (db', c)" "catalog_ok db"
  shows "catalog_moves db db'"
proof -
  have claims: "claims_ok db'" "claims_grow db db'"
    using claims_ok_insert [OF _ assms(1)] assms(2) by (simp_all add: catalog_ok_def)
  have db': "db' = db\<lparr>claims := claims db'\<rparr>"
    using assms(1) unfolding claim_insert_eq by (auto split: if_splits option.splits)
  have find: "find_snapshot db' = find_snapshot db" "is_committed db' = is_committed db" "inputs_of db' = inputs_of db"
    "find_run db' = find_run db" "find_namespace db' = find_namespace db"
    by (subst db', simp add: find_snapshot_def is_committed_def inputs_of_def find_run_def find_namespace_def fun_eq_iff)+
  have sel: "snapshots db' = snapshots db" "layouts db' = layouts db" "locations db' = locations db" "edges db' = edges db"
    "runs db' = runs db" "run_inputs db' = run_inputs db" "next_lineage_seq db' = next_lineage_seq db"
    "refs db' = refs db" "jobs db' = jobs db"
    by (subst db', simp)+
  have "datasets_ok db' = datasets_ok db" "runs_ok db' = runs_ok db"
    by (simp_all add: datasets_ok_def snapshots_ok_def layout_keys_ok_def layouts_ok_def lineage_ok_def runs_ok_def
        run_rows_ok_def run_inputs_ok_def find sel)
  moreover have "refs_ok db' = refs_ok db" "refs_committed db' = refs_committed db"
    by (simp_all add: refs_ok_def refs_committed_def ref_fks_def [abs_def] sel find)
  moreover have "jobs_ok db' = jobs_ok db" "completed_ok db' = completed_ok db"
    by (simp_all add: jobs_ok_def completed_ok_def sel job_ok_cong [OF find(1,5)] has_result_cong [OF find(4,1)])
  moreover have "catalog_grows db db'" by (simp add: catalog_grows_def lineage_grows_def runs_grow_def find sel)
  ultimately show ?thesis
    using claims assms(2) jobs_evolve_refl [of db] by (simp add: catalog_moves_def catalog_ok_def jobs_evolve_def sel)
qed

lemma layout_moves:
  assumes "registerCommittedLayout input db = Inr db'" "catalog_ok db"
  shows "catalog_moves db db'"
proof -
  have ok: "datasets_ok db" "runs_ok db" using assms(2) by (simp_all add: catalog_ok_def)
  have reg: "registerLayoutInTransaction input db = Inr db'" and valid: "validateRegistrationInput input = Inr ()"
    using assms(1) by (simp_all add: registerCommittedLayout_Inr)
  note layout = registerLayout_ok [OF reg ok(1) validateRegistration_version [OF valid]]
  note same = registerLayout_same [OF reg]
  note runs = runs_ok_grow [OF ok(2) layout(2) same(1-3)]
  have grow: "catalog_grows db db'" using layout runs by (simp add: catalog_grows_def)
  have "catalog_ok db'" by (rule catalog_ok_grow [OF grow assms(2) layout(1) runs(1) same(4-7)])
  with grow show ?thesis
    using jobs_evolve_refl [of db] by (simp add: catalog_moves_def claims_grow_def jobs_evolve_def same)
qed

lemma result_moves:
  assumes "registerTransformResult input run db = Inr db'" "catalog_ok db"
  shows "catalog_moves db db'"
  using registerTransform_catalog [OF assms] jobs_evolve_refl [of db]
  by (simp add: catalog_moves_def claims_grow_def jobs_evolve_def)

lemma result_step_moves:
  assumes "result_step db db'" "catalog_ok db"
  shows "catalog_moves db db'"
  using result_step_catalog [OF assms] by (simp add: catalog_moves_def claims_grow_def)

lemma claim_job_moves:
  assumes "claimNextTransformJob now token locked owner d db = Inr (db', v)" "length token = 32" "catalog_ok db"
  shows "catalog_moves db db'"
proof -
  have jobs: "jobs_ok db" using assms(3) by (simp add: catalog_ok_def)
  have valid: "validateLeaseOwner owner = Inr ()" "validateLeaseDuration d = Inr ()"
    using assms(1) by (auto simp: claimNextTransformJob_def result_simps)
  have "plain_step db db'"
    using claim_eq [OF jobs assms(2) valid, of now locked] assms(1) plain_step_refl [OF jobs]
    by (auto split: if_splits option.splits)
  then show ?thesis using assms(3) by (rule plain_moves)
qed

lemmas job_moves = refused_moves [OF renew_step] refused_moves [OF start_step] refused_moves [OF progress_step]
  refused_moves [OF staging_step] refused_moves [OF finalize_step] refused_moves [OF fail_step]
  refused_moves [OF cancel_step] refused_moves [OF request_cancel_step] refused_moves [OF clear_staging_step]
  refused_moves [OF clear_fence_step] refused_moves [OF clear_completed_step] refused_moves [OF fail_expired_step]
  refused_moves [OF retry_step]

lemma exec_moves:
  assumes "exec op db = Inr db'" "possible op" "catalog_ok db"
  shows "catalog_moves db db'"
proof (cases op)
  case (CreateJob now input)
  then obtain v where "createOrReadTransformJob now input db = Inr (db', v)" using assms(1) by auto
  then show ?thesis using create_Inr [of now input db db' v] assms(3) result_step_moves by blast
next
  case (CompleteJob now later input)
  then obtain v where "completeTransformJob now later input db = Inr (db', v)" using assms(1) by auto
  then show ?thesis using complete_ok assms(3) by (fastforce simp: catalog_moves_def claims_grow_def)
next
  case (ClaimJob now token locked owner d)
  then show ?thesis using claim_job_moves assms by auto
next
  case (GetOrCreateNamespace i scope)
  then show ?thesis using namespace_moves assms by auto
next
  case (InsertOrReadClaim input)
  then show ?thesis using claim_moves assms by auto
next
  case (RegisterLayout input)
  then show ?thesis using layout_moves assms by auto
next
  case (RegisterResult input run)
  then show ?thesis using result_moves assms by auto
next
  case (CompareAndSet now input)
  then show ?thesis using compare_and_set_moves assms by auto
next
  case (DeleteRef now input)
  then show ?thesis using delete_moves assms by auto
next
  case (RestoreRef input)
  then show ?thesis using restore_moves assms by auto
qed (use assms job_moves [of db] in \<open>auto simp: catalog_ok_def simp del: ran_Inr\<close>)

section \<open>Reachable states\<close>

lemma catalog_ok_empty: "catalog_ok empty_db"
  by (simp add: catalog_ok_def datasets_ok_empty runs_ok_empty)
     (simp add: empty_db_def refs_ok_def refs_committed_def claims_ok_def jobs_ok_def completed_ok_def single_lease_def
      ref_table.keyed_Nil claim_table.keyed_Nil claim_entity_table.keyed_Nil job_table.keyed_Nil)

lemma reachable_ok: "reachable db \<Longrightarrow> catalog_ok db"
  by (induction rule: reachable.induct) (auto simp: catalog_ok_empty catalog_moves_def elim!: catalog_step_cases dest!: exec_moves)

lemma short_unique: "a \<in> set xs \<Longrightarrow> b \<in> set xs \<Longrightarrow> length xs \<le> 1 \<Longrightarrow> a = b"
  by (cases xs) auto

lemma single_lease_unique:
  "single_lease rows \<Longrightarrow> r \<in> set rows \<Longrightarrow> s \<in> set rows \<Longrightarrow> tj_lease_token r \<noteq> None \<Longrightarrow> tj_lease_token s \<noteq> None \<Longrightarrow> r = s"
proof -
  assume "single_lease rows" "r \<in> set rows" "s \<in> set rows" "tj_lease_token r \<noteq> None" "tj_lease_token s \<noteq> None"
  then have "r \<in> set (filter (\<lambda>r. tj_lease_token r \<noteq> None) rows)" "s \<in> set (filter (\<lambda>r. tj_lease_token r \<noteq> None) rows)"
    "length (filter (\<lambda>r. tj_lease_token r \<noteq> None) rows) \<le> 1" by (simp_all add: single_lease_def)
  then show "r = s" by (rule short_unique)
qed


lemma example_reachable: "reachable (with_run example_run example_registered)"
proof -
  have "catalog_step empty_db (with_run example_run example_registered)"
    by (rule operate [of "RegisterResult example_registration example_run"]) (simp_all add: example_transform)
  then show ?thesis using reachable.start reachable.advance by blast
qed


text \<open>What no sequence of operations takes back.\<close>

definition job_later :: "transform_job \<Rightarrow> transform_job \<Rightarrow> bool" where
  "job_later r s \<longleftrightarrow> same_identity r s \<and> tj_attempt r \<le> tj_attempt s
     \<and> (tj_status r = Completed \<longrightarrow> job_state s = job_state r)"

definition catalog_later :: "catalog_db \<Rightarrow> catalog_db \<Rightarrow> bool" where
  "catalog_later db db' \<longleftrightarrow> catalog_grows db db' \<and> claims_grow db db'
     \<and> (\<forall>r \<in> set (jobs db). \<exists>s \<in> set (jobs db'). job_later r s)"

lemma row_step_later: "row_step r s \<Longrightarrow> job_later r s"
proof -
  assume step: "row_step r s"
  then have life: "lifecycle (job_state r) (job_state s)" by (simp add: row_step_def)
  then have "fst (snd (job_state r)) \<le> fst (snd (job_state s))" by cases auto
  moreover have "job_state s = job_state r" if "tj_status r = Completed"
  proof -
    have "lifecycle (Completed, tj_attempt r, tj_output_version r) (job_state s)" using life that by (simp add: job_state_def)
    then show ?thesis using that by (cases rule: lifecycle_completed) (auto simp: job_state_def is_active_def is_stopped_def)
  qed
  ultimately show ?thesis using step by (simp add: job_later_def row_step_def job_state_def)
qed

lemma job_later_trans: "job_later r s \<Longrightarrow> job_later s t \<Longrightarrow> job_later r t"
  using same_identity_trans unfolding job_later_def by (auto simp: job_state_def)

lemma catalog_moves_later: "catalog_moves db db' \<Longrightarrow> catalog_later db db'"
  unfolding catalog_moves_def catalog_later_def jobs_evolve_def using row_step_later by blast

lemma catalog_later_trans:
  assumes "catalog_later a b" "catalog_later b c"
  shows "catalog_later a c"
proof -
  have "\<exists>t \<in> set (jobs c). job_later r t" if "r \<in> set (jobs a)" for r
  proof -
    obtain s where s: "s \<in> set (jobs b)" "job_later r s" using assms(1) \<open>r \<in> set (jobs a)\<close> by (auto simp: catalog_later_def)
    then obtain t where "t \<in> set (jobs c)" "job_later s t" using assms(2) by (auto simp: catalog_later_def)
    then show ?thesis using s(2) job_later_trans by blast
  qed
  moreover have "claims_grow a c" using assms by (auto simp: catalog_later_def claims_grow_def)
  ultimately show ?thesis using assms catalog_grows_trans by (simp add: catalog_later_def) blast
qed

lemma steps_later:
  assumes "catalog_step\<^sup>*\<^sup>* db db'" "reachable db"
  shows "catalog_later db db' \<and> reachable db'"
  using assms(1)
proof (induction rule: rtranclp_induct)
  case base
  show ?case using assms(2) catalog_moves_later [OF catalog_moves_refl [OF reachable_ok]] by simp
next
  case (step mid db')
  have "catalog_moves mid db'"
    using step reachable_ok exec_moves by (auto elim: catalog_step_cases)
  with step show ?case using catalog_moves_later catalog_later_trans reachable.advance by blast
qed



end
