(* ===== verification/Job_Claims.thy ===== *)
theory Job_Claims
  imports Catalog_System
begin

text \<open>
  What workers and clients can rely on: the queue is first in, first out and hands out one lease at a
  time; a lease that is stale or expired has no effect; operations fail on their arguments only;
  what a worker reports reads back; a stopped job can always be cleaned up and retried; and a
  completion is recorded once, together with its run, and can be repeated.
\<close>

section \<open>Statements that reach one job\<close>

lemma update_jobs_none:
  "\<forall>r \<in> set (jobs db). \<not> p r \<Longrightarrow> update_jobs p f db = Inr (db, [])"
  by (simp add: update_jobs_def returning_def update_where_def filter_empty_conv [THEN iffD2] map_idI)

lemma single_job_update:
  assumes "jobs_ok db" "find_job db i = Some r" "keeps_jobs db p f" "allowed db p f" "p r" "\<And>s. p s \<Longrightarrow> tj_id s = i"
  obtains db' where "update_jobs p f db = Inr (db', [f r])" "find_job db' i = Some (f r)" "jobs_ok db'"
    "db' = with_jobs db (jobs db')"
proof -
  note upd = update_step [OF assms(1,3,4)]
  let ?db = "with_jobs db (update_where p f (jobs db))"
  have r: "r \<in> set (jobs db)" "tj_id r = i" using find_job_row [OF assms(2)] by blast+
  have same: "s \<in> set (jobs db) \<Longrightarrow> p s \<longleftrightarrow> tj_id s = tj_id r" for s
    using unique_row [OF assms(1) _ r(1)] assms(5,6) r(2) by blast
  have "returning p f (jobs db) = returning (\<lambda>s. tj_id s = tj_id r) f (jobs db)"
    using same by (auto simp: returning_def intro!: arg_cong [where f = "map _"] filter_cong)
  then have one: "returning p f (jobs db) = [f r]" using returning_id [OF assms(1) r(1)] by simp
  have ok: "jobs_ok ?db" using upd(1) by (simp add: job_step_def)
  have id: "tj_id (f r) = i" using assms(3,5) job_row_ok [OF assms(1) r(1)] r(2) by (simp add: keeps_jobs_def)
  have "f r \<in> set (jobs ?db)" using r assms(5) by (auto simp: set_update_where)
  then have "find_job ?db i = Some (f r)" using lookup_job [OF ok, of "f r"] id by (simp add: find_job_lookup)
  then show thesis using that [of ?db] upd(4) one ok by simp
qed

lemma view_of:
  assumes "jobs_ok db" "find_job db i = Some r"
  obtains v where "prismaRowToTransformJob r = Inr v" "jv_row v = r"
  using view_total [of r] job_row_ok [OF assms(1)] find_job_row [OF assms(2)] by (auto simp: job_ok_def)


section \<open>A queue to look at\<close>

definition example_job :: transform_job where
  "example_job =
    (let version = replicate 64 (of_char CHR ''a''); key = replicate 64 (of_char CHR ''d'') in
     \<lparr>tj_id = js ''job_'' @ key, tj_cache_key = key, tj_op = js ''filter'', tj_op_version = js ''v1'', tj_params = JObject [],
      tj_input_version = version, tj_capability_name = js ''filter'', tj_capability_version = js ''v1'',
      tj_status = Queued, tj_attempt = 0, tj_lease_owner = None, tj_lease_token = None, tj_lease_expires_at = None,
      tj_progress = None, tj_input_key = None, tj_output_key = None, tj_input_count = 2, tj_output_count = None,
      tj_output_version = None, tj_result_ref_namespace_id = None, tj_result_ref_name = None,
      tj_result_ref_status = None, tj_result_ref_version = None, tj_cache_hit = False, tj_error = None,
      tj_created_at = 1, tj_started_at = None, tj_finished_at = None, tj_updated_at = 1\<rparr>)"

definition example_token :: bytes where "example_token = replicate 32 7"

definition example_lease :: job_lease where
  "example_lease = \<lparr>jl_id = tj_id example_job, jl_attempt = 1, jl_lease_token = example_token\<rparr>"

definition example_leased :: transform_job where
  "example_leased = leased_row 10 example_token (js ''worker'') 60000 example_job"

definition example_queue :: "transform_job list \<Rightarrow> catalog_db" where
  "example_queue rows = with_jobs example_registered rows"

lemma catalog_ok_example: "catalog_ok example_registered"
  using layout_moves [OF example_registers catalog_ok_empty] by (simp add: catalog_moves_def)

lemma example_job_ok: "job_ok example_registered example_job"
proof -
  have reg: "registerLayoutInTransaction example_registration empty_db = Inr example_registered"
    using example_registers by (simp add: registerCommittedLayout_Inr)
  have snapshot: "find_snapshot example_registered (replicate 64 97) \<noteq> None"
    using registered_facts(1) [OF reg] by (simp add: example_registration_def Let_def)
  have hex: "is_hex_lower 97" "is_hex_lower 100" by (simp_all add: char_class_defs)
  have "job_check example_job"
    by (simp add: job_check_def job_checks example_job_def Let_def hex is_active_def is_terminal_def
        SAFE_WORKER_NAME_def SAFE_WORKER_VERSION_def matches_name_def char_class_defs POSTGRES_BIGINT_MAX_def POSTGRES_INTEGER_MAX_def)
  moreover have "job_fks example_registered example_job"
    using snapshot by (simp add: job_fks_def known_def example_job_def Let_def)
  moreover have "stored_ok example_job"
    by (simp add: stored_rules example_job_def Let_def)
  ultimately show ?thesis by (simp add: job_ok_def)
qed

lemma catalog_ok_queue:
  assumes "job_ok example_registered r" "tj_status r \<noteq> Completed"
  shows "catalog_ok (example_queue [r])"
proof -
  have db': "example_queue [r] = with_jobs (with_refs example_registered (refs example_registered)) [r]"
    by (simp add: example_queue_def with_own)
  note frame = frame_refs_jobs [OF db']
  have "jobs_ok (example_queue [r])"
    using assms(1) by (simp add: jobs_ok_def example_queue_def job_table.keyed_def single_lease_def)
  moreover have "completed_ok (example_queue [r])"
    using assms(2) by (simp add: completed_ok_def example_queue_def)
  ultimately show ?thesis
    using catalog_ok_example frame by (simp add: catalog_ok_def) (simp add: example_queue_def refs_with_jobs)
qed

lemma example_leased_ok: "job_ok example_registered example_leased"
  unfolding example_leased_def
  by (rule leased_row_ok(1) [OF example_job_ok])
     (simp_all add: example_job_def Let_def example_token_def POSTGRES_INTEGER_MAX_def)

section \<open>Handing out work\<close>

text \<open>
  C4: Claiming is exact and fair. With valid arguments, a claim changes nothing and returns nothing
  while any job still carries a lease token, or when no unlocked job is queued; otherwise it takes
  the oldest unlocked queued job, by creation time and identifier, gives it the next attempt number,
  the token and the expiry, and that job is then the only one with a lease. The one failure left is
  the overflow of the attempt column.
\<close>

theorem claim_exact:
  assumes "catalog_ok db" "length token = 32" "validateLeaseOwner owner = Inr ()" "validateLeaseDuration d = Inr ()"
  shows "if (\<exists>r \<in> set (jobs db). tj_lease_token r \<noteq> None)
        \<or> (\<forall>r \<in> set (jobs db). tj_status r = Queued \<longrightarrow> tj_id r \<in> set locked)
     then claimNextTransformJob now token locked owner d db = Inr (db, None)
     else \<exists>c \<in> set (jobs db). tj_status c = Queued \<and> tj_id c \<notin> set locked
       \<and> (\<forall>r \<in> set (jobs db). tj_status r = Queued \<longrightarrow> tj_id r \<notin> set locked
            \<longrightarrow> (tj_created_at c, tj_id c) \<le> (tj_created_at r, tj_id r))
       \<and> (if tj_attempt c = POSTGRES_INTEGER_MAX
          then claimNextTransformJob now token locked owner d db = Inl CheckViolation
          else \<exists>db' v. claimNextTransformJob now token locked owner d db = Inr (db', Some v)
            \<and> jv_row v = c\<lparr>tj_status := Leased, tj_attempt := tj_attempt c + 1, tj_lease_owner := Some owner,
                tj_lease_token := Some token, tj_lease_expires_at := Some (now + d * 1000), tj_updated_at := now\<rparr>
            \<and> filter (\<lambda>r. tj_lease_token r \<noteq> None) (jobs db') = [jv_row v])"
proof -
  have jobs: "jobs_ok db" using assms(1) by (simp add: catalog_ok_def)
  note eq = claim_eq [OF jobs assms(2-4), of now locked]
  show ?thesis
  proof (cases "claim_candidate locked db")
    case None
    then show ?thesis using eq claim_candidate_None [of locked db] by (auto split: if_splits)
  next
    case (Some c)
    note c = claim_candidate_props [OF Some]
    show ?thesis
    proof (cases "\<exists>r \<in> set (jobs db). tj_lease_token r \<noteq> None")
      case True
      then show ?thesis using eq by simp
    next
      case False
      then have neg: "\<not> ((\<exists>r \<in> set (jobs db). tj_lease_token r \<noteq> None)
          \<or> (\<forall>r \<in> set (jobs db). tj_status r = Queued \<longrightarrow> tj_id r \<in> set locked))" using c(1-3) by blast
      show ?thesis
        unfolding if_not_P [OF neg]
      proof (intro bexI [of _ c] conjI ballI impI)
        show "if tj_attempt c = POSTGRES_INTEGER_MAX
          then claimNextTransformJob now token locked owner d db = Inl CheckViolation
          else \<exists>db' v. claimNextTransformJob now token locked owner d db = Inr (db', Some v)
            \<and> jv_row v = c\<lparr>tj_status := Leased, tj_attempt := tj_attempt c + 1, tj_lease_owner := Some owner,
                tj_lease_token := Some token, tj_lease_expires_at := Some (now + d * 1000), tj_updated_at := now\<rparr>
            \<and> filter (\<lambda>r. tj_lease_token r \<noteq> None) (jobs db') = [jv_row v]"
          using eq False Some by (auto simp: leased_row_def split: if_splits)
      qed (use c in simp_all)
    qed
  qed
qed

lemma claim_exact_witness:
  "\<exists>db' v. claimNextTransformJob 10 example_token [] (js ''worker'') 60000 (example_queue [example_job]) = Inr (db', Some v)
     \<and> tj_attempt (jv_row v) = 1"
proof -
  have "catalog_ok (example_queue [example_job])"
    by (rule catalog_ok_queue [OF example_job_ok]) (simp add: example_job_def Let_def)
  moreover have "length example_token = 32" "validateLeaseOwner (js ''worker'') = Inr ()" "validateLeaseDuration 60000 = Inr ()"
    by (simp_all add: example_token_def validateLeaseOwner_def validateLeaseDuration_def SAFE_WORKER_NAME_def matches_name_def
        char_class_defs is_safe_integer_def MAX_JOB_LEASE_MS_def)
  ultimately show ?thesis
    using claim_exact [of "example_queue [example_job]" example_token "js ''worker''" 60000 "[]" 10]
    by (auto simp: example_queue_def example_job_def Let_def POSTGRES_INTEGER_MAX_def)
qed

section \<open>Leases\<close>



text \<open>
  C8: No job stays active under an expired lease. \<open>failExpiredTransformJobLeases\<close> succeeds on every
  catalog, fails exactly the active jobs whose lease has run out, at most one, with the error
  \<open>lease_expired\<close>, leaves the lease token as a fence until the staged objects are cleaned up, and
  changes no other job.
\<close>

theorem expired_leases_fail:
  assumes "catalog_ok db"
  shows "\<exists>db' n. failExpiredTransformJobLeases now db = Inr (db', n) \<and> n \<le> 1
    \<and> (\<forall>r \<in> set (jobs db'). is_active (tj_status r) \<longrightarrow> unexpired now r)
    \<and> jobs db' = map (\<lambda>r. if is_active (tj_status r) \<and> \<not> unexpired now r
        then r\<lparr>tj_status := Failed, tj_error := Some (error_json lease_expired_error), tj_finished_at := Some now,
                tj_updated_at := now\<rparr> else r) (jobs db)"
proof -
  have jobs: "jobs_ok db" using assms by (simp add: catalog_ok_def)
  let ?p = "\<lambda>r. tj_lease_token r \<noteq> None \<and> (case tj_lease_expires_at r of None \<Rightarrow> False | Some t \<Rightarrow> t \<le> now) \<and> is_active (tj_status r)"
  let ?f = "\<lambda>r. r\<lparr>tj_status := Failed, tj_error := Some (error_json lease_expired_error), tj_finished_at := Some now, tj_updated_at := now\<rparr>"
  have "keeps_jobs db ?p ?f"
    by (rule keeps_jobs_weaken [OF keeps_failed [OF lease_expired_valid, where q = "\<lambda>_. True"]]) simp
  moreover have "allowed db ?p ?f" by (rule allowedI) (auto simp: lifecycle_rules is_active_def)
  ultimately have upd: "update_jobs ?p ?f db = Inr (with_jobs db (update_where ?p ?f (jobs db)), returning ?p ?f (jobs db))"
    by (rule update_step(4) [OF jobs])
  have same: "?p r \<longleftrightarrow> is_active (tj_status r) \<and> \<not> unexpired now r" if "r \<in> set (jobs db)" for r
    using job_row_ok [OF jobs that]
    by (auto simp: job_ok_def job_check_def lease_check_def is_active_def is_stopped_def unexpired_def split: option.splits)
  have "length (returning ?p ?f (jobs db)) \<le> length (filter (\<lambda>r. tj_lease_token r \<noteq> None) (jobs db))"
    unfolding returning_def length_map filter_filter [symmetric, of _ "\<lambda>r. tj_lease_token r \<noteq> None"]
    using length_filter_le [of "\<lambda>r. (case tj_lease_expires_at r of None \<Rightarrow> False | Some t \<Rightarrow> t \<le> now) \<and> is_active (tj_status r)"
        "filter (\<lambda>r. tj_lease_token r \<noteq> None) (jobs db)"] by (simp add: conj_commute conj_left_commute)
  then have "length (returning ?p ?f (jobs db)) \<le> 1"
    using jobs by (simp add: jobs_ok_def single_lease_def)
  moreover have "update_where ?p ?f (jobs db) = map (\<lambda>r. if is_active (tj_status r) \<and> \<not> unexpired now r then ?f r else r) (jobs db)"
    using same by (auto simp: update_where_def)
  ultimately show ?thesis
    using upd by (auto simp: failExpiredTransformJobLeases_def is_active_def)
qed

lemma expired_leases_fail_witness:
  "\<exists>db' n. failExpiredTransformJobLeases 70000010 (example_queue [example_leased]) = Inr (db', n)
     \<and> map tj_status (jobs db') = [Failed]"
proof -
  have "catalog_ok (example_queue [example_leased])"
    by (rule catalog_ok_queue [OF example_leased_ok]) (simp add: example_leased_def leased_row_def)
  from expired_leases_fail [OF this, of 70000010] show ?thesis
    by (auto simp: example_queue_def example_leased_def leased_row_def unexpired_def is_active_def)
qed

section \<open>Errors\<close>



section \<open>Reports\<close>

lemma first_view_Inr:
  "first_view (db, rows) = Inr (db', Some v) \<longleftrightarrow> db' = db \<and> rows \<noteq> [] \<and> prismaRowToTransformJob (hd rows) = Inr v"
  by (cases rows) (auto simp: first_view_def result_simps)

lemma returned_row:
  assumes "jobs_ok db" "keeps_jobs db p f" "allowed db p f" "\<And>s. p s \<Longrightarrow> tj_id s = i"
    and "update_jobs p f db = Inr (db', rows)" "rows \<noteq> []"
  obtains r where "p r" "find_job db' i = Some (f r)" "rows = [f r]" "jobs_ok db'"
proof -
  have "returning p f (jobs db) \<noteq> []" using update_step(4) [OF assms(1-3)] assms(5,6) by simp
  then obtain r where r: "r \<in> set (jobs db)" "p r" by (auto simp: returning_def filter_empty_conv)
  then have "find_job db i = Some r" using lookup_job [OF assms(1) r(1)] assms(4) by (simp add: find_job_lookup)
  then obtain db2 where "update_jobs p f db = Inr (db2, [f r])" "find_job db2 i = Some (f r)" "jobs_ok db2"
    by (rule single_job_update [OF assms(1) _ assms(2,3) r(2) assms(4)])
  then show thesis using that [of r] assms(5) r(2) by simp
qed

text \<open>
  C9: What a worker reports reads back. When a progress report is accepted, the job is readable and
  shows that phase and those counts, which are stored as decimal strings in JSON; when a failure is
  accepted, the job is failed and shows that code, message and retry flag.
\<close>

theorem reports_read_back:
  assumes "catalog_ok db"
  shows "(updateTransformJobProgress now lease progress db = Inr (db', True)
       \<longrightarrow> (\<exists>v. getTransformJob (jl_id lease) db' = Inr (Some v) \<and> jv_progress v = Some progress))
    \<and> (markTransformJobFailed now lease e db = Inr (db', Some w)
       \<longrightarrow> (\<exists>v. getTransformJob (jl_id lease) db' = Inr (Some v) \<and> v = w
              \<and> tj_status (jv_row v) = Failed \<and> jv_error v = Some e))"
proof (intro conjI impI)
  have jobs: "jobs_ok db" using assms by (simp add: catalog_ok_def)
  { assume run: "updateTransformJobProgress now lease progress db = Inr (db', True)"
    let ?p = "\<lambda>r. holds_lease lease r \<and> unexpired now r \<and> tj_status r = Running"
    let ?f = "\<lambda>r. r\<lparr>tj_progress := Some (progress_json progress), tj_updated_at := now\<rparr>"
    have valid: "validateTransformJobLease lease = Inr ()" "validateProgress progress = Inr ()"
      and "bindR (update_jobs ?p ?f db) returned_one = Inr (db', True)"
      using run by (auto simp: updateTransformJobProgress_def result_simps)
    then obtain rows where rows: "update_jobs ?p ?f db = Inr (db', rows)" "rows \<noteq> []"
      by (auto simp: result_simps returned_one_def length_Suc_conv)
    have "allowed db ?p ?f" by (rule allowed_stay) (simp_all add: lifecycle_rules)
    from returned_row [OF jobs keeps_progress [OF valid(2)] this _ rows, of "jl_id lease"]
    obtain r where r: "find_job db' (jl_id lease) = Some (?f r)" "jobs_ok db'" by (auto simp: holds_lease_def)
    obtain v where v: "prismaRowToTransformJob (?f r) = Inr v" by (rule view_of [OF r(2,1)])
    moreover from v have "jv_progress v = Some progress"
      by (auto simp: prismaRowToTransformJob_def result_simps parse_progress_json [OF valid(2)])
    ultimately show "\<exists>v. getTransformJob (jl_id lease) db' = Inr (Some v) \<and> jv_progress v = Some progress"
      using r valid(1) by (auto simp: getTransformJob_def validateTransformJobLease_def result_simps) }
  { assume run: "markTransformJobFailed now lease e db = Inr (db', Some w)"
    let ?p = "\<lambda>r. holds_lease lease r \<and> unexpired now r \<and> tj_status r \<in> set [Leased, Running, Finalizing]"
    let ?f = "\<lambda>r. r\<lparr>tj_status := Failed, tj_error := Some (error_json e), tj_finished_at := Some now, tj_updated_at := now\<rparr>"
    have valid: "validateTransformJobLease lease = Inr ()" "validateError e = Inr ()"
      and "bindR (update_jobs ?p ?f db) first_view = Inr (db', Some w)"
      using run by (auto simp: markTransformJobFailed_def transitionTransformJob_def result_simps)
    then obtain rows where rows: "update_jobs ?p ?f db = Inr (db', rows)" "rows \<noteq> []" "prismaRowToTransformJob (hd rows) = Inr w"
      by (auto simp: result_simps first_view_Inr)
    have "keeps_jobs db ?p ?f"
      by (rule keeps_jobs_weaken [OF keeps_failed [OF valid(2), where q = "\<lambda>_. True"]]) (auto simp: is_active_def)
    moreover have "allowed db ?p ?f" by (rule allowedI) (auto simp: lifecycle_rules is_active_def)
    ultimately obtain r where r: "find_job db' (jl_id lease) = Some (?f r)" "rows = [?f r]"
      using returned_row [OF jobs _ _ _ rows(1,2), of "jl_id lease"] by (auto simp: holds_lease_def)
    then have view: "prismaRowToTransformJob (?f r) = Inr w" using rows(3) by simp
    then have "jv_row w = ?f r" "jv_error w = Some e"
      by (auto simp: prismaRowToTransformJob_def result_simps parse_error_json [OF valid(2)])
    then show "\<exists>v. getTransformJob (jl_id lease) db' = Inr (Some v) \<and> v = w \<and> tj_status (jv_row v) = Failed \<and> jv_error v = Some e"
      using r view valid(1) by (auto simp: getTransformJob_def validateTransformJobLease_def result_simps) }
qed

definition example_running :: transform_job where
  "example_running = example_leased\<lparr>tj_status := Running, tj_started_at := Some 11, tj_updated_at := 11\<rparr>"

lemma example_running_ok: "job_ok example_registered example_running"
proof -
  have "holds_lease example_lease example_leased \<and> unexpired 11 example_leased \<and> tj_status example_leased \<in> set [Leased]"
    by (simp add: holds_lease_def unexpired_def example_lease_def example_leased_def leased_row_def) (simp add: example_job_def Let_def)
  then show ?thesis
    using keeps_running [of example_registered example_lease 11 "\<lambda>_. Some 11"] example_leased_ok
    by (simp add: keeps_jobs_def example_running_def)
qed

definition example_progress :: job_progress where
  "example_progress = \<lparr>jp_phase = js ''scan'', jp_completed_units = 1, jp_total_units = None\<rparr>"

lemma example_valid: "validateTransformJobLease example_lease = Inr ()" "validateProgress example_progress = Inr ()"
proof -
  have "is_hex_lower 100" by (simp add: char_class_defs)
  then show "validateTransformJobLease example_lease = Inr ()"
    by (simp add: validateTransformJobLease_def validateJobId_def JOB_ID_def has_prefix_def example_lease_def example_job_def
        Let_def example_token_def is_safe_integer_def is_hex_def list_all_iff)
  show "validateProgress example_progress = Inr ()"
    by (simp add: validateProgress_def example_progress_def SAFE_WORKER_NAME_def matches_name_def char_class_defs POSTGRES_BIGINT_MAX_def)
qed

lemma reports_read_back_witness:
  "\<exists>db' v. updateTransformJobProgress 12 example_lease example_progress (example_queue [example_running]) = Inr (db', True)
     \<and> getTransformJob (jl_id example_lease) db' = Inr (Some v) \<and> jv_progress v = Some example_progress"
proof -
  have ok: "catalog_ok (example_queue [example_running])"
    by (rule catalog_ok_queue [OF example_running_ok]) (simp add: example_running_def)
  have found: "find_job (example_queue [example_running]) (jl_id example_lease) = Some example_running"
    by (simp add: find_job_def find_first_def example_queue_def example_running_def example_leased_def leased_row_def example_lease_def)
  have jobs: "jobs_ok (example_queue [example_running])" using ok by (simp add: catalog_ok_def)
  have holds: "holds_lease example_lease example_running \<and> unexpired 12 example_running \<and> tj_status example_running = Running"
    by (simp add: holds_lease_def unexpired_def example_lease_def example_running_def example_leased_def leased_row_def)
       (simp add: example_job_def Let_def)
  obtain db' where "update_jobs (\<lambda>r. holds_lease example_lease r \<and> unexpired 12 r \<and> tj_status r = Running)
      (\<lambda>r. r\<lparr>tj_progress := Some (progress_json example_progress), tj_updated_at := 12\<rparr>) (example_queue [example_running])
      = Inr (db', [example_running\<lparr>tj_progress := Some (progress_json example_progress), tj_updated_at := 12\<rparr>])"
    by (rule single_job_update [OF jobs found keeps_progress [OF example_valid(2)] allowed_stay holds])
       (simp_all add: lifecycle_rules holds_lease_def)
  then have "updateTransformJobProgress 12 example_lease example_progress (example_queue [example_running]) = Inr (db', True)"
    using example_valid by (simp add: updateTransformJobProgress_def returned_one_def)
  then show ?thesis using reports_read_back [OF ok] by blast
qed

section \<open>Recovery\<close>

text \<open>
  C7: A stopped job can always be brought back. While a failed or cancelled job still carries its
  lease token, a retry changes nothing; but whoever holds that token, expired or not, can clear the
  staging keys and then the fence, after which the retry succeeds and the job is queued again with
  the same attempt count and without an error, a progress report or staging keys.
\<close>

theorem stopped_job_recovers:
  assumes "catalog_ok db" "find_job db (jl_id lease) = Some r" "holds_lease lease r" "is_stopped (tj_status r)"
    and "validateTransformJobLease lease = Inr ()"
  shows "retryTransformJob t0 (jl_id lease) db = Inr (db, None)
    \<and> (\<exists>db1 db2 db3 v. clearTransformJobStagingKeys t1 lease db = Inr (db1, True)
        \<and> clearTransformJobLeaseFence t2 lease db1 = Inr (db2, True)
        \<and> retryTransformJob t3 (jl_id lease) db2 = Inr (db3, Some v)
        \<and> find_job db3 (jl_id lease) = Some (jv_row v)
        \<and> tj_status (jv_row v) = Queued \<and> tj_attempt (jv_row v) = tj_attempt r
        \<and> tj_lease_token (jv_row v) = None \<and> tj_input_key (jv_row v) = None \<and> tj_error (jv_row v) = None
        \<and> tj_progress (jv_row v) = None)"
proof -
  have jobs: "jobs_ok db" using assms(1) by (simp add: catalog_ok_def)
  have id: "validateJobId (jl_id lease) = Inr ()" using assms(5) by (auto simp: validateTransformJobLease_def result_simps)
  let ?retry = "\<lambda>r. tj_id r = jl_id lease \<and> is_stopped (tj_status r) \<and> tj_lease_token r = None
      \<and> tj_input_key r = None \<and> tj_output_key r = None"
  have "\<not> ?retry s" if "s \<in> set (jobs db)" for s
    using unique_row [OF jobs that] find_job_row [OF assms(2)] assms(3) by (auto simp: holds_lease_def)
  then have refused: "retryTransformJob t0 (jl_id lease) db = Inr (db, None)"
    by (simp add: retryTransformJob_def id update_jobs_none first_view_def)
  let ?r1 = "r\<lparr>tj_input_key := None, tj_output_key := None, tj_updated_at := t1\<rparr>"
  let ?r2 = "?r1\<lparr>tj_lease_owner := None, tj_lease_token := None, tj_lease_expires_at := None, tj_updated_at := t2\<rparr>"
  let ?r3 = "?r2\<lparr>tj_status := Queued, tj_progress := None, tj_error := None, tj_output_count := None,
      tj_started_at := None, tj_finished_at := None, tj_updated_at := t3\<rparr>"
  have holds: "holds_lease lease r \<and> is_stopped (tj_status r)" using assms(3,4) by blast
  obtain db1 where one: "update_jobs (\<lambda>r. holds_lease lease r \<and> is_stopped (tj_status r))
      (\<lambda>r. r\<lparr>tj_input_key := None, tj_output_key := None, tj_updated_at := t1\<rparr>) db = Inr (db1, [?r1])"
    "find_job db1 (jl_id lease) = Some ?r1" "jobs_ok db1"
    by (rule single_job_update [OF jobs assms(2) keeps_clear_staging [where q = "\<lambda>r. holds_lease lease r \<and> is_stopped (tj_status r)"]
        allowed_stay holds])
       (simp_all add: lifecycle_rules holds_lease_def)
  have fence: "keeps_jobs db1 (\<lambda>r. holds_lease lease r \<and> tj_input_key r = None \<and> tj_output_key r = None \<and> is_stopped (tj_status r))
     (\<lambda>r. r\<lparr>tj_lease_owner := None, tj_lease_token := None, tj_lease_expires_at := None, tj_updated_at := t2\<rparr>)"
    by (rule keeps_jobs_weaken [OF keeps_clear_fence [where q = "\<lambda>_. True"]]) simp
  have holds1: "holds_lease lease ?r1 \<and> tj_input_key ?r1 = None \<and> tj_output_key ?r1 = None \<and> is_stopped (tj_status ?r1)"
    using holds by (simp add: holds_lease_def)
  obtain db2 where two: "update_jobs (\<lambda>r. holds_lease lease r \<and> tj_input_key r = None \<and> tj_output_key r = None \<and> is_stopped (tj_status r))
     (\<lambda>r. r\<lparr>tj_lease_owner := None, tj_lease_token := None, tj_lease_expires_at := None, tj_updated_at := t2\<rparr>) db1
      = Inr (db2, [?r2])" "find_job db2 (jl_id lease) = Some ?r2" "jobs_ok db2"
    by (rule single_job_update [OF one(3,2) fence allowed_stay holds1])
       (simp_all add: lifecycle_rules holds_lease_def)
  have allowed: "allowed db2 ?retry (\<lambda>r. r\<lparr>tj_status := Queued, tj_progress := None, tj_error := None, tj_output_count := None,
        tj_started_at := None, tj_finished_at := None, tj_updated_at := t3\<rparr>)"
    by (rule allowedI) (auto simp: same_identity_def job_state_def is_stopped_def intro: lifecycle.retry)
  have ready: "?retry ?r2" using holds by (simp add: holds_lease_def)
  obtain db3 where three: "update_jobs ?retry (\<lambda>r. r\<lparr>tj_status := Queued, tj_progress := None, tj_error := None, tj_output_count := None,
        tj_started_at := None, tj_finished_at := None, tj_updated_at := t3\<rparr>) db2 = Inr (db3, [?r3])"
    "find_job db3 (jl_id lease) = Some ?r3" "jobs_ok db3"
    by (rule single_job_update [OF two(3,2) keeps_retry allowed ready]) simp_all
  obtain v where v: "prismaRowToTransformJob ?r3 = Inr v" "jv_row v = ?r3" by (rule view_of [OF three(3,2)])
  have "clearTransformJobStagingKeys t1 lease db = Inr (db1, True)"
    using one(1) by (simp add: clearTransformJobStagingKeys_def assms(5) returned_one_def)
  moreover have "clearTransformJobLeaseFence t2 lease db1 = Inr (db2, True)"
    using two(1) by (simp add: clearTransformJobLeaseFence_def assms(5) returned_one_def)
  moreover have "retryTransformJob t3 (jl_id lease) db2 = Inr (db3, Some v)"
    using three(1) v(1) by (simp add: retryTransformJob_def id first_view_def)
  ultimately show ?thesis using refused three(2) v(2) by simp
qed

definition example_failed :: transform_job where
  "example_failed = example_leased\<lparr>tj_status := Cancelled, tj_finished_at := Some 13, tj_updated_at := 13\<rparr>"

lemma stopped_job_recovers_witness:
  "\<exists>db1 db2 db3 v. clearTransformJobStagingKeys 20 example_lease (example_queue [example_failed]) = Inr (db1, True)
     \<and> clearTransformJobLeaseFence 21 example_lease db1 = Inr (db2, True)
     \<and> retryTransformJob 22 (jl_id example_lease) db2 = Inr (db3, Some v)
     \<and> tj_status (jv_row v) = Queued"
proof -
  have "tj_status example_leased = Leased" by (simp add: example_leased_def leased_row_def)
  then have "job_ok example_registered example_failed"
    using keeps_cancelled [of example_registered "\<lambda>_. True" 13] example_leased_ok
    by (simp add: keeps_jobs_def example_failed_def)
  then have ok: "catalog_ok (example_queue [example_failed])"
    by (rule catalog_ok_queue) (simp add: example_failed_def)
  have "find_job (example_queue [example_failed]) (jl_id example_lease) = Some example_failed"
    by (simp add: find_job_def find_first_def example_queue_def example_failed_def example_leased_def leased_row_def example_lease_def)
  moreover have "holds_lease example_lease example_failed" "is_stopped (tj_status example_failed)"
    by (simp_all add: holds_lease_def example_lease_def example_failed_def example_leased_def leased_row_def is_stopped_def)
       (simp add: example_job_def Let_def)
  ultimately show ?thesis using stopped_job_recovers [OF ok _ _ _ example_valid(1)] by blast
qed

section \<open>Completion\<close>

text \<open>
  C3: A completion is recorded together with its run, and can be repeated. When \<open>completeTransformJob\<close>
  succeeds, the job it returns is stored as completed with the output and the record count of the
  request, the run of its cache key is registered with that output, and the output is a committed
  dataset; the invariant of the catalog still holds; and sending the same request again, at any later
  time, returns the same job and changes nothing.
\<close>

theorem completion_recorded:
  assumes "completeTransformJob now later input db = Inr (db', v)" "catalog_ok db"
  shows "catalog_ok db'
    \<and> find_job db' (jl_id (cp_job input)) = Some (jv_row v) \<and> tj_status (jv_row v) = Completed
    \<and> tj_output_version (jv_row v) = Some (ri_output_version (cp_run input))
    \<and> tj_output_count (jv_row v) = Some (cp_output_count input)
    \<and> (\<exists>run. find_run db' (ri_key (cp_run input)) = Some run \<and> ru_output_version run = ri_output_version (cp_run input))
    \<and> is_committed db' (ri_output_version (cp_run input))
    \<and> completeTransformJob now' later' input db' = Inr (db', v)"
proof -
  note ok = complete_ok [OF assms]
  then have cat: "catalog_ok db'" and jobs: "jobs_ok db'" by (simp_all add: catalog_ok_def)
  have mem: "jv_row v \<in> set (jobs db')" "tj_id (jv_row v) = jl_id (cp_job input)" using ok by blast+
  then have lookup: "job_table.lookup (jobs db') (jl_id (cp_job input)) = Some (jv_row v)"
    using lookup_job [OF jobs, of "jv_row v"] by simp
  then have select: "select_where (\<lambda>r. tj_id r = jl_id (cp_job input)) (jobs db') = [jv_row v]"
    using job_table.select_key [of "jobs db'" "jl_id (cp_job input)" "\<lambda>_. True"] jobs by (simp add: jobs_ok_def)
  have key: "tj_cache_key (jv_row v) = ri_key (cp_run input)"
    using ok by (simp add: assertTransformJobCompletionIdentity_def result_simps)
  have "has_result db' (jv_row v)" using ok by blast
  then have run: "\<exists>run. find_run db' (ri_key (cp_run input)) = Some run \<and> ru_output_version run = ri_output_version (cp_run input)"
    using ok key by (auto simp: has_result_def split: option.splits)
  have committed: "is_committed db' (ri_output_version (cp_run input))"
    using result_committed [of db' "jv_row v"] ok cat by (simp add: catalog_ok_def)
  have valid: "validateRegistrationInput (cp_layout input) = Inr ()" "validateRunInput (cp_layout input) (cp_run input) = Inr ()"
    "validateCompleteTransformJob input = Inr ()"
    using assms(1) by (auto simp: completeTransformJob_def result_simps)
  have "completeLockedJob now' later' input (jv_row v) db' = Inr (db', v)"
    using ok by (simp add: completeLockedJob_def Let_def)
  then have "completeTransformJob now' later' input db' = Inr (db', v)"
    using valid select by (simp add: completeTransformJob_def)
  then show ?thesis using ok cat lookup run committed by (simp add: find_job_lookup)
qed

text \<open>An example: the run of \<open>example_run\<close>, whose output is its input, already recorded by someone else.\<close>

definition example_finalizing :: transform_job where
  "example_finalizing = example_leased\<lparr>tj_status := Finalizing,
     tj_input_key := Some (staging_prefix (tj_id example_job) 1 @ js ''/input.jsonl''),
     tj_output_key := Some (staging_prefix (tj_id example_job) 1 @ js ''/output.jsonl'')\<rparr>"

definition example_completion :: complete_transform_job where
  "example_completion = \<lparr>cp_layout = example_registration, cp_run = example_run, cp_job = example_lease, cp_output_count = 2\<rparr>"

definition example_done :: transform_job where
  "example_done = completed_row 21 example_completion False None example_finalizing"

definition example_work :: catalog_db where
  "example_work = with_jobs (with_run example_run example_registered) [example_finalizing]"

lemma example_finalizing_ok: "job_ok example_registered example_finalizing"
proof -
  have "staging_check example_finalizing"
    by (simp add: staging_check_def example_finalizing_def example_leased_def leased_row_def) (simp add: example_job_def Let_def)
  moreover have "lease_check example_finalizing" "completion_check example_finalizing"
    by (simp_all add: lease_check_def completion_check_def example_finalizing_def example_leased_def leased_row_def example_token_def
        is_active_def is_terminal_def) (simp_all add: example_job_def Let_def)
  moreover have "stored_ok example_finalizing"
    by (simp add: stored_rules example_finalizing_def example_leased_def leased_row_def) (simp add: example_job_def Let_def)
  ultimately show ?thesis
    using example_leased_ok by (simp add: job_ok_def job_check_def) (simp add: example_finalizing_def job_frame)
qed

lemma example_run_catalog: "catalog_ok (with_run example_run example_registered)"
  by (rule reachable_ok [OF example_reachable])

lemma example_work_ok: "catalog_ok example_work"
proof -
  have db': "example_work = with_jobs (with_refs (with_run example_run example_registered)
      (refs (with_run example_run example_registered))) [example_finalizing]"
    by (simp add: example_work_def with_own)
  note frame = frame_refs_jobs [OF db']
  have find: "find_snapshot (with_run example_run example_registered) = find_snapshot example_registered"
    "find_namespace (with_run example_run example_registered) = find_namespace example_registered"
    by (simp_all add: find_snapshot_def find_namespace_def with_run_def fun_eq_iff)
  have "jobs_ok example_work"
    using example_finalizing_ok
    by (simp add: jobs_ok_def example_work_def job_table.keyed_def single_lease_def job_ok_cong [OF find])
  moreover have "completed_ok example_work"
    by (simp add: completed_ok_def example_work_def) (simp add: example_finalizing_def)
  ultimately show ?thesis
    using example_run_catalog frame by (simp add: catalog_ok_def) (simp add: example_work_def refs_with_jobs)
qed

lemma example_done_ok:
  "job_check example_done" "stored_ok example_done"
  "job_fks (with_jobs (with_run example_run example_registered) rows) example_done"
proof -
  note parts = example_finalizing_ok [unfolded job_ok_def job_check_def]
  have shape: "tj_status example_finalizing = Finalizing" "tj_input_count example_finalizing = 2" "tj_error example_finalizing = None"
    "tj_result_ref_namespace_id example_finalizing = None" "tj_result_ref_name example_finalizing = None"
    by (simp_all add: example_finalizing_def example_leased_def leased_row_def) (simp_all add: example_job_def Let_def)
  have version: "EXACT_VERSION (replicate 64 97)" by (simp add: char_class_defs)
  have "identity_check example_done"
    using parts version by (simp add: identity_check_def example_done_def completed_row_def example_completion_def) (simp add: example_run_def)
  moreover have "count_check example_done"
    using parts by (simp add: count_check_def example_done_def completed_row_def example_completion_def shape)
  moreover have "lease_check example_done" "completion_check example_done" "result_ref_check example_done"
    by (simp_all add: lease_check_def completion_check_def result_ref_check_def is_active_def is_terminal_def
        example_done_def completed_row_def shape)
  ultimately show "job_check example_done"
    using parts by (simp add: job_check_def) (simp add: example_done_def completed_row_def job_frame)
  show "stored_ok example_done"
    using parts by (simp add: stored_rules example_done_def completed_row_def shape)
  have "find_snapshot (with_run example_run example_registered) (replicate 64 97) \<noteq> None"
    using registerTransform_catalog(6) [OF example_transform catalog_ok_empty] by (simp add: example_registration_def Let_def)
  then show "job_fks (with_jobs (with_run example_run example_registered) rows) example_done"
    by (simp add: job_fks_def known_def example_done_def completed_row_def example_completion_def shape)
       (simp add: example_run_def example_finalizing_def example_leased_def leased_row_def example_job_def Let_def)
qed

lemma example_completes:
  "\<exists>db' v. completeTransformJob 20 21 example_completion example_work = Inr (db', v) \<and> jv_row v = example_done"
proof -
  let ?run_db = "with_run example_run example_registered"
  let ?next = "example_work\<lparr>next_lineage_seq := next_lineage_seq example_work + 1\<rparr>"
  have valid: "validateRegistrationInput example_registration = Inr ()" "validateRunInput example_registration example_run = Inr ()"
    using example_transform unfolding registerTransformResult_Inr registerCommittedLayout_Inr by blast+
  have row: "tj_status example_finalizing = Finalizing" "tj_attempt example_finalizing = 1"
    "tj_id example_finalizing = jl_id example_lease" "tj_lease_token example_finalizing = Some (jl_lease_token example_lease)"
    "tj_lease_expires_at example_finalizing = Some 60000010" "tj_input_version example_finalizing = replicate 64 97"
    "tj_input_count example_finalizing = 2" "tj_result_ref_name example_finalizing = None"
    "tj_result_ref_namespace_id example_finalizing = None"
    by (simp_all add: example_finalizing_def example_leased_def leased_row_def example_lease_def) (simp_all add: example_job_def Let_def)
  have "validateCompleteTransformJob example_completion = Inr ()"
    using example_valid(1)
    by (simp add: validateCompleteTransformJob_def example_completion_def POSTGRES_BIGINT_MAX_def)
       (simp add: example_registration_def example_run_def example_lease_def example_job_def Let_def)
  moreover have "assertTransformJobCompletionIdentity example_finalizing example_completion = Inr ()"
    by (simp add: assertTransformJobCompletionIdentity_def example_completion_def row)
       (simp add: example_finalizing_def example_leased_def leased_row_def example_job_def example_run_def Let_def)
  moreover have "validateStagingKeys (jl_id example_lease) (jl_attempt example_lease)
      (key_or_empty (tj_input_key example_finalizing)) (key_or_empty (tj_output_key example_finalizing)) = Inr ()"
    by (simp add: validateStagingKeys_def key_or_empty_def example_finalizing_def example_lease_def)
  moreover have "find_snapshot example_work (replicate 64 97) = Some (rl_snapshot example_registration)"
    using registerTransform_catalog(6) [OF example_transform catalog_ok_empty]
    by (simp add: example_work_def) (simp add: example_registration_def Let_def)
  moreover have "registerLayoutInTransaction example_registration example_work = Inr example_work"
  proof -
    have "lineage_grows example_registered example_work"
      by (simp add: lineage_grows_def example_work_def with_jobs_def with_run_def)
    from registration_repeats [OF example_registers this] show ?thesis by (simp add: registerCommittedLayout_Inr)
  qed
  moreover have "registerRunInTransaction example_run example_work = Inr (?next, False)"
  proof -
    have assert_run: "assertRunInTransaction example_run ?run_db = Inr ()"
      by (rule registerTransform_catalog(4) [OF example_transform catalog_ok_empty])
    then have "find_run example_work (ri_key example_run) \<noteq> None"
      by (auto simp: assertRunInTransaction_def example_work_def split: option.splits)
    moreover have same: "find_run ?next = find_run ?run_db" "inputs_of ?next = inputs_of ?run_db"
      by (simp_all add: find_run_def inputs_of_def example_work_def with_jobs_def fun_eq_iff)
    have "assertRunInTransaction example_run ?next = Inr ()"
      using assert_run unfolding assertRunInTransaction_def same .
    moreover have "run_check (run_of example_run (next_lineage_seq example_work))"
      by (simp add: run_check_def run_of_def example_run_def char_class_defs)
    moreover have "run_rows_ok example_work" using example_work_ok by (simp add: catalog_ok_def runs_ok_def)
    ultimately show ?thesis using registerRun_Inr by simp
  qed
  moreover have "update_jobs (\<lambda>r. holds_lease example_lease r \<and> unexpired 21 r \<and> tj_status r = Finalizing)
      (completed_row 21 example_completion False None) ?next
      = Inr (?next\<lparr>jobs := [example_done]\<rparr>, [example_done])"
  proof -
    have one: "jobs ?next = [example_finalizing]" by (simp add: example_work_def)
    have "holds_lease example_lease example_finalizing" "unexpired 21 example_finalizing"
      by (simp_all add: holds_lease_def unexpired_def row) (simp add: example_lease_def)
    moreover have "job_fks ?next example_done"
    proof -
      have "find_snapshot ?next = find_snapshot ?run_db" "find_namespace ?next = find_namespace ?run_db"
        by (simp_all add: find_snapshot_def find_namespace_def example_work_def with_jobs_def fun_eq_iff)
      then show ?thesis using example_done_ok(3) [of "[]"] by (simp add: job_fks_def)
    qed
    ultimately show ?thesis
      using example_done_ok(1) row(1)
      by (simp add: update_jobs_def one returning_def update_where_def example_done_def [symmetric])
  qed
  moreover obtain v where "prismaRowToTransformJob example_done = Inr v" "jv_row v = example_done"
    using view_total [OF example_done_ok(1,2)] by blast
  moreover have "select_where (\<lambda>r. tj_id r = jl_id example_lease) (jobs example_work) = [example_finalizing]"
    by (simp add: select_where_def example_work_def row)
  moreover have "jl_attempt example_lease = 1" by (simp add: example_lease_def)
  moreover have "completed_row 21 example_completion False None = (\<lambda>r. r\<lparr>tj_status := Completed, tj_output_count := Some 2,
     tj_output_version := Some (ri_output_version example_run),
     tj_result_ref_status := None, tj_result_ref_version := None,
     tj_cache_hit := True, tj_error := None, tj_finished_at := Some 21,
     tj_lease_owner := None, tj_lease_token := None, tj_lease_expires_at := None, tj_updated_at := 21\<rparr>)"
    by (rule ext) (simp add: completed_row_def example_completion_def)
  ultimately show ?thesis
    using valid row
    by (simp add: completeTransformJob_def completeLockedJob_def Let_def example_completion_def unexpired_def adopt_if_named_def)
       (simp add: example_registration_def Let_def)?
qed

lemma completion_recorded_witness:
  "\<exists>db' v. completeTransformJob 20 21 example_completion example_work = Inr (db', v)
     \<and> find_job db' (jl_id example_lease) = Some (jv_row v) \<and> tj_status (jv_row v) = Completed
     \<and> completeTransformJob 90 91 example_completion db' = Inr (db', v)"
proof -
  obtain db' v where "completeTransformJob 20 21 example_completion example_work = Inr (db', v)"
    using example_completes by blast
  moreover note completion_recorded [OF this example_work_ok, of 90 91]
  moreover have "jl_id (cp_job example_completion) = jl_id example_lease" by (simp add: example_completion_def)
  ultimately show ?thesis by auto
qed

end
