(* ===== verification/Transform_Semaphore.thy ===== *)
theory Transform_Semaphore
  imports Js_Prelude
begin

text \<open>
  The admission boundary of \<open>packages/workspace/src/v2/transform-semaphore.ts\<close>. JavaScript runs one
  event at a time, so the class is a state with one function per event: a call of \<open>run\<close>, the
  settling of an operation's promise, the \<open>finally\<close> callback that releases its slot in a later
  microtask, and an abort of the caller's signal. The operations themselves belong to the caller:
  what they return is an argument, and each function reports which of them it calls, in order.
\<close>

section \<open>State\<close>

datatype run_phase = QueuedRun | RunningRun | SettledRun

datatype ('v, 'e) outcome = Resolved 'v | Rejected 'e

text \<open>
  \<open>pr_aborted\<close> is the reason of the controller's signal, \<open>pr_public\<close> what the promise given to the
  caller was settled with, if \<open>publicSettled\<close>.
\<close>

record ('v, 'e) pending_run =
  pr_phase :: run_phase
  pr_aborted :: "'e option"
  pr_public :: "('v, 'e) outcome option"

text \<open>
  The entries are objects; here the queue holds their indices in \<open>se_runs\<close>, in the order of the calls.
  \<open>se_releases\<close> counts the executions that have settled and whose \<open>finally\<close> callback is still to run.
\<close>

record ('v, 'e) semaphore =
  se_max_concurrent :: nat
  se_max_pending :: nat
  se_runs :: "('v, 'e) pending_run list"
  se_queue :: "nat list"
  se_active :: nat
  se_releases :: nat

definition positiveSafeInteger :: "int \<Rightarrow> (unit, nat) result" where
  "positiveSafeInteger value = bindR (ensure (is_safe_integer value \<and> 0 < value) ()) (\<lambda>_. Inr (nat value))"

text \<open>The constructor, with \<open>undefined\<close> options as \<open>None\<close>.\<close>

definition new_semaphore :: "int option \<Rightarrow> int option \<Rightarrow> (unit, ('v, 'e) semaphore) result" where
  "new_semaphore maxConcurrentRuns maxPendingRuns =
     bindR (positiveSafeInteger (case maxConcurrentRuns of None \<Rightarrow> 2 | Some n \<Rightarrow> n)) (\<lambda>concurrent.
     bindR (positiveSafeInteger (case maxPendingRuns of None \<Rightarrow> 64 | Some n \<Rightarrow> n)) (\<lambda>pending.
     Inr \<lparr>se_max_concurrent = concurrent, se_max_pending = pending, se_runs = [], se_queue = [],
       se_active = 0, se_releases = 0\<rparr>))"

section \<open>Events\<close>

definition set_run :: "nat \<Rightarrow> (('v, 'e) pending_run \<Rightarrow> ('v, 'e) pending_run) \<Rightarrow> ('v, 'e) semaphore \<Rightarrow> ('v, 'e) semaphore" where
  "set_run i f st = st\<lparr>se_runs := (se_runs st)[i := f (se_runs st ! i)]\<rparr>"

definition settle_public :: "('v, 'e) outcome \<Rightarrow> ('v, 'e) pending_run \<Rightarrow> ('v, 'e) pending_run" where
  "settle_public result r = (case pr_public r of None \<Rightarrow> r\<lparr>pr_public := Some result\<rparr> | Some _ \<Rightarrow> r)"

text \<open>The end of \<open>#execute\<close>: the branch that settles, then \<open>finally\<close>; the slot is released later.\<close>

definition finish_run :: "nat \<Rightarrow> ('v, 'e) outcome \<Rightarrow> ('v, 'e) semaphore \<Rightarrow> ('v, 'e) semaphore" where
  "finish_run i result st =
     (set_run i (\<lambda>r. (settle_public result r)\<lparr>pr_phase := SettledRun\<rparr>) st)\<lparr>se_releases := se_releases st + 1\<rparr>"

text \<open>
  \<open>#pump\<close>. An execution starts with \<open>throwIfAborted\<close> and the call of the operation, before its first
  \<open>await\<close>; the second component lists the operations that are called.
\<close>

function pump :: "('v, 'e) semaphore \<Rightarrow> ('v, 'e) semaphore \<times> nat list" where
  "pump st =
     (if se_active st < se_max_concurrent st
      then case se_queue st of
        [] \<Rightarrow> (st, [])
      | i # rest \<Rightarrow>
          let st1 = st\<lparr>se_queue := rest\<rparr> in
          if pr_phase (se_runs st ! i) \<noteq> QueuedRun then pump st1
          else
            let st2 = (set_run i (\<lambda>r. r\<lparr>pr_phase := RunningRun\<rparr>) st1)\<lparr>se_active := se_active st + 1\<rparr> in
            case pr_aborted (se_runs st ! i) of
              Some reason \<Rightarrow> pump (finish_run i (Rejected reason) st2)
            | None \<Rightarrow> (let (st3, started) = pump st2 in (st3, i # started))
      else (st, []))"
  by pat_completeness auto
termination pump
  by (relation "measure (\<lambda>st. length (se_queue st))") (auto simp: set_run_def finish_run_def)

declare pump.simps [simp del]

datatype 'e run_error = AlreadyAborted 'e | CapacityExceeded nat nat

text \<open>\<open>signal\<close> is the reason of a signal that is aborted at the time of the call.\<close>

definition run_call :: "'e option \<Rightarrow> ('v, 'e) semaphore \<Rightarrow> ('e run_error, ('v, 'e) semaphore \<times> nat list) result" where
  "run_call signal st =
     (case signal of
        Some reason \<Rightarrow> Inl (AlreadyAborted reason)
      | None \<Rightarrow>
          if se_max_concurrent st \<le> se_active st \<and> se_max_pending st \<le> length (se_queue st)
          then Inl (CapacityExceeded (se_max_pending st) (length (se_queue st) + 1))
          else Inr (pump (st\<lparr>se_runs := se_runs st @ [\<lparr>pr_phase = QueuedRun, pr_aborted = None, pr_public = None\<rparr>],
                 se_queue := se_queue st @ [length (se_runs st)]\<rparr>)))"

text \<open>The operation of entry \<open>i\<close> has thrown, or its promise has settled.\<close>

definition operation_settled :: "nat \<Rightarrow> ('v, 'e) outcome \<Rightarrow> ('v, 'e) semaphore \<Rightarrow> ('v, 'e) semaphore" where
  "operation_settled i result st =
     (case result of
        Rejected e \<Rightarrow> finish_run i (Rejected e) st
      | Resolved v \<Rightarrow>
          (case pr_aborted (se_runs st ! i) of
             Some reason \<Rightarrow> finish_run i (Rejected reason) st
           | None \<Rightarrow> finish_run i (Resolved v) st))"

text \<open>The callback of \<open>finally\<close>.\<close>

definition release :: "('v, 'e) semaphore \<Rightarrow> ('v, 'e) semaphore \<times> nat list" where
  "release st = pump (st\<lparr>se_active := se_active st - 1, se_releases := se_releases st - 1\<rparr>)"

definition on_abort :: "nat \<Rightarrow> 'e \<Rightarrow> ('v, 'e) semaphore \<Rightarrow> ('v, 'e) semaphore" where
  "on_abort i reason st =
     (let entry = se_runs st ! i;
          abort = (\<lambda>r. r\<lparr>pr_aborted := (case pr_aborted r of None \<Rightarrow> Some reason | Some e \<Rightarrow> Some e)\<rparr>) in
      if pr_phase entry = SettledRun then st
      else if pr_phase entry = QueuedRun
      then set_run i (\<lambda>r. settle_public (Rejected reason) ((abort r)\<lparr>pr_phase := SettledRun\<rparr>))
             (st\<lparr>se_queue := remove1 i (se_queue st)\<rparr>)
      else set_run i (\<lambda>r. settle_public (Rejected reason) (abort r)) st)"

text \<open>
  One event and the operations it calls. Operations are called while \<open>#pump\<close> is running and may call
  \<open>run\<close> again; the invariant below shows that the loop then has nothing left to do, so that such a
  nested call is the same as one right after the event.
\<close>

inductive sem_step :: "('v, 'e) semaphore \<Rightarrow> nat list \<Rightarrow> ('v, 'e) semaphore \<Rightarrow> bool" where
  call: "run_call None st = Inr (st', started) \<Longrightarrow> sem_step st started st'"
| settle: "i < length (se_runs st) \<Longrightarrow> pr_phase (se_runs st ! i) = RunningRun
    \<Longrightarrow> sem_step st [] (operation_settled i result st)"
| release: "0 < se_releases st \<Longrightarrow> release st = (st', started) \<Longrightarrow> sem_step st started st'"
| abort: "i < length (se_runs st) \<Longrightarrow> sem_step st [] (on_abort i reason st)"

inductive_cases sem_step_cases: "sem_step st started st'"

inductive sem_trace :: "('v, 'e) semaphore \<Rightarrow> nat list \<Rightarrow> ('v, 'e) semaphore \<Rightarrow> bool" where
  none: "sem_trace st [] st"
| more: "sem_trace st log mid \<Longrightarrow> sem_step mid started st' \<Longrightarrow> sem_trace st (log @ started) st'"

end
