(* ===== verification/Semaphore_Laws.thy ===== *)
theory Semaphore_Laws
  imports Transform_Semaphore
begin

text \<open>
  What the admission boundary promises: it never runs more operations than its limit, it starts them
  in the order of the calls, each at most once, it keeps no slot idle while a call waits, and what a
  caller was told never changes.
\<close>

section \<open>The invariant\<close>

definition queued_indices :: "('v, 'e) pending_run list \<Rightarrow> nat list" where
  "queued_indices runs = filter (\<lambda>i. pr_phase (runs ! i) = QueuedRun) [0..<length runs]"

definition running_count :: "('v, 'e) pending_run list \<Rightarrow> nat" where
  "running_count runs = length (filter (\<lambda>r. pr_phase r = RunningRun) runs)"

definition entries_ok :: "('v, 'e) semaphore \<Rightarrow> bool" where
  "entries_ok st \<longleftrightarrow> se_queue st = queued_indices (se_runs st)
     \<and> se_active st = running_count (se_runs st) + se_releases st
     \<and> (\<forall>r \<in> set (se_runs st). pr_phase r = QueuedRun \<longrightarrow> pr_aborted r = None \<and> pr_public r = None)
     \<and> se_active st \<le> se_max_concurrent st"

definition sem_ok :: "('v, 'e) semaphore \<Rightarrow> bool" where
  "sem_ok st \<longleftrightarrow> entries_ok st \<and> 0 < se_max_concurrent st \<and> 0 < se_max_pending st
     \<and> length (se_queue st) \<le> se_max_pending st
     \<and> (se_queue st \<noteq> [] \<longrightarrow> se_active st = se_max_concurrent st)"

section \<open>Replacing one entry\<close>

lemma set_run_simps [simp]:
  "se_queue (set_run i f st) = se_queue st" "se_active (set_run i f st) = se_active st"
  "se_releases (set_run i f st) = se_releases st" "se_max_concurrent (set_run i f st) = se_max_concurrent st"
  "se_max_pending (set_run i f st) = se_max_pending st"
  "se_runs (set_run i f st) = (se_runs st)[i := f (se_runs st ! i)]"
  by (simp_all add: set_run_def)

lemma settle_public_simps [simp]:
  "pr_phase (settle_public o' r) = pr_phase r" "pr_aborted (settle_public o' r) = pr_aborted r"
  by (simp_all add: settle_public_def split: option.splits)

lemma length_filter_update:
  "i < length xs \<Longrightarrow> length (filter P (xs[i := y])) + (if P (xs ! i) then 1 else 0)
    = length (filter P xs) + (if P y then 1 else 0)"
proof (induction xs arbitrary: i)
  case (Cons x xs)
  then show ?case using Cons.IH [of "i - 1"] by (cases i) auto
qed simp

lemma running_update:
  "i < length runs \<Longrightarrow> running_count (runs[i := y]) + (if pr_phase (runs ! i) = RunningRun then 1 else 0)
    = running_count runs + (if pr_phase y = RunningRun then 1 else 0)"
  unfolding running_count_def by (rule length_filter_update)

lemma queued_update:
  assumes "i < length runs" "pr_phase y \<noteq> QueuedRun"
  shows "queued_indices (runs[i := y]) = filter (\<lambda>j. j \<noteq> i) (queued_indices runs)"
  using assms by (auto simp: queued_indices_def nth_list_update intro!: filter_cong)

lemma queued_same:
  "i < length runs \<Longrightarrow> pr_phase y = pr_phase (runs ! i) \<Longrightarrow> queued_indices (runs[i := y]) = queued_indices runs"
  by (auto simp: queued_indices_def nth_list_update intro!: filter_cong)

lemma queued_append:
  "queued_indices (runs @ [r]) = queued_indices runs @ (if pr_phase r = QueuedRun then [length runs] else [])"
  by (auto simp: queued_indices_def nth_append intro!: filter_cong)

lemma queued_props:
  "sorted_wrt (<) (queued_indices runs)" "distinct (queued_indices runs)"
  "i \<in> set (queued_indices runs) \<longleftrightarrow> i < length runs \<and> pr_phase (runs ! i) = QueuedRun"
  by (auto simp: queued_indices_def sorted_wrt_filter)

lemma filter_head: "distinct (i # rest) \<Longrightarrow> filter (\<lambda>j. j \<noteq> i) (i # rest) = rest"
  by (simp add: filter_id_conv) metis

text \<open>What one turn of the loop leaves.\<close>

definition start_run :: "nat \<Rightarrow> ('v, 'e) semaphore \<Rightarrow> ('v, 'e) semaphore" where
  "start_run i st = (set_run i (\<lambda>r. r\<lparr>pr_phase := RunningRun\<rparr>) (st\<lparr>se_queue := tl (se_queue st)\<rparr>))
     \<lparr>se_active := se_active st + 1\<rparr>"

lemma queue_head:
  assumes "entries_ok st" "se_queue st = i # rest"
  shows "i < length (se_runs st)" "pr_phase (se_runs st ! i) = QueuedRun" "pr_aborted (se_runs st ! i) = None"
    "pr_public (se_runs st ! i) = None"
proof -
  have "i \<in> set (queued_indices (se_runs st))" using assms by (simp add: entries_ok_def) (metis list.set_intros(1))
  then show "i < length (se_runs st)" "pr_phase (se_runs st ! i) = QueuedRun" by (simp_all add: queued_props)
  then show "pr_aborted (se_runs st ! i) = None" "pr_public (se_runs st ! i) = None"
    using assms(1) by (simp_all add: entries_ok_def)
qed

lemma start_run_ok:
  assumes "entries_ok st" "se_queue st = i # rest" "se_active st < se_max_concurrent st"
  shows "entries_ok (start_run i st)"
proof -
  note head = queue_head [OF assms(1,2)]
  let ?y = "(se_runs st ! i)\<lparr>pr_phase := RunningRun\<rparr>"
  have queue: "queued_indices (se_runs st) = i # rest" using assms(1,2) by (simp add: entries_ok_def)
  have "queued_indices ((se_runs st)[i := ?y]) = rest"
    using queued_update [OF head(1), of ?y] queue filter_head [of i rest] queued_props(2) [of "se_runs st"] by simp
  moreover have "running_count ((se_runs st)[i := ?y]) = running_count (se_runs st) + 1"
    using running_update [OF head(1), of ?y] head(2) by simp
  moreover have "\<forall>r \<in> set ((se_runs st)[i := ?y]). pr_phase r = QueuedRun \<longrightarrow> pr_aborted r = None \<and> pr_public r = None"
    using assms(1) set_update_subset_insert [of "se_runs st" i ?y] by (auto simp: entries_ok_def)
  moreover have "tl (se_queue st) = rest" using assms(2) by simp
  ultimately show ?thesis
    using assms(1,3) by (simp add: entries_ok_def start_run_def)
qed

lemma pump_step:
  assumes "entries_ok st"
  shows "pump st = (if se_active st < se_max_concurrent st \<and> se_queue st \<noteq> []
    then (let i = hd (se_queue st); (st', started) = pump (start_run i st) in (st', i # started)) else (st, []))"
proof (cases "se_queue st")
  case Nil
  then show ?thesis by (subst pump.simps) simp
next
  case (Cons i rest)
  then show ?thesis
    using queue_head [OF assms Cons] by (subst pump.simps) (simp add: start_run_def Let_def)
qed

lemma pump_spec:
  assumes "entries_ok st" "pump st = (st', started)"
  shows "entries_ok st' \<and> se_queue st = started @ se_queue st'
    \<and> (se_active st' < se_max_concurrent st' \<longrightarrow> se_queue st' = [])
    \<and> se_max_concurrent st' = se_max_concurrent st \<and> se_max_pending st' = se_max_pending st
    \<and> se_active st' = se_active st + length started \<and> se_releases st' = se_releases st
    \<and> length (se_runs st') = length (se_runs st)
    \<and> (\<forall>i < length (se_runs st). se_runs st' ! i =
          (if i \<in> set started then (se_runs st ! i)\<lparr>pr_phase := RunningRun\<rparr> else se_runs st ! i))"
  using assms
proof (induction "length (se_queue st)" arbitrary: st started)
  case 0
  then show ?case using pump_step [OF 0(2)] by auto
next
  case (Suc n)
  show ?case
  proof (cases "se_active st < se_max_concurrent st")
    case False
    then show ?thesis using Suc.prems pump_step [OF Suc.prems(1)] by auto
  next
    case True
    obtain i rest where queue: "se_queue st = i # rest" using Suc.hyps(2) by (cases "se_queue st") auto
    obtain more where more: "pump (start_run i st) = (st', more)" "started = i # more"
      using Suc.prems(2) pump_step [OF Suc.prems(1)] True queue by (auto split: prod.splits)
    have len: "n = length (se_queue (start_run i st))" using Suc.hyps(2) queue by (simp add: start_run_def)
    note IH = Suc.hyps(1) [OF len start_run_ok [OF Suc.prems(1) queue True] more(1)]
    have "i \<notin> set more"
    proof -
      have "distinct (i # rest)" using Suc.prems(1) queue queued_props(2) by (metis entries_ok_def)
      moreover have "rest = more @ se_queue st'" using IH queue by (simp add: start_run_def)
      ultimately show ?thesis by auto
    qed
    then show ?thesis
      using IH queue more(2) queue_head(1) [OF Suc.prems(1) queue]
      by (auto simp: start_run_def nth_list_update)
  qed
qed

lemma pump_ok:
  assumes "entries_ok st" "pump st = (st', started)"
  shows "entries_ok st'" "se_queue st = started @ se_queue st'" "se_queue st' \<noteq> [] \<longrightarrow> se_active st' = se_max_concurrent st'"
    "se_max_concurrent st' = se_max_concurrent st" "se_max_pending st' = se_max_pending st"
    "se_active st' = se_active st + length started" "length (se_runs st') = length (se_runs st)"
    "i < length (se_runs st) \<Longrightarrow> se_runs st' ! i =
          (if i \<in> set started then (se_runs st ! i)\<lparr>pr_phase := RunningRun\<rparr> else se_runs st ! i)"
proof -
  note spec = pump_spec [OF assms]
  show ok: "entries_ok st'" using spec by blast
  show "se_queue st = started @ se_queue st'" "se_max_concurrent st' = se_max_concurrent st" "se_max_pending st' = se_max_pending st"
    "se_active st' = se_active st + length started" "length (se_runs st') = length (se_runs st)" using spec by blast+
  show "se_queue st' \<noteq> [] \<longrightarrow> se_active st' = se_max_concurrent st'"
    using spec ok unfolding entries_ok_def by (meson le_neq_implies_less)
  show "i < length (se_runs st) \<Longrightarrow> se_runs st' ! i =
          (if i \<in> set started then (se_runs st ! i)\<lparr>pr_phase := RunningRun\<rparr> else se_runs st ! i)" using spec by blast
qed

section \<open>Every event keeps the invariant\<close>

definition pushed :: "('v, 'e) semaphore \<Rightarrow> ('v, 'e) semaphore" where
  "pushed st = st\<lparr>se_runs := se_runs st @ [\<lparr>pr_phase = QueuedRun, pr_aborted = None, pr_public = None\<rparr>],
     se_queue := se_queue st @ [length (se_runs st)]\<rparr>"

lemma run_call_Inr:
  "run_call signal st = Inr (st', started) \<longleftrightarrow> signal = None
     \<and> (se_active st < se_max_concurrent st \<or> length (se_queue st) < se_max_pending st) \<and> pump (pushed st) = (st', started)"
  by (auto simp: run_call_def pushed_def split: option.splits)

lemma pushed_ok: "entries_ok st \<Longrightarrow> entries_ok (pushed st)"
  by (auto simp: entries_ok_def pushed_def queued_append running_count_def)

definition released :: "('v, 'e) semaphore \<Rightarrow> ('v, 'e) semaphore" where
  "released st = st\<lparr>se_active := se_active st - 1, se_releases := se_releases st - 1\<rparr>"

lemma released_ok: "entries_ok st \<Longrightarrow> 0 < se_releases st \<Longrightarrow> entries_ok (released st)"
  by (auto simp: entries_ok_def released_def)

lemma finish_run_ok:
  assumes "entries_ok st" "i < length (se_runs st)" "pr_phase (se_runs st ! i) = RunningRun"
  shows "entries_ok (finish_run i result st)"
proof -
  let ?y = "(settle_public result (se_runs st ! i))\<lparr>pr_phase := SettledRun\<rparr>"
  have "i \<notin> set (queued_indices (se_runs st))" using assms(3) by (simp add: queued_props)
  then have "queued_indices ((se_runs st)[i := ?y]) = queued_indices (se_runs st)"
    using queued_update [OF assms(2), of ?y] by (auto simp: filter_id_conv)
  moreover have "running_count ((se_runs st)[i := ?y]) + 1 = running_count (se_runs st)"
    using running_update [OF assms(2), of ?y] assms(3) by simp
  moreover have "r \<in> set ((se_runs st)[i := ?y]) \<Longrightarrow> r = ?y \<or> r \<in> set (se_runs st)" for r
    using set_update_subset_insert [of "se_runs st" i ?y] by blast
  then have "\<forall>r \<in> set ((se_runs st)[i := ?y]). pr_phase r = QueuedRun \<longrightarrow> pr_aborted r = None \<and> pr_public r = None"
    using assms(1) by (fastforce simp: entries_ok_def)
  ultimately show ?thesis using assms(1) by (simp add: entries_ok_def finish_run_def)
qed

lemma finish_run_simps [simp]:
  "se_queue (finish_run i o' st) = se_queue st" "se_active (finish_run i o' st) = se_active st"
  "se_releases (finish_run i o' st) = se_releases st + 1"
  "se_max_concurrent (finish_run i o' st) = se_max_concurrent st" "se_max_pending (finish_run i o' st) = se_max_pending st"
  "se_runs (finish_run i o' st) = (se_runs st)[i := (settle_public o' (se_runs st ! i))\<lparr>pr_phase := SettledRun\<rparr>]"
  by (simp_all add: finish_run_def)

lemma settled_finish: "\<exists>o'. operation_settled i result st = finish_run i o' st"
  by (auto simp: operation_settled_def split: outcome.splits option.splits)

lemma on_abort_ok:
  assumes "entries_ok st" "i < length (se_runs st)"
  shows "entries_ok (on_abort i reason st)"
    and "se_queue (on_abort i reason st) = filter (\<lambda>j. j \<noteq> i) (se_queue st)"
    and "se_active (on_abort i reason st) = se_active st" "se_releases (on_abort i reason st) = se_releases st"
    and "se_max_concurrent (on_abort i reason st) = se_max_concurrent st"
    and "se_max_pending (on_abort i reason st) = se_max_pending st"
proof -
  have queue: "se_queue st = queued_indices (se_runs st)" using assms(1) by (simp add: entries_ok_def)
  have other: "pr_phase (se_runs st ! i) \<noteq> QueuedRun \<Longrightarrow> filter (\<lambda>j. j \<noteq> i) (se_queue st) = se_queue st"
    using assms(2) by (auto simp: queue queued_props filter_id_conv)
  have removed: "remove1 i (se_queue st) = filter (\<lambda>j. j \<noteq> i) (se_queue st)"
    using queued_props(2) [of "se_runs st"]
    by (simp add: queue distinct_remove1_removeAll removeAll_filter_not_eq [abs_def]) (metis)
  show "se_queue (on_abort i reason st) = filter (\<lambda>j. j \<noteq> i) (se_queue st)"
    "se_active (on_abort i reason st) = se_active st" "se_releases (on_abort i reason st) = se_releases st"
    "se_max_concurrent (on_abort i reason st) = se_max_concurrent st"
    "se_max_pending (on_abort i reason st) = se_max_pending st"
    using other removed by (simp_all add: on_abort_def Let_def)
  let ?abort = "\<lambda>r. r\<lparr>pr_aborted := (case pr_aborted r of None \<Rightarrow> Some reason | Some e \<Rightarrow> Some e)\<rparr>"
  let ?y = "settle_public (Rejected reason) ((?abort (se_runs st ! i))\<lparr>pr_phase := SettledRun\<rparr>)"
  let ?z = "settle_public (Rejected reason) (?abort (se_runs st ! i))"
  have mem: "r \<in> set ((se_runs st)[i := y]) \<Longrightarrow> r = y \<or> r \<in> set (se_runs st)" for r y
    using set_update_subset_insert [of "se_runs st" i y] by blast
  show "entries_ok (on_abort i reason st)"
  proof (cases "pr_phase (se_runs st ! i)")
    case QueuedRun
    have "queued_indices ((se_runs st)[i := ?y]) = filter (\<lambda>j. j \<noteq> i) (se_queue st)"
      using queued_update [OF assms(2), of ?y] by (simp add: queue)
    moreover have "running_count ((se_runs st)[i := ?y]) = running_count (se_runs st)"
      using running_update [OF assms(2), of ?y] QueuedRun by simp
    moreover have "\<forall>r \<in> set ((se_runs st)[i := ?y]). pr_phase r = QueuedRun \<longrightarrow> pr_aborted r = None \<and> pr_public r = None"
      using assms(1) mem [of _ ?y] by (fastforce simp: entries_ok_def)
    ultimately show ?thesis
      using assms(1) QueuedRun removed by (simp add: entries_ok_def on_abort_def Let_def)
  next
    case RunningRun
    have "queued_indices ((se_runs st)[i := ?z]) = se_queue st"
      using queued_same [OF assms(2), of ?z] by (simp add: queue)
    moreover have "running_count ((se_runs st)[i := ?z]) = running_count (se_runs st)"
      using running_update [OF assms(2), of ?z] RunningRun by simp
    moreover have "\<forall>r \<in> set ((se_runs st)[i := ?z]). pr_phase r = QueuedRun \<longrightarrow> pr_aborted r = None \<and> pr_public r = None"
      using assms(1) mem [of _ ?z] RunningRun by (fastforce simp: entries_ok_def)
    ultimately show ?thesis
      using assms(1) RunningRun by (simp add: entries_ok_def on_abort_def Let_def)
  next
    case SettledRun
    then show ?thesis using assms(1) by (simp add: on_abort_def Let_def)
  qed
qed

lemma step_ok:
  assumes "sem_step st started st'" "sem_ok st"
  shows "sem_ok st'" "se_max_concurrent st' = se_max_concurrent st" "se_max_pending st' = se_max_pending st"
proof -
  have entries: "entries_ok st" using assms(2) by (simp add: sem_ok_def)
  have "sem_ok st' \<and> se_max_concurrent st' = se_max_concurrent st \<and> se_max_pending st' = se_max_pending st"
    using assms(1)
  proof cases
    case call
    then have pump: "pump (pushed st) = (st', started)"
      and room: "se_active st < se_max_concurrent st \<or> length (se_queue st) < se_max_pending st" by (simp_all add: run_call_Inr)
    note spec = pump_ok(1-5) [OF pushed_ok [OF entries] pump]
    have "length (se_queue (pushed st)) = length started + length (se_queue st')" unfolding spec(2) by simp
    then have "length (se_queue st') \<le> length (se_queue st) + 1" by (simp add: pushed_def)
    moreover have "length (se_queue st) + 1 \<le> se_max_pending st"
      using room assms(2) by (cases "se_queue st") (auto simp: sem_ok_def)
    ultimately have "length (se_queue st') \<le> se_max_pending st" by simp
    then show ?thesis using spec(1,3-5) assms(2) by (simp add: sem_ok_def pushed_def)
  next
    case (settle i result)
    then obtain o' where "st' = finish_run i o' st" using settled_finish by metis
    then show ?thesis using finish_run_ok [OF entries] settle assms(2) by (simp add: sem_ok_def)
  next
    case release
    then have pump: "pump (released st) = (st', started)" by (simp add: release_def released_def)
    note spec = pump_ok(1-5) [OF released_ok [OF entries release(1)] pump]
    have "length (se_queue (released st)) = length started + length (se_queue st')" unfolding spec(2) by simp
    then have "length (se_queue st') \<le> se_max_pending st"
      using assms(2) by (simp add: sem_ok_def released_def)
    then show ?thesis using spec(1,3-5) assms(2) by (simp add: sem_ok_def released_def)
  next
    case (abort i reason)
    note ok = on_abort_ok [OF entries abort(3), of reason]
    have "length (filter (\<lambda>j. j \<noteq> i) (se_queue st)) \<le> se_max_pending st"
      by (rule le_trans [OF length_filter_le]) (use assms(2) in \<open>simp add: sem_ok_def\<close>)
    then show ?thesis using ok abort assms(2) by (auto simp: sem_ok_def)
  qed
  then show "sem_ok st'" "se_max_concurrent st' = se_max_concurrent st" "se_max_pending st' = se_max_pending st" by blast+
qed

lemma trace_ok:
  "sem_trace st log st' \<Longrightarrow> sem_ok st \<Longrightarrow> sem_ok st' \<and> se_max_concurrent st' = se_max_concurrent st
    \<and> se_max_pending st' = se_max_pending st"
  by (induction rule: sem_trace.induct) (auto dest: step_ok)

lemma new_semaphore_Inr:
  "new_semaphore c p = Inr st \<Longrightarrow> sem_ok st \<and> se_runs st = [] \<and> se_max_concurrent st = nat (case c of None \<Rightarrow> 2 | Some n \<Rightarrow> n)
    \<and> se_max_pending st = nat (case p of None \<Rightarrow> 64 | Some n \<Rightarrow> n)"
  by (auto simp: new_semaphore_def positiveSafeInteger_def result_simps sem_ok_def entries_ok_def queued_indices_def running_count_def)

text \<open>
  C27: The limits of the semaphore hold in every state, after any sequence of calls, settled operations,
  released slots and aborts: never more operations run than the concurrency limit, an operation that
  was aborted keeps its slot until it has settled and its slot is released, never more calls wait
  than the pending limit, exactly the entries in phase \<open>queued\<close> are in the queue, in the order of
  their calls, and no call waits while a slot is free.
\<close>

theorem semaphore_bounded:
  assumes "new_semaphore c p = Inr st" "sem_trace st log st'"
  shows "int (se_active st') \<le> (case c of None \<Rightarrow> 2 | Some n \<Rightarrow> n)
    \<and> se_active st' = length (filter (\<lambda>r. pr_phase r = RunningRun) (se_runs st')) + se_releases st'
    \<and> int (length (se_queue st')) \<le> (case p of None \<Rightarrow> 64 | Some n \<Rightarrow> n)
    \<and> se_queue st' = filter (\<lambda>i. pr_phase (se_runs st' ! i) = QueuedRun) [0..<length (se_runs st')]
    \<and> (se_queue st' \<noteq> [] \<longrightarrow> int (se_active st') = (case c of None \<Rightarrow> 2 | Some n \<Rightarrow> n))"
proof -
  note new = new_semaphore_Inr [OF assms(1)]
  have ok: "sem_ok st'" "se_max_concurrent st' = se_max_concurrent st" "se_max_pending st' = se_max_pending st"
    using trace_ok [OF assms(2)] new by blast+
  have "0 < se_max_concurrent st" "0 < se_max_pending st" using new unfolding sem_ok_def by blast+
  then have limits: "(case c of None \<Rightarrow> 2 | Some n \<Rightarrow> n) = int (se_max_concurrent st')"
    "(case p of None \<Rightarrow> 64 | Some n \<Rightarrow> n) = int (se_max_pending st')"
    using new ok(2,3) by simp_all
  show ?thesis
    unfolding limits of_nat_le_iff of_nat_eq_iff
    using ok(1) unfolding sem_ok_def entries_ok_def queued_indices_def running_count_def by blast
qed

text \<open>An example: one slot, two places in the queue, two calls.\<close>

definition example_semaphore :: "(nat, nat) semaphore" where
  "example_semaphore = \<lparr>se_max_concurrent = 1, se_max_pending = 2, se_runs = [], se_queue = [], se_active = 0, se_releases = 0\<rparr>"

definition example_entry :: "run_phase \<Rightarrow> (nat, nat) pending_run" where
  "example_entry phase = \<lparr>pr_phase = phase, pr_aborted = None, pr_public = None\<rparr>"

definition example_busy :: "(nat, nat) semaphore" where
  "example_busy = example_semaphore\<lparr>se_runs := [example_entry RunningRun, example_entry QueuedRun], se_queue := [1], se_active := 1\<rparr>"

lemma example_new: "new_semaphore (Some 1) (Some 2) = Inr example_semaphore"
  by (simp add: new_semaphore_def positiveSafeInteger_def is_safe_integer_def example_semaphore_def)

lemma example_trace: "sem_trace example_semaphore [0] example_busy"
proof -
  let ?one = "example_semaphore\<lparr>se_runs := [example_entry RunningRun], se_active := 1\<rparr>"
  have "run_call None example_semaphore = Inr (?one, [0])"
    by (simp add: run_call_def example_semaphore_def example_entry_def pump.simps set_run_def Let_def)
  moreover have "run_call None ?one = Inr (example_busy, [])"
    by (simp add: run_call_def example_semaphore_def example_entry_def example_busy_def pump.simps set_run_def Let_def)
  ultimately have "sem_trace example_semaphore (([] @ [0]) @ []) example_busy"
    by (intro sem_trace.more [OF sem_trace.more [OF sem_trace.none]] sem_step.call)
  then show ?thesis by simp
qed

lemma semaphore_bounded_witness: "int (se_active example_busy) \<le> 1 \<and> int (length (se_queue example_busy)) \<le> 2"
  using semaphore_bounded [OF example_new example_trace] unfolding option.case by blast

section \<open>The order of starts\<close>

text \<open>What is known of an entry once \<open>log\<close> lists the operations called so far.\<close>

definition log_ok :: "nat list \<Rightarrow> ('v, 'e) semaphore \<Rightarrow> bool" where
  "log_ok log st \<longleftrightarrow> sorted_wrt (<) (log @ se_queue st) \<and> (\<forall>i \<in> set log. i < length (se_runs st))
     \<and> (\<forall>i < length (se_runs st). i \<notin> set log \<longrightarrow> pr_phase (se_runs st ! i) = QueuedRun
          \<or> pr_phase (se_runs st ! i) = SettledRun \<and> (\<exists>reason. pr_public (se_runs st ! i) = Some (Rejected reason)))"

lemma queue_mem:
  "entries_ok st \<Longrightarrow> i \<in> set (se_queue st) \<longleftrightarrow> i < length (se_runs st) \<and> pr_phase (se_runs st ! i) = QueuedRun"
  by (simp add: entries_ok_def queued_props)

lemma log_pump:
  assumes "log_ok log st" "entries_ok st" "pump st = (st', started)"
  shows "log_ok (log @ started) st'"
proof -
  note pump = pump_ok [OF assms(2,3)]
  have queue: "se_queue st = started @ se_queue st'" by (rule pump(2))
  have started: "i \<in> set started \<Longrightarrow> i < length (se_runs st)" for i
    using queue_mem [OF assms(2), of i] queue by simp
  have "sorted_wrt (<) ((log @ started) @ se_queue st')"
    using assms(1) queue by (simp add: log_ok_def)
  then show ?thesis
    using assms(1) started pump(7,8) by (auto simp: log_ok_def)
qed

lemma log_pushed: "log_ok log st \<Longrightarrow> entries_ok st \<Longrightarrow> log_ok log (pushed st)"
  using queue_mem [of st]
  by (auto simp: log_ok_def pushed_def sorted_wrt_append nth_append less_Suc_eq)

lemma log_frame:
  assumes "log_ok log st" "length (se_runs st') = length (se_runs st)"
    and "\<And>i. i \<in> set (se_queue st') \<Longrightarrow> i \<in> set (se_queue st)" "sorted_wrt (<) (se_queue st')"
    and "\<And>i. i < length (se_runs st) \<Longrightarrow> i \<notin> set log \<Longrightarrow> pr_phase (se_runs st' ! i) = QueuedRun
          \<or> pr_phase (se_runs st' ! i) = SettledRun \<and> (\<exists>reason. pr_public (se_runs st' ! i) = Some (Rejected reason))"
  shows "log_ok log st'"
  using assms by (auto simp: log_ok_def sorted_wrt_append)

lemma log_step:
  assumes "log_ok log st" "entries_ok st" "sem_step st started st'"
  shows "log_ok (log @ started) st'"
  using assms(3)
proof cases
  case call
  then show ?thesis using log_pump [OF log_pushed [OF assms(1,2)] pushed_ok [OF assms(2)]] by (simp add: run_call_Inr)
next
  case release
  have "log_ok log (released st)" using assms(1) by (simp add: log_ok_def released_def)
  then show ?thesis
    using release log_pump [OF _ released_ok [OF assms(2)]] by (simp add: release_def released_def)
next
  case (settle i result)
  obtain o' where st': "st' = finish_run i o' st" using settle(2) settled_finish by metis
  have "i \<in> set log" using assms(1) settle(3,4) by (force simp: log_ok_def)
  then have "log_ok log st'"
    using assms(1) unfolding st' by (intro log_frame [OF assms(1)]) (auto simp: log_ok_def sorted_wrt_append nth_list_update)
  then show ?thesis using settle(1) by simp
next
  case (abort i reason)
  note ok = on_abort_ok [OF assms(2) abort(3), of reason]
  have clean: "pr_phase (se_runs st ! i) = QueuedRun \<Longrightarrow> pr_public (se_runs st ! i) = None"
    using assms(2) abort(3) by (simp add: entries_ok_def)
  have "log_ok log (on_abort i reason st)"
  proof (rule log_frame [OF assms(1)])
    show "sorted_wrt (<) (se_queue (on_abort i reason st))"
      using assms(1) by (simp add: ok(2) log_ok_def sorted_wrt_append sorted_wrt_filter)
    show "pr_phase (se_runs (on_abort i reason st) ! j) = QueuedRun
        \<or> pr_phase (se_runs (on_abort i reason st) ! j) = SettledRun
          \<and> (\<exists>r. pr_public (se_runs (on_abort i reason st) ! j) = Some (Rejected r))"
      if "j < length (se_runs st)" "j \<notin> set log" for j
      using assms(1) that clean abort(3)
      by (cases "j = i") (auto simp: log_ok_def on_abort_def Let_def settle_public_def)
  qed (simp add: on_abort_def Let_def, simp add: ok(2))
  then show ?thesis using abort by simp
qed

text \<open>What a caller was told is never taken back.\<close>

lemma public_step:
  assumes "entries_ok st" "sem_step st started st'" "i < length (se_runs st)" "pr_public (se_runs st ! i) = Some told"
  shows "i < length (se_runs st') \<and> pr_public (se_runs st' ! i) = Some told"
  using assms(2)
proof cases
  case call
  then have "pump (pushed st) = (st', started)" by (simp add: run_call_Inr)
  note pump = pump_ok(7,8) [OF pushed_ok [OF assms(1)] this]
  show ?thesis using pump(1) pump(2) [of i] assms(3,4) by (simp add: pushed_def nth_append)
next
  case release
  then have "pump (released st) = (st', started)" by (simp add: release_def released_def)
  note pump = pump_ok(7,8) [OF released_ok [OF assms(1) release(1)] this]
  show ?thesis using pump(1) pump(2) [of i] assms(3,4) by (simp add: released_def)
next
  case (settle j result)
  obtain o' where st': "st' = finish_run j o' st" using settle(2) settled_finish by metis
  then show ?thesis using assms(3,4) by (cases "i = j") (simp_all add: settle_public_def)
next
  case (abort j reason)
  then show ?thesis using assms(3,4) by (cases "i = j") (simp_all add: on_abort_def Let_def settle_public_def)
qed

lemma pump_settled:
  assumes "entries_ok st" "pump st = (st', started)" "i < length (se_runs st)" "pr_phase (se_runs st ! i) = SettledRun"
  shows "i \<notin> set started \<and> i < length (se_runs st') \<and> pr_phase (se_runs st' ! i) = SettledRun"
proof -
  have "i \<notin> set (started @ se_queue st')" using queue_mem [OF assms(1), of i] pump_ok(2) [OF assms(1,2)] assms(4) by simp
  then show ?thesis using pump_ok(7,8) [OF assms(1,2)] assms(3,4) by simp
qed

lemma settled_step:
  assumes "entries_ok st" "sem_step st started st'" "i < length (se_runs st)" "pr_phase (se_runs st ! i) = SettledRun"
  shows "i \<notin> set started \<and> i < length (se_runs st') \<and> pr_phase (se_runs st' ! i) = SettledRun"
  using assms(2)
proof cases
  case call
  then have "pump (pushed st) = (st', started)" by (simp add: run_call_Inr)
  from pump_settled [OF pushed_ok [OF assms(1)] this, of i] show ?thesis using assms(3,4) by (simp add: pushed_def nth_append)
next
  case release
  then have "pump (released st) = (st', started)" by (simp add: release_def released_def)
  from pump_settled [OF released_ok [OF assms(1) release(1)] this, of i] show ?thesis using assms(3,4) by (simp add: released_def)
next
  case (settle j result)
  obtain o' where st': "st' = finish_run j o' st" using settle(2) settled_finish by metis
  then show ?thesis using assms(3,4) settle(1) by (cases "i = j") simp_all
next
  case (abort j reason)
  then show ?thesis using assms(3,4) by (cases "i = j") (simp_all add: on_abort_def Let_def)
qed

lemma trace_log:
  "sem_trace st log' st' \<Longrightarrow> sem_ok st \<Longrightarrow> log_ok log st \<Longrightarrow> log_ok (log @ log') st'"
proof (induction rule: sem_trace.induct)
  case (more st log' mid started st')
  then have "entries_ok mid" using trace_ok by (metis sem_ok_def)
  with more show ?case using log_step [of "log @ log'" mid started st'] by simp
qed simp

lemma trace_settled:
  assumes "sem_trace st log st'" "sem_ok st" "i < length (se_runs st)" "pr_phase (se_runs st ! i) = SettledRun"
  shows "i \<notin> set log \<and> i < length (se_runs st') \<and> pr_phase (se_runs st' ! i) = SettledRun"
  using assms
proof (induction rule: sem_trace.induct)
  case (more st log mid started st')
  then have "entries_ok mid" using trace_ok by (metis sem_ok_def)
  with more settled_step [of mid started st' i] show ?case by simp
qed simp

lemma trace_public:
  assumes "sem_trace st log st'" "sem_ok st" "i < length (se_runs st)" "pr_public (se_runs st ! i) = Some told"
  shows "i < length (se_runs st') \<and> pr_public (se_runs st' ! i) = Some told"
  using assms
proof (induction rule: sem_trace.induct)
  case (more st log mid started st')
  then have "entries_ok mid" using trace_ok by (metis sem_ok_def)
  with more show ?case using public_step by metis
qed simp

text \<open>
  C28: First in, first out. Whatever happens, the operations are called in the order in which \<open>run\<close> was
  called, each at most once; an entry that was not called yet is waiting, or was rejected by an abort
  and is never called; and once the promise of a caller is settled, its outcome never changes.
\<close>

theorem semaphore_fifo:
  assumes "new_semaphore c p = Inr st" "sem_trace st log st'" "sem_trace st' log' st''"
  shows "sorted_wrt (<) (log @ log')
    \<and> (\<forall>i < length (se_runs st'). i \<in> set log \<or> pr_phase (se_runs st' ! i) = QueuedRun
        \<or> pr_phase (se_runs st' ! i) = SettledRun \<and> i \<notin> set log'
          \<and> (\<exists>reason. pr_public (se_runs st' ! i) = Some (Rejected reason)))
    \<and> (\<forall>i < length (se_runs st'). \<forall>told. pr_public (se_runs st' ! i) = Some told
        \<longrightarrow> pr_public (se_runs st'' ! i) = Some told)"
proof -
  have new: "sem_ok st" "se_runs st = []" using new_semaphore_Inr [OF assms(1)] by blast+
  then have "log_ok [] st" by (simp add: log_ok_def sem_ok_def entries_ok_def queued_indices_def)
  then have log: "log_ok log st'" using trace_log [OF assms(2) new(1), of "[]"] by simp
  have ok: "sem_ok st'" using trace_ok [OF assms(2) new(1)] by blast
  have "sorted_wrt (<) (log @ log')"
    using trace_log [OF assms(3) ok log] by (simp add: log_ok_def sorted_wrt_append)
  moreover have "i \<in> set log \<or> pr_phase (se_runs st' ! i) = QueuedRun
        \<or> pr_phase (se_runs st' ! i) = SettledRun \<and> i \<notin> set log'
          \<and> (\<exists>reason. pr_public (se_runs st' ! i) = Some (Rejected reason))" if "i < length (se_runs st')" for i
    using log that trace_settled [OF assms(3) ok that] by (auto simp: log_ok_def)
  ultimately show ?thesis using trace_public [OF assms(3) ok] by blast
qed

lemma semaphore_fifo_witness: "sorted_wrt (<) ([0 :: nat] @ [])"
  using semaphore_fifo [OF example_new example_trace sem_trace.none] by blast

section \<open>Progress\<close>

lemma waiting_has_work:
  assumes "sem_ok st" "se_queue st \<noteq> []"
  shows "(\<exists>j < length (se_runs st). pr_phase (se_runs st ! j) = RunningRun) \<or> 0 < se_releases st"
proof -
  have "0 < running_count (se_runs st) + se_releases st" using assms by (auto simp: sem_ok_def entries_ok_def)
  then show ?thesis by (auto simp: running_count_def filter_empty_conv in_set_conv_nth)
qed

lemma release_starts_one:
  assumes "sem_ok st" "se_queue st = i # rest" "0 < se_releases st"
  shows "\<exists>later. release st = (later, [i]) \<and> se_queue later = rest \<and> pr_phase (se_runs later ! i) = RunningRun"
proof -
  have entries: "entries_ok st" using assms(1) by (simp add: sem_ok_def)
  obtain later started where pump: "pump (released st) = (later, started)" by (cases "pump (released st)")
  note facts = pump_ok [OF released_ok [OF entries assms(3)] pump]
  have active: "se_active st = se_max_concurrent st" "0 < se_max_concurrent st"
    using assms(1,2) by (simp_all add: sem_ok_def)
  have total_active: "se_active later = se_max_concurrent st - 1 + length started"
    using facts(6) active(1) by (simp add: released_def)
  have limit: "se_active later \<le> se_max_concurrent later" using facts(1) unfolding entries_ok_def by blast
  have same: "se_max_concurrent later = se_max_concurrent st" using facts(4) by (simp add: released_def)
  have most: "length started \<le> 1" using total_active limit same active(2) by linarith
  have split: "i # rest = started @ se_queue later" using facts(2) assms(2) by (simp add: released_def)
  have some: "started \<noteq> []"
  proof
    assume none: "started = []"
    then have "se_active later = se_max_concurrent later" using split facts(3) by auto
    then show False using total_active same active(2) none by simp
  qed
  obtain k where one: "started = [k]" using most some by (cases started) auto
  then have parts: "started = [i]" "se_queue later = rest" using split by simp_all
  moreover have "i < length (se_runs (released st))" using queue_head(1) [OF entries assms(2)] by (simp add: released_def)
  then have "pr_phase (se_runs later ! i) = RunningRun" using facts(8) [of i] parts(1) by simp
  ultimately show ?thesis using pump by (simp add: release_def released_def)
qed

lemma settled_releases:
  "se_releases (operation_settled j result st) = se_releases st + 1 \<and> se_queue (operation_settled j result st) = se_queue st"
proof -
  obtain o' where "operation_settled j result st = finish_run j o' st" using settled_finish by metis
  then show ?thesis by simp
qed

lemma aborted_told:
  assumes "entries_ok st" "j < length (se_runs st)" "pr_phase (se_runs st ! j) \<noteq> SettledRun"
  shows "pr_public (se_runs (on_abort j reason st) ! j) \<noteq> None
    \<and> j \<notin> set (se_queue (on_abort j reason st)) \<and> se_active (on_abort j reason st) = se_active st"
  using on_abort_ok(2,3) [OF assms(1,2), of reason] assms(2,3)
  by (simp add: on_abort_def Let_def settle_public_def split: option.splits)

text \<open>
  C29: Progress, also under aborts. Whenever calls wait, some operation is running or some slot is about to
  be released; releasing a slot calls exactly the first waiting operation; settling an operation makes
  its slot one to release and never disturbs the queue; and an abort settles the promise of its
  caller at once, takes a waiting entry out of the queue, and does not free the slot of a running one.
\<close>

theorem semaphore_progress:
  assumes "new_semaphore c p = Inr st" "sem_trace st log st'"
  shows "(\<forall>i rest. se_queue st' = i # rest \<longrightarrow>
        ((\<exists>j < length (se_runs st'). pr_phase (se_runs st' ! j) = RunningRun) \<or> 0 < se_releases st')
      \<and> (0 < se_releases st' \<longrightarrow> (\<exists>later. release st' = (later, [i]) \<and> se_queue later = rest
            \<and> pr_phase (se_runs later ! i) = RunningRun)))
    \<and> (\<forall>j result. j < length (se_runs st') \<longrightarrow> pr_phase (se_runs st' ! j) = RunningRun
        \<longrightarrow> se_releases (operation_settled j result st') = se_releases st' + 1
          \<and> se_queue (operation_settled j result st') = se_queue st')
    \<and> (\<forall>j reason. j < length (se_runs st') \<longrightarrow> pr_phase (se_runs st' ! j) \<noteq> SettledRun
        \<longrightarrow> pr_public (se_runs (on_abort j reason st') ! j) \<noteq> None
          \<and> j \<notin> set (se_queue (on_abort j reason st')) \<and> se_active (on_abort j reason st') = se_active st')"
proof -
  have ok: "sem_ok st'" using trace_ok [OF assms(2)] new_semaphore_Inr [OF assms(1)] by blast
  then have "entries_ok st'" by (simp add: sem_ok_def)
  note told = aborted_told [OF this]
  show ?thesis
    using waiting_has_work [OF ok] release_starts_one [OF ok] settled_releases told by fastforce
qed

lemma semaphore_progress_witness:
  "pr_public (se_runs (on_abort 1 7 example_busy) ! 1) \<noteq> None \<and> 1 \<notin> set (se_queue (on_abort 1 7 example_busy))
    \<and> se_active (on_abort 1 7 example_busy) = 1"
proof -
  have facts: "1 < length (se_runs example_busy)" "pr_phase (se_runs example_busy ! 1) \<noteq> SettledRun" "se_active example_busy = 1"
    by (simp_all add: example_busy_def example_semaphore_def example_entry_def)
  show ?thesis using semaphore_progress [OF example_new example_trace] facts by metis
qed

end
