(* ===== verification/Thrift_Preflight.thy ===== *)
theory Thrift_Preflight
  imports Json_Number Js_Collections
begin

text \<open>
  The budgeted scan of a compact Thrift structure in
  \<open>packages/engine/src/v2/compact-thrift-preflight.ts\<close>, which reads Parquet footers and page headers
  before the Parquet library may. The mutable \<open>Reader\<close> is passed along; bytes are words of 8 bits;
  numbers and big integers are integers, with the checks for safe integers written out.
\<close>

unbundle bit_operations_syntax

section \<open>The reader\<close>

definition T_STOP :: nat where "T_STOP = 0"
definition T_TRUE :: nat where "T_TRUE = 1"
definition T_FALSE :: nat where "T_FALSE = 2"
definition T_BYTE :: nat where "T_BYTE = 3"
definition T_I16 :: nat where "T_I16 = 4"
definition T_I32 :: nat where "T_I32 = 5"
definition T_I64 :: nat where "T_I64 = 6"
definition T_DOUBLE :: nat where "T_DOUBLE = 7"
definition T_BINARY :: nat where "T_BINARY = 8"
definition T_LIST :: nat where "T_LIST = 9"
definition T_STRUCT :: nat where "T_STRUCT = 12"

lemmas thrift_types = T_STOP_def T_TRUE_def T_FALSE_def T_BYTE_def T_I16_def T_I32_def T_I64_def
  T_DOUBLE_def T_BINARY_def T_LIST_def T_STRUCT_def

datatype thrift_value = BooleanValue bool | NumberValue int | BigIntValue int

record thrift_field =
  tf_type :: nat
  tf_value :: "thrift_value option"

record thrift_options =
  maxDepth :: int
  maxCollectionLength :: int
  maxTotalCollectionElements :: int
  maxBinaryLength :: int
  maxTotalFields :: int
  maxTotalStructs :: int
  captureFields :: bool

record thrift_reader =
  rd_input :: "8 word list"
  rd_options :: thrift_options
  rd_fields :: "(js_string, thrift_field) js_map"
  rd_offset :: nat
  rd_elements :: nat
  rd_total_fields :: nat
  rd_structs :: nat

text \<open>One constructor per message of the errors thrown.\<close>

datatype thrift_error =
    NestingTooDeep
  | StructBudget
  | FieldsNotOrdered
  | FieldBudget
  | FieldDuplicated
  | BinaryBudget
  | CollectionBudget
  | TypeUnsupported nat
  | IntegerUnsafe
  | LengthUnsafe
  | VarintBudget
  | TruncatedInput

type_synonym 'a scan = "(thrift_error, 'a \<times> thrift_reader) result"

section \<open>Bytes and variable-length integers\<close>

definition requireBytes :: "thrift_reader \<Rightarrow> int \<Rightarrow> (thrift_error, unit) result" where
  "requireBytes reader len =
     ensure (\<not> (len < 0 \<or> int (length (rd_input reader)) - int (rd_offset reader) < len)) TruncatedInput"

definition skipBytes :: "thrift_reader \<Rightarrow> int \<Rightarrow> (thrift_error, thrift_reader) result" where
  "skipBytes reader len = bindR (requireBytes reader len) (\<lambda>_.
     Inr (reader\<lparr>rd_offset := rd_offset reader + nat len\<rparr>))"

definition readByte :: "thrift_reader \<Rightarrow> 8 word scan" where
  "readByte reader =
     bindR (requireBytes reader 1) (\<lambda>_.
     bindR (ensure (rd_offset reader < length (rd_input reader)) TruncatedInput) (\<lambda>_.
     Inr (rd_input reader ! rd_offset reader, reader\<lparr>rd_offset := rd_offset reader + 1\<rparr>)))"

text \<open>The loop of \<open>readUnsignedBigInt\<close> from \<open>index\<close> on, with \<open>maxBytes - index\<close> turns left.\<close>

fun varint_loop :: "thrift_reader \<Rightarrow> nat \<Rightarrow> nat \<Rightarrow> int \<Rightarrow> int scan" where
  "varint_loop reader 0 index value = Inl VarintBudget"
| "varint_loop reader (Suc turns) index value =
     bindR (readByte reader) (\<lambda>(byte, reader1).
       let value1 = value OR push_bit (index * 7) (uint (byte AND 0x7f)) in
       if byte AND 0x80 = 0 then Inr (value1, reader1)
       else varint_loop reader1 turns (index + 1) value1)"

definition readUnsignedBigInt :: "thrift_reader \<Rightarrow> nat \<Rightarrow> int scan" where
  "readUnsignedBigInt reader maxBytes = varint_loop reader maxBytes 0 0"

definition zigzag :: "int \<Rightarrow> int" where
  "zigzag encoded = (drop_bit 1 encoded) XOR (- (encoded AND 1))"

text \<open>
  \<open>Number(decoded)\<close> rounds integers from \<open>2 ^ 53\<close> on to a number that is not a safe integer
  either, so the check may look at the integer itself.
\<close>

definition readZigZagNumber :: "thrift_reader \<Rightarrow> nat \<Rightarrow> int scan" where
  "readZigZagNumber reader maxBytes =
     bindR (readUnsignedBigInt reader maxBytes) (\<lambda>(encoded, reader1).
     bindR (ensure (is_safe_integer (zigzag encoded)) IntegerUnsafe) (\<lambda>_. Inr (zigzag encoded, reader1)))"

definition readZigZagBigInt :: "thrift_reader \<Rightarrow> int scan" where
  "readZigZagBigInt reader =
     bindR (readUnsignedBigInt reader 10) (\<lambda>(encoded, reader1). Inr (zigzag encoded, reader1))"

definition readUnsignedNumber :: "thrift_reader \<Rightarrow> nat \<Rightarrow> int scan" where
  "readUnsignedNumber reader maxBytes =
     bindR (readUnsignedBigInt reader maxBytes) (\<lambda>(value, reader1).
     bindR (ensure (is_safe_integer value) LengthUnsafe) (\<lambda>_. Inr (value, reader1)))"

section \<open>Structures\<close>

definition field_path :: "js_string \<Rightarrow> int \<Rightarrow> js_string" where
  "field_path path fieldId =
     (if path = [] then nat_to_string (nat fieldId) else path @ js ''.'' @ nat_to_string (nat fieldId))"

definition capture_field :: "thrift_reader \<Rightarrow> js_string \<Rightarrow> nat \<Rightarrow> thrift_value option \<Rightarrow> (thrift_error, thrift_reader) result" where
  "capture_field reader path ty v =
     (if captureFields (rd_options reader)
      then bindR (ensure (map_get path (rd_fields reader) = None) FieldDuplicated) (\<lambda>_.
        Inr (reader\<lparr>rd_fields := map_set path \<lparr>tf_type = ty, tf_value = v\<rparr> (rd_fields reader)\<rparr>))
      else Inr reader)"

text \<open>The header of a list: the type of its elements and their number.\<close>

definition list_header :: "thrift_reader \<Rightarrow> (nat \<times> int) scan" where
  "list_header reader =
     bindR (readByte reader) (\<lambda>(header, reader1).
       let inlineLength = uint (drop_bit 4 header) in
       bindR (if inlineLength = 15 then readUnsignedNumber reader1 5 else Inr (inlineLength, reader1)) (\<lambda>(len, reader2).
       bindR (ensure (\<not> (maxCollectionLength (rd_options reader2) < len
           \<or> maxTotalCollectionElements (rd_options reader2) - int (rd_elements reader2) < len)) CollectionBudget) (\<lambda>_.
       Inr ((unat (header AND 0x0f), len), reader2\<lparr>rd_elements := rd_elements reader2 + nat len\<rparr>))))"

text \<open>
  The header of the next field of a structure, up to the value: \<open>None\<close> at the stop byte, else the
  type and the identifier of the field.
\<close>

definition field_header :: "thrift_reader \<Rightarrow> int \<Rightarrow> (nat \<times> int) option scan" where
  "field_header reader previousFieldId =
     bindR (readByte reader) (\<lambda>(header, reader1).
       let ty = unat (header AND 0x0f); delta = uint (drop_bit 4 header) in
       if ty = T_STOP then Inr (None, reader1)
       else
       bindR (if delta = 0 then readZigZagNumber reader1 3 else Inr (previousFieldId + delta, reader1)) (\<lambda>(fieldId, reader2).
       bindR (ensure (previousFieldId < fieldId) FieldsNotOrdered) (\<lambda>_.
       let reader3 = reader2\<lparr>rd_total_fields := rd_total_fields reader2 + 1\<rparr> in
       bindR (ensure (int (rd_total_fields reader3) \<le> maxTotalFields (rd_options reader3)) FieldBudget) (\<lambda>_.
       Inr (Some (ty, fieldId), reader3)))))"

text \<open>\<open>scanElement\<close> of the types that hold no other value.\<close>

definition scan_scalar :: "thrift_reader \<Rightarrow> nat \<Rightarrow> thrift_value option scan" where
  "scan_scalar reader ty =
     (if ty = T_TRUE then Inr (Some (BooleanValue True), reader)
      else if ty = T_FALSE then Inr (Some (BooleanValue False), reader)
      else if ty = T_BYTE then bindR (readByte reader) (\<lambda>(byte, reader1). Inr (Some (NumberValue (uint byte)), reader1))
      else if ty = T_I16 \<or> ty = T_I32
      then bindR (readZigZagNumber reader 5) (\<lambda>(n, reader1). Inr (Some (NumberValue n), reader1))
      else if ty = T_I64
      then bindR (readZigZagBigInt reader) (\<lambda>(n, reader1). Inr (Some (BigIntValue n), reader1))
      else if ty = T_DOUBLE then bindR (skipBytes reader 8) (\<lambda>reader1. Inr (None, reader1))
      else if ty = T_BINARY
      then bindR (readUnsignedNumber reader 5) (\<lambda>(len, reader1).
        bindR (ensure (\<not> maxBinaryLength (rd_options reader1) < len) BinaryBudget) (\<lambda>_.
        bindR (skipBytes reader1 len) (\<lambda>reader2. Inr (None, reader2))))
      else Inl (TypeUnsupported ty))"

text \<open>Booleans in a list are bytes.\<close>

definition list_type :: "nat \<Rightarrow> nat" where
  "list_type elementType = (if elementType = T_TRUE \<or> elementType = T_FALSE then T_BYTE else elementType)"

function (sequential)
  scanStruct :: "thrift_reader \<Rightarrow> nat \<Rightarrow> js_string \<Rightarrow> (thrift_error, thrift_reader) result"
  and struct_fields :: "thrift_reader \<Rightarrow> nat \<Rightarrow> js_string \<Rightarrow> int \<Rightarrow> (thrift_error, thrift_reader) result"
  and scanElement :: "thrift_reader \<Rightarrow> nat \<Rightarrow> nat \<Rightarrow> js_string \<Rightarrow> thrift_value option scan"
  and list_elements :: "thrift_reader \<Rightarrow> nat \<Rightarrow> nat \<Rightarrow> nat \<Rightarrow> js_string \<Rightarrow> (thrift_error, thrift_reader) result" where
  "scanStruct reader depth path =
     bindR (ensure (int depth \<le> maxDepth (rd_options reader)) NestingTooDeep) (\<lambda>_.
     bindR (ensure (int (rd_structs reader + 1) \<le> maxTotalStructs (rd_options reader)) StructBudget) (\<lambda>_.
     struct_fields (reader\<lparr>rd_structs := rd_structs reader + 1\<rparr>) depth path 0))"
| "struct_fields reader depth path previousFieldId =
     bindR (field_header reader previousFieldId) (\<lambda>hd1.
     case fst hd1 of None \<Rightarrow> Inr (snd hd1)
     | Some (ty, fieldId) \<Rightarrow>
         bindR (scanElement (snd hd1) ty depth (field_path path fieldId)) (\<lambda>val1.
         bindR (capture_field (snd val1) (field_path path fieldId) ty (fst val1)) (\<lambda>reader2.
         struct_fields reader2 depth path fieldId)))"
| "scanElement reader ty depth path =
     bindR (ensure (int depth \<le> maxDepth (rd_options reader)) NestingTooDeep) (\<lambda>_.
       if ty = T_LIST
       then bindR (list_header reader) (\<lambda>hd1.
         bindR (list_elements (snd hd1) (nat (snd (fst hd1))) (list_type (fst (fst hd1))) (depth + 1) (path @ js ''[]'')) (\<lambda>reader2.
         Inr (None, reader2)))
       else if ty = T_STRUCT
       then bindR (scanStruct reader (depth + 1) path) (\<lambda>reader1. Inr (None, reader1))
       else scan_scalar reader ty)"
| "list_elements reader 0 ty depth path = Inr reader"
| "list_elements reader (Suc n) ty depth path =
     bindR (scanElement reader ty depth path) (\<lambda>val1. list_elements (snd val1) n ty depth path)"
  by pat_completeness auto

text \<open>
  Reading never goes back, and every field header and every element of a list takes at least one
  byte, so the scan terminates.
\<close>

definition advances :: "nat \<Rightarrow> thrift_reader \<Rightarrow> thrift_reader \<Rightarrow> bool" where
  "advances n r r' \<longleftrightarrow> rd_input r' = rd_input r \<and> rd_options r' = rd_options r \<and> rd_offset r + n \<le> rd_offset r'
     \<and> (rd_offset r' = rd_offset r \<or> rd_offset r' \<le> length (rd_input r))"

lemma advances_refl [simp]: "advances 0 r r"
  by (simp add: advances_def)

lemma advances_trans: "advances m r s \<Longrightarrow> advances n s t \<Longrightarrow> k \<le> m + n \<Longrightarrow> advances k r t"
  by (auto simp: advances_def)

lemma advances_weaken: "advances n r s \<Longrightarrow> m \<le> n \<Longrightarrow> advances m r s"
  by (simp add: advances_def)

lemma readByte_advances: "readByte r = Inr (b, r') \<Longrightarrow> advances 1 r r'"
  by (auto simp: readByte_def result_simps advances_def)

lemma skipBytes_advances: "skipBytes r n = Inr r' \<Longrightarrow> advances (nat n) r r'"
  by (auto simp: skipBytes_def requireBytes_def result_simps advances_def)

lemma varint_advances: "varint_loop r n i v = Inr (x, r') \<Longrightarrow> advances 1 r r'"
proof (induction r n i v rule: varint_loop.induct)
  case (2 r n i v)
  then obtain b r1 where byte: "readByte r = Inr (b, r1)" by (auto simp: result_simps)
  note first = readByte_advances [OF byte]
  show ?case
  proof (cases "b AND 0x80 = 0")
    case True
    then show ?thesis using 2(2) byte first by (simp add: Let_def)
  next
    case False
    then have "advances 1 r1 r'" using 2 byte by (simp add: Let_def)
    with first show ?thesis by (rule advances_trans) simp
  qed
qed simp

lemma numbers_advance:
  "readZigZagNumber r n = Inr (x, r') \<Longrightarrow> advances 1 r r'"
  "readZigZagBigInt r = Inr (x, r') \<Longrightarrow> advances 1 r r'"
  "readUnsignedNumber r n = Inr (x, r') \<Longrightarrow> advances 1 r r'"
  by (auto simp: readZigZagNumber_def readZigZagBigInt_def readUnsignedNumber_def readUnsignedBigInt_def
      result_simps dest: varint_advances)

lemma list_header_advances:
  assumes "list_header r = Inr (x, r')"
  shows "advances 1 r r'"
proof -
  obtain b r1 n r2 where steps: "readByte r = Inr (b, r1)"
    "(if uint (drop_bit 4 b) = 15 then readUnsignedNumber r1 5 else Inr (uint (drop_bit 4 b), r1)) = Inr (n, r2)"
    "r' = r2\<lparr>rd_elements := rd_elements r2 + nat n\<rparr>"
    using assms by (auto simp: list_header_def result_simps Let_def)
  have "advances 0 r1 r2" using steps(2) by (auto split: if_splits dest!: numbers_advance(3) intro: advances_weaken)
  then have "advances 0 r1 r'" by (simp add: steps(3) advances_def)
  with readByte_advances [OF steps(1)] show ?thesis by (rule advances_trans) simp
qed

lemma field_header_advances:
  assumes "field_header r prev = Inr (x, r')"
  shows "advances 1 r r'"
proof -
  obtain b r1 where byte: "readByte r = Inr (b, r1)" using assms by (auto simp: field_header_def result_simps)
  show ?thesis
  proof (cases "unat (b AND 0x0f) = T_STOP")
    case True
    then show ?thesis using assms byte readByte_advances by (auto simp: field_header_def Let_def)
  next
    case False
    then obtain fid r2 where steps:
      "(if uint (drop_bit 4 b) = 0 then readZigZagNumber r1 3 else Inr (prev + uint (drop_bit 4 b), r1)) = Inr (fid, r2)"
      "r' = r2\<lparr>rd_total_fields := rd_total_fields r2 + 1\<rparr>"
      using assms byte by (auto simp: field_header_def result_simps Let_def)
    have "advances 0 r1 r2" using steps(1) by (auto split: if_splits dest!: numbers_advance(1) intro: advances_weaken)
    then have "advances 0 r1 r'" by (simp add: steps(2) advances_def)
    with readByte_advances [OF byte] show ?thesis by (rule advances_trans) simp
  qed
qed

lemma scan_scalar_advances:
  assumes "scan_scalar r ty = Inr (x, r')"
  shows "advances (if ty = T_TRUE \<or> ty = T_FALSE then 0 else 1) r r'"
proof -
  consider "ty = T_TRUE \<or> ty = T_FALSE" | "ty = T_BYTE" | "ty = T_I16 \<or> ty = T_I32" | "ty = T_I64" | "ty = T_DOUBLE" | "ty = T_BINARY"
    using assms by (auto simp: scan_scalar_def split: if_splits)
  then show ?thesis
  proof cases
    case 6
    then obtain n r1 where steps: "readUnsignedNumber r 5 = Inr (n, r1)" "skipBytes r1 n = Inr r'"
      using assms by (auto simp: scan_scalar_def result_simps thrift_types)
    have "advances 1 r r'"
      by (rule advances_trans [OF numbers_advance(3) [OF steps(1)] skipBytes_advances [OF steps(2)]]) simp
    with 6 show ?thesis by (simp add: thrift_types)
  qed (use assms in \<open>auto simp: scan_scalar_def result_simps thrift_types split: if_splits
      dest!: readByte_advances numbers_advance skipBytes_advances intro: advances_weaken\<close>)
qed

lemma capture_advances: "capture_field r path ty v = Inr r' \<Longrightarrow> advances 0 r r'"
  by (auto simp: capture_field_def advances_def result_simps split: if_splits)

text \<open>The four functions as far as they are known to terminate.\<close>

abbreviation struct_dom :: "thrift_reader \<Rightarrow> nat \<Rightarrow> js_string \<Rightarrow> bool" where
  "struct_dom r depth path \<equiv> scanStruct_struct_fields_scanElement_list_elements_dom (Inl (Inl (r, depth, path)))"

abbreviation fields_dom :: "thrift_reader \<Rightarrow> nat \<Rightarrow> js_string \<Rightarrow> int \<Rightarrow> bool" where
  "fields_dom r depth path prev \<equiv> scanStruct_struct_fields_scanElement_list_elements_dom (Inl (Inr (r, depth, path, prev)))"

abbreviation element_dom :: "thrift_reader \<Rightarrow> nat \<Rightarrow> nat \<Rightarrow> js_string \<Rightarrow> bool" where
  "element_dom r ty depth path \<equiv> scanStruct_struct_fields_scanElement_list_elements_dom (Inr (Inl (r, ty, depth, path)))"

abbreviation list_dom :: "thrift_reader \<Rightarrow> nat \<Rightarrow> nat \<Rightarrow> nat \<Rightarrow> js_string \<Rightarrow> bool" where
  "list_dom r n ty depth path \<equiv> scanStruct_struct_fields_scanElement_list_elements_dom (Inr (Inr (r, n, ty, depth, path)))"

lemma scan_advances:
  "struct_dom r depth path \<Longrightarrow> (\<And>r'. scanStruct r depth path = Inr r' \<Longrightarrow> advances 1 r r')"
  "fields_dom r depth path prev \<Longrightarrow> (\<And>r'. struct_fields r depth path prev = Inr r' \<Longrightarrow> advances 1 r r')"
  "element_dom r ty depth path \<Longrightarrow> (\<And>x r'. scanElement r ty depth path = Inr (x, r')
    \<Longrightarrow> advances (if ty = T_TRUE \<or> ty = T_FALSE then 0 else 1) r r')"
  "list_dom r n ty depth path \<Longrightarrow> (\<And>r'. list_elements r n ty depth path = Inr r' \<Longrightarrow> advances 0 r r')"
proof (induction rule: scanStruct_struct_fields_scanElement_list_elements.pinduct)
  case (1 r depth path)
  then have "advances 1 (r\<lparr>rd_structs := rd_structs r + 1\<rparr>) r'"
    by (simp add: scanStruct.psimps result_simps)
  then show ?case by (auto simp: advances_def)
next
  case (2 r depth path prev)
  then obtain f r1 where hd: "field_header r prev = Inr (f, r1)"
    by (auto simp: struct_fields.psimps result_simps)
  note first = field_header_advances [OF hd]
  show ?case
  proof (cases f)
    case None
    then show ?thesis using 2 hd first by (simp add: struct_fields.psimps)
  next
    case (Some field)
    obtain ty fid where field: "field = (ty, fid)" by (cases field)
    obtain v r2 r3 where steps: "scanElement r1 ty depth (field_path path fid) = Inr (v, r2)"
      "capture_field r2 (field_path path fid) ty v = Inr r3" "struct_fields r3 depth path fid = Inr r'"
      using 2 hd Some field by (auto simp: struct_fields.psimps result_simps)
    have "advances (if ty = T_TRUE \<or> ty = T_FALSE then 0 else 1) r1 r2" using 2 hd Some field steps(1) by auto
    then have "advances 0 r1 r2" by (rule advances_weaken) simp
    moreover have "advances 1 r3 r'" using 2 hd Some field steps by auto
    ultimately show ?thesis using first capture_advances [OF steps(2)] by (auto simp: advances_def)
  qed
next
  case (3 r ty depth path)
  have deep: "int depth \<le> maxDepth (rd_options r)" using 3 by (simp add: scanElement.psimps result_simps)
  consider "ty = T_LIST" | "ty = T_STRUCT" | "ty \<noteq> T_LIST" "ty \<noteq> T_STRUCT" by blast
  then show ?case
  proof cases
    case 1
    then obtain elem n r1 where hd: "list_header r = Inr ((elem, n), r1)"
      and rest: "list_elements r1 (nat n) (list_type elem) (depth + 1) (path @ js ''[]'') = Inr r'"
      using 3 deep by (auto simp: scanElement.psimps result_simps)
    have "advances 0 r1 r'" using 3 deep 1 hd rest by auto
    with list_header_advances [OF hd] have "advances 1 r r'" by (rule advances_trans) simp
    then show ?thesis by (rule advances_weaken) simp
  next
    case 2
    then have "scanStruct r (depth + 1) path = Inr r'" using 3 deep by (auto simp: scanElement.psimps result_simps thrift_types)
    then have "advances 1 r r'" using 3 deep 2 by (auto simp: thrift_types)
    then show ?thesis by (rule advances_weaken) simp
  next
    case 3
    then show ?thesis using \<open>element_dom r ty depth path\<close> deep \<open>scanElement r ty depth path = Inr (x, r')\<close>
      by (simp add: scanElement.psimps scan_scalar_advances)
  qed
next
  case (4 r ty depth path)
  then show ?case by (simp add: list_elements.psimps)
next
  case (5 r n ty depth path)
  then obtain v r1 where steps: "scanElement r ty depth path = Inr (v, r1)" "list_elements r1 n ty depth path = Inr r'"
    by (auto simp: list_elements.psimps result_simps)
  have "advances 0 r r1" using 5(2) [OF steps(1)] by (rule advances_weaken) simp
  moreover have "advances 0 r1 r'" using 5(3) steps by auto
  ultimately show ?case by (rule advances_trans) simp
qed

definition bytes_left :: "thrift_reader \<Rightarrow> nat" where
  "bytes_left r = length (rd_input r) - rd_offset r"

lemma advances_left: "advances n r r' \<Longrightarrow> bytes_left r' + n \<le> bytes_left r"
  by (auto simp: advances_def bytes_left_def)

lemma headers_left:
  "field_header r prev = Inr h \<Longrightarrow> bytes_left (snd h) < bytes_left r"
  "list_header r = Inr l \<Longrightarrow> bytes_left (snd l) < bytes_left r"
  using field_header_advances [of r prev "fst h" "snd h"] list_header_advances [of r "fst l" "snd l"]
  by (auto dest: advances_left)

lemma capture_left: "capture_field r path ty v = Inr r' \<Longrightarrow> bytes_left r' \<le> bytes_left r"
  using capture_advances advances_left by fastforce

lemma element_left:
  "element_dom r ty depth path \<Longrightarrow> scanElement r ty depth path = Inr x \<Longrightarrow> bytes_left (snd x) \<le> bytes_left r"
  using scan_advances(3) [of r ty depth path "fst x" "snd x"] advances_left by fastforce

termination scanStruct
proof (relation "measures
    [\<lambda>call. case call of Inl (Inl (r, _)) \<Rightarrow> bytes_left r | Inl (Inr (r, _)) \<Rightarrow> bytes_left r
       | Inr (Inl (r, _)) \<Rightarrow> bytes_left r | Inr (Inr (r, _)) \<Rightarrow> bytes_left r,
     \<lambda>call. case call of Inl (Inl _) \<Rightarrow> 1 | Inl (Inr _) \<Rightarrow> 0 | Inr (Inl _) \<Rightarrow> 2 | Inr (Inr _) \<Rightarrow> 3,
     \<lambda>call. case call of Inr (Inr (_, n, _)) \<Rightarrow> n | _ \<Rightarrow> 0]", goal_cases)
  case 1
  then show ?case by simp
next
  case 2
  then show ?case by (simp add: bytes_left_def)
next
  case (3 r depth path prev h f ty fid)
  then show ?case using headers_left(1) by simp
next
  case (4 r depth path prev h f ty fid v r2)
  have "bytes_left (snd h) < bytes_left r" using 4 by (auto dest: headers_left(1))
  moreover have "bytes_left (snd v) \<le> bytes_left (snd h)" using 4 by (auto dest: element_left)
  moreover have "bytes_left r2 \<le> bytes_left (snd v)" using 4 by (auto dest: capture_left)
  ultimately show ?case by simp
next
  case 5
  then show ?case using headers_left(2) by simp
next
  case 6
  then show ?case by simp
next
  case 7
  then show ?case by simp
next
  case (8 r n ty depth path v)
  then have "bytes_left (snd v) \<le> bytes_left r" by (auto dest: element_left)
  then show ?case by auto
qed

declare scanStruct.simps [simp del] struct_fields.simps [simp del] scanElement.simps [simp del]
  list_elements.simps [simp del]

definition start_reader :: "8 word list \<Rightarrow> thrift_options \<Rightarrow> thrift_reader" where
  "start_reader input options = \<lparr>rd_input = input, rd_options = options, rd_fields = [], rd_offset = 0,
     rd_elements = 0, rd_total_fields = 0, rd_structs = 0\<rparr>"

record thrift_result =
  byteLength :: nat
  thrift_fields :: "(js_string, thrift_field) js_map"

definition preflightCompactThrift :: "8 word list \<Rightarrow> thrift_options \<Rightarrow> (thrift_error, thrift_result) result" where
  "preflightCompactThrift input options =
     bindR (scanStruct (start_reader input options) 0 []) (\<lambda>reader.
     Inr \<lparr>byteLength = rd_offset reader, thrift_fields = rd_fields reader\<rparr>)"

end
