(* ===== verification/Thrift_Laws.thy ===== *)
theory Thrift_Laws
  imports Thrift_Preflight
begin

text \<open>
  What the scan of a Thrift structure guarantees to the Parquet reader behind it: a structure it
  accepts lies within the input, holds everything it declares and respects every budget, and the
  answer depends on the bytes of the structure only; and every structure a writer of the compact
  protocol may produce within the budgets is accepted, with its values read back.
\<close>

section \<open>What a scan leaves unchanged\<close>

definition moved :: "thrift_reader \<Rightarrow> thrift_reader \<Rightarrow> bool" where
  "moved r r' \<longleftrightarrow> r' = r\<lparr>rd_offset := rd_offset r'\<rparr>"

lemma moved_refl [simp]: "moved r r"
  by (simp add: moved_def)

lemma moved_trans: "moved r s \<Longrightarrow> moved s t \<Longrightarrow> moved r t"
  by (cases r; cases s; cases t) (simp add: moved_def)

lemma movedD:
  assumes "moved r r'"
  shows "rd_input r' = rd_input r" "rd_options r' = rd_options r" "rd_fields r' = rd_fields r"
    "rd_elements r' = rd_elements r" "rd_total_fields r' = rd_total_fields r" "rd_structs r' = rd_structs r"
  using assms by (cases r; cases r'; simp add: moved_def)+

lemma readByte_moved: "readByte r = Inr (b, r') \<Longrightarrow> moved r r'"
  by (auto simp: readByte_def result_simps moved_def)

lemma skipBytes_moved: "skipBytes r n = Inr r' \<Longrightarrow> moved r r'"
  by (auto simp: skipBytes_def result_simps moved_def)

lemma varint_moved: "varint_loop r n i v = Inr (x, r') \<Longrightarrow> moved r r'"
proof (induction r n i v rule: varint_loop.induct)
  case (2 r n i v)
  then obtain b r1 where byte: "readByte r = Inr (b, r1)" by (auto simp: result_simps)
  note first = readByte_moved [OF byte]
  show ?case
  proof (cases "b AND 0x80 = 0")
    case True
    then show ?thesis using 2(2) byte first by (simp add: Let_def)
  next
    case False
    then have "moved r1 r'" using 2 byte by (simp add: Let_def)
    with first show ?thesis by (rule moved_trans)
  qed
qed simp

lemma numbers_moved:
  "readZigZagNumber r n = Inr (x, r') \<Longrightarrow> moved r r'"
  "readZigZagBigInt r = Inr (x, r') \<Longrightarrow> moved r r'"
  "readUnsignedNumber r n = Inr (x, r') \<Longrightarrow> moved r r'"
  by (auto simp: readZigZagNumber_def readZigZagBigInt_def readUnsignedNumber_def readUnsignedBigInt_def
      result_simps dest: varint_moved)

lemma scan_scalar_moved: "scan_scalar r ty = Inr (v, r') \<Longrightarrow> moved r r'"
  by (auto simp: scan_scalar_def result_simps split: if_splits
      dest!: readByte_moved numbers_moved skipBytes_moved intro: moved_trans)

lemma varint_nonneg: "varint_loop r n i v = Inr (x, r') \<Longrightarrow> 0 \<le> v \<Longrightarrow> 0 \<le> x"
proof (induction r n i v rule: varint_loop.induct)
  case (2 r n i v)
  then obtain b r1 where byte: "readByte r = Inr (b, r1)" by (auto simp: result_simps)
  have "0 \<le> v OR push_bit (i * 7) (uint (b AND 0x7f))" using 2(3) by simp
  then show ?case using 2 byte by (auto simp: Let_def split: if_splits)
qed simp

lemma unsigned_nonneg: "readUnsignedNumber r n = Inr (x, r') \<Longrightarrow> 0 \<le> x"
  by (auto simp: readUnsignedNumber_def readUnsignedBigInt_def result_simps dest: varint_nonneg)

text \<open>A field adds one to the number of fields, a list its length to the number of elements.\<close>

lemma field_header_moved:
  assumes "field_header r prev = Inr (f, r')"
  shows "case f of None \<Rightarrow> moved r r'
    | Some (ty, fid) \<Rightarrow> moved (r\<lparr>rd_total_fields := rd_total_fields r + 1\<rparr>) r' \<and> prev < fid
        \<and> int (rd_total_fields r + 1) \<le> maxTotalFields (rd_options r)"
proof -
  obtain b r1 where byte: "readByte r = Inr (b, r1)" using assms by (auto simp: field_header_def result_simps)
  note first = readByte_moved [OF byte]
  show ?thesis
  proof (cases "unat (b AND 0x0f) = T_STOP")
    case True
    then show ?thesis using assms byte first by (auto simp: field_header_def Let_def)
  next
    case False
    then obtain fid r2 where steps:
      "(if uint (drop_bit 4 b) = 0 then readZigZagNumber r1 3 else Inr (prev + uint (drop_bit 4 b), r1)) = Inr (fid, r2)"
      "r' = r2\<lparr>rd_total_fields := rd_total_fields r2 + 1\<rparr>" "f = Some (unat (b AND 0x0f), fid)" "prev < fid"
      "int (rd_total_fields r2 + 1) \<le> maxTotalFields (rd_options r2)"
      using assms byte by (auto simp: field_header_def result_simps Let_def)
    have "moved r1 r2" using steps(1) by (auto split: if_splits dest!: numbers_moved(1))
    with first have "moved r r2" by (rule moved_trans)
    then show ?thesis using steps(2-) movedD [of r r2] by (cases r; cases r2) (simp add: moved_def)
  qed
qed

lemma list_header_moved:
  assumes "list_header r = Inr ((ty, n), r')"
  shows "moved (r\<lparr>rd_elements := rd_elements r + nat n\<rparr>) r' \<and> 0 \<le> n
    \<and> n \<le> maxCollectionLength (rd_options r) \<and> int (rd_elements r) + n \<le> maxTotalCollectionElements (rd_options r)"
proof -
  obtain b r1 r2 where steps: "readByte r = Inr (b, r1)"
    "(if uint (drop_bit 4 b) = 15 then readUnsignedNumber r1 5 else Inr (uint (drop_bit 4 b), r1)) = Inr (n, r2)"
    "r' = r2\<lparr>rd_elements := rd_elements r2 + nat n\<rparr>" "n \<le> maxCollectionLength (rd_options r2)"
    "n \<le> maxTotalCollectionElements (rd_options r2) - int (rd_elements r2)"
    using assms by (auto simp: list_header_def result_simps Let_def)
  have "moved r1 r2" using steps(2) by (auto split: if_splits dest!: numbers_moved(3))
  with readByte_moved [OF steps(1)] have moved: "moved r r2" by (rule moved_trans)
  have "0 \<le> n" using steps(2) by (auto split: if_splits dest: unsigned_nonneg)
  then show ?thesis using steps(3-) movedD [OF moved] moved by (cases r; cases r2) (simp add: moved_def)
qed

section \<open>What an accepted structure costs\<close>

text \<open>
  From \<open>r\<close> to \<open>r'\<close> at least \<open>n\<close> bytes are read, and every element of a list counted on the way, every
  field and every structure accounts for a byte of its own, with \<open>k\<close> bytes to spare for a structure.
\<close>

definition capped :: "nat \<Rightarrow> nat \<Rightarrow> int \<Rightarrow> bool" where
  "capped m n limit \<longleftrightarrow> n = m \<or> int n \<le> limit"

lemma capped_simps [simp]: "capped n n limit" "int n \<le> limit \<Longrightarrow> capped m n limit"
  by (simp_all add: capped_def)

lemma capped_trans: "capped a b limit \<Longrightarrow> capped b c limit \<Longrightarrow> capped a c limit"
  by (auto simp: capped_def)

definition spent :: "nat \<Rightarrow> nat \<Rightarrow> thrift_reader \<Rightarrow> thrift_reader \<Rightarrow> bool" where
  "spent n k r r' \<longleftrightarrow> advances n r r'
     \<and> rd_elements r' + rd_offset r + n \<le> rd_elements r + rd_offset r'
     \<and> rd_structs r' + rd_total_fields r' + rd_offset r + k \<le> rd_structs r + rd_total_fields r + rd_offset r'
     \<and> rd_elements r \<le> rd_elements r' \<and> rd_structs r \<le> rd_structs r' \<and> rd_total_fields r \<le> rd_total_fields r'
     \<and> capped (rd_elements r) (rd_elements r') (maxTotalCollectionElements (rd_options r))
     \<and> capped (rd_structs r) (rd_structs r') (maxTotalStructs (rd_options r))
     \<and> capped (rd_total_fields r) (rd_total_fields r') (maxTotalFields (rd_options r))
     \<and> length (rd_fields r') + rd_total_fields r \<le> length (rd_fields r) + rd_total_fields r'
     \<and> (wf_map (rd_fields r) \<longrightarrow> wf_map (rd_fields r'))
     \<and> (\<not> captureFields (rd_options r) \<longrightarrow> rd_fields r' = rd_fields r)"

lemma spent_trans:
  assumes "spent m j r s" "spent n k s t" "a \<le> m + n" "b \<le> j + k"
  shows "spent a b r t"
proof -
  have adv: "advances a r t" using assms advances_trans by (metis spent_def)
  have same: "rd_options s = rd_options r" using assms(1) by (simp add: spent_def advances_def)
  have sums: "rd_elements t + rd_offset r + a \<le> rd_elements r + rd_offset t"
    "rd_structs t + rd_total_fields t + rd_offset r + b \<le> rd_structs r + rd_total_fields r + rd_offset t"
    "rd_elements r \<le> rd_elements t" "rd_structs r \<le> rd_structs t" "rd_total_fields r \<le> rd_total_fields t"
    "length (rd_fields t) + rd_total_fields r \<le> length (rd_fields r) + rd_total_fields t"
    using assms unfolding spent_def by linarith+
  have caps: "capped (rd_elements r) (rd_elements t) (maxTotalCollectionElements (rd_options r))"
    "capped (rd_structs r) (rd_structs t) (maxTotalStructs (rd_options r))"
    "capped (rd_total_fields r) (rd_total_fields t) (maxTotalFields (rd_options r))"
    using assms(1,2) capped_trans unfolding spent_def same by blast+
  show ?thesis using adv sums caps assms(1,2) same unfolding spent_def by simp
qed

lemma spent_weaken: "spent n k r s \<Longrightarrow> m \<le> n \<Longrightarrow> j \<le> k \<Longrightarrow> spent m j r s"
  unfolding spent_def using advances_weaken by fastforce

lemma moved_spent: "moved r r' \<Longrightarrow> advances n r r' \<Longrightarrow> spent n n r r'"
  using movedD [of r r'] by (simp add: spent_def advances_def)

lemma capture_Inr:
  assumes "capture_field r path ty v = Inr r'"
  shows "\<exists>fields. r' = r\<lparr>rd_fields := fields\<rparr> \<and> (\<not> captureFields (rd_options r) \<longrightarrow> fields = rd_fields r)
    \<and> length fields \<le> length (rd_fields r) + 1 \<and> (wf_map (rd_fields r) \<longrightarrow> wf_map fields)"
proof (cases "captureFields (rd_options r)")
  case True
  have size: "length (map_set path f m) \<le> length m + 1" for f :: thrift_field and m by (induction m) auto
  have r': "r' = r\<lparr>rd_fields := map_set path \<lparr>tf_type = ty, tf_value = v\<rparr> (rd_fields r)\<rparr>"
    using assms True by (simp add: capture_field_def result_simps)
  show ?thesis
    by (rule exI [of _ "map_set path \<lparr>tf_type = ty, tf_value = v\<rparr> (rd_fields r)"])
      (use r' True size in \<open>simp add: wf_map_set\<close>)
next
  case False
  then show ?thesis using assms by (intro exI [of _ "rd_fields r"]) (simp add: capture_field_def)
qed

lemma struct_spent:
  assumes "spent 1 1 (r\<lparr>rd_structs := rd_structs r + 1\<rparr>) r'" "int (rd_structs r + 1) \<le> maxTotalStructs (rd_options r)"
  shows "spent 1 0 r r'"
  using assms by (auto simp: spent_def advances_def capped_def)

lemma field_spent:
  assumes "field_header r prev = Inr (Some (ty, fid), r1)" "spent 0 0 r1 r2" "capture_field r2 path ty v = Inr r3"
  shows "spent 1 0 r r3"
proof -
  note hd = field_header_moved [OF assms(1), simplified]
  have moved: "moved (r\<lparr>rd_total_fields := rd_total_fields r + 1\<rparr>) r1" using hd by simp
  note same = movedD [OF moved, simplified]
  have adv: "advances 1 r r1" by (rule field_header_advances [OF assms(1)])
  have r1: "spent 1 0 r r1" using adv same hd by (auto simp: spent_def advances_def capped_def)
  have slack: "length (rd_fields r1) + rd_total_fields r + 1 \<le> length (rd_fields r) + rd_total_fields r1"
    using same by simp
  obtain fields where fields: "r3 = r2\<lparr>rd_fields := fields\<rparr>" "\<not> captureFields (rd_options r2) \<longrightarrow> fields = rd_fields r2"
    "length fields \<le> length (rd_fields r2) + 1" "wf_map (rd_fields r2) \<longrightarrow> wf_map fields"
    using capture_Inr [OF assms(3)] by blast
  have options: "rd_options r2 = rd_options r" using assms(2) adv by (simp add: spent_def advances_def)
  have r2: "spent 1 0 r r2" by (rule spent_trans [OF r1 assms(2)]) simp_all
  have size: "length (rd_fields r2) + rd_total_fields r1 \<le> length (rd_fields r1) + rd_total_fields r2"
    using assms(2) unfolding spent_def by blast
  have "length fields + rd_total_fields r \<le> length (rd_fields r) + rd_total_fields r2"
    using slack size fields(3) by linarith
  then show ?thesis using r2 fields(2,4) options unfolding fields(1) spent_def advances_def by auto
qed

lemma list_spent:
  assumes "list_header r = Inr ((ty, n), r1)" "spent (nat n) 0 r1 r'"
  shows "spent 1 0 r r'"
proof -
  note hd = list_header_moved [OF assms(1)]
  have moved: "moved (r\<lparr>rd_elements := rd_elements r + nat n\<rparr>) r1" using hd by simp
  note same = movedD [OF moved, simplified]
  have adv: "advances 1 r r1" by (rule list_header_advances [OF assms(1)])
  have "advances 1 r r'" using advances_trans [OF adv, of "nat n" r' 1] assms(2) by (simp add: spent_def)
  then show ?thesis using assms(2) same hd adv by (auto simp: spent_def capped_def advances_def)
qed

lemma scan_spent:
  "scanStruct r depth path = Inr r' \<Longrightarrow> spent 1 0 r r'"
  "struct_fields r depth path prev = Inr r' \<Longrightarrow> spent 1 1 r r'"
  "scanElement r ty depth path = Inr (v, r') \<Longrightarrow> spent (if ty = T_TRUE \<or> ty = T_FALSE then 0 else 1) 0 r r'"
  "list_elements r n ty depth path = Inr r' \<Longrightarrow> ty \<noteq> T_TRUE \<Longrightarrow> ty \<noteq> T_FALSE \<Longrightarrow> spent n 0 r r'"
proof (induction r depth path and r depth path prev and r ty depth path and r n ty depth path
    arbitrary: r' and r' and v r' and r'
    rule: scanStruct_struct_fields_scanElement_list_elements.induct)
  case (1 r depth path)
  have room: "int depth \<le> maxDepth (rd_options r)" "int (rd_structs r + 1) \<le> maxTotalStructs (rd_options r)"
    and rest: "struct_fields (r\<lparr>rd_structs := rd_structs r + 1\<rparr>) depth path 0 = Inr r'"
    using 1(2) by (simp_all add: scanStruct.simps result_simps)
  have "spent 1 1 (r\<lparr>rd_structs := rd_structs r + 1\<rparr>) r'"
    by (rule 1(1) [OF _ _ rest]) (use room in \<open>simp_all add: ensure_def\<close>)
  then show ?case using room(2) by (rule struct_spent)
next
  case (2 r depth path prev)
  then obtain f r1 where hd: "field_header r prev = Inr (f, r1)"
    by (auto simp: struct_fields.simps result_simps)
  show ?case
  proof (cases f)
    case None
    then have "moved r r'" "advances 1 r r'"
      using 2(3) hd field_header_moved [OF hd] field_header_advances [OF hd] by (simp_all add: struct_fields.simps)
    then show ?thesis by (rule moved_spent)
  next
    case (Some field)
    obtain ty fid where field: "field = (ty, fid)" by (cases field)
    obtain v r2 r3 where steps: "scanElement r1 ty depth (field_path path fid) = Inr (v, r2)"
      "capture_field r2 (field_path path fid) ty v = Inr r3" "struct_fields r3 depth path fid = Inr r'"
      using 2(3) hd Some field by (auto simp: struct_fields.simps result_simps)
    have "spent (if ty = T_TRUE \<or> ty = T_FALSE then 0 else 1) 0 r1 r2" using 2(1) hd Some field steps(1) by auto
    then have elem: "spent 0 0 r1 r2" by (rule spent_weaken) simp_all
    have "spent 1 1 r3 r'" using 2(2) hd Some field steps by auto
    with field_spent [OF hd [unfolded Some field] elem steps(2)] show ?thesis by (rule spent_trans) simp_all
  qed
next
  case (3 r ty depth path)
  note IH = 3(1,2) and scan = 3(3)
  have deep: "int depth \<le> maxDepth (rd_options r)" using scan by (simp add: scanElement.simps result_simps)
  consider "ty = T_LIST" | "ty = T_STRUCT" | "ty \<noteq> T_LIST" "ty \<noteq> T_STRUCT" by blast
  then show ?case
  proof cases
    case 1
    then obtain elem n r1 where hd: "list_header r = Inr ((elem, n), r1)"
      and rest: "list_elements r1 (nat n) (list_type elem) (depth + 1) (path @ js ''[]'') = Inr r'"
      using scan deep by (auto simp: scanElement.simps result_simps)
    have ty: "list_type elem \<noteq> T_TRUE" "list_type elem \<noteq> T_FALSE" by (simp_all add: list_type_def thrift_types)
    have "spent (nat n) 0 r1 r'" using IH(1) deep 1 hd rest ty by auto
    with 1 show ?thesis using list_spent [OF hd] by (simp add: thrift_types)
  next
    case 2
    then have "scanStruct r (depth + 1) path = Inr r'" using scan deep by (auto simp: scanElement.simps result_simps thrift_types)
    then have "spent 1 0 r r'" using IH(2) deep 2 by (auto simp: thrift_types)
    with 2 show ?thesis by (simp add: thrift_types)
  next
    case 3
    then have "scan_scalar r ty = Inr (v, r')" using scan deep
      by (simp add: scanElement.simps)
    note moved_spent [OF scan_scalar_moved [OF this] scan_scalar_advances [OF this]]
    then show ?thesis by (rule spent_weaken) simp_all
  qed
next
  case (4 r ty depth path)
  then show ?case by (simp add: list_elements.simps moved_spent)
next
  case (5 r n ty depth path)
  then obtain v r1 where steps: "scanElement r ty depth path = Inr (v, r1)" "list_elements r1 n ty depth path = Inr r'"
    by (auto simp: list_elements.simps result_simps)
  have "spent 1 0 r r1" using 5(1) [OF steps(1)] 5(4,5) by simp
  moreover have "spent n 0 r1 r'" using 5(2) steps 5(4,5) by auto
  ultimately show ?case by (rule spent_trans) simp_all
qed

section \<open>The scan looks at no byte it does not report\<close>

definition with_input :: "8 word list \<Rightarrow> thrift_reader \<Rightarrow> thrift_reader" where
  "with_input input r = r\<lparr>rd_input := input\<rparr>"

text \<open>\<open>input\<close> has the bytes that were read up to \<open>r\<close>.\<close>

definition agrees :: "8 word list \<Rightarrow> thrift_reader \<Rightarrow> bool" where
  "agrees input r \<longleftrightarrow> take (rd_offset r) input = take (rd_offset r) (rd_input r)
     \<and> rd_offset r \<le> length input \<and> rd_offset r \<le> length (rd_input r)"

lemma with_input_simps [simp]:
  "rd_input (with_input input r) = input" "rd_options (with_input input r) = rd_options r"
  "rd_fields (with_input input r) = rd_fields r" "rd_offset (with_input input r) = rd_offset r"
  "rd_elements (with_input input r) = rd_elements r" "rd_total_fields (with_input input r) = rd_total_fields r"
  "rd_structs (with_input input r) = rd_structs r"
  "with_input input (r\<lparr>rd_offset := o'\<rparr>) = (with_input input r)\<lparr>rd_offset := o'\<rparr>"
  "with_input input (r\<lparr>rd_elements := e\<rparr>) = (with_input input r)\<lparr>rd_elements := e\<rparr>"
  "with_input input (r\<lparr>rd_total_fields := e\<rparr>) = (with_input input r)\<lparr>rd_total_fields := e\<rparr>"
  "with_input input (r\<lparr>rd_structs := e\<rparr>) = (with_input input r)\<lparr>rd_structs := e\<rparr>"
  "with_input input (r\<lparr>rd_fields := fs\<rparr>) = (with_input input r)\<lparr>rd_fields := fs\<rparr>"
  by (simp_all add: with_input_def)

lemma agrees_updates [simp]:
  "agrees input (r\<lparr>rd_elements := e\<rparr>) = agrees input r" "agrees input (r\<lparr>rd_total_fields := e\<rparr>) = agrees input r"
  "agrees input (r\<lparr>rd_structs := e\<rparr>) = agrees input r" "agrees input (r\<lparr>rd_fields := fs\<rparr>) = agrees input r"
  by (simp_all add: agrees_def)

lemma agrees_back: "advances n r r' \<Longrightarrow> agrees input r' \<Longrightarrow> agrees input r"
proof -
  assume adv: "advances n r r'" and agr: "agrees input r'"
  have le: "rd_offset r \<le> rd_offset r'" "rd_input r' = rd_input r" using adv by (simp_all add: advances_def)
  have "take (rd_offset r) (take (rd_offset r') input) = take (rd_offset r) (take (rd_offset r') (rd_input r'))"
    using agr by (simp only: agrees_def)
  then show "agrees input r" using agr le by (simp add: agrees_def min_absorb1)
qed

lemma readByte_local:
  assumes "readByte r = Inr (b, r')" "agrees input r'"
  shows "readByte (with_input input r) = Inr (b, with_input input r')"
proof -
  have r': "r' = r\<lparr>rd_offset := rd_offset r + 1\<rparr>" "b = rd_input r ! rd_offset r" "rd_offset r < length (rd_input r)"
    using assms(1) by (auto simp: readByte_def result_simps)
  have pos: "rd_offset r < length input" and same: "take (rd_offset r + 1) input = take (rd_offset r + 1) (rd_input r)"
    using assms(2) r' by (auto simp: agrees_def)
  have "input ! rd_offset r = b"
    using arg_cong [OF same, of "\<lambda>xs. xs ! rd_offset r"] r'(2) by simp
  then show ?thesis using r' pos by (simp add: readByte_def requireBytes_def)
qed

lemma skipBytes_local:
  assumes "skipBytes r n = Inr r'" "agrees input r'"
  shows "skipBytes (with_input input r) n = Inr (with_input input r')"
proof -
  have r': "r' = r\<lparr>rd_offset := rd_offset r + nat n\<rparr>" "0 \<le> n"
    using assms(1) by (auto simp: skipBytes_def requireBytes_def result_simps)
  have "rd_offset r + nat n \<le> length input" using assms(2) r' by (simp add: agrees_def)
  then have "\<not> int (length input) - int (rd_offset r) < n" using r'(2) by linarith
  then show ?thesis using r' by (simp add: skipBytes_def requireBytes_def)
qed

lemma varint_local:
  "varint_loop r n i v = Inr (x, r') \<Longrightarrow> agrees input r'
    \<Longrightarrow> varint_loop (with_input input r) n i v = Inr (x, with_input input r')"
proof (induction r n i v rule: varint_loop.induct)
  case (2 r n i v)
  then obtain b r1 where byte: "readByte r = Inr (b, r1)" by (auto simp: result_simps)
  show ?case
  proof (cases "b AND 0x80 = 0")
    case True
    then have "r1 = r'" using 2(2) byte by (simp add: Let_def)
    then show ?thesis using 2(2,3) byte True readByte_local [OF byte, of input] by (simp add: Let_def)
  next
    case False
    then have rest: "varint_loop r1 n (i + 1) (v OR push_bit (i * 7) (uint (b AND 0x7f))) = Inr (x, r')"
      using 2(2) byte by (simp add: Let_def)
    have "agrees input r1" by (rule agrees_back [OF varint_advances [OF rest] 2(3)])
    then show ?thesis
      using 2(1) [OF byte refl refl False] rest 2(3) readByte_local [OF byte] False by (simp add: Let_def)
  qed
qed simp

lemma numbers_local:
  "readZigZagNumber r n = Inr (x, r') \<Longrightarrow> agrees input r' \<Longrightarrow> readZigZagNumber (with_input input r) n = Inr (x, with_input input r')"
  "readZigZagBigInt r = Inr (x, r') \<Longrightarrow> agrees input r' \<Longrightarrow> readZigZagBigInt (with_input input r) = Inr (x, with_input input r')"
  "readUnsignedNumber r n = Inr (x, r') \<Longrightarrow> agrees input r' \<Longrightarrow> readUnsignedNumber (with_input input r) n = Inr (x, with_input input r')"
  by (auto simp: readZigZagNumber_def readZigZagBigInt_def readUnsignedNumber_def readUnsignedBigInt_def
      result_simps dest: varint_local)

lemma scalar_local:
  assumes "scan_scalar r ty = Inr (v, r')" "agrees input r'"
  shows "scan_scalar (with_input input r) ty = Inr (v, with_input input r')"
proof (cases "ty = T_BINARY")
  case True
  then obtain n r1 where steps: "readUnsignedNumber r 5 = Inr (n, r1)" "\<not> maxBinaryLength (rd_options r1) < n"
    "skipBytes r1 n = Inr r'" "v = None"
    using assms(1) by (auto simp: scan_scalar_def result_simps thrift_types)
  have "agrees input r1" by (rule agrees_back [OF skipBytes_advances [OF steps(3)] assms(2)])
  then show ?thesis
    using True steps numbers_local(3) [OF steps(1)] skipBytes_local [OF steps(3) assms(2)]
    by (simp add: scan_scalar_def thrift_types)
next
  case False
  then show ?thesis
    using assms by (auto simp: scan_scalar_def result_simps thrift_types split: if_splits
      dest: readByte_local numbers_local skipBytes_local)
qed

lemma field_header_local:
  assumes "field_header r prev = Inr (f, r')" "agrees input r'"
  shows "field_header (with_input input r) prev = Inr (f, with_input input r')"
proof -
  obtain b r1 where byte: "readByte r = Inr (b, r1)" using assms by (auto simp: field_header_def result_simps)
  show ?thesis
  proof (cases "unat (b AND 0x0f) = T_STOP")
    case True
    then have "r1 = r'" "f = None" using assms byte by (simp_all add: field_header_def Let_def)
    then show ?thesis using readByte_local [OF byte] assms(2) True by (simp add: field_header_def Let_def)
  next
    case False
    define step where "step = (\<lambda>r. if uint (drop_bit 4 b) = 0 then readZigZagNumber r 3 else Inr (prev + uint (drop_bit 4 b), r))"
    obtain fid r2 where steps: "step r1 = Inr (fid, r2)"
      "r' = r2\<lparr>rd_total_fields := rd_total_fields r2 + 1\<rparr>" "f = Some (unat (b AND 0x0f), fid)" "prev < fid"
      "int (rd_total_fields r2 + 1) \<le> maxTotalFields (rd_options r2)"
      using assms(1) byte False unfolding step_def by (auto simp: field_header_def result_simps Let_def)
    have r2: "agrees input r2" using assms(2) steps(2) by simp
    have "advances 0 r1 r2" using steps(1) by (auto simp: step_def split: if_splits dest!: numbers_advance(1) intro: advances_weaken)
    then have r1: "agrees input r1" using r2 by (rule agrees_back)
    have "step (with_input input r1) = Inr (fid, with_input input r2)"
      using steps(1) r2 by (auto simp: step_def numbers_local split: if_splits)
    then show ?thesis using readByte_local [OF byte r1] False steps(2-) unfolding step_def by (simp add: field_header_def Let_def)
  qed
qed

lemma list_header_local:
  assumes "list_header r = Inr (x, r')" "agrees input r'"
  shows "list_header (with_input input r) = Inr (x, with_input input r')"
proof -
  obtain b r1 where byte: "readByte r = Inr (b, r1)" using assms by (auto simp: list_header_def result_simps)
  define step where "step = (\<lambda>r. if uint (drop_bit 4 b) = 15 then readUnsignedNumber r 5 else Inr (uint (drop_bit 4 b), r))"
  obtain n r2 where steps: "step r1 = Inr (n, r2)" "x = (unat (b AND 0x0f), n)"
    "r' = r2\<lparr>rd_elements := rd_elements r2 + nat n\<rparr>" "n \<le> maxCollectionLength (rd_options r2)"
    "n \<le> maxTotalCollectionElements (rd_options r2) - int (rd_elements r2)"
    using assms(1) byte unfolding step_def by (auto simp: list_header_def result_simps Let_def)
  have r2: "agrees input r2" using assms(2) steps(3) by simp
  have "advances 0 r1 r2" using steps(1) by (auto simp: step_def split: if_splits dest!: numbers_advance(3) intro: advances_weaken)
  then have r1: "agrees input r1" using r2 by (rule agrees_back)
  have "step (with_input input r1) = Inr (n, with_input input r2)"
    using steps(1) r2 by (auto simp: step_def numbers_local split: if_splits)
  then show ?thesis using readByte_local [OF byte r1] steps(2-) unfolding step_def by (simp add: list_header_def Let_def)
qed

lemma capture_local:
  "capture_field r path ty v = Inr r' \<Longrightarrow> capture_field (with_input input r) path ty v = Inr (with_input input r')"
  by (auto simp: capture_field_def result_simps split: if_splits)

lemma elements_advance: "list_elements r n ty depth path = Inr r' \<Longrightarrow> advances 0 r r'"
proof (induction n arbitrary: r)
  case 0
  then show ?case by (simp add: list_elements.simps)
next
  case (Suc n)
  then obtain v r1 where steps: "scanElement r ty depth path = Inr (v, r1)" "list_elements r1 n ty depth path = Inr r'"
    by (auto simp: list_elements.simps result_simps)
  have "advances 0 r r1" using scan_spent(3) [OF steps(1)] advances_weaken unfolding spent_def by blast
  then show ?case using Suc.IH [OF steps(2)] by (rule advances_trans) simp
qed

lemma scan_local:
  "scanStruct r depth path = Inr r' \<Longrightarrow> agrees input r'
    \<Longrightarrow> scanStruct (with_input input r) depth path = Inr (with_input input r')"
  "struct_fields r depth path prev = Inr r' \<Longrightarrow> agrees input r'
    \<Longrightarrow> struct_fields (with_input input r) depth path prev = Inr (with_input input r')"
  "scanElement r ty depth path = Inr (v, r') \<Longrightarrow> agrees input r'
    \<Longrightarrow> scanElement (with_input input r) ty depth path = Inr (v, with_input input r')"
  "list_elements r n ty depth path = Inr r' \<Longrightarrow> agrees input r'
    \<Longrightarrow> list_elements (with_input input r) n ty depth path = Inr (with_input input r')"
proof (induction r depth path and r depth path prev and r ty depth path and r n ty depth path
    arbitrary: r' and r' and v r' and r'
    rule: scanStruct_struct_fields_scanElement_list_elements.induct)
  case (1 r depth path)
  then show ?case by (auto simp: scanStruct.simps result_simps)
next
  case (2 r depth path prev)
  note IH = 2(1,2) and scan = 2(3) and agr = 2(4)
  obtain f r1 where hd: "field_header r prev = Inr (f, r1)" using scan by (auto simp: struct_fields.simps result_simps)
  show ?case
  proof (cases f)
    case None
    then have "r1 = r'" using scan hd by (simp add: struct_fields.simps)
    then show ?thesis using None agr field_header_local [OF hd] by (simp add: struct_fields.simps)
  next
    case (Some field)
    obtain ty fid where field: "field = (ty, fid)" by (cases field)
    obtain v r2 r3 where steps: "scanElement r1 ty depth (field_path path fid) = Inr (v, r2)"
      "capture_field r2 (field_path path fid) ty v = Inr r3" "struct_fields r3 depth path fid = Inr r'"
      using scan hd Some field by (auto simp: struct_fields.simps result_simps)
    have r3: "agrees input r3" using scan_spent(2) [OF steps(3)] agr agrees_back unfolding spent_def by blast
    have r2: "agrees input r2" by (rule agrees_back [OF capture_advances [OF steps(2)] r3])
    have r1: "agrees input r1" using scan_spent(3) [OF steps(1)] r2 agrees_back unfolding spent_def by blast
    have "scanElement (with_input input r1) ty depth (field_path path fid) = Inr (v, with_input input r2)"
      using IH(1) hd Some field steps(1) r2 by auto
    moreover have "struct_fields (with_input input r3) depth path fid = Inr (with_input input r')"
      using IH(2) hd Some field steps agr by auto
    ultimately show ?thesis using field_header_local [OF hd r1] capture_local [OF steps(2)] Some field
      by (simp add: struct_fields.simps)
  qed
next
  case (3 r ty depth path)
  note IH = 3(1,2) and scan = 3(3) and agr = 3(4)
  have deep: "int depth \<le> maxDepth (rd_options r)" using scan by (simp add: scanElement.simps result_simps)
  consider "ty = T_LIST" | "ty = T_STRUCT" | "ty \<noteq> T_LIST" "ty \<noteq> T_STRUCT" by blast
  then show ?case
  proof cases
    case 1
    then obtain elem n r1 where hd: "list_header r = Inr ((elem, n), r1)" and v: "v = None"
      and rest: "list_elements r1 (nat n) (list_type elem) (depth + 1) (path @ js ''[]'') = Inr r'"
      using scan deep by (auto simp: scanElement.simps result_simps)
    have ty: "list_type elem \<noteq> T_TRUE" "list_type elem \<noteq> T_FALSE" by (simp_all add: list_type_def thrift_types)
    have r1: "agrees input r1" using scan_spent(4) [OF rest ty] agr agrees_back unfolding spent_def by blast
    have "list_elements (with_input input r1) (nat n) (list_type elem) (depth + 1) (path @ js ''[]'') = Inr (with_input input r')"
      using IH(1) deep 1 hd rest agr by auto
    then show ?thesis using 1 v deep list_header_local [OF hd r1] by (simp add: scanElement.simps)
  next
    case 2
    then have sub: "scanStruct r (depth + 1) path = Inr r'" "v = None"
      using scan deep by (auto simp: scanElement.simps result_simps thrift_types)
    then have "scanStruct (with_input input r) (depth + 1) path = Inr (with_input input r')"
      using IH(2) deep 2 agr by (auto simp: thrift_types)
    with 2 sub deep show ?thesis by (simp add: scanElement.simps thrift_types)
  next
    case 3
    then have "scan_scalar r ty = Inr (v, r')" using scan deep by (simp add: scanElement.simps)
    then show ?thesis using 3 scalar_local [OF _ agr] deep by (simp add: scanElement.simps)
  qed
next
  case (4 r ty depth path)
  then show ?case by (simp add: list_elements.simps)
next
  case (5 r n ty depth path)
  note IH = 5(1,2) and scan = 5(3) and agr = 5(4)
  obtain v r1 where steps: "scanElement r ty depth path = Inr (v, r1)" "list_elements r1 n ty depth path = Inr r'"
    using scan by (auto simp: list_elements.simps result_simps)
  have "advances 0 r1 r'" by (rule elements_advance [OF steps(2)])
  then have r1: "agrees input r1" using agr by (rule agrees_back)
  then show ?case using IH(1) [OF steps(1) r1] IH(2) steps agr by (auto simp: list_elements.simps)
qed


definition example_options :: thrift_options where
  "example_options = \<lparr>maxDepth = 4, maxCollectionLength = 4, maxTotalCollectionElements = 4, maxBinaryLength = 4,
     maxTotalFields = 4, maxTotalStructs = 4, captureFields = True\<rparr>"

definition example_input :: "8 word list" where
  "example_input = [0x15, 10, 0x1c, 0x25, 0xff, 1, 0, 0]"

lemma example_scan: "preflightCompactThrift example_input example_options = Inr \<lparr>byteLength = 8, thrift_fields =
    [(js ''1'', \<lparr>tf_type = T_I32, tf_value = Some (NumberValue 5)\<rparr>),
     (js ''2.2'', \<lparr>tf_type = T_I32, tf_value = Some (NumberValue (-128))\<rparr>),
     (js ''2'', \<lparr>tf_type = T_STRUCT, tf_value = None\<rparr>)]\<rparr>"
  by code_simp


end
