(* ===== verification/Thrift_Writer.thy ===== *)
theory Thrift_Writer
  imports Thrift_Laws
begin

text \<open>
  The reference for the scan: the structures of the compact Thrift protocol, the bytes a writer puts
  out for them, and what the scan has to report. The theorem at the end says that the scan accepts
  every such structure within its budgets and reads back its length and its values.
\<close>

section \<open>Structures and their bytes\<close>

datatype thrift =
    TFlag bool
  | TByte "8 word"
  | TShort int
  | TInt int
  | TLong int
  | TReal "8 word list"
  | TBytes "8 word list"
  | TSeq nat "thrift list"
  | TRecord "(nat \<times> thrift) list"

fun type_code :: "thrift \<Rightarrow> nat" where
  "type_code (TFlag b) = (if b then T_TRUE else T_FALSE)"
| "type_code (TByte b) = T_BYTE"
| "type_code (TShort i) = T_I16"
| "type_code (TInt i) = T_I32"
| "type_code (TLong i) = T_I64"
| "type_code (TReal bs) = T_DOUBLE"
| "type_code (TBytes bs) = T_BINARY"
| "type_code (TSeq ty es) = T_LIST"
| "type_code (TRecord fs) = T_STRUCT"

fun write_varint :: "nat \<Rightarrow> 8 word list" where
  "write_varint n = (if n < 128 then [of_nat n] else of_nat (n mod 128 + 128) # write_varint (n div 128))"

declare write_varint.simps [simp del]

definition unzigzag :: "int \<Rightarrow> nat" where
  "unzigzag i = (if 0 \<le> i then nat (2 * i) else nat (- 2 * i - 1))"

definition nibbles :: "nat \<Rightarrow> nat \<Rightarrow> 8 word" where
  "nibbles high low = of_nat (16 * high + low)"

definition write_header :: "nat \<Rightarrow> nat \<Rightarrow> nat \<Rightarrow> 8 word list" where
  "write_header prev fid ty =
     (if fid - prev < 16 then [nibbles (fid - prev) ty] else nibbles 0 ty # write_varint (unzigzag (int fid)))"

definition write_list_header :: "nat \<Rightarrow> nat \<Rightarrow> 8 word list" where
  "write_list_header ty n = (if n < 15 then [nibbles n ty] else nibbles 15 ty # write_varint n)"

fun thrift_bytes :: "thrift \<Rightarrow> 8 word list" and elements_bytes :: "thrift list \<Rightarrow> 8 word list"
  and fields_bytes :: "nat \<Rightarrow> (nat \<times> thrift) list \<Rightarrow> 8 word list" where
  "thrift_bytes (TFlag b) = []"
| "thrift_bytes (TByte b) = [b]"
| "thrift_bytes (TShort i) = write_varint (unzigzag i)"
| "thrift_bytes (TInt i) = write_varint (unzigzag i)"
| "thrift_bytes (TLong i) = write_varint (unzigzag i)"
| "thrift_bytes (TReal bs) = bs"
| "thrift_bytes (TBytes bs) = write_varint (length bs) @ bs"
| "thrift_bytes (TSeq ty es) = write_list_header ty (length es) @ elements_bytes es"
| "thrift_bytes (TRecord fs) = fields_bytes 0 fs"
| "elements_bytes [] = []"
| "elements_bytes (e # es) = (case e of TFlag b \<Rightarrow> [if b then 1 else 2] | _ \<Rightarrow> thrift_bytes e) @ elements_bytes es"
| "fields_bytes prev [] = [0]"
| "fields_bytes prev ((fid, t) # fs) = write_header prev fid (type_code t) @ thrift_bytes t @ fields_bytes fid fs"

section \<open>What the protocol and the budgets ask for\<close>

fun well_formed :: "thrift \<Rightarrow> bool" and fields_formed :: "nat \<Rightarrow> (nat \<times> thrift) list \<Rightarrow> bool" where
  "well_formed (TFlag b) = True"
| "well_formed (TByte b) = True"
| "well_formed (TShort i) = (- (2 ^ 15) \<le> i \<and> i < 2 ^ 15)"
| "well_formed (TInt i) = (- (2 ^ 31) \<le> i \<and> i < 2 ^ 31)"
| "well_formed (TLong i) = (- (2 ^ 63) \<le> i \<and> i < 2 ^ 63)"
| "well_formed (TReal bs) = (length bs = 8)"
| "well_formed (TBytes bs) = (length bs < 2 ^ 32)"
| "well_formed (TSeq ty es) = (length es < 2 ^ 32 \<and> ty < 16
     \<and> (\<forall>e \<in> set es. list_type (type_code e) = list_type ty \<and> well_formed e))"
| "well_formed (TRecord fs) = fields_formed 0 fs"
| "fields_formed prev [] = True"
| "fields_formed prev ((fid, t) # fs) = (prev < fid \<and> fid < 2 ^ 15 \<and> well_formed t \<and> fields_formed fid fs)"

fun fits :: "thrift_options \<Rightarrow> nat \<Rightarrow> thrift \<Rightarrow> bool" where
  "fits options depth (TBytes bs) = (int (length bs) \<le> maxBinaryLength options)"
| "fits options depth (TSeq ty es) = (int (length es) \<le> maxCollectionLength options
     \<and> (\<forall>e \<in> set es. int (depth + 1) \<le> maxDepth options \<and> fits options (depth + 1) e))"
| "fits options depth (TRecord fs) = (int (depth + 1) \<le> maxDepth options
     \<and> (\<forall>(fid, t) \<in> set fs. fits options (depth + 1) t))"
| "fits options depth t = True"

text \<open>A sum over a structure and everything inside it.\<close>

fun weigh :: "(thrift \<Rightarrow> nat) \<Rightarrow> thrift \<Rightarrow> nat" and weigh_elements :: "(thrift \<Rightarrow> nat) \<Rightarrow> thrift list \<Rightarrow> nat"
  and weigh_fields :: "(thrift \<Rightarrow> nat) \<Rightarrow> (nat \<times> thrift) list \<Rightarrow> nat" where
  "weigh w (TSeq ty es) = w (TSeq ty es) + weigh_elements w es"
| "weigh w (TRecord fs) = w (TRecord fs) + weigh_fields w fs"
| "weigh w t = w t"
| "weigh_elements w [] = 0"
| "weigh_elements w (e # es) = weigh w e + weigh_elements w es"
| "weigh_fields w [] = 0"
| "weigh_fields w ((fid, t) # fs) = weigh w t + weigh_fields w fs"

fun own_elements :: "thrift \<Rightarrow> nat" where
  "own_elements (TSeq ty es) = length es"
| "own_elements t = 0"

fun own_fields :: "thrift \<Rightarrow> nat" where
  "own_fields (TRecord fs) = length fs"
| "own_fields t = 0"

fun own_structs :: "thrift \<Rightarrow> nat" where
  "own_structs (TRecord fs) = 1"
| "own_structs t = 0"

text \<open>The reports of a scan, in the order in which the fields end.\<close>

fun value_of :: "thrift \<Rightarrow> thrift_value option" where
  "value_of (TFlag b) = Some (BooleanValue b)"
| "value_of (TByte b) = Some (NumberValue (uint b))"
| "value_of (TShort i) = Some (NumberValue i)"
| "value_of (TInt i) = Some (NumberValue i)"
| "value_of (TLong i) = Some (BigIntValue i)"
| "value_of t = None"

fun captured :: "js_string \<Rightarrow> thrift \<Rightarrow> (js_string \<times> thrift_field) list"
  and captured_elements :: "js_string \<Rightarrow> thrift list \<Rightarrow> (js_string \<times> thrift_field) list"
  and captured_fields :: "js_string \<Rightarrow> (nat \<times> thrift) list \<Rightarrow> (js_string \<times> thrift_field) list" where
  "captured path (TSeq ty es) = captured_elements (path @ js ''[]'') es"
| "captured path (TRecord fs) = captured_fields path fs"
| "captured path t = []"
| "captured_elements path [] = []"
| "captured_elements path (e # es) = captured path e @ captured_elements path es"
| "captured_fields path [] = []"
| "captured_fields path ((fid, t) # fs) =
     captured (field_path path (int fid)) t
     @ (field_path path (int fid), \<lparr>tf_type = type_code t, tf_value = value_of t\<rparr>) # captured_fields path fs"

section \<open>Reading back numbers\<close>

text \<open>The bytes \<open>bs\<close> are the next ones, and the reader after them.\<close>

definition coming :: "thrift_reader \<Rightarrow> 8 word list \<Rightarrow> bool" where
  "coming r bs \<longleftrightarrow> prefix bs (drop (rd_offset r) (rd_input r))"

definition forward :: "nat \<Rightarrow> thrift_reader \<Rightarrow> thrift_reader" where
  "forward n r = r\<lparr>rd_offset := rd_offset r + n\<rparr>"

lemma forward_simps [simp]:
  "rd_input (forward n r) = rd_input r" "rd_options (forward n r) = rd_options r" "rd_fields (forward n r) = rd_fields r"
  "rd_offset (forward n r) = rd_offset r + n" "rd_elements (forward n r) = rd_elements r"
  "rd_total_fields (forward n r) = rd_total_fields r" "rd_structs (forward n r) = rd_structs r"
  "forward m (forward n r) = forward (n + m) r" "forward 0 r = r"
  by (simp_all add: forward_def add.assoc)

lemma prefix_append_drop: "prefix (a @ b) ys \<longleftrightarrow> prefix a ys \<and> prefix b (drop (length a) ys)"
  by (auto simp: prefix_def)

lemma coming_append: "coming r (a @ b) \<longleftrightarrow> coming r a \<and> coming (forward (length a) r) b"
proof -
  have "drop (rd_offset (forward (length a) r)) (rd_input r) = drop (length a) (drop (rd_offset r) (rd_input r))"
    by (simp add: add.commute)
  then show ?thesis unfolding coming_def by (simp only: prefix_append_drop forward_simps(1))
qed

lemma coming_Cons: "coming r (b # bs) \<longleftrightarrow> coming r [b] \<and> coming (forward 1 r) bs"
  using coming_append [of r "[b]" bs] by simp

lemma coming_length: "coming r bs \<Longrightarrow> bs \<noteq> [] \<Longrightarrow> rd_offset r + length bs \<le> length (rd_input r)"
  unfolding coming_def using prefix_length_le by (cases bs) fastforce+

lemma readByte_coming: "coming r [b] \<Longrightarrow> readByte r = Inr (b, forward 1 r)"
proof -
  assume next_byte: "coming r [b]"
  have pos: "rd_offset r < length (rd_input r)" using coming_length [OF next_byte] by simp
  have "b = rd_input r ! rd_offset r" using next_byte pos by (auto simp: coming_def prefix_def Cons_nth_drop_Suc [symmetric])
  then show ?thesis using pos by (simp add: readByte_def requireBytes_def forward_def)
qed

lemma skipBytes_coming:
  "coming r bs \<Longrightarrow> rd_offset r \<le> length (rd_input r) \<Longrightarrow> skipBytes r (int (length bs)) = Inr (forward (length bs) r)"
  using prefix_length_le [of bs "drop (rd_offset r) (rd_input r)"]
  by (auto simp: skipBytes_def requireBytes_def forward_def ensure_def coming_def)

lemma or_push_add:
  assumes "0 \<le> v" "v < 2 ^ k"
  shows "v OR push_bit k b = v + push_bit k (b :: int)"
proof (rule disjunctive_add [symmetric])
  fix n
  have "take_bit k v = v" using assms by (simp add: take_bit_int_eq_self)
  then have "bit v n \<Longrightarrow> n < k" by (metis bit_take_bit_iff)
  then show "\<not> bit v n \<or> \<not> bit (push_bit k b) n" by (auto simp: bit_push_bit_iff)
qed

lemma low_bits: "uint (of_nat n AND 0x7f :: 8 word) = int (n mod 128)"
proof -
  have "(0x7f :: 8 word) = mask 7" by (simp add: mask_eq_exp_minus_1)
  then have "uint (of_nat n AND 0x7f :: 8 word) = take_bit 7 (uint (of_nat n :: 8 word))"
    by (simp only: take_bit_eq_mask [symmetric] unsigned_take_bit_eq)
  then show ?thesis by (simp add: unsigned_of_nat take_bit_of_nat take_bit_eq_mod zmod_int mod_mod_cancel)
qed

lemma high_bit: "(of_nat n :: 8 word) AND 0x80 = 0 \<longleftrightarrow> n mod 256 < 128"
proof -
  have "(0x80 :: 8 word) = 2 ^ 7" by simp
  then have "((of_nat n :: 8 word) AND 0x80 = 0) = (\<not> bit (of_nat n :: 8 word) 7)"
    by (simp only: and_exp_eq_0_iff_not_bit)
  also have "\<dots> = even (n div 128)" by (simp add: bit_of_nat_iff bit_nat_def)
  also have "\<dots> \<longleftrightarrow> n mod 256 < 128"
  proof -
    have "n mod 256 = 128 * (n div 128 mod 2) + n mod 128" using mod_mult2_eq [of n 128 2] by simp
    then show ?thesis by (cases "even (n div 128)") (simp_all add: even_iff_mod_2_eq_zero odd_iff_mod_2_eq_one)
  qed
  finally show ?thesis .
qed

lemma zigzag_unzigzag: "zigzag (int (unzigzag i)) = i"
proof (cases "0 \<le> i")
  case True
  then have "int (unzigzag i) = 2 * i" by (simp add: unzigzag_def)
  moreover have "2 * i AND 1 = 0" by (simp add: and_one_eq)
  moreover have "drop_bit 1 (2 * i) = i" by (simp add: drop_bit_int_def)
  ultimately show ?thesis by (simp add: zigzag_def)
next
  case False
  then have "int (unzigzag i) = 2 * (- i - 1) + 1" by (simp add: unzigzag_def)
  moreover have "(2 * (- i - 1) + 1) AND 1 = (1 :: int)" by (simp add: and_one_eq mod_2_eq_odd)
  moreover have "drop_bit 1 (2 * (- i - 1) + 1) = - i - 1" by (simp add: drop_bit_int_def)
  ultimately show ?thesis by (simp add: zigzag_def not_int_def [symmetric] del: distrib_left_numeral)
qed

lemma unzigzag_bound: "- (2 ^ k) \<le> i \<Longrightarrow> i < 2 ^ k \<Longrightarrow> unzigzag i < 2 ^ (k + 1)"
  by (auto simp: unzigzag_def nat_less_iff)

lemma varint_coming:
  assumes "coming r (write_varint n)" "n < 128 ^ turns" "0 \<le> v" "v < 2 ^ (7 * i)" "0 < turns"
  shows "varint_loop r turns i v = Inr (v + int n * 2 ^ (7 * i), forward (length (write_varint n)) r)"
  using assms
proof (induction turns arbitrary: r n v i)
  case (Suc turns)
  let ?k = "7 * i"
  define b where "b = (if n < 128 then of_nat n else of_nat (n mod 128 + 128) :: 8 word)"
  have bytes: "write_varint n = b # (if n < 128 then [] else write_varint (n div 128))"
    by (subst write_varint.simps) (simp add: b_def)
  have next_byte: "coming r [b]" and rest: "\<not> n < 128 \<Longrightarrow> coming (forward 1 r) (write_varint (n div 128))"
    using Suc.prems(1) coming_Cons [of r b "if n < 128 then [] else write_varint (n div 128)"] by (simp_all add: bytes)
  note read = readByte_coming [OF next_byte]
  have low: "uint (b AND 0x7f) = int (n mod 128)"
    using low_bits [of n] low_bits [of "n mod 128 + 128"] by (simp add: b_def)
  have high: "b AND 0x80 = 0 \<longleftrightarrow> n < 128"
    using high_bit [of n] high_bit [of "n mod 128 + 128"] by (auto simp: b_def)
  have step: "v OR push_bit ?k (uint (b AND 0x7f)) = v + int (n mod 128) * 2 ^ ?k"
    using or_push_add [OF Suc.prems(3,4)] low by (simp add: push_bit_eq_mult)
  show ?case
  proof (cases "n < 128")
    case True
    then show ?thesis using read step high bytes by (simp add: Let_def mult.commute [of 7])
  next
    case False
    have "int (n mod 128) * 2 ^ ?k \<le> 127 * 2 ^ ?k" by (intro mult_right_mono) (auto simp: zmod_int)
    then have "v + int (n mod 128) * 2 ^ ?k < 128 * 2 ^ ?k" using Suc.prems(4) by linarith
    then have bound: "v + int (n mod 128) * 2 ^ ?k < 2 ^ (7 * (i + 1))" by (simp add: power_add)
    have small: "n div 128 < 128 ^ turns" using Suc.prems(2) by (simp add: div_less_iff_less_mult mult.commute)
    have sum: "v + int (n mod 128) * 2 ^ ?k + int (n div 128) * 2 ^ (7 * (i + 1)) = v + int n * 2 ^ ?k"
    proof -
      have "int n = int (n mod 128) + 128 * int (n div 128)" by (simp add: zmod_int zdiv_int)
      then show ?thesis by (simp add: power_add algebra_simps)
    qed
    have "0 < turns" using small False by (cases turns) auto
    note IH = Suc.IH [OF rest [OF False] small _ bound this]
    show ?thesis using IH Suc.prems(3) read step high bytes False sum by (simp add: Let_def mult.commute [of 7])
  qed
qed simp

lemma unsigned_coming:
  "coming r (write_varint n) \<Longrightarrow> n < 128 ^ turns \<Longrightarrow> 0 < turns
    \<Longrightarrow> readUnsignedBigInt r turns = Inr (int n, forward (length (write_varint n)) r)"
  using varint_coming [of r n turns 0 0] by (simp add: readUnsignedBigInt_def)

lemma number_coming:
  assumes "coming r (write_varint (unzigzag i))" "unzigzag i < 128 ^ turns" "0 < turns" "- (2 ^ 31) \<le> i" "i < 2 ^ 31"
  shows "readZigZagNumber r turns = Inr (i, forward (length (write_varint (unzigzag i))) r)"
  using unsigned_coming [OF assms(1-3)] assms(4,5)
  by (simp add: readZigZagNumber_def zigzag_unzigzag is_safe_integer_def)

lemma long_coming:
  assumes "coming r (write_varint (unzigzag i))" "- (2 ^ 63) \<le> i" "i < 2 ^ 63"
  shows "readZigZagBigInt r = Inr (i, forward (length (write_varint (unzigzag i))) r)"
proof -
  have "unzigzag i < 2 ^ 64" using unzigzag_bound [OF assms(2,3)] by simp
  then have "unzigzag i < 128 ^ 10" by simp
  from unsigned_coming [OF assms(1) this] show ?thesis by (simp add: readZigZagBigInt_def zigzag_unzigzag)
qed

lemma count_coming:
  assumes "coming r (write_varint n)" "n < 2 ^ 32"
  shows "readUnsignedNumber r 5 = Inr (int n, forward (length (write_varint n)) r)"
proof -
  have "n < 128 ^ 5" using assms(2) by simp
  from unsigned_coming [OF assms(1) this] show ?thesis
    using assms(2) by (simp add: readUnsignedNumber_def is_safe_integer_def)
qed

lemma nibbles_bits:
  assumes "high < 16" "low < 16"
  shows "unat (nibbles high low AND 0x0f) = low" "uint (drop_bit 4 (nibbles high low)) = int high"
proof -
  have val: "unat (nibbles high low) = 16 * high + low"
    unfolding nibbles_def by (subst unat_of_nat) (use assms in simp)
  have "(0x0f :: 8 word) = mask 4" by (simp add: mask_eq_exp_minus_1)
  then have "unat (nibbles high low AND 0x0f) = take_bit 4 (unat (nibbles high low))"
    by (simp only: take_bit_eq_mask [symmetric] unsigned_take_bit_eq)
  then show "unat (nibbles high low AND 0x0f) = low" using assms by (simp add: val take_bit_eq_mod)
  have "unat (drop_bit 4 (nibbles high low)) = drop_bit 4 (unat (nibbles high low))" by (rule unat_drop_bit_eq)
  also have "\<dots> = high" using assms by (simp add: val drop_bit_eq_div)
  finally show "uint (drop_bit 4 (nibbles high low)) = int high" by (simp add: uint_nat)
qed

lemma varint_not_Nil [simp]: "write_varint n \<noteq> []"
  by (simp add: write_varint.simps)

lemma field_header_coming:
  assumes "coming r (write_header prev fid ty)" "prev < fid" "fid < 2 ^ 15" "0 < ty" "ty < 16"
    and "int (rd_total_fields r + 1) \<le> maxTotalFields (rd_options r)"
  shows "field_header r (int prev) = Inr (Some (ty, int fid),
    (forward (length (write_header prev fid ty)) r)\<lparr>rd_total_fields := rd_total_fields r + 1\<rparr>)"
proof (cases "fid - prev < 16")
  case True
  then have bytes: "write_header prev fid ty = [nibbles (fid - prev) ty]" by (simp add: write_header_def)
  then show ?thesis
    using readByte_coming [of r "nibbles (fid - prev) ty"] assms True
    by (simp add: field_header_def nibbles_bits Let_def T_STOP_def)
next
  case False
  then have bytes: "write_header prev fid ty = nibbles 0 ty # write_varint (unzigzag (int fid))" by (simp add: write_header_def)
  have parts: "coming r [nibbles 0 ty]" "coming (forward 1 r) (write_varint (unzigzag (int fid)))"
    using assms(1) coming_Cons unfolding bytes by blast+
  have "unzigzag (int fid) < 128 ^ 3" using assms(3) by (simp add: unzigzag_def)
  note number = number_coming [OF parts(2) this]
  show ?thesis
    using readByte_coming [OF parts(1)] number assms by (simp add: field_header_def nibbles_bits Let_def T_STOP_def bytes)
qed

lemma stop_coming: "coming r [0] \<Longrightarrow> field_header r prev = Inr (None, forward 1 r)"
  using readByte_coming [of r 0] by (simp add: field_header_def T_STOP_def)

lemma list_header_coming:
  assumes "coming r (write_list_header ty n)" "ty < 16" "n < 2 ^ 32"
    and "int n \<le> maxCollectionLength (rd_options r)" "int (rd_elements r + n) \<le> maxTotalCollectionElements (rd_options r)"
  shows "list_header r = Inr ((ty, int n),
    (forward (length (write_list_header ty n)) r)\<lparr>rd_elements := rd_elements r + n\<rparr>)"
proof (cases "n < 15")
  case True
  then have bytes: "write_list_header ty n = [nibbles n ty]" by (simp add: write_list_header_def)
  then show ?thesis
    using readByte_coming [of r "nibbles n ty"] assms True by (simp add: list_header_def nibbles_bits Let_def)
next
  case False
  then have bytes: "write_list_header ty n = nibbles 15 ty # write_varint n" by (simp add: write_list_header_def)
  have parts: "coming r [nibbles 15 ty]" "coming (forward 1 r) (write_varint n)"
    using assms(1) coming_Cons unfolding bytes by blast+
  show ?thesis
    using readByte_coming [OF parts(1)] count_coming [OF parts(2) assms(3)] assms
    by (simp add: list_header_def nibbles_bits Let_def bytes)
qed

section \<open>Reading back structures\<close>

text \<open>The reader after \<open>n\<close> bytes that hold so many elements, fields and structures, and its budgets for them.\<close>

definition after :: "thrift_reader \<Rightarrow> nat \<Rightarrow> nat \<Rightarrow> nat \<Rightarrow> nat \<Rightarrow> (js_string \<times> thrift_field) list \<Rightarrow> thrift_reader" where
  "after r n e f s caps = r\<lparr>rd_offset := rd_offset r + n, rd_elements := rd_elements r + e,
     rd_total_fields := rd_total_fields r + f, rd_structs := rd_structs r + s,
     rd_fields := rd_fields r @ (if captureFields (rd_options r) then caps else [])\<rparr>"

definition room :: "thrift_reader \<Rightarrow> nat \<Rightarrow> nat \<Rightarrow> nat \<Rightarrow> (js_string \<times> thrift_field) list \<Rightarrow> bool" where
  "room r e f s caps \<longleftrightarrow> int (rd_elements r + e) \<le> maxTotalCollectionElements (rd_options r)
     \<and> int (rd_total_fields r + f) \<le> maxTotalFields (rd_options r)
     \<and> int (rd_structs r + s) \<le> maxTotalStructs (rd_options r)
     \<and> (captureFields (rd_options r) \<longrightarrow> distinct (map fst (rd_fields r @ caps)))"

lemma after_simps [simp]:
  "rd_input (after r n e f s caps) = rd_input r" "rd_options (after r n e f s caps) = rd_options r"
  "after (after r n e f s caps) n' e' f' s' caps' = after r (n + n') (e + e') (f + f') (s + s') (caps @ caps')"
  by (simp_all add: after_def add.assoc)

lemma forward_after: "forward n r = after r n 0 0 0 []"
  by (simp add: forward_def after_def)

lemma room_split:
  "room r (e + e') (f + f') (s + s') (caps @ caps') \<Longrightarrow> room r e f s caps \<and> room (after r n e f s caps) e' f' s' caps'"
  by (auto simp: room_def after_def)

lemma coming_after: "coming (after r n e f s caps) bs \<longleftrightarrow> coming (forward n r) bs"
  by (simp add: coming_def after_def)

lemma map_set_fresh: "k \<notin> fst ` set m \<Longrightarrow> map_set k v m = m @ [(k, v)]"
  by (induction m) auto

lemma capture_room:
  assumes "room r e f s ((path, \<lparr>tf_type = ty, tf_value = v\<rparr>) # caps)"
  shows "capture_field r path ty v = Inr (after r 0 0 0 0 [(path, \<lparr>tf_type = ty, tf_value = v\<rparr>)])"
proof (cases "captureFields (rd_options r)")
  case True
  then have "path \<notin> fst ` set (rd_fields r)" using assms by (auto simp: room_def)
  then show ?thesis using True by (simp add: capture_field_def after_def map_set_fresh map_get_def map_of_eq_None_iff)
qed (simp add: capture_field_def after_def)

definition reads_back :: "thrift_options \<Rightarrow> js_string \<Rightarrow> thrift \<Rightarrow> bool" where
  "reads_back options path t \<longleftrightarrow> (\<forall>r depth. coming r (thrift_bytes t) \<longrightarrow> well_formed t \<longrightarrow> fits options depth t
     \<longrightarrow> int depth \<le> maxDepth options \<longrightarrow> rd_options r = options
     \<longrightarrow> room r (weigh own_elements t) (weigh own_fields t) (weigh own_structs t) (captured path t)
     \<longrightarrow> scanElement r (type_code t) depth path = Inr (value_of t,
          after r (length (thrift_bytes t)) (weigh own_elements t) (weigh own_fields t) (weigh own_structs t) (captured path t)))"

definition reads_back_elements :: "thrift_options \<Rightarrow> js_string \<Rightarrow> thrift list \<Rightarrow> bool" where
  "reads_back_elements options path es \<longleftrightarrow> (\<forall>r depth ty. coming r (elements_bytes es)
     \<longrightarrow> (\<forall>e \<in> set es. list_type (type_code e) = ty \<and> well_formed e \<and> fits options depth e \<and> int depth \<le> maxDepth options)
     \<longrightarrow> rd_options r = options
     \<longrightarrow> room r (weigh_elements own_elements es) (weigh_elements own_fields es) (weigh_elements own_structs es) (captured_elements path es)
     \<longrightarrow> list_elements r (length es) ty depth path = Inr (after r (length (elements_bytes es))
          (weigh_elements own_elements es) (weigh_elements own_fields es) (weigh_elements own_structs es) (captured_elements path es)))"

definition reads_back_fields :: "thrift_options \<Rightarrow> js_string \<Rightarrow> (nat \<times> thrift) list \<Rightarrow> bool" where
  "reads_back_fields options path fs \<longleftrightarrow> (\<forall>r depth prev. coming r (fields_bytes prev fs) \<longrightarrow> fields_formed prev fs
     \<longrightarrow> (\<forall>(fid, t) \<in> set fs. fits options depth t) \<longrightarrow> int depth \<le> maxDepth options \<longrightarrow> rd_options r = options
     \<longrightarrow> room r (weigh_fields own_elements fs) (length fs + weigh_fields own_fields fs) (weigh_fields own_structs fs) (captured_fields path fs)
     \<longrightarrow> struct_fields r depth path (int prev) = Inr (after r (length (fields_bytes prev fs))
          (weigh_fields own_elements fs) (length fs + weigh_fields own_fields fs) (weigh_fields own_structs fs) (captured_fields path fs)))"

text \<open>A value that holds no other one.\<close>

lemma scalar_coming:
  assumes "coming r (thrift_bytes t)" "well_formed t" "fits (rd_options r) depth t" "type_code t \<noteq> T_LIST" "type_code t \<noteq> T_STRUCT"
  shows "scan_scalar r (type_code t) = Inr (value_of t, forward (length (thrift_bytes t)) r)"
proof (cases t)
  case (TShort i)
  then have "unzigzag i < 128 ^ 5" using assms(2) unzigzag_bound [of 15 i] by simp
  then show ?thesis using assms(1,2) TShort number_coming [of r i 5] by (simp add: scan_scalar_def thrift_types)
next
  case (TInt i)
  then have "unzigzag i < 128 ^ 5" using assms(2) unzigzag_bound [of 31 i] by simp
  then show ?thesis using assms(1,2) TInt number_coming [of r i 5] by (simp add: scan_scalar_def thrift_types)
next
  case (TBytes bs)
  have parts: "coming r (write_varint (length bs))" "coming (forward (length (write_varint (length bs))) r) bs"
    using assms(1) TBytes coming_append by auto
  have "length bs < 2 ^ 32" using assms(2) TBytes by simp
  note number = count_coming [OF parts(1) this]
  have "rd_offset r + length (write_varint (length bs)) \<le> length (rd_input r)" by (rule coming_length [OF parts(1)]) simp
  then have "skipBytes (forward (length (write_varint (length bs))) r) (int (length bs))
      = Inr (forward (length (write_varint (length bs)) + length bs) r)"
    using skipBytes_coming [OF parts(2)] by simp
  then show ?thesis using number assms(3) TBytes by (simp add: scan_scalar_def thrift_types)
next
  case (TReal bs)
  then have eight: "length bs = 8" and bs: "coming r bs" using assms(1,2) by simp_all
  then have "rd_offset r \<le> length (rd_input r)" using coming_length [OF bs] by fastforce
  with bs have "skipBytes r (int (length bs)) = Inr (forward (length bs) r)" by (rule skipBytes_coming)
  then show ?thesis using eight TReal by (simp add: scan_scalar_def thrift_types)
qed (use assms readByte_coming long_coming in \<open>auto simp: scan_scalar_def thrift_types\<close>)

lemma scalar_reads_back:
  assumes "type_code t \<noteq> T_LIST" "type_code t \<noteq> T_STRUCT"
  shows "reads_back options path t"
  unfolding reads_back_def
proof (intro allI impI)
  fix r depth
  assume *: "coming r (thrift_bytes t)" "well_formed t" "fits options depth t" "int depth \<le> maxDepth options" "rd_options r = options"
  have "weigh own_elements t = 0" "weigh own_fields t = 0" "weigh own_structs t = 0" "captured path t = []"
    using assms by (cases t; simp)+
  moreover have "scan_scalar r (type_code t) = Inr (value_of t, forward (length (thrift_bytes t)) r)"
    using scalar_coming [OF *(1,2)] * assms by simp
  ultimately show "scanElement r (type_code t) depth path = Inr (value_of t,
      after r (length (thrift_bytes t)) (weigh own_elements t) (weigh own_fields t) (weigh own_structs t) (captured path t))"
    using assms * by (simp add: scanElement.simps forward_after)
qed

text \<open>An element of a list; a Boolean is read as a byte there.\<close>

lemma element_reads_back:
  assumes "reads_back options path e" "coming r (elements_bytes [e])" "well_formed e" "fits options depth e"
    and "int depth \<le> maxDepth options" "rd_options r = options"
    and "room r (weigh own_elements e) (weigh own_fields e) (weigh own_structs e) (captured path e)"
  shows "\<exists>v. scanElement r (list_type (type_code e)) depth path = Inr (v, after r (length (elements_bytes [e]))
    (weigh own_elements e) (weigh own_fields e) (weigh own_structs e) (captured path e))"
proof (cases "\<exists>b. e = TFlag b")
  case True
  then obtain b where e: "e = TFlag b" by blast
  then have "readByte r = Inr (if b then 1 else 2, forward 1 r)" using assms(2) readByte_coming by simp
  then show ?thesis using assms(5,6) e by (simp add: scanElement.simps scan_scalar_def list_type_def thrift_types forward_after)
next
  case False
  then have bytes: "elements_bytes [e] = thrift_bytes e" and ty: "list_type (type_code e) = type_code e"
    by (cases e; simp add: list_type_def thrift_types)+
  show ?thesis using assms unfolding bytes ty reads_back_def by blast
qed

lemma elements_Cons: "elements_bytes (e # es) = elements_bytes [e] @ elements_bytes es"
  by simp

lemma elements_step:
  assumes "reads_back options path e" "reads_back_elements options path es"
  shows "reads_back_elements options path (e # es)"
  unfolding reads_back_elements_def
proof (intro allI impI)
  fix r depth ty
  assume coming: "coming r (elements_bytes (e # es))" and options: "rd_options r = options"
    and all: "\<forall>x \<in> set (e # es). list_type (type_code x) = ty \<and> well_formed x \<and> fits options depth x \<and> int depth \<le> maxDepth options"
    and room: "room r (weigh_elements own_elements (e # es)) (weigh_elements own_fields (e # es))
      (weigh_elements own_structs (e # es)) (captured_elements path (e # es))"
  let ?r1 = "after r (length (elements_bytes [e])) (weigh own_elements e) (weigh own_fields e) (weigh own_structs e) (captured path e)"
  note parts = coming [unfolded elements_Cons [of e es] coming_append]
  have rooms: "room r (weigh own_elements e) (weigh own_fields e) (weigh own_structs e) (captured path e)"
    "room ?r1 (weigh_elements own_elements es) (weigh_elements own_fields es) (weigh_elements own_structs es) (captured_elements path es)"
    using room_split room unfolding weigh_elements.simps captured_elements.simps by blast+
  obtain v where first: "scanElement r ty depth path = Inr (v, ?r1)"
    using element_reads_back [OF assms(1) _ _ _ _ options rooms(1), of depth] parts all by auto
  have "list_elements ?r1 (length es) ty depth path = Inr (after ?r1 (length (elements_bytes es))
      (weigh_elements own_elements es) (weigh_elements own_fields es) (weigh_elements own_structs es) (captured_elements path es))"
    by (rule assms(2) [unfolded reads_back_elements_def, rule_format])
      (use parts all options rooms(2) in \<open>simp_all add: coming_after del: elements_bytes.simps\<close>)
  then show "list_elements r (length (e # es)) ty depth path = Inr (after r (length (elements_bytes (e # es)))
      (weigh_elements own_elements (e # es)) (weigh_elements own_fields (e # es)) (weigh_elements own_structs (e # es))
      (captured_elements path (e # es)))"
    using first unfolding elements_Cons [of e es] length_append by (simp add: list_elements.simps del: elements_bytes.simps)
qed

lemma list_step:
  assumes "reads_back_elements options (path @ js ''[]'') es"
  shows "reads_back options path (TSeq ty es)"
  unfolding reads_back_def
proof (intro allI impI)
  fix r depth
  assume coming: "coming r (thrift_bytes (TSeq ty es))" and wf: "well_formed (TSeq ty es)" and fits: "fits options depth (TSeq ty es)"
    and deep: "int depth \<le> maxDepth options" and options: "rd_options r = options"
    and room: "room r (weigh own_elements (TSeq ty es)) (weigh own_fields (TSeq ty es)) (weigh own_structs (TSeq ty es)) (captured path (TSeq ty es))"
  let ?n = "length es" and ?h = "write_list_header ty (length es)"
  let ?r1 = "after r (length ?h) ?n 0 0 []"
  have parts: "coming r ?h" "coming (forward (length ?h) r) (elements_bytes es)" using coming by (simp_all add: coming_append)
  have rooms: "room r ?n 0 0 []" "room ?r1 (weigh_elements own_elements es) (weigh_elements own_fields es)
      (weigh_elements own_structs es) (captured_elements (path @ js ''[]'') es)"
    using room_split [of r ?n _ 0 _ 0 _ "[]"] room by auto
  have "list_header r = Inr ((ty, int ?n), ?r1)"
    using list_header_coming [OF parts(1)] wf fits rooms(1) options by (simp add: room_def after_def forward_def)
  moreover have "list_elements ?r1 ?n (list_type ty) (depth + 1) (path @ js ''[]'') = Inr (after ?r1 (length (elements_bytes es))
      (weigh_elements own_elements es) (weigh_elements own_fields es) (weigh_elements own_structs es)
      (captured_elements (path @ js ''[]'') es))"
    by (rule assms [unfolded reads_back_elements_def, rule_format])
      (use parts wf fits options rooms(2) in \<open>simp_all add: coming_after\<close>)
  ultimately show "scanElement r (type_code (TSeq ty es)) depth path = Inr (value_of (TSeq ty es),
      after r (length (thrift_bytes (TSeq ty es))) (weigh own_elements (TSeq ty es)) (weigh own_fields (TSeq ty es))
        (weigh own_structs (TSeq ty es)) (captured path (TSeq ty es)))"
    using deep options by (simp add: scanElement.simps)
qed

lemma record_scan:
  assumes "reads_back_fields options path fs" "coming r (thrift_bytes (TRecord fs))" "fields_formed 0 fs"
    and "\<forall>(fid, t) \<in> set fs. fits options depth t" "int depth \<le> maxDepth options" "rd_options r = options"
    and "room r (weigh own_elements (TRecord fs)) (weigh own_fields (TRecord fs)) (weigh own_structs (TRecord fs)) (captured path (TRecord fs))"
  shows "scanStruct r depth path = Inr (after r (length (thrift_bytes (TRecord fs))) (weigh own_elements (TRecord fs))
    (weigh own_fields (TRecord fs)) (weigh own_structs (TRecord fs)) (captured path (TRecord fs)))"
proof -
  let ?r1 = "after r 0 0 0 1 []"
  have rooms: "room r 0 0 1 []" "room ?r1 (weigh_fields own_elements fs) (length fs + weigh_fields own_fields fs)
      (weigh_fields own_structs fs) (captured_fields path fs)"
    using room_split [of r 0 _ 0 _ 1 _ "[]"] assms(7) by auto
  have "struct_fields ?r1 depth path (int 0) = Inr (after ?r1 (length (fields_bytes 0 fs)) (weigh_fields own_elements fs)
      (length fs + weigh_fields own_fields fs) (weigh_fields own_structs fs) (captured_fields path fs))"
    by (rule assms(1) [unfolded reads_back_fields_def, rule_format])
      (use assms(2-6) rooms(2) in \<open>auto simp: coming_after\<close>)
  moreover have "r\<lparr>rd_structs := rd_structs r + 1\<rparr> = ?r1" by (simp add: after_def)
  ultimately show ?thesis using assms(5,6) rooms(1) by (simp add: scanStruct.simps room_def)
qed

lemma record_step:
  assumes "reads_back_fields options path fs"
  shows "reads_back options path (TRecord fs)"
  unfolding reads_back_def
proof (intro allI impI)
  fix r depth
  assume *: "coming r (thrift_bytes (TRecord fs))" "well_formed (TRecord fs)" "fits options depth (TRecord fs)"
    "int depth \<le> maxDepth options" "rd_options r = options"
    "room r (weigh own_elements (TRecord fs)) (weigh own_fields (TRecord fs)) (weigh own_structs (TRecord fs)) (captured path (TRecord fs))"
  have "scanStruct r (depth + 1) path = Inr (after r (length (thrift_bytes (TRecord fs))) (weigh own_elements (TRecord fs))
      (weigh own_fields (TRecord fs)) (weigh own_structs (TRecord fs)) (captured path (TRecord fs)))"
    by (rule record_scan [OF assms *(1) _ _ _ *(5,6)]) (use *(2,3) in simp_all)
  then show "scanElement r (type_code (TRecord fs)) depth path = Inr (value_of (TRecord fs),
      after r (length (thrift_bytes (TRecord fs))) (weigh own_elements (TRecord fs)) (weigh own_fields (TRecord fs))
        (weigh own_structs (TRecord fs)) (captured path (TRecord fs)))"
    using *(4,5) by (simp add: scanElement.simps thrift_types)
qed

lemma no_fields: "reads_back_fields options path []"
  unfolding reads_back_fields_def
proof (intro allI impI)
  fix r depth prev
  assume "coming r (fields_bytes prev [])"
  then have "field_header r (int prev) = Inr (None, forward 1 r)" using stop_coming by simp
  then show "struct_fields r depth path (int prev) = Inr (after r (length (fields_bytes prev []))
      (weigh_fields own_elements []) (length ([] :: (nat \<times> thrift) list) + weigh_fields own_fields [])
      (weigh_fields own_structs []) (captured_fields path []))"
    by (simp add: struct_fields.simps forward_after)
qed

lemma type_code_range: "0 < type_code t \<and> type_code t < 16"
  by (cases t) (simp_all add: thrift_types)

lemma field_step:
  assumes "reads_back options (field_path path (int fid)) t" "reads_back_fields options path fs"
  shows "reads_back_fields options path ((fid, t) # fs)"
  unfolding reads_back_fields_def
proof (intro allI impI)
  fix r depth prev
  assume coming: "coming r (fields_bytes prev ((fid, t) # fs))" and wf: "fields_formed prev ((fid, t) # fs)"
    and fits: "\<forall>(fid, t) \<in> set ((fid, t) # fs). fits options depth t" and deep: "int depth \<le> maxDepth options"
    and options: "rd_options r = options"
    and room: "room r (weigh_fields own_elements ((fid, t) # fs)) (length ((fid, t) # fs) + weigh_fields own_fields ((fid, t) # fs))
      (weigh_fields own_structs ((fid, t) # fs)) (captured_fields path ((fid, t) # fs))"
  let ?path = "field_path path (int fid)" and ?h = "write_header prev fid (type_code t)"
  let ?field = "(?path, \<lparr>tf_type = type_code t, tf_value = value_of t\<rparr>)"
  let ?r1 = "after r (length ?h) 0 1 0 []"
  let ?r2 = "after ?r1 (length (thrift_bytes t)) (weigh own_elements t) (weigh own_fields t) (weigh own_structs t) (captured ?path t)"
  let ?r3 = "after ?r2 0 0 0 0 [?field]"
  have parts: "coming r ?h" "coming ?r1 (thrift_bytes t)" "coming ?r3 (fields_bytes fid fs)"
    using coming by (simp_all add: coming_append coming_after add.commute)
  have r1: "room r 0 1 0 []" and rest1: "room ?r1 (weigh own_elements t + weigh_fields own_elements fs)
      (weigh own_fields t + (length fs + weigh_fields own_fields fs)) (weigh own_structs t + weigh_fields own_structs fs)
      (captured ?path t @ [?field] @ captured_fields path fs)"
    using room_split [of r 0 _ 1 _ 0 _ "[]"] room by (auto simp: add.left_commute add.assoc)
  have r2: "room ?r1 (weigh own_elements t) (weigh own_fields t) (weigh own_structs t) (captured ?path t)"
    and rest2: "room ?r2 (0 + weigh_fields own_elements fs) (0 + (length fs + weigh_fields own_fields fs))
      (0 + weigh_fields own_structs fs) ([?field] @ captured_fields path fs)"
    using room_split [OF rest1] by simp_all
  have r3: "room ?r3 (weigh_fields own_elements fs) (length fs + weigh_fields own_fields fs)
      (weigh_fields own_structs fs) (captured_fields path fs)"
    using room_split [OF rest2] by blast
  have "field_header r (int prev) = Inr (Some (type_code t, int fid), ?r1)"
    using field_header_coming [OF parts(1)] wf r1 type_code_range [of t] by (simp add: after_def forward_def room_def)
  moreover have "scanElement ?r1 (type_code t) depth ?path = Inr (value_of t, ?r2)"
    by (rule assms(1) [unfolded reads_back_def, rule_format]) (use parts(2) wf fits deep options r2 in simp_all)
  moreover have "capture_field ?r2 ?path (type_code t) (value_of t) = Inr ?r3"
    by (rule capture_room) (use rest2 in simp)
  moreover have "struct_fields ?r3 depth path (int fid) = Inr (after ?r3 (length (fields_bytes fid fs)) (weigh_fields own_elements fs)
      (length fs + weigh_fields own_fields fs) (weigh_fields own_structs fs) (captured_fields path fs))"
    by (rule assms(2) [unfolded reads_back_fields_def, rule_format]) (use parts(3) wf fits deep options r3 in auto)
  ultimately show "struct_fields r depth path (int prev) = Inr (after r (length (fields_bytes prev ((fid, t) # fs)))
      (weigh_fields own_elements ((fid, t) # fs)) (length ((fid, t) # fs) + weigh_fields own_fields ((fid, t) # fs))
      (weigh_fields own_structs ((fid, t) # fs)) (captured_fields path ((fid, t) # fs)))"
    by (simp add: struct_fields.simps add.left_commute add.assoc)
qed

lemma all_read_back:
  "reads_back options path t" "reads_back_elements options path es" "reads_back_fields options path fs"
proof (induction path t and path es and path fs rule: captured_captured_elements_captured_fields.induct)
  case (1 path ty es)
  then show ?case by (rule list_step)
next
  case (2 path fs)
  then show ?case by (rule record_step)
next
  case (4 path)
  show ?case by (simp add: reads_back_elements_def list_elements.simps after_def)
next
  case (5 path e es)
  then show ?case by (rule elements_step)
next
  case (6 path)
  show ?case by (rule no_fields)
next
  case (7 path fid t fs)
  then show ?case by (rule field_step)
qed (simp_all add: scalar_reads_back thrift_types)

text \<open>
  C31: Every structure a writer of the compact protocol may produce is read back. Its identifiers rise,
  its numbers have their widths and its lists hold elements of one type; if its lists, binaries and
  depth fit the options, its totals fit their budgets, and no two reported fields share a path, then
  the scan accepts its bytes, whatever follows them, with their exact length, and reports every field
  with its type and value, a field after the fields inside it.
\<close>

theorem thrift_read_back:
  assumes "well_formed (TRecord fs)" "\<forall>(fid, t) \<in> set fs. fits options 0 t" "0 \<le> maxDepth options"
    and "int (weigh own_elements (TRecord fs)) \<le> maxTotalCollectionElements options"
    and "int (weigh own_fields (TRecord fs)) \<le> maxTotalFields options"
    and "int (weigh own_structs (TRecord fs)) \<le> maxTotalStructs options"
    and "captureFields options \<longrightarrow> distinct (map fst (captured [] (TRecord fs)))"
  shows "preflightCompactThrift (thrift_bytes (TRecord fs) @ rest) options = Inr
    \<lparr>byteLength = length (thrift_bytes (TRecord fs)),
     thrift_fields = (if captureFields options then captured [] (TRecord fs) else [])\<rparr>"
proof -
  let ?r = "start_reader (thrift_bytes (TRecord fs) @ rest) options"
  have "scanStruct ?r 0 [] = Inr (after ?r (length (thrift_bytes (TRecord fs))) (weigh own_elements (TRecord fs))
      (weigh own_fields (TRecord fs)) (weigh own_structs (TRecord fs)) (captured [] (TRecord fs)))"
    by (rule record_scan [OF all_read_back(3) _ _ assms(2)])
      (use assms in \<open>simp_all add: coming_def room_def start_reader_def\<close>)
  then show ?thesis by (simp add: preflightCompactThrift_def after_def start_reader_def)
qed

definition example_record :: "(nat \<times> thrift) list" where
  "example_record = [(1, TInt 5), (2, TRecord [(2, TInt (-128))])]"

lemma thrift_read_back_witness:
  "thrift_bytes (TRecord example_record) = example_input
    \<and> preflightCompactThrift (example_input @ [7]) example_options = Inr \<lparr>byteLength = 8, thrift_fields =
      [(js ''1'', \<lparr>tf_type = T_I32, tf_value = Some (NumberValue 5)\<rparr>),
       (js ''2.2'', \<lparr>tf_type = T_I32, tf_value = Some (NumberValue (-128))\<rparr>),
       (js ''2'', \<lparr>tf_type = T_STRUCT, tf_value = None\<rparr>)]\<rparr>"
proof -
  have bytes: "thrift_bytes (TRecord example_record) = example_input" by code_simp
  have fields: "captured [] (TRecord example_record) =
      [(js ''1'', \<lparr>tf_type = T_I32, tf_value = Some (NumberValue 5)\<rparr>),
       (js ''2.2'', \<lparr>tf_type = T_I32, tf_value = Some (NumberValue (-128))\<rparr>),
       (js ''2'', \<lparr>tf_type = T_STRUCT, tf_value = None\<rparr>)]" by code_simp
  have "preflightCompactThrift (thrift_bytes (TRecord example_record) @ [7]) example_options = Inr
      \<lparr>byteLength = length (thrift_bytes (TRecord example_record)),
       thrift_fields = (if captureFields example_options then captured [] (TRecord example_record) else [])\<rparr>"
    by (rule thrift_read_back) (unfold fields, simp_all add: example_record_def example_options_def)
  then show ?thesis unfolding bytes fields by (simp add: example_options_def example_input_def bytes [unfolded example_input_def])
qed

end
