(* ===== verification/Catalog_Patterns.thy ===== *)
theory Catalog_Patterns
  imports Catalog_Schema
begin

text \<open>
  The regular expressions of \<open>packages/catalog/src/v2/catalog.ts\<close> for identifiers and for texts that
  people write, and the expressions that the constraints of the database apply to the same texts.
  Both look for credentials, but not in the same way: the code asks for a word boundary, the database
  does not.
\<close>

section \<open>Identifiers\<close>

definition UUID :: "js_string \<Rightarrow> bool" where
  "UUID s \<longleftrightarrow> length s = 36
     \<and> list_all (\<lambda>i. if i \<in> {8, 13, 18, 23} then s ! i = of_char CHR ''-'' else is_hex_lower (s ! i)) [0..<36]
     \<and> in_range CHR ''1'' CHR ''8'' (s ! 14) \<and> s ! 19 \<in> set (js ''89ab'')"

definition GIT_COMMIT :: "js_string \<Rightarrow> bool" where
  "GIT_COMMIT s \<longleftrightarrow> is_hex 40 s"

definition SAFE_EVALUATION_NAME :: "js_string \<Rightarrow> bool" where
  "SAFE_EVALUATION_NAME s \<longleftrightarrow> matches_name is_lower is_name_tail 127 s"

definition is_alnum :: "code_unit \<Rightarrow> bool" where
  "is_alnum c \<longleftrightarrow> is_lower c \<or> is_upper c \<or> is_digit c"

definition is_session_unit :: "code_unit \<Rightarrow> bool" where
  "is_session_unit c \<longleftrightarrow> is_alnum c \<or> c \<in> set (js ''._-'')"

definition SWIFT_PROVIDER_SESSION_ID :: "js_string \<Rightarrow> bool" where
  "SWIFT_PROVIDER_SESSION_ID s \<longleftrightarrow> matches_name is_alnum is_session_unit 255 s"

definition is_revision_unit :: "code_unit \<Rightarrow> bool" where
  "is_revision_unit c \<longleftrightarrow> is_alnum c \<or> c \<in> set (js ''._/+:-'')"

definition MODEL_REVISION :: "js_string \<Rightarrow> bool" where
  "MODEL_REVISION s \<longleftrightarrow> matches_name is_alnum is_revision_unit 255 s"

definition is_key_unit :: "code_unit \<Rightarrow> bool" where
  "is_key_unit c \<longleftrightarrow> is_alnum c \<or> c \<in> set (js ''_-'')"

definition MODEL_ARTIFACT_PROVIDER_IMPORT_ID :: "js_string \<Rightarrow> bool" where
  "MODEL_ARTIFACT_PROVIDER_IMPORT_ID s \<longleftrightarrow> has_prefix (js ''swai_'') s
     \<and> (let tail = drop 5 s in 16 \<le> length tail \<and> length tail \<le> 128 \<and> list_all is_key_unit tail)"

definition is_id_unit :: "code_unit \<Rightarrow> bool" where
  "is_id_unit c \<longleftrightarrow> is_hex_lower c \<or> c = of_char CHR ''-''"

definition MODEL_ARTIFACT_STAGING_KEY :: "js_string \<Rightarrow> bool" where
  "MODEL_ARTIFACT_STAGING_KEY s \<longleftrightarrow> has_prefix (js ''staging/swift-artifact/v1/'') s
     \<and> list_all is_id_unit (take 36 (drop 26 s)) \<and> drop 62 s = js ''/archive.tar.zst''"

definition MODEL_ARTIFACT_OBJECT_LOCATOR :: "js_string \<Rightarrow> bool" where
  "MODEL_ARTIFACT_OBJECT_LOCATOR s \<longleftrightarrow> has_prefix (js ''objects/v2/model-artifact-v1/'') s
     \<and> list_all is_hex_lower (take 2 (drop 29 s)) \<and> s ! 31 = of_char CHR ''/''
     \<and> list_all is_hex_lower (take 64 (drop 32 s)) \<and> drop 96 s = js ''.tar.zst''"

section \<open>Texts\<close>

definition is_control :: "code_unit \<Rightarrow> bool" where
  "is_control c \<longleftrightarrow> unat c \<le> 0x1f \<or> unat c = 0x7f"

definition hasControlCharacter :: "js_string \<Rightarrow> bool" where
  "hasControlCharacter s \<longleftrightarrow> list_ex is_control s"

definition is_backslash :: "code_unit \<Rightarrow> bool" where
  "is_backslash c \<longleftrightarrow> c = 0x5c"

definition lower_unit :: "code_unit \<Rightarrow> code_unit" where
  "lower_unit c = (if is_upper c then c + 32 else c)"

text \<open>A prefix under the flag \<open>i\<close>.\<close>

definition starts_with_ci :: "js_string \<Rightarrow> js_string \<Rightarrow> bool" where
  "starts_with_ci p s \<longleftrightarrow> map lower_unit (take (length p) s) = p"

definition is_word_unit :: "code_unit \<Rightarrow> bool" where
  "is_word_unit c \<longleftrightarrow> is_alnum c \<or> c = of_char CHR ''_''"

definition starts_word :: "js_string \<Rightarrow> bool" where
  "starts_word s = (case s of [] \<Rightarrow> False | c # cs \<Rightarrow> is_word_unit c)"

text \<open>The class \<open>\s\<close> of JavaScript, and \<open>[[:space:]]\<close> of the database.\<close>

definition is_js_space :: "code_unit \<Rightarrow> bool" where
  "is_js_space c \<longleftrightarrow> unat c \<in> {9, 10, 11, 12, 13, 32, 0xa0, 0x1680, 0x2028, 0x2029, 0x202f, 0x205f, 0x3000, 0xfeff}
     \<or> 0x2000 \<le> unat c \<and> unat c \<le> 0x200a"

definition is_db_space :: "code_unit \<Rightarrow> bool" where
  "is_db_space c \<longleftrightarrow> unat c \<in> {9, 10, 11, 12, 13, 32}"

text \<open>A match somewhere in a text; \<open>prev\<close> says whether a word unit precedes.\<close>

fun matches_somewhere :: "(bool \<Rightarrow> js_string \<Rightarrow> bool) \<Rightarrow> bool \<Rightarrow> js_string \<Rightarrow> bool" where
  "matches_somewhere m prev [] = m prev []"
| "matches_somewhere m prev (c # cs) = (m prev (c # cs) \<or> matches_somewhere m (is_word_unit c) cs)"

text \<open>
  \<open>[A-Za-z0-9_-]{n,}\<close>, ending at a word boundary if \<open>boundary\<close>. The optional \<open>proj-\<close> before it needs no
  case of its own, as its units belong to the class.
\<close>

fun key_units :: "bool \<Rightarrow> nat \<Rightarrow> bool \<Rightarrow> js_string \<Rightarrow> bool" where
  "key_units boundary n prev [] = (n = 0 \<and> (boundary \<longrightarrow> prev))"
| "key_units boundary n prev (c # cs) = (n = 0 \<and> (boundary \<longrightarrow> prev \<noteq> is_word_unit c)
     \<or> is_key_unit c \<and> key_units boundary (n - 1) (is_word_unit c) cs)"

definition secret_key :: "bool \<Rightarrow> bool \<Rightarrow> js_string \<Rightarrow> bool" where
  "secret_key boundary prev s \<longleftrightarrow> (boundary \<longrightarrow> \<not> prev) \<and> starts_with_ci (js ''sk-'') s \<and> key_units boundary 8 False (drop 3 s)"

definition credential_names :: "js_string list" where
  "credential_names = [js ''authorization'', js ''x-api-key'', js ''apikey'', js ''api_key'', js ''api-key'', js ''token'']"

definition assigned :: "(code_unit \<Rightarrow> bool) \<Rightarrow> bool \<Rightarrow> js_string \<Rightarrow> bool" where
  "assigned space needs_value s = (case dropWhile space s of
     [] \<Rightarrow> False
   | c # cs \<Rightarrow> c \<in> set (js '':='') \<and> (needs_value \<longrightarrow> dropWhile space cs \<noteq> []))"

definition named_secret :: "bool \<Rightarrow> (code_unit \<Rightarrow> bool) \<Rightarrow> bool \<Rightarrow> bool \<Rightarrow> js_string \<Rightarrow> bool" where
  "named_secret boundary space needs_value prev s \<longleftrightarrow> (boundary \<longrightarrow> \<not> prev)
     \<and> list_ex (\<lambda>name. starts_with_ci name s \<and> assigned space needs_value (drop (length name) s)) credential_names"

definition CREDENTIAL_VALUE :: "js_string \<Rightarrow> bool" where
  "CREDENTIAL_VALUE s \<longleftrightarrow> matches_somewhere (\<lambda>prev t. secret_key True prev t \<or> named_secret True is_js_space True prev t) False s"

text \<open>The same test in the constraints of migrations 0010, 0011 and 0012; that of 0012 needs no value after the sign.\<close>

definition db_credential :: "bool \<Rightarrow> js_string \<Rightarrow> bool" where
  "db_credential needs_value s \<longleftrightarrow>
     matches_somewhere (\<lambda>prev t. secret_key False prev t \<or> named_secret False is_db_space needs_value prev t) False s"

definition path_slash :: "code_unit \<Rightarrow> bool" where
  "path_slash c \<longleftrightarrow> c \<in> {0x2f, 0x5c}"

definition ABSOLUTE_PATH :: "js_string \<Rightarrow> bool" where
  "ABSOLUTE_PATH s \<longleftrightarrow>
     (case s of
        [] \<Rightarrow> False
      | c # cs \<Rightarrow> path_slash c
          \<or> (is_lower c \<or> is_upper c) \<and> (case cs of d # e # _ \<Rightarrow> d = of_char CHR '':'' \<and> path_slash e | _ \<Rightarrow> False)
          \<or> c = of_char CHR ''~'' \<and> (case cs of d # _ \<Rightarrow> path_slash d | _ \<Rightarrow> False)
          \<or> c = of_char CHR ''.'' \<and> (case cs of d # ds \<Rightarrow> path_slash d
               \<or> d = of_char CHR ''.'' \<and> (case ds of e # _ \<Rightarrow> path_slash e | _ \<Rightarrow> False) | _ \<Rightarrow> False))
   \<or> starts_with_ci (js ''file:'') s"

text \<open>
  Some examples. A text in which \<open>sk-\<close> continues a word is no credential to the code, but one to the
  database.
\<close>

lemmas text_pattern_defs = CREDENTIAL_VALUE_def db_credential_def secret_key_def named_secret_def assigned_def
  credential_names_def starts_with_ci_def lower_unit_def is_word_unit_def is_key_unit_def is_alnum_def char_class_defs
  is_db_space_def is_js_space_def

lemma credential_examples:
  "\<not> CREDENTIAL_VALUE (js ''disk-pressure'')" "db_credential True (js ''disk-pressure'')"
  "\<not> CREDENTIAL_VALUE (js ''eos_token=2'')" "db_credential True (js ''eos_token=2'')"
  by (simp_all add: text_pattern_defs)

end
