(* ===== verification/Studio_Schema.thy ===== *)
theory Studio_Schema
  imports Catalog_Patterns Transform_Jobs
begin

text \<open>
  The tables of migrations 0011 and 0012: the sessions of the Swift Studio, the imports of their
  outputs, and the model artifacts. A row type has the columns in the order of the table; the
  constraints are predicates on rows. Limits on the size of JSON texts are left out, as for the jobs,
  and \<open>[[:cntrl:]]\<close> means the control characters of ASCII.
\<close>

section \<open>Rows\<close>

definition is_started :: "session_status \<Rightarrow> bool" where
  "is_started s \<longleftrightarrow> s \<in> {Ready, Closing, Closed}"

definition is_open :: "session_status \<Rightarrow> bool" where
  "is_open s \<longleftrightarrow> s \<in> {Preparing, Ready, Closing}"

definition is_settled :: "import_status \<Rightarrow> bool" where
  "is_settled s \<longleftrightarrow> s \<in> {CompletedImport, FailedImport}"

record studio_session =
  ss_id :: js_string
  ss_namespace_id :: js_string
  ss_create_digest :: js_string
  ss_status :: session_status
  ss_dataset_version :: js_string
  ss_display_ref :: "js_string option"
  ss_converter :: js_string
  ss_converter_version :: js_string
  ss_normalized_options :: json
  ss_fidelity_digest :: js_string
  ss_export_output_count :: int
  ss_export_digest :: "js_string option"
  ss_export_size_bytes :: "int option"
  ss_provider :: js_string
  ss_provider_session_id :: js_string
  ss_upstream_commit :: js_string
  ss_image_digest :: js_string
  ss_runtime_capability_digest :: js_string
  ss_failure :: "json option"
  ss_preparation_owner_token :: js_string
  ss_preparation_abandoned_at :: "int option"
  ss_preparation_expires_at :: int
  ss_created_at :: int
  ss_ready_at :: "int option"
  ss_closed_at :: "int option"
  ss_updated_at :: int

datatype lineage_status = VerifiedLineage | ExternalLineage | NoLineage
datatype binding_status = VerifiedBinding | DeclaredBinding | UnresolvedBinding

record artifact_import =
  ai_id :: js_string
  ai_namespace_id :: js_string
  ai_create_digest :: js_string
  ai_status :: import_status
  ai_studio_session_id :: js_string
  ai_output_handle_digest :: js_string
  ai_artifact_kind :: js_string
  ai_display_name :: js_string
  ai_base_model_reference :: js_string
  ai_base_model_revision :: "js_string option"
  ai_provider_import_id :: "js_string option"
  ai_output_snapshot_digest :: "js_string option"
  ai_staging_object_key :: "js_string option"
  ai_archive_digest :: "js_string option"
  ai_archive_size_bytes :: "int option"
  ai_manifest_digest :: "js_string option"
  ai_manifest :: "json option"
  ai_lineage_status :: "lineage_status option"
  ai_dataset_version :: "js_string option"
  ai_dataset_export_digest :: "js_string option"
  ai_binding_status :: "binding_status option"
  ai_artifact_id :: "js_string option"
  ai_failure :: "json option"
  ai_created_at :: int
  ai_staging_at :: "int option"
  ai_finalizing_at :: "int option"
  ai_completed_at :: "int option"
  ai_failed_at :: "int option"
  ai_staging_cleaned_at :: "int option"
  ai_updated_at :: int

record model_artifact =
  ma_id :: js_string
  ma_namespace_id :: js_string
  ma_display_name :: js_string
  ma_artifact_kind :: js_string
  ma_artifact_format :: js_string
  ma_archive_format :: js_string
  ma_archive_digest :: js_string
  ma_archive_size_bytes :: int
  ma_object_locator :: js_string
  ma_manifest_digest :: js_string
  ma_manifest :: json
  ma_source_kind :: js_string
  ma_source_session_id :: js_string
  ma_source_import_id :: js_string
  ma_lineage_status :: lineage_status
  ma_dataset_version :: "js_string option"
  ma_dataset_export_digest :: "js_string option"
  ma_base_model_reference :: js_string
  ma_base_model_revision :: "js_string option"
  ma_binding_status :: binding_status
  ma_upstream_commit :: js_string
  ma_image_digest :: js_string
  ma_created_at :: int

record studio_db =
  sd_catalog :: catalog_db
  sd_sessions :: "studio_session list"
  sd_imports :: "artifact_import list"
  sd_artifacts :: "model_artifact list"

section \<open>Constraints of sessions\<close>

text \<open>The three strings of a failure, which both tables check in the same way.\<close>

record failure_report =
  fr_phase :: js_string
  fr_code :: js_string
  fr_message :: js_string

definition failure_json :: "failure_report \<Rightarrow> json" where
  "failure_json f = JObject [(js ''phase'', JString (fr_phase f)), (js ''code'', JString (fr_code f)),
     (js ''message'', JString (fr_message f))]"

text \<open>A member that is missing makes a comparison with it unknown, which a constraint lets pass.\<close>

definition failure_check :: "bool \<Rightarrow> json \<Rightarrow> bool" where
  "failure_check needs_value value = (case value of
     JObject kvs \<Rightarrow> list_all (\<lambda>(key, v). case v of
         JString s \<Rightarrow> (if key = js ''phase'' \<or> key = js ''code'' then SAFE_EVALUATION_NAME s
           else key = js ''message'' \<and> 1 \<le> byte_length s \<and> byte_length s \<le> 2048 \<and> \<not> hasControlCharacter s)
           \<and> \<not> db_credential needs_value s
       | _ \<Rightarrow> False) kvs
   | _ \<Rightarrow> False)"

definition at_least :: "int option \<Rightarrow> int \<Rightarrow> bool" where
  "at_least t least = (case t of None \<Rightarrow> True | Some n \<Rightarrow> least \<le> n)"

definition session_digest_check :: "studio_session \<Rightarrow> bool" where
  "session_digest_check r \<longleftrightarrow> EXACT_VERSION (ss_create_digest r) \<and> EXACT_VERSION (ss_dataset_version r)
     \<and> EXACT_VERSION (ss_fidelity_digest r) \<and> (case ss_export_digest r of None \<Rightarrow> True | Some d \<Rightarrow> EXACT_VERSION d)
     \<and> EXACT_VERSION (ss_image_digest r) \<and> EXACT_VERSION (ss_runtime_capability_digest r)"

definition display_ref_check :: "studio_session \<Rightarrow> bool" where
  "display_ref_check r \<longleftrightarrow> (case ss_display_ref r of None \<Rightarrow> True | Some name \<Rightarrow> ref_name_ok name)"

definition session_runtime_check :: "studio_session \<Rightarrow> bool" where
  "session_runtime_check r \<longleftrightarrow> ss_converter r = js ''ms-swift'' \<and> ss_converter_version r = js ''1.0.0''
     \<and> ss_provider r = js ''swift-studio'' \<and> GIT_COMMIT (ss_upstream_commit r)
     \<and> SWIFT_PROVIDER_SESSION_ID (ss_provider_session_id r)"

definition session_bounds_check :: "studio_session \<Rightarrow> bool" where
  "session_bounds_check r \<longleftrightarrow> 0 < ss_export_output_count r \<and> ss_export_output_count r \<le> POSTGRES_BIGINT_MAX
     \<and> (case ss_export_size_bytes r of None \<Rightarrow> True | Some n \<Rightarrow> 0 \<le> n \<and> n \<le> POSTGRES_BIGINT_MAX)"

definition session_json_check :: "studio_session \<Rightarrow> bool" where
  "session_json_check r \<longleftrightarrow> is_json_object (ss_normalized_options r)
     \<and> (case ss_failure r of None \<Rightarrow> True | Some f \<Rightarrow> failure_check True f)"

definition session_export_check :: "studio_session \<Rightarrow> bool" where
  "session_export_check r \<longleftrightarrow> (ss_export_digest r = None) = (ss_export_size_bytes r = None)"

definition session_lifecycle_check :: "studio_session \<Rightarrow> bool" where
  "session_lifecycle_check r \<longleftrightarrow>
     (ss_status r = FailedSession) = (ss_failure r \<noteq> None)
   \<and> is_started (ss_status r) = (ss_ready_at r \<noteq> None \<and> ss_export_digest r \<noteq> None)
   \<and> (ss_status r = Closed) = (ss_closed_at r \<noteq> None)
   \<and> ss_created_at r \<le> ss_preparation_expires_at r
   \<and> (ss_preparation_abandoned_at r \<noteq> None \<longrightarrow> ss_status r = Preparing)
   \<and> at_least (ss_preparation_abandoned_at r) (ss_created_at r)
   \<and> at_least (ss_ready_at r) (ss_created_at r)
   \<and> (case ss_closed_at r of None \<Rightarrow> True
      | Some closed \<Rightarrow> (case ss_ready_at r of None \<Rightarrow> False | Some ready \<Rightarrow> ready \<le> closed))"

definition session_check :: "studio_session \<Rightarrow> bool" where
  "session_check r \<longleftrightarrow> session_digest_check r \<and> display_ref_check r \<and> session_runtime_check r
     \<and> session_bounds_check r \<and> session_json_check r \<and> session_export_check r \<and> session_lifecycle_check r"

lemmas session_checks = session_digest_check_def display_ref_check_def session_runtime_check_def
  session_bounds_check_def session_json_check_def session_export_check_def session_lifecycle_check_def

text \<open>The primary key, the two unique constraints and the index of the open session of a provider.\<close>

definition session_conflict :: "studio_session \<Rightarrow> studio_session \<Rightarrow> bool" where
  "session_conflict r s \<longleftrightarrow> ss_id r = ss_id s
     \<or> (ss_namespace_id r, ss_create_digest r) = (ss_namespace_id s, ss_create_digest s)
     \<or> (ss_provider r, ss_provider_session_id r) = (ss_provider s, ss_provider_session_id s)
     \<or> ss_provider r = ss_provider s \<and> is_open (ss_status r) \<and> is_open (ss_status s)"

definition session_fks :: "catalog_db \<Rightarrow> studio_session \<Rightarrow> bool" where
  "session_fks db r \<longleftrightarrow> find_namespace db (ss_namespace_id r) \<noteq> None \<and> find_snapshot db (ss_dataset_version r) \<noteq> None"

interpretation session_table: unique_key ss_id session_conflict
  by unfold_locales (simp add: session_conflict_def)

text \<open>
  \<open>UPDATE\<close> of sessions. No update of the code makes a session open or changes another key, which is
  why the unique indexes, and the foreign keys of the columns that stay, need no test here.
\<close>

definition update_sessions :: "(studio_session \<Rightarrow> bool) \<Rightarrow> (studio_session \<Rightarrow> studio_session) \<Rightarrow> studio_db
    \<Rightarrow> (studio_db \<times> studio_session list) catalog" where
  "update_sessions p f db =
     bindR (ensure (list_all session_check (returning p f (sd_sessions db))) CheckViolation) (\<lambda>_.
     Inr (db\<lparr>sd_sessions := update_where p f (sd_sessions db)\<rparr>, returning p f (sd_sessions db)))"

definition insert_session :: "studio_session \<Rightarrow> studio_db \<Rightarrow> (studio_db \<times> bool) catalog" where
  "insert_session row db =
     bindR (ensure (session_check row) CheckViolation) (\<lambda>_.
     let (rows, inserted) = insert_on_conflict_do_nothing session_conflict row (sd_sessions db)
     in bindR (ensure (inserted \<longrightarrow> session_fks (sd_catalog db) row) ForeignKeyViolation) (\<lambda>_.
        Inr (db\<lparr>sd_sessions := rows\<rparr>, inserted)))"

definition find_session :: "studio_db \<Rightarrow> js_string \<Rightarrow> js_string \<Rightarrow> studio_session list" where
  "find_session db namespaceId i = select_where (\<lambda>r. ss_namespace_id r = namespaceId \<and> ss_id r = i) (sd_sessions db)"

end
