(* ===== verification/Studio_Sessions.thy ===== *)
theory Studio_Sessions
  imports Studio_Schema Keyset_Paging
begin

text \<open>
  Sessions of the Swift Studio in \<open>packages/catalog/src/v2/catalog.ts\<close>. A session is prepared by the
  holder of an owner token, is ready, closing and closed, or fails while it is prepared; at most one is
  open for a provider. The operations that take the advisory lock run one after the other, so each is
  a function of its arguments, of one clock reading \<open>now\<close> and of the database; the identifiers and
  tokens that \<open>randomUUID\<close> draws are arguments.
\<close>

section \<open>Validation\<close>

definition MAX_SWIFT_OPTIONS_BYTES :: nat where "MAX_SWIFT_OPTIONS_BYTES = 64 * 1024"
definition MAX_SWIFT_PREPARATION_ABANDON_GRACE_MS :: int where
  "MAX_SWIFT_PREPARATION_ABANDON_GRACE_MS = 24 * 60 * 60 * 1000"

record create_session =
  cs_namespace_id :: js_string
  cs_create_digest :: js_string
  cs_dataset_version :: js_string
  cs_display_ref :: "js_string option"
  cs_converter :: js_string
  cs_converter_version :: js_string
  cs_normalized_options :: json
  cs_fidelity_digest :: js_string
  cs_export_output_count :: int
  cs_provider :: js_string
  cs_provider_session_id :: js_string
  cs_upstream_commit :: js_string
  cs_image_digest :: js_string
  cs_runtime_capability_digest :: js_string

definition validateNamespaceId :: "js_string \<Rightarrow> unit catalog" where
  "validateNamespaceId value = ensure (UUID value) InputError"

definition validateSwiftStudioSessionId :: "js_string \<Rightarrow> unit catalog" where
  "validateSwiftStudioSessionId value = ensure (UUID value) InputError"

definition validateSwiftStudioSessionPreparationOwnerToken :: "js_string \<Rightarrow> unit catalog" where
  "validateSwiftStudioSessionPreparationOwnerToken value = ensure (UUID value) InputError"

definition validateSwiftStudioSessionPreparationAbandonGrace :: "int \<Rightarrow> unit catalog" where
  "validateSwiftStudioSessionPreparationAbandonGrace value =
     ensure (\<not> (\<not> is_safe_integer value \<or> value < 0 \<or> MAX_SWIFT_PREPARATION_ABANDON_GRACE_MS < value)) InputError"

definition validateCreateSwiftStudioSession :: "create_session \<Rightarrow> unit catalog" where
  "validateCreateSwiftStudioSession input =
     bindR (validateNamespaceId (cs_namespace_id input)) (\<lambda>_.
     bindR (ensure (EXACT_VERSION (cs_create_digest input)) InputError) (\<lambda>_.
     bindR (ensure (EXACT_VERSION (cs_dataset_version input)) InputError) (\<lambda>_.
     bindR (ensure (case cs_display_ref input of None \<Rightarrow> True | Some name \<Rightarrow> ref_name_ok name) InputError) (\<lambda>_.
     bindR (ensure (cs_converter input = js ''ms-swift'' \<and> cs_converter_version input = js ''1.0.0'') InputError) (\<lambda>_.
     bindR (ensure (byte_length (json_stringify (cs_normalized_options input)) \<le> MAX_SWIFT_OPTIONS_BYTES) InputError) (\<lambda>_.
     bindR (ensure (EXACT_VERSION (cs_fidelity_digest input)) InputError) (\<lambda>_.
     bindR (ensure (0 < cs_export_output_count input \<and> cs_export_output_count input \<le> POSTGRES_BIGINT_MAX) InputError) (\<lambda>_.
     bindR (ensure (cs_provider input = js ''swift-studio'' \<and> SWIFT_PROVIDER_SESSION_ID (cs_provider_session_id input)
       \<and> byte_length (cs_provider_session_id input) \<le> 256) InputError) (\<lambda>_.
     bindR (ensure (GIT_COMMIT (cs_upstream_commit input)) InputError) (\<lambda>_.
     ensure (EXACT_VERSION (cs_image_digest input) \<and> EXACT_VERSION (cs_runtime_capability_digest input)) InputError))))))))))"

definition validateSwiftStudioSessionFailure :: "failure_report \<Rightarrow> unit catalog" where
  "validateSwiftStudioSessionFailure failure =
     bindR (ensure (SAFE_EVALUATION_NAME (fr_phase failure) \<and> SAFE_EVALUATION_NAME (fr_code failure)) InputError) (\<lambda>_.
     ensure (\<not> (fr_message failure = [] \<or> 2048 < byte_length (fr_message failure)
       \<or> hasControlCharacter (fr_message failure) \<or> CREDENTIAL_VALUE (fr_message failure))) InputError)"

text \<open>A request for a transition; its constructor is the status that is asked for.\<close>

datatype session_transition =
    ToReady (st_owner: js_string) (st_export_digest: js_string) (st_export_size_bytes: int)
  | ToClosing
  | ToClosed
  | ToFailed (st_owner: js_string) (st_failure: failure_report)

fun requested_status :: "session_transition \<Rightarrow> session_status" where
  "requested_status (ToReady _ _ _) = Ready"
| "requested_status ToClosing = Closing"
| "requested_status ToClosed = Closed"
| "requested_status (ToFailed _ _) = FailedSession"

definition validateSwiftStudioSessionTransition :: "js_string \<Rightarrow> js_string \<Rightarrow> session_transition \<Rightarrow> unit catalog" where
  "validateSwiftStudioSessionTransition namespaceId i input =
     bindR (validateNamespaceId namespaceId) (\<lambda>_.
     bindR (validateSwiftStudioSessionId i) (\<lambda>_.
     case input of
       ToReady owner digest bytes \<Rightarrow>
         bindR (validateSwiftStudioSessionPreparationOwnerToken owner) (\<lambda>_.
         bindR (ensure (EXACT_VERSION digest) InputError) (\<lambda>_.
         ensure (\<not> (bytes < 0 \<or> POSTGRES_BIGINT_MAX < bytes)) InputError))
     | ToFailed owner failure \<Rightarrow>
         bindR (validateSwiftStudioSessionPreparationOwnerToken owner) (\<lambda>_. validateSwiftStudioSessionFailure failure)
     | _ \<Rightarrow> Inr ()))"

section \<open>Stored rows\<close>

definition parseStoredSwiftStudioSessionFailure :: "json option \<Rightarrow> failure_report option catalog" where
  "parseStoredSwiftStudioSessionFailure value = (case value of
     None \<Rightarrow> Inr None
   | Some (JObject kvs) \<Rightarrow>
       (if length kvs \<noteq> 3 then Inl ConsistencyError
        else case (map_of kvs (js ''phase''), map_of kvs (js ''code''), map_of kvs (js ''message'')) of
          (Some (JString phase), Some (JString code), Some (JString message)) \<Rightarrow>
            let failure = \<lparr>fr_phase = phase, fr_code = code, fr_message = message\<rparr>
            in bindR (revalidate (validateSwiftStudioSessionFailure failure)) (\<lambda>_. Inr (Some failure))
        | _ \<Rightarrow> Inl ConsistencyError)
   | Some _ \<Rightarrow> Inl ConsistencyError)"

text \<open>What is returned of a row: its columns and the parsed failure.\<close>

record session_view =
  sv_row :: studio_session
  sv_failure :: "failure_report option"

definition create_of_row :: "studio_session \<Rightarrow> create_session" where
  "create_of_row r = \<lparr>cs_namespace_id = ss_namespace_id r, cs_create_digest = ss_create_digest r,
     cs_dataset_version = ss_dataset_version r, cs_display_ref = ss_display_ref r, cs_converter = ss_converter r,
     cs_converter_version = ss_converter_version r, cs_normalized_options = ss_normalized_options r,
     cs_fidelity_digest = ss_fidelity_digest r, cs_export_output_count = ss_export_output_count r,
     cs_provider = ss_provider r, cs_provider_session_id = ss_provider_session_id r,
     cs_upstream_commit = ss_upstream_commit r, cs_image_digest = ss_image_digest r,
     cs_runtime_capability_digest = ss_runtime_capability_digest r\<rparr>"

definition session_row_valid :: "studio_session \<Rightarrow> unit catalog" where
  "session_row_valid r =
     bindR (validateCreateSwiftStudioSession (create_of_row r)) (\<lambda>_.
     bindR (validateSwiftStudioSessionId (ss_id r)) (\<lambda>_.
     bindR (validateSwiftStudioSessionPreparationOwnerToken (ss_preparation_owner_token r)) (\<lambda>_.
     bindR (ensure (case ss_export_digest r of None \<Rightarrow> True
       | Some digest \<Rightarrow> EXACT_VERSION digest \<and> (case ss_export_size_bytes r of None \<Rightarrow> False
           | Some bytes \<Rightarrow> \<not> (bytes < 0 \<or> POSTGRES_BIGINT_MAX < bytes))) InputError) (\<lambda>_.
     ensure (ss_created_at r \<le> ss_preparation_expires_at r
       \<and> (case ss_preparation_abandoned_at r of None \<Rightarrow> True
          | Some t \<Rightarrow> ss_status r = Preparing \<and> ss_created_at r \<le> t)) InputError))))"

definition sqlRowToSwiftStudioSession :: "studio_session \<Rightarrow> session_view catalog" where
  "sqlRowToSwiftStudioSession row =
     bindR (parseStoredSwiftStudioSessionFailure (ss_failure row)) (\<lambda>failure.
     bindR (ensure (ss_provider row = js ''swift-studio'' \<and> ss_converter row = js ''ms-swift'') ConsistencyError) (\<lambda>_.
     bindR (ensure (ss_converter_version row = js ''1.0.0'') ConsistencyError) (\<lambda>_.
     bindR (ensure ((ss_export_digest row = None) = (ss_export_size_bytes row = None)) ConsistencyError) (\<lambda>_.
     bindR (ensure (is_started (ss_status row) = (ss_ready_at row \<noteq> None
       \<and> ss_export_digest row \<noteq> None \<and> ss_export_size_bytes row \<noteq> None)) ConsistencyError) (\<lambda>_.
     bindR (ensure ((ss_status row = FailedSession) = (failure \<noteq> None)) ConsistencyError) (\<lambda>_.
     bindR (ensure ((ss_status row = Closed) = (ss_closed_at row \<noteq> None)) ConsistencyError) (\<lambda>_.
     bindR (parseStoredJsonObject (ss_normalized_options row)) (\<lambda>options.
     bindR (revalidate (session_row_valid row)) (\<lambda>_.
     Inr \<lparr>sv_row = row, sv_failure = failure\<rparr>)))))))))"

text \<open>\<open>rows[0] ? sqlRowToSwiftStudioSession(rows[0]) : null\<close>, after the check for more than one row.\<close>

definition one_session :: "studio_session list \<Rightarrow> session_view option catalog" where
  "one_session rows = (case rows of
     [] \<Rightarrow> Inr None
   | [row] \<Rightarrow> bindR (sqlRowToSwiftStudioSession row) (\<lambda>v. Inr (Some v))
   | _ \<Rightarrow> Inl ConsistencyError)"

section \<open>Creation\<close>

definition PREPARATION_INTERVAL :: int where "PREPARATION_INTERVAL = 5 * 60 * 60 * 1000000"

definition new_session :: "int \<Rightarrow> js_string \<Rightarrow> js_string \<Rightarrow> create_session \<Rightarrow> studio_session" where
  "new_session now i token input =
     \<lparr>ss_id = i, ss_namespace_id = cs_namespace_id input, ss_create_digest = cs_create_digest input,
      ss_status = Preparing, ss_dataset_version = cs_dataset_version input, ss_display_ref = cs_display_ref input,
      ss_converter = cs_converter input, ss_converter_version = cs_converter_version input,
      ss_normalized_options = cs_normalized_options input, ss_fidelity_digest = cs_fidelity_digest input,
      ss_export_output_count = cs_export_output_count input, ss_export_digest = None, ss_export_size_bytes = None,
      ss_provider = cs_provider input, ss_provider_session_id = cs_provider_session_id input,
      ss_upstream_commit = cs_upstream_commit input, ss_image_digest = cs_image_digest input,
      ss_runtime_capability_digest = cs_runtime_capability_digest input, ss_failure = None,
      ss_preparation_owner_token = token, ss_preparation_abandoned_at = None,
      ss_preparation_expires_at = now + PREPARATION_INTERVAL, ss_created_at = now, ss_ready_at = None,
      ss_closed_at = None, ss_updated_at = now\<rparr>"

definition sameSwiftStudioSessionCreate :: "studio_session \<Rightarrow> create_session \<Rightarrow> bool" where
  "sameSwiftStudioSessionCreate row input \<longleftrightarrow>
     ss_namespace_id row = cs_namespace_id input \<and> ss_create_digest row = cs_create_digest input
   \<and> ss_dataset_version row = cs_dataset_version input \<and> ss_converter row = cs_converter input
   \<and> ss_converter_version row = cs_converter_version input
   \<and> sameJsonValue (ss_normalized_options row) (cs_normalized_options input)
   \<and> ss_fidelity_digest row = cs_fidelity_digest input
   \<and> ss_export_output_count row = cs_export_output_count input \<and> ss_provider row = cs_provider input
   \<and> ss_upstream_commit row = cs_upstream_commit input \<and> ss_image_digest row = cs_image_digest input
   \<and> ss_runtime_capability_digest row = cs_runtime_capability_digest input"

definition session_conflict_error :: "session_conflict_reason \<Rightarrow> studio_session \<Rightarrow> session_status option \<Rightarrow> catalog_error" where
  "session_conflict_error reason row requested = SessionConflictError reason (ss_id row) (ss_status row) requested"

text \<open>The three lookups after an insert that met a conflict; \<open>None\<close> where the replay is returned.\<close>

definition replay_session :: "create_session \<Rightarrow> studio_db \<Rightarrow> session_view catalog" where
  "replay_session input db =
     bindR (one_session (select_where (\<lambda>r. ss_namespace_id r = cs_namespace_id input
       \<and> ss_create_digest r = cs_create_digest input) (sd_sessions db))) (\<lambda>replay.
     case replay of
       Some v \<Rightarrow>
         bindR (ensure (sameSwiftStudioSessionCreate (sv_row v) input)
           (session_conflict_error SessionCreateMismatch (sv_row v) None)) (\<lambda>_. Inr v)
     | None \<Rightarrow>
         bindR (one_session (select_where (\<lambda>r. ss_provider r = cs_provider input \<and> is_open (ss_status r)) (sd_sessions db))) (\<lambda>active.
         case active of
           Some v \<Rightarrow> Inl (session_conflict_error ActiveSessionExists (sv_row v) None)
         | None \<Rightarrow>
             bindR (one_session (select_where (\<lambda>r. ss_provider r = cs_provider input
               \<and> ss_provider_session_id r = cs_provider_session_id input) (sd_sessions db))) (\<lambda>locator.
             case locator of
               None \<Rightarrow> Inl ConsistencyError
             | Some v \<Rightarrow> Inl (session_conflict_error SessionCreateMismatch (sv_row v) None))))"

definition createOrReadSwiftStudioSession :: "int \<Rightarrow> js_string \<Rightarrow> js_string \<Rightarrow> create_session \<Rightarrow> studio_db
    \<Rightarrow> (studio_db \<times> session_view \<times> bool) catalog" where
  "createOrReadSwiftStudioSession now i token input db =
     bindR (validateCreateSwiftStudioSession input) (\<lambda>_.
     bindR (insert_session (new_session now i token input) db) (\<lambda>(db1, inserted).
     if inserted
     then bindR (sqlRowToSwiftStudioSession (new_session now i token input)) (\<lambda>v. Inr (db1, v, True))
     else bindR (replay_session input db1) (\<lambda>v. Inr (db1, v, False))))"

definition getSwiftStudioSession :: "js_string \<Rightarrow> js_string \<Rightarrow> studio_db \<Rightarrow> session_view option catalog" where
  "getSwiftStudioSession namespaceId i db =
     bindR (validateNamespaceId namespaceId) (\<lambda>_.
     bindR (validateSwiftStudioSessionId i) (\<lambda>_.
     one_session (find_session db namespaceId i)))"

section \<open>Preparation\<close>

definition prepared_by :: "js_string \<Rightarrow> js_string \<Rightarrow> js_string \<Rightarrow> studio_session \<Rightarrow> bool" where
  "prepared_by namespaceId i token r \<longleftrightarrow> ss_namespace_id r = namespaceId \<and> ss_id r = i \<and> ss_status r = Preparing
     \<and> ss_preparation_owner_token r = token"

definition validate_preparation :: "js_string \<Rightarrow> js_string \<Rightarrow> js_string \<Rightarrow> unit catalog" where
  "validate_preparation namespaceId i token =
     bindR (validateNamespaceId namespaceId) (\<lambda>_.
     bindR (validateSwiftStudioSessionId i) (\<lambda>_.
     validateSwiftStudioSessionPreparationOwnerToken token))"

definition one_updated :: "studio_db \<times> studio_session list \<Rightarrow> (studio_db \<times> bool) catalog" where
  "one_updated result = bindR (ensure (length (snd result) \<le> 1) ConsistencyError) (\<lambda>_.
     Inr (fst result, length (snd result) = 1))"

definition abandonSwiftStudioSessionPreparation :: "int \<Rightarrow> js_string \<Rightarrow> js_string \<Rightarrow> js_string \<Rightarrow> studio_db
    \<Rightarrow> (studio_db \<times> bool) catalog" where
  "abandonSwiftStudioSessionPreparation now namespaceId i token db =
     bindR (validate_preparation namespaceId i token) (\<lambda>_.
     bindR (update_sessions (prepared_by namespaceId i token)
       (\<lambda>r. r\<lparr>ss_preparation_abandoned_at := (case ss_preparation_abandoned_at r of None \<Rightarrow> Some now | Some t \<Rightarrow> Some t),
          ss_updated_at := now\<rparr>) db) one_updated)"

definition renewSwiftStudioSessionPreparation :: "int \<Rightarrow> js_string \<Rightarrow> js_string \<Rightarrow> js_string \<Rightarrow> studio_db
    \<Rightarrow> (studio_db \<times> bool) catalog" where
  "renewSwiftStudioSessionPreparation now namespaceId i token db =
     bindR (validate_preparation namespaceId i token) (\<lambda>_.
     bindR (update_sessions (prepared_by namespaceId i token)
       (\<lambda>r. r\<lparr>ss_preparation_abandoned_at := None, ss_preparation_expires_at := now + PREPARATION_INTERVAL,
          ss_updated_at := now\<rparr>) db) one_updated)"

definition may_claim :: "int \<Rightarrow> int \<Rightarrow> studio_session \<Rightarrow> bool" where
  "may_claim now grace r \<longleftrightarrow> ss_preparation_expires_at r \<le> now
     \<or> (case ss_preparation_abandoned_at r of None \<Rightarrow> False | Some t \<Rightarrow> t \<le> now - grace * 1000)"

definition claimSwiftStudioSessionPreparation :: "int \<Rightarrow> js_string \<Rightarrow> js_string \<Rightarrow> js_string \<Rightarrow> js_string \<Rightarrow> int \<Rightarrow> studio_db
    \<Rightarrow> (studio_db \<times> session_view option \<times> bool) catalog" where
  "claimSwiftStudioSessionPreparation now token namespaceId i observed grace db =
     bindR (validate_preparation namespaceId i observed) (\<lambda>_.
     bindR (validateSwiftStudioSessionPreparationAbandonGrace grace) (\<lambda>_.
     bindR (update_sessions (\<lambda>r. prepared_by namespaceId i observed r \<and> may_claim now grace r)
       (\<lambda>r. r\<lparr>ss_preparation_owner_token := token, ss_preparation_abandoned_at := None,
          ss_preparation_expires_at := now + PREPARATION_INTERVAL, ss_updated_at := now\<rparr>) db) (\<lambda>(db1, rows).
     bindR (one_session rows) (\<lambda>claimed. case claimed of
         Some v \<Rightarrow> Inr (db1, Some v, True)
       | None \<Rightarrow> bindR (getSwiftStudioSession namespaceId i db1) (\<lambda>v. Inr (db1, v, False))))))"

section \<open>Lists\<close>

text \<open>The list is newest first by the creation time in milliseconds and the identifier.\<close>

record session_filter =
  sf_dataset_version :: "js_string option"
  sf_status :: "session_status option"

type_synonym session_cursor = "int \<times> js_string"

definition session_cursor :: "studio_session \<Rightarrow> session_cursor" where
  "session_cursor r = (ss_created_at r div 1000, ss_id r)"

definition validateSwiftStudioSessionListFilter :: "session_filter \<Rightarrow> unit catalog" where
  "validateSwiftStudioSessionListFilter f = ensure (case sf_dataset_version f of None \<Rightarrow> True | Some v \<Rightarrow> EXACT_VERSION v) InputError"

definition validateSwiftStudioSessionCursor :: "session_cursor \<Rightarrow> unit catalog" where
  "validateSwiftStudioSessionCursor cursor = validateSwiftStudioSessionId (snd cursor)"

definition session_listed :: "js_string \<Rightarrow> session_filter \<Rightarrow> session_cursor option \<Rightarrow> studio_session \<Rightarrow> bool" where
  "session_listed namespaceId f before r \<longleftrightarrow> ss_namespace_id r = namespaceId
     \<and> (case sf_dataset_version f of None \<Rightarrow> True | Some v \<Rightarrow> ss_dataset_version r = v)
     \<and> (case sf_status f of None \<Rightarrow> True | Some s \<Rightarrow> ss_status r = s)
     \<and> (case before of None \<Rightarrow> True
        | Some (createdAt, i) \<Rightarrow> ss_created_at r div 1000 < createdAt
            \<or> ss_created_at r div 1000 = createdAt \<and> ss_id r < i)"

definition listSwiftStudioSessions :: "js_string \<Rightarrow> session_filter \<Rightarrow> session_cursor option \<Rightarrow> int \<Rightarrow> studio_db
    \<Rightarrow> (session_view list \<times> session_cursor option) catalog" where
  "listSwiftStudioSessions namespaceId f before limit db =
     bindR (validateNamespaceId namespaceId) (\<lambda>_.
     bindR (validateSwiftStudioSessionListFilter f) (\<lambda>_.
     bindR (case before of None \<Rightarrow> Inr () | Some c \<Rightarrow> validateSwiftStudioSessionCursor c) (\<lambda>_.
     bindR (checkedPageFetchLimit limit) (\<lambda>fetchLimit.
     let rows = take fetchLimit (order_by_desc session_cursor (select_where (session_listed namespaceId f before) (sd_sessions db)));
         hasMore = limit < int (length rows)
     in bindR (traverseR sqlRowToSwiftStudioSession (take (nat limit) rows)) (\<lambda>pageRows.
        Inr (pageRows, if hasMore \<and> pageRows \<noteq> [] then Some (session_cursor (sv_row (last pageRows))) else None))))))"

section \<open>Transitions\<close>

fun from_status :: "session_transition \<Rightarrow> session_status" where
  "from_status (ToReady _ _ _) = Preparing"
| "from_status ToClosing = Ready"
| "from_status ToClosed = Closing"
| "from_status (ToFailed _ _) = Preparing"

text \<open>The fences of the \<open>WHERE\<close> clause: the owner of the preparation, and no unsettled import.\<close>

fun transition_fence :: "session_transition \<Rightarrow> studio_db \<Rightarrow> studio_session \<Rightarrow> bool" where
  "transition_fence (ToReady owner _ _) db r \<longleftrightarrow> ss_preparation_owner_token r = owner"
| "transition_fence (ToFailed owner _) db r \<longleftrightarrow> ss_preparation_owner_token r = owner"
| "transition_fence ToClosing db r \<longleftrightarrow>
     \<not> list_ex (\<lambda>a. ai_studio_session_id a = ss_id r \<and> \<not> is_settled (ai_status a)) (sd_imports db)"
| "transition_fence ToClosed db r \<longleftrightarrow> True"

fun transition_row :: "int \<Rightarrow> session_transition \<Rightarrow> studio_session \<Rightarrow> studio_session" where
  "transition_row now (ToReady owner digest bytes) r = r\<lparr>ss_status := Ready, ss_export_digest := Some digest,
     ss_export_size_bytes := Some bytes, ss_preparation_abandoned_at := None, ss_ready_at := Some now, ss_updated_at := now\<rparr>"
| "transition_row now (ToFailed owner failure) r = r\<lparr>ss_status := FailedSession, ss_preparation_abandoned_at := None,
     ss_failure := Some (failure_json failure), ss_updated_at := now\<rparr>"
| "transition_row now ToClosed r = r\<lparr>ss_status := Closed, ss_closed_at := Some now, ss_updated_at := now\<rparr>"
| "transition_row now ToClosing r = r\<lparr>ss_status := Closing, ss_updated_at := now\<rparr>"

definition sameSwiftStudioSessionTransitionBody :: "session_view \<Rightarrow> session_transition \<Rightarrow> bool" where
  "sameSwiftStudioSessionTransitionBody v input = (case input of
     ToReady _ digest bytes \<Rightarrow> ss_export_digest (sv_row v) = Some digest \<and> ss_export_size_bytes (sv_row v) = Some bytes
   | ToFailed _ failure \<Rightarrow> sv_failure v = Some failure
   | _ \<Rightarrow> True)"

definition transitionSwiftStudioSession :: "int \<Rightarrow> js_string \<Rightarrow> js_string \<Rightarrow> session_transition \<Rightarrow> studio_db
    \<Rightarrow> (studio_db \<times> session_view option) catalog" where
  "transitionSwiftStudioSession now namespaceId i input db =
     bindR (validateSwiftStudioSessionTransition namespaceId i input) (\<lambda>_.
     bindR (update_sessions (\<lambda>r. ss_namespace_id r = namespaceId \<and> ss_id r = i \<and> ss_status r = from_status input
       \<and> transition_fence input db r) (transition_row now input) db) (\<lambda>(db1, rows).
     bindR (one_session rows) (\<lambda>updated. case updated of
         Some v \<Rightarrow> Inr (db1, Some v)
       | None \<Rightarrow> bindR (one_session (find_session db1 namespaceId i)) (\<lambda>existing. case existing of
             None \<Rightarrow> Inr (db1, None)
           | Some v \<Rightarrow>
               bindR (ensure (ss_status (sv_row v) = requested_status input)
                 (session_conflict_error InvalidSessionTransition (sv_row v) (Some (requested_status input)))) (\<lambda>_.
               bindR (ensure (sameSwiftStudioSessionTransitionBody v input)
                 (session_conflict_error SessionBodyMismatch (sv_row v) (Some (requested_status input)))) (\<lambda>_.
               Inr (db1, Some v)))))))"

definition reopenBusySwiftStudioSession :: "int \<Rightarrow> js_string \<Rightarrow> js_string \<Rightarrow> studio_db
    \<Rightarrow> (studio_db \<times> session_view option) catalog" where
  "reopenBusySwiftStudioSession now namespaceId i db =
     bindR (validateNamespaceId namespaceId) (\<lambda>_.
     bindR (validateSwiftStudioSessionId i) (\<lambda>_.
     bindR (update_sessions (\<lambda>r. ss_namespace_id r = namespaceId \<and> ss_id r = i \<and> ss_status r = Closing)
       (\<lambda>r. r\<lparr>ss_status := Ready, ss_updated_at := now\<rparr>) db) (\<lambda>(db1, rows).
     bindR (one_session rows) (\<lambda>reopened. case reopened of
         Some v \<Rightarrow> Inr (db1, Some v)
       | None \<Rightarrow> bindR (one_session (find_session db1 namespaceId i)) (\<lambda>v. Inr (db1, v))))))"

end
