(* ===== verification/Artifact_Manifest.thy ===== *)
theory Artifact_Manifest
  imports Studio_Schema "HOL-Library.List_Lexorder"
begin

text \<open>
  The manifest of a model artifact, as \<open>validateModelArtifactManifest\<close> of
  \<open>packages/catalog/src/v2/catalog.ts\<close> checks the JSON value, and the checks of names, base models,
  archives and lineage that imports and artifacts share.
\<close>

section \<open>Numbers\<close>

text \<open>The integer a number in shortest form denotes, if it denotes one; \<open>Number.isSafeInteger\<close>; comparisons.\<close>

fun number_int :: "js_number \<Rightarrow> int option" where
  "number_int (Finite neg s e) =
     (if s = 0 then Some 0 else if 0 \<le> e then Some ((if neg then - 1 else 1) * int s * 10 ^ nat e) else None)"
| "number_int _ = None"

definition isSafeInteger :: "js_number \<Rightarrow> bool" where
  "isSafeInteger x = (case number_int x of None \<Rightarrow> False | Some n \<Rightarrow> is_safe_integer n)"

fun is_positive :: "js_number \<Rightarrow> bool" where
  "is_positive (Finite neg s e) = (\<not> neg \<and> s \<noteq> 0)"
| "is_positive (Infinity neg) = (\<not> neg)"
| "is_positive NaN = False"

fun is_negative :: "js_number \<Rightarrow> bool" where
  "is_negative (Finite neg s e) = (neg \<and> s \<noteq> 0)"
| "is_negative (Infinity neg) = neg"
| "is_negative NaN = False"

fun exceeds :: "js_number \<Rightarrow> nat \<Rightarrow> bool" where
  "exceeds (Finite neg s e) n = (\<not> neg \<and> (if 0 \<le> e then n < s * 10 ^ nat e else n * 10 ^ nat (- e) < s))"
| "exceeds (Infinity neg) n = (\<not> neg)"
| "exceeds NaN n = False"

section \<open>Objects\<close>

definition hasExactObjectKeys :: "(js_string \<times> json) list \<Rightarrow> js_string list \<Rightarrow> bool" where
  "hasExactObjectKeys kvs expected \<longleftrightarrow> sort (map fst kvs) = sort expected"

definition json_field :: "json \<Rightarrow> string \<Rightarrow> json option" where
  "json_field value key = (case value of JObject kvs \<Rightarrow> map_of kvs (js key) | _ \<Rightarrow> None)"

text \<open>A plain object with exactly these keys.\<close>

definition object_with :: "string list \<Rightarrow> json \<Rightarrow> bool" where
  "object_with expected value = (case value of JObject kvs \<Rightarrow> hasExactObjectKeys kvs (map js expected) | _ \<Rightarrow> False)"

definition text_field :: "json \<Rightarrow> string \<Rightarrow> (js_string \<Rightarrow> bool) \<Rightarrow> bool" where
  "text_field value key p = (case json_field value key of Some (JString s) \<Rightarrow> p s | _ \<Rightarrow> False)"

definition number_field :: "json \<Rightarrow> string \<Rightarrow> (js_number \<Rightarrow> bool) \<Rightarrow> bool" where
  "number_field value key p = (case json_field value key of Some (JNumber x) \<Rightarrow> p x | _ \<Rightarrow> False)"

text \<open>\<open>string | null\<close>.\<close>

definition of_optional :: "js_string option \<Rightarrow> json" where
  "of_optional x = (case x of None \<Rightarrow> JNull | Some s \<Rightarrow> JString s)"

definition nullable_text :: "json \<Rightarrow> string \<Rightarrow> js_string option catalog" where
  "nullable_text value key = (case json_field value key of
     Some JNull \<Rightarrow> Inr None | Some (JString s) \<Rightarrow> Inr (Some s) | _ \<Rightarrow> Inl InputError)"

definition required_text :: "json \<Rightarrow> string \<Rightarrow> js_string catalog" where
  "required_text value key = (case json_field value key of Some (JString s) \<Rightarrow> Inr s | _ \<Rightarrow> Inl InputError)"

definition required_field :: "json \<Rightarrow> string \<Rightarrow> json" where
  "required_field value key = (case json_field value key of Some v \<Rightarrow> v | None \<Rightarrow> JNull)"

section \<open>Names, base models, archives and lineage\<close>

definition validateModelArtifactDisplayName :: "js_string \<Rightarrow> unit catalog" where
  "validateModelArtifactDisplayName value = ensure (\<not> (byte_length value < 1 \<or> 256 < byte_length value
     \<or> hasControlCharacter value \<or> CREDENTIAL_VALUE value \<or> ABSOLUTE_PATH value)) InputError"

definition validateModelArtifactBaseModel :: "js_string \<Rightarrow> js_string option \<Rightarrow> binding_status \<Rightarrow> unit catalog" where
  "validateModelArtifactBaseModel reference revision bindingStatus =
     bindR (ensure (\<not> (byte_length reference < 1 \<or> 512 < byte_length reference \<or> hasControlCharacter reference
       \<or> CREDENTIAL_VALUE reference \<or> ABSOLUTE_PATH reference \<or> list_ex is_backslash reference)) InputError) (\<lambda>_.
     bindR (ensure (case revision of None \<Rightarrow> True
       | Some r \<Rightarrow> \<not> (\<not> MODEL_REVISION r \<or> 256 < byte_length r \<or> CREDENTIAL_VALUE r \<or> ABSOLUTE_PATH r)) InputError) (\<lambda>_.
     ensure (\<not> (bindingStatus = VerifiedBinding \<and> revision = None)) InputError))"

definition validateModelArtifactArchiveMetadata :: "js_string \<Rightarrow> int \<Rightarrow> js_string \<Rightarrow> unit catalog" where
  "validateModelArtifactArchiveMetadata archiveDigest archiveSizeBytes manifestDigest =
     ensure (\<not> (\<not> EXACT_VERSION archiveDigest \<or> archiveSizeBytes < 0 \<or> 2 ^ 53 - 1 < archiveSizeBytes
       \<or> \<not> EXACT_VERSION manifestDigest)) InputError"

definition validateModelArtifactLineage :: "lineage_status \<Rightarrow> js_string option \<Rightarrow> js_string option \<Rightarrow> unit catalog" where
  "validateModelArtifactLineage status datasetVersion datasetExportDigest =
     (let hasDataset = (case (datasetVersion, datasetExportDigest) of
            (Some v, Some d) \<Rightarrow> EXACT_VERSION v \<and> EXACT_VERSION d | _ \<Rightarrow> False)
      in bindR (ensure ((datasetVersion = None) = (datasetExportDigest = None)) InputError) (\<lambda>_.
         ensure ((status = VerifiedLineage) = hasDataset) InputError))"

definition parseModelArtifactDatasetLineageStatus :: "js_string \<Rightarrow> lineage_status catalog" where
  "parseModelArtifactDatasetLineageStatus value =
     (if value = js ''verified'' then Inr VerifiedLineage
      else if value = js ''external_or_unverified'' then Inr ExternalLineage
      else if value = js ''not_applicable'' then Inr NoLineage
      else Inl ConsistencyError)"

definition lineage_text :: "lineage_status \<Rightarrow> js_string" where
  "lineage_text s = js (case s of VerifiedLineage \<Rightarrow> ''verified'' | ExternalLineage \<Rightarrow> ''external_or_unverified''
     | NoLineage \<Rightarrow> ''not_applicable'')"

definition parseModelArtifactBaseModelBindingStatus :: "js_string \<Rightarrow> binding_status catalog" where
  "parseModelArtifactBaseModelBindingStatus value =
     (if value = js ''verified'' then Inr VerifiedBinding
      else if value = js ''declared'' then Inr DeclaredBinding
      else if value = js ''unresolved'' then Inr UnresolvedBinding
      else Inl ConsistencyError)"

definition binding_text :: "binding_status \<Rightarrow> js_string" where
  "binding_text s = js (case s of VerifiedBinding \<Rightarrow> ''verified'' | DeclaredBinding \<Rightarrow> ''declared''
     | UnresolvedBinding \<Rightarrow> ''unresolved'')"

lemma parse_lineage_text [simp]: "parseModelArtifactDatasetLineageStatus (lineage_text s) = Inr s"
  by (cases s) (simp_all add: parseModelArtifactDatasetLineageStatus_def lineage_text_def)

lemma parse_binding_text [simp]: "parseModelArtifactBaseModelBindingStatus (binding_text s) = Inr s"
  by (cases s) (simp_all add: parseModelArtifactBaseModelBindingStatus_def binding_text_def)

section \<open>Time stamps\<close>

text \<open>
  The texts \<open>Date.prototype.toISOString\<close> prints, which are those that \<open>Date.parse\<close> reads back to
  themselves: four digits for the years 0 to 9999, else a sign and six digits.
\<close>

definition units_between :: "nat \<Rightarrow> nat \<Rightarrow> js_string \<Rightarrow> js_string" where
  "units_between from until s = take (until - from) (drop from s)"

definition digits_at :: "nat list \<Rightarrow> js_string \<Rightarrow> bool" where
  "digits_at positions s \<longleftrightarrow> list_all (\<lambda>i. is_digit (s ! i)) positions"

definition leap_year :: "int \<Rightarrow> bool" where
  "leap_year y \<longleftrightarrow> y mod 4 = 0 \<and> y mod 100 \<noteq> 0 \<or> y mod 400 = 0"

definition days_in_month :: "int \<Rightarrow> nat \<Rightarrow> nat" where
  "days_in_month y m = (if m = 2 then (if leap_year y then 29 else 28) else if m \<in> {4, 6, 9, 11} then 30 else 31)"

text \<open>What follows the year: \<open>-MM-DDTHH:mm:ss.sssZ\<close>.\<close>

definition valid_rest :: "int \<Rightarrow> js_string \<Rightarrow> bool" where
  "valid_rest year s \<longleftrightarrow> length s = 20 \<and> digits_at [1, 2, 4, 5, 7, 8, 10, 11, 13, 14, 16, 17, 18] s
     \<and> [s ! 0, s ! 3, s ! 6, s ! 9, s ! 12, s ! 15, s ! 19] = js ''--T::.Z''
     \<and> (let month = units_val (units_between 1 3 s); day = units_val (units_between 4 6 s)
        in 1 \<le> month \<and> month \<le> 12 \<and> 1 \<le> day \<and> day \<le> days_in_month year month)
     \<and> units_val (units_between 7 9 s) \<le> 23 \<and> units_val (units_between 10 12 s) \<le> 59
     \<and> units_val (units_between 13 15 s) \<le> 59"

text \<open>The last and the first instant of a \<open>Date\<close>; within a year the texts are ordered as the instants.\<close>

definition within_dates :: "int \<Rightarrow> js_string \<Rightarrow> bool" where
  "within_dates year rest \<longleftrightarrow> - 271821 \<le> year \<and> year \<le> 275760
     \<and> (year = 275760 \<longrightarrow> rest \<le> js ''-09-13T00:00:00.000Z'')
     \<and> (year = - 271821 \<longrightarrow> js ''-04-20T00:00:00.000Z'' \<le> rest)"

definition isRfc3339UtcMilliseconds :: "js_string \<Rightarrow> bool" where
  "isRfc3339UtcMilliseconds s =
     (if length s = 24 then digits_at [0, 1, 2, 3] s \<and> valid_rest (int (units_val (take 4 s))) (drop 4 s)
      else length s = 27 \<and> (s ! 0 = of_char CHR ''+'' \<or> s ! 0 = of_char CHR ''-'') \<and> digits_at [1, 2, 3, 4, 5, 6] s
        \<and> (let magnitude = int (units_val (units_between 1 7 s));
               year = (if s ! 0 = of_char CHR ''-'' then - magnitude else magnitude)
           in (9999 < year \<or> year < 0) \<and> valid_rest year (drop 7 s) \<and> within_dates year (drop 7 s)))"

lemma iso_examples:
  "isRfc3339UtcMilliseconds (js ''2024-02-29T23:59:59.999Z'')"
  "\<not> isRfc3339UtcMilliseconds (js ''2023-02-29T23:59:59.999Z'')"
  "\<not> isRfc3339UtcMilliseconds (js ''2024-02-28T24:00:00.000Z'')"
  "\<not> isRfc3339UtcMilliseconds (js ''2024-02-28T23:00:00Z'')"
  by code_simp+

section \<open>Files\<close>

definition MAX_MODEL_ARTIFACT_MANIFEST_BYTES :: nat where "MAX_MODEL_ARTIFACT_MANIFEST_BYTES = 256 * 1024"
definition MAX_MODEL_ARTIFACT_FILES :: nat where "MAX_MODEL_ARTIFACT_FILES = 256"

text \<open>\<open>adapter_model-NNNNN-of-NNNNN.safetensors\<close>.\<close>

definition is_shard_name :: "js_string \<Rightarrow> bool" where
  "is_shard_name s \<longleftrightarrow> length s = 40 \<and> take 14 s = js ''adapter_model-'' \<and> list_all is_digit (units_between 14 19 s)
     \<and> units_between 19 23 s = js ''-of-'' \<and> list_all is_digit (units_between 23 28 s) \<and> drop 28 s = js ''.safetensors''"

definition ALLOWED_ADAPTER_FILE :: "js_string \<Rightarrow> bool" where
  "ALLOWED_ADAPTER_FILE s \<longleftrightarrow> is_shard_name s \<or> s \<in> set (map js [''additional_config.json'', ''adapter_config.json'',
     ''adapter_model.safetensors'', ''adapter_model.safetensors.index.json'', ''tokenizer.json'', ''tokenizer_config.json'',
     ''special_tokens_map.json'', ''added_tokens.json'', ''merges.txt'', ''vocab.json'', ''preprocessor_config.json'',
     ''processor_config.json'', ''chat_template.json''])"

definition is_size :: "js_number \<Rightarrow> bool" where
  "is_size x \<longleftrightarrow> isSafeInteger x \<and> \<not> is_negative x"

definition manifest_file_path :: "json \<Rightarrow> js_string catalog" where
  "manifest_file_path file =
     bindR (ensure (object_with [''path'', ''digest'', ''size_bytes''] file
       \<and> text_field file ''path'' ALLOWED_ADAPTER_FILE \<and> text_field file ''digest'' EXACT_VERSION
       \<and> number_field file ''size_bytes'' is_size) InputError) (\<lambda>_.
     required_text file ''path'')"

fun bytes_ascending :: "js_string list \<Rightarrow> bool" where
  "bytes_ascending (p # q # ps) \<longleftrightarrow> encode_utf8 p < encode_utf8 q \<and> bytes_ascending (q # ps)"
| "bytes_ascending _ \<longleftrightarrow> True"

definition safetensors_layout :: "js_string list \<Rightarrow> bool" where
  "safetensors_layout paths \<longleftrightarrow>
     (let hasSingle = js ''adapter_model.safetensors'' \<in> set paths;
          hasIndex = js ''adapter_model.safetensors.index.json'' \<in> set paths;
          hasShards = list_ex is_shard_name paths
      in \<not> (hasSingle = (hasIndex \<and> hasShards) \<or> hasIndex \<noteq> hasShards))"

definition validateModelArtifactManifestFiles :: "json option \<Rightarrow> unit catalog" where
  "validateModelArtifactManifestFiles value = (case value of
     Some (JArray files) \<Rightarrow>
       bindR (ensure (\<not> (length files < 2 \<or> MAX_MODEL_ARTIFACT_FILES < length files)) InputError) (\<lambda>_.
       bindR (traverseR manifest_file_path files) (\<lambda>paths.
       bindR (ensure (distinct paths \<and> bytes_ascending paths \<and> js ''adapter_config.json'' \<in> set paths) InputError) (\<lambda>_.
       ensure (safetensors_layout paths) InputError)))
   | _ \<Rightarrow> Inl InputError)"

section \<open>The manifest\<close>

fun containsForbiddenManifestString :: "json \<Rightarrow> bool" where
  "containsForbiddenManifestString (JString s) = (hasControlCharacter s \<or> CREDENTIAL_VALUE s \<or> ABSOLUTE_PATH s)"
| "containsForbiddenManifestString (JArray xs) = list_ex containsForbiddenManifestString xs"
| "containsForbiddenManifestString (JObject kvs) = list_ex containsForbiddenManifestString (map snd kvs)"
| "containsForbiddenManifestString _ = False"

definition validateModelArtifactManifestSource :: "json \<Rightarrow> unit catalog" where
  "validateModelArtifactManifestSource value =
     ensure (object_with [''studio_session_id'', ''upstream_commit'', ''image_digest''] value
       \<and> text_field value ''studio_session_id'' UUID \<and> text_field value ''upstream_commit'' GIT_COMMIT
       \<and> text_field value ''image_digest'' EXACT_VERSION) InputError"

definition validateModelArtifactManifestLineage :: "json \<Rightarrow> unit catalog" where
  "validateModelArtifactManifestLineage value =
     bindR (ensure (object_with [''status'', ''dataset_version'', ''dataset_export_digest''] value) InputError) (\<lambda>_.
     bindR (required_text value ''status'') (\<lambda>status.
     bindR (nullable_text value ''dataset_version'') (\<lambda>version.
     bindR (nullable_text value ''dataset_export_digest'') (\<lambda>digest.
     bindR (parseModelArtifactDatasetLineageStatus status) (\<lambda>s.
     validateModelArtifactLineage s version digest)))))"

definition validateModelArtifactManifestBaseModel :: "json \<Rightarrow> unit catalog" where
  "validateModelArtifactManifestBaseModel value =
     bindR (ensure (object_with [''reference'', ''revision'', ''binding_status''] value) InputError) (\<lambda>_.
     bindR (required_text value ''reference'') (\<lambda>reference.
     bindR (nullable_text value ''revision'') (\<lambda>revision.
     bindR (required_text value ''binding_status'') (\<lambda>status.
     bindR (parseModelArtifactBaseModelBindingStatus status) (\<lambda>s.
     validateModelArtifactBaseModel reference revision s)))))"

definition optionalToken :: "json \<Rightarrow> string \<Rightarrow> bool" where
  "optionalToken value key \<longleftrightarrow> json_field value key = Some JNull \<or> text_field value key SAFE_EVALUATION_NAME"

definition optional_number :: "json \<Rightarrow> string \<Rightarrow> (js_number \<Rightarrow> bool) \<Rightarrow> bool" where
  "optional_number value key p \<longleftrightarrow> json_field value key = Some JNull \<or> number_field value key p"

definition validateModelArtifactTrainingSummary :: "json \<Rightarrow> unit catalog" where
  "validateModelArtifactTrainingSummary value =
     bindR (ensure (object_with [''train_stage'', ''tuner_type'', ''lora_rank'', ''lora_alpha'', ''lora_dropout'',
       ''num_train_epochs'', ''max_steps'', ''learning_rate'', ''max_length'', ''dtype'', ''seed'',
       ''redacted_fields_count''] value) InputError) (\<lambda>_.
     ensure (optionalToken value ''train_stage'' \<and> text_field value ''tuner_type'' (\<lambda>s. s = js ''lora'')
       \<and> optional_number value ''lora_rank'' (\<lambda>x. isSafeInteger x \<and> is_positive x \<and> \<not> exceeds x 65536)
       \<and> optional_number value ''lora_alpha'' (\<lambda>x. is_finite x \<and> \<not> (is_negative x \<or> exceeds x 1000000))
       \<and> optional_number value ''lora_dropout'' (\<lambda>x. is_finite x \<and> \<not> (is_negative x \<or> exceeds x 1))
       \<and> optional_number value ''num_train_epochs'' (\<lambda>x. is_finite x \<and> \<not> (\<not> is_positive x \<or> exceeds x 1000000))
       \<and> optional_number value ''max_steps'' (\<lambda>x. isSafeInteger x \<and> is_positive x)
       \<and> optional_number value ''learning_rate'' (\<lambda>x. is_finite x \<and> \<not> (\<not> is_positive x \<or> exceeds x 1))
       \<and> optional_number value ''max_length'' (\<lambda>x. isSafeInteger x \<and> is_positive x)
       \<and> optionalToken value ''dtype'' \<and> optional_number value ''seed'' isSafeInteger
       \<and> number_field value ''redacted_fields_count'' (\<lambda>x. is_size x \<and> \<not> exceeds x 100000)) InputError)"

definition manifest_identity :: "json \<Rightarrow> bool" where
  "manifest_identity value \<longleftrightarrow> text_field value ''manifest_version'' (\<lambda>s. s = js ''model-artifact-manifest-v1'')
     \<and> text_field value ''artifact_kind'' (\<lambda>s. s = js ''lora_adapter'')
     \<and> text_field value ''artifact_format'' (\<lambda>s. s = js ''swift-lora-adapter-v1'')
     \<and> text_field value ''archive_format'' (\<lambda>s. s = js ''deterministic-tar-zst-v1'')
     \<and> text_field value ''archive_digest'' EXACT_VERSION \<and> number_field value ''archive_size_bytes'' is_size
     \<and> text_field value ''output_snapshot_digest'' EXACT_VERSION
     \<and> text_field value ''created_by'' (\<lambda>s. s = js ''databench'') \<and> text_field value ''created_at'' isRfc3339UtcMilliseconds"

definition validateModelArtifactManifest :: "json \<Rightarrow> unit catalog" where
  "validateModelArtifactManifest value =
     bindR (ensure (object_with [''manifest_version'', ''artifact_kind'', ''artifact_format'', ''archive_format'',
       ''archive_digest'', ''archive_size_bytes'', ''output_snapshot_digest'', ''files'', ''source'',
       ''dataset_lineage'', ''base_model'', ''training_summary'', ''created_at'', ''created_by''] value) InputError) (\<lambda>_.
     bindR (ensure (\<not> (MAX_MODEL_ARTIFACT_MANIFEST_BYTES < byte_length (json_stringify value)
       \<or> containsForbiddenManifestString value)) InputError) (\<lambda>_.
     bindR (ensure (manifest_identity value) InputError) (\<lambda>_.
     bindR (validateModelArtifactManifestFiles (json_field value ''files'')) (\<lambda>_.
     bindR (validateModelArtifactManifestSource (required_field value ''source'')) (\<lambda>_.
     bindR (validateModelArtifactManifestLineage (required_field value ''dataset_lineage'')) (\<lambda>_.
     bindR (validateModelArtifactManifestBaseModel (required_field value ''base_model'')) (\<lambda>_.
     validateModelArtifactTrainingSummary (required_field value ''training_summary''))))))))"

definition sameModelArtifactManifestLineage :: "json \<Rightarrow> lineage_status \<Rightarrow> js_string option \<Rightarrow> js_string option \<Rightarrow> bool" where
  "sameModelArtifactManifestLineage lineage status datasetVersion datasetExportDigest \<longleftrightarrow>
     json_field lineage ''status'' = Some (JString (lineage_text status))
   \<and> json_field lineage ''dataset_version'' = Some (of_optional datasetVersion)
   \<and> json_field lineage ''dataset_export_digest'' = Some (of_optional datasetExportDigest)"

end
