(* ===== verification/Import_Schema.thy ===== *)
theory Import_Schema
  imports Artifact_Manifest
begin

text \<open>
  Constraints of migration 0012 on imports and artifacts. A comparison with NULL is unknown, which a
  constraint lets pass; \<open>->>\<close> is taken on members that are texts or null, the only ones the code
  writes. The tests for absolute paths in names and references are left out: the code has refused
  every text they match before it writes.
\<close>

section \<open>Values that may be null\<close>

definition equal_or_unknown :: "'a option \<Rightarrow> 'a option \<Rightarrow> bool" where
  "equal_or_unknown x y \<longleftrightarrow> x = None \<or> y = None \<or> x = y"

definition not_before :: "int option \<Rightarrow> int option \<Rightarrow> bool" where
  "not_before t least = (case t of None \<Rightarrow> True | Some n \<Rightarrow> (case least of None \<Rightarrow> True | Some m \<Rightarrow> m \<le> n))"

definition null_or :: "('a \<Rightarrow> bool) \<Rightarrow> 'a option \<Rightarrow> bool" where
  "null_or p x = (case x of None \<Rightarrow> True | Some y \<Rightarrow> p y)"

lemma null_or_simps [simp]: "null_or p None" "null_or p (Some x) = p x"
  by (simp_all add: null_or_def)

definition db_text :: "json \<Rightarrow> string \<Rightarrow> js_string option" where
  "db_text value key = (case json_field value key of Some (JString s) \<Rightarrow> Some s | _ \<Rightarrow> None)"

definition db_text_at :: "json \<Rightarrow> string \<Rightarrow> string \<Rightarrow> js_string option" where
  "db_text_at value outer inner = (case json_field value outer of None \<Rightarrow> None | Some v \<Rightarrow> db_text v inner)"

fun some_text :: "(js_string \<Rightarrow> bool) \<Rightarrow> json \<Rightarrow> bool" where
  "some_text p (JString s) = p s"
| "some_text p (JArray xs) = list_ex (some_text p) xs"
| "some_text p (JObject kvs) = list_ex (some_text p) (map snd kvs)"
| "some_text p _ = False"

section \<open>Checks that imports and artifacts share\<close>

definition display_name_check :: "js_string \<Rightarrow> bool" where
  "display_name_check name \<longleftrightarrow> 1 \<le> byte_length name \<and> byte_length name \<le> 256 \<and> \<not> hasControlCharacter name"

definition reference_check :: "js_string \<Rightarrow> bool" where
  "reference_check reference \<longleftrightarrow> 1 \<le> byte_length reference \<and> byte_length reference \<le> 512
     \<and> \<not> hasControlCharacter reference \<and> \<not> list_ex is_backslash reference"

definition revision_check :: "js_string option \<Rightarrow> bool" where
  "revision_check revision \<longleftrightarrow> null_or (\<lambda>r. 1 \<le> byte_length r \<and> byte_length r \<le> 256 \<and> MODEL_REVISION r) revision"

definition lineage_shape_check :: "lineage_status option \<Rightarrow> js_string option \<Rightarrow> js_string option \<Rightarrow> bool" where
  "lineage_shape_check status version digest \<longleftrightarrow>
     null_or (\<lambda>s. (s = VerifiedLineage) = (version \<noteq> None \<and> digest \<noteq> None)
       \<and> (s = VerifiedLineage \<or> version = None \<and> digest = None)) status"

definition manifest_check :: "json \<Rightarrow> js_string option \<Rightarrow> int option \<Rightarrow> js_string \<Rightarrow> lineage_status option \<Rightarrow> js_string option
    \<Rightarrow> js_string option \<Rightarrow> js_string \<Rightarrow> js_string option \<Rightarrow> binding_status option \<Rightarrow> bool" where
  "manifest_check m archive bytes session lineage version digest reference revision binding \<longleftrightarrow> is_json_object m
     \<and> equal_or_unknown (db_text m ''manifest_version'') (Some (js ''model-artifact-manifest-v1''))
     \<and> equal_or_unknown (db_text m ''artifact_kind'') (Some (js ''lora_adapter''))
     \<and> equal_or_unknown (db_text m ''artifact_format'') (Some (js ''swift-lora-adapter-v1''))
     \<and> equal_or_unknown (db_text m ''archive_format'') (Some (js ''deterministic-tar-zst-v1''))
     \<and> equal_or_unknown (db_text m ''archive_digest'') archive
     \<and> null_or (\<lambda>n. number_field m ''archive_size_bytes'' (\<lambda>x. number_int x = Some n)) bytes
     \<and> equal_or_unknown (db_text_at m ''source'' ''studio_session_id'') (Some session)
     \<and> equal_or_unknown (db_text_at m ''dataset_lineage'' ''status'') (map_option lineage_text lineage)
     \<and> db_text_at m ''dataset_lineage'' ''dataset_version'' = version
     \<and> db_text_at m ''dataset_lineage'' ''dataset_export_digest'' = digest
     \<and> equal_or_unknown (db_text_at m ''base_model'' ''reference'') (Some reference)
     \<and> db_text_at m ''base_model'' ''revision'' = revision
     \<and> equal_or_unknown (db_text_at m ''base_model'' ''binding_status'') (map_option binding_text binding)
     \<and> \<not> some_text (\<lambda>s. db_credential False s \<or> ABSOLUTE_PATH s) m"

section \<open>Imports\<close>

definition staging_archive_key :: "js_string \<Rightarrow> js_string" where
  "staging_archive_key i = js ''staging/swift-artifact/v1/'' @ i @ js ''/archive.tar.zst''"

definition import_identity_check :: "artifact_import \<Rightarrow> bool" where
  "import_identity_check r \<longleftrightarrow> EXACT_VERSION (ai_create_digest r) \<and> EXACT_VERSION (ai_output_handle_digest r)
     \<and> ai_artifact_kind r = js ''lora_adapter''"

definition import_text_check :: "artifact_import \<Rightarrow> bool" where
  "import_text_check r \<longleftrightarrow> display_name_check (ai_display_name r) \<and> reference_check (ai_base_model_reference r)
     \<and> revision_check (ai_base_model_revision r)
     \<and> \<not> list_ex (db_credential False) [ai_display_name r, ai_base_model_reference r]"

definition import_digest_check :: "artifact_import \<Rightarrow> bool" where
  "import_digest_check r \<longleftrightarrow> null_or MODEL_ARTIFACT_PROVIDER_IMPORT_ID (ai_provider_import_id r)
     \<and> null_or EXACT_VERSION (ai_output_snapshot_digest r) \<and> null_or EXACT_VERSION (ai_archive_digest r)
     \<and> null_or EXACT_VERSION (ai_manifest_digest r) \<and> null_or EXACT_VERSION (ai_dataset_version r)
     \<and> null_or EXACT_VERSION (ai_dataset_export_digest r) \<and> null_or (\<lambda>n. 0 \<le> n) (ai_archive_size_bytes r)"

definition import_enum_check :: "artifact_import \<Rightarrow> bool" where
  "import_enum_check r \<longleftrightarrow> \<not> (ai_binding_status r = Some VerifiedBinding \<and> ai_base_model_revision r = None)
     \<and> null_or (\<lambda>key. key = staging_archive_key (ai_id r)) (ai_staging_object_key r)
     \<and> null_or (failure_check False) (ai_failure r)"

definition import_manifest_check :: "artifact_import \<Rightarrow> bool" where
  "import_manifest_check r \<longleftrightarrow> null_or (\<lambda>m. manifest_check m (ai_archive_digest r) (ai_archive_size_bytes r)
       (ai_studio_session_id r) (ai_lineage_status r) (ai_dataset_version r) (ai_dataset_export_digest r)
       (ai_base_model_reference r) (ai_base_model_revision r) (ai_binding_status r)
       \<and> equal_or_unknown (db_text m ''output_snapshot_digest'') (ai_output_snapshot_digest r)) (ai_manifest r)
   \<and> lineage_shape_check (ai_lineage_status r) (ai_dataset_version r) (ai_dataset_export_digest r)"

text \<open>Which of the fields of the finalization are present.\<close>

definition final_fields :: "artifact_import \<Rightarrow> bool list" where
  "final_fields r = [ai_finalizing_at r \<noteq> None, ai_staging_object_key r \<noteq> None, ai_archive_digest r \<noteq> None,
     ai_archive_size_bytes r \<noteq> None, ai_manifest_digest r \<noteq> None, ai_manifest r \<noteq> None,
     ai_lineage_status r \<noteq> None, ai_binding_status r \<noteq> None]"

fun import_status_check :: "import_status \<Rightarrow> artifact_import \<Rightarrow> bool" where
  "import_status_check Requested r \<longleftrightarrow> ai_provider_import_id r = None \<and> ai_staging_at r = None \<and> ai_finalizing_at r = None
     \<and> ai_artifact_id r = None \<and> ai_failure r = None \<and> ai_completed_at r = None \<and> ai_failed_at r = None"
| "import_status_check Staging r \<longleftrightarrow> ai_provider_import_id r \<noteq> None \<and> ai_staging_at r \<noteq> None \<and> ai_finalizing_at r = None
     \<and> ai_artifact_id r = None \<and> ai_failure r = None \<and> ai_completed_at r = None \<and> ai_failed_at r = None"
| "import_status_check FinalizingImport r \<longleftrightarrow> ai_provider_import_id r \<noteq> None \<and> ai_finalizing_at r \<noteq> None
     \<and> ai_artifact_id r = None \<and> ai_failure r = None \<and> ai_completed_at r = None \<and> ai_failed_at r = None"
| "import_status_check CompletedImport r \<longleftrightarrow> ai_provider_import_id r \<noteq> None \<and> ai_finalizing_at r \<noteq> None
     \<and> ai_artifact_id r \<noteq> None \<and> ai_failure r = None \<and> ai_completed_at r \<noteq> None \<and> ai_failed_at r = None"
| "import_status_check FailedImport r \<longleftrightarrow> ai_artifact_id r = None \<and> ai_failure r \<noteq> None
     \<and> ai_completed_at r = None \<and> ai_failed_at r \<noteq> None"

definition import_lifecycle_check :: "artifact_import \<Rightarrow> bool" where
  "import_lifecycle_check r \<longleftrightarrow> (ai_staging_at r = None) = (ai_output_snapshot_digest r = None)
     \<and> (\<not> list_ex id (final_fields r) \<or> list_all id (final_fields r) \<and> ai_staging_at r \<noteq> None)
     \<and> import_status_check (ai_status r) r
     \<and> at_least (ai_staging_at r) (ai_created_at r) \<and> not_before (ai_finalizing_at r) (ai_staging_at r)
     \<and> not_before (ai_completed_at r) (ai_finalizing_at r) \<and> at_least (ai_failed_at r) (ai_created_at r)
     \<and> (ai_staging_cleaned_at r = None \<or> is_settled (ai_status r)
        \<and> not_before (ai_staging_cleaned_at r)
            (case ai_completed_at r of None \<Rightarrow> ai_failed_at r | Some t \<Rightarrow> Some t))"

definition import_check :: "artifact_import \<Rightarrow> bool" where
  "import_check r \<longleftrightarrow> import_identity_check r \<and> import_text_check r \<and> import_digest_check r \<and> import_enum_check r
     \<and> import_manifest_check r \<and> import_lifecycle_check r"

definition import_output :: "artifact_import \<Rightarrow> js_string \<times> js_string \<times> js_string \<times> js_string" where
  "import_output r = (ai_namespace_id r, ai_studio_session_id r, ai_output_handle_digest r, ai_artifact_kind r)"

definition import_conflict :: "artifact_import \<Rightarrow> artifact_import \<Rightarrow> bool" where
  "import_conflict r s \<longleftrightarrow> ai_id r = ai_id s
     \<or> (ai_namespace_id r, ai_create_digest r) = (ai_namespace_id s, ai_create_digest s)
     \<or> import_output r = import_output s
     \<or> ai_provider_import_id r \<noteq> None \<and> ai_provider_import_id r = ai_provider_import_id s
     \<or> ai_artifact_id r \<noteq> None \<and> ai_artifact_id r = ai_artifact_id s"

interpretation import_table: unique_key ai_id import_conflict
  by unfold_locales (simp add: import_conflict_def)

definition import_fks :: "studio_db \<Rightarrow> artifact_import \<Rightarrow> bool" where
  "import_fks db r \<longleftrightarrow> find_namespace (sd_catalog db) (ai_namespace_id r) \<noteq> None
     \<and> list_ex (\<lambda>s. ss_id s = ai_studio_session_id r) (sd_sessions db)
     \<and> known (find_snapshot (sd_catalog db)) (ai_dataset_version r)"

definition unique_present :: "('r \<Rightarrow> 'a option) \<Rightarrow> 'r list \<Rightarrow> bool" where
  "unique_present column rows \<longleftrightarrow> distinct (filter (\<lambda>x. x \<noteq> None) (map column rows))"

definition insert_import :: "artifact_import \<Rightarrow> studio_db \<Rightarrow> (studio_db \<times> bool) catalog" where
  "insert_import row db =
     bindR (ensure (import_check row) CheckViolation) (\<lambda>_.
     let (rows, inserted) = insert_on_conflict_do_nothing import_conflict row (sd_imports db)
     in bindR (ensure (inserted \<longrightarrow> import_fks db row) ForeignKeyViolation) (\<lambda>_.
        Inr (db\<lparr>sd_imports := rows\<rparr>, inserted)))"

text \<open>\<open>UPDATE\<close> of imports: two of the unique columns are written after the row is.\<close>

definition update_imports :: "(artifact_import \<Rightarrow> bool) \<Rightarrow> (artifact_import \<Rightarrow> artifact_import) \<Rightarrow> studio_db
    \<Rightarrow> (studio_db \<times> artifact_import list) catalog" where
  "update_imports p f db =
     (let rows = update_where p f (sd_imports db); changed = returning p f (sd_imports db)
      in bindR (ensure (list_all import_check changed) CheckViolation) (\<lambda>_.
         bindR (ensure (unique_present ai_provider_import_id rows \<and> unique_present ai_artifact_id rows) UniqueViolation) (\<lambda>_.
         bindR (ensure (list_all (import_fks db) changed) ForeignKeyViolation) (\<lambda>_.
         Inr (db\<lparr>sd_imports := rows\<rparr>, changed)))))"

definition find_import :: "studio_db \<Rightarrow> js_string \<Rightarrow> js_string \<Rightarrow> artifact_import list" where
  "find_import db namespaceId i = select_where (\<lambda>r. ai_namespace_id r = namespaceId \<and> ai_id r = i) (sd_imports db)"

section \<open>Artifacts\<close>

definition artifact_locator :: "js_string \<Rightarrow> js_string" where
  "artifact_locator archiveDigest =
     js ''objects/v2/model-artifact-v1/'' @ take 2 archiveDigest @ js ''/'' @ archiveDigest @ js ''.tar.zst''"

definition artifact_digest_check :: "model_artifact \<Rightarrow> bool" where
  "artifact_digest_check r \<longleftrightarrow> EXACT_VERSION (ma_archive_digest r) \<and> 0 \<le> ma_archive_size_bytes r
     \<and> EXACT_VERSION (ma_manifest_digest r) \<and> null_or EXACT_VERSION (ma_dataset_version r)
     \<and> null_or EXACT_VERSION (ma_dataset_export_digest r) \<and> GIT_COMMIT (ma_upstream_commit r)
     \<and> EXACT_VERSION (ma_image_digest r) \<and> ma_object_locator r = artifact_locator (ma_archive_digest r)"

definition artifact_format_check :: "model_artifact \<Rightarrow> bool" where
  "artifact_format_check r \<longleftrightarrow> ma_artifact_kind r = js ''lora_adapter'' \<and> ma_artifact_format r = js ''swift-lora-adapter-v1''
     \<and> ma_archive_format r = js ''deterministic-tar-zst-v1'' \<and> ma_source_kind r = js ''swift_studio_session''"

definition artifact_check :: "model_artifact \<Rightarrow> bool" where
  "artifact_check r \<longleftrightarrow> artifact_format_check r \<and> artifact_digest_check r
     \<and> lineage_shape_check (Some (ma_lineage_status r)) (ma_dataset_version r) (ma_dataset_export_digest r)
     \<and> \<not> (ma_binding_status r = VerifiedBinding \<and> ma_base_model_revision r = None)
     \<and> reference_check (ma_base_model_reference r) \<and> revision_check (ma_base_model_revision r)
     \<and> display_name_check (ma_display_name r)
     \<and> manifest_check (ma_manifest r) (Some (ma_archive_digest r)) (Some (ma_archive_size_bytes r))
         (ma_source_session_id r) (Some (ma_lineage_status r)) (ma_dataset_version r) (ma_dataset_export_digest r)
         (ma_base_model_reference r) (ma_base_model_revision r) (Some (ma_binding_status r))
     \<and> equal_or_unknown (db_text_at (ma_manifest r) ''source'' ''upstream_commit'') (Some (ma_upstream_commit r))
     \<and> equal_or_unknown (db_text_at (ma_manifest r) ''source'' ''image_digest'') (Some (ma_image_digest r))"

definition artifact_conflict :: "model_artifact \<Rightarrow> model_artifact \<Rightarrow> bool" where
  "artifact_conflict r s \<longleftrightarrow> ma_source_import_id r = ma_source_import_id s"

interpretation artifact_table: unique_key ma_source_import_id artifact_conflict
  by unfold_locales (simp add: artifact_conflict_def)

definition artifact_fks :: "studio_db \<Rightarrow> model_artifact \<Rightarrow> bool" where
  "artifact_fks db r \<longleftrightarrow> find_namespace (sd_catalog db) (ma_namespace_id r) \<noteq> None
     \<and> list_ex (\<lambda>s. ss_id s = ma_source_session_id r) (sd_sessions db)
     \<and> list_ex (\<lambda>a. ai_id a = ma_source_import_id r) (sd_imports db)
     \<and> known (find_snapshot (sd_catalog db)) (ma_dataset_version r)"

text \<open>\<open>ON CONFLICT ("source_import_id") DO NOTHING\<close>: a conflict on the primary key is an error.\<close>

definition insert_artifact :: "model_artifact \<Rightarrow> studio_db \<Rightarrow> (studio_db \<times> bool) catalog" where
  "insert_artifact row db =
     bindR (ensure (artifact_check row) CheckViolation) (\<lambda>_.
     let (rows, inserted) = insert_on_conflict_do_nothing artifact_conflict row (sd_artifacts db)
     in bindR (ensure (inserted \<longrightarrow> \<not> list_ex (\<lambda>a. ma_id a = ma_id row) (sd_artifacts db)) UniqueViolation) (\<lambda>_.
        bindR (ensure (inserted \<longrightarrow> artifact_fks db row) ForeignKeyViolation) (\<lambda>_.
        Inr (db\<lparr>sd_artifacts := rows\<rparr>, inserted))))"

end
