(* ===== verification/Model_Artifacts.thy ===== *)
theory Model_Artifacts
  imports Studio_Sessions Import_Schema
begin

text \<open>
  Imports of the outputs of a Studio session and the immutable artifacts they end in, from
  \<open>packages/catalog/src/v2/catalog.ts\<close>. An import is requested from a ready session, staged by the
  provider, finalized with a manifest, and completed together with its artifact; or it fails. Each
  transaction is a function of one clock reading \<open>now\<close>; the identifiers that \<open>randomUUID\<close> draws are
  arguments.
\<close>

section \<open>Validation\<close>

record create_import =
  ci_namespace_id :: js_string
  ci_create_digest :: js_string
  ci_studio_session_id :: js_string
  ci_output_handle_digest :: js_string
  ci_artifact_kind :: js_string
  ci_display_name :: js_string
  ci_base_model_reference :: js_string
  ci_base_model_revision :: "js_string option"

definition validateModelArtifactImportId :: "js_string \<Rightarrow> unit catalog" where
  "validateModelArtifactImportId value = ensure (UUID value) InputError"

definition validateModelArtifactId :: "js_string \<Rightarrow> unit catalog" where
  "validateModelArtifactId value = ensure (UUID value) InputError"

definition validateCreateModelArtifactImport :: "create_import \<Rightarrow> unit catalog" where
  "validateCreateModelArtifactImport input =
     bindR (validateNamespaceId (ci_namespace_id input)) (\<lambda>_.
     bindR (ensure (EXACT_VERSION (ci_create_digest input)) InputError) (\<lambda>_.
     bindR (validateSwiftStudioSessionId (ci_studio_session_id input)) (\<lambda>_.
     bindR (ensure (EXACT_VERSION (ci_output_handle_digest input)) InputError) (\<lambda>_.
     bindR (ensure (ci_artifact_kind input = js ''lora_adapter'') InputError) (\<lambda>_.
     bindR (validateModelArtifactDisplayName (ci_display_name input)) (\<lambda>_.
     validateModelArtifactBaseModel (ci_base_model_reference input) (ci_base_model_revision input)
       (if ci_base_model_revision input = None then UnresolvedBinding else DeclaredBinding)))))))"

definition validateModelArtifactImportFailure :: "failure_report \<Rightarrow> unit catalog" where
  "validateModelArtifactImportFailure failure =
     bindR (ensure (SAFE_EVALUATION_NAME (fr_phase failure) \<and> SAFE_EVALUATION_NAME (fr_code failure)) InputError) (\<lambda>_.
     ensure (\<not> (byte_length (fr_message failure) < 1 \<or> 2048 < byte_length (fr_message failure)
       \<or> hasControlCharacter (fr_message failure) \<or> CREDENTIAL_VALUE (fr_message failure))) InputError)"

record import_finalization =
  if_staging_object_key :: js_string
  if_archive_digest :: js_string
  if_archive_size_bytes :: int
  if_manifest_digest :: js_string
  if_manifest :: json
  if_lineage_status :: lineage_status
  if_dataset_version :: "js_string option"
  if_dataset_export_digest :: "js_string option"
  if_binding_status :: binding_status

text \<open>A request for a transition; its constructor is the status that is asked for.\<close>

datatype import_transition =
    ToStaging js_string js_string
  | ToFinalizing import_finalization
  | ToImportFailed failure_report

fun requested_import_status :: "import_transition \<Rightarrow> import_status" where
  "requested_import_status (ToStaging _ _) = Staging"
| "requested_import_status (ToFinalizing _) = FinalizingImport"
| "requested_import_status (ToImportFailed _) = FailedImport"

definition validate_finalization :: "js_string \<Rightarrow> import_finalization \<Rightarrow> unit catalog" where
  "validate_finalization i f =
     bindR (ensure (MODEL_ARTIFACT_STAGING_KEY (if_staging_object_key f)
       \<and> if_staging_object_key f = staging_archive_key i) InputError) (\<lambda>_.
     bindR (validateModelArtifactArchiveMetadata (if_archive_digest f) (if_archive_size_bytes f) (if_manifest_digest f)) (\<lambda>_.
     bindR (validateModelArtifactLineage (if_lineage_status f) (if_dataset_version f) (if_dataset_export_digest f)) (\<lambda>_.
     bindR (validateModelArtifactManifest (if_manifest f)) (\<lambda>_.
     ensure (text_field (if_manifest f) ''archive_digest'' (\<lambda>s. s = if_archive_digest f)
       \<and> number_field (if_manifest f) ''archive_size_bytes'' (\<lambda>x. number_int x = Some (if_archive_size_bytes f))
       \<and> sameModelArtifactManifestLineage (required_field (if_manifest f) ''dataset_lineage'')
           (if_lineage_status f) (if_dataset_version f) (if_dataset_export_digest f)
       \<and> text_field (required_field (if_manifest f) ''base_model'') ''binding_status''
           (\<lambda>s. s = binding_text (if_binding_status f))) InputError))))"

definition validateModelArtifactImportTransition :: "js_string \<Rightarrow> js_string \<Rightarrow> import_transition \<Rightarrow> unit catalog" where
  "validateModelArtifactImportTransition namespaceId i input =
     bindR (validateNamespaceId namespaceId) (\<lambda>_.
     bindR (validateModelArtifactImportId i) (\<lambda>_.
     case input of
       ToStaging provider snapshot \<Rightarrow>
         bindR (ensure (MODEL_ARTIFACT_PROVIDER_IMPORT_ID provider) InputError) (\<lambda>_.
         ensure (EXACT_VERSION snapshot) InputError)
     | ToImportFailed failure \<Rightarrow> validateModelArtifactImportFailure failure
     | ToFinalizing f \<Rightarrow> validate_finalization i f))"

definition validateFinalizeModelArtifactImport :: "js_string \<Rightarrow> js_string \<Rightarrow> js_string \<Rightarrow> unit catalog" where
  "validateFinalizeModelArtifactImport namespaceId i objectLocator =
     bindR (validateNamespaceId namespaceId) (\<lambda>_.
     bindR (validateModelArtifactImportId i) (\<lambda>_.
     ensure (MODEL_ARTIFACT_OBJECT_LOCATOR objectLocator) InputError))"

definition validateModelArtifactObjectLocator :: "js_string \<Rightarrow> js_string \<Rightarrow> unit catalog" where
  "validateModelArtifactObjectLocator locator archiveDigest =
     ensure (MODEL_ARTIFACT_OBJECT_LOCATOR locator \<and> locator = artifact_locator archiveDigest) InputError"

section \<open>Stored rows\<close>

definition parseStoredModelArtifactManifest :: "json \<Rightarrow> json catalog" where
  "parseStoredModelArtifactManifest value = bindR (revalidate (validateModelArtifactManifest value)) (\<lambda>_. Inr value)"

definition parseStoredModelArtifactImportFailure :: "json option \<Rightarrow> failure_report option catalog" where
  "parseStoredModelArtifactImportFailure value = (case value of
     None \<Rightarrow> Inr None
   | Some v \<Rightarrow>
       (if \<not> object_with [''phase'', ''code'', ''message''] v then Inl ConsistencyError
        else case (json_field v ''phase'', json_field v ''code'', json_field v ''message'') of
          (Some (JString phase), Some (JString code), Some (JString message)) \<Rightarrow>
            let failure = \<lparr>fr_phase = phase, fr_code = code, fr_message = message\<rparr>
            in bindR (revalidate (validateModelArtifactImportFailure failure)) (\<lambda>_. Inr (Some failure))
        | _ \<Rightarrow> Inl ConsistencyError))"

record import_view =
  iv_row :: artifact_import
  iv_failure :: "failure_report option"

definition has_finalization :: "artifact_import \<Rightarrow> bool" where
  "has_finalization r \<longleftrightarrow> list_all id (final_fields r)"

fun import_shape :: "import_status \<Rightarrow> artifact_import \<Rightarrow> bool" where
  "import_shape Requested r \<longleftrightarrow> ai_staging_at r = None \<and> \<not> has_finalization r \<and> ai_artifact_id r = None
     \<and> ai_failure r = None \<and> ai_completed_at r = None \<and> ai_failed_at r = None"
| "import_shape Staging r \<longleftrightarrow> ai_staging_at r \<noteq> None \<and> \<not> has_finalization r \<and> ai_artifact_id r = None
     \<and> ai_failure r = None \<and> ai_completed_at r = None \<and> ai_failed_at r = None"
| "import_shape FinalizingImport r \<longleftrightarrow> ai_staging_at r \<noteq> None \<and> has_finalization r \<and> ai_artifact_id r = None
     \<and> ai_failure r = None \<and> ai_completed_at r = None \<and> ai_failed_at r = None"
| "import_shape CompletedImport r \<longleftrightarrow> has_finalization r \<and> ai_artifact_id r \<noteq> None
     \<and> ai_failure r = None \<and> ai_completed_at r \<noteq> None \<and> ai_failed_at r = None"
| "import_shape FailedImport r \<longleftrightarrow> ai_artifact_id r = None
     \<and> ai_failure r \<noteq> None \<and> ai_completed_at r = None \<and> ai_failed_at r \<noteq> None"

definition finalization_shape :: "artifact_import \<Rightarrow> unit catalog" where
  "finalization_shape r = (case (ai_archive_digest r, ai_archive_size_bytes r, ai_manifest_digest r,
       ai_lineage_status r, ai_binding_status r) of
     (Some archive, Some bytes, Some manifestDigest, Some lineage, Some binding) \<Rightarrow>
       bindR (validateModelArtifactArchiveMetadata archive bytes manifestDigest) (\<lambda>_.
       bindR (ensure (ai_staging_object_key r = Some (staging_archive_key (ai_id r))) InputError) (\<lambda>_.
       bindR (validateModelArtifactLineage lineage (ai_dataset_version r) (ai_dataset_export_digest r)) (\<lambda>_.
       validateModelArtifactBaseModel (ai_base_model_reference r) (ai_base_model_revision r) binding)))
   | _ \<Rightarrow> Inl InputError)"

definition validateStoredModelArtifactImportShape :: "artifact_import \<Rightarrow> unit catalog" where
  "validateStoredModelArtifactImportShape r =
     bindR (ensure ((ai_staging_at r \<noteq> None) = (ai_provider_import_id r \<noteq> None \<and> ai_output_snapshot_digest r \<noteq> None)
       \<and> null_or MODEL_ARTIFACT_PROVIDER_IMPORT_ID (ai_provider_import_id r)
       \<and> null_or EXACT_VERSION (ai_output_snapshot_digest r)) InputError) (\<lambda>_.
     bindR (ensure (has_finalization r = list_ex id (final_fields r)) InputError) (\<lambda>_.
     bindR (if has_finalization r then finalization_shape r else Inr ()) (\<lambda>_.
     ensure (import_shape (ai_status r) r \<and> (ai_staging_cleaned_at r \<noteq> None \<longrightarrow> is_settled (ai_status r))) InputError)))"

definition create_of_import :: "artifact_import \<Rightarrow> create_import" where
  "create_of_import r = \<lparr>ci_namespace_id = ai_namespace_id r, ci_create_digest = ai_create_digest r,
     ci_studio_session_id = ai_studio_session_id r, ci_output_handle_digest = ai_output_handle_digest r,
     ci_artifact_kind = ai_artifact_kind r, ci_display_name = ai_display_name r,
     ci_base_model_reference = ai_base_model_reference r, ci_base_model_revision = ai_base_model_revision r\<rparr>"

definition sqlRowToModelArtifactImport :: "artifact_import \<Rightarrow> import_view catalog" where
  "sqlRowToModelArtifactImport row =
     bindR (case ai_manifest row of None \<Rightarrow> Inr None
       | Some m \<Rightarrow> bindR (parseStoredModelArtifactManifest m) (\<lambda>m. Inr (Some m))) (\<lambda>manifest.
     bindR (parseStoredModelArtifactImportFailure (ai_failure row)) (\<lambda>failure.
     bindR (ensure (ai_artifact_kind row = js ''lora_adapter'') ConsistencyError) (\<lambda>_.
     bindR (revalidate (bindR (validateCreateModelArtifactImport (create_of_import row)) (\<lambda>_.
       bindR (validateModelArtifactImportId (ai_id row)) (\<lambda>_.
       validateStoredModelArtifactImportShape row)))) (\<lambda>_.
     Inr \<lparr>iv_row = row, iv_failure = failure\<rparr>))))"

definition artifact_row_valid :: "model_artifact \<Rightarrow> unit catalog" where
  "artifact_row_valid r =
     bindR (validateModelArtifactId (ma_id r)) (\<lambda>_.
     bindR (validateNamespaceId (ma_namespace_id r)) (\<lambda>_.
     bindR (validateModelArtifactDisplayName (ma_display_name r)) (\<lambda>_.
     bindR (validateModelArtifactBaseModel (ma_base_model_reference r) (ma_base_model_revision r) (ma_binding_status r)) (\<lambda>_.
     bindR (validateModelArtifactArchiveMetadata (ma_archive_digest r) (ma_archive_size_bytes r) (ma_manifest_digest r)) (\<lambda>_.
     bindR (validateModelArtifactObjectLocator (ma_object_locator r) (ma_archive_digest r)) (\<lambda>_.
     bindR (validateModelArtifactLineage (ma_lineage_status r) (ma_dataset_version r) (ma_dataset_export_digest r)) (\<lambda>_.
     bindR (ensure (GIT_COMMIT (ma_upstream_commit r) \<and> EXACT_VERSION (ma_image_digest r)) InputError) (\<lambda>_.
     bindR (validateModelArtifactManifest (ma_manifest r)) (\<lambda>_.
     let manifest = ma_manifest r; source = required_field manifest ''source'';
         base_model = required_field manifest ''base_model''
     in ensure (text_field manifest ''archive_digest'' (\<lambda>s. s = ma_archive_digest r)
          \<and> number_field manifest ''archive_size_bytes'' (\<lambda>x. number_int x = Some (ma_archive_size_bytes r))
          \<and> text_field source ''studio_session_id'' (\<lambda>s. s = ma_source_session_id r)
          \<and> text_field source ''upstream_commit'' (\<lambda>s. s = ma_upstream_commit r)
          \<and> text_field source ''image_digest'' (\<lambda>s. s = ma_image_digest r)
          \<and> sameModelArtifactManifestLineage (required_field manifest ''dataset_lineage'')
              (ma_lineage_status r) (ma_dataset_version r) (ma_dataset_export_digest r)
          \<and> text_field base_model ''reference'' (\<lambda>s. s = ma_base_model_reference r)
          \<and> required_field base_model ''revision'' = of_optional (ma_base_model_revision r)
          \<and> text_field base_model ''binding_status'' (\<lambda>s. s = binding_text (ma_binding_status r))) InputError)))))))))"

definition sqlRowToModelArtifact :: "model_artifact \<Rightarrow> model_artifact catalog" where
  "sqlRowToModelArtifact row =
     bindR (ensure (ma_artifact_kind row = js ''lora_adapter'' \<and> ma_artifact_format row = js ''swift-lora-adapter-v1''
       \<and> ma_archive_format row = js ''deterministic-tar-zst-v1'' \<and> ma_source_kind row = js ''swift_studio_session'') ConsistencyError) (\<lambda>_.
     bindR (parseStoredModelArtifactManifest (ma_manifest row)) (\<lambda>manifest.
     bindR (revalidate (artifact_row_valid row)) (\<lambda>_. Inr row)))"

definition one_import :: "artifact_import list \<Rightarrow> import_view option catalog" where
  "one_import rows = (case rows of
     [] \<Rightarrow> Inr None
   | [row] \<Rightarrow> bindR (sqlRowToModelArtifactImport row) (\<lambda>v. Inr (Some v))
   | _ \<Rightarrow> Inl ConsistencyError)"

text \<open>\<open>if (rows.length !== 1 || !rows[0]) throw\<close>.\<close>

definition exactly_one :: "catalog_error \<Rightarrow> 'r list \<Rightarrow> 'r catalog" where
  "exactly_one e rows = (case rows of [row] \<Rightarrow> Inr row | _ \<Rightarrow> Inl e)"

end
