(* ===== verification/Artifact_Operations.thy ===== *)
theory Artifact_Operations
  imports Model_Artifacts
begin

text \<open>
  The operations on imports and artifacts: request, staging clean-up, the transitions up to the
  finalization, the completion that writes the artifact, and the readers.
\<close>

section \<open>Requests\<close>

definition new_import :: "int \<Rightarrow> js_string \<Rightarrow> create_import \<Rightarrow> artifact_import" where
  "new_import now i input =
     \<lparr>ai_id = i, ai_namespace_id = ci_namespace_id input, ai_create_digest = ci_create_digest input,
      ai_status = Requested, ai_studio_session_id = ci_studio_session_id input,
      ai_output_handle_digest = ci_output_handle_digest input, ai_artifact_kind = ci_artifact_kind input,
      ai_display_name = ci_display_name input, ai_base_model_reference = ci_base_model_reference input,
      ai_base_model_revision = ci_base_model_revision input, ai_provider_import_id = None,
      ai_output_snapshot_digest = None, ai_staging_object_key = None, ai_archive_digest = None,
      ai_archive_size_bytes = None, ai_manifest_digest = None, ai_manifest = None, ai_lineage_status = None,
      ai_dataset_version = None, ai_dataset_export_digest = None, ai_binding_status = None,
      ai_artifact_id = None, ai_failure = None, ai_created_at = now, ai_staging_at = None,
      ai_finalizing_at = None, ai_completed_at = None, ai_failed_at = None, ai_staging_cleaned_at = None,
      ai_updated_at = now\<rparr>"

definition sameModelArtifactImportCreate :: "artifact_import \<Rightarrow> create_import \<Rightarrow> bool" where
  "sameModelArtifactImportCreate row input \<longleftrightarrow> create_of_import row = input"

definition import_conflict_error :: "import_conflict_reason \<Rightarrow> artifact_import \<Rightarrow> import_status option \<Rightarrow> catalog_error" where
  "import_conflict_error reason row requested = ImportConflictError reason (ai_id row) (ai_status row) requested"

definition import_replays :: "create_import \<Rightarrow> studio_db \<Rightarrow> artifact_import list" where
  "import_replays input db = select_where (\<lambda>r. ai_namespace_id r = ci_namespace_id input
     \<and> ai_create_digest r = ci_create_digest input) (sd_imports db)"

definition replayed_import :: "create_import \<Rightarrow> import_view \<Rightarrow> import_view catalog" where
  "replayed_import input v = bindR (ensure (sameModelArtifactImportCreate (iv_row v) input)
     (import_conflict_error ImportCreateMismatch (iv_row v) None)) (\<lambda>_. Inr v)"

text \<open>The lookups after an insert that met a conflict.\<close>

definition import_after_conflict :: "create_import \<Rightarrow> studio_db \<Rightarrow> import_view catalog" where
  "import_after_conflict input db = (case import_replays input db of
     [row] \<Rightarrow> bindR (sqlRowToModelArtifactImport row) (replayed_import input)
   | _ \<Rightarrow>
       bindR (exactly_one ConsistencyError (select_where (\<lambda>r. import_output r = (ci_namespace_id input,
         ci_studio_session_id input, ci_output_handle_digest input, ci_artifact_kind input)) (sd_imports db))) (\<lambda>existing.
       bindR (sqlRowToModelArtifactImport existing) (\<lambda>v.
       Inl (import_conflict_error OutputAlreadyImported (iv_row v) None))))"

definition createOrReadModelArtifactImport :: "int \<Rightarrow> js_string \<Rightarrow> create_import \<Rightarrow> studio_db
    \<Rightarrow> (studio_db \<times> import_view \<times> bool) catalog" where
  "createOrReadModelArtifactImport now i input db =
     bindR (validateCreateModelArtifactImport input) (\<lambda>_.
     bindR (exactly_one InputError (find_session db (ci_namespace_id input) (ci_studio_session_id input))) (\<lambda>row.
     bindR (sqlRowToSwiftStudioSession row) (\<lambda>session.
     bindR (one_import (import_replays input db)) (\<lambda>replay. case replay of
         Some v \<Rightarrow> bindR (replayed_import input v) (\<lambda>v. Inr (db, v, False))
       | None \<Rightarrow>
           bindR (ensure (ss_status (sv_row session) = Ready) InputError) (\<lambda>_.
           bindR (insert_import (new_import now i input) db) (\<lambda>(db1, inserted).
           if inserted
           then bindR (sqlRowToModelArtifactImport (new_import now i input)) (\<lambda>v. Inr (db1, v, True))
           else bindR (import_after_conflict input db1) (\<lambda>v. Inr (db1, v, False))))))))"

definition getModelArtifactImport :: "js_string \<Rightarrow> js_string \<Rightarrow> studio_db \<Rightarrow> import_view option catalog" where
  "getModelArtifactImport namespaceId i db =
     bindR (validateNamespaceId namespaceId) (\<lambda>_.
     bindR (validateModelArtifactImportId i) (\<lambda>_.
     one_import (find_import db namespaceId i)))"

definition import_at :: "js_string \<Rightarrow> js_string \<Rightarrow> import_status set \<Rightarrow> artifact_import \<Rightarrow> bool" where
  "import_at namespaceId i statuses r \<longleftrightarrow> ai_namespace_id r = namespaceId \<and> ai_id r = i \<and> ai_status r \<in> statuses"

definition markModelArtifactImportStagingCleaned :: "int \<Rightarrow> js_string \<Rightarrow> js_string \<Rightarrow> studio_db
    \<Rightarrow> (studio_db \<times> import_view option) catalog" where
  "markModelArtifactImportStagingCleaned now namespaceId i db =
     bindR (validateNamespaceId namespaceId) (\<lambda>_.
     bindR (validateModelArtifactImportId i) (\<lambda>_.
     bindR (update_imports (import_at namespaceId i {CompletedImport, FailedImport})
       (\<lambda>r. case ai_staging_cleaned_at r of
          None \<Rightarrow> r\<lparr>ai_staging_cleaned_at := Some now, ai_updated_at := now\<rparr> | Some _ \<Rightarrow> r) db) (\<lambda>(db1, rows).
     bindR (one_import rows) (\<lambda>v. Inr (db1, v)))))"

section \<open>Transitions\<close>

fun import_sources :: "import_transition \<Rightarrow> import_status set" where
  "import_sources (ToStaging _ _) = {Requested}"
| "import_sources (ToFinalizing _) = {Staging}"
| "import_sources (ToImportFailed _) = {Requested, Staging, FinalizingImport}"

fun import_transition_row :: "int \<Rightarrow> import_transition \<Rightarrow> artifact_import \<Rightarrow> artifact_import" where
  "import_transition_row now (ToStaging provider snapshot) r = r\<lparr>ai_status := Staging,
     ai_provider_import_id := Some provider, ai_output_snapshot_digest := Some snapshot,
     ai_staging_at := Some now, ai_updated_at := now\<rparr>"
| "import_transition_row now (ToFinalizing f) r = r\<lparr>ai_status := FinalizingImport,
     ai_staging_object_key := Some (if_staging_object_key f), ai_archive_digest := Some (if_archive_digest f),
     ai_archive_size_bytes := Some (if_archive_size_bytes f), ai_manifest_digest := Some (if_manifest_digest f),
     ai_manifest := Some (if_manifest f), ai_lineage_status := Some (if_lineage_status f),
     ai_dataset_version := if_dataset_version f, ai_dataset_export_digest := if_dataset_export_digest f,
     ai_binding_status := Some (if_binding_status f), ai_finalizing_at := Some now, ai_updated_at := now\<rparr>"
| "import_transition_row now (ToImportFailed failure) r = r\<lparr>ai_status := FailedImport,
     ai_failure := Some (failure_json failure), ai_failed_at := Some now, ai_updated_at := now\<rparr>"

text \<open>What a finalization has to agree with: the import and the session it came from.\<close>

definition manifest_matches_source :: "json \<Rightarrow> artifact_import \<Rightarrow> studio_session \<Rightarrow> bool" where
  "manifest_matches_source manifest r session \<longleftrightarrow>
     (let source = required_field manifest ''source''; base_model = required_field manifest ''base_model''
      in json_field manifest ''output_snapshot_digest'' = Some (of_optional (ai_output_snapshot_digest r))
       \<and> json_field source ''studio_session_id'' = Some (JString (ai_studio_session_id r))
       \<and> json_field source ''upstream_commit'' = Some (JString (ss_upstream_commit session))
       \<and> json_field source ''image_digest'' = Some (JString (ss_image_digest session))
       \<and> json_field base_model ''reference'' = Some (JString (ai_base_model_reference r))
       \<and> json_field base_model ''revision'' = Some (of_optional (ai_base_model_revision r)))"

text \<open>The result is \<open>False\<close> where the operation returns null because there is no such import.\<close>

definition finalization_source :: "js_string \<Rightarrow> js_string \<Rightarrow> import_finalization \<Rightarrow> studio_db \<Rightarrow> bool catalog" where
  "finalization_source namespaceId i f db = (case find_import db namespaceId i of
     [row] \<Rightarrow>
       bindR (sqlRowToModelArtifactImport row) (\<lambda>v.
       bindR (exactly_one ConsistencyError (find_session db namespaceId (ai_studio_session_id (iv_row v)))) (\<lambda>session_row.
       bindR (sqlRowToSwiftStudioSession session_row) (\<lambda>session.
       bindR (ensure (manifest_matches_source (if_manifest f) (iv_row v) (sv_row session)) InputError) (\<lambda>_.
       bindR (ensure (\<not> (if_lineage_status f = VerifiedLineage
         \<and> (if_dataset_version f \<noteq> Some (ss_dataset_version (sv_row session))
            \<or> if_dataset_export_digest f \<noteq> ss_export_digest (sv_row session)))) InputError) (\<lambda>_.
       Inr True)))))
   | _ \<Rightarrow> Inr False)"

definition import_replayable :: "import_status \<Rightarrow> import_status \<Rightarrow> bool" where
  "import_replayable existing requested \<longleftrightarrow> existing = requested
     \<or> requested = Staging \<and> (existing = FinalizingImport \<or> existing = CompletedImport)
     \<or> requested = FinalizingImport \<and> existing = CompletedImport"

fun sameModelArtifactImportTransitionBody :: "import_view \<Rightarrow> import_transition \<Rightarrow> bool" where
  "sameModelArtifactImportTransitionBody v (ToStaging provider snapshot) \<longleftrightarrow>
     ai_provider_import_id (iv_row v) = Some provider \<and> ai_output_snapshot_digest (iv_row v) = Some snapshot"
| "sameModelArtifactImportTransitionBody v (ToImportFailed failure) \<longleftrightarrow> iv_failure v = Some failure"
| "sameModelArtifactImportTransitionBody v (ToFinalizing f) \<longleftrightarrow>
     ai_staging_object_key (iv_row v) = Some (if_staging_object_key f)
   \<and> ai_archive_digest (iv_row v) = Some (if_archive_digest f)
   \<and> ai_archive_size_bytes (iv_row v) = Some (if_archive_size_bytes f)
   \<and> ai_manifest_digest (iv_row v) = Some (if_manifest_digest f)
   \<and> ai_lineage_status (iv_row v) = Some (if_lineage_status f)
   \<and> ai_dataset_version (iv_row v) = if_dataset_version f
   \<and> ai_dataset_export_digest (iv_row v) = if_dataset_export_digest f
   \<and> ai_binding_status (iv_row v) = Some (if_binding_status f)
   \<and> (case ai_manifest (iv_row v) of None \<Rightarrow> False | Some m \<Rightarrow> sameJsonValue m (if_manifest f))"

definition existing_import :: "import_transition \<Rightarrow> import_view \<Rightarrow> import_view catalog" where
  "existing_import input v =
     bindR (ensure (import_replayable (ai_status (iv_row v)) (requested_import_status input))
       (import_conflict_error InvalidImportTransition (iv_row v) (Some (requested_import_status input)))) (\<lambda>_.
     bindR (ensure (sameModelArtifactImportTransitionBody v input)
       (import_conflict_error ImportBodyMismatch (iv_row v) (Some (requested_import_status input)))) (\<lambda>_. Inr v))"

definition update_transition :: "int \<Rightarrow> js_string \<Rightarrow> js_string \<Rightarrow> import_transition \<Rightarrow> studio_db
    \<Rightarrow> (studio_db \<times> import_view option) catalog" where
  "update_transition now namespaceId i input db =
     bindR (update_imports (import_at namespaceId i (import_sources input)) (import_transition_row now input) db) (\<lambda>(db1, rows).
     bindR (one_import rows) (\<lambda>updated. case updated of
         Some v \<Rightarrow> Inr (db1, Some v)
       | None \<Rightarrow> bindR (one_import (find_import db1 namespaceId i)) (\<lambda>existing. case existing of
             None \<Rightarrow> Inr (db1, None)
           | Some v \<Rightarrow> bindR (existing_import input v) (\<lambda>v. Inr (db1, Some v)))))"

definition transitionModelArtifactImport :: "int \<Rightarrow> js_string \<Rightarrow> js_string \<Rightarrow> import_transition \<Rightarrow> studio_db
    \<Rightarrow> (studio_db \<times> import_view option) catalog" where
  "transitionModelArtifactImport now namespaceId i input db =
     bindR (validateModelArtifactImportTransition namespaceId i input) (\<lambda>_.
     bindR (case input of ToFinalizing f \<Rightarrow> finalization_source namespaceId i f db | _ \<Rightarrow> Inr True) (\<lambda>found.
     if found then update_transition now namespaceId i input db else Inr (db, None)))"

section \<open>Completion\<close>

definition new_artifact :: "int \<Rightarrow> js_string \<Rightarrow> js_string \<Rightarrow> artifact_import \<Rightarrow> studio_session \<Rightarrow> js_string \<Rightarrow> int \<Rightarrow> js_string
    \<Rightarrow> json \<Rightarrow> lineage_status \<Rightarrow> binding_status \<Rightarrow> model_artifact" where
  "new_artifact now artifactId objectLocator r session archiveDigest bytes manifestDigest manifest lineage binding =
     \<lparr>ma_id = artifactId, ma_namespace_id = ai_namespace_id r, ma_display_name = ai_display_name r,
      ma_artifact_kind = ai_artifact_kind r, ma_artifact_format = js ''swift-lora-adapter-v1'',
      ma_archive_format = js ''deterministic-tar-zst-v1'', ma_archive_digest = archiveDigest,
      ma_archive_size_bytes = bytes, ma_object_locator = objectLocator, ma_manifest_digest = manifestDigest,
      ma_manifest = manifest, ma_source_kind = js ''swift_studio_session'',
      ma_source_session_id = ai_studio_session_id r, ma_source_import_id = ai_id r, ma_lineage_status = lineage,
      ma_dataset_version = ai_dataset_version r, ma_dataset_export_digest = ai_dataset_export_digest r,
      ma_base_model_reference = ai_base_model_reference r, ma_base_model_revision = ai_base_model_revision r,
      ma_binding_status = binding, ma_upstream_commit = ss_upstream_commit session,
      ma_image_digest = ss_image_digest session, ma_created_at = now\<rparr>"

definition sameModelArtifactFinalizeBody :: "model_artifact \<Rightarrow> artifact_import \<Rightarrow> js_string \<Rightarrow> bool" where
  "sameModelArtifactFinalizeBody artifact r objectLocator \<longleftrightarrow>
     ma_namespace_id artifact = ai_namespace_id r \<and> ma_display_name artifact = ai_display_name r
   \<and> ma_artifact_kind artifact = ai_artifact_kind r \<and> Some (ma_archive_digest artifact) = ai_archive_digest r
   \<and> Some (ma_archive_size_bytes artifact) = ai_archive_size_bytes r \<and> ma_object_locator artifact = objectLocator
   \<and> Some (ma_manifest_digest artifact) = ai_manifest_digest r \<and> ma_source_session_id artifact = ai_studio_session_id r
   \<and> ma_source_import_id artifact = ai_id r \<and> Some (ma_lineage_status artifact) = ai_lineage_status r
   \<and> ma_dataset_version artifact = ai_dataset_version r \<and> ma_dataset_export_digest artifact = ai_dataset_export_digest r
   \<and> ma_base_model_reference artifact = ai_base_model_reference r
   \<and> ma_base_model_revision artifact = ai_base_model_revision r \<and> Some (ma_binding_status artifact) = ai_binding_status r
   \<and> (case ai_manifest r of None \<Rightarrow> False | Some m \<Rightarrow> sameJsonValue (ma_manifest artifact) m)"

text \<open>A second completion returns the artifact of the first if it names the same object.\<close>

definition completed_replay :: "js_string \<Rightarrow> js_string \<Rightarrow> import_view \<Rightarrow> studio_db
    \<Rightarrow> (import_view \<times> model_artifact) catalog" where
  "completed_replay namespaceId objectLocator v db =
     bindR (exactly_one ConsistencyError (select_where (\<lambda>a. ma_namespace_id a = namespaceId
       \<and> Some (ma_id a) = ai_artifact_id (iv_row v)) (sd_artifacts db))) (\<lambda>row.
     bindR (sqlRowToModelArtifact row) (\<lambda>artifact.
     bindR (ensure (ma_object_locator artifact = objectLocator)
       (import_conflict_error ImportBodyMismatch (iv_row v) (Some CompletedImport))) (\<lambda>_.
     Inr (v, artifact))))"

text \<open>The new artifact, or the one that already names this import as its source.\<close>

definition artifact_of_import :: "model_artifact \<Rightarrow> js_string \<Rightarrow> artifact_import \<Rightarrow> studio_db
    \<Rightarrow> (studio_db \<times> model_artifact) catalog" where
  "artifact_of_import row objectLocator r db =
     bindR (insert_artifact row db) (\<lambda>(db1, inserted).
     bindR (if inserted then Inr row
       else bindR (exactly_one ConsistencyError
              (select_where (\<lambda>a. ma_source_import_id a = ai_id r) (sd_artifacts db1))) (\<lambda>sql.
            bindR (sqlRowToModelArtifact sql) (\<lambda>existing.
            bindR (ensure (ma_source_import_id existing = ai_id r \<and> sameModelArtifactFinalizeBody existing r objectLocator)
              (import_conflict_error ArchiveIdentityMismatch r (Some CompletedImport))) (\<lambda>_.
            Inr sql)))) (\<lambda>sql.
     bindR (sqlRowToModelArtifact sql) (\<lambda>artifact. Inr (db1, artifact))))"

definition complete_import :: "int \<Rightarrow> js_string \<Rightarrow> js_string \<Rightarrow> model_artifact \<Rightarrow> studio_db
    \<Rightarrow> (studio_db \<times> import_view \<times> model_artifact) catalog" where
  "complete_import now namespaceId i artifact db =
     bindR (update_imports (import_at namespaceId i {FinalizingImport})
       (\<lambda>r. r\<lparr>ai_status := CompletedImport, ai_artifact_id := Some (ma_id artifact), ai_completed_at := Some now,
          ai_updated_at := now\<rparr>) db) (\<lambda>(db1, rows).
     bindR (exactly_one ConsistencyError rows) (\<lambda>row.
     bindR (sqlRowToModelArtifactImport row) (\<lambda>v. Inr (db1, v, artifact))))"

definition finalize_import :: "int \<Rightarrow> js_string \<Rightarrow> js_string \<Rightarrow> js_string \<Rightarrow> js_string \<Rightarrow> import_view \<Rightarrow> studio_db
    \<Rightarrow> (studio_db \<times> import_view \<times> model_artifact) catalog" where
  "finalize_import now artifactId namespaceId i objectLocator v db =
     (let r = iv_row v in case (ai_archive_digest r, ai_archive_size_bytes r, ai_manifest_digest r, ai_manifest r,
          ai_lineage_status r, ai_binding_status r) of
        (Some archiveDigest, Some bytes, Some manifestDigest, Some manifest, Some lineage, Some binding) \<Rightarrow>
          bindR (validateModelArtifactObjectLocator objectLocator archiveDigest) (\<lambda>_.
          bindR (exactly_one ConsistencyError (find_session db namespaceId (ai_studio_session_id r))) (\<lambda>session_row.
          bindR (sqlRowToSwiftStudioSession session_row) (\<lambda>session.
          bindR (artifact_of_import (new_artifact now artifactId objectLocator r (sv_row session) archiveDigest bytes
            manifestDigest manifest lineage binding) objectLocator r db) (\<lambda>(db1, artifact).
          complete_import now namespaceId i artifact db1))))
      | _ \<Rightarrow> Inl ConsistencyError)"

definition finalizeModelArtifactImport :: "int \<Rightarrow> js_string \<Rightarrow> js_string \<Rightarrow> js_string \<Rightarrow> js_string \<Rightarrow> studio_db
    \<Rightarrow> (studio_db \<times> (import_view \<times> model_artifact) option) catalog" where
  "finalizeModelArtifactImport now artifactId namespaceId i objectLocator db =
     bindR (validateFinalizeModelArtifactImport namespaceId i objectLocator) (\<lambda>_.
     bindR (one_import (find_import db namespaceId i)) (\<lambda>found. case found of
         None \<Rightarrow> Inr (db, None)
       | Some v \<Rightarrow>
           (if ai_status (iv_row v) = CompletedImport
            then bindR (completed_replay namespaceId objectLocator v db) (\<lambda>result. Inr (db, Some result))
            else bindR (ensure (ai_status (iv_row v) = FinalizingImport)
                   (import_conflict_error InvalidImportTransition (iv_row v) (Some CompletedImport))) (\<lambda>_.
                 bindR (finalize_import now artifactId namespaceId i objectLocator v db) (\<lambda>(db1, result).
                 Inr (db1, Some result))))))"

section \<open>Reading\<close>

definition getModelArtifact :: "js_string \<Rightarrow> js_string \<Rightarrow> studio_db \<Rightarrow> model_artifact option catalog" where
  "getModelArtifact namespaceId i db =
     bindR (validateNamespaceId namespaceId) (\<lambda>_.
     bindR (validateModelArtifactId i) (\<lambda>_.
     case select_where (\<lambda>r. ma_namespace_id r = namespaceId \<and> ma_id r = i) (sd_artifacts db) of
       [] \<Rightarrow> Inr None
     | [row] \<Rightarrow> bindR (sqlRowToModelArtifact row) (\<lambda>v. Inr (Some v))
     | _ \<Rightarrow> Inl ConsistencyError))"

datatype registration_filter = AllArtifacts | RegisteredArtifacts | UnregisteredArtifacts

record artifact_filter =
  af_dataset_version :: "js_string option"
  af_artifact_kind :: "js_string option"
  af_registration :: registration_filter

type_synonym artifact_cursor = "int \<times> js_string"

definition artifact_cursor :: "model_artifact \<Rightarrow> artifact_cursor" where
  "artifact_cursor r = (ma_created_at r div 1000, ma_id r)"

definition validateModelArtifactListFilter :: "artifact_filter \<Rightarrow> unit catalog" where
  "validateModelArtifactListFilter f =
     bindR (ensure (null_or EXACT_VERSION (af_dataset_version f)) InputError) (\<lambda>_.
     ensure (null_or (\<lambda>kind. kind = js ''lora_adapter'') (af_artifact_kind f)) InputError)"

definition validateModelArtifactCursor :: "artifact_cursor \<Rightarrow> unit catalog" where
  "validateModelArtifactCursor cursor = validateModelArtifactId (snd cursor)"

text \<open>\<open>registered\<close> are the namespaces and artifacts that a model version names as its source.\<close>

definition artifact_listed :: "(js_string \<times> js_string) list \<Rightarrow> js_string \<Rightarrow> artifact_filter \<Rightarrow> artifact_cursor option
    \<Rightarrow> model_artifact \<Rightarrow> bool" where
  "artifact_listed registered namespaceId f before r \<longleftrightarrow> ma_namespace_id r = namespaceId
     \<and> null_or (\<lambda>v. ma_dataset_version r = Some v) (af_dataset_version f)
     \<and> null_or (\<lambda>kind. ma_artifact_kind r = kind) (af_artifact_kind f)
     \<and> (af_registration f = AllArtifacts
        \<or> (af_registration f = RegisteredArtifacts) = ((ma_namespace_id r, ma_id r) \<in> set registered))
     \<and> (case before of None \<Rightarrow> True
        | Some (createdAt, i) \<Rightarrow> ma_created_at r div 1000 < createdAt
            \<or> ma_created_at r div 1000 = createdAt \<and> ma_id r < i)"

definition listModelArtifacts :: "(js_string \<times> js_string) list \<Rightarrow> js_string \<Rightarrow> artifact_filter \<Rightarrow> artifact_cursor option \<Rightarrow> int
    \<Rightarrow> studio_db \<Rightarrow> (model_artifact list \<times> artifact_cursor option) catalog" where
  "listModelArtifacts registered namespaceId f before limit db =
     bindR (validateNamespaceId namespaceId) (\<lambda>_.
     bindR (validateModelArtifactListFilter f) (\<lambda>_.
     bindR (case before of None \<Rightarrow> Inr () | Some c \<Rightarrow> validateModelArtifactCursor c) (\<lambda>_.
     bindR (ensure (is_safe_integer limit \<and> 1 \<le> limit \<and> limit \<le> MAX_CATALOG_PAGE_SIZE) InputError) (\<lambda>_.
     let rows = take (nat (limit + 1)) (order_by_desc artifact_cursor
           (select_where (artifact_listed registered namespaceId f before) (sd_artifacts db)));
         hasMore = limit < int (length rows)
     in bindR (traverseR sqlRowToModelArtifact (take (nat limit) rows)) (\<lambda>pageRows.
        Inr (pageRows, if hasMore \<and> pageRows \<noteq> [] then Some (artifact_cursor (last pageRows)) else None))))))"

end
