(* ===== verification/Studio_Laws.thy ===== *)
theory Studio_Laws
  imports Artifact_Operations
begin

text \<open>
  Laws of the Studio tables: what the constraints keep, what every row keeps through the updates of
  the code, and how imports, sessions and artifacts belong together.
\<close>

section \<open>Tables without conflicts\<close>

definition conflict_free :: "('r \<Rightarrow> 'r \<Rightarrow> bool) \<Rightarrow> 'r list \<Rightarrow> bool" where
  "conflict_free c rows \<longleftrightarrow> sorted_wrt (\<lambda>r s. \<not> c r s) rows"

lemma conflict_free_Nil [simp]: "conflict_free c []"
  by (simp add: conflict_free_def)

lemma conflict_free_insert:
  assumes "conflict_free c rows" "symp c"
  shows "conflict_free c (fst (insert_on_conflict_do_nothing c r rows))"
  using assms by (auto simp: conflict_free_def insert_on_conflict_do_nothing_def sorted_wrt_append list_ex_iff dest: sympD)

lemma conflict_free_update:
  assumes "conflict_free c rows"
    and "\<And>r s. c (if p r then f r else r) (if p s then f s else s) \<Longrightarrow> c r s"
  shows "conflict_free c (update_where p f rows)"
  using assms(1) unfolding conflict_free_def update_where_def sorted_wrt_map
  by (rule sorted_wrt_mono_rel [rotated]) (blast intro: assms(2))

lemma conflict_free_unique:
  "conflict_free c rows \<Longrightarrow> symp c \<Longrightarrow> r \<in> set rows \<Longrightarrow> s \<in> set rows \<Longrightarrow> c r s \<Longrightarrow> r = s"
  by (induction rows) (auto simp: conflict_free_def dest: sympD)

lemma conflict_free_key:
  "conflict_free c rows \<Longrightarrow> (\<And>r s. key r = key s \<Longrightarrow> c r s) \<Longrightarrow> distinct (map key rows)"
  by (induction rows) (auto simp: conflict_free_def)

lemma conflict_free_disj:
  "conflict_free (\<lambda>r s. c r s \<or> d r s) rows \<longleftrightarrow> conflict_free c rows \<and> conflict_free d rows"
  by (induction rows) (auto simp: conflict_free_def)

lemma unique_present_conflict_free:
  "unique_present column rows \<longleftrightarrow> conflict_free (\<lambda>r s. column r \<noteq> None \<and> column r = column s) rows"
  by (induction rows) (auto simp: unique_present_def conflict_free_def image_iff)

text \<open>The rows that one key selects.\<close>

lemma select_one:
  assumes "distinct (map key rows)" "r \<in> set rows" "p r" "\<And>s. p s \<Longrightarrow> key s = key r"
  shows "select_where p rows = [r]"
  using assms(1,2) unfolding select_where_def
proof (induction rows)
  case (Cons s rows)
  show ?case
  proof (cases "s = r")
    case True
    then have "filter p rows = []"
      using Cons.prems(1) assms(4) by (auto simp: filter_empty_conv image_iff)
    then show ?thesis using True assms(3) by simp
  next
    case False
    then have "r \<in> set rows" using Cons.prems(2) by simp
    moreover from this have "key s \<noteq> key r" using Cons.prems(1) by (auto simp: image_iff)
    ultimately show ?thesis using Cons assms(4) by auto
  qed
qed simp

lemma returning_select: "returning p f rows = map f (select_where p rows)"
  by (simp add: returning_def select_where_def)

lemma exactly_one_Inr [result_simps]: "exactly_one e rows = Inr r \<longleftrightarrow> rows = [r]"
  by (auto simp: exactly_one_def split: list.splits)

lemma select_where_mem: "select_where p rows = [r] \<Longrightarrow> r \<in> set rows \<and> p r"
  unfolding select_where_def by (metis filter_eq_ConsD in_set_conv_decomp)

lemma list_ex_mono: "set xs \<subseteq> set ys \<Longrightarrow> list_ex q xs \<Longrightarrow> list_ex q ys"
  by (auto simp: list_ex_iff)

section \<open>Rows as they are read\<close>

lemma session_view_row: "sqlRowToSwiftStudioSession row = Inr v \<Longrightarrow> sv_row v = row"
  by (auto simp: sqlRowToSwiftStudioSession_def result_simps)

lemma import_view_row: "sqlRowToModelArtifactImport row = Inr v \<Longrightarrow> iv_row v = row"
  by (auto simp: sqlRowToModelArtifactImport_def result_simps)

lemma artifact_view_row: "sqlRowToModelArtifact row = Inr v \<Longrightarrow> v = row"
  by (auto simp: sqlRowToModelArtifact_def result_simps)

lemma one_import_Some:
  "one_import rows = Inr (Some v) \<longleftrightarrow> (\<exists>r. rows = [r] \<and> sqlRowToModelArtifactImport r = Inr v)"
  by (auto simp: one_import_def result_simps split: list.splits)

lemma one_import_None: "one_import rows = Inr None \<longleftrightarrow> rows = []"
  by (auto simp: one_import_def result_simps split: list.splits)

lemma one_session_Some:
  "one_session rows = Inr (Some v) \<longleftrightarrow> (\<exists>r. rows = [r] \<and> sqlRowToSwiftStudioSession r = Inr v)"
  by (auto simp: one_session_def result_simps split: list.splits)

section \<open>The invariant\<close>

definition sessions_ok :: "studio_session list \<Rightarrow> bool" where
  "sessions_ok rows \<longleftrightarrow> list_all session_check rows \<and> conflict_free session_conflict rows"

definition imports_ok :: "artifact_import list \<Rightarrow> bool" where
  "imports_ok rows \<longleftrightarrow> list_all import_check rows \<and> conflict_free import_conflict rows"

definition artifacts_ok :: "model_artifact list \<Rightarrow> bool" where
  "artifacts_ok rows \<longleftrightarrow> list_all artifact_check rows \<and> distinct (map ma_id rows) \<and> conflict_free artifact_conflict rows"

text \<open>
  An import belongs to a session that has been ready, which is still ready while the import is
  unsettled; what it claims of the session is so.
\<close>

definition source_of_import :: "artifact_import \<Rightarrow> studio_session \<Rightarrow> bool" where
  "source_of_import a s \<longleftrightarrow> ss_id s = ai_studio_session_id a \<and> ss_namespace_id s = ai_namespace_id a
     \<and> is_started (ss_status s) \<and> (\<not> is_settled (ai_status a) \<longrightarrow> ss_status s = Ready)
     \<and> (ai_lineage_status a = Some VerifiedLineage \<longrightarrow>
          ai_dataset_version a = Some (ss_dataset_version s) \<and> ai_dataset_export_digest a = ss_export_digest s)
     \<and> null_or (\<lambda>m. manifest_matches_source m a s) (ai_manifest a)"

definition imports_linked :: "studio_session list \<Rightarrow> artifact_import list \<Rightarrow> bool" where
  "imports_linked sessions imports \<longleftrightarrow> list_all (\<lambda>a. list_ex (source_of_import a) sessions) imports"

text \<open>An artifact has the metadata of the completed import that names it, and the runtime of its session.\<close>

definition product_of :: "artifact_import \<Rightarrow> model_artifact \<Rightarrow> bool" where
  "product_of a r \<longleftrightarrow> ai_id a = ma_source_import_id r \<and> ai_status a = CompletedImport \<and> ai_artifact_id a = Some (ma_id r)
     \<and> ai_namespace_id a = ma_namespace_id r \<and> ai_studio_session_id a = ma_source_session_id r
     \<and> ai_archive_digest a = Some (ma_archive_digest r) \<and> ai_archive_size_bytes a = Some (ma_archive_size_bytes r)
     \<and> ai_manifest_digest a = Some (ma_manifest_digest r) \<and> ai_manifest a = Some (ma_manifest r)
     \<and> ai_lineage_status a = Some (ma_lineage_status r) \<and> ai_dataset_version a = ma_dataset_version r
     \<and> ai_dataset_export_digest a = ma_dataset_export_digest r \<and> ai_binding_status a = Some (ma_binding_status r)"

definition runtime_of :: "model_artifact \<Rightarrow> studio_session \<Rightarrow> bool" where
  "runtime_of r s \<longleftrightarrow> ss_id s = ma_source_session_id r \<and> ss_upstream_commit s = ma_upstream_commit r
     \<and> ss_image_digest s = ma_image_digest r"

definition artifacts_linked :: "studio_session list \<Rightarrow> artifact_import list \<Rightarrow> model_artifact list \<Rightarrow> bool" where
  "artifacts_linked sessions imports artifacts \<longleftrightarrow>
     list_all (\<lambda>r. list_ex (\<lambda>a. product_of a r) imports \<and> list_ex (runtime_of r) sessions) artifacts
   \<and> list_all (\<lambda>a. ai_status a = CompletedImport \<longrightarrow> list_ex (product_of a) artifacts) imports"

definition studio_ok :: "studio_db \<Rightarrow> bool" where
  "studio_ok db \<longleftrightarrow> sessions_ok (sd_sessions db) \<and> imports_ok (sd_imports db) \<and> artifacts_ok (sd_artifacts db)
     \<and> imports_linked (sd_sessions db) (sd_imports db) \<and> artifacts_linked (sd_sessions db) (sd_imports db) (sd_artifacts db)"

lemma symp_session_conflict: "symp session_conflict"
  by (rule sympI) (auto simp: session_conflict_def)

lemma symp_import_conflict: "symp import_conflict"
  unfolding symp_def import_conflict_def by metis

lemma symp_artifact_conflict: "symp artifact_conflict"
  by (rule sympI) (simp add: artifact_conflict_def)

lemma session_ids: "sessions_ok rows \<Longrightarrow> distinct (map ss_id rows)"
  unfolding sessions_ok_def by (blast intro: conflict_free_key session_table.key_conflict)

lemma import_ids: "imports_ok rows \<Longrightarrow> distinct (map ai_id rows)"
  unfolding imports_ok_def by (blast intro: conflict_free_key import_table.key_conflict)

section \<open>Updates of sessions\<close>

definition session_evolves :: "studio_session \<Rightarrow> studio_session \<Rightarrow> bool" where
  "session_evolves r s \<longleftrightarrow> ss_id s = ss_id r \<and> ss_namespace_id s = ss_namespace_id r
     \<and> ss_create_digest s = ss_create_digest r \<and> ss_provider s = ss_provider r
     \<and> ss_provider_session_id s = ss_provider_session_id r \<and> ss_dataset_version s = ss_dataset_version r
     \<and> ss_upstream_commit s = ss_upstream_commit r \<and> ss_image_digest s = ss_image_digest r
     \<and> (is_open (ss_status s) \<longrightarrow> is_open (ss_status r))
     \<and> (is_started (ss_status r) \<longrightarrow> is_started (ss_status s) \<and> ss_export_digest s = ss_export_digest r)"

lemma session_evolves_refl [simp]: "session_evolves r r"
  by (simp add: session_evolves_def)

lemma session_evolves_conflict:
  "session_evolves r r' \<Longrightarrow> session_evolves s s' \<Longrightarrow> session_conflict r' s' \<Longrightarrow> session_conflict r s"
  unfolding session_evolves_def session_conflict_def by metis

lemma source_evolves:
  "source_of_import a r \<Longrightarrow> session_evolves r s \<Longrightarrow> (ss_status r = Ready \<Longrightarrow> ss_status s \<noteq> Ready \<Longrightarrow> is_settled (ai_status a))
    \<Longrightarrow> source_of_import a s"
  unfolding source_of_import_def session_evolves_def null_or_def manifest_matches_source_def Let_def
  by (auto split: option.splits)

lemma update_sessions_Inr:
  "update_sessions p f db = Inr (db', rows) \<longleftrightarrow>
    list_all session_check (returning p f (sd_sessions db)) \<and> rows = returning p f (sd_sessions db)
    \<and> db' = db\<lparr>sd_sessions := update_where p f (sd_sessions db)\<rparr>"
  by (auto simp: update_sessions_def result_simps)

lemma list_all_changed:
  "list_all q rows \<Longrightarrow> list_all q (returning p f rows) \<Longrightarrow> list_all q (update_where p f rows)"
  by (auto simp: list_all_iff set_update_where returning_set)

lemma update_sessions_ok:
  assumes "update_sessions p f db = Inr (db', rows)" "studio_ok db"
    and f: "\<And>r. p r \<Longrightarrow> session_evolves r (f r)"
    and fence: "\<And>r a. r \<in> set (sd_sessions db) \<Longrightarrow> p r \<Longrightarrow> ss_status r = Ready \<Longrightarrow> ss_status (f r) \<noteq> Ready
      \<Longrightarrow> a \<in> set (sd_imports db) \<Longrightarrow> ai_studio_session_id a = ss_id r \<Longrightarrow> is_settled (ai_status a)"
  shows "studio_ok db'"
proof -
  let ?rows = "update_where p f (sd_sessions db)"
  have checked: "list_all session_check (returning p f (sd_sessions db))" and db': "db' = db\<lparr>sd_sessions := ?rows\<rparr>"
    using assms(1) by (simp_all add: update_sessions_Inr)
  have evolves: "session_evolves r (if p r then f r else r)" for r using f by simp
  have moved: "\<exists>s \<in> set ?rows. session_evolves r s \<and> (s = r \<or> p r \<and> s = f r)" if "r \<in> set (sd_sessions db)" for r
    using that f by (cases "p r") (auto simp: set_update_where)
  have "sessions_ok ?rows"
    using assms(2) checked evolves
    by (auto simp: studio_ok_def sessions_ok_def intro!: list_all_changed conflict_free_update
        intro: session_evolves_conflict)
  moreover have "imports_linked ?rows (sd_imports db)"
    unfolding imports_linked_def list_all_iff list_ex_iff
  proof
    fix a assume a: "a \<in> set (sd_imports db)"
    then obtain r where r: "r \<in> set (sd_sessions db)" "source_of_import a r"
      using assms(2) by (auto simp: studio_ok_def imports_linked_def list_all_iff list_ex_iff)
    from moved [OF r(1)] obtain s where s: "s \<in> set ?rows" "session_evolves r s" "s = r \<or> p r \<and> s = f r" by blast
    have "ai_studio_session_id a = ss_id r" using r(2) by (simp add: source_of_import_def)
    then have "source_of_import a s"
      using source_evolves [OF r(2) s(2)] fence [OF r(1) _ _ _ a] s(3) by blast
    with s(1) show "\<exists>s \<in> set ?rows. source_of_import a s" by blast
  qed
  moreover have "list_ex (runtime_of x) ?rows" if "list_ex (runtime_of x) (sd_sessions db)" for x
  proof -
    from that obtain r where r: "r \<in> set (sd_sessions db)" "runtime_of x r" by (auto simp: list_ex_iff)
    with moved [OF r(1)] show ?thesis by (auto simp: list_ex_iff runtime_of_def session_evolves_def)
  qed
  then have "artifacts_linked ?rows (sd_imports db) (sd_artifacts db)"
    using assms(2) by (auto simp: studio_ok_def artifacts_linked_def list_all_iff)
  ultimately show ?thesis using assms(2) by (simp add: studio_ok_def db')
qed

lemma insert_session_ok:
  assumes "insert_session row db = Inr (db', inserted)" "studio_ok db"
  shows "studio_ok db'"
proof -
  let ?rows = "fst (insert_on_conflict_do_nothing session_conflict row (sd_sessions db))"
  have db': "db' = db\<lparr>sd_sessions := ?rows\<rparr>" and "session_check row"
    using assms(1) by (auto simp: insert_session_def result_simps split: prod.splits)
  moreover from this have "sessions_ok ?rows"
    using assms(2) symp_session_conflict
    by (auto simp: studio_ok_def sessions_ok_def intro: list_all_insert conflict_free_insert)
  moreover have "list_ex q (sd_sessions db) \<Longrightarrow> list_ex q ?rows" for q by (rule list_ex_mono [OF set_insert_subset])
  then have "imports_linked ?rows (sd_imports db)" "artifacts_linked ?rows (sd_imports db) (sd_artifacts db)"
    using assms(2) by (auto simp: studio_ok_def imports_linked_def artifacts_linked_def list_all_iff)
  ultimately show ?thesis using assms(2) by (simp add: studio_ok_def)
qed

end
