(* ===== verification/Import_Laws.thy ===== *)
theory Import_Laws
  imports Studio_Laws
begin

text \<open>
  The operations on imports and artifacts keep the invariant of the Studio tables. The completion of
  an import writes its artifact in the same transaction, so neither is ever seen without the other.
\<close>

section \<open>Updates of imports\<close>

definition import_key_conflict :: "artifact_import \<Rightarrow> artifact_import \<Rightarrow> bool" where
  "import_key_conflict r s \<longleftrightarrow> ai_id r = ai_id s
     \<or> (ai_namespace_id r, ai_create_digest r) = (ai_namespace_id s, ai_create_digest s) \<or> import_output r = import_output s"

lemma imports_conflict_free:
  "conflict_free import_conflict rows \<longleftrightarrow> conflict_free import_key_conflict rows
    \<and> unique_present ai_provider_import_id rows \<and> unique_present ai_artifact_id rows"
  unfolding unique_present_conflict_free conflict_free_disj [symmetric]
  by (rule arg_cong [of _ _ "\<lambda>c. conflict_free c rows"]) (auto simp: fun_eq_iff import_conflict_def import_key_conflict_def)

definition same_request :: "artifact_import \<Rightarrow> artifact_import \<Rightarrow> bool" where
  "same_request a b \<longleftrightarrow> create_of_import a = create_of_import b \<and> ai_id a = ai_id b"

lemma same_request_refl [simp]: "same_request a a"
  by (simp add: same_request_def)

lemma same_request_keys:
  "same_request a b \<Longrightarrow> ai_id b = ai_id a \<and> ai_namespace_id b = ai_namespace_id a \<and> ai_create_digest b = ai_create_digest a
    \<and> import_output b = import_output a \<and> ai_studio_session_id b = ai_studio_session_id a"
  by (simp add: same_request_def create_of_import_def import_output_def)

lemma same_request_conflict:
  "same_request r r' \<Longrightarrow> same_request s s' \<Longrightarrow> import_key_conflict r' s' \<longleftrightarrow> import_key_conflict r s"
  by (simp add: import_key_conflict_def same_request_keys)

lemma update_imports_Inr:
  "update_imports p f db = Inr (db', rows) \<longleftrightarrow>
    list_all import_check (returning p f (sd_imports db)) \<and> rows = returning p f (sd_imports db)
    \<and> unique_present ai_provider_import_id (update_where p f (sd_imports db))
    \<and> unique_present ai_artifact_id (update_where p f (sd_imports db))
    \<and> list_all (import_fks db) rows
    \<and> db' = db\<lparr>sd_imports := update_where p f (sd_imports db)\<rparr>"
  by (auto simp: update_imports_def Let_def result_simps)

lemma update_imports_frame:
  assumes "update_imports p f db = Inr (db', rows)"
    and old: "imports_ok (sd_imports db)" "imports_linked (sd_sessions db) (sd_imports db)"
    and same: "\<And>a. p a \<Longrightarrow> same_request a (f a)"
    and source: "\<And>a s. a \<in> set (sd_imports db) \<Longrightarrow> p a \<Longrightarrow> s \<in> set (sd_sessions db) \<Longrightarrow> source_of_import a s \<Longrightarrow> source_of_import (f a) s"
  shows "sd_sessions db' = sd_sessions db" "sd_artifacts db' = sd_artifacts db"
    "imports_ok (sd_imports db')" "imports_linked (sd_sessions db) (sd_imports db')"
proof -
  let ?rows = "update_where p f (sd_imports db)"
  have checked: "list_all import_check (returning p f (sd_imports db))" and db': "db' = db\<lparr>sd_imports := ?rows\<rparr>"
    and unique: "unique_present ai_provider_import_id ?rows" "unique_present ai_artifact_id ?rows"
    using assms(1) by (simp_all add: update_imports_Inr)
  show "sd_sessions db' = sd_sessions db" "sd_artifacts db' = sd_artifacts db" by (simp_all add: db')
  have same': "same_request a (if p a then f a else a)" for a using same by simp
  have "conflict_free import_key_conflict (sd_imports db)"
    using old(1) by (simp add: imports_ok_def imports_conflict_free)
  then have "conflict_free import_key_conflict ?rows"
    by (rule conflict_free_update) (simp only: same_request_conflict [OF same' same'])
  then show "imports_ok (sd_imports db')"
    using old(1) checked unique by (simp add: imports_ok_def imports_conflict_free list_all_changed db')
  show "imports_linked (sd_sessions db) (sd_imports db')"
    using old(2) source by (auto simp: imports_linked_def list_all_iff list_ex_iff set_update_where db') blast+
qed

text \<open>An update that completes nothing.\<close>

lemma update_imports_ok:
  assumes "update_imports p f db = Inr (db', rows)" "studio_ok db"
    and "\<And>a. p a \<Longrightarrow> same_request a (f a)"
    and "\<And>a s. a \<in> set (sd_imports db) \<Longrightarrow> p a \<Longrightarrow> s \<in> set (sd_sessions db) \<Longrightarrow> source_of_import a s \<Longrightarrow> source_of_import (f a) s"
    and product: "\<And>a r. a \<in> set (sd_imports db) \<Longrightarrow> p a \<Longrightarrow> product_of (f a) r = product_of a r"
    and completed: "\<And>a. p a \<Longrightarrow> ai_status (f a) = CompletedImport \<longleftrightarrow> ai_status a = CompletedImport"
  shows "studio_ok db'"
proof -
  let ?rows = "update_where p f (sd_imports db)"
  have linked: "artifacts_linked (sd_sessions db) (sd_imports db) (sd_artifacts db)"
    using assms(2) by (simp add: studio_ok_def)
  have "list_ex (\<lambda>a. product_of a r) ?rows" if "list_ex (\<lambda>a. product_of a r) (sd_imports db)" for r
  proof -
    from that obtain a where "a \<in> set (sd_imports db)" "product_of a r" by (auto simp: list_ex_iff)
    with product show ?thesis by (cases "p a") (auto simp: list_ex_iff set_update_where)
  qed
  moreover have "list_ex (product_of b) (sd_artifacts db)" if "b \<in> set ?rows" "ai_status b = CompletedImport" for b
  proof -
    from that(1) obtain a where a: "a \<in> set (sd_imports db)" "b = (if p a then f a else a)" by (auto simp: set_update_where)
    then have "ai_status a = CompletedImport" "product_of b = product_of a"
      using that(2) completed product by (auto split: if_splits)
    with a(1) linked show ?thesis by (auto simp: artifacts_linked_def list_all_iff)
  qed
  ultimately have "artifacts_linked (sd_sessions db) (sd_imports db') (sd_artifacts db)"
    using linked assms(1) by (simp add: update_imports_Inr artifacts_linked_def list_all_iff)
  moreover have "imports_ok (sd_imports db)" "imports_linked (sd_sessions db) (sd_imports db)"
    using assms(2) by (simp_all add: studio_ok_def)
  note frame = update_imports_frame [OF assms(1) this assms(3,4)]
  ultimately show ?thesis using assms(2) frame by (simp add: studio_ok_def)
qed

section \<open>Requests, staging and failure\<close>

lemma import_row_ok: "studio_ok db \<Longrightarrow> a \<in> set (sd_imports db) \<Longrightarrow> import_check a"
  by (simp add: studio_ok_def imports_ok_def list_all_iff)

lemma staging_cleaned_ok:
  assumes "markModelArtifactImportStagingCleaned now namespaceId i db = Inr (db', v)" "studio_ok db"
  shows "studio_ok db'"
proof -
  obtain rows where "update_imports (import_at namespaceId i {CompletedImport, FailedImport})
       (\<lambda>r. case ai_staging_cleaned_at r of
          None \<Rightarrow> r\<lparr>ai_staging_cleaned_at := Some now, ai_updated_at := now\<rparr> | Some _ \<Rightarrow> r) db = Inr (db', rows)"
    using assms(1) unfolding markModelArtifactImportStagingCleaned_def by (auto simp only: result_simps prod.inject split: prod.splits)
  then show ?thesis
    using assms(2)
    by (rule update_imports_ok)
       (simp_all add: same_request_def create_of_import_def source_of_import_def product_of_def manifest_matches_source_def
         Let_def split: option.splits)
qed

lemma unfinished_import:
  assumes "import_check a" "ai_status a \<in> {Requested, Staging}"
  shows "ai_manifest a = None \<and> ai_lineage_status a = None"
  using assms by (auto simp: import_check_def import_lifecycle_check_def final_fields_def)

lemma source_settling:
  "source_of_import a s \<Longrightarrow> \<not> is_settled (ai_status a) \<Longrightarrow> ss_status s = Ready"
  by (simp add: source_of_import_def)

lemma transition_row_source:
  assumes "import_check a" "source_of_import a s" "ai_status a \<in> import_sources input"
    and "case input of ToFinalizing f \<Rightarrow> manifest_matches_source (if_manifest f) a s
      \<and> (if_lineage_status f = VerifiedLineage \<longrightarrow> if_dataset_version f = Some (ss_dataset_version s)
         \<and> if_dataset_export_digest f = ss_export_digest s) | _ \<Rightarrow> True"
  shows "source_of_import (import_transition_row now input a) s"
  using assms unfinished_import [OF assms(1)] source_settling [OF assms(2)]
  by (cases input) (auto simp: source_of_import_def is_settled_def manifest_matches_source_def Let_def)

lemma transition_row_same:
  "same_request a (import_transition_row now input a)"
  by (cases input) (simp_all add: same_request_def create_of_import_def)

lemma transition_row_incomplete:
  assumes "ai_status a \<in> import_sources input"
  shows "ai_status a \<noteq> CompletedImport" "ai_status (import_transition_row now input a) \<noteq> CompletedImport"
  using assms by (cases input; auto)+

lemma finalization_source_True:
  assumes "finalization_source namespaceId i f db = Inr True"
  obtains a s where "find_import db namespaceId i = [a]" "find_session db namespaceId (ai_studio_session_id a) = [s]"
    "manifest_matches_source (if_manifest f) a s"
    "if_lineage_status f = VerifiedLineage \<longrightarrow> if_dataset_version f = Some (ss_dataset_version s)
       \<and> if_dataset_export_digest f = ss_export_digest s"
  using assms unfolding finalization_source_def
  by (auto simp: result_simps dest!: import_view_row session_view_row split: list.splits)

lemma found_import:
  assumes "studio_ok db" "find_import db namespaceId i = [a]" "b \<in> set (sd_imports db)"
    "ai_namespace_id b = namespaceId" "ai_id b = i"
  shows "b = a"
  using select_one [of ai_id "sd_imports db" b "\<lambda>r. ai_namespace_id r = namespaceId \<and> ai_id r = i"]
    assms import_ids [of "sd_imports db"] by (simp add: studio_ok_def find_import_def)

lemma found_session:
  assumes "studio_ok db" "find_session db namespaceId i = [s]" "t \<in> set (sd_sessions db)" "ss_id t = i"
  shows "t = s"
proof -
  have "s \<in> set (sd_sessions db)" "ss_id s = i"
    using select_where_mem [OF assms(2) [unfolded find_session_def]] by auto
  with assms(3,4) session_ids [of "sd_sessions db"] assms(1) show ?thesis
    by (auto simp: studio_ok_def distinct_map dest: inj_onD)
qed

lemma transition_import_ok:
  assumes "transitionModelArtifactImport now namespaceId i input db = Inr (db', v)" "studio_ok db"
  shows "studio_ok db'"
proof (cases "update_transition now namespaceId i input db = Inr (db', v)
    \<and> (\<forall>f. input = ToFinalizing f \<longrightarrow> finalization_source namespaceId i f db = Inr True)")
  case False
  then have "db' = db"
    using assms(1) unfolding transitionModelArtifactImport_def
    by (auto simp: result_simps split: import_transition.splits if_splits)
  with assms(2) show ?thesis by simp
next
  case True
  then obtain rows where "update_imports (import_at namespaceId i (import_sources input)) (import_transition_row now input) db = Inr (db', rows)"
    unfolding update_transition_def by (auto simp: result_simps split: option.splits)
  then show ?thesis
    using assms(2)
  proof (rule update_imports_ok)
    fix a s
    assume a: "a \<in> set (sd_imports db)" "import_at namespaceId i (import_sources input) a"
      and s: "s \<in> set (sd_sessions db)" "source_of_import a s"
    have "case input of ToFinalizing f \<Rightarrow> manifest_matches_source (if_manifest f) a s
      \<and> (if_lineage_status f = VerifiedLineage \<longrightarrow> if_dataset_version f = Some (ss_dataset_version s)
         \<and> if_dataset_export_digest f = ss_export_digest s) | _ \<Rightarrow> True"
    proof (cases input)
      case (ToFinalizing f)
      with True have "finalization_source namespaceId i f db = Inr True" by blast
      then obtain b t where b: "find_import db namespaceId i = [b]" "find_session db namespaceId (ai_studio_session_id b) = [t]"
        and "manifest_matches_source (if_manifest f) b t"
          "if_lineage_status f = VerifiedLineage \<longrightarrow> if_dataset_version f = Some (ss_dataset_version t)
             \<and> if_dataset_export_digest f = ss_export_digest t"
        by (rule finalization_source_True)
      moreover have "a = b" using found_import [OF assms(2) b(1) a(1)] a(2) by (simp add: import_at_def)
      moreover from this have "s = t" using found_session [OF assms(2) b(2) s(1)] s(2) by (simp add: source_of_import_def)
      ultimately show ?thesis using ToFinalizing by simp
    qed simp_all
    then show "source_of_import (import_transition_row now input a) s"
      using transition_row_source [OF import_row_ok [OF assms(2) a(1)] s(2)] a(2) by (simp add: import_at_def)
  next
    fix a r
    assume "import_at namespaceId i (import_sources input) a"
    then show "product_of (import_transition_row now input a) r = product_of a r"
      using transition_row_incomplete [of a input] by (simp add: product_of_def import_at_def)
  next
    fix a
    assume "import_at namespaceId i (import_sources input) a"
    then show "(ai_status (import_transition_row now input a) = CompletedImport) = (ai_status a = CompletedImport)"
      using transition_row_incomplete [of a input] by (simp add: import_at_def)
  qed (rule transition_row_same)
qed

lemma insert_import_ok:
  assumes "insert_import row db = Inr (db', inserted)" "studio_ok db"
    and row: "list_ex (source_of_import row) (sd_sessions db)" "ai_status row \<noteq> CompletedImport"
  shows "studio_ok db'"
proof -
  let ?rows = "fst (insert_on_conflict_do_nothing import_conflict row (sd_imports db))"
  have db': "db' = db\<lparr>sd_imports := ?rows\<rparr>" and "import_check row"
    using assms(1) by (auto simp: insert_import_def result_simps split: prod.splits)
  then have "imports_ok ?rows"
    using assms(2) symp_import_conflict
    by (auto simp: studio_ok_def imports_ok_def intro: list_all_insert conflict_free_insert)
  moreover have "imports_linked (sd_sessions db) ?rows"
    using assms(2) row(1) unfolding studio_ok_def imports_linked_def by (intro list_all_insert) simp_all
  moreover have "list_ex q (sd_imports db) \<Longrightarrow> list_ex q ?rows" for q by (rule list_ex_mono [OF set_insert_subset])
  then have "artifacts_linked (sd_sessions db) ?rows (sd_artifacts db)"
    using assms(2) row(2) by (auto simp: studio_ok_def artifacts_linked_def list_all_iff insert_on_conflict_do_nothing_def)
  ultimately show ?thesis using assms(2) by (simp add: studio_ok_def db')
qed

lemma create_import_ok:
  assumes "createOrReadModelArtifactImport now i input db = Inr (db', v, created)" "studio_ok db"
  shows "studio_ok db'"
proof (cases "db' = db")
  case False
  then obtain row session inserted where
      session: "find_session db (ci_namespace_id input) (ci_studio_session_id input) = [row]"
        "sqlRowToSwiftStudioSession row = Inr session" "ss_status (sv_row session) = Ready"
      and insert: "insert_import (new_import now i input) db = Inr (db', inserted)"
    using assms(1) unfolding createOrReadModelArtifactImport_def
    by (auto simp: result_simps split: option.splits if_splits prod.splits)
  then have "row \<in> set (sd_sessions db)" "source_of_import (new_import now i input) row"
    using select_where_mem [OF session(1) [unfolded find_session_def]] session_view_row [OF session(2)]
    by (auto simp: source_of_import_def new_import_def is_started_def)
  then have "list_ex (source_of_import (new_import now i input)) (sd_sessions db)" by (auto simp: list_ex_iff)
  with insert assms(2) show ?thesis by (rule insert_import_ok) (simp add: new_import_def)
qed (use assms(2) in simp)

section \<open>Completion\<close>

lemma artifacts_of:
  assumes "studio_ok db" "r \<in> set (sd_artifacts db)"
  obtains a where "a \<in> set (sd_imports db)" "product_of a r"
  using assms by (auto simp: studio_ok_def artifacts_linked_def list_all_iff list_ex_iff)

lemma import_by_id:
  "studio_ok db \<Longrightarrow> a \<in> set (sd_imports db) \<Longrightarrow> b \<in> set (sd_imports db) \<Longrightarrow> ai_id a = ai_id b \<Longrightarrow> a = b"
  using import_ids [of "sd_imports db"] by (auto simp: studio_ok_def distinct_map dest: inj_onD)

text \<open>An import that is not completed has no artifact yet, so the insert of its artifact meets no conflict.\<close>

lemma no_artifact_yet:
  assumes "studio_ok db" "a \<in> set (sd_imports db)" "ai_status a \<noteq> CompletedImport" "ma_source_import_id row = ai_id a"
  shows "\<not> list_ex (artifact_conflict row) (sd_artifacts db)"
proof
  assume "list_ex (artifact_conflict row) (sd_artifacts db)"
  then obtain r where r: "r \<in> set (sd_artifacts db)" "ma_source_import_id r = ai_id a"
    using assms(4) by (auto simp: list_ex_iff artifact_conflict_def)
  obtain b where "b \<in> set (sd_imports db)" "product_of b r" using assms(1) r(1) by (rule artifacts_of)
  with r(2) import_by_id [OF assms(1) assms(2)] assms(3) show False by (metis product_of_def)
qed

lemma insert_new_artifact:
  assumes "artifact_of_import row objectLocator a db = Inr (db', artifact)" "studio_ok db"
    "a \<in> set (sd_imports db)" "ai_status a \<noteq> CompletedImport" "ma_source_import_id row = ai_id a"
  shows "artifact = row \<and> db' = db\<lparr>sd_artifacts := sd_artifacts db @ [row]\<rparr> \<and> artifacts_ok (sd_artifacts db')
    \<and> sqlRowToModelArtifact row = Inr row"
proof -
  note fresh = no_artifact_yet [OF assms(2-5)]
  then have insert: "insert_on_conflict_do_nothing artifact_conflict row (sd_artifacts db) = (sd_artifacts db @ [row], True)"
    by (simp add: insert_on_conflict_do_nothing_def)
  then have "artifact_check row" "\<not> list_ex (\<lambda>r. ma_id r = ma_id row) (sd_artifacts db)"
    and db': "db' = db\<lparr>sd_artifacts := sd_artifacts db @ [row]\<rparr>" and read: "sqlRowToModelArtifact row = Inr artifact"
    using assms(1) unfolding artifact_of_import_def insert_artifact_def by (auto simp: result_simps)
  moreover from this have "artifact = row" using artifact_view_row by blast
  moreover have "conflict_free artifact_conflict (sd_artifacts db @ [row])"
    using conflict_free_insert [of artifact_conflict "sd_artifacts db" row] symp_artifact_conflict insert assms(2)
    by (simp add: studio_ok_def artifacts_ok_def)
  ultimately show ?thesis
    using assms(2) by (auto simp: studio_ok_def artifacts_ok_def list_ex_iff)
qed

definition completed_import :: "int \<Rightarrow> model_artifact \<Rightarrow> artifact_import \<Rightarrow> artifact_import" where
  "completed_import now r a = a\<lparr>ai_status := CompletedImport, ai_artifact_id := Some (ma_id r), ai_completed_at := Some now,
     ai_updated_at := now\<rparr>"

text \<open>What a completion that is no replay does.\<close>

lemma finalize_import_result:
  assumes "finalize_import now artifactId namespaceId i objectLocator v db = Inr (db', w, r)" "studio_ok db"
    and found: "find_import db namespaceId i = [iv_row v]" "ai_status (iv_row v) = FinalizingImport"
  obtains s where "s \<in> set (sd_sessions db)" "runtime_of r s" "source_of_import (iv_row v) s"
    "ma_object_locator r = objectLocator" "sqlRowToModelArtifact r = Inr r"
    "product_of (completed_import now r (iv_row v)) r" "artifacts_ok (sd_artifacts db @ [r])"
    "iv_row w = completed_import now r (iv_row v)" "sqlRowToModelArtifactImport (iv_row w) = Inr w"
    "update_imports (import_at namespaceId i {FinalizingImport}) (completed_import now r)
       (db\<lparr>sd_artifacts := sd_artifacts db @ [r]\<rparr>) = Inr (db', [iv_row w])"
proof -
  let ?a = "iv_row v"
  have a: "?a \<in> set (sd_imports db)" "ai_namespace_id ?a = namespaceId" "ai_id ?a = i"
    using select_where_mem [OF found(1) [unfolded find_import_def]] by auto
  obtain archiveDigest bytes manifestDigest manifest lineage binding row session mid where
      fields: "ai_archive_digest ?a = Some archiveDigest" "ai_archive_size_bytes ?a = Some bytes"
        "ai_manifest_digest ?a = Some manifestDigest" "ai_manifest ?a = Some manifest" "ai_lineage_status ?a = Some lineage"
        "ai_binding_status ?a = Some binding"
    and session: "find_session db namespaceId (ai_studio_session_id ?a) = [row]" "sqlRowToSwiftStudioSession row = Inr session"
    and artifact: "artifact_of_import (new_artifact now artifactId objectLocator ?a (sv_row session) archiveDigest bytes
            manifestDigest manifest lineage binding) objectLocator ?a db = Inr (mid, r)"
    and complete: "complete_import now namespaceId i r mid = Inr (db', w, r)"
    using assms(1) unfolding finalize_import_def Let_def
    by (auto simp: result_simps complete_import_def split: option.splits)
  have row: "sv_row session = row" using session(2) by (rule session_view_row)
  have s: "row \<in> set (sd_sessions db)" "ss_id row = ai_studio_session_id ?a"
    using select_where_mem [OF session(1) [unfolded find_session_def]] by auto
  obtain t where "t \<in> set (sd_sessions db)" "source_of_import ?a t"
    using assms(2) a(1) by (auto simp: studio_ok_def imports_linked_def list_all_iff list_ex_iff)
  with found_session [OF assms(2) session(1)] have source: "source_of_import ?a row" by (metis source_of_import_def)
  have r: "r = new_artifact now artifactId objectLocator ?a row archiveDigest bytes manifestDigest manifest lineage binding"
    and mid: "mid = db\<lparr>sd_artifacts := sd_artifacts db @ [r]\<rparr>" "artifacts_ok (sd_artifacts mid)" "sqlRowToModelArtifact r = Inr r"
    using insert_new_artifact [OF artifact assms(2) a(1)] found(2) row by (auto simp: new_artifact_def)
  obtain rows where update: "update_imports (import_at namespaceId i {FinalizingImport}) (completed_import now r) mid = Inr (db', rows)"
    and rows: "rows = [iv_row w]" "sqlRowToModelArtifactImport (iv_row w) = Inr w"
    using complete unfolding complete_import_def completed_import_def [abs_def]
    by (auto simp: result_simps dest: import_view_row)
  have "select_where (import_at namespaceId i {FinalizingImport}) (sd_imports db) = [?a]"
    by (rule select_one [where key = ai_id]) (use assms(2) a found(2) in \<open>auto simp: import_ids studio_ok_def import_at_def\<close>)
  then have "iv_row w = completed_import now r ?a"
    using update rows(1) by (simp add: update_imports_Inr returning_select mid(1))
  moreover have "runtime_of r row" "ma_object_locator r = objectLocator" "product_of (completed_import now r ?a) r"
    using s(2) fields by (simp_all add: runtime_of_def r new_artifact_def product_of_def completed_import_def)
  ultimately show thesis
    using that [of row] s(1) source mid rows update by simp
qed

lemma completed_import_source:
  "source_of_import a s \<Longrightarrow> source_of_import (completed_import now r a) s"
  by (auto simp: source_of_import_def completed_import_def is_settled_def manifest_matches_source_def Let_def null_or_def
      split: option.splits)

lemma finalize_import_ok:
  assumes "finalize_import now artifactId namespaceId i objectLocator v db = Inr (db', w, r)" "studio_ok db"
    and found: "find_import db namespaceId i = [iv_row v]" "ai_status (iv_row v) = FinalizingImport"
  shows "studio_ok db'"
  using assms
proof (rule finalize_import_result)
  let ?mid = "db\<lparr>sd_artifacts := sd_artifacts db @ [r]\<rparr>" and ?p = "import_at namespaceId i {FinalizingImport}"
  fix s
  assume s: "s \<in> set (sd_sessions db)" "runtime_of r s" "source_of_import (iv_row v) s"
    and r: "product_of (completed_import now r (iv_row v)) r" "artifacts_ok (sd_artifacts db @ [r])"
    and update: "update_imports ?p (completed_import now r) ?mid = Inr (db', [iv_row w])"
  have rows: "sd_imports db' = update_where ?p (completed_import now r) (sd_imports db)"
    using update by (simp add: update_imports_Inr)
  have only: "a = iv_row v" if "a \<in> set (sd_imports db)" "?p a" for a
    using found_import [OF assms(2) found(1) that(1)] that(2) by (simp add: import_at_def)
  have here: "iv_row v \<in> set (sd_imports db)" "?p (iv_row v)"
    using select_where_mem [OF found(1) [unfolded find_import_def]] found(2) by (auto simp: import_at_def)
  have old: "imports_ok (sd_imports ?mid)" "imports_linked (sd_sessions ?mid) (sd_imports ?mid)"
    using assms(2) by (simp_all add: studio_ok_def)
  have same: "same_request a (completed_import now r a)" for a
    by (simp add: same_request_def create_of_import_def completed_import_def)
  note frame = update_imports_frame [OF update old same completed_import_source]
  have linked: "artifacts_linked (sd_sessions db) (sd_imports db) (sd_artifacts db)"
    using assms(2) by (simp add: studio_ok_def)
  have "list_ex (\<lambda>a. product_of a x) (sd_imports db')" if "list_ex (\<lambda>a. product_of a x) (sd_imports db)" for x
  proof -
    from that obtain a where "a \<in> set (sd_imports db)" "product_of a x" by (auto simp: list_ex_iff)
    moreover from this have "\<not> ?p a" by (simp add: product_of_def import_at_def)
    ultimately show ?thesis by (auto simp: rows list_ex_iff set_update_where)
  qed
  moreover have new: "completed_import now r (iv_row v) \<in> set (sd_imports db')"
    using here by (auto simp: rows set_update_where)
  moreover have "list_ex (product_of a) (sd_artifacts db @ [r])"
    if "a \<in> set (sd_imports db')" "ai_status a = CompletedImport" for a
  proof (cases "a \<in> set (sd_imports db)")
    case True
    with linked that(2) show ?thesis by (auto simp: artifacts_linked_def list_all_iff)
  next
    case False
    then have "a = completed_import now r (iv_row v)" using that(1) only by (auto simp: rows set_update_where)
    with r(1) show ?thesis by simp
  qed
  ultimately have "artifacts_linked (sd_sessions db) (sd_imports db') (sd_artifacts db @ [r])"
    using linked r(1) s(1,2) by (auto simp: artifacts_linked_def list_all_iff list_ex_iff)
  then show "studio_ok db'"
    using assms(2) frame r(2) by (simp add: studio_ok_def)
qed

lemma finalize_ok:
  assumes "finalizeModelArtifactImport now artifactId namespaceId i objectLocator db = Inr (db', result)" "studio_ok db"
  shows "studio_ok db'"
proof (cases "db' = db")
  case False
  then obtain v w r where v: "one_import (find_import db namespaceId i) = Inr (Some v)" "ai_status (iv_row v) = FinalizingImport"
    and finalize: "finalize_import now artifactId namespaceId i objectLocator v db = Inr (db', w, r)"
    using assms(1) unfolding finalizeModelArtifactImport_def by (auto simp: result_simps split: option.splits if_splits)
  from v(1) have "find_import db namespaceId i = [iv_row v]" by (auto simp: one_import_Some dest: import_view_row)
  with finalize assms(2) show ?thesis by (rule finalize_import_ok) (rule v(2))
qed (use assms(2) in simp)

end
