(* ===== verification/Studio_System.thy ===== *)
theory Studio_System
  imports Session_Laws Import_Laws Catalog_System
begin

text \<open>
  The Studio tables as a state machine: the operations on sessions, imports and artifacts, between
  which the rest of the catalog moves, and what holds in every state they can reach.
\<close>

section \<open>Operations\<close>

datatype studio_op =
    CreateSession int js_string js_string create_session
  | AbandonPreparation int js_string js_string js_string
  | RenewPreparation int js_string js_string js_string
  | ClaimPreparation int js_string js_string js_string js_string int
  | TransitionSession int js_string js_string session_transition
  | ReopenSession int js_string js_string
  | CreateImport int js_string create_import
  | CleanStaging int js_string js_string
  | TransitionImport int js_string js_string import_transition
  | FinalizeImport int js_string js_string js_string js_string
  | CatalogMoves catalog_op

definition ran_studio :: "(studio_db \<times> 'a) catalog \<Rightarrow> studio_db catalog" where
  "ran_studio m = bindR m (\<lambda>(db, result). Inr db)"

fun studio_exec :: "studio_op \<Rightarrow> studio_db \<Rightarrow> studio_db catalog" where
  "studio_exec (CreateSession now i token input) db = ran_studio (createOrReadSwiftStudioSession now i token input db)"
| "studio_exec (AbandonPreparation now ns i token) db = ran_studio (abandonSwiftStudioSessionPreparation now ns i token db)"
| "studio_exec (RenewPreparation now ns i token) db = ran_studio (renewSwiftStudioSessionPreparation now ns i token db)"
| "studio_exec (ClaimPreparation now token ns i observed grace) db =
     ran_studio (claimSwiftStudioSessionPreparation now token ns i observed grace db)"
| "studio_exec (TransitionSession now ns i input) db = ran_studio (transitionSwiftStudioSession now ns i input db)"
| "studio_exec (ReopenSession now ns i) db = ran_studio (reopenBusySwiftStudioSession now ns i db)"
| "studio_exec (CreateImport now i input) db = ran_studio (createOrReadModelArtifactImport now i input db)"
| "studio_exec (CleanStaging now ns i) db = ran_studio (markModelArtifactImportStagingCleaned now ns i db)"
| "studio_exec (TransitionImport now ns i input) db = ran_studio (transitionModelArtifactImport now ns i input db)"
| "studio_exec (FinalizeImport now artifactId ns i locator) db =
     ran_studio (finalizeModelArtifactImport now artifactId ns i locator db)"
| "studio_exec (CatalogMoves op) db = bindR (exec op (sd_catalog db)) (\<lambda>c. Inr (db\<lparr>sd_catalog := c\<rparr>))"

definition empty_studio :: "catalog_db \<Rightarrow> studio_db" where
  "empty_studio c = \<lparr>sd_catalog = c, sd_sessions = [], sd_imports = [], sd_artifacts = []\<rparr>"

inductive studio_step :: "studio_db \<Rightarrow> studio_db \<Rightarrow> bool" where
  operate: "studio_exec op db = Inr db' \<Longrightarrow> studio_step db db'"

inductive studio_reachable :: "studio_db \<Rightarrow> bool" where
  start: "studio_reachable (empty_studio c)"
| advance: "studio_reachable db \<Longrightarrow> studio_step db db' \<Longrightarrow> studio_reachable db'"

inductive_cases studio_step_cases: "studio_step db db'"

lemma ran_studio_Inr [simp]: "ran_studio m = Inr db \<longleftrightarrow> (\<exists>x. m = Inr (db, x))"
  by (auto simp: ran_studio_def result_simps)

lemma empty_studio_ok: "studio_ok (empty_studio c)"
  by (simp add: empty_studio_def studio_ok_def sessions_ok_def imports_ok_def artifacts_ok_def imports_linked_def artifacts_linked_def)

lemma catalog_moves_ok: "studio_ok db \<Longrightarrow> studio_ok (db\<lparr>sd_catalog := c\<rparr>)"
  by (simp add: studio_ok_def)

lemma studio_exec_ok: "studio_exec op db = Inr db' \<Longrightarrow> studio_ok db \<Longrightarrow> studio_ok db'"
  by (cases op) (auto simp: result_simps create_session_ok abandon_ok renew_ok claim_preparation_ok transition_session_ok
      reopen_ok create_import_ok staging_cleaned_ok transition_import_ok finalize_ok catalog_moves_ok)

lemma studio_reachable_ok: "studio_reachable db \<Longrightarrow> studio_ok db"
  by (induction rule: studio_reachable.induct) (auto simp: empty_studio_ok elim: studio_step_cases intro: studio_exec_ok)

section \<open>Tokens that were taken over\<close>

text \<open>The operations that prove the ownership of a preparation by a token, and those that draw a new one.\<close>

fun prepares_with :: "js_string \<Rightarrow> js_string \<Rightarrow> studio_op \<Rightarrow> bool" where
  "prepares_with i token (AbandonPreparation now ns j owner) \<longleftrightarrow> j = i \<and> owner = token"
| "prepares_with i token (RenewPreparation now ns j owner) \<longleftrightarrow> j = i \<and> owner = token"
| "prepares_with i token (ClaimPreparation now fresh ns j owner grace) \<longleftrightarrow> j = i \<and> owner = token"
| "prepares_with i token (TransitionSession now ns j (ToReady owner digest bytes)) \<longleftrightarrow> j = i \<and> owner = token"
| "prepares_with i token (TransitionSession now ns j (ToFailed owner failure)) \<longleftrightarrow> j = i \<and> owner = token"
| "prepares_with i token _ \<longleftrightarrow> False"

fun draws_token :: "js_string \<Rightarrow> studio_op \<Rightarrow> bool" where
  "draws_token token (ClaimPreparation now fresh ns i owner grace) \<longleftrightarrow> fresh = token"
| "draws_token token _ \<longleftrightarrow> False"

inductive run_without :: "js_string \<Rightarrow> studio_db \<Rightarrow> studio_db \<Rightarrow> bool" for token where
  stop: "run_without token db db"
| go_on: "run_without token db mid \<Longrightarrow> studio_exec op mid = Inr db' \<Longrightarrow> \<not> draws_token token op \<Longrightarrow> run_without token db db'"

definition taken_over :: "js_string \<Rightarrow> js_string \<Rightarrow> studio_db \<Rightarrow> bool" where
  "taken_over i token db \<longleftrightarrow> list_ex (\<lambda>r. ss_id r = i) (sd_sessions db)
     \<and> list_all (\<lambda>r. ss_id r = i \<longrightarrow> ss_preparation_owner_token r \<noteq> token) (sd_sessions db)"

lemma update_sessions_none:
  "list_all (\<lambda>r. \<not> p r) (sd_sessions db) \<Longrightarrow> update_sessions p f db = Inr (db, [])"
  by (simp add: update_sessions_def update_where_none list_all_iff returning_select select_where_def filter_False)

lemma update_sessions_taken_over:
  assumes "update_sessions p f db = Inr (db', rows)" "taken_over i token db"
    and "\<And>r. p r \<Longrightarrow> ss_id (f r) = ss_id r"
    and "\<And>r. p r \<Longrightarrow> ss_preparation_owner_token (f r) = ss_preparation_owner_token r \<or> ss_preparation_owner_token (f r) \<noteq> token"
  shows "taken_over i token db'"
proof -
  have rows: "sd_sessions db' = map (\<lambda>r. if p r then f r else r) (sd_sessions db)"
    using assms(1) by (simp add: update_sessions_Inr update_where_def)
  let ?g = "\<lambda>r. if p r then f r else r"
  have ids: "ss_id (?g r) = ss_id r" for r using assms(3) by simp
  have tokens: "ss_preparation_owner_token (?g r) \<noteq> token" if "ss_preparation_owner_token r \<noteq> token" for r
    using assms(4) [of r] that by auto
  have "list_ex (\<lambda>r. ss_id r = i) (map ?g (sd_sessions db))"
    using assms(2) ids unfolding taken_over_def list_ex_iff set_map bex_simps by metis
  moreover have "list_all (\<lambda>r. ss_id r = i \<longrightarrow> ss_preparation_owner_token r \<noteq> token) (map ?g (sd_sessions db))"
    using assms(2) ids tokens unfolding taken_over_def list_all_iff set_map ball_simps by metis
  ultimately show ?thesis by (simp only: taken_over_def rows)
qed

lemma insert_session_taken_over:
  assumes "insert_session row db = Inr (db', inserted)" "taken_over i token db"
  shows "taken_over i token db'"
proof -
  have rows: "sd_sessions db' = fst (insert_on_conflict_do_nothing session_conflict row (sd_sessions db))"
    using assms(1) by (auto simp: insert_session_def result_simps split: prod.splits)
  show ?thesis
  proof (cases "list_ex (session_conflict row) (sd_sessions db)")
    case True
    with rows assms(2) show ?thesis by (simp add: taken_over_def insert_on_conflict_do_nothing_def)
  next
    case False
    moreover obtain r where "r \<in> set (sd_sessions db)" "ss_id r = i"
      using assms(2) by (auto simp: taken_over_def list_ex_iff)
    ultimately have "ss_id row \<noteq> i" by (auto simp: list_ex_iff session_conflict_def)
    with False rows assms(2) show ?thesis by (simp add: taken_over_def insert_on_conflict_do_nothing_def)
  qed
qed

lemma import_writes_sessions:
  "update_imports p f db = Inr (db', rows) \<Longrightarrow> sd_sessions db' = sd_sessions db"
  "insert_import row db = Inr (db', b) \<Longrightarrow> sd_sessions db' = sd_sessions db"
  "insert_artifact art db = Inr (db', b) \<Longrightarrow> sd_sessions db' = sd_sessions db"
  by (auto simp: update_imports_Inr insert_import_def insert_artifact_def result_simps split: prod.splits)

lemma completion_sessions:
  assumes "finalize_import now artifactId ns i locator v db = Inr (db', w, r)"
  shows "sd_sessions db' = sd_sessions db"
proof -
  obtain row a mid where "artifact_of_import row locator a db = Inr (mid, r)" "complete_import now ns i r mid = Inr (db', w, r)"
    using assms unfolding finalize_import_def Let_def by (auto simp: result_simps complete_import_def split: option.splits)
  then have "sd_sessions mid = sd_sessions db" "sd_sessions db' = sd_sessions mid"
    unfolding artifact_of_import_def complete_import_def by (auto simp: result_simps import_writes_sessions)
  then show ?thesis by simp
qed

lemma import_operations_sessions:
  "createOrReadModelArtifactImport now i input db = Inr (db', c) \<Longrightarrow> sd_sessions db' = sd_sessions db"
  "markModelArtifactImportStagingCleaned now ns i db = Inr (db', v) \<Longrightarrow> sd_sessions db' = sd_sessions db"
  "finalizeModelArtifactImport now artifactId ns i locator db = Inr (db', x) \<Longrightarrow> sd_sessions db' = sd_sessions db"
  unfolding createOrReadModelArtifactImport_def markModelArtifactImportStagingCleaned_def finalizeModelArtifactImport_def
  by (auto simp: result_simps import_writes_sessions dest: completion_sessions split: option.splits if_splits)

lemma transition_import_sessions:
  assumes "transitionModelArtifactImport now ns i t db = Inr (db', v)"
  shows "sd_sessions db' = sd_sessions db"
proof (cases "db' = db")
  case False
  then have "update_transition now ns i t db = Inr (db', v)"
    using assms unfolding transitionModelArtifactImport_def by (auto simp: result_simps split: if_splits)
  then show ?thesis unfolding update_transition_def by (auto simp: result_simps import_writes_sessions split: option.splits)
qed simp

lemma taken_over_step:
  assumes "studio_exec op db = Inr db'" "taken_over i token db" "\<not> draws_token token op"
  shows "taken_over i token db'"
proof (cases op)
  case (CreateSession now j owner input)
  with assms show ?thesis
    by (auto simp: createOrReadSwiftStudioSession_def result_simps intro: insert_session_taken_over split: if_splits)
next
  case (AbandonPreparation now ns j owner)
  with assms show ?thesis
    by (auto simp: abandonSwiftStudioSessionPreparation_def result_simps intro: update_sessions_taken_over)
next
  case (RenewPreparation now ns j owner)
  with assms show ?thesis
    by (auto simp: renewSwiftStudioSessionPreparation_def result_simps intro: update_sessions_taken_over)
next
  case (ClaimPreparation now fresh ns j owner grace)
  with assms show ?thesis
    by (auto simp: claimSwiftStudioSessionPreparation_def result_simps intro: update_sessions_taken_over split: option.splits)
next
  case (TransitionSession now ns j input)
  obtain rows where "update_sessions (\<lambda>r. ss_namespace_id r = ns \<and> ss_id r = j
      \<and> ss_status r = from_status input \<and> transition_fence input db r) (transition_row now input) db = Inr (db', rows)"
    using assms(1) TransitionSession by (auto elim: transition_session_update)
  then show ?thesis using assms(2) by (rule update_sessions_taken_over) (cases input; simp)+
next
  case (ReopenSession now ns j)
  with assms show ?thesis
    by (auto simp: reopenBusySwiftStudioSession_def result_simps intro: update_sessions_taken_over split: option.splits)
qed (use assms in \<open>auto simp: result_simps taken_over_def dest: import_operations_sessions transition_import_sessions\<close>)

lemma run_without_taken_over:
  "run_without token db db' \<Longrightarrow> taken_over i token db \<Longrightarrow> taken_over i token db'"
  by (induction rule: run_without.induct) (auto intro: taken_over_step)

end
