(* ===== verification/Example_Texts.thy ===== *)
theory Example_Texts
  imports Import_Schema
begin

text \<open>
  Sufficient conditions for the checks of texts: a text without a colon, an equals sign and the letter
  k holds no credential, and a JSON value prints within a bound that needs no printing. The example
  runs of the Studio are checked with them.
\<close>

section \<open>Texts without a credential\<close>

lemma matches_somewhere_suffix: "matches_somewhere m prev s \<Longrightarrow> \<exists>p t. suffix t s \<and> m p t"
  by (induction m prev s rule: matches_somewhere.induct) (auto intro: suffix_ConsI)

definition innocent :: "code_unit \<Rightarrow> bool" where
  "innocent c \<longleftrightarrow> c \<noteq> 0x3a \<and> c \<noteq> 0x3d \<and> c \<noteq> 0x6b \<and> c \<noteq> 0x4b"

lemma lower_unit_k: "lower_unit c = 0x6b \<Longrightarrow> \<not> innocent c"
proof -
  assume "lower_unit c = 0x6b"
  then have "c = 0x6b \<or> c = 0x6b - 32" by (auto simp: lower_unit_def algebra_simps split: if_splits)
  then show ?thesis by (auto simp: innocent_def)
qed

lemma secret_key_guilty: "secret_key boundary prev s \<Longrightarrow> \<not> list_all innocent s"
proof
  assume "secret_key boundary prev s" and innocent: "list_all innocent s"
  then have "map lower_unit (take 3 s) = js ''sk-''" by (auto simp: secret_key_def starts_with_ci_def numeral_3_eq_3)
  then obtain b c d ds where "s = b # c # d # ds" "lower_unit c = 0x6b"
    by (cases s; cases "tl s"; cases "tl (tl s)") auto
  with innocent lower_unit_k show False by auto
qed

lemma named_secret_guilty: "named_secret boundary space needs_value prev s \<Longrightarrow> \<not> list_all innocent s"
proof
  assume "named_secret boundary space needs_value prev s" and innocent: "list_all innocent s"
  then obtain name :: js_string where "assigned space needs_value (drop (length name) s)" by (auto simp: named_secret_def list_ex_iff)
  then obtain c cs where c: "dropWhile space (drop (length name) s) = c # cs" "c \<in> set (js '':='')"
    by (auto simp: assigned_def split: list.splits)
  then have "c \<in> set (dropWhile space (drop (length name) s))" by simp
  then have "c \<in> set s" by (meson in_set_dropD set_dropWhileD)
  with innocent c(2) show False by (auto simp: list_all_iff innocent_def)
qed

lemma list_all_suffix: "list_all p s \<Longrightarrow> suffix t s \<Longrightarrow> list_all p t"
  by (auto simp: suffix_def)

lemma no_match:
  assumes "list_all innocent s"
  shows "\<not> matches_somewhere (\<lambda>prev t. secret_key boundary prev t \<or> named_secret boundary space needs_value prev t) prev s"
proof
  assume "matches_somewhere (\<lambda>prev t. secret_key boundary prev t \<or> named_secret boundary space needs_value prev t) prev s"
  from matches_somewhere_suffix [OF this] obtain p t where
    t: "suffix t s" "secret_key boundary p t \<or> named_secret boundary space needs_value p t" by blast
  have "list_all innocent t" using assms t(1) by (rule list_all_suffix)
  with t(2) secret_key_guilty named_secret_guilty show False by metis
qed

lemma no_credential:
  "list_all innocent s \<Longrightarrow> \<not> CREDENTIAL_VALUE s"
  "list_all innocent s \<Longrightarrow> \<not> db_credential needs_value s"
  by (simp_all only: CREDENTIAL_VALUE_def db_credential_def no_match not_False_eq_True)

text \<open>Every name of a secret has an o or a p, and a secret key a k.\<close>

definition quiet_unit :: "code_unit \<Rightarrow> bool" where
  "quiet_unit c \<longleftrightarrow> lower_unit c \<notin> {0x6b, 0x6f, 0x70}"

lemma starts_with_ci_units:
  assumes "starts_with_ci p s" "c \<in> set p"
  shows "\<exists>d \<in> set s. lower_unit d = c"
proof -
  have "c \<in> lower_unit ` set (take (length p) s)"
    using assms by (simp add: starts_with_ci_def flip: set_map)
  then show ?thesis by (blast dest: in_set_takeD)
qed

lemma quiet_start:
  "list_all quiet_unit s \<Longrightarrow> list_ex (\<lambda>c. c \<in> {0x6b, 0x6f, 0x70}) p \<Longrightarrow> \<not> starts_with_ci p s"
  by (auto simp: list_all_iff list_ex_iff quiet_unit_def dest!: starts_with_ci_units)

lemma quiet_match:
  assumes "list_all quiet_unit s"
  shows "\<not> (secret_key boundary prev s \<or> named_secret boundary space needs_value prev s)"
  using quiet_start [OF assms] by (simp add: secret_key_def named_secret_def credential_names_def)

lemma quiet_text:
  assumes "list_all quiet_unit s"
  shows "\<not> CREDENTIAL_VALUE s" and "\<not> db_credential needs_value s"
proof -
  have "\<not> matches_somewhere (\<lambda>prev t. secret_key boundary prev t \<or> named_secret boundary space needs_value prev t) prev s"
    for boundary space needs_value prev
    using quiet_match list_all_suffix [OF assms] by (blast dest: matches_somewhere_suffix)
  then show "\<not> CREDENTIAL_VALUE s" "\<not> db_credential needs_value s"
    by (simp_all only: CREDENTIAL_VALUE_def db_credential_def not_False_eq_True)
qed

text \<open>A text that is also no path and has no control character.\<close>

definition harmless_unit :: "code_unit \<Rightarrow> bool" where
  "harmless_unit c \<longleftrightarrow> innocent c \<and> \<not> is_control c"

definition harmless :: "js_string \<Rightarrow> bool" where
  "harmless s \<longleftrightarrow> list_all harmless_unit s \<and> (case s of [] \<Rightarrow> True | c # cs \<Rightarrow> c \<notin> {0x2f, 0x5c, 0x7e, 0x2e})"

lemma lower_unit_colon: "lower_unit c = 0x3a \<Longrightarrow> \<not> innocent c"
proof -
  assume "lower_unit c = 0x3a"
  then have "c = 0x3a \<or> is_upper c \<and> c = 0x3a - 32" by (auto simp: lower_unit_def algebra_simps split: if_splits)
  then show ?thesis by (auto simp: innocent_def is_upper_def in_range_def)
qed

lemma innocent_path:
  assumes "list_all innocent (c # cs)" "c \<notin> {0x2f, 0x5c, 0x7e, 0x2e}"
  shows "\<not> ABSOLUTE_PATH (c # cs)"
proof
  assume "ABSOLUTE_PATH (c # cs)"
  then have "(case cs of d # e # _ \<Rightarrow> d = 0x3a | _ \<Rightarrow> False) \<or> starts_with_ci (js ''file:'') (c # cs)"
    using assms(2) by (auto simp: ABSOLUTE_PATH_def path_slash_def split: list.splits)
  then show False
  proof
    assume "starts_with_ci (js ''file:'') (c # cs)"
    then have "\<exists>d \<in> set (c # cs). lower_unit d = 0x3a"
      by (cases cs; cases "tl cs"; cases "tl (tl cs)"; cases "tl (tl (tl cs))") (auto simp: starts_with_ci_def)
    with assms(1) lower_unit_colon show False by (auto simp: list_all_iff)
  qed (use assms(1) in \<open>auto simp: innocent_def split: list.splits\<close>)
qed

lemma harmless_text:
  assumes "harmless s"
  shows "\<not> hasControlCharacter s" "\<not> CREDENTIAL_VALUE s" "\<not> db_credential needs_value s" "\<not> ABSOLUTE_PATH s"
proof -
  have "list_all innocent s" using assms by (auto simp: harmless_def harmless_unit_def list_all_iff)
  then show "\<not> CREDENTIAL_VALUE s" "\<not> db_credential needs_value s" by (rule no_credential)+
  show "\<not> hasControlCharacter s" using assms by (auto simp: harmless_def harmless_unit_def hasControlCharacter_def list_all_iff list_ex_iff)
  show "\<not> ABSOLUTE_PATH s"
  proof (cases s)
    case (Cons c cs)
    with assms \<open>list_all innocent s\<close> have "list_all innocent (c # cs)" "c \<notin> {0x2f, 0x5c, 0x7e, 0x2e}"
      by (simp_all add: harmless_def)
    then show ?thesis unfolding Cons by (rule innocent_path)
  qed (simp add: ABSOLUTE_PATH_def starts_with_ci_def)
qed

lemma harmless_simps [simp]:
  "harmless []"
  "harmless (c # cs) \<longleftrightarrow> c \<notin> {0x2f, 0x5c, 0x7e, 0x2e} \<and> harmless_unit c \<and> list_all harmless_unit cs"
  "harmless (replicate n c) \<longleftrightarrow> n = 0 \<or> c \<notin> {0x2f, 0x5c, 0x7e, 0x2e} \<and> harmless_unit c"
  by (auto simp: harmless_def list_all_iff split: list.splits) (cases n; simp)+

lemma harmless_replicate_append:
  "0 < n \<Longrightarrow> harmless (replicate n c @ t) \<longleftrightarrow> c \<notin> {0x2f, 0x5c, 0x7e, 0x2e} \<and> harmless_unit c \<and> list_all harmless_unit t"
  by (cases n) (auto simp: list_all_iff)

text \<open>A JSON value whose texts are harmless, or quiet and no paths.\<close>

definition plain_text :: "js_string \<Rightarrow> bool" where
  "plain_text s \<longleftrightarrow> harmless s \<or> list_all quiet_unit s \<and> \<not> hasControlCharacter s \<and> \<not> ABSOLUTE_PATH s"

fun plain_json :: "json \<Rightarrow> bool" where
  "plain_json (JString s) = plain_text s"
| "plain_json (JArray xs) = list_all plain_json xs"
| "plain_json (JObject kvs) = list_all plain_json (map snd kvs)"
| "plain_json _ = True"

lemma plain_text_ok:
  "plain_text s \<Longrightarrow> \<not> hasControlCharacter s \<and> \<not> CREDENTIAL_VALUE s \<and> \<not> db_credential needs_value s \<and> \<not> ABSOLUTE_PATH s"
  unfolding plain_text_def using harmless_text quiet_text by blast

lemma plain_json_texts: "plain_json v \<Longrightarrow> \<not> containsForbiddenManifestString v"
  by (induction v rule: plain_json.induct) (auto simp: plain_text_ok list_all_iff list_ex_iff)

lemma plain_json_some_text: "plain_json v \<Longrightarrow> \<not> some_text (\<lambda>s. db_credential needs_value s \<or> ABSOLUTE_PATH s) v"
  by (induction v rule: plain_json.induct) (auto simp: plain_text_ok list_all_iff list_ex_iff)

section \<open>Keys in the order in which they are expected\<close>

lemma object_with_keys: "map fst kvs = map js expected \<Longrightarrow> object_with expected (JObject kvs)"
  by (simp add: object_with_def hasExactObjectKeys_def)

section \<open>The length of a printed value\<close>

lemma length_escape_unit: "length (escape_unit c) \<le> 6"
  by (simp add: escape_unit_def)

lemma length_stringify_units: "length (stringify_units s) \<le> 6 * length s"
proof (induction s rule: stringify_units.induct)
  case (2 c cs)
  then show ?case using length_escape_unit [of c]
    by (cases cs) (auto simp: lone_escape_def Let_def)
qed simp

lemma length_join_comma: "length (join_comma xs) \<le> sum_list (map (\<lambda>x. Suc (length x)) xs)"
  by (induction xs rule: join_comma.induct) auto

fun json_bound :: "json \<Rightarrow> nat" where
  "json_bound JNull = 4"
| "json_bound (JBool b) = 5"
| "json_bound (JNumber x) = (if is_finite x then length (number_to_string x) else 4)"
| "json_bound (JString s) = 6 * length s + 2"
| "json_bound (JArray xs) = sum_list (map (\<lambda>x. Suc (json_bound x)) xs) + 2"
| "json_bound (JObject kvs) = sum_list (map (\<lambda>(key, v). 6 * length key + 4 + json_bound v) kvs) + 2"

lemma json_bound: "length (json_stringify v) \<le> json_bound v"
proof (induction v rule: json_stringify.induct)
  case (4 s)
  then show ?case using length_stringify_units [of s] by (simp add: stringify_string_def)
next
  case (5 xs)
  have "sum_list (map (\<lambda>x. Suc (length (json_stringify x))) xs) \<le> sum_list (map (\<lambda>x. Suc (json_bound x)) xs)"
    by (rule sum_list_mono) (use 5 in auto)
  then show ?case using length_join_comma [of "map json_stringify xs"] by (simp add: brackets_def comp_def)
next
  case (6 kvs)
  let ?member = "\<lambda>(key, v). stringify_string key @ of_char CHR '':'' # json_stringify v"
  have "sum_list (map (\<lambda>x. Suc (length (?member x))) kvs) \<le> sum_list (map (\<lambda>(key, v). 6 * length key + 4 + json_bound v) kvs)"
  proof (rule sum_list_mono)
    fix x assume "x \<in> set kvs"
    moreover obtain key v where "x = (key, v)" by (cases x)
    ultimately have "length (json_stringify v) \<le> json_bound v" "x = (key, v)" using 6 by blast+
    then show "Suc (length (?member x)) \<le> (case x of (key, v) \<Rightarrow> 6 * length key + 4 + json_bound v)"
      using length_stringify_units [of key] by (simp add: stringify_string_def)
  qed
  then show ?case using length_join_comma [of "map ?member kvs"] by (simp add: braces_def comp_def)
qed simp_all

lemma length_utf8_units: "length (utf8_units n) \<le> 4"
  by (simp add: utf8_units_def)

lemma length_scalar_values: "length (scalar_values s) \<le> length s"
proof (induction s rule: scalar_values.induct)
  case (2 c cs)
  then show ?case by (cases cs) (auto simp: scalar_values.simps(2))
qed simp

lemma byte_length_bound: "byte_length s \<le> 4 * length s"
proof -
  have "sum_list (map (\<lambda>n. length (utf8_units n)) (scalar_values s)) \<le> sum_list (map (\<lambda>n. 4) (scalar_values s))"
    by (rule sum_list_mono) (rule length_utf8_units)
  then show ?thesis
    using length_scalar_values [of s] by (simp add: byte_length_def encode_utf8_def length_concat comp_def sum_list_triv)
qed

lemma json_fits: "4 * json_bound v \<le> n \<Longrightarrow> byte_length (json_stringify v) \<le> n"
  using json_bound [of v] byte_length_bound [of "json_stringify v"] by linarith

end
