(* ===== verification/Studio_Example.thy ===== *)
theory Studio_Example
  imports Studio_System Example_Texts
begin

text \<open>
  A session of the Studio that is created and made ready, and the manifest of an artifact: the first
  part of a run of the operations whose states are evaluated, so that the hypotheses of the properties
  can be seen to hold.
\<close>

definition ex_uuid :: "code_unit \<Rightarrow> js_string" where
  "ex_uuid c = replicate 8 c @ js ''-'' @ replicate 4 c @ js ''-4'' @ replicate 3 c @ js ''-8'' @ replicate 3 c @ js ''-'' @ replicate 12 c"

definition ex_digest :: "code_unit \<Rightarrow> js_string" where "ex_digest c = replicate 64 c"
definition ex_commit :: js_string where "ex_commit = replicate 40 0x64"

definition ex_catalog :: catalog_db where
  "ex_catalog = empty_db\<lparr>namespaces := [\<lparr>na_id = ex_uuid 0x61, na_scope = js ''s''\<rparr>],
     snapshots := [\<lparr>sn_version = ex_digest 0x61, sn_identity_profile = [], sn_record_schema_version = [], sn_num_records = 1\<rparr>]\<rparr>"

definition ex_create :: create_session where
  "ex_create = \<lparr>cs_namespace_id = ex_uuid 0x61, cs_create_digest = ex_digest 0x62, cs_dataset_version = ex_digest 0x61,
     cs_display_ref = None, cs_converter = js ''ms-swift'', cs_converter_version = js ''1.0.0'',
     cs_normalized_options = JObject [], cs_fidelity_digest = ex_digest 0x63, cs_export_output_count = 1,
     cs_provider = js ''swift-studio'', cs_provider_session_id = js ''s1'', cs_upstream_commit = ex_commit,
     cs_image_digest = ex_digest 0x64, cs_runtime_capability_digest = ex_digest 0x65\<rparr>"


definition ex_file :: "string \<Rightarrow> json" where
  "ex_file path = JObject [(js ''path'', JString (js path)), (js ''digest'', JString (ex_digest 0x61)),
     (js ''size_bytes'', JNumber (Finite False 7 0))]"

definition ex_summary :: json where
  "ex_summary = JObject [(js ''train_stage'', JNull), (js ''tuner_type'', JString (js ''lora'')), (js ''lora_rank'', JNull),
     (js ''lora_alpha'', JNull), (js ''lora_dropout'', JNull), (js ''num_train_epochs'', JNull), (js ''max_steps'', JNull),
     (js ''learning_rate'', JNumber (Finite False 1 (- 4))), (js ''max_length'', JNull), (js ''dtype'', JNull),
     (js ''seed'', JNull), (js ''redacted_fields_count'', JNumber (Finite False 0 0))]"

definition ex_manifest :: json where
  "ex_manifest = JObject [(js ''manifest_version'', JString (js ''model-artifact-manifest-v1'')),
     (js ''artifact_kind'', JString (js ''lora_adapter'')), (js ''artifact_format'', JString (js ''swift-lora-adapter-v1'')),
     (js ''archive_format'', JString (js ''deterministic-tar-zst-v1'')), (js ''archive_digest'', JString (ex_digest 0x61)),
     (js ''archive_size_bytes'', JNumber (Finite False 9 0)), (js ''output_snapshot_digest'', JString (ex_digest 0x62)),
     (js ''files'', JArray [ex_file ''adapter_config.json'', ex_file ''adapter_model.safetensors'']),
     (js ''source'', JObject [(js ''studio_session_id'', JString (ex_uuid 0x62)), (js ''upstream_commit'', JString ex_commit),
        (js ''image_digest'', JString (ex_digest 0x64))]),
     (js ''dataset_lineage'', JObject [(js ''status'', JString (js ''verified'')), (js ''dataset_version'', JString (ex_digest 0x61)),
        (js ''dataset_export_digest'', JString (ex_digest 0x63))]),
     (js ''base_model'', JObject [(js ''reference'', JString (js ''qwen'')), (js ''revision'', JNull),
        (js ''binding_status'', JString (js ''unresolved''))]),
     (js ''training_summary'', ex_summary), (js ''created_at'', JString (js ''2024-02-29T23:59:59.999Z'')),
     (js ''created_by'', JString (js ''databench''))]"

section \<open>The requests are valid\<close>

lemma ex_uuid_ok: "UUID (ex_uuid c) \<longleftrightarrow> is_hex_lower c"
proof -
  have "is_hex_lower (js ''4'' ! 0)" "in_range CHR ''1'' CHR ''8'' (js ''4'' ! 0)" "is_hex_lower (js ''8'' ! 0)" by code_simp+
  then show ?thesis by (auto simp: UUID_def ex_uuid_def nth_append upt_rec)
qed

lemma ex_digests: "EXACT_VERSION (ex_digest c) \<longleftrightarrow> is_hex_lower c"
  by (simp add: ex_digest_def)

lemma ex_hex: "is_hex_lower 0x61" "is_hex_lower 0x62" "is_hex_lower 0x63" "is_hex_lower 0x64" "is_hex_lower 0x65"
  by code_simp+

lemma ex_commit_ok: "GIT_COMMIT ex_commit"
  by code_simp

lemma ex_create_ok: "validateCreateSwiftStudioSession ex_create = Inr ()"
proof -
  have "SWIFT_PROVIDER_SESSION_ID (js ''s1'')" by code_simp
  moreover have "byte_length (js ''s1'') \<le> 256" by code_simp
  moreover have "byte_length (json_stringify (JObject [])) \<le> MAX_SWIFT_OPTIONS_BYTES"
    by (rule json_fits) (simp add: MAX_SWIFT_OPTIONS_BYTES_def)
  ultimately show ?thesis
    by (simp add: validateCreateSwiftStudioSession_def ex_create_def validateNamespaceId_def ex_uuid_ok ex_digests ex_hex ex_commit_ok
        POSTGRES_BIGINT_MAX_def del: js_simps json_stringify.simps)
qed

section \<open>The manifest is valid\<close>

lemma ex_plain: "plain_text (ex_digest 0x61)" "plain_text (ex_digest 0x62)" "plain_text (ex_digest 0x63)" "plain_text (ex_digest 0x64)"
  "plain_text ex_commit" "plain_text (ex_uuid 0x62)"
  by (simp_all add: plain_text_def ex_digest_def ex_commit_def ex_uuid_def harmless_replicate_append harmless_unit_def innocent_def
      is_control_def list_all_iff)

lemma ex_plain_json: "plain_json ex_manifest"
proof -
  have "plain_text (js ''2024-02-29T23:59:59.999Z'')" by code_simp
  then show ?thesis
    by (simp add: ex_manifest_def ex_file_def ex_summary_def ex_plain)
       (simp add: plain_text_def harmless_unit_def innocent_def is_control_def)
qed

lemma one_digit: "n < 10 \<Longrightarrow> nat_to_string n = [digit_unit n]"
  by (subst nat_to_string.simps) simp

lemma ex_bytes: "byte_length (json_stringify ex_manifest) \<le> MAX_MODEL_ARTIFACT_MANIFEST_BYTES"
  by (rule json_fits) (simp add: ex_manifest_def ex_file_def ex_summary_def ex_digest_def ex_uuid_def ex_commit_def
      MAX_MODEL_ARTIFACT_MANIFEST_BYTES_def magnitude_to_string_def one_digit Let_def)

lemma ex_summary_ok: "validateModelArtifactTrainingSummary ex_summary = Inr ()"
proof -
  have "object_with [''train_stage'', ''tuner_type'', ''lora_rank'', ''lora_alpha'', ''lora_dropout'',
       ''num_train_epochs'', ''max_steps'', ''learning_rate'', ''max_length'', ''dtype'', ''seed'',
       ''redacted_fields_count''] ex_summary" unfolding ex_summary_def by (rule object_with_keys) simp
  then show ?thesis
    by (simp add: ex_summary_def validateModelArtifactTrainingSummary_def optionalToken_def optional_number_def text_field_def
       number_field_def json_field_def is_size_def isSafeInteger_def is_safe_integer_def)
qed

definition ex_source :: json where
  "ex_source = JObject [(js ''studio_session_id'', JString (ex_uuid 0x62)), (js ''upstream_commit'', JString ex_commit),
     (js ''image_digest'', JString (ex_digest 0x64))]"

definition ex_lineage :: json where
  "ex_lineage = JObject [(js ''status'', JString (js ''verified'')), (js ''dataset_version'', JString (ex_digest 0x61)),
     (js ''dataset_export_digest'', JString (ex_digest 0x63))]"

definition ex_base_model :: json where
  "ex_base_model = JObject [(js ''reference'', JString (js ''qwen'')), (js ''revision'', JNull),
     (js ''binding_status'', JString (js ''unresolved''))]"

definition ex_files :: "json list" where
  "ex_files = [ex_file ''adapter_config.json'', ex_file ''adapter_model.safetensors'']"

lemma ex_fields:
  "json_field ex_manifest ''manifest_version'' = Some (JString (js ''model-artifact-manifest-v1''))"
  "json_field ex_manifest ''artifact_kind'' = Some (JString (js ''lora_adapter''))"
  "json_field ex_manifest ''artifact_format'' = Some (JString (js ''swift-lora-adapter-v1''))"
  "json_field ex_manifest ''archive_format'' = Some (JString (js ''deterministic-tar-zst-v1''))"
  "json_field ex_manifest ''archive_digest'' = Some (JString (ex_digest 0x61))"
  "json_field ex_manifest ''archive_size_bytes'' = Some (JNumber (Finite False 9 0))"
  "json_field ex_manifest ''output_snapshot_digest'' = Some (JString (ex_digest 0x62))"
  "json_field ex_manifest ''files'' = Some (JArray ex_files)"
  "json_field ex_manifest ''source'' = Some ex_source"
  "json_field ex_manifest ''dataset_lineage'' = Some ex_lineage"
  "json_field ex_manifest ''base_model'' = Some ex_base_model"
  "json_field ex_manifest ''training_summary'' = Some ex_summary"
  "json_field ex_manifest ''created_at'' = Some (JString (js ''2024-02-29T23:59:59.999Z''))"
  "json_field ex_manifest ''created_by'' = Some (JString (js ''databench''))"
  by (simp_all add: json_field_def ex_manifest_def ex_files_def ex_source_def ex_lineage_def ex_base_model_def)

lemma ex_source_fields:
  "json_field ex_source ''studio_session_id'' = Some (JString (ex_uuid 0x62))"
  "json_field ex_source ''upstream_commit'' = Some (JString ex_commit)"
  "json_field ex_source ''image_digest'' = Some (JString (ex_digest 0x64))"
  "json_field ex_lineage ''status'' = Some (JString (lineage_text VerifiedLineage))"
  "json_field ex_lineage ''dataset_version'' = Some (JString (ex_digest 0x61))"
  "json_field ex_lineage ''dataset_export_digest'' = Some (JString (ex_digest 0x63))"
  "json_field ex_base_model ''reference'' = Some (JString (js ''qwen''))"
  "json_field ex_base_model ''revision'' = Some JNull"
  "json_field ex_base_model ''binding_status'' = Some (JString (binding_text UnresolvedBinding))"
  by (simp_all add: json_field_def ex_source_def ex_lineage_def ex_base_model_def lineage_text_def binding_text_def)

lemma ex_base_model_ok: "validateModelArtifactBaseModel (js ''qwen'') None UnresolvedBinding = Inr ()"
proof -
  have "plain_text (js ''qwen'')" by (simp add: plain_text_def harmless_unit_def innocent_def is_control_def)
  moreover have "\<not> byte_length (js ''qwen'') < 1" "\<not> 512 < byte_length (js ''qwen'')" "\<not> list_ex is_backslash (js ''qwen'')"
    by code_simp+
  ultimately show ?thesis by (simp add: validateModelArtifactBaseModel_def plain_text_ok del: js_simps)
qed

lemma ex_file_path:
  "ALLOWED_ADAPTER_FILE (js path) \<Longrightarrow> manifest_file_path (ex_file path) = Inr (js path)"
proof -
  assume "ALLOWED_ADAPTER_FILE (js path)"
  moreover have "object_with [''path'', ''digest'', ''size_bytes''] (ex_file path)"
    unfolding ex_file_def by (rule object_with_keys) simp
  moreover have "json_field (ex_file path) ''path'' = Some (JString (js path))"
    "json_field (ex_file path) ''digest'' = Some (JString (ex_digest 0x61))"
    "json_field (ex_file path) ''size_bytes'' = Some (JNumber (Finite False 7 0))"
    by (simp_all add: json_field_def ex_file_def)
  ultimately show ?thesis
    by (simp add: manifest_file_path_def text_field_def number_field_def required_text_def ex_digests ex_hex is_size_def
        isSafeInteger_def is_safe_integer_def)
qed

lemma ex_files_ok: "validateModelArtifactManifestFiles (Some (JArray ex_files)) = Inr ()"
proof -
  have "ALLOWED_ADAPTER_FILE (js ''adapter_config.json'')" "ALLOWED_ADAPTER_FILE (js ''adapter_model.safetensors'')"
    by (simp_all add: ALLOWED_ADAPTER_FILE_def)
  moreover have "distinct [js ''adapter_config.json'', js ''adapter_model.safetensors'']" by simp
  moreover have "bytes_ascending [js ''adapter_config.json'', js ''adapter_model.safetensors'']" by code_simp
  moreover have "safetensors_layout [js ''adapter_config.json'', js ''adapter_model.safetensors'']"
    by (simp add: safetensors_layout_def is_shard_name_def Let_def)
  ultimately show ?thesis
    by (simp add: validateModelArtifactManifestFiles_def ex_files_def ex_file_path MAX_MODEL_ARTIFACT_FILES_def
        del: js_simps distinct.simps bytes_ascending.simps)
qed

lemma ex_manifest_ok: "validateModelArtifactManifest ex_manifest = Inr ()"
proof -
  have root: "object_with [''manifest_version'', ''artifact_kind'', ''artifact_format'', ''archive_format'',
       ''archive_digest'', ''archive_size_bytes'', ''output_snapshot_digest'', ''files'', ''source'',
       ''dataset_lineage'', ''base_model'', ''training_summary'', ''created_at'', ''created_by''] ex_manifest"
    unfolding ex_manifest_def by (rule object_with_keys) simp
  have parts: "object_with [''studio_session_id'', ''upstream_commit'', ''image_digest''] ex_source"
    "object_with [''status'', ''dataset_version'', ''dataset_export_digest''] ex_lineage"
    "object_with [''reference'', ''revision'', ''binding_status''] ex_base_model"
    unfolding ex_source_def ex_lineage_def ex_base_model_def by (rule object_with_keys, simp)+
  have "manifest_identity ex_manifest"
    by (simp add: manifest_identity_def text_field_def number_field_def ex_fields ex_digests ex_hex is_size_def isSafeInteger_def
        is_safe_integer_def iso_examples del: js_simps)
  moreover have "validateModelArtifactManifestSource ex_source = Inr ()"
    by (simp add: validateModelArtifactManifestSource_def parts text_field_def ex_source_fields ex_uuid_ok ex_hex ex_commit_ok ex_digests)
  moreover have "validateModelArtifactManifestLineage ex_lineage = Inr ()"
    by (simp add: validateModelArtifactManifestLineage_def parts required_text_def nullable_text_def ex_source_fields
        validateModelArtifactLineage_def ex_digests ex_hex)
  moreover have "validateModelArtifactManifestBaseModel ex_base_model = Inr ()"
    by (simp add: validateModelArtifactManifestBaseModel_def parts required_text_def nullable_text_def ex_source_fields
        ex_base_model_ok del: js_simps)
  ultimately show ?thesis
    using plain_json_texts [OF ex_plain_json] ex_bytes ex_summary_ok ex_files_ok root
    by (simp add: validateModelArtifactManifest_def required_field_def ex_fields)
qed

section \<open>The rows\<close>

definition ex_preparing :: studio_session where
  "ex_preparing = new_session 10 (ex_uuid 0x62) (ex_uuid 0x63) ex_create"

definition ex_ready :: studio_session where
  "ex_ready = transition_row 20 (ToReady (ex_uuid 0x63) (ex_digest 0x63) 5) ex_preparing"

lemma ex_session_checks: "session_check ex_preparing" "session_check ex_ready"
proof -
  have "SWIFT_PROVIDER_SESSION_ID (js ''s1'')" by code_simp
  then show "session_check ex_preparing" "session_check ex_ready"
    by (simp_all add: session_check_def session_checks ex_ready_def ex_preparing_def new_session_def ex_create_def ex_digests ex_hex
        ex_commit_ok POSTGRES_BIGINT_MAX_def is_started_def at_least_def PREPARATION_INTERVAL_def del: js_simps)
qed

lemma ex_session_rows:
  "sqlRowToSwiftStudioSession ex_preparing = Inr \<lparr>sv_row = ex_preparing, sv_failure = None\<rparr>"
  "sqlRowToSwiftStudioSession ex_ready = Inr \<lparr>sv_row = ex_ready, sv_failure = None\<rparr>"
proof -
  have create: "create_of_row ex_preparing = ex_create" "create_of_row ex_ready = ex_create"
    by (simp_all add: create_of_row_def ex_ready_def ex_preparing_def new_session_def)
  then have "session_row_valid ex_preparing = Inr ()" "session_row_valid ex_ready = Inr ()"
    by (simp_all add: session_row_valid_def ex_create_ok ex_uuid_ok ex_digests ex_hex validateSwiftStudioSessionId_def
        validateSwiftStudioSessionPreparationOwnerToken_def ex_ready_def ex_preparing_def new_session_def
        POSTGRES_BIGINT_MAX_def PREPARATION_INTERVAL_def)
  then show "sqlRowToSwiftStudioSession ex_preparing = Inr \<lparr>sv_row = ex_preparing, sv_failure = None\<rparr>"
    "sqlRowToSwiftStudioSession ex_ready = Inr \<lparr>sv_row = ex_ready, sv_failure = None\<rparr>"
    by (simp_all add: sqlRowToSwiftStudioSession_def revalidate_def ex_ready_def ex_preparing_def new_session_def ex_create_def
        parseStoredSwiftStudioSessionFailure_def parseStoredJsonObject_def is_started_def del: js_simps)
qed

definition ex_studio :: "studio_session list \<Rightarrow> artifact_import list \<Rightarrow> model_artifact list \<Rightarrow> studio_db" where
  "ex_studio sessions imports artifacts =
     \<lparr>sd_catalog = ex_catalog, sd_sessions = sessions, sd_imports = imports, sd_artifacts = artifacts\<rparr>"

lemma ex_catalog_rows: "find_namespace ex_catalog (ex_uuid 0x61) \<noteq> None" "find_snapshot ex_catalog (ex_digest 0x61) \<noteq> None"
  by (simp_all add: ex_catalog_def find_namespace_def find_snapshot_def find_first_def)

lemma ex_run_create:
  "studio_exec (CreateSession 10 (ex_uuid 0x62) (ex_uuid 0x63) ex_create) (empty_studio ex_catalog) = Inr (ex_studio [ex_preparing] [] [])"
  using ex_session_checks(1) ex_session_rows(1) ex_catalog_rows
  by (simp add: ran_studio_def createOrReadSwiftStudioSession_def ex_create_ok insert_session_def empty_studio_def ex_studio_def
      insert_on_conflict_do_nothing_def session_fks_def flip: ex_preparing_def)
     (simp add: ex_preparing_def new_session_def ex_create_def)

lemma ex_preparing_fields: "ss_namespace_id ex_preparing = ex_uuid 0x61" "ss_id ex_preparing = ex_uuid 0x62"
  "ss_status ex_preparing = Preparing" "ss_preparation_owner_token ex_preparing = ex_uuid 0x63"
  by (simp_all add: ex_preparing_def new_session_def ex_create_def)

lemma ex_ready_fields: "ss_namespace_id ex_ready = ex_uuid 0x61" "ss_id ex_ready = ex_uuid 0x62" "ss_status ex_ready = Ready"
  "ss_dataset_version ex_ready = ex_digest 0x61" "ss_export_digest ex_ready = Some (ex_digest 0x63)"
  "ss_upstream_commit ex_ready = ex_commit" "ss_image_digest ex_ready = ex_digest 0x64"
  by (simp_all add: ex_ready_def ex_preparing_def new_session_def ex_create_def)

lemma ex_run_ready:
  "studio_exec (TransitionSession 20 (ex_uuid 0x61) (ex_uuid 0x62) (ToReady (ex_uuid 0x63) (ex_digest 0x63) 5)) (ex_studio [ex_preparing] [] [])
    = Inr (ex_studio [ex_ready] [] [])"
proof -
  have "validateSwiftStudioSessionTransition (ex_uuid 0x61) (ex_uuid 0x62) (ToReady (ex_uuid 0x63) (ex_digest 0x63) 5) = Inr ()"
    by (simp add: validateSwiftStudioSessionTransition_def validateNamespaceId_def validateSwiftStudioSessionId_def
        validateSwiftStudioSessionPreparationOwnerToken_def ex_uuid_ok ex_digests ex_hex POSTGRES_BIGINT_MAX_def)
  then show ?thesis
    using ex_session_checks(2) ex_session_rows(2)
    by (simp add: ran_studio_def transitionSwiftStudioSession_def update_sessions_def returning_def update_where_def ex_studio_def
        ex_preparing_fields one_session_def del: transition_row.simps flip: ex_ready_def)
qed

end
