(* ===== verification/Import_Example.thy ===== *)
theory Import_Example
  imports Studio_Example
begin

text \<open>
  The second part of the run: an import of the ready session is requested, staged, finalized and
  completed with its artifact.
\<close>

definition ex_request :: create_import where
  "ex_request = \<lparr>ci_namespace_id = ex_uuid 0x61, ci_create_digest = ex_digest 0x65, ci_studio_session_id = ex_uuid 0x62,
     ci_output_handle_digest = ex_digest 0x65, ci_artifact_kind = js ''lora_adapter'', ci_display_name = js ''adapter'',
     ci_base_model_reference = js ''qwen'', ci_base_model_revision = None\<rparr>"

definition ex_provider_id :: js_string where "ex_provider_id = js ''swai_'' @ replicate 16 0x61"

definition ex_finalization :: import_finalization where
  "ex_finalization = \<lparr>if_staging_object_key = staging_archive_key (ex_uuid 0x64), if_archive_digest = ex_digest 0x61,
     if_archive_size_bytes = 9, if_manifest_digest = ex_digest 0x61, if_manifest = ex_manifest,
     if_lineage_status = VerifiedLineage, if_dataset_version = Some (ex_digest 0x61),
     if_dataset_export_digest = Some (ex_digest 0x63), if_binding_status = UnresolvedBinding\<rparr>"

definition ex_requested :: artifact_import where "ex_requested = new_import 30 (ex_uuid 0x64) ex_request"
definition ex_staging :: artifact_import where
  "ex_staging = import_transition_row 40 (ToStaging ex_provider_id (ex_digest 0x62)) ex_requested"
definition ex_finalizing :: artifact_import where
  "ex_finalizing = import_transition_row 50 (ToFinalizing ex_finalization) ex_staging"
definition ex_locator :: js_string where "ex_locator = artifact_locator (ex_digest 0x61)"
definition ex_artifact :: model_artifact where
  "ex_artifact = new_artifact 60 (ex_uuid 0x65) ex_locator ex_finalizing ex_ready (ex_digest 0x61) 9 (ex_digest 0x61) ex_manifest
     VerifiedLineage UnresolvedBinding"
definition ex_completed :: artifact_import where
  "ex_completed = completed_import 60 ex_artifact ex_finalizing"

lemmas ex_rows = ex_completed_def completed_import_def ex_finalizing_def ex_finalization_def ex_staging_def ex_requested_def
  new_import_def ex_request_def

lemma ex_locator_ok: "MODEL_ARTIFACT_OBJECT_LOCATOR ex_locator" by code_simp

lemma ex_provider_id_ok: "MODEL_ARTIFACT_PROVIDER_IMPORT_ID ex_provider_id" by code_simp

lemma ex_staging_key_ok: "MODEL_ARTIFACT_STAGING_KEY (staging_archive_key (ex_uuid 0x64))" by code_simp

lemma ex_plain_names: "plain_text (js ''adapter'')" "plain_text (js ''qwen'')"
  by (simp_all add: plain_text_def harmless_unit_def innocent_def is_control_def)

lemma ex_name_lengths: "byte_length (js ''adapter'') = 7" "byte_length (js ''qwen'') = 4" by code_simp+

lemma ex_reference_ok: "reference_check (js ''qwen'')" "display_name_check (js ''adapter'')" "revision_check None"
proof -
  have "\<not> list_ex is_backslash (js ''qwen'')" by code_simp
  then have "\<not> list_ex (\<lambda>c. c = 0x5c) (js ''qwen'')" by (simp add: is_backslash_def)
  then show "reference_check (js ''qwen'')" "display_name_check (js ''adapter'')" "revision_check None"
    using plain_text_ok [OF ex_plain_names(1)] plain_text_ok [OF ex_plain_names(2)] \<open>\<not> list_ex is_backslash (js ''qwen'')\<close>
    by (simp_all add: reference_check_def display_name_check_def revision_check_def ex_name_lengths del: js_simps)
qed

lemma ex_request_ok: "validateCreateModelArtifactImport ex_request = Inr ()"
  using plain_text_ok [OF ex_plain_names(1)] ex_base_model_ok
  by (simp add: validateCreateModelArtifactImport_def ex_request_def validateNamespaceId_def validateSwiftStudioSessionId_def
      validateModelArtifactDisplayName_def ex_uuid_ok ex_digests ex_hex ex_name_lengths del: js_simps)

section \<open>The constraints hold\<close>

lemma ex_manifest_check:
  "manifest_check ex_manifest (Some (ex_digest 0x61)) (Some 9) (ex_uuid 0x62) (Some VerifiedLineage)
     (Some (ex_digest 0x61)) (Some (ex_digest 0x63)) (js ''qwen'') None (Some UnresolvedBinding)"
proof -
  have "is_json_object ex_manifest" by (simp add: ex_manifest_def)
  then show ?thesis
    using plain_json_some_text [OF ex_plain_json]
    by (simp add: manifest_check_def equal_or_unknown_def db_text_def db_text_at_def number_field_def ex_fields ex_source_fields
        del: js_simps)
qed

lemmas import_checks = import_identity_check_def import_text_check_def import_digest_check_def import_enum_check_def
  import_manifest_check_def import_lifecycle_check_def final_fields_def

lemma ex_import_checks: "import_check ex_requested" "import_check ex_staging" "import_check ex_finalizing" "import_check ex_completed"
proof -
  note names = plain_text_ok [OF ex_plain_names(1), of False] plain_text_ok [OF ex_plain_names(2), of False]
  note facts = names ex_reference_ok ex_provider_id_ok ex_manifest_check ex_digests ex_hex
  show "import_check ex_requested" "import_check ex_staging" "import_check ex_finalizing" "import_check ex_completed"
    by (simp_all add: import_check_def import_checks ex_rows facts db_text_def ex_fields equal_or_unknown_def lineage_shape_check_def
        at_least_def not_before_def del: js_simps)
qed

lemma ex_artifact_check: "artifact_check ex_artifact"
  using ex_manifest_check ex_reference_ok
  by (simp add: artifact_check_def artifact_format_check_def artifact_digest_check_def ex_artifact_def new_artifact_def ex_rows
      ex_ready_fields ex_digests ex_hex ex_commit_ok ex_locator_def lineage_shape_check_def equal_or_unknown_def db_text_at_def
      db_text_def ex_fields ex_source_fields del: js_simps)

section \<open>The rows are readable\<close>

lemma import_row_read:
  assumes "ai_manifest r \<in> {None, Some ex_manifest}" "ai_failure r = None" "create_of_import r = ex_request" "UUID (ai_id r)"
    and "validateStoredModelArtifactImportShape r = Inr ()"
  shows "sqlRowToModelArtifactImport r = Inr \<lparr>iv_row = r, iv_failure = None\<rparr>"
proof -
  have "ai_artifact_kind r = ci_artifact_kind (create_of_import r)" by (simp add: create_of_import_def)
  then have "ai_artifact_kind r = js ''lora_adapter''" using assms(3) by (simp add: ex_request_def)
  then show ?thesis
    using assms
    by (auto simp: sqlRowToModelArtifactImport_def parseStoredModelArtifactManifest_def revalidate_def ex_manifest_ok
        parseStoredModelArtifactImportFailure_def ex_request_ok validateModelArtifactImportId_def simp del: js_simps)
qed

lemmas shape_defs = validateStoredModelArtifactImportShape_def has_finalization_def final_fields_def finalization_shape_def
  validateModelArtifactArchiveMetadata_def validateModelArtifactLineage_def

lemma ex_import_rows:
  "sqlRowToModelArtifactImport ex_requested = Inr \<lparr>iv_row = ex_requested, iv_failure = None\<rparr>"
  "sqlRowToModelArtifactImport ex_staging = Inr \<lparr>iv_row = ex_staging, iv_failure = None\<rparr>"
  "sqlRowToModelArtifactImport ex_finalizing = Inr \<lparr>iv_row = ex_finalizing, iv_failure = None\<rparr>"
  "sqlRowToModelArtifactImport ex_completed = Inr \<lparr>iv_row = ex_completed, iv_failure = None\<rparr>"
  using ex_base_model_ok ex_provider_id_ok
  by - (rule import_row_read;
      simp add: create_of_import_def shape_defs ex_rows ex_uuid_ok ex_digests ex_hex is_settled_def del: js_simps)+

lemma ex_artifact_row: "sqlRowToModelArtifact ex_artifact = Inr ex_artifact"
proof -
  have "validateModelArtifactDisplayName (js ''adapter'') = Inr ()"
    using plain_text_ok [OF ex_plain_names(1)] by (simp add: validateModelArtifactDisplayName_def ex_name_lengths del: js_simps)
  then have "artifact_row_valid ex_artifact = Inr ()"
    using ex_base_model_ok ex_locator_ok
    by (simp add: artifact_row_valid_def ex_artifact_def new_artifact_def ex_rows ex_ready_fields validateModelArtifactId_def
        validateNamespaceId_def validateModelArtifactArchiveMetadata_def validateModelArtifactObjectLocator_def
        validateModelArtifactLineage_def ex_uuid_ok ex_digests ex_hex ex_commit_ok ex_manifest_ok ex_locator_def
        sameModelArtifactManifestLineage_def text_field_def number_field_def required_field_def ex_fields ex_source_fields
        of_optional_def Let_def del: js_simps)
  moreover have "ma_artifact_kind ex_artifact = js ''lora_adapter''" "ma_artifact_format ex_artifact = js ''swift-lora-adapter-v1''"
    "ma_archive_format ex_artifact = js ''deterministic-tar-zst-v1''" "ma_source_kind ex_artifact = js ''swift_studio_session''"
    "ma_manifest ex_artifact = ex_manifest"
    by (simp_all add: ex_artifact_def new_artifact_def ex_rows del: js_simps)
  ultimately show ?thesis
    by (simp add: sqlRowToModelArtifact_def parseStoredModelArtifactManifest_def revalidate_def ex_manifest_ok del: js_simps)
qed

section \<open>The run\<close>

lemma ex_session_found: "find_session (ex_studio [ex_ready] imports artifacts) (ex_uuid 0x61) (ex_uuid 0x62) = [ex_ready]"
  by (simp add: find_session_def select_where_def ex_studio_def ex_ready_fields)

lemma ex_import_fields:
  "ai_namespace_id r = ex_uuid 0x61 \<and> ai_id r = ex_uuid 0x64 \<and> ai_create_digest r = ex_digest 0x65
     \<and> ai_studio_session_id r = ex_uuid 0x62"
  if "r \<in> {ex_requested, ex_staging, ex_finalizing, ex_completed}"
  using that by (auto simp: ex_rows)

lemma ex_import_status: "ai_status ex_requested = Requested" "ai_status ex_staging = Staging"
  "ai_status ex_finalizing = FinalizingImport" "ai_status ex_completed = CompletedImport"
  by (simp_all add: ex_rows)

lemma ex_fks: "r \<in> {ex_requested, ex_staging, ex_finalizing, ex_completed} \<Longrightarrow> import_fks (ex_studio [ex_ready] imports artifacts) r"
  using ex_catalog_rows by (auto simp: import_fks_def ex_studio_def ex_ready_fields known_def ex_rows)

lemma ex_run_request:
  "studio_exec (CreateImport 30 (ex_uuid 0x64) ex_request) (ex_studio [ex_ready] [] []) = Inr (ex_studio [ex_ready] [ex_requested] [])"
proof -
  have fields: "ci_namespace_id ex_request = ex_uuid 0x61" "ci_studio_session_id ex_request = ex_uuid 0x62"
    by (simp_all add: ex_request_def)
  have "insert_import ex_requested (ex_studio [ex_ready] [] []) = Inr (ex_studio [ex_ready] [ex_requested] [], True)"
    using ex_import_checks(1) ex_fks [of ex_requested "[]" "[]"]
    by (simp add: insert_import_def insert_on_conflict_do_nothing_def ex_studio_def)
  moreover have "import_replays ex_request (ex_studio [ex_ready] [] []) = []"
    by (simp add: import_replays_def select_where_def ex_studio_def)
  ultimately show ?thesis
    by (simp add: ran_studio_def createOrReadModelArtifactImport_def ex_request_ok fields ex_session_found ex_session_rows
        exactly_one_def one_import_def ex_ready_fields ex_import_rows flip: ex_requested_def)
qed

text \<open>One step of the import on its row.\<close>

lemma ex_update:
  assumes "p r" "f r = s" "import_check s" "s \<in> {ex_requested, ex_staging, ex_finalizing, ex_completed}"
  shows "update_imports p f (ex_studio [ex_ready] [r] artifacts) = Inr (ex_studio [ex_ready] [s] artifacts, [s])"
  using assms ex_fks [OF assms(4), of "[r]" artifacts]
  by (simp add: update_imports_def update_where_def returning_def ex_studio_def unique_present_def Let_def)

lemma ex_run_staging:
  "studio_exec (TransitionImport 40 (ex_uuid 0x61) (ex_uuid 0x64) (ToStaging ex_provider_id (ex_digest 0x62)))
     (ex_studio [ex_ready] [ex_requested] []) = Inr (ex_studio [ex_ready] [ex_staging] [])"
proof -
  let ?t = "ToStaging ex_provider_id (ex_digest 0x62)"
  have "validateModelArtifactImportTransition (ex_uuid 0x61) (ex_uuid 0x64) ?t = Inr ()"
    by (simp add: validateModelArtifactImportTransition_def validateNamespaceId_def validateModelArtifactImportId_def
        ex_uuid_ok ex_digests ex_hex ex_provider_id_ok)
  moreover have "update_imports (import_at (ex_uuid 0x61) (ex_uuid 0x64) (import_sources ?t)) (import_transition_row 40 ?t)
      (ex_studio [ex_ready] [ex_requested] []) = Inr (ex_studio [ex_ready] [ex_staging] [], [ex_staging])"
    using ex_import_fields [of ex_requested]
    by (intro ex_update) (simp_all add: import_at_def ex_import_status ex_import_checks del: import_transition_row.simps flip: ex_staging_def)
  ultimately show ?thesis
    by (simp add: ran_studio_def transitionModelArtifactImport_def update_transition_def one_import_def ex_import_rows
        del: import_transition_row.simps import_sources.simps)
qed

lemma ex_run_finalizing:
  "studio_exec (TransitionImport 50 (ex_uuid 0x61) (ex_uuid 0x64) (ToFinalizing ex_finalization))
     (ex_studio [ex_ready] [ex_staging] []) = Inr (ex_studio [ex_ready] [ex_finalizing] [])"
proof -
  let ?t = "ToFinalizing ex_finalization" and ?db = "ex_studio [ex_ready] [ex_staging] []"
  have "validate_finalization (ex_uuid 0x64) ex_finalization = Inr ()"
    by (simp add: validate_finalization_def ex_finalization_def ex_staging_key_ok validateModelArtifactArchiveMetadata_def
        validateModelArtifactLineage_def ex_digests ex_hex ex_manifest_ok text_field_def number_field_def required_field_def
        sameModelArtifactManifestLineage_def ex_fields ex_source_fields of_optional_def)
  then have "validateModelArtifactImportTransition (ex_uuid 0x61) (ex_uuid 0x64) ?t = Inr ()"
    by (simp add: validateModelArtifactImportTransition_def validateNamespaceId_def validateModelArtifactImportId_def ex_uuid_ok ex_hex)
  moreover have "find_import ?db (ex_uuid 0x61) (ex_uuid 0x64) = [ex_staging]"
    using ex_import_fields [of ex_staging] by (simp add: find_import_def select_where_def ex_studio_def)
  moreover have "manifest_matches_source ex_manifest ex_staging ex_ready"
    by (simp add: manifest_matches_source_def Let_def required_field_def ex_fields ex_source_fields ex_ready_fields ex_rows
        of_optional_def del: js_simps)
  ultimately have "finalization_source (ex_uuid 0x61) (ex_uuid 0x64) ex_finalization ?db = Inr True"
    using ex_import_fields [of ex_staging]
    by (simp add: finalization_source_def ex_import_rows ex_session_found ex_session_rows exactly_one_def ex_finalization_def ex_ready_fields)
  moreover have "update_imports (import_at (ex_uuid 0x61) (ex_uuid 0x64) (import_sources ?t)) (import_transition_row 50 ?t) ?db
      = Inr (ex_studio [ex_ready] [ex_finalizing] [], [ex_finalizing])"
    using ex_import_fields [of ex_staging]
    by (intro ex_update) (simp_all add: import_at_def ex_import_status ex_import_checks del: import_transition_row.simps flip: ex_finalizing_def)
  ultimately show ?thesis
    using \<open>validateModelArtifactImportTransition (ex_uuid 0x61) (ex_uuid 0x64) ?t = Inr ()\<close>
    by (simp add: ran_studio_def transitionModelArtifactImport_def update_transition_def one_import_def ex_import_rows
        del: import_transition_row.simps import_sources.simps)
qed

lemma ex_finalize:
  "finalizeModelArtifactImport 60 (ex_uuid 0x65) (ex_uuid 0x61) (ex_uuid 0x64) ex_locator (ex_studio [ex_ready] [ex_finalizing] [])
    = Inr (ex_studio [ex_ready] [ex_completed] [ex_artifact], Some (\<lparr>iv_row = ex_completed, iv_failure = None\<rparr>, ex_artifact))"
proof -
  let ?db = "ex_studio [ex_ready] [ex_finalizing] []"
  have "find_import ?db (ex_uuid 0x61) (ex_uuid 0x64) = [ex_finalizing]"
    using ex_import_fields [of ex_finalizing] by (simp add: find_import_def select_where_def ex_studio_def)
  moreover have "insert_artifact ex_artifact ?db = Inr (ex_studio [ex_ready] [ex_finalizing] [ex_artifact], True)"
  proof -
    have "artifact_fks ?db ex_artifact"
      using ex_catalog_rows
      by (simp add: artifact_fks_def ex_studio_def ex_ready_fields ex_artifact_def new_artifact_def ex_rows known_def)
    then show ?thesis
      using ex_artifact_check by (simp add: insert_artifact_def insert_on_conflict_do_nothing_def ex_studio_def)
  qed
  moreover have "update_imports (import_at (ex_uuid 0x61) (ex_uuid 0x64) {FinalizingImport}) (completed_import 60 ex_artifact)
      (ex_studio [ex_ready] [ex_finalizing] [ex_artifact]) = Inr (ex_studio [ex_ready] [ex_completed] [ex_artifact], [ex_completed])"
    using ex_import_fields [of ex_finalizing]
    by (intro ex_update) (simp_all add: import_at_def ex_import_status ex_import_checks del: import_transition_row.simps flip: ex_completed_def)
  moreover have "finalize_import 60 (ex_uuid 0x65) (ex_uuid 0x61) (ex_uuid 0x64) ex_locator v ?db =
     bindR (artifact_of_import ex_artifact ex_locator ex_finalizing ?db) (\<lambda>(db1, artifact).
       complete_import 60 (ex_uuid 0x61) (ex_uuid 0x64) artifact db1)" if "iv_row v = ex_finalizing" for v
  proof -
    have "ai_archive_digest ex_finalizing = Some (ex_digest 0x61)" "ai_archive_size_bytes ex_finalizing = Some 9"
      "ai_manifest_digest ex_finalizing = Some (ex_digest 0x61)" "ai_manifest ex_finalizing = Some ex_manifest"
      "ai_lineage_status ex_finalizing = Some VerifiedLineage" "ai_binding_status ex_finalizing = Some UnresolvedBinding"
      by (simp_all add: ex_rows)
    moreover have "validateModelArtifactObjectLocator ex_locator (ex_digest 0x61) = Inr ()"
      by (simp add: validateModelArtifactObjectLocator_def ex_locator_ok) (simp add: ex_locator_def)
    moreover have "ai_studio_session_id ex_finalizing = ex_uuid 0x62" using ex_import_fields [of ex_finalizing] by simp
    ultimately show ?thesis
      unfolding ex_artifact_def finalize_import_def that Let_def by (simp add: ex_session_found exactly_one_def ex_session_rows)
  qed
  ultimately show ?thesis
    using ex_locator_ok
    by (simp add: finalizeModelArtifactImport_def validateFinalizeModelArtifactImport_def validateNamespaceId_def
        validateModelArtifactImportId_def ex_uuid_ok ex_hex one_import_def ex_import_rows ex_import_status
        artifact_of_import_def ex_artifact_row complete_import_def exactly_one_def completed_import_def [abs_def])
qed

lemma ex_run_completed:
  "studio_exec (FinalizeImport 60 (ex_uuid 0x65) (ex_uuid 0x61) (ex_uuid 0x64) ex_locator) (ex_studio [ex_ready] [ex_finalizing] [])
    = Inr (ex_studio [ex_ready] [ex_completed] [ex_artifact])"
  using ex_finalize by (simp add: ran_studio_def)

lemma ex_reachable:
  "studio_reachable (ex_studio [ex_preparing] [] [])" "studio_reachable (ex_studio [ex_ready] [ex_finalizing] [])"
  "studio_reachable (ex_studio [ex_ready] [ex_completed] [ex_artifact])"
proof -
  note run = studio_reachable.intros(2) [OF _ studio_step.intros]
  show "studio_reachable (ex_studio [ex_preparing] [] [])" by (rule run [OF studio_reachable.intros(1) ex_run_create])
  then have "studio_reachable (ex_studio [ex_ready] [] [])" by (rule run [OF _ ex_run_ready])
  then have "studio_reachable (ex_studio [ex_ready] [ex_requested] [])" by (rule run [OF _ ex_run_request])
  then have "studio_reachable (ex_studio [ex_ready] [ex_staging] [])" by (rule run [OF _ ex_run_staging])
  then show "studio_reachable (ex_studio [ex_ready] [ex_finalizing] [])" by (rule run [OF _ ex_run_finalizing])
  then show "studio_reachable (ex_studio [ex_ready] [ex_completed] [ex_artifact])" by (rule run [OF _ ex_run_completed])
qed

end
