(* ===== verification/Studio_Claims.thy ===== *)
theory Studio_Claims
  imports Import_Example
begin

text \<open>
  What the sessions, imports and artifacts of the Studio promise in every state their operations can
  reach, each with a run of the operations that shows its hypotheses can hold.
\<close>

section \<open>Exclusive sessions\<close>

lemma reachable_sources:
  assumes "studio_ok db" "a \<in> set (sd_imports db)" "s \<in> set (sd_sessions db)" "ai_studio_session_id a = ss_id s"
  shows "source_of_import a s"
proof -
  obtain t where "t \<in> set (sd_sessions db)" "source_of_import a t"
    using assms(1,2) by (auto simp: studio_ok_def imports_linked_def list_all_iff list_ex_iff)
  moreover from this have "t = s"
    using assms session_ids [of "sd_sessions db"] by (auto simp: studio_ok_def source_of_import_def distinct_map dest: inj_onD)
  ultimately show ?thesis by simp
qed



section \<open>Provenance of artifacts\<close>

text \<open>The import \<open>a\<close> and the session \<open>s\<close> that an artifact \<open>r\<close> comes from.\<close>

definition artifact_origin :: "model_artifact \<Rightarrow> artifact_import \<Rightarrow> studio_session \<Rightarrow> bool" where
  "artifact_origin r a s \<longleftrightarrow>
     ai_id a = ma_source_import_id r \<and> ai_status a = CompletedImport \<and> ai_artifact_id a = Some (ma_id r)
   \<and> ai_archive_digest a = Some (ma_archive_digest r) \<and> ai_manifest_digest a = Some (ma_manifest_digest r)
   \<and> ai_manifest a = Some (ma_manifest r) \<and> ss_id s = ma_source_session_id r
   \<and> ai_studio_session_id a = ss_id s \<and> ss_namespace_id s = ma_namespace_id r
   \<and> ss_status s \<in> {Ready, Closing, Closed}
   \<and> ma_upstream_commit r = ss_upstream_commit s \<and> ma_image_digest r = ss_image_digest s
   \<and> json_field (ma_manifest r) ''output_snapshot_digest'' = Some (of_optional (ai_output_snapshot_digest a))
   \<and> (ma_lineage_status r = VerifiedLineage \<longrightarrow>
        ma_dataset_version r = Some (ss_dataset_version s) \<and> ma_dataset_export_digest r = ss_export_digest s)"

lemma product_origin:
  "product_of a r \<Longrightarrow> runtime_of r s \<Longrightarrow> source_of_import a s \<Longrightarrow> artifact_origin r a s"
  by (simp add: artifact_origin_def product_of_def runtime_of_def source_of_import_def manifest_matches_source_def Let_def is_started_def)

text \<open>
  C20: In every reachable state the artifacts and the completed imports correspond one to one, and an
  artifact carries the data of its import, the runtime of its session, and, if its lineage is
  verified, exactly the dataset version and the export of that session.
\<close>

theorem artifact_provenance:
  assumes "studio_reachable db"
  shows "(\<forall>a \<in> set (sd_imports db). ai_status a = CompletedImport \<longrightarrow>
       (\<exists>!r. r \<in> set (sd_artifacts db) \<and> ma_source_import_id r = ai_id a))
    \<and> (\<forall>r \<in> set (sd_artifacts db). \<exists>a \<in> set (sd_imports db). \<exists>s \<in> set (sd_sessions db).
         artifact_origin r a s)"
proof -
  have ok: "studio_ok db" using assms by (rule studio_reachable_ok)
  then have linked: "artifacts_linked (sd_sessions db) (sd_imports db) (sd_artifacts db)" by (simp add: studio_ok_def)
  have unique: "r = q" if "r \<in> set (sd_artifacts db)" "q \<in> set (sd_artifacts db)" "ma_source_import_id r = ma_source_import_id q" for r q
    using ok conflict_free_unique [OF _ symp_artifact_conflict that(1,2)] that(3)
    by (simp add: studio_ok_def artifacts_ok_def artifact_conflict_def)
  have first: "\<exists>!r. r \<in> set (sd_artifacts db) \<and> ma_source_import_id r = ai_id a"
    if "a \<in> set (sd_imports db)" "ai_status a = CompletedImport" for a
  proof -
    from linked that obtain r where "r \<in> set (sd_artifacts db)" "product_of a r"
      by (auto simp: artifacts_linked_def list_all_iff list_ex_iff)
    then show ?thesis using unique by (intro ex1I [of _ r]) (auto simp: product_of_def)
  qed
  have second: "\<exists>a \<in> set (sd_imports db). \<exists>s \<in> set (sd_sessions db). product_of a r \<and> runtime_of r s \<and> source_of_import a s"
    if "r \<in> set (sd_artifacts db)" for r
  proof -
    from linked that obtain a s where as: "a \<in> set (sd_imports db)" "product_of a r" "s \<in> set (sd_sessions db)" "runtime_of r s"
      by (auto simp: artifacts_linked_def list_all_iff list_ex_iff)
    then have "source_of_import a s" by (intro reachable_sources [OF ok]) (simp_all add: product_of_def runtime_of_def)
    with as show ?thesis by blast
  qed
  show ?thesis
  proof (intro conjI ballI impI)
    fix r assume "r \<in> set (sd_artifacts db)"
    from second [OF this] obtain a s where "a \<in> set (sd_imports db)" "s \<in> set (sd_sessions db)"
      and links: "product_of a r" "runtime_of r s" "source_of_import a s" by blast
    then show "\<exists>a \<in> set (sd_imports db). \<exists>s \<in> set (sd_sessions db). artifact_origin r a s"
      using product_origin [OF links] by blast
  qed (rule first)
qed

lemma artifact_provenance_witness:
  "studio_reachable (ex_studio [ex_ready] [ex_completed] [ex_artifact]) \<and> artifact_origin ex_artifact ex_completed ex_ready
    \<and> ma_lineage_status ex_artifact = VerifiedLineage"
  using artifact_provenance [OF ex_reachable(3)] ex_reachable(3)
  by (simp add: ex_studio_def) (simp add: ex_artifact_def new_artifact_def)

section \<open>Preparations that were taken over\<close>

lemma taken_over_unmatched:
  "taken_over i token db \<Longrightarrow> list_all (\<lambda>r. \<not> (ss_id r = i \<and> ss_preparation_owner_token r = token \<and> q r)) (sd_sessions db)"
  by (auto simp: taken_over_def list_all_iff)

lemma prepared_by_none:
  assumes "taken_over i token db"
  shows "update_sessions (prepared_by ns i token) f db = Inr (db, [])"
    "update_sessions (\<lambda>r. prepared_by ns i token r \<and> q r) f db = Inr (db, [])"
  using assms by (auto intro!: update_sessions_none simp: taken_over_def prepared_by_def list_all_iff)

lemma owner_fence_none:
  assumes "taken_over i token db" "\<And>r. transition_fence input db r \<longleftrightarrow> ss_preparation_owner_token r = token"
  shows "update_sessions (\<lambda>r. ss_namespace_id r = ns \<and> ss_id r = i \<and> ss_status r = from_status input
    \<and> transition_fence input db r) f db = Inr (db, [])"
  using assms by (auto intro!: update_sessions_none simp: taken_over_def list_all_iff)

lemma taken_over_powerless:
  assumes "taken_over i token db" "prepares_with i token op" "studio_exec op db = Inr db'"
  shows "db' = db"
proof (cases op)
  case (TransitionSession now ns j input)
  then have input: "j = i" "\<And>r. transition_fence input db r \<longleftrightarrow> ss_preparation_owner_token r = token"
    using assms(2) by (cases input; simp)+
  obtain v where "transitionSwiftStudioSession now ns i input db = Inr (db', v)" using assms(3) TransitionSession input(1) by auto
  then show ?thesis
    by (rule transition_session_update) (simp add: owner_fence_none [OF assms(1) input(2)])
qed (use assms in \<open>auto simp: prepared_by_none result_simps abandonSwiftStudioSessionPreparation_def
    renewSwiftStudioSessionPreparation_def claimSwiftStudioSessionPreparation_def one_session_def split: option.splits\<close>)

lemma claim_takes_over:
  assumes "claimSwiftStudioSessionPreparation now fresh ns i token grace db = Inr (db', v, True)" "studio_ok db" "fresh \<noteq> token"
  shows "taken_over i token db'"
proof -
  let ?p = "\<lambda>r. prepared_by ns i token r \<and> may_claim now grace r"
  let ?f = "\<lambda>r. r\<lparr>ss_preparation_owner_token := fresh, ss_preparation_abandoned_at := None,
          ss_preparation_expires_at := now + PREPARATION_INTERVAL, ss_updated_at := now\<rparr>"
  obtain rows w where update: "update_sessions ?p ?f db = Inr (db', rows)" and "one_session rows = Inr (Some w)"
    using assms(1) unfolding claimSwiftStudioSessionPreparation_def by (auto simp: result_simps split: option.splits)
  then obtain row where "rows = [row]" by (auto simp: one_session_Some)
  moreover have "rows = returning ?p ?f (sd_sessions db)" using update unfolding update_sessions_Inr by blast
  ultimately have "row \<in> set (returning ?p ?f (sd_sessions db))" by (metis list.set_intros(1))
  then obtain r where r: "r \<in> set (sd_sessions db)" "?p r" unfolding returning_set by blast
  then have "ss_id r = i" by (simp add: prepared_by_def)
  have others: "s = r" if "s \<in> set (sd_sessions db)" "ss_id s = i" for s
    using that r(1) \<open>ss_id r = i\<close> assms(2) session_ids [of "sd_sessions db"]
    by (auto simp: studio_ok_def distinct_map dest: inj_onD)
  have "\<forall>s \<in> set (sd_sessions db'). ss_id s = i \<longrightarrow> ss_preparation_owner_token s \<noteq> token"
    using update others r(2) assms(3) by (auto simp: update_sessions_Inr set_update_where)
  moreover have "?f r \<in> set (sd_sessions db')" using update r by (auto simp: update_sessions_Inr set_update_where)
  then have "\<exists>s \<in> set (sd_sessions db'). ss_id s = i" using \<open>ss_id r = i\<close> by (auto intro!: bexI [of _ "?f r"])
  ultimately show ?thesis by (simp add: taken_over_def list_all_iff list_ex_iff)
qed

text \<open>
  C21: Once a preparation has been claimed with a new token, and as long as no later claim draws the old
  token again, the old token changes nothing, whatever happens in between: abandoning and renewing
  answer false, a claim fails, and a report of readiness or failure leaves the tables as they are.
\<close>

theorem stale_preparation_powerless:
  assumes "studio_reachable db"
    and "claimSwiftStudioSessionPreparation now fresh ns i token grace db = Inr (db1, v, True)" "fresh \<noteq> token"
    and "run_without token db1 db2"
  shows "abandonSwiftStudioSessionPreparation later ns i token db2 = Inr (db2, False)
    \<and> renewSwiftStudioSessionPreparation later ns i token db2 = Inr (db2, False)
    \<and> (\<forall>op db3. prepares_with i token op \<and> studio_exec op db2 = Inr db3 \<longrightarrow> db3 = db2)"
proof -
  have "taken_over i token db2"
    using claim_takes_over [OF assms(2) studio_reachable_ok [OF assms(1)] assms(3)] assms(4) by (rule run_without_taken_over [rotated])
  moreover have "validate_preparation ns i token = Inr ()"
    using assms(2) unfolding claimSwiftStudioSessionPreparation_def by (auto simp: result_simps)
  ultimately show ?thesis
    using taken_over_powerless
    by (auto simp: abandonSwiftStudioSessionPreparation_def renewSwiftStudioSessionPreparation_def prepared_by_none one_updated_def)
qed

definition ex_claimed :: studio_session where
  "ex_claimed = ex_preparing\<lparr>ss_preparation_owner_token := ex_uuid 0x64, ss_preparation_abandoned_at := None,
     ss_preparation_expires_at := 10 + 2 * PREPARATION_INTERVAL, ss_updated_at := 10 + PREPARATION_INTERVAL\<rparr>"

lemma ex_claimed_ok: "session_check ex_claimed" "sqlRowToSwiftStudioSession ex_claimed = Inr \<lparr>sv_row = ex_claimed, sv_failure = None\<rparr>"
proof -
  show "session_check ex_claimed"
    using ex_session_checks(1)
    by (simp add: session_check_def session_checks ex_claimed_def ex_preparing_def new_session_def at_least_def PREPARATION_INTERVAL_def)
  have "create_of_row ex_claimed = ex_create" by (simp add: create_of_row_def ex_claimed_def ex_preparing_def new_session_def)
  then have "session_row_valid ex_claimed = Inr ()"
    by (simp add: session_row_valid_def ex_create_ok ex_uuid_ok ex_hex validateSwiftStudioSessionId_def
        validateSwiftStudioSessionPreparationOwnerToken_def ex_claimed_def ex_preparing_def new_session_def PREPARATION_INTERVAL_def)
  then show "sqlRowToSwiftStudioSession ex_claimed = Inr \<lparr>sv_row = ex_claimed, sv_failure = None\<rparr>"
    using ex_session_rows(1)
    by (auto simp: sqlRowToSwiftStudioSession_def result_simps revalidate_def ex_claimed_def ex_preparing_def new_session_def
        split: sum.splits)
qed

lemma ex_claim:
  "claimSwiftStudioSessionPreparation (10 + PREPARATION_INTERVAL) (ex_uuid 0x64) (ex_uuid 0x61) (ex_uuid 0x62) (ex_uuid 0x63) 0
     (ex_studio [ex_preparing] [] []) = Inr (ex_studio [ex_claimed] [] [], Some \<lparr>sv_row = ex_claimed, sv_failure = None\<rparr>, True)"
proof -
  have "validate_preparation (ex_uuid 0x61) (ex_uuid 0x62) (ex_uuid 0x63) = Inr ()"
    by (simp add: validate_preparation_def validateNamespaceId_def validateSwiftStudioSessionId_def
        validateSwiftStudioSessionPreparationOwnerToken_def ex_uuid_ok ex_hex)
  moreover have "validateSwiftStudioSessionPreparationAbandonGrace 0 = Inr ()"
    by (simp add: validateSwiftStudioSessionPreparationAbandonGrace_def is_safe_integer_def MAX_SWIFT_PREPARATION_ABANDON_GRACE_MS_def)
  moreover have "may_claim (10 + PREPARATION_INTERVAL) 0 ex_preparing"
    by (simp add: may_claim_def ex_preparing_def new_session_def)
  moreover have "ex_preparing\<lparr>ss_preparation_owner_token := ex_uuid 0x64, ss_preparation_abandoned_at := None,
     ss_preparation_expires_at := 10 + PREPARATION_INTERVAL + PREPARATION_INTERVAL, ss_updated_at := 10 + PREPARATION_INTERVAL\<rparr> = ex_claimed"
    by (simp add: ex_claimed_def)
  ultimately show ?thesis
    by (simp add: claimSwiftStudioSessionPreparation_def update_sessions_def returning_def update_where_def ex_studio_def
        prepared_by_def ex_preparing_fields one_session_def ex_claimed_ok)
qed

lemma stale_preparation_powerless_witness:
  "renewSwiftStudioSessionPreparation 99 (ex_uuid 0x61) (ex_uuid 0x62) (ex_uuid 0x63) (ex_studio [ex_claimed] [] [])
    = Inr (ex_studio [ex_claimed] [] [], False)"
proof -
  have "ex_uuid 0x64 \<noteq> ex_uuid 0x63" by (simp add: ex_uuid_def)
  from stale_preparation_powerless [OF ex_reachable(1) ex_claim this run_without.stop] show ?thesis by blast
qed

section \<open>Completions\<close>

lemma found_after_completion:
  assumes "finalize_import now artifactId ns i locator v db = Inr (db1, w, r)" "studio_ok db"
    and found: "find_import db ns i = [iv_row v]" "ai_status (iv_row v) = FinalizingImport"
  shows "find_import db1 ns i = [iv_row w] \<and> sqlRowToModelArtifactImport (iv_row w) = Inr w
    \<and> ai_status (iv_row w) = CompletedImport \<and> ai_artifact_id (iv_row w) = Some (ma_id r)
    \<and> r \<in> set (sd_artifacts db1) \<and> ma_namespace_id r = ns \<and> ma_object_locator r = locator \<and> sqlRowToModelArtifact r = Inr r"
  using assms
proof (rule finalize_import_result)
  let ?f = "completed_import now r" and ?p = "import_at ns i {FinalizingImport}"
  assume r: "ma_object_locator r = locator" "sqlRowToModelArtifact r = Inr r" "product_of (?f (iv_row v)) r"
    and w: "iv_row w = ?f (iv_row v)" "sqlRowToModelArtifactImport (iv_row w) = Inr w"
    and update: "update_imports ?p ?f (db\<lparr>sd_artifacts := sd_artifacts db @ [r]\<rparr>) = Inr (db1, [iv_row w])"
  have v: "iv_row v \<in> set (sd_imports db)" "ai_namespace_id (iv_row v) = ns" "ai_id (iv_row v) = i"
    using select_where_mem [OF found(1) [unfolded find_import_def]] by auto
  have db1: "sd_imports db1 = update_where ?p ?f (sd_imports db)" "sd_artifacts db1 = sd_artifacts db @ [r]"
    using update by (simp_all add: update_imports_Inr)
  have "studio_ok db1" by (rule finalize_import_ok [OF assms])
  moreover have "iv_row w \<in> set (sd_imports db1)"
    using v found(2) w(1) by (auto simp: db1 set_update_where import_at_def)
  ultimately have "find_import db1 ns i = [iv_row w]"
    unfolding find_import_def using v w(1)
    by (intro select_one [where key = ai_id]) (auto simp: studio_ok_def import_ids completed_import_def)
  then show ?thesis using r w v(2) by (simp add: db1 product_of_def completed_import_def)
qed

lemma completed_result:
  assumes "finalizeModelArtifactImport now artifactId ns i locator db = Inr (db1, Some (v, r))" "studio_ok db"
  shows "find_import db1 ns i = [iv_row v] \<and> sqlRowToModelArtifactImport (iv_row v) = Inr v
    \<and> ai_status (iv_row v) = CompletedImport \<and> ai_artifact_id (iv_row v) = Some (ma_id r)
    \<and> r \<in> set (sd_artifacts db1) \<and> ma_namespace_id r = ns \<and> ma_object_locator r = locator \<and> sqlRowToModelArtifact r = Inr r"
proof -
  obtain u where found: "one_import (find_import db ns i) = Inr (Some u)"
    and split: "if ai_status (iv_row u) = CompletedImport then completed_replay ns locator u db = Inr (v, r) \<and> db1 = db
      else ai_status (iv_row u) = FinalizingImport \<and> finalize_import now artifactId ns i locator u db = Inr (db1, v, r)"
    using assms(1) unfolding finalizeModelArtifactImport_def by (auto simp: result_simps split: option.splits if_splits)
  from found have u: "find_import db ns i = [iv_row u]" "sqlRowToModelArtifactImport (iv_row u) = Inr u"
    by (auto simp: one_import_Some dest: import_view_row)
  show ?thesis
  proof (cases "ai_status (iv_row u) = CompletedImport")
    case True
    with split have "completed_replay ns locator u db = Inr (v, r)" "db1 = db" by simp_all
    then obtain row where row: "select_where (\<lambda>a. ma_namespace_id a = ns \<and> Some (ma_id a) = ai_artifact_id (iv_row u)) (sd_artifacts db) = [row]"
      "sqlRowToModelArtifact row = Inr r" "ma_object_locator r = locator" "v = u"
      unfolding completed_replay_def by (auto simp: result_simps)
    moreover have "r = row" using row(2) by (rule artifact_view_row)
    ultimately show ?thesis
      using u True \<open>db1 = db\<close> select_where_mem [OF row(1)] by auto
  next
    case False
    with split have "finalize_import now artifactId ns i locator u db = Inr (db1, v, r)" "ai_status (iv_row u) = FinalizingImport"
      by simp_all
    then show ?thesis using found_after_completion assms(2) u(1) by blast
  qed
qed

lemma readable_artifact_id: "sqlRowToModelArtifact r = Inr r \<Longrightarrow> UUID (ma_id r)"
  by (auto simp: sqlRowToModelArtifact_def artifact_row_valid_def validateModelArtifactId_def revalidate_def result_simps
      split: sum.splits)

text \<open>
  C22: A completion can be repeated: the same request returns the same import and artifact and changes
  nothing, both can be read, and a request that names another object is refused.
\<close>

theorem completion_replays:
  assumes "studio_reachable db" "finalizeModelArtifactImport now artifactId ns i locator db = Inr (db1, Some (v, r))"
  shows "finalizeModelArtifactImport later otherId ns i locator db1 = Inr (db1, Some (v, r))
    \<and> getModelArtifactImport ns i db1 = Inr (Some v) \<and> getModelArtifact ns (ma_id r) db1 = Inr (Some r)
    \<and> (other \<noteq> locator \<and> MODEL_ARTIFACT_OBJECT_LOCATOR other \<longrightarrow>
         finalizeModelArtifactImport later otherId ns i other db1
           = Inl (ImportConflictError ImportBodyMismatch i CompletedImport (Some CompletedImport)))"
proof -
  have ok: "studio_ok db" using assms(1) by (rule studio_reachable_ok)
  have "studio_ok db1" using assms(2) ok by (rule finalize_ok)
  then have ids: "distinct (map ma_id (sd_artifacts db1))" by (simp add: studio_ok_def artifacts_ok_def)
  note result = completed_result [OF assms(2) ok]
  have "select_where (\<lambda>a. ma_namespace_id a = ns \<and> Some (ma_id a) = ai_artifact_id (iv_row v)) (sd_artifacts db1) = [r]"
    "select_where (\<lambda>a. ma_namespace_id a = ns \<and> ma_id a = ma_id r) (sd_artifacts db1) = [r]"
    using result by (auto intro!: select_one [OF ids])
  moreover have "one_import (find_import db1 ns i) = Inr (Some v)" "ai_id (iv_row v) = i"
    using result select_where_mem [of _ "sd_imports db1" "iv_row v"] by (auto simp: one_import_Some find_import_def)
  moreover have "validateNamespaceId ns = Inr ()" "validateModelArtifactImportId i = Inr ()" "MODEL_ARTIFACT_OBJECT_LOCATOR locator"
    using assms(2) unfolding finalizeModelArtifactImport_def validateFinalizeModelArtifactImport_def by (auto simp: result_simps)
  moreover have "validateModelArtifactId (ma_id r) = Inr ()"
    using result readable_artifact_id by (simp add: validateModelArtifactId_def)
  moreover have "ai_status (iv_row v) = CompletedImport" "sqlRowToModelArtifact r = Inr r" "ma_object_locator r = locator"
    using result by simp_all
  ultimately show ?thesis
    by (simp add: finalizeModelArtifactImport_def validateFinalizeModelArtifactImport_def completed_replay_def exactly_one_def
        getModelArtifactImport_def getModelArtifact_def import_conflict_error_def ensure_def)
qed

lemma completion_replays_witness:
  "finalizeModelArtifactImport 70 (ex_uuid 0x62) (ex_uuid 0x61) (ex_uuid 0x64) ex_locator (ex_studio [ex_ready] [ex_completed] [ex_artifact])
    = Inr (ex_studio [ex_ready] [ex_completed] [ex_artifact], Some (\<lparr>iv_row = ex_completed, iv_failure = None\<rparr>, ex_artifact))"
  using completion_replays [OF ex_reachable(2) ex_finalize] by blast

section \<open>Failures of a preparation\<close>

definition credential_in :: "failure_report \<Rightarrow> bool" where
  "credential_in failure \<longleftrightarrow> list_ex (db_credential True) [fr_phase failure, fr_code failure, fr_message failure]"

lemma encode_utf8_eq_Nil: "encode_utf8 s = [] \<longleftrightarrow> s = []"
proof
  have "utf8_units n \<noteq> []" for n by (simp add: utf8_units_def)
  then have "encode_utf8 s = [] \<Longrightarrow> scalar_values s = []" by (cases "scalar_values s") (simp_all add: encode_utf8_def)
  then show "encode_utf8 s = [] \<Longrightarrow> s = []" by (simp add: scalar_values_Nil)
qed (simp add: encode_utf8_def)

lemma failure_json_check:
  assumes "validateSwiftStudioSessionFailure failure = Inr ()"
  shows "failure_check True (failure_json failure) \<longleftrightarrow> \<not> credential_in failure"
proof -
  have "fr_message failure \<noteq> [] \<Longrightarrow> 1 \<le> byte_length (fr_message failure)"
    by (simp add: byte_length_def Suc_le_eq encode_utf8_eq_Nil)
  then show ?thesis
    using assms by (auto simp: validateSwiftStudioSessionFailure_def result_simps failure_check_def failure_json_def credential_in_def)
qed

lemma failure_json_read:
  assumes "validateSwiftStudioSessionFailure failure = Inr ()"
  shows "parseStoredSwiftStudioSessionFailure (Some (failure_json failure)) = Inr (Some failure)"
  using assms by (cases failure) (simp add: parseStoredSwiftStudioSessionFailure_def failure_json_def revalidate_def)

lemma failed_row_check:
  assumes "session_check r" "ss_status r = Preparing" "validateSwiftStudioSessionFailure failure = Inr ()"
  shows "session_check (transition_row now (ToFailed owner failure) r) \<longleftrightarrow> \<not> credential_in failure"
  using assms(1,2)
  by (auto simp: session_check_def session_checks failure_json_check [OF assms(3)] is_started_def at_least_def split: option.splits)

lemma failed_row_read:
  assumes "sqlRowToSwiftStudioSession r = Inr w" "ss_status r = Preparing" "validateSwiftStudioSessionFailure failure = Inr ()"
  shows "sqlRowToSwiftStudioSession (transition_row now (ToFailed owner failure) r)
    = Inr \<lparr>sv_row = transition_row now (ToFailed owner failure) r, sv_failure = Some failure\<rparr>"
  using assms(1,2) failure_json_read [OF assms(3)]
  by (auto simp: sqlRowToSwiftStudioSession_def result_simps revalidate_def session_row_valid_def create_of_row_def is_started_def
      split: sum.splits)


definition ex_failure :: failure_report where
  "ex_failure = \<lparr>fr_phase = js ''start'', fr_code = js ''disk-pressure'', fr_message = js ''full''\<rparr>"

lemma ex_failure_ok: "validateSwiftStudioSessionFailure ex_failure = Inr ()" "credential_in ex_failure"
proof -
  have "SAFE_EVALUATION_NAME (js ''start'')" "SAFE_EVALUATION_NAME (js ''disk-pressure'')" "byte_length (js ''full'') = 4" by code_simp+
  moreover have "plain_text (js ''full'')" by (simp add: plain_text_def harmless_unit_def innocent_def is_control_def)
  ultimately show "validateSwiftStudioSessionFailure ex_failure = Inr ()"
    by (simp add: validateSwiftStudioSessionFailure_def ex_failure_def plain_text_ok del: js_simps) simp
  show "credential_in ex_failure" using credential_examples(2) by (simp add: credential_in_def ex_failure_def del: js_simps)
qed


end
