(* ===== verification/Evaluation_Schema.thy ===== *)
theory Evaluation_Schema
  imports Import_Schema
begin

text \<open>
  The table of evaluation runs of migrations 0010, 0013, 0014 and 0019. A run measures a model on a
  dataset; when it has completed, its result can be archived, in numbered attempts. The tables of the
  model registry that a run refers to are read only: deployments, model versions and evidence.
\<close>

section \<open>Rows\<close>

datatype create_profile = CreateV1 | CreateV2 | CreateV3 | CreateV4 | CreateV5 | CreateV6
datatype source_mutability = ImmutableSource | MutableSource | UnknownSource
datatype verification_level = ContentVerified | ProviderVerified | OperatorAttested | Unverified
datatype run_status = PreparedRun | RunningRun | CompletedRun | FailedRun | CancelledRun
datatype archive_status = NotRequested | PendingArchive | UploadingArchive | AvailableArchive | FailedArchive

record evaluation_run =
  er_id :: js_string
  er_namespace_id :: js_string
  er_provider :: js_string
  er_provider_task_id :: js_string
  er_create_profile :: create_profile
  er_create_request_digest :: js_string
  er_provider_report_ids :: "json option"
  er_dataset_version :: js_string
  er_source_ref :: "js_string option"
  er_converter :: js_string
  er_converter_version :: js_string
  er_converter_options :: json
  er_fidelity_digest :: js_string
  er_benchmark :: js_string
  er_model_name :: "js_string option"
  er_model_deployment_id :: "js_string option"
  er_model_artifact_id :: "js_string option"
  er_model_deployment_digest :: "js_string option"
  er_model_id :: "js_string option"
  er_model_version_id :: "js_string option"
  er_source_mutability :: "source_mutability option"
  er_verification_level :: "verification_level option"
  er_source_evidence_digest :: "js_string option"
  er_source_observed_at :: "int option"
  er_evalscope_commit :: "js_string option"
  er_scoring_config :: "json option"
  er_primary_metric_id :: "js_string option"
  er_primary_output_key :: "js_string option"
  er_status :: run_status
  er_metrics :: "json option"
  er_error :: "json option"
  er_archive_status :: archive_status
  er_archive_attempt :: int
  er_result_artifact_key :: "js_string option"
  er_result_artifact_digest :: "js_string option"
  er_result_artifact_size_bytes :: "int option"
  er_archive_error :: "json option"
  er_created_at :: int
  er_started_at :: "int option"
  er_finished_at :: "int option"
  er_updated_at :: int

datatype deployment_profile = ArtifactBound | ModelVersionBound

text \<open>The columns that are read of a deployment and of a model version.\<close>

record deployment_row =
  dp_id :: js_string
  dp_namespace_id :: js_string
  dp_profile :: deployment_profile
  dp_create_digest :: js_string
  dp_artifact_id :: "js_string option"
  dp_model_version_id :: "js_string option"
  dp_served_model_name :: js_string
  dp_active :: bool

record version_row =
  mv_namespace_id :: js_string
  mv_model_id :: js_string
  mv_id :: js_string
  mv_databench_artifact :: bool

record registry =
  rg_deployments :: "deployment_row list"
  rg_versions :: "version_row list"
  rg_evidence :: "(js_string \<times> js_string \<times> js_string) list"

record eval_db =
  ed_catalog :: catalog_db
  ed_registry :: registry
  ed_runs :: "evaluation_run list"

definition is_finished :: "run_status \<Rightarrow> bool" where
  "is_finished s \<longleftrightarrow> s \<in> {CompletedRun, FailedRun, CancelledRun}"

definition has_deployment_profile :: "create_profile \<Rightarrow> bool" where
  "has_deployment_profile p \<longleftrightarrow> p \<in> {CreateV2, CreateV4, CreateV5, CreateV6}"

definition is_legacy_profile :: "create_profile \<Rightarrow> bool" where
  "is_legacy_profile p \<longleftrightarrow> p \<in> {CreateV2, CreateV4}"

definition is_version_profile :: "create_profile \<Rightarrow> bool" where
  "is_version_profile p \<longleftrightarrow> p \<in> {CreateV5, CreateV6}"

definition is_metric_profile :: "create_profile \<Rightarrow> bool" where
  "is_metric_profile p \<longleftrightarrow> p \<in> {CreateV3, CreateV4, CreateV6}"

section \<open>The size of JSON columns\<close>

text \<open>
  The length of a column cast to text: a number is printed without an exponent, a colon and a comma are
  followed by a space, and a text is escaped as \<open>JSON.stringify\<close> escapes it.
\<close>

fun numeric_octets :: "js_number \<Rightarrow> nat" where
  "numeric_octets (Finite neg s e) =
     (if s = 0 then 1
      else (if neg then 1 else 0) + (let digits = length (nat_to_string s) in
        if 0 \<le> e then digits + nat e
        else if nat (- e) < digits then digits + 1 else nat (- e) + 2))"
| "numeric_octets _ = 4"

fun jsonb_octets :: "json \<Rightarrow> nat" where
  "jsonb_octets JNull = 4"
| "jsonb_octets (JBool b) = (if b then 4 else 5)"
| "jsonb_octets (JNumber x) = numeric_octets x"
| "jsonb_octets (JString s) = byte_length (json_quote s)"
| "jsonb_octets (JArray xs) = 2 + sum_list (map jsonb_octets xs) + 2 * (length xs - 1)"
| "jsonb_octets (JObject kvs) = 2 + sum_list (map (\<lambda>(key, v). byte_length (json_quote key) + 2 + jsonb_octets v) kvs)
     + 2 * (length kvs - 1)"

declare jsonb_octets.simps [simp del]

section \<open>Constraints on what a run is\<close>

definition run_identity_check :: "evaluation_run \<Rightarrow> bool" where
  "run_identity_check r \<longleftrightarrow> er_provider r = js ''evalscope''
     \<and> 1 \<le> byte_length (er_provider_task_id r) \<and> byte_length (er_provider_task_id r) \<le> 256
     \<and> SWIFT_PROVIDER_SESSION_ID (er_provider_task_id r)
     \<and> EXACT_VERSION (er_create_request_digest r) \<and> EXACT_VERSION (er_dataset_version r)
     \<and> EXACT_VERSION (er_fidelity_digest r) \<and> null_or EXACT_VERSION (er_result_artifact_digest r)
     \<and> null_or ref_name_ok (er_source_ref r)
     \<and> SAFE_EVALUATION_NAME (er_converter r) \<and> SAFE_WORKER_VERSION (er_converter_version r)
     \<and> SAFE_EVALUATION_NAME (er_benchmark r)
     \<and> null_or (\<lambda>m. 1 \<le> byte_length m \<and> byte_length m \<le> 512 \<and> \<not> hasControlCharacter m) (er_model_name r)
     \<and> null_or GIT_COMMIT (er_evalscope_commit r)"

definition run_deployment_check :: "evaluation_run \<Rightarrow> bool" where
  "run_deployment_check r \<longleftrightarrow>
     (if has_deployment_profile (er_create_profile r)
      then er_model_deployment_id r \<noteq> None \<and> er_model_deployment_digest r \<noteq> None
        \<and> (is_legacy_profile (er_create_profile r) \<longrightarrow> er_model_artifact_id r \<noteq> None)
      else er_model_deployment_id r = None \<and> er_model_artifact_id r = None \<and> er_model_deployment_digest r = None)"

definition run_source_check :: "evaluation_run \<Rightarrow> bool" where
  "run_source_check r \<longleftrightarrow>
     (if is_version_profile (er_create_profile r)
      then er_model_id r \<noteq> None \<and> er_model_version_id r \<noteq> None \<and> er_source_mutability r \<noteq> None
        \<and> er_verification_level r \<noteq> None \<and> null_or EXACT_VERSION (er_source_evidence_digest r)
        \<and> (er_verification_level r \<noteq> Some ProviderVerified \<or> er_source_evidence_digest r \<noteq> None)
        \<and> er_source_observed_at r \<noteq> None
      else er_model_id r = None \<and> er_model_version_id r = None \<and> er_source_mutability r = None
        \<and> er_verification_level r = None \<and> er_source_evidence_digest r = None \<and> er_source_observed_at r = None)"

definition scoring_check :: "evaluation_run \<Rightarrow> json \<Rightarrow> js_string \<Rightarrow> js_string \<Rightarrow> bool" where
  "scoring_check r config metric_id output_key \<longleftrightarrow> is_json_object config \<and> jsonb_octets config \<le> 65536
     \<and> SAFE_EVALUATION_NAME metric_id \<and> 1 \<le> byte_length output_key \<and> byte_length output_key \<le> 128
     \<and> \<not> hasControlCharacter output_key
     \<and> equal_or_unknown (db_text config ''primary_metric_id'') (Some metric_id)
     \<and> equal_or_unknown (db_text config ''primary_output_key'') (Some output_key)
     \<and> equal_or_unknown (db_text config ''benchmark'') (Some (er_benchmark r))
     \<and> equal_or_unknown (db_text config ''evalscope_commit'') (er_evalscope_commit r)
     \<and> \<not> some_text (db_credential True) config"

definition run_scoring_check :: "evaluation_run \<Rightarrow> bool" where
  "run_scoring_check r \<longleftrightarrow>
     (case (er_scoring_config r, er_primary_metric_id r, er_primary_output_key r) of
        (Some config, Some metric_id, Some output_key) \<Rightarrow>
          is_metric_profile (er_create_profile r) \<and> scoring_check r config metric_id output_key
      | (None, None, None) \<Rightarrow> \<not> is_metric_profile (er_create_profile r)
      | _ \<Rightarrow> False)"

section \<open>Constraints on what a run has come to\<close>

definition whole_secret_key :: "js_string \<Rightarrow> bool" where
  "whole_secret_key s \<longleftrightarrow> starts_with_ci (js ''sk-'') s \<and> 8 \<le> length (drop 3 s) \<and> list_all is_key_unit (drop 3 s)"

definition report_id_check :: "json \<Rightarrow> bool" where
  "report_id_check v = (case v of
     JString s \<Rightarrow> matches_name is_alnum is_session_unit 511 s \<and> \<not> whole_secret_key s | _ \<Rightarrow> False)"

definition report_ids_check :: "json \<Rightarrow> bool" where
  "report_ids_check v = (case v of JArray xs \<Rightarrow> length xs \<le> 32 \<and> jsonb_octets v \<le> 16512 \<and> list_all report_id_check xs | _ \<Rightarrow> False)"

definition is_text :: "json option \<Rightarrow> bool" where
  "is_text v = (case v of Some (JString s) \<Rightarrow> True | _ \<Rightarrow> False)"

definition is_number :: "json option \<Rightarrow> bool" where
  "is_number v = (case v of Some (JNumber x) \<Rightarrow> True | _ \<Rightarrow> False)"

definition metric_keys :: "string list" where
  "metric_keys = [''dataset'', ''subset'', ''metric_id'', ''output_key'', ''metric'', ''score'', ''sample_count'', ''categories'']"

definition metric_check :: "json \<Rightarrow> bool" where
  "metric_check v = (case v of
     JObject kvs \<Rightarrow> list_all (\<lambda>(key, _). key \<in> set (map js metric_keys)) kvs
       \<and> is_text (json_field v ''dataset'')
       \<and> (is_text (json_field v ''subset'') \<or> json_field v ''subset'' = Some JNull)
       \<and> is_text (json_field v ''metric'')
       \<and> (is_number (json_field v ''score'') \<or> json_field v ''score'' = Some JNull)
       \<and> (is_number (json_field v ''sample_count'') \<or> json_field v ''sample_count'' = Some JNull)
       \<and> (case json_field v ''categories'' of Some (JArray cs) \<Rightarrow> list_all (\<lambda>c. is_text (Some c)) cs | _ \<Rightarrow> False)
       \<and> (json_field v ''metric_id'' = None \<and> json_field v ''output_key'' = None
          \<or> json_field v ''metric_id'' = Some JNull \<and> json_field v ''output_key'' = Some JNull
          \<or> is_text (json_field v ''metric_id'') \<and> is_text (json_field v ''output_key''))
   | _ \<Rightarrow> False)"

definition metrics_check :: "json \<Rightarrow> bool" where
  "metrics_check v = (case v of
     JArray xs \<Rightarrow> length xs \<le> 10000 \<and> jsonb_octets v \<le> 9437184 \<and> list_all metric_check xs \<and> \<not> some_text (db_credential True) v
   | _ \<Rightarrow> False)"

text \<open>A member that is missing makes a comparison with it unknown, which a constraint lets pass.\<close>

definition error_check :: "json \<Rightarrow> bool" where
  "error_check v = (case v of
     JObject kvs \<Rightarrow> jsonb_octets v \<le> 4096 \<and> list_all (\<lambda>(key, w). key \<in> set (map js [''phase'', ''code'', ''message''])
       \<and> (case w of JString s \<Rightarrow> \<not> db_credential True s | _ \<Rightarrow> False)) kvs
   | _ \<Rightarrow> False)"

definition run_json_check :: "evaluation_run \<Rightarrow> bool" where
  "run_json_check r \<longleftrightarrow> is_json_object (er_converter_options r) \<and> jsonb_octets (er_converter_options r) \<le> 65536
     \<and> null_or report_ids_check (er_provider_report_ids r)
     \<and> null_or metrics_check (er_metrics r) \<and> null_or error_check (er_error r) \<and> null_or (\<lambda>v. is_json_object v \<and> jsonb_octets v \<le> 4096) (er_archive_error r)"

definition run_execution_check :: "evaluation_run \<Rightarrow> bool" where
  "run_execution_check r \<longleftrightarrow>
     is_finished (er_status r) = (er_finished_at r \<noteq> None)
   \<and> (er_status r \<in> {RunningRun, CompletedRun} \<longrightarrow> er_started_at r \<noteq> None)
   \<and> (er_status r = CompletedRun) = (er_metrics r \<noteq> None \<and> er_provider_report_ids r \<noteq> None)
   \<and> (er_status r \<in> {FailedRun, CancelledRun}) = (er_error r \<noteq> None)"

text \<open>The attempt is a 32-bit integer, the size a 64-bit one.\<close>

definition run_archive_check :: "evaluation_run \<Rightarrow> bool" where
  "run_archive_check r \<longleftrightarrow> 0 \<le> er_archive_attempt r \<and> er_archive_attempt r \<le> POSTGRES_INTEGER_MAX
   \<and> (case (er_result_artifact_key r, er_result_artifact_digest r, er_result_artifact_size_bytes r) of
        (None, None, None) \<Rightarrow> True
      | (Some key, Some digest, Some bytes) \<Rightarrow> 1 \<le> byte_length key \<and> byte_length key \<le> 2048 \<and> 0 \<le> bytes
      | _ \<Rightarrow> False)
   \<and> (er_archive_status r = AvailableArchive) = (er_result_artifact_key r \<noteq> None)
   \<and> (er_archive_status r = FailedArchive) = (er_archive_error r \<noteq> None)"

definition eval_check :: "evaluation_run \<Rightarrow> bool" where
  "eval_check r \<longleftrightarrow> run_identity_check r \<and> run_deployment_check r \<and> run_source_check r \<and> run_scoring_check r
     \<and> run_json_check r \<and> run_execution_check r \<and> run_archive_check r"

section \<open>Keys\<close>

definition run_task :: "evaluation_run \<Rightarrow> js_string \<times> js_string \<times> js_string" where
  "run_task r = (er_namespace_id r, er_provider r, er_provider_task_id r)"

definition task_conflict :: "evaluation_run \<Rightarrow> evaluation_run \<Rightarrow> bool" where
  "task_conflict r s \<longleftrightarrow> run_task r = run_task s"

interpretation task_table: unique_key run_task task_conflict
  by unfold_locales (simp add: task_conflict_def)

text \<open>A foreign key with a column that is null is not tested.\<close>

definition deployment_key :: "evaluation_run \<Rightarrow> deployment_row \<Rightarrow> bool" where
  "deployment_key r d \<longleftrightarrow> dp_namespace_id d = er_namespace_id r \<and> er_model_deployment_id r = Some (dp_id d)
     \<and> er_model_deployment_digest r = Some (dp_create_digest d)"

definition evaluation_fks :: "eval_db \<Rightarrow> evaluation_run \<Rightarrow> bool" where
  "evaluation_fks db r \<longleftrightarrow> find_namespace (ed_catalog db) (er_namespace_id r) \<noteq> None
     \<and> find_snapshot (ed_catalog db) (er_dataset_version r) \<noteq> None
     \<and> (er_model_deployment_id r \<noteq> None \<and> er_model_deployment_digest r \<noteq> None \<and> er_model_artifact_id r \<noteq> None \<longrightarrow>
         list_ex (\<lambda>d. deployment_key r d \<and> dp_artifact_id d = er_model_artifact_id r) (rg_deployments (ed_registry db)))
     \<and> (er_model_deployment_id r \<noteq> None \<and> er_model_deployment_digest r \<noteq> None \<and> er_model_version_id r \<noteq> None \<longrightarrow>
         list_ex (\<lambda>d. deployment_key r d \<and> dp_model_version_id d = er_model_version_id r) (rg_deployments (ed_registry db)))
     \<and> (er_model_id r \<noteq> None \<and> er_model_version_id r \<noteq> None \<longrightarrow>
         list_ex (\<lambda>v. mv_namespace_id v = er_namespace_id r \<and> er_model_id r = Some (mv_model_id v)
           \<and> er_model_version_id r = Some (mv_id v)) (rg_versions (ed_registry db)))
     \<and> (er_model_version_id r \<noteq> None \<and> er_source_evidence_digest r \<noteq> None \<longrightarrow>
         list_ex (\<lambda>(ns, version, digest). ns = er_namespace_id r \<and> er_model_version_id r = Some version
           \<and> er_source_evidence_digest r = Some digest) (rg_evidence (ed_registry db)))"

text \<open>The deferred trigger of migration 0019, which runs when the transaction commits.\<close>

definition source_binding_check :: "eval_db \<Rightarrow> evaluation_run \<Rightarrow> bool" where
  "source_binding_check db r \<longleftrightarrow> is_version_profile (er_create_profile r) \<longrightarrow>
     (case find_first (\<lambda>v. mv_namespace_id v = er_namespace_id r \<and> er_model_id r = Some (mv_model_id v)
         \<and> er_model_version_id r = Some (mv_id v)) (rg_versions (ed_registry db)) of
        None \<Rightarrow> False
      | Some v \<Rightarrow>
          if mv_databench_artifact v
          then er_model_artifact_id r \<noteq> None \<and> er_source_mutability r = Some ImmutableSource
            \<and> er_verification_level r = Some ContentVerified \<and> er_source_evidence_digest r = None
          else er_model_artifact_id r = None \<and> er_verification_level r \<noteq> Some ContentVerified)"

section \<open>Statements\<close>

text \<open>\<open>ON CONFLICT ("namespace_id", "provider", "provider_task_id") DO NOTHING\<close>.\<close>

definition insert_run :: "evaluation_run \<Rightarrow> eval_db \<Rightarrow> (eval_db \<times> bool) catalog" where
  "insert_run row db =
     bindR (ensure (eval_check row) CheckViolation) (\<lambda>_.
     let (rows, inserted) = insert_on_conflict_do_nothing task_conflict row (ed_runs db)
     in bindR (ensure (inserted \<longrightarrow> \<not> list_ex (\<lambda>r. er_id r = er_id row) (ed_runs db)) UniqueViolation) (\<lambda>_.
        bindR (ensure (inserted \<longrightarrow> evaluation_fks db row) ForeignKeyViolation) (\<lambda>_.
        Inr (db\<lparr>ed_runs := rows\<rparr>, inserted))))"

text \<open>\<open>UPDATE\<close> of runs; no update changes a key or a column of a foreign key.\<close>

definition update_runs :: "(evaluation_run \<Rightarrow> bool) \<Rightarrow> (evaluation_run \<Rightarrow> evaluation_run) \<Rightarrow> eval_db
    \<Rightarrow> (eval_db \<times> evaluation_run list) catalog" where
  "update_runs p f db =
     bindR (ensure (list_all eval_check (returning p f (ed_runs db))) CheckViolation) (\<lambda>_.
     Inr (db\<lparr>ed_runs := update_where p f (ed_runs db)\<rparr>, returning p f (ed_runs db)))"

definition find_evaluation_run :: "eval_db \<Rightarrow> js_string \<Rightarrow> js_string \<Rightarrow> evaluation_run list" where
  "find_evaluation_run db namespaceId i = select_where (\<lambda>r. er_namespace_id r = namespaceId \<and> er_id r = i) (ed_runs db)"

end
