(* ===== verification/Evaluation_Runs.thy ===== *)
theory Evaluation_Runs
  imports Studio_Sessions Evaluation_Schema
begin

text \<open>
  Evaluation runs of \<open>packages/catalog/src/v2/catalog.ts\<close>. A run is prepared for a task of the
  provider, runs, and completes with metrics, fails or is cancelled; the result of a completed run is
  archived in attempts, and only the current attempt may report. Each operation is a function of its
  arguments, of one clock reading \<open>now\<close> and of the database; the identifier that \<open>randomUUID\<close> draws is
  an argument.
\<close>

section \<open>Texts, metrics and errors\<close>

definition MAX_EVALUATION_OPTIONS_BYTES :: nat where "MAX_EVALUATION_OPTIONS_BYTES = 64 * 1024"
definition MAX_EVALUATION_METRICS :: nat where "MAX_EVALUATION_METRICS = 10000"
definition MAX_EVALUATION_METRICS_BYTES :: nat where "MAX_EVALUATION_METRICS_BYTES = 8 * 1024 * 1024"
definition MAX_PROVIDER_REPORT_IDS :: nat where "MAX_PROVIDER_REPORT_IDS = 32"

definition PROVIDER_TASK_ID :: "js_string \<Rightarrow> bool" where
  "PROVIDER_TASK_ID s \<longleftrightarrow> matches_name is_alnum is_session_unit 255 s"

definition PROVIDER_REPORT_ID :: "js_string \<Rightarrow> bool" where
  "PROVIDER_REPORT_ID s \<longleftrightarrow> matches_name is_alnum is_session_unit 511 s"

definition SAFE_EVALUATION_VERSION :: "js_string \<Rightarrow> bool" where
  "SAFE_EVALUATION_VERSION s \<longleftrightarrow> matches_name (\<lambda>c. is_lower c \<or> is_digit c) is_name_tail 127 s"

definition text_ok :: "nat \<Rightarrow> js_string \<Rightarrow> bool" where
  "text_ok maxBytes value \<longleftrightarrow> \<not> (value = [] \<or> maxBytes < byte_length value \<or> hasControlCharacter value
     \<or> CREDENTIAL_VALUE value)"

definition validateEvaluationText :: "js_string \<Rightarrow> nat \<Rightarrow> unit catalog" where
  "validateEvaluationText value maxBytes = ensure (text_ok maxBytes value) InputError"

definition validateEvaluationError :: "failure_report \<Rightarrow> unit catalog" where
  "validateEvaluationError error =
     bindR (ensure (SAFE_EVALUATION_NAME (fr_phase error) \<and> SAFE_EVALUATION_NAME (fr_code error)) InputError) (\<lambda>_.
     validateEvaluationText (fr_message error) 2048)"

record evaluation_metric =
  me_dataset :: js_string
  me_subset :: "js_string option"
  me_metric_id :: "js_string option"
  me_output_key :: "js_string option"
  me_metric :: js_string
  me_score :: "js_number option"
  me_sample_count :: "js_number option"
  me_categories :: "js_string list"

definition of_number :: "js_number option \<Rightarrow> json" where
  "of_number x = (case x of None \<Rightarrow> JNull | Some n \<Rightarrow> JNumber n)"

text \<open>\<open>JSON.stringify(metrics)\<close> has the names of the TypeScript type.\<close>

definition metric_argument :: "evaluation_metric \<Rightarrow> json" where
  "metric_argument m = JObject [(js ''dataset'', JString (me_dataset m)), (js ''subset'', of_optional (me_subset m)),
     (js ''metricId'', of_optional (me_metric_id m)), (js ''outputKey'', of_optional (me_output_key m)),
     (js ''metric'', JString (me_metric m)), (js ''score'', of_number (me_score m)),
     (js ''sampleCount'', of_number (me_sample_count m)), (js ''categories'', JArray (map JString (me_categories m)))]"

text \<open>The identity of a scored output; neither part holds the unit 0 that separates them.\<close>

fun scored_output :: "evaluation_metric \<Rightarrow> js_string list" where
  "scored_output m = (case (me_metric_id m, me_output_key m, me_score m) of
     (Some metric_id, Some output_key, Some _) \<Rightarrow> [metric_id @ 0 # output_key] | _ \<Rightarrow> [])"

definition metric_ok :: "evaluation_metric \<Rightarrow> bool" where
  "metric_ok m \<longleftrightarrow> text_ok 512 (me_dataset m) \<and> null_or (text_ok 512) (me_subset m)
     \<and> (me_metric_id m = None) = (me_output_key m = None)
     \<and> null_or SAFE_EVALUATION_NAME (me_metric_id m) \<and> null_or (text_ok 128) (me_output_key m)
     \<and> text_ok 512 (me_metric m) \<and> null_or is_finite (me_score m) \<and> null_or is_size (me_sample_count m)
     \<and> length (me_categories m) \<le> 64 \<and> distinct (me_categories m) \<and> list_all (text_ok 128) (me_categories m)"

text \<open>Every test throws the same error, so their order does not matter.\<close>

definition validateEvaluationMetrics :: "evaluation_metric list \<Rightarrow> unit catalog" where
  "validateEvaluationMetrics metrics =
     bindR (ensure (length metrics \<le> MAX_EVALUATION_METRICS) InputError) (\<lambda>_.
     bindR (ensure (byte_length (json_stringify (JArray (map metric_argument metrics))) \<le> MAX_EVALUATION_METRICS_BYTES) InputError) (\<lambda>_.
     ensure (list_all metric_ok metrics \<and> distinct (concat (map scored_output metrics))) InputError))"

definition validateProviderReportIds :: "js_string list \<Rightarrow> unit catalog" where
  "validateProviderReportIds ids =
     bindR (ensure (length ids \<le> MAX_PROVIDER_REPORT_IDS \<and> distinct ids) InputError) (\<lambda>_.
     ensure (list_all (\<lambda>i. PROVIDER_REPORT_ID i \<and> byte_length i \<le> 512 \<and> \<not> CREDENTIAL_VALUE i) ids) InputError)"

section \<open>Requests\<close>

record create_run =
  cr_namespace_id :: js_string
  cr_provider :: js_string
  cr_provider_task_id :: js_string
  cr_create_profile :: create_profile
  cr_create_request_digest :: js_string
  cr_dataset_version :: js_string
  cr_source_ref :: "js_string option"
  cr_converter :: js_string
  cr_converter_version :: js_string
  cr_converter_options :: json
  cr_fidelity_digest :: js_string
  cr_benchmark :: js_string
  cr_model_name :: "js_string option"
  cr_model_deployment_id :: "js_string option"
  cr_model_artifact_id :: "js_string option"
  cr_model_deployment_digest :: "js_string option"
  cr_model_id :: "js_string option"
  cr_model_version_id :: "js_string option"
  cr_source_mutability :: "source_mutability option"
  cr_verification_level :: "verification_level option"
  cr_source_evidence_digest :: "js_string option"
  cr_evalscope_commit :: "js_string option"
  cr_scoring_config :: "json option"
  cr_primary_metric_id :: "js_string option"
  cr_primary_output_key :: "js_string option"

definition deployment_binding_ok :: "create_run \<Rightarrow> bool" where
  "deployment_binding_ok input \<longleftrightarrow>
     (let hasDeployment = cr_model_deployment_id input \<noteq> None \<and> cr_model_deployment_digest input \<noteq> None
      in hasDeployment = (cr_model_deployment_id input \<noteq> None \<or> cr_model_deployment_digest input \<noteq> None)
       \<and> has_deployment_profile (cr_create_profile input) = hasDeployment
       \<and> (hasDeployment \<longrightarrow> null_or UUID (cr_model_deployment_id input) \<and> null_or EXACT_VERSION (cr_model_deployment_digest input)
            \<and> cr_model_name input \<noteq> None \<and> null_or UUID (cr_model_artifact_id input))
       \<and> \<not> (is_legacy_profile (cr_create_profile input) \<and> cr_model_artifact_id input = None))"

definition source_snapshot_ok :: "create_run \<Rightarrow> bool" where
  "source_snapshot_ok input \<longleftrightarrow>
     (let fields = [cr_model_id input \<noteq> None, cr_model_version_id input \<noteq> None, cr_source_mutability input \<noteq> None,
            cr_verification_level input \<noteq> None];
          versioned = is_version_profile (cr_create_profile input)
      in list_all id fields = list_ex id fields \<and> versioned = list_all id fields
       \<and> \<not> (\<not> versioned \<and> cr_source_evidence_digest input \<noteq> None)
       \<and> (versioned \<longrightarrow> null_or UUID (cr_model_id input) \<and> null_or UUID (cr_model_version_id input)
            \<and> null_or EXACT_VERSION (cr_source_evidence_digest input)
            \<and> \<not> (cr_verification_level input = Some ProviderVerified \<and> cr_source_evidence_digest input = None)))"

definition scoring_config_ok :: "create_run \<Rightarrow> json \<Rightarrow> bool" where
  "scoring_config_ok input config \<longleftrightarrow> cr_primary_metric_id input \<noteq> None \<and> cr_primary_output_key input \<noteq> None
     \<and> null_or SAFE_EVALUATION_NAME (cr_primary_metric_id input) \<and> null_or (text_ok 128) (cr_primary_output_key input)
     \<and> byte_length (json_stringify config) \<le> MAX_EVALUATION_OPTIONS_BYTES
     \<and> json_field config ''primary_metric_id'' = Some (of_optional (cr_primary_metric_id input))
     \<and> json_field config ''primary_output_key'' = Some (of_optional (cr_primary_output_key input))
     \<and> json_field config ''benchmark'' = Some (JString (cr_benchmark input))
     \<and> json_field config ''evalscope_commit'' = Some (of_optional (cr_evalscope_commit input))"

definition scoring_ok :: "create_run \<Rightarrow> bool" where
  "scoring_ok input \<longleftrightarrow>
     (let fields = [cr_scoring_config input \<noteq> None, cr_primary_metric_id input \<noteq> None, cr_primary_output_key input \<noteq> None]
      in list_all id fields = list_ex id fields \<and> is_metric_profile (cr_create_profile input) = list_all id fields
       \<and> null_or (scoring_config_ok input) (cr_scoring_config input))"

definition validateCreateEvaluationRun :: "create_run \<Rightarrow> unit catalog" where
  "validateCreateEvaluationRun input =
     bindR (validateNamespaceId (cr_namespace_id input)) (\<lambda>_.
     bindR (ensure (cr_provider input = js ''evalscope'') InputError) (\<lambda>_.
     bindR (ensure (PROVIDER_TASK_ID (cr_provider_task_id input)) InputError) (\<lambda>_.
     bindR (ensure (EXACT_VERSION (cr_create_request_digest input)) InputError) (\<lambda>_.
     bindR (ensure (deployment_binding_ok input) InputError) (\<lambda>_.
     bindR (ensure (source_snapshot_ok input) InputError) (\<lambda>_.
     bindR (ensure (EXACT_VERSION (cr_dataset_version input)) InputError) (\<lambda>_.
     bindR (ensure (null_or ref_name_ok (cr_source_ref input)) InputError) (\<lambda>_.
     bindR (ensure (SAFE_EVALUATION_NAME (cr_converter input)) InputError) (\<lambda>_.
     bindR (ensure (SAFE_EVALUATION_VERSION (cr_converter_version input)) InputError) (\<lambda>_.
     bindR (ensure (byte_length (json_stringify (cr_converter_options input)) \<le> MAX_EVALUATION_OPTIONS_BYTES) InputError) (\<lambda>_.
     bindR (ensure (EXACT_VERSION (cr_fidelity_digest input)) InputError) (\<lambda>_.
     bindR (ensure (SAFE_EVALUATION_NAME (cr_benchmark input)) InputError) (\<lambda>_.
     bindR (ensure (null_or (text_ok 512) (cr_model_name input)) InputError) (\<lambda>_.
     bindR (ensure (null_or GIT_COMMIT (cr_evalscope_commit input)) InputError) (\<lambda>_.
     ensure (scoring_ok input) InputError)))))))))))))))"

definition validateEvaluationRunId :: "js_string \<Rightarrow> unit catalog" where
  "validateEvaluationRunId value = ensure (UUID value) InputError"

text \<open>A request for a transition; its constructor is the status that is asked for.\<close>

datatype run_transition =
    ToRunning
  | ToCompleted "evaluation_metric list" "js_string list"
  | ToFailedRun failure_report
  | ToCancelled failure_report

definition validateEvaluationRunTransition :: "js_string \<Rightarrow> js_string \<Rightarrow> run_transition \<Rightarrow> unit catalog" where
  "validateEvaluationRunTransition namespaceId i input =
     bindR (validateNamespaceId namespaceId) (\<lambda>_.
     bindR (validateEvaluationRunId i) (\<lambda>_.
     case input of
       ToRunning \<Rightarrow> Inr ()
     | ToCompleted metrics reportIds \<Rightarrow>
         bindR (validateEvaluationMetrics metrics) (\<lambda>_. validateProviderReportIds reportIds)
     | ToFailedRun error \<Rightarrow> validateEvaluationError error
     | ToCancelled error \<Rightarrow> validateEvaluationError error))"

definition validateEvaluationArchiveIdentity :: "js_string \<Rightarrow> js_string \<Rightarrow> unit catalog" where
  "validateEvaluationArchiveIdentity namespaceId i =
     bindR (validateNamespaceId namespaceId) (\<lambda>_. validateEvaluationRunId i)"

definition validateEvaluationArchiveAttempt :: "js_string \<Rightarrow> js_string \<Rightarrow> int \<Rightarrow> unit catalog" where
  "validateEvaluationArchiveAttempt namespaceId i attempt =
     bindR (validateEvaluationArchiveIdentity namespaceId i) (\<lambda>_.
     ensure (\<not> (\<not> is_safe_integer attempt \<or> attempt < 1 \<or> 2147483647 < attempt)) InputError)"

definition result_artifact_key :: "js_string \<Rightarrow> js_string" where
  "result_artifact_key digest =
     js ''objects/v2/evaluation-result-v1/'' @ take 2 digest @ js ''/'' @ digest @ js ''.tar.zst''"

definition validateFinalizeEvaluationArchive :: "js_string \<Rightarrow> js_string \<Rightarrow> int \<Rightarrow> js_string \<Rightarrow> js_string \<Rightarrow> int \<Rightarrow> unit catalog" where
  "validateFinalizeEvaluationArchive namespaceId i attempt key digest bytes =
     bindR (validateEvaluationArchiveAttempt namespaceId i attempt) (\<lambda>_.
     bindR (ensure (EXACT_VERSION digest) InputError) (\<lambda>_.
     bindR (ensure (\<not> (bytes \<le> 0 \<or> POSTGRES_BIGINT_MAX < bytes)) InputError) (\<lambda>_.
     ensure (key = result_artifact_key digest) InputError)))"

end
