(* ===== verification/Evaluation_Operations.thy ===== *)
theory Evaluation_Operations
  imports Evaluation_Runs Model_Artifacts
begin

text \<open>
  Reading the stored rows of evaluation runs, and the operations: creation, reading and lists, the
  transitions of the execution, and the archive of the result.
\<close>

section \<open>Stored rows\<close>

text \<open>A number as the database gives it back: \<open>JSON.stringify\<close> prints no negative zero.\<close>

definition stored_number :: "js_number \<Rightarrow> js_number" where
  "stored_number x = (if number_int x = Some 0 then Finite False 0 0 else x)"

definition metric_json :: "evaluation_metric \<Rightarrow> json" where
  "metric_json m = JObject [(js ''dataset'', JString (me_dataset m)), (js ''subset'', of_optional (me_subset m)),
     (js ''metric_id'', of_optional (me_metric_id m)), (js ''output_key'', of_optional (me_output_key m)),
     (js ''metric'', JString (me_metric m)), (js ''score'', of_number (map_option stored_number (me_score m))),
     (js ''sample_count'', of_number (map_option stored_number (me_sample_count m))),
     (js ''categories'', JArray (map JString (me_categories m)))]"

definition metrics_json :: "evaluation_metric list \<Rightarrow> json" where
  "metrics_json metrics = JArray (map metric_json metrics)"

definition report_ids_json :: "js_string list \<Rightarrow> json" where
  "report_ids_json ids = JArray (map JString ids)"

fun parse_text :: "json \<Rightarrow> js_string catalog" where
  "parse_text (JString s) = Inr s"
| "parse_text _ = Inl ConsistencyError"

definition parse_texts :: "json \<Rightarrow> js_string list catalog" where
  "parse_texts v = (case v of JArray xs \<Rightarrow> traverseR parse_text xs | _ \<Rightarrow> Inl ConsistencyError)"

definition parse_nullable :: "json option \<Rightarrow> js_string option catalog" where
  "parse_nullable v = (case v of
     Some JNull \<Rightarrow> Inr None | Some (JString s) \<Rightarrow> Inr (Some s) | _ \<Rightarrow> Inl ConsistencyError)"

definition parse_number :: "json option \<Rightarrow> js_number option catalog" where
  "parse_number v = (case v of
     Some JNull \<Rightarrow> Inr None | Some (JNumber x) \<Rightarrow> Inr (Some x) | _ \<Rightarrow> Inl ConsistencyError)"

definition parse_required :: "json option \<Rightarrow> json catalog" where
  "parse_required v = (case v of Some w \<Rightarrow> Inr w | None \<Rightarrow> Inl ConsistencyError)"

definition parseStoredProviderReportIds :: "json option \<Rightarrow> js_string list option catalog" where
  "parseStoredProviderReportIds value = (case value of
     None \<Rightarrow> Inr None
   | Some v \<Rightarrow>
       bindR (parse_texts v) (\<lambda>ids.
       bindR (revalidate (validateProviderReportIds ids)) (\<lambda>_. Inr (Some ids))))"

text \<open>An item has six members, or the eight that migration 0014 introduced.\<close>

definition parse_metric :: "json \<Rightarrow> evaluation_metric catalog" where
  "parse_metric item = (case item of
     JObject kvs \<Rightarrow>
       bindR (ensure (length kvs \<in> {6, 8}) ConsistencyError) (\<lambda>_.
       bindR (bindR (parse_required (json_field item ''dataset'')) parse_text) (\<lambda>dataset.
       bindR (parse_nullable (json_field item ''subset'')) (\<lambda>subset.
       bindR (if length kvs = 8 then parse_nullable (json_field item ''metric_id'') else Inr None) (\<lambda>metricId.
       bindR (if length kvs = 8 then parse_nullable (json_field item ''output_key'') else Inr None) (\<lambda>outputKey.
       bindR (bindR (parse_required (json_field item ''metric'')) parse_text) (\<lambda>metric.
       bindR (parse_number (json_field item ''score'')) (\<lambda>score.
       bindR (parse_number (json_field item ''sample_count'')) (\<lambda>sampleCount.
       bindR (bindR (parse_required (json_field item ''categories'')) parse_texts) (\<lambda>categories.
       Inr \<lparr>me_dataset = dataset, me_subset = subset, me_metric_id = metricId, me_output_key = outputKey,
         me_metric = metric, me_score = score, me_sample_count = sampleCount, me_categories = categories\<rparr>)))))))))
   | _ \<Rightarrow> Inl ConsistencyError)"

definition parseStoredEvaluationMetrics :: "json option \<Rightarrow> evaluation_metric list option catalog" where
  "parseStoredEvaluationMetrics value = (case value of
     None \<Rightarrow> Inr None
   | Some (JArray items) \<Rightarrow>
       bindR (traverseR parse_metric items) (\<lambda>metrics.
       bindR (revalidate (validateEvaluationMetrics metrics)) (\<lambda>_. Inr (Some metrics)))
   | Some _ \<Rightarrow> Inl ConsistencyError)"

definition parseStoredEvaluationError :: "json option \<Rightarrow> failure_report option catalog" where
  "parseStoredEvaluationError value = (case value of
     None \<Rightarrow> Inr None
   | Some (JObject kvs) \<Rightarrow>
       (if length kvs \<noteq> 3 then Inl ConsistencyError
        else case (map_of kvs (js ''phase''), map_of kvs (js ''code''), map_of kvs (js ''message'')) of
          (Some (JString phase), Some (JString code), Some (JString message)) \<Rightarrow>
            let error = \<lparr>fr_phase = phase, fr_code = code, fr_message = message\<rparr>
            in bindR (revalidate (validateEvaluationError error)) (\<lambda>_. Inr (Some error))
        | _ \<Rightarrow> Inl ConsistencyError)
   | Some _ \<Rightarrow> Inl ConsistencyError)"

text \<open>What is returned of a row: its columns and the parsed values.\<close>

record run_view =
  rv_row :: evaluation_run
  rv_provider_report_ids :: "js_string list option"
  rv_metrics :: "evaluation_metric list option"
  rv_error :: "failure_report option"
  rv_archive_error :: "failure_report option"

definition create_of_run :: "evaluation_run \<Rightarrow> create_run" where
  "create_of_run r = \<lparr>cr_namespace_id = er_namespace_id r, cr_provider = er_provider r,
     cr_provider_task_id = er_provider_task_id r, cr_create_profile = er_create_profile r,
     cr_create_request_digest = er_create_request_digest r, cr_dataset_version = er_dataset_version r,
     cr_source_ref = er_source_ref r, cr_converter = er_converter r, cr_converter_version = er_converter_version r,
     cr_converter_options = er_converter_options r, cr_fidelity_digest = er_fidelity_digest r,
     cr_benchmark = er_benchmark r, cr_model_name = er_model_name r, cr_model_deployment_id = er_model_deployment_id r,
     cr_model_artifact_id = er_model_artifact_id r, cr_model_deployment_digest = er_model_deployment_digest r,
     cr_model_id = er_model_id r, cr_model_version_id = er_model_version_id r,
     cr_source_mutability = er_source_mutability r, cr_verification_level = er_verification_level r,
     cr_source_evidence_digest = er_source_evidence_digest r, cr_evalscope_commit = er_evalscope_commit r,
     cr_scoring_config = er_scoring_config r, cr_primary_metric_id = er_primary_metric_id r,
     cr_primary_output_key = er_primary_output_key r\<rparr>"

definition artifact_count :: "evaluation_run \<Rightarrow> nat" where
  "artifact_count r = length (filter id [er_result_artifact_key r \<noteq> None, er_result_artifact_digest r \<noteq> None,
     er_result_artifact_size_bytes r \<noteq> None])"

definition run_row_valid :: "evaluation_run \<Rightarrow> unit catalog" where
  "run_row_valid r =
     bindR (validateCreateEvaluationRun (create_of_run r)) (\<lambda>_.
     bindR (ensure (is_safe_integer (er_archive_attempt r) \<and> 0 \<le> er_archive_attempt r) InputError) (\<lambda>_.
     bindR (ensure (null_or EXACT_VERSION (er_result_artifact_digest r)) InputError) (\<lambda>_.
     ensure (null_or (\<lambda>bytes. \<not> (bytes < 0 \<or> POSTGRES_BIGINT_MAX < bytes)) (er_result_artifact_size_bytes r)) InputError)))"

definition sqlRowToEvaluationRun :: "evaluation_run \<Rightarrow> run_view catalog" where
  "sqlRowToEvaluationRun row =
     bindR (parseStoredProviderReportIds (er_provider_report_ids row)) (\<lambda>reportIds.
     bindR (parseStoredEvaluationMetrics (er_metrics row)) (\<lambda>metrics.
     bindR (parseStoredEvaluationError (er_error row)) (\<lambda>error.
     bindR (parseStoredEvaluationError (er_archive_error row)) (\<lambda>archiveError.
     bindR (case er_scoring_config row of None \<Rightarrow> Inr None
       | Some config \<Rightarrow> bindR (parseStoredJsonObject config) (\<lambda>c. Inr (Some c))) (\<lambda>scoringConfig.
     bindR (ensure (er_provider row = js ''evalscope'') ConsistencyError) (\<lambda>_.
     bindR (ensure (is_finished (er_status row) = (er_finished_at row \<noteq> None)) ConsistencyError) (\<lambda>_.
     bindR (ensure (\<not> (er_status row \<in> {RunningRun, CompletedRun} \<and> er_started_at row = None)) ConsistencyError) (\<lambda>_.
     bindR (ensure ((er_status row = CompletedRun) = (metrics \<noteq> None \<and> reportIds \<noteq> None)) ConsistencyError) (\<lambda>_.
     bindR (ensure ((er_status row \<in> {FailedRun, CancelledRun}) = (error \<noteq> None)) ConsistencyError) (\<lambda>_.
     bindR (ensure (artifact_count row \<in> {0, 3}) ConsistencyError) (\<lambda>_.
     bindR (ensure ((er_archive_status row = AvailableArchive) = (artifact_count row = 3)) ConsistencyError) (\<lambda>_.
     bindR (ensure ((er_archive_status row = FailedArchive) = (archiveError \<noteq> None)) ConsistencyError) (\<lambda>_.
     bindR (parseStoredJsonObject (er_converter_options row)) (\<lambda>options.
     bindR (revalidate (run_row_valid row)) (\<lambda>_.
     Inr \<lparr>rv_row = row, rv_provider_report_ids = reportIds, rv_metrics = metrics, rv_error = error,
       rv_archive_error = archiveError\<rparr>)))))))))))))))"

text \<open>\<open>if (rows.length > 1) throw\<close>, then the row if there is one.\<close>

definition one_run :: "evaluation_run list \<Rightarrow> run_view option catalog" where
  "one_run rows = (case rows of
     [] \<Rightarrow> Inr None
   | [row] \<Rightarrow> bindR (sqlRowToEvaluationRun row) (\<lambda>v. Inr (Some v))
   | _ \<Rightarrow> Inl ConsistencyError)"

section \<open>Creation\<close>

definition runs_of_task :: "create_run \<Rightarrow> eval_db \<Rightarrow> evaluation_run list" where
  "runs_of_task input db = select_where (\<lambda>r. er_namespace_id r = cr_namespace_id input \<and> er_provider r = cr_provider input
     \<and> er_provider_task_id r = cr_provider_task_id input) (ed_runs db)"

text \<open>The deployments a request is admitted by: those of an artifact, or those of a model version.\<close>

definition bound_deployment :: "create_run \<Rightarrow> deployment_row \<Rightarrow> bool" where
  "bound_deployment input d \<longleftrightarrow> dp_namespace_id d = cr_namespace_id input
     \<and> Some (dp_id d) = cr_model_deployment_id input \<and> Some (dp_create_digest d) = cr_model_deployment_digest input
     \<and> (if is_legacy_profile (cr_create_profile input)
        then dp_profile d = ArtifactBound \<and> dp_artifact_id d \<noteq> None \<and> dp_artifact_id d = cr_model_artifact_id input
        else dp_profile d = ModelVersionBound \<and> dp_model_version_id d \<noteq> None
          \<and> dp_model_version_id d = cr_model_version_id input \<and> dp_artifact_id d = cr_model_artifact_id input)"

definition admit_run :: "create_run \<Rightarrow> eval_db \<Rightarrow> unit catalog" where
  "admit_run input db =
     (if has_deployment_profile (cr_create_profile input)
      then case select_where (bound_deployment input) (rg_deployments (ed_registry db)) of
          [] \<Rightarrow> Inl InputError
        | [d] \<Rightarrow>
            bindR (ensure (dp_active d) (DeploymentAdmissionError (dp_id d))) (\<lambda>_.
            ensure (Some (dp_served_model_name d) = cr_model_name input) InputError)
        | _ \<Rightarrow> Inl ConsistencyError
      else Inr ())"

definition new_run_row :: "int \<Rightarrow> js_string \<Rightarrow> create_run \<Rightarrow> evaluation_run" where
  "new_run_row now i input =
     \<lparr>er_id = i, er_namespace_id = cr_namespace_id input, er_provider = cr_provider input,
      er_provider_task_id = cr_provider_task_id input, er_create_profile = cr_create_profile input,
      er_create_request_digest = cr_create_request_digest input, er_provider_report_ids = None,
      er_dataset_version = cr_dataset_version input, er_source_ref = cr_source_ref input,
      er_converter = cr_converter input, er_converter_version = cr_converter_version input,
      er_converter_options = cr_converter_options input, er_fidelity_digest = cr_fidelity_digest input,
      er_benchmark = cr_benchmark input, er_model_name = cr_model_name input,
      er_model_deployment_id = cr_model_deployment_id input, er_model_artifact_id = cr_model_artifact_id input,
      er_model_deployment_digest = cr_model_deployment_digest input, er_model_id = cr_model_id input,
      er_model_version_id = cr_model_version_id input, er_source_mutability = cr_source_mutability input,
      er_verification_level = cr_verification_level input,
      er_source_evidence_digest = cr_source_evidence_digest input,
      er_source_observed_at = (if is_version_profile (cr_create_profile input) then Some now else None),
      er_evalscope_commit = cr_evalscope_commit input, er_scoring_config = cr_scoring_config input,
      er_primary_metric_id = cr_primary_metric_id input, er_primary_output_key = cr_primary_output_key input,
      er_status = PreparedRun, er_metrics = None, er_error = None, er_archive_status = NotRequested,
      er_archive_attempt = 0, er_result_artifact_key = None, er_result_artifact_digest = None,
      er_result_artifact_size_bytes = None, er_archive_error = None, er_created_at = now, er_started_at = None,
      er_finished_at = None, er_updated_at = now\<rparr>"

definition createOrReadEvaluationRun :: "int \<Rightarrow> js_string \<Rightarrow> create_run \<Rightarrow> eval_db \<Rightarrow> (eval_db \<times> run_view) catalog" where
  "createOrReadEvaluationRun now i input db =
     bindR (validateCreateEvaluationRun input) (\<lambda>_.
     bindR (one_run (runs_of_task input db)) (\<lambda>existing. case existing of
         Some v \<Rightarrow> Inr (db, v)
       | None \<Rightarrow>
           bindR (admit_run input db) (\<lambda>_.
           bindR (insert_run (new_run_row now i input) db) (\<lambda>(db1, inserted).
           if inserted
           then bindR (sqlRowToEvaluationRun (new_run_row now i input)) (\<lambda>v.
                bindR (ensure (source_binding_check db1 (new_run_row now i input)) CheckViolation) (\<lambda>_.
                Inr (db1, v)))
           else bindR (exactly_one ConsistencyError (runs_of_task input db1)) (\<lambda>winner.
                bindR (sqlRowToEvaluationRun winner) (\<lambda>v. Inr (db1, v)))))))"

section \<open>Reading\<close>

definition getEvaluationRun :: "js_string \<Rightarrow> js_string \<Rightarrow> eval_db \<Rightarrow> run_view option catalog" where
  "getEvaluationRun namespaceId i db =
     bindR (validateNamespaceId namespaceId) (\<lambda>_.
     bindR (validateEvaluationRunId i) (\<lambda>_.
     one_run (find_evaluation_run db namespaceId i)))"

record run_filter =
  nf_dataset_version :: "js_string option"
  nf_model_deployment_id :: "js_string option"
  nf_model_id :: "js_string option"
  nf_model_version_id :: "js_string option"
  nf_status :: "run_status option"

type_synonym run_cursor = "int \<times> js_string"

definition run_cursor :: "evaluation_run \<Rightarrow> run_cursor" where
  "run_cursor r = (er_created_at r div 1000, er_id r)"

definition validateEvaluationRunListFilter :: "run_filter \<Rightarrow> unit catalog" where
  "validateEvaluationRunListFilter f =
     bindR (ensure (null_or EXACT_VERSION (nf_dataset_version f)) InputError) (\<lambda>_.
     bindR (ensure (null_or UUID (nf_model_deployment_id f)) InputError) (\<lambda>_.
     bindR (ensure (null_or UUID (nf_model_id f)) InputError) (\<lambda>_.
     ensure (null_or UUID (nf_model_version_id f)) InputError)))"

definition validateEvaluationRunCursor :: "run_cursor \<Rightarrow> unit catalog" where
  "validateEvaluationRunCursor cursor = validateEvaluationRunId (snd cursor)"

definition run_listed :: "js_string \<Rightarrow> run_filter \<Rightarrow> run_cursor option \<Rightarrow> evaluation_run \<Rightarrow> bool" where
  "run_listed namespaceId f before r \<longleftrightarrow> er_namespace_id r = namespaceId
     \<and> null_or (\<lambda>v. er_dataset_version r = v) (nf_dataset_version f)
     \<and> null_or (\<lambda>d. er_model_deployment_id r = Some d) (nf_model_deployment_id f)
     \<and> null_or (\<lambda>m. er_model_id r = Some m) (nf_model_id f)
     \<and> null_or (\<lambda>m. er_model_version_id r = Some m) (nf_model_version_id f)
     \<and> null_or (\<lambda>s. er_status r = s) (nf_status f)
     \<and> (case before of None \<Rightarrow> True
        | Some (createdAt, i) \<Rightarrow> er_created_at r div 1000 < createdAt
            \<or> er_created_at r div 1000 = createdAt \<and> er_id r < i)"

definition listEvaluationRuns :: "js_string \<Rightarrow> run_filter \<Rightarrow> run_cursor option \<Rightarrow> int \<Rightarrow> eval_db
    \<Rightarrow> (run_view list \<times> run_cursor option) catalog" where
  "listEvaluationRuns namespaceId f before limit db =
     bindR (validateNamespaceId namespaceId) (\<lambda>_.
     bindR (validateEvaluationRunListFilter f) (\<lambda>_.
     bindR (case before of None \<Rightarrow> Inr () | Some c \<Rightarrow> validateEvaluationRunCursor c) (\<lambda>_.
     bindR (checkedPageFetchLimit limit) (\<lambda>fetchLimit.
     let rows = take fetchLimit (order_by_desc run_cursor (select_where (run_listed namespaceId f before) (ed_runs db)));
         hasMore = limit < int (length rows)
     in bindR (traverseR sqlRowToEvaluationRun (take (nat limit) rows)) (\<lambda>pageRows.
        Inr (pageRows, if hasMore \<and> pageRows \<noteq> [] then Some (run_cursor (rv_row (last pageRows))) else None))))))"

section \<open>Transitions\<close>

fun run_sources :: "run_transition \<Rightarrow> run_status set" where
  "run_sources ToRunning = {PreparedRun}"
| "run_sources (ToCompleted _ _) = {RunningRun}"
| "run_sources (ToFailedRun _) = {PreparedRun, RunningRun}"
| "run_sources (ToCancelled _) = {PreparedRun, RunningRun}"

fun run_transition_row :: "int \<Rightarrow> run_transition \<Rightarrow> evaluation_run \<Rightarrow> evaluation_run" where
  "run_transition_row now ToRunning r = r\<lparr>er_status := RunningRun,
     er_started_at := (case er_started_at r of None \<Rightarrow> Some now | Some t \<Rightarrow> Some t), er_updated_at := now\<rparr>"
| "run_transition_row now (ToCompleted metrics reportIds) r = r\<lparr>er_status := CompletedRun,
     er_metrics := Some (metrics_json metrics), er_provider_report_ids := Some (report_ids_json reportIds),
     er_finished_at := Some now, er_updated_at := now\<rparr>"
| "run_transition_row now (ToFailedRun error) r = r\<lparr>er_status := FailedRun,
     er_error := Some (failure_json error), er_finished_at := Some now, er_updated_at := now\<rparr>"
| "run_transition_row now (ToCancelled error) r = r\<lparr>er_status := CancelledRun,
     er_error := Some (failure_json error), er_finished_at := Some now, er_updated_at := now\<rparr>"

text \<open>The row an update returned, or the run as it is where the update found none.\<close>

definition updated_or_current :: "js_string \<Rightarrow> js_string \<Rightarrow> eval_db \<times> evaluation_run list
    \<Rightarrow> (eval_db \<times> run_view option) catalog" where
  "updated_or_current namespaceId i result =
     bindR (one_run (snd result)) (\<lambda>updated. case updated of
         Some v \<Rightarrow> Inr (fst result, Some v)
       | None \<Rightarrow> bindR (getEvaluationRun namespaceId i (fst result)) (\<lambda>v. Inr (fst result, v)))"

definition transitionEvaluationRun :: "int \<Rightarrow> js_string \<Rightarrow> js_string \<Rightarrow> run_transition \<Rightarrow> eval_db
    \<Rightarrow> (eval_db \<times> run_view option) catalog" where
  "transitionEvaluationRun now namespaceId i input db =
     bindR (validateEvaluationRunTransition namespaceId i input) (\<lambda>_.
     bindR (update_runs (\<lambda>r. er_namespace_id r = namespaceId \<and> er_id r = i \<and> er_status r \<in> run_sources input)
       (run_transition_row now input) db)
     (updated_or_current namespaceId i))"

section \<open>Archives\<close>

definition prepareEvaluationRunArchive :: "int \<Rightarrow> js_string \<Rightarrow> js_string \<Rightarrow> eval_db \<Rightarrow> (eval_db \<times> run_view option) catalog" where
  "prepareEvaluationRunArchive now namespaceId i db =
     bindR (validateEvaluationArchiveIdentity namespaceId i) (\<lambda>_.
     bindR (update_runs (\<lambda>r. er_namespace_id r = namespaceId \<and> er_id r = i \<and> er_status r = CompletedRun
         \<and> er_archive_status r \<in> {NotRequested, FailedArchive})
       (\<lambda>r. r\<lparr>er_archive_status := PendingArchive, er_archive_attempt := er_archive_attempt r + 1,
          er_archive_error := None, er_updated_at := now\<rparr>) db)
     (updated_or_current namespaceId i))"

definition at_attempt :: "js_string \<Rightarrow> js_string \<Rightarrow> archive_status set \<Rightarrow> int \<Rightarrow> evaluation_run \<Rightarrow> bool" where
  "at_attempt namespaceId i statuses attempt r \<longleftrightarrow> er_namespace_id r = namespaceId \<and> er_id r = i
     \<and> er_archive_status r \<in> statuses \<and> er_archive_attempt r = attempt"

definition markEvaluationRunArchiveUploading :: "int \<Rightarrow> js_string \<Rightarrow> js_string \<Rightarrow> int \<Rightarrow> eval_db
    \<Rightarrow> (eval_db \<times> run_view option) catalog" where
  "markEvaluationRunArchiveUploading now namespaceId i attempt db =
     bindR (validateEvaluationArchiveAttempt namespaceId i attempt) (\<lambda>_.
     bindR (update_runs (at_attempt namespaceId i {PendingArchive} attempt)
       (\<lambda>r. r\<lparr>er_archive_status := UploadingArchive, er_updated_at := now\<rparr>) db)
     (updated_or_current namespaceId i))"

definition finalizeEvaluationRunArchive :: "int \<Rightarrow> js_string \<Rightarrow> js_string \<Rightarrow> int \<Rightarrow> js_string \<Rightarrow> js_string \<Rightarrow> int \<Rightarrow> eval_db
    \<Rightarrow> (eval_db \<times> run_view option) catalog" where
  "finalizeEvaluationRunArchive now namespaceId i attempt key digest bytes db =
     bindR (validateFinalizeEvaluationArchive namespaceId i attempt key digest bytes) (\<lambda>_.
     bindR (update_runs (at_attempt namespaceId i {UploadingArchive} attempt)
       (\<lambda>r. r\<lparr>er_archive_status := AvailableArchive, er_result_artifact_key := Some key,
          er_result_artifact_digest := Some digest, er_result_artifact_size_bytes := Some bytes,
          er_archive_error := None, er_updated_at := now\<rparr>) db)
     (updated_or_current namespaceId i))"

definition failEvaluationRunArchive :: "int \<Rightarrow> js_string \<Rightarrow> js_string \<Rightarrow> int \<Rightarrow> failure_report \<Rightarrow> eval_db
    \<Rightarrow> (eval_db \<times> run_view option) catalog" where
  "failEvaluationRunArchive now namespaceId i attempt error db =
     bindR (validateEvaluationArchiveAttempt namespaceId i attempt) (\<lambda>_.
     bindR (validateEvaluationError error) (\<lambda>_.
     bindR (update_runs (at_attempt namespaceId i {PendingArchive, UploadingArchive} attempt)
       (\<lambda>r. r\<lparr>er_archive_status := FailedArchive, er_archive_error := Some (failure_json error),
          er_updated_at := now\<rparr>) db)
     (updated_or_current namespaceId i)))"

end
