(* ===== verification/Evaluation_Laws.thy ===== *)
theory Evaluation_Laws
  imports Evaluation_Operations Studio_Laws
begin

text \<open>
  Evaluation runs as a state machine: every operation moves a run forward only, and what a step does to
  a run is a preorder, so it holds along every sequence of steps.
\<close>

section \<open>Rows\<close>

lemma run_view_row: "sqlRowToEvaluationRun row = Inr v \<Longrightarrow> rv_row v = row"
  by (auto simp: sqlRowToEvaluationRun_def result_simps)

lemma one_run_Some: "one_run rows = Inr (Some v) \<longleftrightarrow> (\<exists>r. rows = [r] \<and> sqlRowToEvaluationRun r = Inr v)"
  by (auto simp: one_run_def result_simps split: list.splits)

lemma one_run_None: "one_run rows = Inr None \<longleftrightarrow> rows = []"
  by (auto simp: one_run_def result_simps split: list.splits)

lemma update_runs_Inr:
  "update_runs p f db = Inr (db', rows) \<longleftrightarrow> list_all eval_check (returning p f (ed_runs db))
    \<and> rows = returning p f (ed_runs db) \<and> db' = db\<lparr>ed_runs := update_where p f (ed_runs db)\<rparr>"
  by (auto simp: update_runs_def result_simps)

definition run_readable :: "evaluation_run \<Rightarrow> bool" where
  "run_readable r \<longleftrightarrow> (case sqlRowToEvaluationRun r of Inr v \<Rightarrow> True | Inl e \<Rightarrow> False)"

lemma run_readable_Inr: "run_readable r \<longleftrightarrow> (\<exists>v. sqlRowToEvaluationRun r = Inr v)"
  by (simp add: run_readable_def split: sum.splits)

lemma updated_or_current_Inr:
  assumes "updated_or_current ns i result = Inr (db, v)"
  shows "db = fst result \<and> list_all run_readable (snd result) \<and> length (snd result) \<le> 1"
proof -
  obtain u where u: "one_run (snd result) = Inr u" and "db = fst result"
    using assms unfolding updated_or_current_def by (auto simp: result_simps split: option.splits)
  moreover have "list_all run_readable (snd result) \<and> length (snd result) \<le> 1"
    using u by (cases u) (auto simp: one_run_Some one_run_None run_readable_Inr)
  ultimately show ?thesis by simp
qed

section \<open>How a run moves\<close>

fun execution_stage :: "run_status \<Rightarrow> nat" where
  "execution_stage PreparedRun = 0"
| "execution_stage RunningRun = 1"
| "execution_stage _ = 2"

fun archive_stage :: "archive_status \<Rightarrow> nat" where
  "archive_stage NotRequested = 0"
| "archive_stage PendingArchive = 1"
| "archive_stage UploadingArchive = 2"
| "archive_stage FailedArchive = 3"
| "archive_stage AvailableArchive = 3"

definition same_execution :: "evaluation_run \<Rightarrow> evaluation_run \<Rightarrow> bool" where
  "same_execution r s \<longleftrightarrow> er_status s = er_status r \<and> er_metrics s = er_metrics r \<and> er_error s = er_error r
     \<and> er_provider_report_ids s = er_provider_report_ids r \<and> er_started_at s = er_started_at r
     \<and> er_finished_at s = er_finished_at r"

definition same_archive :: "evaluation_run \<Rightarrow> evaluation_run \<Rightarrow> bool" where
  "same_archive r s \<longleftrightarrow> er_archive_status s = er_archive_status r \<and> er_archive_attempt s = er_archive_attempt r
     \<and> er_result_artifact_key s = er_result_artifact_key r \<and> er_result_artifact_digest s = er_result_artifact_digest r
     \<and> er_result_artifact_size_bytes s = er_result_artifact_size_bytes r \<and> er_archive_error s = er_archive_error r"

definition archive_moved :: "evaluation_run \<Rightarrow> evaluation_run \<Rightarrow> bool" where
  "archive_moved r s \<longleftrightarrow> er_archive_attempt r < er_archive_attempt s
     \<or> er_archive_attempt r = er_archive_attempt s \<and> archive_stage (er_archive_status r) < archive_stage (er_archive_status s)"

definition execution_moved :: "evaluation_run \<Rightarrow> evaluation_run \<Rightarrow> bool" where
  "execution_moved r s \<longleftrightarrow> \<not> is_finished (er_status r) \<and> execution_stage (er_status r) < execution_stage (er_status s)
     \<and> (er_started_at r \<noteq> None \<longrightarrow> er_started_at s = er_started_at r)"

definition run_evolves :: "evaluation_run \<Rightarrow> evaluation_run \<Rightarrow> bool" where
  "run_evolves r s \<longleftrightarrow> er_id s = er_id r \<and> create_of_run s = create_of_run r \<and> er_created_at s = er_created_at r
     \<and> er_source_observed_at s = er_source_observed_at r
     \<and> (same_execution r s \<or> execution_moved r s)
     \<and> (same_archive r s \<or> er_archive_status r \<noteq> AvailableArchive \<and> archive_moved r s)"

lemma run_evolves_refl [simp]: "run_evolves r r"
  by (simp add: run_evolves_def same_execution_def same_archive_def)

lemma same_execution_trans: "same_execution r s \<Longrightarrow> same_execution s t \<Longrightarrow> same_execution r t"
  by (simp add: same_execution_def)

lemma same_archive_trans: "same_archive r s \<Longrightarrow> same_archive s t \<Longrightarrow> same_archive r t"
  by (simp add: same_archive_def)

lemma archive_moved_trans: "archive_moved r s \<Longrightarrow> archive_moved s t \<Longrightarrow> archive_moved r t"
  by (auto simp: archive_moved_def)

lemma execution_moved_trans: "execution_moved r s \<Longrightarrow> execution_moved s t \<Longrightarrow> execution_moved r t"
  by (auto simp: execution_moved_def)

lemma moved_same:
  "same_execution r s \<Longrightarrow> execution_moved s t \<Longrightarrow> execution_moved r t"
  "same_execution s t \<Longrightarrow> execution_moved r s \<Longrightarrow> execution_moved r t"
  "same_archive r s \<Longrightarrow> archive_moved s t \<Longrightarrow> archive_moved r t"
  "same_archive s t \<Longrightarrow> archive_moved r s \<Longrightarrow> archive_moved r t"
  by (simp_all add: archive_moved_def same_archive_def execution_moved_def same_execution_def)

lemma run_evolves_trans [trans]:
  assumes rs: "run_evolves r s" and st: "run_evolves s t"
  shows "run_evolves r t"
proof -
  have "same_execution r t \<or> execution_moved r t"
    using rs st unfolding run_evolves_def by (blast intro: same_execution_trans execution_moved_trans moved_same)
  moreover have "same_archive r t \<or> er_archive_status r \<noteq> AvailableArchive \<and> archive_moved r t"
  proof (cases "same_archive r s")
    case True
    then have "er_archive_status s = er_archive_status r" by (simp add: same_archive_def)
    then show ?thesis using True st unfolding run_evolves_def by (metis same_archive_trans moved_same(3))
  next
    case False
    then show ?thesis using rs st unfolding run_evolves_def by (blast intro: archive_moved_trans moved_same)
  qed
  ultimately show ?thesis using rs st by (simp add: run_evolves_def)
qed

lemma transition_evolves:
  "er_status r \<in> run_sources input \<Longrightarrow> run_evolves r (run_transition_row now input r)"
  by (cases input) (auto simp: run_evolves_def create_of_run_def same_execution_def same_archive_def execution_moved_def is_finished_def
      split: option.splits)

lemma archive_evolves:
  "er_archive_status r \<in> {NotRequested, FailedArchive} \<Longrightarrow> run_evolves r (r\<lparr>er_archive_status := PendingArchive,
     er_archive_attempt := er_archive_attempt r + 1, er_archive_error := None, er_updated_at := now\<rparr>)"
  "er_archive_status r = PendingArchive \<Longrightarrow>
     run_evolves r (r\<lparr>er_archive_status := UploadingArchive, er_updated_at := now\<rparr>)"
  "er_archive_status r = UploadingArchive \<Longrightarrow> run_evolves r (r\<lparr>er_archive_status := AvailableArchive,
     er_result_artifact_key := key, er_result_artifact_digest := digest, er_result_artifact_size_bytes := bytes,
     er_archive_error := None, er_updated_at := now\<rparr>)"
  "er_archive_status r \<in> {PendingArchive, UploadingArchive} \<Longrightarrow> run_evolves r (r\<lparr>er_archive_status := FailedArchive,
     er_archive_error := err, er_updated_at := now\<rparr>)"
  by (auto simp: run_evolves_def create_of_run_def same_execution_def same_archive_def archive_moved_def)

section \<open>The invariant\<close>

definition archive_started :: "evaluation_run \<Rightarrow> bool" where
  "archive_started r \<longleftrightarrow> (er_archive_attempt r = 0) = (er_archive_status r = NotRequested)
     \<and> (er_archive_status r \<noteq> NotRequested \<longrightarrow> er_status r = CompletedRun)
     \<and> null_or (\<lambda>digest. er_result_artifact_key r = Some (result_artifact_key digest)) (er_result_artifact_digest r)"

definition run_ok :: "evaluation_run \<Rightarrow> bool" where
  "run_ok r \<longleftrightarrow> eval_check r \<and> run_readable r \<and> archive_started r"

definition eval_ok :: "eval_db \<Rightarrow> bool" where
  "eval_ok db \<longleftrightarrow> list_all run_ok (ed_runs db) \<and> distinct (map er_id (ed_runs db)) \<and> distinct (map run_task (ed_runs db))"

definition db_evolves :: "eval_db \<Rightarrow> eval_db \<Rightarrow> bool" where
  "db_evolves db db' \<longleftrightarrow> list_all (\<lambda>r. list_ex (run_evolves r) (ed_runs db')) (ed_runs db)"

lemma db_evolves_refl [simp]: "db_evolves db db"
  by (auto simp: db_evolves_def list_all_iff list_ex_iff intro: run_evolves_refl)

lemma db_evolves_trans [trans]: "db_evolves a b \<Longrightarrow> db_evolves b c \<Longrightarrow> db_evolves a c"
  unfolding db_evolves_def list_all_iff list_ex_iff by (meson run_evolves_trans)

lemma run_evolves_task: "run_evolves r s \<Longrightarrow> run_task s = run_task r"
  by (simp add: run_evolves_def run_task_def create_of_run_def)

lemma distinct_update_where:
  "distinct (map key rows) \<Longrightarrow> (\<And>r. p r \<Longrightarrow> key (f r) = key r) \<Longrightarrow> distinct (map key (update_where p f rows))"
  unfolding update_where_def map_map comp_def by (simp add: if_distrib cong: if_cong)

definition keeps :: "eval_db \<Rightarrow> eval_db \<Rightarrow> bool" where
  "keeps db db' \<longleftrightarrow> eval_ok db' \<and> db_evolves db db'"

lemma update_runs_step:
  assumes "update_runs p f db = Inr (mid, rows)" "updated_or_current ns i (mid, rows) = Inr (db', v)" "eval_ok db"
    and evolves: "\<And>r. p r \<Longrightarrow> run_evolves r (f r)" and started: "\<And>r. p r \<Longrightarrow> archive_started r \<Longrightarrow> eval_check r \<Longrightarrow> archive_started (f r)"
  shows "keeps db db'"
proof -
  have update: "update_runs p f db = Inr (db', rows)" and rows: "list_all run_readable rows"
    using assms(1) updated_or_current_Inr [OF assms(2)] by simp_all
  have db': "ed_runs db' = update_where p f (ed_runs db)" and checked: "list_all eval_check (returning p f (ed_runs db))"
    and "rows = returning p f (ed_runs db)"
    using update by (simp_all add: update_runs_Inr)
  then have "list_all run_ok (returning p f (ed_runs db))"
    using rows assms(3) started by (auto simp: list_all_iff returning_set run_ok_def eval_ok_def)
  then have "list_all run_ok (ed_runs db')" using assms(3) by (simp add: db' eval_ok_def list_all_changed)
  moreover have "distinct (map er_id (ed_runs db'))" "distinct (map run_task (ed_runs db'))"
    using assms(3) evolves by (auto simp: db' eval_ok_def run_evolves_def run_evolves_task [OF evolves] intro!: distinct_update_where)
  moreover have "list_ex (run_evolves r) (ed_runs db')" if "r \<in> set (ed_runs db)" for r
  proof -
    have "(if p r then f r else r) \<in> set (ed_runs db')" using that by (auto simp: db' set_update_where)
    moreover have "run_evolves r (if p r then f r else r)" using evolves by simp
    ultimately show ?thesis by (auto simp: list_ex_iff)
  qed
  ultimately show ?thesis by (simp add: keeps_def eval_ok_def db_evolves_def list_all_iff)
qed

section \<open>Operations\<close>

datatype eval_op =
    CreateRun int js_string create_run
  | TransitionRun int js_string js_string run_transition
  | PrepareArchive int js_string js_string
  | MarkUploading int js_string js_string int
  | FinalizeArchive int js_string js_string int js_string js_string int
  | FailArchive int js_string js_string int failure_report
  | OthersMove catalog_db registry

definition ran_eval :: "(eval_db \<times> 'a) catalog \<Rightarrow> eval_db catalog" where
  "ran_eval m = bindR m (\<lambda>(db, result). Inr db)"

text \<open>The rest of the catalog and the model registry move freely between the operations.\<close>

fun eval_exec :: "eval_op \<Rightarrow> eval_db \<Rightarrow> eval_db catalog" where
  "eval_exec (CreateRun now i input) db = ran_eval (createOrReadEvaluationRun now i input db)"
| "eval_exec (TransitionRun now ns i input) db = ran_eval (transitionEvaluationRun now ns i input db)"
| "eval_exec (PrepareArchive now ns i) db = ran_eval (prepareEvaluationRunArchive now ns i db)"
| "eval_exec (MarkUploading now ns i attempt) db = ran_eval (markEvaluationRunArchiveUploading now ns i attempt db)"
| "eval_exec (FinalizeArchive now ns i attempt key digest bytes) db =
     ran_eval (finalizeEvaluationRunArchive now ns i attempt key digest bytes db)"
| "eval_exec (FailArchive now ns i attempt error) db = ran_eval (failEvaluationRunArchive now ns i attempt error db)"
| "eval_exec (OthersMove c g) db = Inr (db\<lparr>ed_catalog := c, ed_registry := g\<rparr>)"

lemma ran_eval_Inr [simp]: "ran_eval m = Inr db \<longleftrightarrow> (\<exists>x. m = Inr (db, x))"
  by (auto simp: ran_eval_def result_simps)

inductive eval_steps :: "eval_db \<Rightarrow> eval_db \<Rightarrow> bool" where
  stay: "eval_steps db db"
| move: "eval_steps db mid \<Longrightarrow> eval_exec op mid = Inr db' \<Longrightarrow> eval_steps db db'"

definition empty_eval :: "catalog_db \<Rightarrow> registry \<Rightarrow> eval_db" where
  "empty_eval c g = \<lparr>ed_catalog = c, ed_registry = g, ed_runs = []\<rparr>"

definition eval_reachable :: "eval_db \<Rightarrow> bool" where
  "eval_reachable db \<longleftrightarrow> (\<exists>c g. eval_steps (empty_eval c g) db)"

lemma insert_run_step:
  assumes "insert_run row db = Inr (db', inserted)" "eval_ok db" "inserted \<Longrightarrow> run_ok row"
  shows "keeps db db'"
proof -
  let ?rows = "fst (insert_on_conflict_do_nothing task_conflict row (ed_runs db))"
  have db': "db' = db\<lparr>ed_runs := ?rows\<rparr>"
    and new: "inserted \<longrightarrow> \<not> list_ex (\<lambda>r. er_id r = er_id row) (ed_runs db)"
    and inserted: "inserted = snd (insert_on_conflict_do_nothing task_conflict row (ed_runs db))"
    using assms(1) by (auto simp: insert_run_def result_simps split: prod.splits)
  have "distinct (map run_task ?rows)"
    using task_table.keyed_insert [of "ed_runs db" row] assms(2) by (simp add: task_table.keyed_def eval_ok_def)
  moreover have "db_evolves db db'"
    using set_insert_subset [of "ed_runs db" task_conflict row]
    by (auto simp: db' db_evolves_def list_all_iff list_ex_iff intro!: bexI [of _ _ "set ?rows"])
  ultimately show ?thesis
    using assms(2,3) new inserted
    by (auto simp: keeps_def db' eval_ok_def insert_on_conflict_do_nothing_def list_ex_iff image_iff split: if_splits)
qed

lemma create_run_step:
  assumes "createOrReadEvaluationRun now i input db = Inr (db', v)" "eval_ok db"
  shows "keeps db db'"
proof (cases "db' = db")
  case False
  then obtain inserted where insert: "insert_run (new_run_row now i input) db = Inr (db', inserted)"
    and reads: "inserted \<Longrightarrow> run_readable (new_run_row now i input)"
    using assms(1) unfolding createOrReadEvaluationRun_def
    by (auto simp: result_simps run_readable_Inr split: option.splits if_splits)
  moreover have "eval_check (new_run_row now i input)" using insert by (auto simp: insert_run_def result_simps)
  moreover have "archive_started (new_run_row now i input)" by (simp add: archive_started_def new_run_row_def)
  ultimately show ?thesis using assms(2) by (intro insert_run_step [OF insert]) (simp_all add: run_ok_def)
qed (use assms in \<open>simp add: keeps_def\<close>)

lemma eval_exec_step:
  assumes "eval_exec op db = Inr db'" "eval_ok db"
  shows "keeps db db'"
proof (cases op)
  case (TransitionRun now ns i input)
  have "archive_started (run_transition_row now input r)"
    if "er_status r \<in> run_sources input" "archive_started r" for r
    using that by (cases input) (auto simp: archive_started_def)
  with TransitionRun show ?thesis
    using assms by (auto simp: transitionEvaluationRun_def result_simps transition_evolves intro!: update_runs_step [OF _ _ assms(2)])
next
  case (PrepareArchive now ns i)
  then show ?thesis
    using assms by (auto simp: prepareEvaluationRunArchive_def result_simps archive_started_def archive_evolves
        eval_check_def run_archive_check_def elim!: update_runs_step)
next
  case (MarkUploading now ns i attempt)
  then show ?thesis
    using assms by (auto simp: markEvaluationRunArchiveUploading_def result_simps at_attempt_def archive_started_def archive_evolves
        intro!: update_runs_step [OF _ _ assms(2)])
next
  case (FinalizeArchive now ns i attempt key digest bytes)
  then show ?thesis
    using assms by (auto simp: finalizeEvaluationRunArchive_def validateFinalizeEvaluationArchive_def result_simps at_attempt_def archive_started_def archive_evolves
        intro!: update_runs_step [OF _ _ assms(2)])
next
  case (FailArchive now ns i attempt error)
  then show ?thesis
    using assms by (auto simp: failEvaluationRunArchive_def result_simps at_attempt_def archive_started_def archive_evolves
        intro!: update_runs_step [OF _ _ assms(2)])
next
  case (OthersMove c g)
  moreover have "keeps db (db\<lparr>ed_catalog := c, ed_registry := g\<rparr>)"
    using assms(2) db_evolves_refl [of db] unfolding keeps_def eval_ok_def db_evolves_def by simp
  ultimately show ?thesis using assms(1) by simp
qed (use assms in \<open>auto intro: create_run_step\<close>)

lemma eval_steps_keeps: "eval_steps db db' \<Longrightarrow> eval_ok db \<Longrightarrow> keeps db db'"
proof (induction rule: eval_steps.induct)
  case (move db mid op db')
  then have "keeps db mid" by simp
  moreover from this move have "keeps mid db'" using eval_exec_step by (simp add: keeps_def)
  ultimately show ?case unfolding keeps_def using db_evolves_trans by blast
qed (simp add: keeps_def)

lemma eval_reachable_ok: "eval_reachable db \<Longrightarrow> eval_ok db"
  using eval_steps_keeps by (fastforce simp: eval_reachable_def keeps_def empty_eval_def eval_ok_def)

lemma eval_steps_append: "eval_steps b c \<Longrightarrow> eval_steps a b \<Longrightarrow> eval_steps a c"
  by (induction rule: eval_steps.induct) (auto intro: eval_steps.move)

lemma eval_reachable_steps: "eval_reachable db \<Longrightarrow> eval_steps db db' \<Longrightarrow> eval_reachable db'"
  unfolding eval_reachable_def using eval_steps_append by blast

section \<open>Reading a run\<close>

lemma eval_ok_select:
  assumes "eval_ok db" "r \<in> set (ed_runs db)"
  shows "find_evaluation_run db (er_namespace_id r) (er_id r) = [r]"
  unfolding find_evaluation_run_def
  using assms by (intro select_one [where key = er_id]) (auto simp: eval_ok_def)

lemma eval_ok_row: "eval_ok db \<Longrightarrow> r \<in> set (ed_runs db) \<Longrightarrow> eval_check r \<and> run_readable r \<and> archive_started r"
  by (auto simp: eval_ok_def list_all_iff run_ok_def)

lemma db_evolves_row: "db_evolves db db' \<Longrightarrow> r \<in> set (ed_runs db) \<Longrightarrow> \<exists>s \<in> set (ed_runs db'). run_evolves r s"
  by (simp add: db_evolves_def list_all_iff list_ex_iff)

lemma run_readable_valid:
  assumes "run_readable r"
  shows "validateNamespaceId (er_namespace_id r) = Inr ()" "run_row_valid r = Inr ()"
proof -
  show "run_row_valid r = Inr ()"
    using assms by (auto simp: run_readable_Inr sqlRowToEvaluationRun_def result_simps revalidate_def split: sum.splits)
  then show "validateNamespaceId (er_namespace_id r) = Inr ()"
    by (auto simp: run_row_valid_def validateCreateEvaluationRun_def create_of_run_def result_simps)
qed

end
