(* ===== verification/Evaluation_Results.thy ===== *)
theory Evaluation_Results
  imports Evaluation_Laws
begin

text \<open>
  The results a run reports: what was accepted is stored as the constraints want it, save for texts in
  which only the database finds a credential, and reads back as it was reported.
\<close>

section \<open>Numbers and metrics\<close>

lemma number_int_zero: "number_int x = Some 0 \<Longrightarrow> \<exists>neg e. x = Finite neg 0 e"
  by (cases x rule: number_int.cases) (auto split: if_splits)

lemma stored_number_simps [simp]:
  "number_int (stored_number x) = number_int x" "is_finite (stored_number x) = is_finite x"
  "is_negative (stored_number x) = is_negative x" "stored_number (stored_number x) = stored_number x"
  "json_stringify (JNumber (stored_number x)) = json_stringify (JNumber x)"
  by (auto simp: stored_number_def dest!: number_int_zero)

definition stored_metric :: "evaluation_metric \<Rightarrow> evaluation_metric" where
  "stored_metric m = m\<lparr>me_score := map_option stored_number (me_score m),
     me_sample_count := map_option stored_number (me_sample_count m)\<rparr>"

lemma stored_metric_ok [simp]: "metric_ok (stored_metric m) = metric_ok m"
  by (cases "me_score m"; cases "me_sample_count m")
     (simp_all add: metric_ok_def stored_metric_def is_size_def isSafeInteger_def)

lemma stored_metric_output [simp]: "scored_output (stored_metric m) = scored_output m"
  by (simp add: stored_metric_def split: option.splits)

lemma stored_metric_text [simp]: "json_stringify (metric_argument (stored_metric m)) = json_stringify (metric_argument m)"
  by (cases "me_score m"; cases "me_sample_count m")
     (simp_all add: metric_argument_def stored_metric_def of_number_def del: json_stringify.simps(3) js_simps)

lemma stored_metrics_valid: "validateEvaluationMetrics (map stored_metric metrics) = validateEvaluationMetrics metrics"
  by (simp add: validateEvaluationMetrics_def comp_def list_all_iff del: scored_output.simps)

lemma metric_fields [simp]:
  "json_field (metric_json m) ''dataset'' = Some (JString (me_dataset m))"
  "json_field (metric_json m) ''subset'' = Some (of_optional (me_subset m))"
  "json_field (metric_json m) ''metric_id'' = Some (of_optional (me_metric_id m))"
  "json_field (metric_json m) ''output_key'' = Some (of_optional (me_output_key m))"
  "json_field (metric_json m) ''metric'' = Some (JString (me_metric m))"
  "json_field (metric_json m) ''score'' = Some (of_number (map_option stored_number (me_score m)))"
  "json_field (metric_json m) ''sample_count'' = Some (of_number (map_option stored_number (me_sample_count m)))"
  "json_field (metric_json m) ''categories'' = Some (JArray (map JString (me_categories m)))"
  by (simp_all add: json_field_def metric_json_def)

lemma parse_metric_json: "parse_metric (metric_json m) = Inr (stored_metric m)"
proof -
  obtain kvs where kvs: "metric_json m = JObject kvs" "length kvs = 8" by (simp add: metric_json_def)
  have nullable: "parse_nullable (Some (of_optional x)) = Inr x" for x
    by (cases x) (simp_all add: parse_nullable_def of_optional_def)
  have number: "parse_number (Some (of_number x)) = Inr x" for x
    by (cases x) (simp_all add: parse_number_def of_number_def)
  have texts: "parse_texts (JArray (map JString ss)) = Inr ss" for ss
    unfolding parse_texts_def by (simp add: traverseR_map traverseR_Inr_map [of ss _ "\<lambda>s. s"])
  note fields = metric_fields [of m, unfolded kvs(1)]
  show ?thesis
    unfolding kvs(1) parse_metric_def by (simp add: fields kvs(2) nullable number texts parse_required_def stored_metric_def)
qed

lemma parse_metrics_json:
  assumes "validateEvaluationMetrics metrics = Inr ()"
  shows "parseStoredEvaluationMetrics (Some (metrics_json metrics)) = Inr (Some (map stored_metric metrics))"
proof -
  have "traverseR parse_metric (map metric_json metrics) = Inr (map stored_metric metrics)"
    by (simp add: traverseR_map parse_metric_json traverseR_Inr_map comp_def)
  then show ?thesis
    using assms by (simp add: parseStoredEvaluationMetrics_def metrics_json_def revalidate_def stored_metrics_valid)
qed

lemma metric_json_check:
  assumes "metric_ok m"
  shows "metric_check (metric_json m)"
proof -
  have optional: "is_text (Some (of_optional x)) \<or> of_optional x = JNull" for x
    by (cases x) (simp_all add: is_text_def of_optional_def)
  have number: "is_number (Some (of_number x)) \<or> of_number x = JNull" for x
    by (cases x) (simp_all add: is_number_def of_number_def)
  have ids: "of_optional (me_metric_id m) = JNull \<and> of_optional (me_output_key m) = JNull
      \<or> is_text (Some (of_optional (me_metric_id m))) \<and> is_text (Some (of_optional (me_output_key m)))"
    using assms by (cases "me_metric_id m"; cases "me_output_key m") (auto simp: metric_ok_def of_optional_def is_text_def)
  obtain kvs where kvs: "metric_json m = JObject kvs" "map fst kvs = map js metric_keys"
    by (simp add: metric_json_def metric_keys_def)
  have "list_all (\<lambda>(key, _). key \<in> set (map js metric_keys)) kvs"
    unfolding kvs(2) [symmetric] by (auto simp: list_all_iff intro: rev_image_eqI)
  moreover have "list_all (\<lambda>c. is_text (Some c)) (map JString ss)" and "is_text (Some (JString s))" for ss s
    by (simp_all add: is_text_def list_all_iff)
  ultimately show ?thesis
    using optional number ids unfolding metric_check_def kvs(1) by (simp add: metric_fields [of m, unfolded kvs(1)])
qed

lemma metrics_json_check:
  assumes "validateEvaluationMetrics metrics = Inr ()"
  shows "metrics_check (metrics_json metrics) \<longleftrightarrow> jsonb_octets (metrics_json metrics) \<le> 9437184
    \<and> \<not> some_text (db_credential True) (metrics_json metrics)"
  using assms by (auto simp: metrics_check_def metrics_json_def validateEvaluationMetrics_def result_simps
      MAX_EVALUATION_METRICS_def list_all_iff metric_json_check)

section \<open>Report identifiers and errors\<close>

text \<open>Report identifiers always fit: 32 of them have 16512 octets at most.\<close>

lemma session_unit_plain: "is_session_unit c \<Longrightarrow> escape_unit c = [c] \<and> unat c < 0x80"
proof -
  assume c: "is_session_unit c"
  have "32 \<le> unat c \<and> unat c < 128 \<and> unat c \<noteq> 34 \<and> unat c \<noteq> 92"
    using c by (auto simp: is_session_unit_def is_alnum_def is_lower_def is_upper_def is_digit_def in_range_def word_le_nat_alt)
  then show ?thesis by (auto simp: escape_unit_def word_less_nat_alt)
qed

lemma report_id_octets:
  assumes "PROVIDER_REPORT_ID i"
  shows "jsonb_octets (JString i) \<le> 514"
proof -
  have units: "list_all is_session_unit i" and short: "length i \<le> 512"
    using assms by (cases i; simp add: PROVIDER_REPORT_ID_def matches_name_def is_session_unit_def)+
  then have "concat (map escape_unit i) = i" by (induction i) (simp_all add: session_unit_plain)
  moreover have "is_ascii (json_quote i)"
    using units calculation by (simp add: is_ascii_def json_quote_def list_all_iff session_unit_plain)
  ultimately show ?thesis
    using short by (simp add: jsonb_octets.simps byte_length_def encode_utf8_ascii json_quote_def)
qed

lemma report_ids_octets:
  assumes "validateProviderReportIds ids = Inr ()"
  shows "jsonb_octets (report_ids_json ids) \<le> 16512"
proof -
  have few: "length ids \<le> 32" and short: "\<forall>i \<in> set ids. jsonb_octets (JString i) \<le> 514"
    using assms by (auto simp: validateProviderReportIds_def result_simps MAX_PROVIDER_REPORT_IDS_def list_all_iff report_id_octets)
  have "sum_list (map (\<lambda>i. jsonb_octets (JString i)) ids) \<le> length ids * 514"
    using short by (induction ids) auto
  then show ?thesis using few by (simp add: report_ids_json_def jsonb_octets.simps(5) comp_def)
qed

lemma report_ids_json_check:
  assumes "validateProviderReportIds ids = Inr ()"
  shows "report_ids_check (report_ids_json ids) \<longleftrightarrow> \<not> list_ex whole_secret_key ids"
  using assms report_ids_octets [OF assms]
  by (auto simp: report_ids_check_def report_ids_json_def report_id_check_def validateProviderReportIds_def
      result_simps MAX_PROVIDER_REPORT_IDS_def PROVIDER_REPORT_ID_def list_all_iff list_ex_iff)

lemma parse_report_ids_json:
  assumes "validateProviderReportIds ids = Inr ()"
  shows "parseStoredProviderReportIds (Some (report_ids_json ids)) = Inr (Some ids)"
proof -
  have "parse_texts (report_ids_json ids) = Inr ids"
    unfolding parse_texts_def report_ids_json_def by (simp add: traverseR_map traverseR_Inr_map [of ids _ "\<lambda>s. s"])
  then show ?thesis using assms by (simp add: parseStoredProviderReportIds_def revalidate_def)
qed

definition error_credential :: "failure_report \<Rightarrow> bool" where
  "error_credential e \<longleftrightarrow> list_ex (db_credential True) [fr_phase e, fr_code e, fr_message e]"

lemma error_json_check: "error_check (failure_json e) \<longleftrightarrow> jsonb_octets (failure_json e) \<le> 4096 \<and> \<not> error_credential e"
  by (auto simp: error_check_def failure_json_def error_credential_def)

lemma parse_failure_json:
  assumes "validateEvaluationError e = Inr ()"
  shows "parseStoredEvaluationError (Some (failure_json e)) = Inr (Some e)"
  using assms by (cases e) (simp add: parseStoredEvaluationError_def failure_json_def revalidate_def)

end
