(* ===== verification/Evaluation_Transitions.thy ===== *)
theory Evaluation_Transitions
  imports Evaluation_Results
begin

text \<open>
  What a transition makes of a row: which constraints it can violate, and what is read of the new row.
\<close>

section \<open>What the database refuses\<close>

text \<open>
  What only the database refuses: values that are too long in its own text of them, and credentials
  that the patterns of the code do not know.
\<close>

fun results_refused :: "run_transition \<Rightarrow> bool" where
  "results_refused ToRunning \<longleftrightarrow> False"
| "results_refused (ToCompleted metrics ids) \<longleftrightarrow> 9437184 < jsonb_octets (metrics_json metrics)
     \<or> some_text (db_credential True) (metrics_json metrics) \<or> list_ex whole_secret_key ids"
| "results_refused (ToFailedRun e) \<longleftrightarrow> 4096 < jsonb_octets (failure_json e) \<or> error_credential e"
| "results_refused (ToCancelled e) \<longleftrightarrow> 4096 < jsonb_octets (failure_json e) \<or> error_credential e"

text \<open>What a client sees of a run after a transition.\<close>

fun transition_view :: "int \<Rightarrow> run_transition \<Rightarrow> run_view \<Rightarrow> run_view" where
  "transition_view now ToRunning v = v\<lparr>rv_row := run_transition_row now ToRunning (rv_row v)\<rparr>"
| "transition_view now (ToCompleted metrics ids) v = v\<lparr>rv_row := run_transition_row now (ToCompleted metrics ids) (rv_row v),
     rv_metrics := Some (map stored_metric metrics), rv_provider_report_ids := Some ids\<rparr>"
| "transition_view now (ToFailedRun e) v = v\<lparr>rv_row := run_transition_row now (ToFailedRun e) (rv_row v), rv_error := Some e\<rparr>"
| "transition_view now (ToCancelled e) v = v\<lparr>rv_row := run_transition_row now (ToCancelled e) (rv_row v), rv_error := Some e\<rparr>"

lemma transition_run_identity_check: "run_identity_check (run_transition_row now input r) = run_identity_check r"
  by (cases input) (simp_all add: run_identity_check_def)

lemma transition_run_deployment_check: "run_deployment_check (run_transition_row now input r) = run_deployment_check r"
  by (cases input) (simp_all add: run_deployment_check_def)

lemma transition_run_source_check: "run_source_check (run_transition_row now input r) = run_source_check r"
  by (cases input) (simp_all add: run_source_check_def)

lemma transition_run_scoring_check: "run_scoring_check (run_transition_row now input r) = run_scoring_check r"
proof -
  let ?r = "run_transition_row now input r"
  have "scoring_check ?r = scoring_check r" by (intro ext; cases input) (simp_all add: scoring_check_def)
  moreover have "er_scoring_config ?r = er_scoring_config r" "er_primary_metric_id ?r = er_primary_metric_id r"
    "er_primary_output_key ?r = er_primary_output_key r" "er_create_profile ?r = er_create_profile r"
    by (cases input; simp)+
  ultimately show ?thesis
    unfolding run_scoring_check_def
    by (cases "er_scoring_config r"; cases "er_primary_metric_id r"; cases "er_primary_output_key r") simp_all
qed

lemma transition_run_archive_check: "run_archive_check (run_transition_row now input r) = run_archive_check r"
  by (cases input) (simp_all add: run_archive_check_def)

lemma transition_run_row_valid: "run_row_valid (run_transition_row now input r) = run_row_valid r"
  by (cases input) (simp_all add: run_row_valid_def create_of_run_def)

lemma transition_artifact_count: "artifact_count (run_transition_row now input r) = artifact_count r"
  by (cases input) (simp_all add: artifact_count_def)

lemmas transition_keeps_row = transition_run_identity_check transition_run_deployment_check transition_run_source_check transition_run_scoring_check transition_run_archive_check transition_run_row_valid transition_artifact_count

lemma transition_row_check:
  assumes "eval_check r" "er_status r \<in> run_sources input" "validateEvaluationRunTransition ns i input = Inr ()"
  shows "eval_check (run_transition_row now input r) \<longleftrightarrow> \<not> results_refused input"
proof -
  have ids: "report_ids_check (report_ids_json ids) \<longleftrightarrow> \<not> list_ex whole_secret_key ids"
    and metrics: "metrics_check (metrics_json metrics) \<longleftrightarrow> jsonb_octets (metrics_json metrics) \<le> 9437184
      \<and> \<not> some_text (db_credential True) (metrics_json metrics)"
    if "input = ToCompleted metrics ids" for metrics ids
    using assms(3) that
    by (auto simp: validateEvaluationRunTransition_def result_simps intro!: report_ids_json_check metrics_json_check)
  have "run_json_check (run_transition_row now input r) \<longleftrightarrow> \<not> results_refused input"
    using assms(1) unfolding eval_check_def run_json_check_def
    by (cases input) (simp_all add: metrics ids error_json_check not_less conj_ac)
  moreover have "run_execution_check (run_transition_row now input r)"
    using assms(1,2) unfolding eval_check_def run_execution_check_def
    by (cases input; cases "er_status r") (simp_all add: is_finished_def split: option.split)
  ultimately show ?thesis using assms(1) unfolding eval_check_def transition_keeps_row by blast
qed

text \<open>Reading a row, as conditions on its columns.\<close>

definition columns_agree :: "evaluation_run \<Rightarrow> run_view \<Rightarrow> bool" where
  "columns_agree r v \<longleftrightarrow> er_provider r = js ''evalscope''
     \<and> is_finished (er_status r) = (er_finished_at r \<noteq> None)
     \<and> \<not> (er_status r \<in> {RunningRun, CompletedRun} \<and> er_started_at r = None)
     \<and> (er_status r = CompletedRun) = (rv_metrics v \<noteq> None \<and> rv_provider_report_ids v \<noteq> None)
     \<and> (er_status r \<in> {FailedRun, CancelledRun}) = (rv_error v \<noteq> None)
     \<and> artifact_count r \<in> {0, 3} \<and> (er_archive_status r = AvailableArchive) = (artifact_count r = 3)
     \<and> (er_archive_status r = FailedArchive) = (rv_archive_error v \<noteq> None)
     \<and> null_or is_json_object (er_scoring_config r) \<and> is_json_object (er_converter_options r) \<and> run_row_valid r = Inr ()"

lemma run_read_iff:
  "sqlRowToEvaluationRun r = Inr v \<longleftrightarrow> rv_row v = r \<and> columns_agree r v
    \<and> parseStoredProviderReportIds (er_provider_report_ids r) = Inr (rv_provider_report_ids v)
    \<and> parseStoredEvaluationMetrics (er_metrics r) = Inr (rv_metrics v)
    \<and> parseStoredEvaluationError (er_error r) = Inr (rv_error v)
    \<and> parseStoredEvaluationError (er_archive_error r) = Inr (rv_archive_error v)"
proof -
  have scoring: "(case er_scoring_config r of None \<Rightarrow> Inr None
       | Some config \<Rightarrow> bindR (parseStoredJsonObject config) (\<lambda>c. Inr (Some c)))
      = (if null_or is_json_object (er_scoring_config r) then Inr (er_scoring_config r) else Inl ConsistencyError)"
    by (cases "er_scoring_config r") (simp_all add: parseStoredJsonObject_def ensure_def)
  have valid: "revalidate m = Inr u \<longleftrightarrow> m = Inr ()" for m u by (auto simp: revalidate_def split: sum.splits)
  have accepted: "(if p then Inr x else Inl e) = Inr y \<longleftrightarrow> p \<and> y = x" for p and x y :: 'a and e :: catalog_error
    by auto
  have object: "parseStoredJsonObject x = Inr y \<longleftrightarrow> is_json_object x \<and> y = x" for x y
    by (auto simp: parseStoredJsonObject_def result_simps)
  show ?thesis
    unfolding sqlRowToEvaluationRun_def scoring columns_agree_def
    by (cases v, simp add: bindR_eq_Inr ensure_eq valid object accepted del: js_simps)
      (rule iffI; elim conjE; intro conjI; (assumption | erule sym))
qed

lemma transition_row_read:
  assumes "sqlRowToEvaluationRun r = Inr v" "er_status r \<in> run_sources input" "validateEvaluationRunTransition ns i input = Inr ()"
  shows "sqlRowToEvaluationRun (run_transition_row now input r) = Inr (transition_view now input v)"
proof -
  have metrics: "parseStoredEvaluationMetrics (Some (metrics_json metrics)) = Inr (Some (map stored_metric metrics))"
    and ids: "parseStoredProviderReportIds (Some (report_ids_json ids)) = Inr (Some ids)"
    if "input = ToCompleted metrics ids" for metrics ids
    using assms(3) that
    by (auto simp: validateEvaluationRunTransition_def result_simps intro!: parse_metrics_json parse_report_ids_json)
  have error: "parseStoredEvaluationError (Some (failure_json e)) = Inr (Some e)"
    if "input = ToFailedRun e \<or> input = ToCancelled e" for e
    using assms(3) that by (auto simp: validateEvaluationRunTransition_def result_simps intro!: parse_failure_json)
  show ?thesis
    using assms(1,2) unfolding run_read_iff columns_agree_def transition_keeps_row
    by (cases input; cases "er_status r";
        simp add: is_finished_def metrics ids error del: js_simps split del: if_split split: option.split)
qed

text \<open>
  The updates are statements of their own, so a row that could not be read afterwards would stay
  changed. The steps of an archive, too, write only rows that are read.
\<close>

definition archived_row :: "archive_status \<Rightarrow> int \<Rightarrow> failure_report option \<Rightarrow> int \<Rightarrow> evaluation_run \<Rightarrow> evaluation_run" where
  "archived_row status attempt e now r = r\<lparr>er_archive_status := status, er_archive_attempt := attempt,
     er_archive_error := map_option failure_json e, er_updated_at := now\<rparr>"

lemma archive_row_read:
  assumes "sqlRowToEvaluationRun r = Inr v" "er_archive_status r \<noteq> AvailableArchive" "status \<noteq> AvailableArchive"
    and "(status = FailedArchive) = (e \<noteq> None)" "0 \<le> attempt" "attempt \<le> POSTGRES_INTEGER_MAX" "null_or (\<lambda>x. validateEvaluationError x = Inr ()) e"
  shows "sqlRowToEvaluationRun (archived_row status attempt e now r)
    = Inr (v\<lparr>rv_row := archived_row status attempt e now r, rv_archive_error := e\<rparr>)"
proof -
  let ?r = "archived_row status attempt e now r"
  have read: "parseStoredEvaluationError (er_archive_error ?r) = Inr e"
    using assms(7) by (cases e) (simp_all add: archived_row_def parse_failure_json parseStoredEvaluationError_def [of None])
  have "run_row_valid r = Inr ()" using run_readable_valid assms(1) run_readable_Inr by blast
  then have valid: "run_row_valid ?r = Inr ()"
    using assms(5,6) by (simp add: run_row_valid_def archived_row_def create_of_run_def is_safe_integer_def POSTGRES_INTEGER_MAX_def result_simps)
  have "artifact_count r = 0" using assms(1,2) unfolding run_read_iff columns_agree_def by auto
  then have count: "artifact_count ?r = 0" by (simp add: artifact_count_def archived_row_def)
  show ?thesis
    using assms(1-4) read valid count unfolding run_read_iff columns_agree_def by (cases "er_status r") (simp_all add: archived_row_def)
qed

lemma available_row_read:
  assumes "sqlRowToEvaluationRun r = Inr v" "validateFinalizeEvaluationArchive ns i attempt key digest bytes = Inr ()"
    and s: "s = r\<lparr>er_archive_status := AvailableArchive, er_result_artifact_key := Some key, er_result_artifact_digest := Some digest,
      er_result_artifact_size_bytes := Some bytes, er_archive_error := None, er_updated_at := now\<rparr>"
  shows "sqlRowToEvaluationRun s = Inr (v\<lparr>rv_row := s, rv_archive_error := None\<rparr>)"
proof -
  have "run_row_valid r = Inr ()" using run_readable_valid assms(1) run_readable_Inr by blast
  then have "run_row_valid s = Inr ()"
    using assms(2) by (simp add: s validateFinalizeEvaluationArchive_def run_row_valid_def create_of_run_def result_simps not_less not_le)
  moreover have "artifact_count s = 3" by (simp add: artifact_count_def s)
  moreover have "parseStoredEvaluationError (er_archive_error s) = Inr None" by (simp add: s parseStoredEvaluationError_def)
  ultimately show ?thesis
    using assms(1) unfolding run_read_iff columns_agree_def by (cases "er_status r") (simp_all add: s)
qed

lemma transition_refused:
  "validateEvaluationRunTransition ns i input \<noteq> Inr () \<Longrightarrow> validateEvaluationRunTransition ns i input = Inl InputError"
proof -
  have input: "m = Inr () \<or> m = Inl InputError \<Longrightarrow> m' = Inr () \<or> m' = Inl InputError
      \<Longrightarrow> bindR m (\<lambda>_. m') = Inr () \<or> bindR m (\<lambda>_. m') = Inl InputError" for m m' :: "unit catalog"
    by auto
  have ensured: "ensure p InputError = Inr () \<or> ensure p InputError = Inl InputError" for p by (cases p) simp_all
  have "validateEvaluationRunTransition ns i input = Inr () \<or> validateEvaluationRunTransition ns i input = Inl InputError"
    unfolding validateEvaluationRunTransition_def validateNamespaceId_def validateEvaluationRunId_def
    by (intro input ensured; cases input;
        simp add: validateEvaluationMetrics_def validateProviderReportIds_def validateEvaluationError_def validateEvaluationText_def;
        intro input ensured)
  then show "validateEvaluationRunTransition ns i input \<noteq> Inr () \<Longrightarrow> ?thesis" by blast
qed

end
