(* ===== verification/Evaluation_Example.thy ===== *)
theory Evaluation_Example
  imports Evaluation_Transitions Studio_Example
begin

text \<open>
  A run that is prepared, runs and completes with a metric, and whose archive fails once and is begun
  again: states that are evaluated, so that the hypotheses of the properties can be seen to hold.
\<close>

definition ex_run_request :: create_run where
  "ex_run_request = \<lparr>cr_namespace_id = ex_uuid 0x61, cr_provider = js ''evalscope'', cr_provider_task_id = js ''t1'',
     cr_create_profile = CreateV1, cr_create_request_digest = ex_digest 0x62, cr_dataset_version = ex_digest 0x61,
     cr_source_ref = None, cr_converter = js ''evalscope'', cr_converter_version = js ''1.0.0'',
     cr_converter_options = JObject [], cr_fidelity_digest = ex_digest 0x63, cr_benchmark = js ''arc'',
     cr_model_name = None, cr_model_deployment_id = None, cr_model_artifact_id = None, cr_model_deployment_digest = None,
     cr_model_id = None, cr_model_version_id = None, cr_source_mutability = None, cr_verification_level = None,
     cr_source_evidence_digest = None, cr_evalscope_commit = None, cr_scoring_config = None,
     cr_primary_metric_id = None, cr_primary_output_key = None\<rparr>"

definition ex_metric :: evaluation_metric where
  "ex_metric = \<lparr>me_dataset = js ''arc'', me_subset = None, me_metric_id = None, me_output_key = None, me_metric = js ''acc'',
     me_score = Some (Finite False 5 (- 1)), me_sample_count = Some (Finite False 7 0), me_categories = []\<rparr>"

definition ex_archive_error :: failure_report where
  "ex_archive_error = \<lparr>fr_phase = js ''put'', fr_code = js ''lost'', fr_message = js ''gone''\<rparr>"

lemma ex_run_request_ok: "validateCreateEvaluationRun ex_run_request = Inr ()"
proof -
  have "PROVIDER_TASK_ID (js ''t1'')" "SAFE_EVALUATION_NAME (js ''evalscope'')" "SAFE_EVALUATION_VERSION (js ''1.0.0'')"
    "SAFE_EVALUATION_NAME (js ''arc'')" by code_simp+
  moreover have "byte_length (json_stringify (JObject [])) \<le> MAX_EVALUATION_OPTIONS_BYTES"
    by (rule json_fits) (simp add: MAX_EVALUATION_OPTIONS_BYTES_def)
  ultimately show ?thesis
    by (simp add: validateCreateEvaluationRun_def ex_run_request_def validateNamespaceId_def ex_uuid_ok ex_digests ex_hex
        deployment_binding_ok_def source_snapshot_ok_def scoring_ok_def has_deployment_profile_def is_legacy_profile_def
        is_version_profile_def is_metric_profile_def Let_def del: js_simps json_stringify.simps)
qed

lemma ex_metrics_ok: "validateEvaluationMetrics [ex_metric] = Inr ()"
proof -
  have "text_ok 512 (js ''arc'')" "text_ok 512 (js ''acc'')" "is_size (Finite False 7 0)" by code_simp+
  moreover have "byte_length (json_stringify (JArray (map metric_argument [ex_metric]))) \<le> MAX_EVALUATION_METRICS_BYTES"
  proof (rule json_fits)
    have "length (magnitude_to_string 5 (- 1)) = 3" "length (magnitude_to_string 7 0) = 1" by code_simp+
    then show "4 * json_bound (JArray (map metric_argument [ex_metric])) \<le> MAX_EVALUATION_METRICS_BYTES"
      by (simp add: MAX_EVALUATION_METRICS_BYTES_def metric_argument_def ex_metric_def of_optional_def of_number_def)
  qed
  ultimately show ?thesis
    by (simp add: validateEvaluationMetrics_def metric_ok_def ex_metric_def MAX_EVALUATION_METRICS_def del: js_simps json_stringify.simps)
qed

lemma ex_archive_error_ok: "validateEvaluationError ex_archive_error = Inr ()"
proof -
  have "SAFE_EVALUATION_NAME (js ''put'')" "SAFE_EVALUATION_NAME (js ''lost'')" "text_ok 2048 (js ''gone'')" by code_simp+
  then show ?thesis by (simp add: validateEvaluationError_def ex_archive_error_def validateEvaluationText_def)
qed

section \<open>The rows\<close>

definition ex_prepared :: evaluation_run where "ex_prepared = new_run_row 10 (ex_uuid 0x62) ex_run_request"
definition ex_running :: evaluation_run where "ex_running = run_transition_row 20 ToRunning ex_prepared"
definition ex_done :: evaluation_run where "ex_done = run_transition_row 30 (ToCompleted [ex_metric] [js ''r1'']) ex_running"

definition ex_archive :: "archive_status \<Rightarrow> int \<Rightarrow> json option \<Rightarrow> int \<Rightarrow> evaluation_run" where
  "ex_archive status attempt e now = ex_done\<lparr>er_archive_status := status, er_archive_attempt := attempt, er_archive_error := e,
     er_updated_at := now\<rparr>"

definition ex_pending :: evaluation_run where "ex_pending = ex_archive PendingArchive 1 None 40"
definition ex_lost :: evaluation_run where "ex_lost = ex_archive FailedArchive 1 (Some (failure_json ex_archive_error)) 50"
definition ex_again :: evaluation_run where "ex_again = ex_archive PendingArchive 2 None 60"

lemmas ex_rows = ex_again_def ex_lost_def ex_pending_def ex_archive_def ex_done_def ex_running_def ex_prepared_def

lemma ex_run_fields:
  assumes "r \<in> {ex_prepared, ex_running, ex_done, ex_pending, ex_lost, ex_again}"
  shows "er_namespace_id r = ex_uuid 0x61" "er_id r = ex_uuid 0x62" "create_of_run r = ex_run_request"
  using assms by (auto simp: ex_rows new_run_row_def ex_run_request_def create_of_run_def)

lemma ex_run_ids:
  "er_namespace_id ex_prepared = ex_uuid 0x61" "er_id ex_prepared = ex_uuid 0x62"
  "er_namespace_id ex_running = ex_uuid 0x61" "er_id ex_running = ex_uuid 0x62"
  "er_namespace_id ex_done = ex_uuid 0x61" "er_id ex_done = ex_uuid 0x62"
  "er_namespace_id ex_pending = ex_uuid 0x61" "er_id ex_pending = ex_uuid 0x62"
  "er_namespace_id ex_lost = ex_uuid 0x61" "er_id ex_lost = ex_uuid 0x62"
  "er_namespace_id ex_again = ex_uuid 0x61" "er_id ex_again = ex_uuid 0x62"
  by (rule ex_run_fields; simp only: insert_iff simp_thms)+

lemma ex_run_states:
  "er_status ex_prepared = PreparedRun" "er_status ex_running = RunningRun" "er_status ex_done = CompletedRun"
  "er_status ex_pending = CompletedRun" "er_status ex_lost = CompletedRun" "er_status ex_again = CompletedRun"
  "er_archive_status ex_done = NotRequested" "er_archive_status ex_pending = PendingArchive"
  "er_archive_status ex_lost = FailedArchive" "er_archive_status ex_again = PendingArchive"
  "er_archive_attempt ex_pending = 1" "er_archive_attempt ex_lost = 1" "er_archive_attempt ex_again = 2"
  by (simp_all add: ex_rows new_run_row_def)

lemma ex_transitions_ok:
  "validateEvaluationRunTransition (ex_uuid 0x61) (ex_uuid 0x62) ToRunning = Inr ()"
  "validateEvaluationRunTransition (ex_uuid 0x61) (ex_uuid 0x62) (ToCompleted [ex_metric] [js ''r1'']) = Inr ()"
proof -
  have "PROVIDER_REPORT_ID (js ''r1'')" "byte_length (js ''r1'') \<le> 512" "\<not> CREDENTIAL_VALUE (js ''r1'')" by code_simp+
  then show "validateEvaluationRunTransition (ex_uuid 0x61) (ex_uuid 0x62) ToRunning = Inr ()"
    "validateEvaluationRunTransition (ex_uuid 0x61) (ex_uuid 0x62) (ToCompleted [ex_metric] [js ''r1'']) = Inr ()"
    by (simp_all add: validateEvaluationRunTransition_def validateNamespaceId_def validateEvaluationRunId_def ex_uuid_ok ex_hex
        ex_metrics_ok validateProviderReportIds_def MAX_PROVIDER_REPORT_IDS_def del: js_simps)
qed

lemma ex_results_accepted: "\<not> results_refused (ToCompleted [ex_metric] [js ''r1''])"
proof -
  have "\<not> some_text (db_credential True) (metrics_json [ex_metric])" "\<not> list_ex whole_secret_key [js ''r1'']"
    "jsonb_octets (metrics_json [ex_metric]) = 143" by code_simp+
  then show ?thesis by simp
qed

lemma ex_prepared_check: "eval_check ex_prepared"
proof -
  have "SWIFT_PROVIDER_SESSION_ID (js ''t1'')" "SAFE_EVALUATION_NAME (js ''evalscope'')" "SAFE_WORKER_VERSION (js ''1.0.0'')"
    "SAFE_EVALUATION_NAME (js ''arc'')" "byte_length (js ''t1'') = 2" by code_simp+
  then show ?thesis
    by (simp add: eval_check_def run_identity_check_def run_deployment_check_def run_source_check_def run_scoring_check_def
        run_json_check_def run_execution_check_def run_archive_check_def ex_prepared_def new_run_row_def ex_run_request_def ex_digests ex_hex
        has_deployment_profile_def is_version_profile_def is_metric_profile_def is_finished_def POSTGRES_INTEGER_MAX_def jsonb_octets.simps
        del: js_simps)
qed

lemma ex_row_valid:
  assumes "r \<in> {ex_prepared, ex_running, ex_done, ex_pending, ex_lost, ex_again}"
  shows "run_row_valid r = Inr ()"
  using ex_run_fields(3) [OF assms] assms by (auto simp: run_row_valid_def ex_run_request_ok ex_rows new_run_row_def is_safe_integer_def)

lemma ex_transition_checks: "eval_check ex_running" "eval_check ex_done"
proof -
  show running: "eval_check ex_running"
    using transition_row_check [OF ex_prepared_check _ ex_transitions_ok(1), of 20] ex_run_states(1) by (simp add: ex_running_def)
  show "eval_check ex_done"
    using transition_row_check [OF running _ ex_transitions_ok(2), of 30] ex_run_states(2) ex_results_accepted
    by (simp add: ex_done_def del: results_refused.simps run_transition_row.simps)
qed

text \<open>The archive changes a few columns of a completed run.\<close>

lemma ex_archive_check:
  assumes "null_or (\<lambda>v. is_json_object v \<and> jsonb_octets v \<le> 4096) err" "0 \<le> attempt" "attempt \<le> 2"
    and "status \<noteq> AvailableArchive" "(status = FailedArchive) = (err \<noteq> None)"
  shows "eval_check (ex_archive status attempt err now)"
proof -
  let ?r = "ex_archive status attempt err now"
  have none: "er_result_artifact_key ex_done = None" "er_result_artifact_digest ex_done = None" "er_result_artifact_size_bytes ex_done = None"
    by (simp_all add: ex_rows new_run_row_def)
  have "run_identity_check ?r = run_identity_check ex_done" "run_deployment_check ?r = run_deployment_check ex_done"
    "run_source_check ?r = run_source_check ex_done" "run_execution_check ?r = run_execution_check ex_done"
    by (simp_all add: ex_archive_def run_identity_check_def run_deployment_check_def run_source_check_def run_execution_check_def)
  moreover have "run_scoring_check ?r" by (simp add: run_scoring_check_def ex_rows new_run_row_def ex_run_request_def is_metric_profile_def)
  moreover have "run_archive_check ?r" using assms none by (simp add: run_archive_check_def ex_archive_def POSTGRES_INTEGER_MAX_def)
  moreover have "run_json_check ?r"
    using ex_transition_checks(2) assms(1) unfolding eval_check_def run_json_check_def by (simp add: ex_archive_def)
  ultimately show ?thesis using ex_transition_checks(2) unfolding eval_check_def by simp
qed

lemma ex_archive_checks: "eval_check ex_pending" "eval_check ex_lost" "eval_check ex_again"
proof -
  have "jsonb_octets (failure_json ex_archive_error) = 51" by code_simp
  then show "eval_check ex_pending" "eval_check ex_lost" "eval_check ex_again"
    unfolding ex_pending_def ex_lost_def ex_again_def by (intro ex_archive_check; simp add: failure_json_def)+
qed

lemma ex_prepared_read:
  "sqlRowToEvaluationRun ex_prepared = Inr \<lparr>rv_row = ex_prepared, rv_provider_report_ids = None, rv_metrics = None, rv_error = None, rv_archive_error = None\<rparr>"
  unfolding run_read_iff columns_agree_def
  using ex_row_valid [of ex_prepared]
  by (simp add: ex_prepared_def new_run_row_def ex_run_request_def is_finished_def artifact_count_def parseStoredProviderReportIds_def
      parseStoredEvaluationMetrics_def parseStoredEvaluationError_def del: js_simps)

definition ex_view :: "evaluation_run \<Rightarrow> failure_report option \<Rightarrow> run_view" where
  "ex_view r e = \<lparr>rv_row = r, rv_provider_report_ids = Some [js ''r1''], rv_metrics = Some (map stored_metric [ex_metric]), rv_error = None,
     rv_archive_error = e\<rparr>"

lemma ex_reads:
  "sqlRowToEvaluationRun ex_running = Inr \<lparr>rv_row = ex_running, rv_provider_report_ids = None, rv_metrics = None, rv_error = None, rv_archive_error = None\<rparr>"
  "sqlRowToEvaluationRun ex_done = Inr (ex_view ex_done None)"
proof -
  show running: "sqlRowToEvaluationRun ex_running = Inr \<lparr>rv_row = ex_running, rv_provider_report_ids = None, rv_metrics = None, rv_error = None, rv_archive_error = None\<rparr>"
    using transition_row_read [OF ex_prepared_read _ ex_transitions_ok(1), of 20] ex_run_states(1) by (simp add: ex_running_def)
  show "sqlRowToEvaluationRun ex_done = Inr (ex_view ex_done None)"
    using transition_row_read [OF running _ ex_transitions_ok(2), of 30] ex_run_states(2)
    by (simp add: ex_done_def ex_view_def del: run_transition_row.simps)
qed

lemma ex_archive_read:
  assumes "parseStoredEvaluationError err = Inr v" "(status = FailedArchive) = (v \<noteq> None)" "status \<noteq> AvailableArchive"
    and valid: "run_row_valid (ex_archive status attempt err now) = Inr ()"
  shows "sqlRowToEvaluationRun (ex_archive status attempt err now) = Inr (ex_view (ex_archive status attempt err now) v)"
proof -
  let ?r = "ex_archive status attempt err now"
  have count: "artifact_count ?r = 0" by (simp add: artifact_count_def ex_rows new_run_row_def)
  show ?thesis
    using ex_reads(2) assms(1-3) valid count unfolding run_read_iff columns_agree_def
    by (simp add: ex_view_def ex_archive_def ex_run_states(3) del: js_simps)
qed

lemma ex_archive_reads:
  "sqlRowToEvaluationRun ex_pending = Inr (ex_view ex_pending None)"
  "sqlRowToEvaluationRun ex_lost = Inr (ex_view ex_lost (Some ex_archive_error))"
  "sqlRowToEvaluationRun ex_again = Inr (ex_view ex_again None)"
proof -
  have none: "parseStoredEvaluationError None = Inr None" by (simp add: parseStoredEvaluationError_def)
  show "sqlRowToEvaluationRun ex_pending = Inr (ex_view ex_pending None)"
    "sqlRowToEvaluationRun ex_again = Inr (ex_view ex_again None)"
    using ex_row_valid [of ex_pending] ex_row_valid [of ex_again] none
    unfolding ex_pending_def ex_again_def by (intro ex_archive_read; simp)+
  show "sqlRowToEvaluationRun ex_lost = Inr (ex_view ex_lost (Some ex_archive_error))"
    using ex_row_valid [of ex_lost] parse_failure_json [OF ex_archive_error_ok]
    unfolding ex_lost_def by (intro ex_archive_read; simp)
qed

section \<open>The operations\<close>

definition ex_eval :: "evaluation_run list \<Rightarrow> eval_db" where
  "ex_eval rs = \<lparr>ed_catalog = ex_catalog, ed_registry = \<lparr>rg_deployments = [], rg_versions = [], rg_evidence = []\<rparr>, ed_runs = rs\<rparr>"

lemma ex_step_create:
  "eval_exec (CreateRun 10 (ex_uuid 0x62) ex_run_request) (ex_eval []) = Inr (ex_eval [ex_prepared])"
proof -
  have "evaluation_fks (ex_eval []) ex_prepared" "source_binding_check (ex_eval [ex_prepared]) ex_prepared" "admit_run ex_run_request (ex_eval []) = Inr ()"
    using ex_catalog_rows
    by (simp_all add: evaluation_fks_def source_binding_check_def admit_run_def ex_eval_def ex_prepared_def new_run_row_def ex_run_request_def
        is_version_profile_def has_deployment_profile_def)
  then show ?thesis
    using ex_prepared_check ex_prepared_read ex_run_request_ok
    by (simp add: createOrReadEvaluationRun_def insert_run_def runs_of_task_def one_run_def insert_on_conflict_do_nothing_def
        select_where_def ex_eval_def flip: ex_prepared_def)
qed

lemma ex_updates:
  "update_runs p f (ex_eval [r]) = (if p r then bindR (ensure (eval_check (f r)) CheckViolation) (\<lambda>_. Inr (ex_eval [f r], [f r])) else Inr (ex_eval [r], []))"
  by (simp add: update_runs_def ex_eval_def returning_def update_where_def)

lemma ex_update_step:
  assumes "p r" "eval_check (f r)" "sqlRowToEvaluationRun (f r) = Inr v"
  shows "ran_eval (bindR (update_runs p f (ex_eval [r])) (updated_or_current ns i)) = Inr (ex_eval [f r])"
  using assms by (simp add: ex_updates updated_or_current_def one_run_def)

lemma ex_step_running:
  "eval_exec (TransitionRun 20 (ex_uuid 0x61) (ex_uuid 0x62) ToRunning) (ex_eval [ex_prepared]) = Inr (ex_eval [ex_running])"
  unfolding eval_exec.simps transitionEvaluationRun_def ex_transitions_ok(1) bindR_simps ex_running_def
  by (rule ex_update_step) (use ex_transition_checks(1) ex_reads(1) ex_run_ids ex_run_states(1) in
      \<open>simp_all only: ex_running_def run_sources.simps insert_iff simp_thms\<close>)

lemma ex_step_done:
  "eval_exec (TransitionRun 30 (ex_uuid 0x61) (ex_uuid 0x62) (ToCompleted [ex_metric] [js ''r1''])) (ex_eval [ex_running]) = Inr (ex_eval [ex_done])"
  unfolding eval_exec.simps transitionEvaluationRun_def ex_transitions_ok(2) bindR_simps ex_done_def
proof (rule ex_update_step)
  show "er_namespace_id ex_running = ex_uuid 0x61 \<and> er_id ex_running = ex_uuid 0x62
      \<and> er_status ex_running \<in> run_sources (ToCompleted [ex_metric] [js ''r1''])"
    by (simp only: ex_run_ids ex_run_states(2) run_sources.simps insert_iff simp_thms)
qed (use ex_transition_checks(2) ex_reads(2) in \<open>simp_all only: ex_done_def\<close>)

lemma ex_identity: "validateEvaluationArchiveIdentity (ex_uuid 0x61) (ex_uuid 0x62) = Inr ()"
  "validateEvaluationArchiveAttempt (ex_uuid 0x61) (ex_uuid 0x62) 1 = Inr ()"
  by (simp_all add: validateEvaluationArchiveIdentity_def validateEvaluationArchiveAttempt_def validateNamespaceId_def validateEvaluationRunId_def
      ex_uuid_ok ex_hex is_safe_integer_def)

lemma ex_step_archive:
  "eval_exec (PrepareArchive 40 (ex_uuid 0x61) (ex_uuid 0x62)) (ex_eval [ex_done]) = Inr (ex_eval [ex_pending])"
  "eval_exec (FailArchive 50 (ex_uuid 0x61) (ex_uuid 0x62) 1 ex_archive_error) (ex_eval [ex_pending]) = Inr (ex_eval [ex_lost])"
  "eval_exec (PrepareArchive 60 (ex_uuid 0x61) (ex_uuid 0x62)) (ex_eval [ex_lost]) = Inr (ex_eval [ex_again])"
proof -
  have pending: "ex_pending = ex_done\<lparr>er_archive_status := PendingArchive, er_archive_attempt := er_archive_attempt ex_done + 1,
      er_archive_error := None, er_updated_at := 40\<rparr>"
    by (simp add: ex_rows new_run_row_def)
  have lost: "ex_lost = ex_pending\<lparr>er_archive_status := FailedArchive, er_archive_error := Some (failure_json ex_archive_error),
      er_updated_at := 50\<rparr>"
    by (simp add: ex_pending_def ex_lost_def ex_archive_def)
  have again: "ex_again = ex_lost\<lparr>er_archive_status := PendingArchive, er_archive_attempt := er_archive_attempt ex_lost + 1,
      er_archive_error := None, er_updated_at := 60\<rparr>"
    by (simp add: ex_lost_def ex_again_def ex_archive_def)
  show "eval_exec (PrepareArchive 40 (ex_uuid 0x61) (ex_uuid 0x62)) (ex_eval [ex_done]) = Inr (ex_eval [ex_pending])"
    unfolding eval_exec.simps prepareEvaluationRunArchive_def ex_identity bindR_simps pending
    by (rule ex_update_step) (use ex_run_ids ex_run_states(3,7) ex_archive_checks(1) ex_archive_reads(1) in \<open>simp_all only: pending insert_iff simp_thms\<close>)
  show "eval_exec (FailArchive 50 (ex_uuid 0x61) (ex_uuid 0x62) 1 ex_archive_error) (ex_eval [ex_pending]) = Inr (ex_eval [ex_lost])"
    unfolding eval_exec.simps failEvaluationRunArchive_def ex_identity ex_archive_error_ok bindR_simps lost
    by (rule ex_update_step) (use ex_run_ids ex_run_states(8,11) ex_archive_checks(2) ex_archive_reads(2) in \<open>simp_all only: lost at_attempt_def insert_iff simp_thms\<close>)
  show "eval_exec (PrepareArchive 60 (ex_uuid 0x61) (ex_uuid 0x62)) (ex_eval [ex_lost]) = Inr (ex_eval [ex_again])"
    unfolding eval_exec.simps prepareEvaluationRunArchive_def ex_identity bindR_simps again
    by (rule ex_update_step) (use ex_run_ids ex_run_states(5,9) ex_archive_checks(3) ex_archive_reads(3) in \<open>simp_all only: again insert_iff simp_thms\<close>)
qed

lemma ex_eval_reachable: "eval_reachable (ex_eval [ex_running])" "eval_reachable (ex_eval [ex_lost])"
proof -
  have "empty_eval ex_catalog \<lparr>rg_deployments = [], rg_versions = [], rg_evidence = []\<rparr> = ex_eval []"
    by (simp add: empty_eval_def ex_eval_def)
  then have start: "eval_reachable (ex_eval [])" unfolding eval_reachable_def by (metis eval_steps.stay)
  have step: "eval_reachable a \<Longrightarrow> eval_exec op a = Inr b \<Longrightarrow> eval_reachable b" for a b op
    using eval_reachable_steps eval_steps.move eval_steps.stay by blast
  show running: "eval_reachable (ex_eval [ex_running])"
    by (rule step [OF step [OF start ex_step_create] ex_step_running])
  show "eval_reachable (ex_eval [ex_lost])"
    by (rule step [OF step [OF step [OF running ex_step_done] ex_step_archive(1)] ex_step_archive(2)])
qed

lemma ex_begun_again: "eval_steps (ex_eval [ex_lost]) (ex_eval [ex_again])"
  using eval_steps.move eval_steps.stay ex_step_archive(3) by blast

end
