(* ===== verification/Evaluation_Claims.thy ===== *)
theory Evaluation_Claims
  imports Evaluation_Example
begin

text \<open>
  What evaluation runs promise in every state their operations can reach, each with a run of the
  operations that shows its hypotheses can hold.
\<close>

section \<open>Transitions\<close>

text \<open>
  C24: On a run of any reachable state a transition has exactly one of four outcomes: the request is
  refused with an input error, the run is not in a status the transition starts from and is returned
  as it is, the database finds the results too long or a credential in them that the code did not see, or the run moves on, the results are
  stored, and they are returned as they were reported (with zero for negative zero).
\<close>

theorem run_transition_exact:
  assumes "eval_reachable db" "r \<in> set (ed_runs db)" "sqlRowToEvaluationRun r = Inr v"
  shows "transitionEvaluationRun now (er_namespace_id r) (er_id r) input db =
    (if validateEvaluationRunTransition (er_namespace_id r) (er_id r) input \<noteq> Inr () then Inl InputError
     else if er_status r \<notin> run_sources input then Inr (db, Some v)
     else if results_refused input then Inl CheckViolation
     else Inr (db\<lparr>ed_runs := update_where (\<lambda>s. er_id s = er_id r) (run_transition_row now input) (ed_runs db)\<rparr>,
       Some (transition_view now input v)))"
proof -
  let ?ns = "er_namespace_id r" and ?i = "er_id r"
  let ?p = "\<lambda>s. er_namespace_id s = ?ns \<and> er_id s = ?i \<and> er_status s \<in> run_sources input"
  let ?f = "run_transition_row now input"
  have ok: "eval_ok db" using assms(1) by (rule eval_reachable_ok)
  have ids: "distinct (map er_id (ed_runs db))" using ok by (simp add: eval_ok_def)
  have same: "s = r" if "s \<in> set (ed_runs db)" "er_id s = ?i" for s
    using ids assms(2) that by (auto simp: distinct_map dest: inj_onD)
  have check: "eval_check r" using ok assms(2) eval_ok_row by blast
  show ?thesis
  proof (cases "validateEvaluationRunTransition ?ns ?i input = Inr ()")
    case True
    then have valid: "validateNamespaceId ?ns = Inr ()" "validateEvaluationRunId ?i = Inr ()"
      by (auto simp: validateEvaluationRunTransition_def result_simps)
    show ?thesis
    proof (cases "er_status r \<in> run_sources input")
      case moves: True
      have selected: "returning ?p ?f (ed_runs db) = [?f r]"
        unfolding returning_select using select_one [OF ids assms(2), of ?p] moves by simp
      have changed: "update_where ?p ?f (ed_runs db) = update_where (\<lambda>s. er_id s = ?i) ?f (ed_runs db)"
        unfolding update_where_def using same moves by (intro map_cong) auto
      show ?thesis
        unfolding transitionEvaluationRun_def True update_runs_def selected changed
        using moves transition_row_check [OF check moves True, of now] transition_row_read [OF assms(3) moves True, of now] True
        by (simp add: updated_or_current_def one_run_def ensure_def del: transition_view.simps run_transition_row.simps)
    next
      case False
      have none: "\<forall>s \<in> set (ed_runs db). \<not> ?p s" using same False by blast
      then have "returning ?p ?f (ed_runs db) = []" by (simp add: returning_def filter_empty_conv)
      moreover have "getEvaluationRun ?ns ?i db = Inr (Some v)"
        using valid eval_ok_select [OF ok assms(2)] assms(3) by (simp add: getEvaluationRun_def one_run_def)
      ultimately show ?thesis
        unfolding transitionEvaluationRun_def True update_runs_def update_where_none [OF none]
        using False True by (simp add: updated_or_current_def one_run_def)
    qed
  qed (simp add: transitionEvaluationRun_def transition_refused)
qed

lemma run_transition_exact_witness:
  "transitionEvaluationRun 30 (ex_uuid 0x61) (ex_uuid 0x62) (ToCompleted [ex_metric] [js ''r1'']) (ex_eval [ex_running])
    = Inr (ex_eval [ex_done], Some (ex_view ex_done None))"
proof -
  let ?input = "ToCompleted [ex_metric] [js ''r1'']"
  have changed: "update_where (\<lambda>s. er_id s = ex_uuid 0x62) (run_transition_row 30 ?input) (ed_runs (ex_eval [ex_running])) = [ex_done]"
    by (simp add: update_where_def ex_eval_def ex_run_ids ex_done_def del: run_transition_row.simps js_simps)
  show ?thesis
    using run_transition_exact [OF ex_eval_reachable(1) _ ex_reads(1), of 30 ?input]
    unfolding ex_run_ids ex_transitions_ok(2) ex_run_states(2) changed
    by (simp add: ex_eval_def ex_results_accepted ex_view_def ex_done_def del: run_transition_row.simps results_refused.simps js_simps)
qed

section \<open>History\<close>

text \<open>The one row that a run of an earlier state has become.\<close>

lemma evolved_row:
  assumes "eval_reachable db" "eval_steps db db'" "r \<in> set (ed_runs db)"
  shows "\<exists>s. filter (\<lambda>t. er_id t = er_id r) (ed_runs db') = [s] \<and> run_evolves r s \<and> eval_check s \<and> archive_started s"
proof -
  have ok: "eval_ok db'" and "db_evolves db db'"
    using eval_steps_keeps [OF assms(2)] eval_reachable_ok [OF assms(1)] by (simp_all add: keeps_def)
  then obtain s where s: "s \<in> set (ed_runs db')" "run_evolves r s" using db_evolves_row assms(3) by blast
  moreover have "er_id s = er_id r" using s(2) by (simp add: run_evolves_def)
  moreover have "select_where (\<lambda>t. er_id t = er_id s) (ed_runs db') = [s]"
    using ok s(1) by (intro select_one [where key = er_id]) (auto simp: eval_ok_def)
  ultimately show ?thesis using eval_ok_row [OF ok s(1)] by (auto simp: select_where_def)
qed

text \<open>
  C25: Whatever operations run, a run is never lost or created anew: its request stays, a finished run
  keeps its outcome, the archive attempts never decrease, an available archive keeps its object, whose
  key is that of its digest, and only completed runs are archived.
\<close>

theorem evaluation_history:
  assumes "eval_reachable db" "eval_steps db db'" "r \<in> set (ed_runs db)"
  shows "\<exists>s. filter (\<lambda>t. er_id t = er_id r) (ed_runs db') = [s] \<and> create_of_run s = create_of_run r
      \<and> (is_finished (er_status r) \<longrightarrow> same_execution r s)
      \<and> er_archive_attempt r \<le> er_archive_attempt s
      \<and> (er_archive_status r = AvailableArchive \<longrightarrow> same_archive r s)
      \<and> (er_archive_status s \<noteq> NotRequested \<longrightarrow> er_status s = CompletedRun)
      \<and> (\<forall>digest. er_result_artifact_digest s = Some digest \<longrightarrow> er_result_artifact_key s = Some (result_artifact_key digest))"
proof -
  obtain s where only: "filter (\<lambda>t. er_id t = er_id r) (ed_runs db') = [s]"
    and s: "run_evolves r s" "archive_started s"
    using evolved_row [OF assms] by blast
  have "er_archive_attempt r \<le> er_archive_attempt s"
    using s(1) by (auto simp: run_evolves_def same_archive_def archive_moved_def)
  then show ?thesis
    using only s by (intro exI [of _ s]) (auto simp: run_evolves_def execution_moved_def archive_started_def)
qed

lemma evaluation_history_witness:
  "\<exists>s. filter (\<lambda>t. er_id t = er_id ex_lost) (ed_runs (ex_eval [ex_again])) = [s] \<and> same_execution ex_lost s
    \<and> er_archive_attempt ex_lost \<le> er_archive_attempt s"
proof -
  have "ex_lost \<in> set (ed_runs (ex_eval [ex_lost]))" "is_finished (er_status ex_lost)"
    by (simp_all add: ex_eval_def is_finished_def ex_run_states)
  then show ?thesis using evaluation_history [OF ex_eval_reachable(2) ex_begun_again] by blast
qed

text \<open>The run and the attempt that a step of an archive upload is about.\<close>

fun attempt_of :: "eval_op \<Rightarrow> (js_string \<times> int) option" where
  "attempt_of (MarkUploading now ns i attempt) = Some (i, attempt)"
| "attempt_of (FinalizeArchive now ns i attempt key digest bytes) = Some (i, attempt)"
| "attempt_of (FailArchive now ns i attempt error) = Some (i, attempt)"
| "attempt_of _ = None"

lemma update_none:
  assumes "update_runs p f db = Inr mid" "updated_or_current ns i mid = Inr (db', v)" "\<And>r. r \<in> set (ed_runs db) \<Longrightarrow> \<not> p r"
  shows "db' = db"
  using assms updated_or_current_Inr [OF assms(2)] by (cases mid) (auto simp: update_runs_Inr update_where_none)

lemma attempt_update:
  assumes "update_runs (at_attempt ns i statuses attempt) f db = Inr mid" "updated_or_current ns i mid = Inr (db', v)"
    and "list_all (\<lambda>r. er_id r = i \<longrightarrow> er_archive_status r \<in> {PendingArchive, UploadingArchive} \<longrightarrow> er_archive_attempt r \<noteq> attempt) (ed_runs db)"
    and "statuses \<subseteq> {PendingArchive, UploadingArchive}"
  shows "db' = db"
  by (rule update_none [OF assms(1,2)]) (use assms(3,4) in \<open>auto simp: at_attempt_def list_all_iff\<close>)

lemma attempt_exec:
  assumes "attempt_of op = Some (i, attempt)" "eval_exec op db = Inr db'"
    and "list_all (\<lambda>r. er_id r = i \<longrightarrow> er_archive_status r \<in> {PendingArchive, UploadingArchive} \<longrightarrow> er_archive_attempt r \<noteq> attempt) (ed_runs db)"
  shows "db' = db"
  using assms
  by (cases op) (auto simp: markEvaluationRunArchiveUploading_def finalizeEvaluationRunArchive_def failEvaluationRunArchive_def
      bindR_eq_Inr elim: attempt_update)

text \<open>
  C26: A worker that lost its archive attempt changes nothing: once a later attempt has begun, the attempt
  has failed, or the archive is available, no step of the old attempt changes the database, whatever
  has happened in between.
\<close>

theorem stale_archive_attempt_powerless:
  assumes "eval_reachable db" "r \<in> set (ed_runs db)"
    and "attempt < er_archive_attempt r \<or> er_archive_status r = AvailableArchive
      \<or> er_archive_status r = FailedArchive \<and> attempt = er_archive_attempt r"
    and "eval_steps db db'" "attempt_of op = Some (er_id r, attempt)" "eval_exec op db' = Inr db''"
  shows "db'' = db'"
proof -
  have "er_archive_attempt t \<noteq> attempt"
    if t: "t \<in> set (ed_runs db')" "er_id t = er_id r" "er_archive_status t \<in> {PendingArchive, UploadingArchive}" for t
  proof -
    obtain s where only: "filter (\<lambda>t. er_id t = er_id r) (ed_runs db') = [s]" and s: "run_evolves r s"
      using evolved_row [OF assms(1,4,2)] by blast
    have "t \<in> set (filter (\<lambda>t. er_id t = er_id r) (ed_runs db'))" using t by simp
    then have "same_archive r t \<or> er_archive_status r \<noteq> AvailableArchive \<and> archive_moved r t"
      using only s by (simp add: run_evolves_def)
    then show ?thesis
      using assms(3) t(3) unfolding same_archive_def archive_moved_def by (elim disjE conjE insertE) simp_all
  qed
  then show ?thesis by (intro attempt_exec [OF assms(5,6)]) (simp add: list_all_iff)
qed

lemma stale_archive_attempt_powerless_witness:
  "eval_exec (MarkUploading 70 (ex_uuid 0x61) (ex_uuid 0x62) 1) (ex_eval [ex_again]) = Inr (ex_eval [ex_again])"
proof -
  have "find_evaluation_run (ex_eval [ex_again]) (ex_uuid 0x61) (ex_uuid 0x62) = [ex_again]"
    by (simp add: find_evaluation_run_def select_where_def ex_eval_def ex_run_ids)
  then have current: "getEvaluationRun (ex_uuid 0x61) (ex_uuid 0x62) (ex_eval [ex_again]) = Inr (Some (ex_view ex_again None))"
    by (simp add: getEvaluationRun_def one_run_def ex_archive_reads validateNamespaceId_def validateEvaluationRunId_def ex_uuid_ok ex_hex)
  have none: "update_runs (at_attempt (ex_uuid 0x61) (ex_uuid 0x62) {PendingArchive} 1) f (ex_eval [ex_again]) = Inr (ex_eval [ex_again], [])" for f
    by (simp add: ex_updates at_attempt_def ex_run_states(13))
  have "\<exists>db. eval_exec (MarkUploading 70 (ex_uuid 0x61) (ex_uuid 0x62) 1) (ex_eval [ex_again]) = Inr db"
    unfolding eval_exec.simps markEvaluationRunArchiveUploading_def ex_identity bindR_simps none updated_or_current_def fst_conv snd_conv
      one_run_def list.case option.case current ran_eval_def prod.case by blast
  then obtain db where run: "eval_exec (MarkUploading 70 (ex_uuid 0x61) (ex_uuid 0x62) 1) (ex_eval [ex_again]) = Inr db" by blast
  have lost: "ex_lost \<in> set (ed_runs (ex_eval [ex_lost]))"
    and attempt: "attempt_of (MarkUploading 70 (ex_uuid 0x61) (ex_uuid 0x62) 1) = Some (er_id ex_lost, 1)"
    by (simp_all add: ex_eval_def ex_run_ids)
  have over: "1 < er_archive_attempt ex_lost \<or> er_archive_status ex_lost = AvailableArchive
    \<or> er_archive_status ex_lost = FailedArchive \<and> 1 = er_archive_attempt ex_lost"
    by (simp add: ex_run_states)
  show ?thesis
    using run stale_archive_attempt_powerless [OF ex_eval_reachable(2) lost over ex_begun_again attempt run] by simp
qed

end
