(* ===== verification/Spec2Isabelle.thy ===== *)
theory Spec2Isabelle
  imports Canonical_Json_Heap Dataset_Identity Export_Fidelity Job_Claims Semaphore_Laws Thrift_Writer Studio_Claims Evaluation_Claims
begin

text \<open>
  Databench keeps versioned datasets of records, the transforms that produced them, and the training
  sessions and model artifacts that grow out of them. This library models the parts of its TypeScript
  packages that decide what the stored data means and proves what they promise. The other theories
  hold the models and the proofs; this one imports them all and says how they fit together.

  \<^bold>\<open>The program and its parts.\<close> Every dataset, record, transform and export has an identity: a BLAKE3
  digest of a domain tag and a canonical JSON text (\<open>packages/hashing\<close>). The catalog
  (\<open>packages/catalog/src/v2\<close>) stores these identities in PostgreSQL: snapshots, layouts and revisions
  of committed datasets, the runs that produced them, named refs that move between versions, a queue of
  transform jobs that workers lease, the sessions of the Swift Studio, the imports that turn the
  output of a session into a model artifact, and the evaluation runs that measure a model on a dataset. A completed job registers its run and dataset and moves
  its result ref in one transaction; a session names the dataset version it was exported from, and a
  verified artifact carries exactly that version. In front of the catalog, the workspace package admits
  a bounded number of transform runs (\<open>transform-semaphore.ts\<close>), and the engine package scans the
  metadata of a Parquet file within a budget before a library reads it
  (\<open>compact-thrift-preflight.ts\<close>).

  \<^bold>\<open>Foundations.\<close>
  \<^item> \<open>Js_Prelude\<close>, \<open>Js_Sort\<close>, \<open>Js_Collections\<close>, \<open>Json_Number\<close>: strings as lists of 16-bit code units,
    results of operations that throw, the stable sort with the contract of a comparator
    (\<open>js_comparator\<close>), \<open>Map\<close> and \<open>Set\<close> in insertion order (\<open>finite_map\<close>), and numbers as shortest decimals.
  \<^item> \<open>Sql_Table\<close>, \<open>Keyset_Paging\<close>: tables as lists of rows, the statements the catalog sends, unique
    constraints (\<open>unique_key\<close>, interpreted for every table), and pages cut by key (\<open>keyset\<close>).

  \<^bold>\<open>Hashing\<close> (\<open>packages/hashing/src\<close>).
  \<^item> \<open>Canonical_Json\<close>, \<open>Canonical_Json_Heap\<close>: \<open>v2/canonical-json.ts\<close>, first on JSON trees, then as it is
    called, on a heap of objects with sharing, cycles and property descriptors. The encoder ends on every
    heap and returns a text exactly when the value denotes a tree it accepts.
  \<^item> \<open>Text_Encoder\<close>: \<open>TextEncoder.encode\<close>; UTF-8 is injective on well-formed texts.
  \<^item> \<open>Hash_Types\<close>, \<open>Hash_Domains\<close>, \<open>Model_Registry_Hash\<close>: \<open>v2/types.ts\<close>, \<open>v2/domains.ts\<close> and
    \<open>v2/model-registry.ts\<close>, one function for each identity. \<open>Domain_Separation\<close> shows that a digest
    identifies its domain and its value, \<open>Export_Fidelity\<close> that the export digest does not depend on the
    order of a fidelity report.
  \<^item> \<open>Dataset_Identity\<close>: \<open>blake3.ts\<close> and \<open>v2/artifact-hasher.ts\<close>, several incremental hashers on one shared
    backend, and the streamed identity of a dataset, which equals the plain one.

  \<^bold>\<open>Catalog\<close> (\<open>packages/catalog/src/v2/catalog.ts\<close>, \<open>types.ts\<close>, \<open>errors.ts\<close>).
  \<^item> \<open>Catalog_Schema\<close>, \<open>Json_Equality\<close>: rows, constraints, errors and the comparison of stored JSON.
  \<^item> \<open>Catalog_Refs\<close> with \<open>Ref_Laws\<close>: namespaces, identity claims and refs. A ref store is specified as a
    finite map; compare-and-set, deletion and restoration are atomic steps on it.
  \<^item> \<open>Catalog_Lineage\<close> with \<open>Lineage_Laws\<close> and \<open>Run_Laws\<close>: registration of layouts and of transform runs.
    The parent relation stays acyclic, what was registered reads back, and a reader who pages through
    the runs sees those that existed when it started.
  \<^item> \<open>Transform_Jobs\<close> with \<open>Transform_Job_Laws\<close>, \<open>Job_Result_Laws\<close> and \<open>Job_Claims\<close>: the job queue. At
    most one job is leased; only the holder of the current lease moves it; a completion is recorded once.
  \<^item> \<open>Catalog_System\<close>: these operations as steps of one state machine, with the invariant \<open>catalog_ok\<close>
    of every reachable state and what no sequence of operations changes.
  \<^item> \<open>Catalog_Patterns\<close>, \<open>Studio_Schema\<close>, \<open>Studio_Sessions\<close>, \<open>Artifact_Manifest\<close>, \<open>Import_Schema\<close>,
    \<open>Model_Artifacts\<close>, \<open>Artifact_Operations\<close>: sessions of the Swift Studio, imports of their outputs and
    model artifacts. \<open>Studio_Laws\<close>, \<open>Session_Laws\<close> and \<open>Import_Laws\<close> keep the invariant \<open>studio_ok\<close>,
    \<open>Studio_System\<close> is the state machine, in which the rest of the catalog moves freely between the
    operations, and \<open>Studio_Claims\<close> holds the properties. \<open>Example_Texts\<close>, \<open>Studio_Example\<close> and
    \<open>Import_Example\<close> evaluate a run from the first request to the finished artifact.
  \<^item> \<open>Evaluation_Schema\<close>, \<open>Evaluation_Runs\<close>, \<open>Evaluation_Operations\<close>: evaluation runs, their transitions
    and the archive of their results. \<open>Evaluation_Laws\<close> is the state machine with its invariant
    \<open>eval_ok\<close> and the preorder \<open>run_evolves\<close> of what a step can make of a run; \<open>Evaluation_Results\<close> and
    \<open>Evaluation_Transitions\<close> relate what the code writes to what the constraints accept and to what is
    read back; \<open>Evaluation_Example\<close> evaluates a run and \<open>Evaluation_Claims\<close> holds the properties.

  \<^bold>\<open>Workspace and engine.\<close>
  \<^item> \<open>Transform_Semaphore\<close> with \<open>Semaphore_Laws\<close>: \<open>packages/workspace/src/v2/transform-semaphore.ts\<close> as
    events of the one JavaScript thread (calls, aborts, settled operations, released slots).
  \<^item> \<open>Thrift_Preflight\<close> with \<open>Thrift_Laws\<close> and \<open>Thrift_Writer\<close>:
    \<open>packages/engine/src/v2/compact-thrift-preflight.ts\<close> byte by byte; what it accepts respects its
    budgets, and everything a writer of the protocol produces within them is accepted.

  \<^bold>\<open>How the code is read.\<close> An operation that may throw returns \<open>Inl\<close> of an error or \<open>Inr\<close> of its result,
  with the new state where it has effects; messages of errors are dropped, their data is kept. A
  transaction is a function of the database, of its arguments and of one reading \<open>now\<close> of the clock (in
  microseconds, an integer): it takes place as a whole or, on an error, not at all. What the code draws
  at random (\<open>randomUUID\<close>, lease tokens) and the rows that \<open>FOR UPDATE SKIP LOCKED\<close> finds locked are
  arguments, so the theorems hold for every choice. Operations run one after the other; what READ
  COMMITTED lets two transactions see of each other within a statement is outside the model, and one
  place where it matters (closing a session while an import of it is being created) is recorded with the
  findings of the development.
  Violations of foreign keys, unique indexes and checks are errors like those the code throws. The
  constraints are those of the migrations, without tests of migration 0012 that its other constraints
  imply; the bounds on the size of JSON columns are part of the model for evaluation runs only, and for
  jobs, sessions and imports they are left out. \<open>[[:cntrl:]]\<close> means the ASCII controls. Texts with lone
  surrogates, which the database refuses inside JSON, are outside the model.

  \<^bold>\<open>Parameters and hypotheses.\<close> BLAKE3 is a parameter. That it separates two texts is assumed only where
  a theorem speaks of equal digests, and only for the texts compared; the state that the library saves
  for an incremental hasher is the list of bytes absorbed so far. Property descriptors and
  \<open>Reflect.ownKeys\<close> are data of the heap. The artifacts that a model version uses as its source, which
  \<open>listModelArtifacts\<close> looks up in the tables of the model registry, are an argument; for evaluation runs
  the columns that they read of deployments, model versions and evidence are part of the state, and move
  freely between the operations. In the semaphore the
  outcome of an operation is the event that reports it.

  \<^bold>\<open>Loops and bounds.\<close> No definition runs on fuel that could end. The encoder ends on cyclic heaps by a
  measure on the objects not yet visited, the pump of the semaphore by the calls that wait, the scan of a
  Thrift structure by the bytes that are left (every field, element and nested structure takes one at
  least), and a reader who follows the cursors of a list by the rows that are left. Integers of the
  database are integers with the bounds of their column (the largest attempt number of a job is part of
  the statement on claims); bytes and code units are words.

  \<^bold>\<open>Not modelled.\<close> In the catalog: deployments and the model registry, which have tables of
  their own that none of the modelled operations writes. In the other packages: code that
  orchestrates these operations with network, file system and timers (the workspace facade, the worker
  dispatcher, object storage, the HTTP and command-line interfaces), schemas declared for the library
  zod, codecs around the libraries for Parquet and zstd, and generated code.
\<close>

end
